(* ===== verification/Prelude.thy ===== *)
theory Prelude
  imports Main "HOL-Library.Char_ord" "HOL-Library.List_Lexorder" "HOL-Library.Sublist"
begin

text \<open>
  What every component shares: results that are either an error or a value (a Python
  \<open>raise\<close> is the left summand), their sequencing, traversals of lists that stop at the
  first error, and the string methods of Python the sources call.  A Python \<open>str\<close> is a
  HOL \<open>string\<close>; its characters stand for the code points below 256.
\<close>

named_theorems result_simps \<open>inversion of sequenced results\<close>
named_theorems text_simps \<open>facts on strings and their parts\<close>

section \<open>Results\<close>

type_synonym ('e, 'a) result = "'e + 'a"

text \<open>The built-in exceptions the modelled code can raise or catches.\<close>

datatype py_exc = TypeErr | ValueErr | OverflowErr | ZeroDivErr | AttributeErr | KeyErr

definition rbind :: "('e, 'a) result \<Rightarrow> ('a \<Rightarrow> ('e, 'b) result) \<Rightarrow> ('e, 'b) result" where
  "rbind r f = (case r of Inl e \<Rightarrow> Inl e | Inr x \<Rightarrow> f x)"

definition guardR :: "bool \<Rightarrow> 'e \<Rightarrow> ('e, unit) result" where
  "guardR b e = (if b then Inr () else Inl e)"

definition raise_when :: "bool \<Rightarrow> 'e \<Rightarrow> ('e, unit) result" where
  "raise_when b e = (if b then Inl e else Inr ())"

definition map_error :: "('e \<Rightarrow> 'f) \<Rightarrow> ('e, 'a) result \<Rightarrow> ('f, 'a) result" where
  "map_error g r = (case r of Inl e \<Rightarrow> Inl (g e) | Inr x \<Rightarrow> Inr x)"

abbreviation is_ok :: "('e, 'a) result \<Rightarrow> bool" where
  "is_ok r \<equiv> \<not> isl r"

primrec mapR :: "('a \<Rightarrow> ('e, 'b) result) \<Rightarrow> 'a list \<Rightarrow> ('e, 'b list) result" where
  "mapR f [] = Inr []"
| "mapR f (x # xs) = rbind (f x) (\<lambda>y. rbind (mapR f xs) (\<lambda>ys. Inr (y # ys)))"

primrec foldR :: "('s \<Rightarrow> 'a \<Rightarrow> ('e, 's) result) \<Rightarrow> 's \<Rightarrow> 'a list \<Rightarrow> ('e, 's) result" where
  "foldR f s [] = Inr s"
| "foldR f s (x # xs) = rbind (f s x) (\<lambda>s'. foldR f s' xs)"

lemma rbind_simps [simp]:
  "rbind (Inl e) f = Inl e"
  "rbind (Inr x) f = f x"
  by (simp_all add: rbind_def)

lemma rbind_eq_Inr [result_simps]:
  "rbind r f = Inr y \<longleftrightarrow> (\<exists>x. r = Inr x \<and> f x = Inr y)"
  by (cases r) auto

lemma rbind_eq_Inl [result_simps]:
  "rbind r f = Inl e \<longleftrightarrow> r = Inl e \<or> (\<exists>x. r = Inr x \<and> f x = Inl e)"
  by (cases r) auto

lemma rbindE:
  assumes "rbind r f = Inr y"
  obtains x where "r = Inr x" "f x = Inr y"
  using assms by (auto simp: rbind_eq_Inr)

lemma if_InlE:
  assumes "(if b then Inl e else r) = Inr y"
  obtains "\<not> b" "r = Inr y"
  using assms by (auto split: if_splits)

lemma guardR_eq_Inr [result_simps]: "guardR b e = Inr u \<longleftrightarrow> b"
  by (simp add: guardR_def)

lemma raise_when_eq_Inr [result_simps]: "raise_when b e = Inr u \<longleftrightarrow> \<not> b"
  by (simp add: raise_when_def)

lemma guard_simps [simp]:
  "guardR True e = Inr ()" "guardR False e = Inl e"
  "raise_when False e = Inr ()" "raise_when True e = Inl e"
  by (simp_all add: guardR_def raise_when_def)

lemma map_error_eq_Inr [result_simps]: "map_error g r = Inr x \<longleftrightarrow> r = Inr x"
  by (cases r) (auto simp: map_error_def)

lemma map_error_simps [simp]:
  "map_error g (Inl e) = Inl (g e)" "map_error g (Inr x) = Inr x"
  by (simp_all add: map_error_def)

lemma rbind_cong [fundef_cong]:
  "r = r' \<Longrightarrow> (\<And>x. r' = Inr x \<Longrightarrow> f x = f' x) \<Longrightarrow> rbind r f = rbind r' f'"
  by (cases r') auto

lemma mapR_cong [fundef_cong]:
  assumes "xs = ys" and "\<And>x. x \<in> set ys \<Longrightarrow> f x = g x"
  shows "mapR f xs = mapR g ys"
  unfolding assms(1) using assms(2) by (induction ys) auto

lemma mapR_eq_Inr [result_simps]:
  "mapR f xs = Inr ys \<longleftrightarrow> list_all2 (\<lambda>x y. f x = Inr y) xs ys"
  by (induction xs arbitrary: ys) (auto simp: result_simps list_all2_Cons1)

lemma list_all2_right: "list_all2 P xs ys \<Longrightarrow> y \<in> set ys \<Longrightarrow> \<exists>x \<in> set xs. P x y"
  by (induction rule: list_all2_induct) auto

lemma mapR_length: "mapR f xs = Inr ys \<Longrightarrow> length ys = length xs"
  by (auto simp: mapR_eq_Inr dest: list_all2_lengthD)

lemma mapR_Inr_map: "(\<And>x. x \<in> set xs \<Longrightarrow> f x = Inr (g x)) \<Longrightarrow> mapR f xs = Inr (map g xs)"
  by (induction xs) auto

lemma mapR_set: "mapR f xs = Inr ys \<Longrightarrow> y \<in> set ys \<Longrightarrow> \<exists>x \<in> set xs. f x = Inr y"
  by (induction xs arbitrary: ys) (auto simp: rbind_eq_Inr)

text \<open>
  An invariant of a loop that may stop with an error: it holds initially, every step that
  succeeds keeps it.
\<close>

lemma foldR_invariant:
  assumes "foldR f s xs = Inr t" and "P s"
    and "\<And>s x s'. P s \<Longrightarrow> x \<in> set xs \<Longrightarrow> f s x = Inr s' \<Longrightarrow> P s'"
  shows "P t"
  using assms
proof (induction xs arbitrary: s)
  case (Cons x xs)
  from Cons.prems(1) obtain s' where s': "f s x = Inr s'" "foldR f s' xs = Inr t"
    by (auto simp: rbind_eq_Inr)
  have "P s'"
    by (rule Cons.prems(3) [OF Cons.prems(2) _ s'(1)]) simp
  have step: "P u'" if "P u" "y \<in> set xs" "f u y = Inr u'" for u y u'
    by (rule Cons.prems(3) [OF that(1) _ that(3)]) (use that(2) in simp)
  show ?case
    by (rule Cons.IH [OF s'(2) \<open>P s'\<close> step])
qed simp

lemma foldR_append:
  "foldR f s (xs @ ys) = rbind (foldR f s xs) (\<lambda>t. foldR f t ys)"
  by (induction xs arbitrary: s) (simp_all add: rbind_def split: sum.splits)

section \<open>Results with a state\<close>

text \<open>
  A call that reads and changes a state: its result with the state afterwards, which an exception
  leaves as it was when it was raised.
\<close>

definition sbind ::
    "('e, 'a) result \<times> 's \<Rightarrow> ('a \<Rightarrow> 's \<Rightarrow> ('e, 'b) result \<times> 's) \<Rightarrow> ('e, 'b) result \<times> 's" where
  "sbind p f = (case p of (Inl e, s) \<Rightarrow> (Inl e, s) | (Inr x, s) \<Rightarrow> f x s)"

lemma sbind_simps [simp]:
  "sbind (Inl e, s) f = (Inl e, s)"
  "sbind (Inr x, s) f = f x s"
  by (simp_all add: sbind_def)

lemma sbindE:
  assumes "sbind p f = (r, t)"
  obtains (raised) e where "p = (Inl e, t)" "r = Inl e"
    | (returned) x s where "p = (Inr x, s)" "f x s = (r, t)"
  using assms by (cases p; cases "fst p") auto

lemma sbind_InrE:
  assumes "sbind p f = (Inr y, t)"
  obtains x s where "p = (Inr x, s)" "f x s = (Inr y, t)"
  using assms by (elim sbindE) auto

lemma sbind_cong [fundef_cong]:
  "p = p' \<Longrightarrow> (\<And>x s. p' = (Inr x, s) \<Longrightarrow> f x s = f' x s) \<Longrightarrow> sbind p f = sbind p' f'"
  by (cases p'; cases "fst p'") auto

section \<open>Strings\<close>

text \<open>\<open>str.isspace\<close> on one code point below 256.\<close>

definition py_isspace :: "char \<Rightarrow> bool" where
  "py_isspace c = (let n = (of_char c :: nat) in
     (9 \<le> n \<and> n \<le> 13) \<or> (28 \<le> n \<and> n \<le> 32) \<or> n = 133 \<or> n = 160)"

definition lstrip :: "string \<Rightarrow> string" where
  "lstrip s = dropWhile py_isspace s"

definition strip :: "string \<Rightarrow> string" where
  "strip s = rev (dropWhile py_isspace (rev (dropWhile py_isspace s)))"

definition NUL :: char where "NUL = CHR 0x00"

text \<open>\<open>s.split(c)\<close> for a single separator character: always at least one part.\<close>

fun split_on :: "char \<Rightarrow> string \<Rightarrow> string list" where
  "split_on c [] = [[]]"
| "split_on c (x # xs) =
     (if x = c then [] # split_on c xs
      else (case split_on c xs of [] \<Rightarrow> [[x]] | p # ps \<Rightarrow> (x # p) # ps))"

fun join_with :: "char \<Rightarrow> string list \<Rightarrow> string" where
  "join_with c [] = []"
| "join_with c [p] = p"
| "join_with c (p # q # ps) = p @ c # join_with c (q # ps)"

text \<open>\<open>str.lower\<close> on the code points below 256 (ASCII and the Latin-1 capitals).\<close>

definition lower_char :: "char \<Rightarrow> char" where
  "lower_char c = (let n = (of_char c :: nat) in
     if (65 \<le> n \<and> n \<le> 90) \<or> (192 \<le> n \<and> n \<le> 222 \<and> n \<noteq> 215) then char_of (n + 32) else c)"

definition lower :: "string \<Rightarrow> string" where
  "lower s = map lower_char s"

definition replace_char :: "char \<Rightarrow> char \<Rightarrow> string \<Rightarrow> string" where
  "replace_char a b s = map (\<lambda>c. if c = a then b else c) s"

definition is_digit :: "char \<Rightarrow> bool" where
  "is_digit c = (let n = (of_char c :: nat) in 48 \<le> n \<and> n \<le> 57)"

definition is_alpha :: "char \<Rightarrow> bool" where
  "is_alpha c = (let n = (of_char c :: nat) in (65 \<le> n \<and> n \<le> 90) \<or> (97 \<le> n \<and> n \<le> 122))"

definition starts_with :: "string \<Rightarrow> string \<Rightarrow> bool" where
  "starts_with p s = (take (length p) s = p)"

definition ends_with :: "string \<Rightarrow> string \<Rightarrow> bool" where
  "ends_with p s = starts_with (rev p) (rev s)"

text \<open>Decimal rendering of a number, as \<open>str(n)\<close> does.\<close>

fun nat_digits :: "nat \<Rightarrow> string" where
  "nat_digits n =
     (if n < 10 then [char_of (48 + n)] else nat_digits (n div 10) @ [char_of (48 + n mod 10)])"

declare nat_digits.simps [simp del]

subsection \<open>Facts on strings\<close>

lemma split_on_not_Nil [simp]: "split_on c s \<noteq> []"
  by (induction s) (auto split: list.splits)

lemma split_on_no_sep: "p \<in> set (split_on c s) \<Longrightarrow> c \<notin> set p"
  by (induction s arbitrary: p) (auto split: list.splits if_splits)

lemma join_split [text_simps]: "join_with c (split_on c s) = s"
proof (induction s)
  case (Cons x xs)
  then show ?case
    by (cases "split_on c xs"; cases "tl (split_on c xs)") auto
qed simp

lemma split_on_no_occurrence: "c \<notin> set p \<Longrightarrow> split_on c p = [p]"
  by (induction p) auto

lemma split_on_append: "c \<notin> set p \<Longrightarrow> split_on c (p @ c # s) = p # split_on c s"
  by (induction p) auto

lemma split_join [text_simps]:
  "ps \<noteq> [] \<Longrightarrow> (\<forall>p \<in> set ps. c \<notin> set p) \<Longrightarrow> split_on c (join_with c ps) = ps"
  by (induction ps rule: join_with.induct)
     (auto simp: split_on_append split_on_no_occurrence)

lemma split_on_inj: "split_on c s = split_on c t \<Longrightarrow> s = t"
  by (metis join_split)

lemma starts_with_prefix [text_simps]: "starts_with p s \<longleftrightarrow> prefix p s"
  by (auto simp: starts_with_def prefix_def) (metis append_take_drop_id)

lemma dropWhile_rev_fixed:
  "xs = [] \<or> \<not> P (last xs) \<Longrightarrow> dropWhile P (rev xs) = rev xs"
  by (cases xs rule: rev_cases) auto

lemma strip_ends: "strip s \<noteq> [] \<Longrightarrow> \<not> py_isspace (hd (strip s)) \<and> \<not> py_isspace (last (strip s))"
proof -
  assume ne: "strip s \<noteq> []"
  define t where "t = dropWhile py_isspace s"
  have st: "strip s = rev (dropWhile py_isspace (rev t))"
    by (simp add: strip_def t_def)
  have l: "\<not> py_isspace (last (strip s))"
    using ne by (simp add: st last_rev hd_dropWhile)
  obtain u where u: "t = strip s @ u"
    by (metis st rev_rev_ident rev_append takeWhile_dropWhile_id)
  with ne have "t \<noteq> []" and "hd t = hd (strip s)" by auto
  then have "\<not> py_isspace (hd (strip s))"
    by (metis hd_dropWhile t_def)
  with l show ?thesis by simp
qed

lemma strip_idem [simp]: "strip (strip s) = strip s"
proof (cases "strip s = []")
  case False
  with strip_ends have e: "\<not> py_isspace (hd (strip s))" "\<not> py_isspace (last (strip s))" by auto
  from False e(1) have "dropWhile py_isspace (strip s) = strip s"
    by (cases "strip s") auto
  with False e(2) show ?thesis
    by (simp add: strip_def [of "strip s"] dropWhile_rev_fixed)
qed (simp add: strip_def [of "[]"])

lemma strip_Nil [simp]: "strip [] = []"
  by (simp add: strip_def)

lemma lower_char_of_char_less: "(of_char c :: nat) < 256"
  by simp

lemma of_char_char_of_nat: "n < 256 \<Longrightarrow> of_char (char_of n :: char) = (n :: nat)"
  by simp

lemma lower_char_idem [simp]: "lower_char (lower_char c) = lower_char c"
proof -
  have "(of_char c :: nat) < 256" by simp
  then show ?thesis
    by (auto simp: lower_char_def Let_def of_char_char_of_nat)
qed

lemma lower_idem [simp]: "lower (lower s) = lower s"
  by (simp add: lower_def)

subsection \<open>Digits\<close>

lemma nat_digits_not_Nil [simp]: "nat_digits n \<noteq> []"
  by (subst nat_digits.simps) simp

lemma nat_digits_is_digit: "c \<in> set (nat_digits n) \<Longrightarrow> is_digit c"
proof (induction n rule: nat_digits.induct)
  case (1 n)
  have d: "is_digit (char_of (48 + m))" if "m < 10" for m :: nat
    using that by (simp add: is_digit_def of_char_char_of_nat)
  show ?case
    using 1 d [of n] d [of "n mod 10"] by (subst (asm) nat_digits.simps) (auto split: if_splits)
qed

end
