(* ===== verification/Binary64.thy ===== *)
theory Binary64
  imports Prelude Complex_Main
begin

text \<open>
  Python's \<open>float\<close>: IEEE 754 binary64 with round-half-even, the arithmetic the scoring
  code computes with.  A finite value is its rational; the negative zero, the infinities and
  NaN are constructors of their own.  \<open>round64\<close> rounds an exact rational result; the
  operations compute exactly and round once.  The locale at the end is the interface the
  numeric components use: monotone rounding that is exact on the integers up to $2^{53}$.
\<close>

named_theorems float_simps \<open>evaluation of float operations\<close>

datatype pyfloat = Fin rat | NegZero | PInf | NInf | NaN

section \<open>Rounding\<close>

text \<open>Powers of two by repeated squaring, so that they evaluate quickly.\<close>

function ipow2 :: "int \<Rightarrow> int" where
  "ipow2 k = (if k \<le> 0 then 1
              else if even k then (let h = ipow2 (k div 2) in h * h)
              else 2 * ipow2 (k - 1))"
  by pat_completeness auto
termination
  by (relation "measure nat") auto

declare ipow2.simps [simp del]

definition pow2 :: "int \<Rightarrow> rat" where
  "pow2 k = (if 0 \<le> k then of_int (ipow2 k) else 1 / of_int (ipow2 (- k)))"

function ilog2 :: "int \<Rightarrow> int" where
  "ilog2 n = (if n < 2 then 0 else 1 + ilog2 (n div 2))"
  by pat_completeness auto
termination
  by (relation "measure nat") auto

declare ilog2.simps [simp del]

text \<open>The exponent of a positive rational: the greatest \<open>k\<close> with $2^k$ at most it.\<close>

definition floor_log2 :: "rat \<Rightarrow> int" where
  "floor_log2 a =
     (let (n, d) = quotient_of a; k = ilog2 n - ilog2 d
      in if pow2 k \<le> a then k else k - 1)"

definition rne :: "rat \<Rightarrow> int" where
  "rne x = (let f = \<lfloor>x\<rfloor>; r = x - of_int f
     in if r < 1 / 2 then f else if 1 / 2 < r then f + 1 else if even f then f else f + 1)"

text \<open>The unit in the last place: 53 significant bits, never below $2^{-1074}$.\<close>

definition ulp_exp :: "rat \<Rightarrow> int" where
  "ulp_exp a = max (- 1074) (floor_log2 a - 52)"

definition round_mag :: "rat \<Rightarrow> rat" where
  "round_mag a = (if a \<le> 0 then 0 else of_int (rne (a / pow2 (ulp_exp a))) * pow2 (ulp_exp a))"

definition round64 :: "rat \<Rightarrow> pyfloat" where
  "round64 q = (let v = round_mag \<bar>q\<bar> in
     if pow2 1024 \<le> v then (if 0 < q then PInf else NInf)
     else if v = 0 then (if q < 0 then NegZero else Fin 0)
     else Fin (if q < 0 then - v else v))"

section \<open>Operations\<close>

fun fval :: "pyfloat \<Rightarrow> rat" where
  "fval (Fin q) = q"
| "fval _ = 0"

fun isfinite :: "pyfloat \<Rightarrow> bool" where
  "isfinite (Fin q) = True"
| "isfinite NegZero = True"
| "isfinite _ = False"

fun negative :: "pyfloat \<Rightarrow> bool" where
  "negative (Fin q) = (q < 0)"
| "negative NegZero = True"
| "negative NInf = True"
| "negative _ = False"

fun flt :: "pyfloat \<Rightarrow> pyfloat \<Rightarrow> bool" where
  "flt NaN _ = False"
| "flt _ NaN = False"
| "flt PInf _ = False"
| "flt _ NInf = False"
| "flt NInf _ = True"
| "flt _ PInf = True"
| "flt x y = (fval x < fval y)"

fun feq :: "pyfloat \<Rightarrow> pyfloat \<Rightarrow> bool" where
  "feq NaN _ = False"
| "feq _ NaN = False"
| "feq PInf y = (y = PInf)"
| "feq NInf y = (y = NInf)"
| "feq x PInf = False"
| "feq x NInf = False"
| "feq x y = (fval x = fval y)"

definition fle :: "pyfloat \<Rightarrow> pyfloat \<Rightarrow> bool" where
  "fle x y = (flt x y \<or> feq x y)"

definition signed_zero :: "bool \<Rightarrow> pyfloat" where
  "signed_zero neg = (if neg then NegZero else Fin 0)"

definition signed_inf :: "bool \<Rightarrow> pyfloat" where
  "signed_inf neg = (if neg then NInf else PInf)"

fun fadd :: "pyfloat \<Rightarrow> pyfloat \<Rightarrow> pyfloat" where
  "fadd NaN _ = NaN"
| "fadd _ NaN = NaN"
| "fadd PInf y = (if y = NInf then NaN else PInf)"
| "fadd NInf y = (if y = PInf then NaN else NInf)"
| "fadd x PInf = PInf"
| "fadd x NInf = NInf"
| "fadd x y = (if x = NegZero \<and> y = NegZero then NegZero
               else if fval x + fval y = 0 then Fin 0 else round64 (fval x + fval y))"

definition fmul :: "pyfloat \<Rightarrow> pyfloat \<Rightarrow> pyfloat" where
  "fmul x y =
     (let neg = (negative x \<noteq> negative y) in
      if x = NaN \<or> y = NaN then NaN
      else if isfinite x \<and> isfinite y then
        (if fval x * fval y = 0 then signed_zero neg else round64 (fval x * fval y))
      else if (isfinite x \<and> fval x = 0) \<or> (isfinite y \<and> fval y = 0) then NaN
      else signed_inf neg)"

definition fdiv :: "pyfloat \<Rightarrow> pyfloat \<Rightarrow> (py_exc, pyfloat) result" where
  "fdiv x y =
     (let neg = (negative x \<noteq> negative y) in
      if isfinite y \<and> fval y = 0 then Inl ZeroDivErr
      else if x = NaN \<or> y = NaN then Inr NaN
      else if isfinite x \<and> isfinite y then
        Inr (if fval x = 0 then signed_zero neg else round64 (fval x / fval y))
      else if isfinite x then Inr (signed_zero neg)
      else if isfinite y then Inr (signed_inf neg)
      else Inr NaN)"

definition float_of_int :: "int \<Rightarrow> (py_exc, pyfloat) result" where
  "float_of_int k = (let v = round64 (of_int k) in if isfinite v then Inr v else Inl OverflowErr)"

text \<open>
  \<open>sum(xs)\<close> over floats, starting from the integer 0, with one rounding per addition, as
  the interpreters up to 3.11 do (the scoring image runs 3.10).
\<close>

definition fsum :: "pyfloat list \<Rightarrow> pyfloat" where
  "fsum xs = foldl fadd (Fin 0) xs"

section \<open>Powers of two and the exponent\<close>

lemma ipow2_eq: "ipow2 k = 2 ^ nat k"
proof (induction k rule: ipow2.induct)
  case (1 k)
  consider "k \<le> 0" | "0 < k" "even k" | "0 < k" "odd k" by linarith
  then show ?case
  proof cases
    case 2
    then have "nat k = nat (k div 2) + nat (k div 2)" by (auto elim!: evenE)
    with 1 2 show ?thesis by (simp add: ipow2.simps [of k] power_add Let_def)
  next
    case 3
    then have "nat k = Suc (nat (k - 1))" by simp
    with 1 3 show ?thesis by (simp add: ipow2.simps [of k])
  qed (simp add: ipow2.simps [of k])
qed

lemma pow2_def': "pow2 k = (if 0 \<le> k then 2 ^ nat k else 1 / 2 ^ nat (- k))"
  by (simp add: pow2_def ipow2_eq)

lemma pow2_pos [simp]: "0 < pow2 k"
  by (simp add: pow2_def')

lemma pow2_nonzero [simp]: "pow2 k \<noteq> 0"
  by (metis less_irrefl pow2_pos)

lemma pow2_nat: "pow2 (int n) = 2 ^ n"
  by (simp add: pow2_def')

lemma pow2_powi: "pow2 k = 2 powi k"
  by (simp add: pow2_def' power_int_def field_simps)

lemma pow2_add: "pow2 (j + k) = pow2 j * pow2 k"
  by (simp add: pow2_powi power_int_add)

lemma pow2_Suc: "pow2 (k + 1) = 2 * pow2 k"
  by (simp add: pow2_powi power_int_add)

lemma pow2_diff: "pow2 (j - k) = pow2 j / pow2 k"
  by (simp add: pow2_powi power_int_diff)

lemma pow2_mono: "j \<le> k \<Longrightarrow> pow2 j \<le> pow2 k"
  by (simp add: pow2_powi power_int_increasing)

lemma pow2_strict_mono: "j < k \<Longrightarrow> pow2 j < pow2 k"
  by (simp add: pow2_powi power_int_strict_increasing)

lemma pow2_mono_iff: "pow2 j \<le> pow2 k \<longleftrightarrow> j \<le> k"
  by (meson leD le_less_linear pow2_mono pow2_strict_mono)

lemma pow2_less_iff: "pow2 j < pow2 k \<longleftrightarrow> j < k"
  by (meson leD le_less_linear pow2_mono pow2_strict_mono)

lemma ilog2_bounds: "0 < n \<Longrightarrow> pow2 (ilog2 n) \<le> of_int n \<and> of_int n < pow2 (ilog2 n + 1) \<and> 0 \<le> ilog2 n"
proof (induction n rule: ilog2.induct)
  case (1 n)
  show ?case
  proof (cases "n < 2")
    case True
    with 1 have "n = 1" by simp
    moreover have "ilog2 1 = 0" by (simp add: ilog2.simps [of 1])
    ultimately show ?thesis by (simp add: pow2_def')
  next
    case False
    then have "0 < n div 2" by simp
    with "1.IH" False have ih: "pow2 (ilog2 (n div 2)) \<le> of_int (n div 2)"
      "of_int (n div 2) < pow2 (ilog2 (n div 2) + 1)" "0 \<le> ilog2 (n div 2)" by auto
    then have "(of_int (2 ^ nat (ilog2 (n div 2))) :: rat) \<le> of_int (n div 2)"
      "(of_int (n div 2) :: rat) < of_int (2 ^ nat (ilog2 (n div 2) + 1))"
      by (simp_all add: pow2_def')
    then have "2 ^ nat (ilog2 (n div 2)) \<le> n div 2" "n div 2 < 2 ^ nat (ilog2 (n div 2) + 1)"
      by (simp_all only: of_int_le_iff of_int_less_iff)
    then have "2 * 2 ^ nat (ilog2 (n div 2)) \<le> n" "n < 2 * 2 ^ nat (ilog2 (n div 2) + 1)"
      by linarith+
    then have "(of_int (2 * 2 ^ nat (ilog2 (n div 2))) :: rat) \<le> of_int n"
      "(of_int n :: rat) < of_int (2 * 2 ^ nat (ilog2 (n div 2) + 1))"
      by (simp_all only: of_int_le_iff of_int_less_iff)
    with ih(3) have "2 * pow2 (ilog2 (n div 2)) \<le> of_int n" "of_int n < 2 * pow2 (ilog2 (n div 2) + 1)"
      by (simp_all add: pow2_def')
    with False ih(3) show ?thesis
      by (simp add: ilog2.simps [of n] add.commute [of 1] add.commute [of 2] pow2_Suc
          pow2_add [of _ 2]) (simp add: pow2_def')
  qed
qed

lemma floor_log2_bounds:
  assumes "0 < a"
  shows "pow2 (floor_log2 a) \<le> a \<and> a < pow2 (floor_log2 a + 1)"
proof -
  obtain n d where q: "quotient_of a = (n, d)" by force
  have a: "a = of_int n / of_int d" and d: "0 < d"
    using q by (auto dest: quotient_of_div quotient_of_denom_pos)
  with assms have n: "0 < n" by (simp add: zero_less_divide_iff)
  define i j where "i = ilog2 n" and "j = ilog2 d"
  have b: "pow2 i \<le> of_int n" "of_int n < pow2 (i + 1)" "pow2 j \<le> of_int d" "of_int d < pow2 (j + 1)"
    using n d ilog2_bounds by (auto simp: i_def j_def)
  have dp: "0 < (of_int d :: rat)" using d by simp
  have up: "a < pow2 (i - j + 1)"
  proof -
    have "a \<le> of_int n / pow2 j"
      unfolding a using b(3) n dp by (intro divide_left_mono) auto
    also have "\<dots> < pow2 (i + 1) / pow2 j"
      using b(2) by (intro divide_strict_right_mono) auto
    also have "\<dots> = pow2 (i - j + 1)"
      by (simp add: pow2_Suc pow2_diff)
    finally show ?thesis .
  qed
  have lo: "pow2 (i - j - 1) \<le> a"
  proof -
    have "pow2 (i - j - 1) = pow2 i / pow2 (j + 1)"
      by (simp add: pow2_diff pow2_add)
    also have "\<dots> \<le> of_int n / pow2 (j + 1)"
      using b(1) by (intro divide_right_mono) (auto simp: less_imp_le)
    also have "\<dots> \<le> a"
      unfolding a using b(4) n dp by (intro divide_left_mono) auto
    finally show ?thesis .
  qed
  show ?thesis
    using up lo by (auto simp: floor_log2_def Let_def q i_def [symmetric] j_def [symmetric])
qed

lemma floor_log2_eqI: "pow2 k \<le> a \<Longrightarrow> a < pow2 (k + 1) \<Longrightarrow> floor_log2 a = k"
proof -
  assume l: "pow2 k \<le> a" and u: "a < pow2 (k + 1)"
  then have "0 < a" by (meson less_le_trans pow2_pos)
  then have b: "pow2 (floor_log2 a) \<le> a" "a < pow2 (floor_log2 a + 1)"
    using floor_log2_bounds by auto
  from l b(2) have "pow2 k < pow2 (floor_log2 a + 1)" by (rule le_less_trans)
  moreover from b(1) u have "pow2 (floor_log2 a) < pow2 (k + 1)" by (rule le_less_trans)
  ultimately show ?thesis by (simp add: pow2_less_iff)
qed

lemma floor_log2_mono: "0 < a \<Longrightarrow> a \<le> b \<Longrightarrow> floor_log2 a \<le> floor_log2 b"
proof -
  assume "0 < a" "a \<le> b"
  then have "pow2 (floor_log2 a) < pow2 (floor_log2 b + 1)"
    using floor_log2_bounds [of a] floor_log2_bounds [of b] by linarith
  then show ?thesis by (simp add: pow2_less_iff)
qed

section \<open>Rounding to the nearest\<close>

lemma rne_of_int [simp]: "rne (of_int k) = k"
  by (simp add: rne_def)

lemma rne_bounds: "\<lfloor>x\<rfloor> \<le> rne x \<and> rne x \<le> \<lfloor>x\<rfloor> + 1"
  by (simp add: rne_def Let_def)

lemma rne_error: "\<bar>of_int (rne x) - x\<bar> \<le> 1 / 2"
  using floor_correct [of x] by (auto simp: rne_def Let_def)

lemma rne_mono: "x \<le> y \<Longrightarrow> rne x \<le> rne y"
proof -
  assume le: "x \<le> y"
  then have fl: "\<lfloor>x\<rfloor> \<le> \<lfloor>y\<rfloor>" by (rule floor_mono)
  show ?thesis
  proof (cases "\<lfloor>x\<rfloor> = \<lfloor>y\<rfloor>")
    case True
    with le show ?thesis by (auto simp: rne_def Let_def)
  next
    case False
    with fl have "\<lfloor>x\<rfloor> + 1 \<le> \<lfloor>y\<rfloor>" by simp
    with rne_bounds [of x] rne_bounds [of y] show ?thesis by linarith
  qed
qed

lemma rne_ge: "of_int k \<le> x \<Longrightarrow> k \<le> rne x"
  using rne_mono [of "of_int k" x] by simp

lemma rne_le: "x \<le> of_int k \<Longrightarrow> rne x \<le> k"
  using rne_mono [of x "of_int k"] by simp

lemma round_mag_nonneg: "0 \<le> round_mag a"
proof (cases "0 < a")
  case True
  then have "0 \<le> rne (a / pow2 (ulp_exp a))"
    by (intro rne_ge) (simp add: less_imp_le)
  with True show ?thesis by (simp add: round_mag_def less_imp_le)
qed (simp add: round_mag_def)

lemma ulp_exp_mono: "0 < a \<Longrightarrow> a \<le> b \<Longrightarrow> ulp_exp a \<le> ulp_exp b"
  using floor_log2_mono [of a b] by (auto simp: ulp_exp_def)

text \<open>
  Monotonicity: within one exponent it is monotonicity of \<open>rne\<close>; across exponents the
  power of two between the two numbers separates them.
\<close>

lemma scaled_below:
  assumes "0 < a"
  shows "of_int (rne (a / pow2 (ulp_exp a))) * pow2 (ulp_exp a) \<le> pow2 (ulp_exp a + 53)"
proof -
  have "floor_log2 a + 1 \<le> ulp_exp a + 53" by (simp add: ulp_exp_def)
  then have "a \<le> pow2 (ulp_exp a + 53)"
    using floor_log2_bounds [OF assms] pow2_mono by (meson less_imp_le order_trans)
  then have "a / pow2 (ulp_exp a) \<le> of_int (2 ^ 53)"
    by (simp add: pow2_add divide_le_eq) (simp add: pow2_def' mult.commute)
  then have "rne (a / pow2 (ulp_exp a)) \<le> 2 ^ 53" by (rule rne_le)
  then have "(of_int (rne (a / pow2 (ulp_exp a))) :: rat) \<le> 2 ^ 53"
    by (metis of_int_le_iff of_int_numeral of_int_power)
  then have "of_int (rne (a / pow2 (ulp_exp a))) * pow2 (ulp_exp a) \<le> 2 ^ 53 * pow2 (ulp_exp a)"
    by (rule mult_right_mono) (simp add: less_imp_le)
  also have "\<dots> = pow2 (ulp_exp a + 53)"
    by (simp add: pow2_add mult.commute) (simp add: pow2_def')
  finally show ?thesis .
qed

lemma scaled_above:
  assumes "0 < b" and "- 1074 < ulp_exp b"
  shows "pow2 (ulp_exp b + 52) \<le> of_int (rne (b / pow2 (ulp_exp b))) * pow2 (ulp_exp b)"
proof -
  from assms(2) have e: "ulp_exp b + 52 = floor_log2 b"
    by (auto simp: ulp_exp_def max_def split: if_splits)
  with floor_log2_bounds [OF assms(1)] have "pow2 (ulp_exp b + 52) \<le> b" by simp
  then have "of_int (2 ^ 52) \<le> b / pow2 (ulp_exp b)"
    by (simp add: pow2_add le_divide_eq) (simp add: pow2_def' mult.commute)
  then have "2 ^ 52 \<le> rne (b / pow2 (ulp_exp b))" by (rule rne_ge)
  then have "(2 :: rat) ^ 52 \<le> of_int (rne (b / pow2 (ulp_exp b)))"
    by (metis of_int_le_iff of_int_numeral of_int_power)
  then have le: "2 ^ 52 * pow2 (ulp_exp b) \<le> of_int (rne (b / pow2 (ulp_exp b))) * pow2 (ulp_exp b)"
    by (rule mult_right_mono) (simp add: less_imp_le)
  have "pow2 (ulp_exp b + 52) = 2 ^ 52 * pow2 (ulp_exp b)"
    by (simp add: pow2_add mult.commute) (simp add: pow2_def')
  with le show ?thesis by (simp only:)
qed

lemma round_mag_mono: "a \<le> b \<Longrightarrow> round_mag a \<le> round_mag b"
proof (cases "0 < a")
  case False
  then show ?thesis using round_mag_nonneg [of b] by (simp add: round_mag_def)
next
  case True
  assume ab: "a \<le> b"
  with True have b: "0 < b" by simp
  let ?s = "\<lambda>x. of_int (rne (x / pow2 (ulp_exp x))) * pow2 (ulp_exp x)"
  have "?s a \<le> ?s b"
  proof (cases "ulp_exp a = ulp_exp b")
    case True
    have "a / pow2 (ulp_exp b) \<le> b / pow2 (ulp_exp b)"
      using ab by (intro divide_right_mono) (auto simp: less_imp_le)
    then have "rne (a / pow2 (ulp_exp b)) \<le> rne (b / pow2 (ulp_exp b))" by (rule rne_mono)
    with True show ?thesis by (simp add: mult_right_mono less_imp_le)
  next
    case False
    with ulp_exp_mono [OF True ab] have lt: "ulp_exp a + 1 \<le> ulp_exp b" by simp
    moreover have "- 1074 \<le> ulp_exp a" by (simp add: ulp_exp_def)
    ultimately have "- 1074 < ulp_exp b" by simp
    with b have "pow2 (ulp_exp b + 52) \<le> ?s b" by (rule scaled_above)
    moreover have "pow2 (ulp_exp a + 53) \<le> pow2 (ulp_exp b + 52)"
      using lt by (intro pow2_mono) simp
    ultimately show ?thesis using scaled_below [OF True] by linarith
  qed
  with True b show ?thesis by (simp add: round_mag_def)
qed

text \<open>Integers up to $2^{53}$ are exact.\<close>

lemma round_mag_int:
  assumes "0 \<le> k" "k \<le> 2 ^ 53"
  shows "round_mag (of_int k) = of_int k"
proof (cases "k = 0")
  case False
  with assms have k: "0 < k" by simp
  have lt: "pow2 (floor_log2 (of_int k)) \<le> of_int k"
    using floor_log2_bounds [of "of_int k"] k by simp
  have "(of_int k :: rat) \<le> of_int (2 ^ 53)"
    using assms(2) by (simp only: of_int_le_iff)
  then have "(of_int k :: rat) \<le> pow2 53" by (simp add: pow2_def')
  with lt have "pow2 (floor_log2 (of_int k)) \<le> pow2 53" by linarith
  then have "floor_log2 (of_int k) \<le> 53" by (simp add: pow2_mono_iff)
  then have u: "ulp_exp (of_int k) \<le> 1" by (simp add: ulp_exp_def)
  have "\<exists>m. of_int k / pow2 (ulp_exp (of_int k)) = of_int m"
  proof (cases "ulp_exp (of_int k) \<le> 0")
    case True
    then have "of_int k / pow2 (ulp_exp (of_int k)) = of_int (k * 2 ^ nat (- ulp_exp (of_int k)))"
      by (auto simp: pow2_def')
    then show ?thesis by blast
  next
    case False
    with u have u1: "ulp_exp (of_int k) = 1" by simp
    then have "floor_log2 (of_int k) = 53" by (simp add: ulp_exp_def max_def split: if_splits)
    with lt have "pow2 53 \<le> of_int k" by simp
    with \<open>(of_int k :: rat) \<le> pow2 53\<close> have "(of_int k :: rat) = pow2 53" by simp
    then have "of_int k / pow2 (ulp_exp (of_int k)) = pow2 53 / pow2 1"
      unfolding u1 by simp
    also have "\<dots> = of_int (2 ^ 52)" by (simp add: pow2_def')
    finally have "of_int k / pow2 (ulp_exp (of_int k)) = of_int (2 ^ 52)" .
    then show ?thesis by blast
  qed
  then obtain m where m: "of_int k / pow2 (ulp_exp (of_int k)) = of_int m" by blast
  with k show ?thesis by (simp add: round_mag_def m) (metis m nonzero_divide_eq_eq pow2_nonzero)
qed (simp add: round_mag_def)

text \<open>Powers of two are fixed points, so numbers from $2^{1024}$ on overflow.\<close>

lemma round_mag_pow2: "- 1022 \<le> k \<Longrightarrow> round_mag (pow2 k) = pow2 k"
proof -
  assume k: "- 1022 \<le> k"
  have "floor_log2 (pow2 k) = k" by (rule floor_log2_eqI) (simp_all add: pow2_less_iff)
  with k have u: "ulp_exp (pow2 k) = k - 52" by (simp add: ulp_exp_def)
  have "pow2 k / pow2 (k - 52) = of_int (2 ^ 52)"
    by (simp add: pow2_diff) (simp add: pow2_def')
  then have "rne (pow2 k / pow2 (k - 52)) = 2 ^ 52" by (simp only: rne_of_int)
  moreover have "2 ^ 52 * pow2 (k - 52) = pow2 k"
    by (simp add: pow2_diff) (simp add: pow2_def')
  ultimately show ?thesis by (simp add: round_mag_def u not_le)
qed

lemma round64_overflow: "pow2 1024 \<le> q \<Longrightarrow> round64 q = PInf"
proof -
  assume q: "pow2 1024 \<le> q"
  then have "0 < q" by (meson less_le_trans pow2_pos)
  moreover from q have "pow2 1024 \<le> round_mag q"
    using round_mag_mono [OF q] by (simp add: round_mag_pow2)
  ultimately show ?thesis by (simp add: round64_def)
qed

section \<open>The float order\<close>

lemma fle_refl: "x \<noteq> NaN \<Longrightarrow> fle x x"
  by (cases x) (auto simp: fle_def)

lemma fle_trans: "fle x y \<Longrightarrow> fle y z \<Longrightarrow> fle x z"
  by (cases x; cases y; cases z) (auto simp: fle_def)

lemma flt_fle_trans: "flt x y \<Longrightarrow> fle y z \<Longrightarrow> flt x z"
  by (cases x; cases y; cases z) (auto simp: fle_def)

lemma fle_antisym_flt: "fle x y \<Longrightarrow> \<not> flt y x"
  by (cases x; cases y) (auto simp: fle_def)

lemma flt_irrefl [simp]: "\<not> flt x x"
  by (cases x) auto

lemma flt_pos_isfinite: "isfinite x \<Longrightarrow> flt (Fin 0) x \<longleftrightarrow> 0 < fval x"
  by (cases x) auto

lemma isfinite_positive_Fin: "isfinite x \<Longrightarrow> flt (Fin 0) x \<Longrightarrow> \<exists>q. x = Fin q \<and> 0 < q"
  by (cases x) auto

lemma feq_sym: "feq x y = feq y x"
  by (cases x; cases y) auto

section \<open>Rounding as an interface\<close>

text \<open>
  What the numeric components rely on, and nothing else: rounding never yields NaN, is
  monotone and is exact on the integers up to $2^{53}$.
\<close>

locale rounding =
  fixes rnd :: "rat \<Rightarrow> pyfloat"
  assumes not_nan: "rnd q \<noteq> NaN"
    and mono: "p \<le> q \<Longrightarrow> fle (rnd p) (rnd q)"
    and exact: "\<bar>k\<bar> \<le> 2 ^ 53 \<Longrightarrow> rnd (of_int k) = Fin (of_int k)"
begin

lemma above: "\<bar>k\<bar> \<le> 2 ^ 53 \<Longrightarrow> of_int k \<le> q \<Longrightarrow> fle (Fin (of_int k)) (rnd q)"
  using mono [of "of_int k" q] exact [of k] by simp

lemma below: "\<bar>k\<bar> \<le> 2 ^ 53 \<Longrightarrow> q \<le> of_int k \<Longrightarrow> fle (rnd q) (Fin (of_int k))"
  using mono [of q "of_int k"] exact [of k] by simp

lemma between:
  assumes "\<bar>j\<bar> \<le> 2 ^ 53" "\<bar>k\<bar> \<le> 2 ^ 53" "of_int j \<le> q" "q \<le> of_int k"
  shows "isfinite (rnd q)"
proof -
  have "fle (Fin (of_int j)) (rnd q)" "fle (rnd q) (Fin (of_int k))"
    using assms by (auto intro: above below)
  then show ?thesis by (cases "rnd q") (auto simp: fle_def)
qed

end

lemma round64_not_nan: "round64 q \<noteq> NaN"
  by (simp add: round64_def Let_def)

lemma round64_mono: "p \<le> q \<Longrightarrow> fle (round64 p) (round64 q)"
proof -
  assume pq: "p \<le> q"
  have zero: "round_mag 0 = 0" by (simp add: round_mag_def)
  have nn: "0 \<le> round_mag a" for a by (rule round_mag_nonneg)
  have big [simp]: "\<not> pow2 1024 \<le> 0" by (simp add: not_le)
  consider "0 \<le> p" | "p < 0" "0 \<le> q" | "p < 0" "q < 0" by linarith
  then show ?thesis
  proof cases
    case 1
    with pq have "round_mag \<bar>p\<bar> \<le> round_mag \<bar>q\<bar>" by (intro round_mag_mono) simp
    then show ?thesis
      using 1 pq nn [of "\<bar>p\<bar>"] nn [of "\<bar>q\<bar>"] zero
      by (cases "p = 0"; cases "q = 0") (auto simp: round64_def Let_def fle_def)
  next
    case 2
    then show ?thesis
      using nn [of "\<bar>p\<bar>"] nn [of "\<bar>q\<bar>"]
      by (cases "q = 0") (auto simp: round64_def Let_def fle_def zero)
  next
    case 3
    with pq have "round_mag \<bar>q\<bar> \<le> round_mag \<bar>p\<bar>" by (intro round_mag_mono) simp
    with 3 show ?thesis
      using round_mag_nonneg [of "\<bar>q\<bar>"]
      by (auto simp: round64_def Let_def fle_def)
  qed
qed

lemma round64_exact: "\<bar>k\<bar> \<le> 2 ^ 53 \<Longrightarrow> round64 (of_int k) = Fin (of_int k)"
proof -
  assume k: "\<bar>k\<bar> \<le> 2 ^ 53"
  have r: "round_mag \<bar>of_int k\<bar> = of_int \<bar>k\<bar>"
    using round_mag_int [of "\<bar>k\<bar>"] k by simp
  have "(of_int \<bar>k\<bar> :: rat) \<le> of_int (2 ^ 53)" using k by (simp only: of_int_le_iff)
  also have "\<dots> = pow2 53" by (simp add: pow2_def')
  also have "\<dots> < pow2 1024" by (simp add: pow2_less_iff)
  finally have "\<not> pow2 1024 \<le> (of_int \<bar>k\<bar> :: rat)" by simp
  then show ?thesis unfolding round64_def Let_def r by auto
qed

interpretation b64: rounding round64
  by unfold_locales (simp_all add: round64_not_nan round64_mono round64_exact)

lemma float_of_int_small: "\<bar>k\<bar> \<le> 2 ^ 53 \<Longrightarrow> float_of_int k = Inr (Fin (of_int k))"
  by (simp add: float_of_int_def b64.exact)

end
