(* ===== verification/PyValue.thy ===== *)
theory PyValue
  imports Binary64
begin

text \<open>
  The dynamically typed values that task declarations, JSON reports and YAML records are made
  of: \<open>None\<close>, booleans, unbounded integers, floats, strings, lists and dictionaries.
  A dictionary is an association list in insertion order; the interface of its string-keyed
  operations is the locale \<open>str_dict\<close>.  Also here: Python's \<open>==\<close> on such values,
  truth values, and \<open>float(s)\<close> of a string.
\<close>

named_theorems dict_simps \<open>lookup and keys of dictionary operations\<close>

datatype pyval =
    PNone
  | PBool bool
  | PInt int
  | PFloat pyfloat
  | PStr string
  | PList "pyval list"
  | PDict "(pyval \<times> pyval) list"

type_synonym pydict = "(pyval \<times> pyval) list"

fun is_str :: "pyval \<Rightarrow> bool" where "is_str (PStr _) = True" | "is_str _ = False"
fun is_int :: "pyval \<Rightarrow> bool" where "is_int (PInt _) = True" | "is_int _ = False"
fun is_list :: "pyval \<Rightarrow> bool" where "is_list (PList _) = True" | "is_list _ = False"
fun is_dict :: "pyval \<Rightarrow> bool" where "is_dict (PDict _) = True" | "is_dict _ = False"
fun is_bool :: "pyval \<Rightarrow> bool" where "is_bool (PBool _) = True" | "is_bool _ = False"

text \<open>The truth value \<open>bool(v)\<close>.\<close>

fun truthy :: "pyval \<Rightarrow> bool" where
  "truthy PNone = False"
| "truthy (PBool b) = b"
| "truthy (PInt k) = (k \<noteq> 0)"
| "truthy (PFloat f) = (\<not> feq f (Fin 0))"
| "truthy (PStr s) = (s \<noteq> [])"
| "truthy (PList xs) = (xs \<noteq> [])"
| "truthy (PDict d) = (d \<noteq> [])"

section \<open>Dictionaries with string keys\<close>

definition dlookup :: "pydict \<Rightarrow> string \<Rightarrow> pyval option" where
  "dlookup d k = map_of d (PStr k)"

fun dput :: "pydict \<Rightarrow> string \<Rightarrow> pyval \<Rightarrow> pydict" where
  "dput [] k v = [(PStr k, v)]"
| "dput ((k', v') # d) k v = (if k' = PStr k then (k', v) # d else (k', v') # dput d k v)"

definition dhas :: "pydict \<Rightarrow> string \<Rightarrow> bool" where
  "dhas d k = (PStr k \<in> fst ` set d)"

text \<open>\<open>d.get(k, default)\<close> and \<open>d.get(k)\<close>.\<close>

definition dget_default :: "pydict \<Rightarrow> string \<Rightarrow> pyval \<Rightarrow> pyval" where
  "dget_default d k v = (case dlookup d k of None \<Rightarrow> v | Some x \<Rightarrow> x)"

abbreviation dget :: "pydict \<Rightarrow> string \<Rightarrow> pyval" where
  "dget d k \<equiv> dget_default d k PNone"

text \<open>\<open>d.setdefault(k, v)\<close>.\<close>

definition dsetdefault :: "pydict \<Rightarrow> string \<Rightarrow> pyval \<Rightarrow> pydict" where
  "dsetdefault d k v = (if dhas d k then d else dput d k v)"

definition keys :: "pydict \<Rightarrow> pyval set" where
  "keys d = fst ` set d"

text \<open>The keys of a well-formed dictionary are distinct.\<close>

definition wf_dict :: "pydict \<Rightarrow> bool" where
  "wf_dict d = distinct (map fst d)"

lemma dhas_dlookup: "dhas d k \<longleftrightarrow> dlookup d k \<noteq> None"
  by (simp add: dhas_def dlookup_def map_of_eq_None_iff)

lemma dlookup_dput [dict_simps]: "dlookup (dput d k v) k' = (if k' = k then Some v else dlookup d k')"
  unfolding dlookup_def by (induction d k v rule: dput.induct) auto

lemma keys_dput [dict_simps]: "keys (dput d k v) = insert (PStr k) (keys d)"
  unfolding keys_def by (induction d k v rule: dput.induct) auto

lemma dhas_keys: "dhas d k \<longleftrightarrow> PStr k \<in> keys d"
  by (simp add: dhas_def keys_def)

lemma wf_dput: "wf_dict d \<Longrightarrow> wf_dict (dput d k v)"
  using keys_dput unfolding wf_dict_def keys_def
  by (induction d k v rule: dput.induct) auto

lemma dlookup_Nil [simp]: "dlookup [] k = None" and dhas_Nil [simp]: "\<not> dhas [] k"
    and keys_Nil [simp]: "keys [] = {}" and wf_Nil [simp]: "wf_dict []"
  by (simp_all add: dlookup_def dhas_def keys_def wf_dict_def)

lemma dlookup_Cons [simp]:
  "dlookup ((k', v) # d) k = (if k' = PStr k then Some v else dlookup d k)"
  by (simp add: dlookup_def)

lemma dhas_Cons [simp]: "dhas ((k', v) # d) k \<longleftrightarrow> k' = PStr k \<or> dhas d k"
  by (auto simp: dhas_def)

lemma keys_Cons [simp]: "keys ((k, v) # d) = insert k (keys d)"
  by (simp add: keys_def)

text \<open>
  The interface the declaration code relies on: lookup after an update, and the keys an
  update adds.  Everything about \<open>setdefault\<close> and chained updates follows from it.
\<close>

locale str_dict =
  fixes look :: "'d \<Rightarrow> string \<Rightarrow> 'v option"
    and put :: "'d \<Rightarrow> string \<Rightarrow> 'v \<Rightarrow> 'd"
  assumes look_put: "look (put d k v) k' = (if k' = k then Some v else look d k')"
begin

lemma look_put_same: "look (put d k v) k = Some v"
  by (simp add: look_put)

lemma look_put_other: "k' \<noteq> k \<Longrightarrow> look (put d k v) k' = look d k'"
  by (simp add: look_put)

lemma put_twice: "look (put (put d k v) k w) k' = look (put d k w) k'"
  by (simp add: look_put)

lemma put_commute:
  "k \<noteq> l \<Longrightarrow> look (put (put d k v) l w) k' = look (put (put d l w) k v) k'"
  by (simp add: look_put)

lemma put_same_value: "look d k = Some v \<Longrightarrow> look (put d k v) k' = look d k'"
  by (simp add: look_put)

lemma look_foldl_put:
  "look (foldl (\<lambda>m (k, v). put m k v) d kvs) k =
     (case map_of (rev kvs) k of None \<Rightarrow> look d k | Some v \<Rightarrow> Some v)"
  by (induction kvs arbitrary: d)
     (auto simp: look_put map_add_def split: option.splits)

end

interpretation pd: str_dict dlookup dput
  by unfold_locales (simp add: dict_simps)

lemma dget_default_dput [dict_simps]:
  "dget_default (dput d k v) k' w = (if k' = k then v else dget_default d k' w)"
  by (simp add: dget_default_def dict_simps)

lemma dhas_dput [dict_simps]: "dhas (dput d k v) k' \<longleftrightarrow> k' = k \<or> dhas d k'"
  by (simp add: dhas_keys dict_simps)

lemma dlookup_dsetdefault [dict_simps]:
  "dlookup (dsetdefault d k v) k' =
     (if k' = k then Some (dget_default d k v) else dlookup d k')"
  by (auto simp: dsetdefault_def dget_default_def dhas_dlookup dict_simps split: option.splits)

lemma keys_dsetdefault [dict_simps]: "keys (dsetdefault d k v) = insert (PStr k) (keys d)"
  by (auto simp: dsetdefault_def dhas_keys dict_simps)

lemma dput_existing: "dlookup d k = Some v \<Longrightarrow> dput d k v = d"
  by (induction d k v rule: dput.induct) auto

text \<open>\<open>{k: v for k, v in d.items() if k not in excluded}\<close>.\<close>

definition dwithout :: "pydict \<Rightarrow> string list \<Rightarrow> pydict" where
  "dwithout d ks = filter (\<lambda>kv. fst kv \<notin> PStr ` set ks) d"

lemma dlookup_append:
  "dlookup (d @ e) k = (case dlookup d k of None \<Rightarrow> dlookup e k | Some v \<Rightarrow> Some v)"
  by (induction d) (auto simp: dlookup_def map_add_def split: option.splits)

lemma dlookup_dwithout [dict_simps]:
  "dlookup (dwithout d ks) k = (if k \<in> set ks then None else dlookup d k)"
  unfolding dlookup_def dwithout_def by (induction d) auto

lemma dhas_dwithout [dict_simps]: "dhas (dwithout d ks) k \<longleftrightarrow> k \<notin> set ks \<and> dhas d k"
  by (simp add: dhas_dlookup dict_simps)

text \<open>\<open>a or b\<close>.\<close>

definition py_or :: "pyval \<Rightarrow> pyval \<Rightarrow> pyval" where
  "py_or a b = (if truthy a then a else b)"

text \<open>Values that can be a dictionary key or a set element.\<close>

fun hashable :: "pyval \<Rightarrow> bool" where
  "hashable (PList _) = False"
| "hashable (PDict _) = False"
| "hashable _ = True"

section \<open>Equality\<close>

text \<open>The numeric value of a boolean, integer or float, compared exactly as Python does.\<close>

fun numeric :: "pyval \<Rightarrow> pyfloat option" where
  "numeric (PBool b) = Some (Fin (if b then 1 else 0))"
| "numeric (PInt k) = Some (Fin (of_int k))"
| "numeric (PFloat f) = Some f"
| "numeric _ = None"

function (sequential) py_eq :: "pyval \<Rightarrow> pyval \<Rightarrow> bool"
  and py_eq_list :: "pyval list \<Rightarrow> pyval list \<Rightarrow> bool"
  and py_sub :: "pydict \<Rightarrow> pydict \<Rightarrow> bool"
  and py_has :: "pyval \<Rightarrow> pyval \<Rightarrow> pydict \<Rightarrow> bool" where
  "py_eq PNone y = (y = PNone)"
| "py_eq (PStr s) y = (y = PStr s)"
| "py_eq (PList xs) y = (case y of PList ys \<Rightarrow> py_eq_list xs ys | _ \<Rightarrow> False)"
| "py_eq (PDict d) y = (case y of PDict e \<Rightarrow> length d = length e \<and> py_sub d e | _ \<Rightarrow> False)"
| "py_eq (PBool b) y = (case numeric y of Some f \<Rightarrow> feq (Fin (if b then 1 else 0)) f | None \<Rightarrow> False)"
| "py_eq (PInt k) y = (case numeric y of Some f \<Rightarrow> feq (Fin (of_int k)) f | None \<Rightarrow> False)"
| "py_eq (PFloat g) y = (case numeric y of Some f \<Rightarrow> feq g f | None \<Rightarrow> False)"
| "py_eq_list [] ys = (ys = [])"
| "py_eq_list (x # xs) ys = (case ys of [] \<Rightarrow> False | y # ys' \<Rightarrow> py_eq x y \<and> py_eq_list xs ys')"
| "py_sub [] e = True"
| "py_sub ((k, v) # d) e = (py_has k v e \<and> py_sub d e)"
| "py_has k v [] = False"
| "py_has k v ((k', v') # e) = (if py_eq k k' then py_eq v v' else py_has k v e)"
  by pat_completeness auto
termination
  by (relation "measures
       [\<lambda>c. case c of Inl (Inl (x, y)) \<Rightarrow> size x | Inl (Inr (xs, ys)) \<Rightarrow> size_list size xs
          | Inr (Inl (d, e)) \<Rightarrow> size_list (size_prod size size) d
          | Inr (Inr (k, v, e)) \<Rightarrow> size k + size v,
        \<lambda>c. case c of Inr (Inr (k, v, e)) \<Rightarrow> Suc (length e) | _ \<Rightarrow> 0]")
     auto

text \<open>
  Reflexivity needs the absence of NaN (which differs from itself) and distinct string keys,
  as in every value a JSON or YAML loader produces from a well-formed document.
\<close>

fun plain_value :: "pyval \<Rightarrow> bool" where
  "plain_value (PFloat f) = (f \<noteq> NaN)"
| "plain_value (PList xs) = (\<forall>x \<in> set xs. plain_value x)"
| "plain_value (PDict d) =
     (distinct (map fst d) \<and> (\<forall>kv \<in> set d. is_str (fst kv) \<and> plain_value (snd kv)))"
| "plain_value _ = True"

lemma feq_refl: "f \<noteq> NaN \<Longrightarrow> feq f f"
  by (cases f) auto

lemma py_eq_str_iff [simp]: "py_eq k (PStr s) \<longleftrightarrow> k = PStr s"
  by (cases k) auto

lemma py_has_str:
  "is_str k \<Longrightarrow> \<forall>kv \<in> set e. is_str (fst kv) \<Longrightarrow>
     py_has k v e \<longleftrightarrow> (\<exists>w. map_of e k = Some w \<and> py_eq v w)"
  by (induction e) (auto elim: is_str.elims)

lemma py_sub_refl:
  assumes "\<forall>kv \<in> set e. is_str (fst kv)" "distinct (map fst e)"
    and "\<And>kv. kv \<in> set e \<Longrightarrow> py_eq (snd kv) (snd kv)"
  shows "set d \<subseteq> set e \<Longrightarrow> py_sub d e"
proof (induction d)
  case (Cons kv d)
  obtain k v where [simp]: "kv = (k, v)" by force
  from Cons.prems have "(k, v) \<in> set e" by simp
  with assms have "map_of e k = Some v" "is_str k" "py_eq v v" by force+
  with assms(1) Cons show ?case by (simp add: py_has_str)
qed simp

lemma py_eq_refl: "plain_value x \<Longrightarrow> py_eq x x"
proof (induction x)
  case (PList xs)
  have "\<forall>x \<in> set ys. py_eq x x \<Longrightarrow> py_eq_list ys ys" for ys by (induction ys) auto
  with PList show ?case by simp
next
  case (PDict d)
  from PDict.prems have str: "\<forall>kv \<in> set d. is_str (fst kv)" and dist: "distinct (map fst d)"
    and plain: "\<forall>kv \<in> set d. plain_value (snd kv)" by auto
  have "py_eq (snd kv) (snd kv)" if "kv \<in> set d" for kv
    using PDict.IH [of kv "snd kv"] plain that by (cases kv) auto
  with py_sub_refl [OF str dist] show ?case by simp
qed (simp_all add: feq_refl)

section \<open>\<open>float(s)\<close>\<close>

text \<open>
  Underscores are allowed between two digits only; they are dropped before the literal is
  read.  \<open>prev\<close> is the character before the current one.
\<close>

fun drop_underscores :: "char \<Rightarrow> string \<Rightarrow> string option" where
  "drop_underscores prev [] = (if prev = CHR ''_'' then None else Some [])"
| "drop_underscores prev (c # cs) =
     (if c = CHR ''_'' then (if is_digit prev then drop_underscores c cs else None)
      else if prev = CHR ''_'' \<and> \<not> is_digit c then None
      else map_option (Cons c) (drop_underscores c cs))"

definition digits_value :: "string \<Rightarrow> int" where
  "digits_value ds = foldl (\<lambda>n c. 10 * n + (int (of_char c) - 48)) 0 ds"

definition pow10 :: "int \<Rightarrow> rat" where
  "pow10 k = (if 0 \<le> k then 10 ^ nat k else 1 / 10 ^ nat (- k))"

text \<open>The optional sign of a literal.\<close>

definition take_sign :: "string \<Rightarrow> bool \<times> string" where
  "take_sign s = (case s of [] \<Rightarrow> (False, s)
     | c # cs \<Rightarrow> if c = CHR ''-'' then (True, cs) else if c = CHR ''+'' then (False, cs) else (False, s))"

text \<open>The optional exponent, which must end the literal.\<close>

definition parse_exponent :: "string \<Rightarrow> int option" where
  "parse_exponent s = (case s of [] \<Rightarrow> Some 0
     | c # cs \<Rightarrow>
         if c = CHR ''e'' then
           (let (neg, ds) = take_sign cs in
            if ds = [] \<or> \<not> list_all is_digit ds then None
            else Some (if neg then - digits_value ds else digits_value ds))
         else None)"

text \<open>An unsigned decimal literal: its exact rational value.\<close>

definition parse_decimal :: "string \<Rightarrow> rat option" where
  "parse_decimal s =
     (let ip = takeWhile is_digit s; r = dropWhile is_digit s;
          point = (r \<noteq> [] \<and> hd r = CHR ''.'');
          fp = (if point then takeWhile is_digit (tl r) else []);
          r' = (if point then dropWhile is_digit (tl r) else r)
      in if ip = [] \<and> fp = [] then None
         else map_option (\<lambda>e. of_int (digits_value (ip @ fp)) * pow10 (e - int (length fp)))
                (parse_exponent r'))"

text \<open>\<open>None\<close> is \<open>ValueError\<close>.\<close>

definition float_of_string :: "string \<Rightarrow> pyfloat option" where
  "float_of_string text =
     (case drop_underscores NUL (lower (strip text)) of None \<Rightarrow> None
      | Some s \<Rightarrow>
          (let (neg, body) = take_sign s in
           if body = ''inf'' \<or> body = ''infinity'' then Some (signed_inf neg)
           else if body = ''nan'' then Some NaN
           else map_option
                  (\<lambda>q. if q = 0 then signed_zero neg else round64 (if neg then - q else q))
                  (parse_decimal body)))"

text \<open>\<open>float(v)\<close>: a \<open>TypeError\<close>, a \<open>ValueError\<close> or an \<open>OverflowError\<close>.\<close>

fun py_float :: "pyval \<Rightarrow> (py_exc, pyfloat) result" where
  "py_float (PBool b) = Inr (Fin (if b then 1 else 0))"
| "py_float (PInt k) = float_of_int k"
| "py_float (PFloat f) = Inr f"
| "py_float (PStr s) = (case float_of_string s of None \<Rightarrow> Inl ValueErr | Some f \<Rightarrow> Inr f)"
| "py_float _ = Inl TypeErr"

end
