(* ===== verification/Score.thy ===== *)
theory Score
  imports PyValue
begin

text \<open>
  \<open>src/score.py\<close>: the reward of one task.  20 points for compilation, 100 more for
  correctness, and 100 times the speedup when, and only when, the evaluator vouches for a
  consistent benchmark method.  All inputs are dynamically typed, as they are read from
  \<open>task_result.yaml\<close>; the arithmetic is binary64.
\<close>

section \<open>The speedup used for scoring\<close>

text \<open>\<open>isinstance(v, (int, float))\<close>; a boolean is an integer.\<close>

fun is_number :: "pyval \<Rightarrow> bool" where
  "is_number (PBool _) = True"
| "is_number (PInt _) = True"
| "is_number (PFloat _) = True"
| "is_number _ = False"

text \<open>\<open>v > 0\<close> for such a value, exact on integers.\<close>

definition positive_number :: "pyval \<Rightarrow> bool" where
  "positive_number v = (case numeric v of Some f \<Rightarrow> flt (Fin 0) f | None \<Rightarrow> False)"

text \<open>
  \<open>resolve_speedup_ratio\<close>.  The two aggregate times are accepted by the code and never
  read; an \<open>OverflowErr\<close> is the exception of \<open>float(k)\<close> on a huge integer.
\<close>

definition resolve_speedup_ratio ::
    "pyval \<Rightarrow> pyval \<Rightarrow> pyval \<Rightarrow> pyval \<Rightarrow> (py_exc, pyfloat) result" where
  "resolve_speedup_ratio speedup_ratio base_time opt_time consistent =
     (if consistent \<noteq> PBool True then Inr (Fin 0)
      else if speedup_ratio \<noteq> PNone then
        (if is_number speedup_ratio then
           rbind (py_float speedup_ratio) (\<lambda>f.
             if isfinite f \<and> positive_number speedup_ratio then Inr f else Inr (Fin 0))
         else Inr (Fin 0))
      else Inr (Fin 0))"

section \<open>The score\<close>

definition score ::
    "pyval \<Rightarrow> pyval \<Rightarrow> pyval \<Rightarrow> pyval \<Rightarrow> pyval \<Rightarrow> pyval \<Rightarrow> (py_exc, pyfloat) result" where
  "score pass_compilation pass_correctness base_time opt_time speedup_ratio consistent =
     (if \<not> truthy pass_compilation then Inr (Fin 0)
      else let total1 = fadd (Fin 0) (Fin 20) in
        if \<not> truthy pass_correctness then Inr total1
        else let total2 = fadd total1 (Fin 100) in
          rbind (resolve_speedup_ratio speedup_ratio base_time opt_time consistent) (\<lambda>s.
            if flt (Fin 0) s then Inr (fadd total2 (fmul s (Fin 100))) else Inr total2))"

text \<open>
  \<open>task_result_scoring\<close> on the content of \<open>task_result.yaml\<close> (\<open>None\<close>: no such
  file): the score and the content written back.  A document that is not a mapping has no
  \<open>get\<close>.
\<close>

datatype scoring_error = FileNotFound | NotAMapping | BadSpeedup py_exc

definition task_result_scoring :: "pyval option \<Rightarrow> (scoring_error, pyfloat \<times> pyval) result" where
  "task_result_scoring file =
     (case file of None \<Rightarrow> Inl FileNotFound
      | Some (PDict d) \<Rightarrow>
          rbind (map_error BadSpeedup
                  (score (dget_default d ''pass_compilation'' (PBool False))
                         (dget_default d ''pass_correctness'' (PBool False))
                         (dget_default d ''base_execution_time'' (PFloat (Fin 0)))
                         (dget_default d ''best_optimized_execution_time'' (PFloat (Fin 0)))
                         (dget d ''speedup_ratio'') (dget d ''benchmark_method_consistent'')))
            (\<lambda>s. Inr (s, PDict (dput d ''score'' (PFloat s))))
      | Some _ \<Rightarrow> Inl NotAMapping)"

section \<open>Facts about the tiers\<close>

lemma round64_num [simp]: "round64 20 = Fin 20" "round64 120 = Fin 120"
  using b64.exact [of 20] b64.exact [of 120] by simp_all

lemma tier_values:
  "fadd (Fin 0) (Fin 20) = Fin 20" "fadd (Fin 20) (Fin 100) = Fin 120"
  by simp_all

declare fadd.simps [simp del] tier_values [simp]

lemma py_float_not_overflow_float: "py_float (PFloat f) = Inr f"
  by simp

lemma resolve_cases:
  assumes "resolve_speedup_ratio s b t c = Inr v"
  shows "v = Fin 0 \<or> (c = PBool True \<and> py_float s = Inr v \<and> isfinite v \<and> positive_number s)"
  using assms by (auto simp: resolve_speedup_ratio_def rbind_eq_Inr split: if_splits)

lemma score_passing:
  assumes "truthy pc" "truthy pk"
  shows "score pc pk b t s c =
    rbind (resolve_speedup_ratio s b t c) (\<lambda>v.
      Inr (if flt (Fin 0) v then fadd (Fin 120) (fmul v (Fin 100)) else Fin 120))"
  using assms by (auto simp: score_def Let_def rbind_def split: sum.splits)

text \<open>Points above the base are monotone in the speedup, because rounding is.\<close>

lemma fmul_100:
  assumes "isfinite v" "flt (Fin 0) v"
  shows "fmul v (Fin 100) = round64 (fval v * 100)"
  using assms by (cases v) (auto simp: fmul_def)

lemma round64_nonneg: "0 \<le> q \<Longrightarrow> fle (Fin 0) (round64 q)"
  using b64.above [of 0 q] by simp

lemma fadd_120_ge:
  assumes "fle (Fin 0) p"
  shows "fle (Fin 120) (fadd (Fin 120) p)"
  using assms b64.above [of 120 "120 + fval p"]
  by (cases p) (auto simp: fle_def fadd.simps)

lemma fle_PInf: "x \<noteq> NaN \<Longrightarrow> fle x PInf"
  by (cases x) (auto simp: fle_def)

lemma fadd_120_mono:
  assumes "fle (Fin 0) p" "fle p q"
  shows "fle (fadd (Fin 120) p) (fadd (Fin 120) q)"
  using assms b64.mono [of "120 + fval p" "120 + fval q"] fle_PInf [OF b64.not_nan]
  by (cases p; cases q) (auto simp: fle_def fadd.simps)

lemma fle_120_not_less: "fle (Fin 120) v \<Longrightarrow> \<not> flt v (Fin 120)"
  by (rule fle_antisym_flt)

section \<open>Properties\<close>

lemma score_tier:
  assumes "score pc pk b t s c = Inr v"
  shows "(\<not> truthy pc \<and> v = Fin 0) \<or> (truthy pc \<and> \<not> truthy pk \<and> v = Fin 20)
       \<or> (truthy pc \<and> truthy pk \<and> fle (Fin 120) v)"
proof (cases "truthy pc \<and> truthy pk")
  case True
  with assms obtain r where r: "resolve_speedup_ratio s b t c = Inr r"
      and v: "v = (if flt (Fin 0) r then fadd (Fin 120) (fmul r (Fin 100)) else Fin 120)"
    by (auto simp: score_passing rbind_eq_Inr)
  have "fle (Fin 120) v"
  proof (cases "flt (Fin 0) r")
    case pos: True
    with resolve_cases [OF r] have "isfinite r" by auto
    then have "fmul r (Fin 100) = round64 (fval r * 100)" "0 \<le> fval r"
      using pos fmul_100 flt_pos_isfinite by (simp_all add: less_imp_le)
    with pos v show ?thesis by (auto intro!: fadd_120_ge round64_nonneg)
  qed (simp add: v fle_def)
  with True show ?thesis by simp
next
  case False
  with assms show ?thesis by (cases "truthy pc") (auto simp: score_def Let_def)
qed

text \<open>
  The score falls in one of three tiers, decided by compilation and correctness alone:
  0 without compilation, 20 without correctness, at least 120 (in the float order) otherwise.
\<close>

theorem score_tiers:
  assumes "score pc pk b t s c = Inr v"
  shows "(\<not> truthy pc \<and> v = Fin 0) \<or> (truthy pc \<and> \<not> truthy pk \<and> v = Fin 20)
       \<or> (truthy pc \<and> truthy pk \<and> fle (Fin 120) v)"
  using assms by (rule score_tier)

lemma score_tiers_witness:
  "score (PBool True) (PBool True) PNone PNone (PFloat (Fin (3/2))) (PBool True) = Inr (Fin 270)
   \<and> fle (Fin 120) (Fin 270)"
proof -
  have s: "score (PBool True) (PBool True) PNone PNone (PFloat (Fin (3/2))) (PBool True) = Inr (Fin 270)"
    by code_simp
  from score_tiers [OF s] s show ?thesis by simp
qed

lemma points_evidence:
  assumes "score pc pk b t s c = Inr v" and "flt (Fin 120) v"
  shows "truthy pc \<and> truthy pk \<and> c = PBool True
       \<and> (\<exists>f. py_float s = Inr f \<and> isfinite f \<and> positive_number s)"
proof -
  have tp: "truthy pc \<and> truthy pk"
    using score_tier [OF assms(1)] assms(2) by (cases "truthy pc"; cases "truthy pk") auto
  with assms(1) obtain r where r: "resolve_speedup_ratio s b t c = Inr r"
      and v: "v = (if flt (Fin 0) r then fadd (Fin 120) (fmul r (Fin 100)) else Fin 120)"
    by (auto simp: score_passing rbind_eq_Inr)
  with assms(2) have "flt (Fin 0) r" by (auto split: if_splits)
  with resolve_cases [OF r] tp show ?thesis by auto
qed

text \<open>
  Points beyond the base 120 are only ever given for a run that compiles, is correct,
  whose benchmark method is explicitly \<open>True\<close> (not merely truthy) and whose recorded
  speedup is a number that is finite and positive.
\<close>

theorem performance_points_require_evidence:
  assumes "score pc pk b t s c = Inr v" and "flt (Fin 120) v"
  shows "truthy pc \<and> truthy pk \<and> c = PBool True
       \<and> (\<exists>f. py_float s = Inr f \<and> isfinite f \<and> positive_number s)"
  using assms by (rule points_evidence)

lemma performance_points_witness:
  "score (PInt 1) (PBool True) PNone PNone (PInt 2) (PBool True) = Inr (Fin 320)
   \<and> positive_number (PInt 2)"
proof -
  have s: "score (PInt 1) (PBool True) PNone PNone (PInt 2) (PBool True) = Inr (Fin 320)"
    by code_simp
  have "flt (Fin 120) (Fin 320)" by simp
  from performance_points_require_evidence [OF s this] s show ?thesis by blast
qed

text \<open>
  With everything else equal, a larger speedup never lowers the score: rounding at each
  of the three float operations keeps the order.
\<close>

theorem score_mono_speedup:
  assumes "isfinite x" "isfinite y" "fle x y"
    and "score pc pk b t (PFloat x) c = Inr v" and "score pc pk b t (PFloat y) c = Inr w"
  shows "fle v w"
proof (cases "truthy pc \<and> truthy pk \<and> c = PBool True")
  case False
  with assms(4,5) have "v = w" "v \<noteq> NaN"
    by (auto simp: score_def Let_def resolve_speedup_ratio_def split: if_splits)
  then show ?thesis by (simp add: fle_refl)
next
  case True
  let ?val = "\<lambda>z. if flt (Fin 0) z then fadd (Fin 120) (fmul z (Fin 100)) else Fin 120"
  have val: "score pc pk b t (PFloat z) c = Inr (?val z)" if "isfinite z" for z
    using True that by (auto simp: score_passing resolve_speedup_ratio_def positive_number_def)
  from True assms val have v: "v = ?val x" and w: "w = ?val y" by auto
  show ?thesis
  proof (cases "flt (Fin 0) x")
    case px: True
    then have py: "flt (Fin 0) y" using assms(3) by (rule flt_fle_trans)
    have q: "fval x * 100 \<le> fval y * 100" "0 \<le> fval x * 100"
      using assms(1-3) px by (cases x; cases y; auto simp: fle_def)+
    then have "fle (fmul x (Fin 100)) (fmul y (Fin 100))" "fle (Fin 0) (fmul x (Fin 100))"
      using assms(1,2) px py by (auto simp: fmul_100 intro: b64.mono round64_nonneg)
    then show ?thesis unfolding v w using px py by (simp add: fadd_120_mono)
  next
    case nx: False
    have "fle (Fin 120) (?val y)"
      using score_tier [OF val [OF assms(2)]] True by simp
    with nx show ?thesis unfolding v w by simp
  qed
qed

lemma score_mono_witness:
  "fle (Fin 270) (Fin 320)"
proof -
  have v: "score (PBool True) (PBool True) PNone PNone (PFloat (Fin (3/2))) (PBool True) = Inr (Fin 270)"
    by code_simp
  have w: "score (PBool True) (PBool True) PNone PNone (PFloat (Fin 2)) (PBool True) = Inr (Fin 320)"
    by code_simp
  show ?thesis
    by (rule score_mono_speedup [OF _ _ _ v w]) (simp_all add: fle_def)
qed

text \<open>
  Scoring a result file is idempotent: scoring the file it has written gives the same
  score and the same file again, and no field but \<open>score\<close> is touched.
\<close>

theorem task_result_scoring_idempotent:
  assumes "task_result_scoring (Some doc) = Inr (s, doc')"
  shows "task_result_scoring (Some doc') = Inr (s, doc')
       \<and> (\<exists>d d'. doc = PDict d \<and> doc' = PDict d' \<and> dlookup d' ''score'' = Some (PFloat s)
            \<and> (\<forall>k. k \<noteq> ''score'' \<longrightarrow> dlookup d' k = dlookup d k))"
proof -
  from assms obtain d where d: "doc = PDict d"
    by (cases doc) (auto simp: task_result_scoring_def)
  with assms show ?thesis
    by (auto simp: task_result_scoring_def rbind_eq_Inr map_error_eq_Inr dict_simps dput_existing
        pd.look_put_same)
qed

lemma task_result_scoring_witness:
  "\<exists>s doc'. task_result_scoring (Some (PDict [(PStr ''pass_compilation'', PBool True)])) = Inr (s, doc')
     \<and> task_result_scoring (Some doc') = Inr (s, doc')"
proof -
  have "task_result_scoring (Some (PDict [(PStr ''pass_compilation'', PBool True)]))
      = Inr (Fin 20, PDict [(PStr ''pass_compilation'', PBool True), (PStr ''score'', PFloat (Fin 20))])"
    by code_simp
  from this task_result_scoring_idempotent [OF this] show ?thesis by blast
qed

end
