(* ===== verification/CaseParsing.thy ===== *)
theory CaseParsing
  imports PyValue
begin

text \<open>
  The first half of \<open>src/testcases.py\<close>: the record of one measured test case, the choice
  of its execution time among the fields a report may carry, the metadata kept beside it, and
  the three report shapes of \<open>parse_test_cases_from_json\<close>; then the YAML record that
  carries the cases between phases.  A document is modelled from the moment it is loaded
  (\<open>json.load\<close>, \<open>yaml.safe_load\<close>) to the moment it is dumped.
\<close>

section \<open>Field names\<close>

definition synthetic_key :: string where "synthetic_key = ''_synthetic_test_case_id''"
definition timing_source_key :: string where "timing_source_key = ''_timing_source''"

definition device_time_keys :: "string list" where
  "device_time_keys = [''device_time_ms'', ''gpu_time_ms'', ''kernel_time_ms'',
     ''cuda_event_time_ms'', ''cuda_graph_time_ms'', ''execution_time_ms'']"

definition ambiguous_time_keys :: "string list" where
  "ambiguous_time_keys = [''execution_time'', ''time_ms'', ''time'']"

definition host_time_keys :: "string list" where
  "host_time_keys = [''host_time_ms'', ''wall_time_ms'', ''elapsed_time_ms'',
     ''total_time_ms'', ''end_to_end_time_ms'']"

section \<open>Times\<close>

text \<open>
  The time of a case: a float, or an integer that a report gave and that nothing converted.  Arithmetic on
  times is Python's: integers stay exact, and meet a float as the float they convert to; a
  quotient of integers is rounded once.
\<close>

datatype case_time = IntTime int | FloatTime pyfloat

fun time_float :: "case_time \<Rightarrow> (py_exc, pyfloat) result" where
  "time_float (IntTime k) = float_of_int k"
| "time_float (FloatTime f) = Inr f"

fun time_value :: "case_time \<Rightarrow> pyval" where
  "time_value (IntTime k) = PInt k"
| "time_value (FloatTime f) = PFloat f"

text \<open>
  \<open>math.isfinite\<close>, which would raise \<open>OverflowError\<close> on an integer too large to convert; the row of
  such a time was refused with that error when it was parsed.
\<close>

fun finite_time :: "case_time \<Rightarrow> bool" where
  "finite_time (IntTime k) = isfinite (round64 (of_int k))"
| "finite_time (FloatTime f) = isfinite f"

fun positive_time :: "case_time \<Rightarrow> bool" where
  "positive_time (IntTime k) = (0 < k)"
| "positive_time (FloatTime f) = flt (Fin 0) f"

definition int_div :: "int \<Rightarrow> int \<Rightarrow> (py_exc, pyfloat) result" where
  "int_div a b =
     (if b = 0 then Inl ZeroDivErr
      else if a = 0 then Inr (signed_zero (b < 0))
      else let q = round64 (of_int a / of_int b) in if isfinite q then Inr q else Inl OverflowErr)"

fun time_div :: "case_time \<Rightarrow> case_time \<Rightarrow> (py_exc, pyfloat) result" where
  "time_div (IntTime a) (IntTime b) = int_div a b"
| "time_div x y = rbind (time_float x) (\<lambda>x. rbind (time_float y) (fdiv x))"

fun time_add :: "case_time \<Rightarrow> case_time \<Rightarrow> (py_exc, case_time) result" where
  "time_add (IntTime a) (IntTime b) = Inr (IntTime (a + b))"
| "time_add x y = rbind (time_float x) (\<lambda>x. rbind (time_float y) (\<lambda>y. Inr (FloatTime (fadd x y))))"

text \<open>\<open>sum(times) / len(times)\<close>.\<close>

definition average_time :: "case_time list \<Rightarrow> (py_exc, pyfloat) result" where
  "average_time ts = rbind (foldR time_add (IntTime 0) ts) (\<lambda>s. time_div s (IntTime (int (length ts))))"

section \<open>Cases\<close>

text \<open>
  \<open>TestCaseResult\<close>.  An absent shape is \<open>PNone\<close>; absent metadata is the empty
  dictionary, from which the code never distinguishes it.
\<close>

record test_case =
  test_case_id :: pyval
  shape :: pyval
  execution_time_ms :: case_time
  metadata :: pydict

section \<open>The execution time of a row\<close>

text \<open>
  \<open>_safe_float\<close>: only \<open>TypeError\<close> and \<open>ValueError\<close> are caught; the
  \<open>OverflowError\<close> of a huge integer escapes.
\<close>

definition safe_float :: "pyval \<Rightarrow> (py_exc, pyfloat option) result" where
  "safe_float v =
     (if v = PNone then Inr None
      else case py_float v of
        Inr f \<Rightarrow> Inr (if isfinite f then Some f else None)
      | Inl e \<Rightarrow> if e = TypeErr \<or> e = ValueErr then Inr None else Inl e)"

text \<open>The first key that is present with a usable value.\<close>

fun first_time :: "pydict \<Rightarrow> string list \<Rightarrow> (py_exc, (pyfloat \<times> string) option) result" where
  "first_time d [] = Inr None"
| "first_time d (k # ks) =
     (case dlookup d k of None \<Rightarrow> first_time d ks
      | Some v \<Rightarrow> rbind (safe_float v)
          (\<lambda>t. case t of None \<Rightarrow> first_time d ks | Some f \<Rightarrow> Inr (Some (f, k))))"

text \<open>A legacy field: milliseconds, unless a value of at least 1000 suggests seconds.\<close>

definition legacy_scale :: "pyfloat \<times> string \<Rightarrow> pyfloat \<times> string" where
  "legacy_scale tk = (case tk of (t, k) \<Rightarrow>
     if k = ''time_ms'' \<or> flt t (Fin 1000) then (t, k) else (fmul t (Fin 1000), k))"

text \<open>The pytest record: only the first of mean, median and min that is present is tried.\<close>

definition timing_ms_value :: "pydict \<Rightarrow> (py_exc, (pyfloat \<times> string) option) result" where
  "timing_ms_value d =
     (case dlookup d ''timing_ms'' of
        Some (PDict t) \<Rightarrow>
          (case filter (dhas t) [''mean'', ''median'', ''min''] of [] \<Rightarrow> Inr None
           | k # _ \<Rightarrow> rbind (safe_float (dget t k))
               (\<lambda>f. Inr (map_option (\<lambda>x. (x, ''timing_ms.'' @ k)) f)))
      | _ \<Rightarrow> Inr None)"

definition throughput_source :: string where
  "throughput_source = ''bytes_per_second_gs (inverse for speedup)''"

definition throughput_value :: "pydict \<Rightarrow> (py_exc, (pyfloat \<times> string) option) result" where
  "throughput_value d =
     (case dlookup d ''bytes_per_second_gs'' of None \<Rightarrow> Inr None
      | Some v \<Rightarrow> rbind (safe_float v) (\<lambda>f. case f of
          None \<Rightarrow> Inr None
        | Some bps \<Rightarrow>
            if flt (Fin 0) bps
            then rbind (fdiv (Fin 1) bps) (\<lambda>c. Inr (Some (c, throughput_source)))
            else Inr None))"

text \<open>The torch2hip field of this side of the comparison.\<close>

definition torch2hip_value ::
    "pydict \<Rightarrow> bool \<Rightarrow> string option \<Rightarrow> (py_exc, (pyfloat \<times> string) option) result" where
  "torch2hip_value d is_baseline task_type =
     (let k = (if is_baseline then ''ori_time'' else ''opt_time'') in
      if task_type = Some ''torch2hip'' \<and> dhas d k
      then rbind (safe_float (dget d k)) (\<lambda>f. Inr (map_option (\<lambda>x. (x, k)) f))
      else Inr None)"

text \<open>\<open>r\<close>, or \<open>next\<close> when it found nothing.\<close>

definition or_else ::
    "('e, 'a option) result \<Rightarrow> ('e, 'a option) result \<Rightarrow> ('e, 'a option) result" where
  "or_else r next = rbind r (\<lambda>x. case x of None \<Rightarrow> next | Some y \<Rightarrow> Inr (Some y))"

text \<open>
  \<open>_extract_time_from_dict\<close>: no match is the pair \<open>(0.0, None)\<close>.  A host-side timing
  ends the search before the last two formats.
\<close>

definition extract_time ::
    "pydict \<Rightarrow> bool \<Rightarrow> string option \<Rightarrow> (py_exc, pyfloat \<times> string option) result" where
  "extract_time d is_baseline task_type =
     rbind
       (or_else (torch2hip_value d is_baseline task_type)
       (or_else (first_time d device_time_keys)
       (or_else (rbind (first_time d ambiguous_time_keys) (\<lambda>x. Inr (map_option legacy_scale x)))
          (if list_ex (dhas d) host_time_keys then Inr None
           else or_else (timing_ms_value d) (throughput_value d)))))
       (\<lambda>x. case x of None \<Rightarrow> Inr (Fin 0, None) | Some (t, k) \<Rightarrow> Inr (t, Some k))"

section \<open>Metadata\<close>

fun canonical_key :: "pyval \<Rightarrow> (py_exc, bool) result" where
  "canonical_key (PStr k) = Inr (starts_with ''benchmark_'' k \<or> k = ''params'' \<or> k = ''dtype'')"
| "canonical_key _ = Inl AttributeErr"

text \<open>Promotion of one nested item: explicit row-level values win.\<close>

definition promote :: "pydict \<Rightarrow> pyval \<times> pyval \<Rightarrow> (py_exc, pydict) result" where
  "promote m kv = rbind (canonical_key (fst kv)) (\<lambda>c.
     case fst kv of PStr k \<Rightarrow> Inr (if c \<and> \<not> dhas m k then dput m k (snd kv) else m) | _ \<Rightarrow> Inr m)"

definition build_metadata :: "pydict \<Rightarrow> string list \<Rightarrow> (py_exc, pydict) result" where
  "build_metadata row exclude_keys =
     rbind (case dlookup row ''metadata'' of
              Some (PDict nested) \<Rightarrow> foldR promote (dwithout row exclude_keys) nested
            | _ \<Rightarrow> Inr (dwithout row exclude_keys))
       (\<lambda>m. Inr (case dlookup row ''params'' of None \<Rightarrow> m | Some p \<Rightarrow> dput m ''params'' p))"

definition excluded_row_keys :: "string list" where
  "excluded_row_keys = [''test_case_id'', ''shape'', ''shapes'', ''timing_ms'', ''params'',
     ''ori_time'', ''opt_time'', ''bytes_per_second_gs'']
     @ device_time_keys @ ambiguous_time_keys @ host_time_keys"

text \<open>\<open>if k in row: m[k] = row[k]\<close>.\<close>

definition copy_key :: "pydict \<Rightarrow> string \<Rightarrow> pydict \<Rightarrow> pydict" where
  "copy_key row k m = (case dlookup row k of None \<Rightarrow> m | Some v \<Rightarrow> dput m k v)"

section \<open>One row\<close>

definition row_shape :: "pydict \<Rightarrow> pyval" where
  "row_shape row = py_or (dget row ''shape'') (dget row ''shapes'')"

text \<open>The provenance and reference fields added to the metadata of a parsed row.\<close>

definition finish_metadata ::
    "pydict \<Rightarrow> string option \<Rightarrow> string option \<Rightarrow> pydict \<Rightarrow> pydict" where
  "finish_metadata row task_type matched m0 =
     (let m1 = (case matched of None \<Rightarrow> m0
                | Some k \<Rightarrow> if k = [] then m0 else dput m0 timing_source_key (PStr k));
          m2 = (if task_type = Some ''torch2hip''
                then copy_key row ''speedup'' (copy_key row ''opt_time'' (copy_key row ''ori_time'' m1))
                else m1);
          m3 = copy_key row ''bytes_per_second_gs'' m2
      in dput m3 synthetic_key (PBool (\<not> dhas row ''test_case_id'')))"

definition parse_single_case ::
    "pydict \<Rightarrow> string \<Rightarrow> bool \<Rightarrow> string option \<Rightarrow> (py_exc, test_case option) result" where
  "parse_single_case row default_id is_baseline task_type =
     rbind (extract_time row is_baseline task_type) (\<lambda>(time, matched).
       if feq time (Fin 0) \<and> matched = None then Inr None
       else rbind (build_metadata row excluded_row_keys) (\<lambda>m0.
         Inr (Some \<lparr>test_case_id = dget_default row ''test_case_id'' (PStr default_id),
                    shape = row_shape row, execution_time_ms = FloatTime time,
                    metadata = finish_metadata row task_type matched m0\<rparr>)))"

section \<open>Reports\<close>

definition default_case_id :: "nat \<Rightarrow> string" where
  "default_case_id idx = ''test_case_'' @ nat_digits idx"

text \<open>Rows that are not mappings, and rows whose parsing raises, are skipped.\<close>

definition parse_row :: "bool \<Rightarrow> string option \<Rightarrow> nat \<times> pyval \<Rightarrow> test_case list" where
  "parse_row is_baseline task_type = (\<lambda>(idx, item).
     case item of
       PDict row \<Rightarrow>
         (case parse_single_case row (default_case_id idx) is_baseline task_type of
            Inr (Some c) \<Rightarrow> [c] | _ \<Rightarrow> [])
     | _ \<Rightarrow> [])"

definition parse_rows :: "bool \<Rightarrow> string option \<Rightarrow> pyval list \<Rightarrow> test_case list" where
  "parse_rows is_baseline task_type rows =
     concat (map (parse_row is_baseline task_type) (enumerate 0 rows))"

text \<open>\<open>s.replace(''_ms'', '''')\<close>: leftmost occurrences, not overlapping.\<close>

fun drop_ms :: "string \<Rightarrow> string" where
  "drop_ms (a # b # c # s) =
     (if a = CHR ''_'' \<and> b = CHR ''m'' \<and> c = CHR ''s'' then drop_ms s else a # drop_ms (b # c # s))"
| "drop_ms s = s"

fun key_string :: "pyval \<Rightarrow> string" where
  "key_string (PStr s) = s"
| "key_string _ = []"

definition ms_keys :: "pydict \<Rightarrow> string list" where
  "ms_keys row = filter (\<lambda>k. ends_with ''_ms'' k \<and> k \<notin> set host_time_keys) (map (key_string \<circ> fst) row)"

text \<open>One custom \<open>_ms\<close> field of a single-object report.\<close>

definition custom_case ::
    "pydict \<Rightarrow> nat \<times> string \<Rightarrow> (py_exc, test_case option) result" where
  "custom_case row = (\<lambda>(idx, ms_key).
     rbind (safe_float (dget row ms_key)) (\<lambda>t. case t of None \<Rightarrow> Inr None
      | Some time \<Rightarrow>
          rbind (build_metadata row
                   ([''shape'', ''shapes'']
                    @ filter (ends_with ''_ms'') (map (key_string \<circ> fst) row))) (\<lambda>m.
            let others = map (\<lambda>k. (PStr k, dget row k)) (filter (\<lambda>k. k \<noteq> ms_key) (ms_keys row));
                m' = (if others = [] then m else dput m ''other_timings'' (PDict others));
                name = drop_ms ms_key;
                case_id = (if length (ms_keys row) > 1 then name @ ''_'' @ nat_digits idx else name)
            in Inr (Some \<lparr>test_case_id = PStr case_id, shape = row_shape row,
                          execution_time_ms = FloatTime time,
                          metadata = dput m' synthetic_key (PBool True)\<rparr>))))"

text \<open>The first field that raises ends the loop; the cases before it are kept.\<close>

fun custom_cases :: "pydict \<Rightarrow> (nat \<times> string) list \<Rightarrow> test_case list" where
  "custom_cases row [] = []"
| "custom_cases row (k # ks) =
     (case custom_case row k of Inl e \<Rightarrow> []
      | Inr None \<Rightarrow> custom_cases row ks
      | Inr (Some c) \<Rightarrow> c # custom_cases row ks)"

text \<open>
  \<open>parse_test_cases_from_json\<close> on the loaded document (\<open>None\<close>: unreadable or not
  JSON).  Every exception that reaches the outer handler is logged and ends the parse.
\<close>

definition parse_test_cases_from_json ::
    "pyval option \<Rightarrow> bool \<Rightarrow> string option \<Rightarrow> test_case list" where
  "parse_test_cases_from_json report is_baseline task_type =
     (case report of
        Some (PList rows) \<Rightarrow> parse_rows is_baseline task_type rows
      | Some (PDict d) \<Rightarrow>
          (case dlookup d ''test_cases'' of
             Some (PList rows) \<Rightarrow> parse_rows is_baseline task_type rows
           | Some _ \<Rightarrow> []
           | None \<Rightarrow>
               (case parse_single_case d ''test_case_0'' is_baseline task_type of
                  Inl e \<Rightarrow> []
                | Inr (Some c) \<Rightarrow> [c]
                | Inr None \<Rightarrow>
                    if list_all (is_str \<circ> fst) d
                    then custom_cases d (enumerate 0 (sort (ms_keys d)))
                    else []))
      | _ \<Rightarrow> [])"

section \<open>The YAML record between phases\<close>

definition keep_benchmark :: "pyval \<times> pyval \<Rightarrow> bool" where
  "keep_benchmark kv = (starts_with ''benchmark_'' (key_string (fst kv)) \<and> snd kv \<noteq> PNone)"

definition save_case :: "test_case \<Rightarrow> pydict" where
  "save_case c =
     (let d0 = [(PStr ''test_case_id'', test_case_id c),
                (PStr ''execution_time_ms'', time_value (execution_time_ms c))];
          d1 = (if shape c \<noteq> PNone then dput d0 ''shape'' (shape c) else d0);
          d2 = copy_key (metadata c) ''dtype'' (copy_key (metadata c) ''params'' d1);
          d3 = foldl (\<lambda>m kv. dput m (key_string (fst kv)) (snd kv)) d2
                 (filter keep_benchmark (metadata c));
          d4 = (if truthy (dget (metadata c) synthetic_key)
                then dput d3 synthetic_key (PBool True) else d3)
      in d4)"

definition save_performance_results :: "test_case list \<Rightarrow> pyval" where
  "save_performance_results cases =
     PDict [(PStr ''test_cases'', PList (map (PDict \<circ> save_case) cases))]"

definition load_case :: "pyval \<Rightarrow> (py_exc, test_case) result" where
  "load_case v =
     (case v of
        PDict d \<Rightarrow>
          rbind (py_float (dget_default d ''execution_time_ms'' (PFloat (Fin 0)))) (\<lambda>t.
            Inr \<lparr>test_case_id = dget_default d ''test_case_id'' (PStr ''unknown''),
                 shape = dget d ''shape'', execution_time_ms = FloatTime t,
                 metadata = dwithout d [''test_case_id'', ''shape'', ''execution_time_ms'']\<rparr>)
      | _ \<Rightarrow> Inl AttributeErr)"

text \<open>\<open>load_performance_results\<close>: a missing file, and any exception, give no cases.\<close>

definition load_performance_results :: "pyval option \<Rightarrow> test_case list" where
  "load_performance_results file =
     (case file of
        Some (PDict d) \<Rightarrow>
          (case dget_default d ''test_cases'' (PList []) of
             PList rows \<Rightarrow> (case mapR load_case rows of Inl e \<Rightarrow> [] | Inr cs \<Rightarrow> cs)
           | _ \<Rightarrow> [])
      | _ \<Rightarrow> [])"

text \<open>\<open>collect_benchmark_methods\<close>; \<open>str_of\<close> stands for \<open>str()\<close> of a non-string.\<close>

definition method_string :: "(pyval \<Rightarrow> string) \<Rightarrow> pyval \<Rightarrow> string" where
  "method_string str_of v = (case v of PStr s \<Rightarrow> s | _ \<Rightarrow> str_of v)"

definition collect_benchmark_methods :: "(pyval \<Rightarrow> string) \<Rightarrow> test_case list \<Rightarrow> string list" where
  "collect_benchmark_methods str_of cases =
     sort (remdups (map (method_string str_of)
       (filter truthy (map (\<lambda>c. dget (metadata c) ''benchmark_method'') cases))))"

section \<open>Facts about time extraction\<close>

lemma or_else_eq_Inr [result_simps]:
  "or_else r n = Inr x \<longleftrightarrow> (\<exists>y. r = Inr (Some y) \<and> x = Some y) \<or> (r = Inr None \<and> n = Inr x)"
  by (cases r) (auto simp: or_else_def split: option.splits)

lemma or_else_if: "or_else x n = (if x = Inr None then n else x)"
  by (cases x) (auto simp: or_else_def split: option.splits)

lemma first_time_cong:
  "(\<And>k. k \<in> set ks \<Longrightarrow> dlookup d k = dlookup d' k) \<Longrightarrow> first_time d ks = first_time d' ks"
  by (induction ks) (auto simp: rbind_def split: option.splits sum.splits)

lemma first_time_key:
  "first_time d ks = Inr (Some (t, k)) \<Longrightarrow> k \<in> set ks \<and> dhas d k \<and> isfinite t"
  by (induction ks)
     (auto simp: rbind_eq_Inr dhas_dlookup safe_float_def split: option.splits if_splits sum.splits)

lemma timing_ms_cong: "dlookup d ''timing_ms'' = dlookup d' ''timing_ms'' \<Longrightarrow> timing_ms_value d = timing_ms_value d'"
  by (simp add: timing_ms_value_def)

lemma throughput_cong:
  "dlookup d ''bytes_per_second_gs'' = dlookup d' ''bytes_per_second_gs'' \<Longrightarrow> throughput_value d = throughput_value d'"
  by (simp add: throughput_value_def)

lemma torch2hip_cong:
  assumes "dlookup d ''ori_time'' = dlookup d' ''ori_time''" "dlookup d ''opt_time'' = dlookup d' ''opt_time''"
  shows "torch2hip_value d b t = torch2hip_value d' b t"
  unfolding torch2hip_value_def dhas_dlookup dget_default_def Let_def
  by (cases b) (simp_all only: assms if_True if_False)

lemma timing_ms_key: "timing_ms_value d = Inr (Some (t, k)) \<Longrightarrow> k \<in> {''timing_ms.mean'', ''timing_ms.median'', ''timing_ms.min''}"
  by (auto simp: timing_ms_value_def rbind_eq_Inr split: option.splits pyval.splits list.splits if_splits)

lemma throughput_key: "throughput_value d = Inr (Some (t, k)) \<Longrightarrow> k = throughput_source"
  by (auto simp: throughput_value_def rbind_eq_Inr split: option.splits if_splits)

lemma torch2hip_key: "torch2hip_value d b tt = Inr (Some (t, k)) \<Longrightarrow> k \<in> {''ori_time'', ''opt_time''}"
  by (auto simp: torch2hip_value_def Let_def rbind_eq_Inr split: if_splits)

lemma legacy_scale_key: "legacy_scale (t, k) = (t', k') \<Longrightarrow> k' = k"
  by (auto simp: legacy_scale_def split: if_splits)

lemmas time_keys = device_time_keys_def ambiguous_time_keys_def host_time_keys_def

lemma extract_time_cases:
  assumes "extract_time d b tt = Inr (t, Some k)"
  obtains "torch2hip_value d b tt = Inr (Some (t, k))"
  | "torch2hip_value d b tt = Inr None" "first_time d device_time_keys = Inr (Some (t, k))"
  | x where "torch2hip_value d b tt = Inr None" "first_time d device_time_keys = Inr None"
      "first_time d ambiguous_time_keys = Inr (Some x)" "legacy_scale x = (t, k)"
  | "\<not> list_ex (dhas d) host_time_keys" "timing_ms_value d = Inr (Some (t, k))"
  | "\<not> list_ex (dhas d) host_time_keys" "throughput_value d = Inr (Some (t, k))"
proof -
  let ?rest = "if list_ex (dhas d) host_time_keys then Inr None
    else or_else (timing_ms_value d) (throughput_value d)"
  let ?amb = "rbind (first_time d ambiguous_time_keys) (\<lambda>x. Inr (map_option legacy_scale x))"
  have "or_else (torch2hip_value d b tt)
       (or_else (first_time d device_time_keys) (or_else ?amb ?rest)) = Inr (Some (t, k))"
    using assms by (auto simp: extract_time_def rbind_eq_Inr split: option.splits)
  then consider "torch2hip_value d b tt = Inr (Some (t, k))"
    | "torch2hip_value d b tt = Inr None" "first_time d device_time_keys = Inr (Some (t, k))"
    | "torch2hip_value d b tt = Inr None" "first_time d device_time_keys = Inr None" "?amb = Inr (Some (t, k))"
    | "?rest = Inr (Some (t, k))"
    by (auto simp only: or_else_eq_Inr option.inject)
  then show ?thesis
    by cases (auto simp: rbind_eq_Inr or_else_eq_Inr split: if_splits intro: that)
qed

lemma extract_time_source:
  assumes "extract_time d b tt = Inr (t, Some k)"
  shows "k \<notin> set host_time_keys"
  using assms
proof (cases rule: extract_time_cases)
  case 1
  from torch2hip_key [OF this] show ?thesis by (auto simp: time_keys)
next
  case 2
  from first_time_key [OF 2(2)] show ?thesis by (auto simp: time_keys)
next
  case (3 x)
  then have "k \<in> set ambiguous_time_keys"
    by (cases x) (auto dest!: first_time_key legacy_scale_key)
  then show ?thesis by (auto simp: time_keys)
next
  case 4
  from timing_ms_key [OF 4(2)] show ?thesis by (auto simp: time_keys)
next
  case 5
  from throughput_key [OF 5(2)] show ?thesis by (simp add: time_keys throughput_source_def)
qed

lemma extract_time_none: "extract_time d b tt = Inr (t, None) \<Longrightarrow> t = Fin 0"
  by (auto simp: extract_time_def rbind_eq_Inr split: option.splits)

section \<open>Facts about metadata\<close>

definition string_keys :: "pydict \<Rightarrow> bool" where
  "string_keys d = (\<forall>kv \<in> set d. is_str (fst kv))"

definition wf_meta :: "pydict \<Rightarrow> bool" where
  "wf_meta d = (wf_dict d \<and> string_keys d)"

lemma string_keys_dput: "string_keys d \<Longrightarrow> string_keys (dput d k v)"
  unfolding string_keys_def by (induction d k v rule: dput.induct) auto

lemma wf_meta_Nil [simp]: "wf_meta []"
  by (simp add: wf_meta_def string_keys_def)

lemma wf_meta_dput [simp]: "wf_meta d \<Longrightarrow> wf_meta (dput d k v)"
  by (simp add: wf_meta_def string_keys_dput wf_dput)

lemma wf_meta_dwithout [simp]: "wf_meta d \<Longrightarrow> wf_meta (dwithout d ks)"
  by (auto simp: wf_meta_def string_keys_def wf_dict_def dwithout_def distinct_map inj_on_def)

lemma wf_meta_copy_key [simp]: "wf_meta d \<Longrightarrow> wf_meta (copy_key row k d)"
  by (simp add: copy_key_def split: option.splits)

lemma dlookup_copy_key [dict_simps]:
  "dlookup (copy_key row k m) k' =
     (if k' = k \<and> dhas row k then dlookup row k else dlookup m k')"
  by (auto simp: copy_key_def dhas_dlookup dict_simps split: option.splits)

lemma promote_wf: "promote m kv = Inr m' \<Longrightarrow> wf_meta m \<Longrightarrow> wf_meta m'"
  by (cases "fst kv") (auto simp: promote_def rbind_eq_Inr split: if_splits)

lemma build_metadata_wf:
  assumes "build_metadata row ex = Inr m" "wf_meta row"
  shows "wf_meta m"
proof -
  from assms(1) obtain m0 where r: "(case dlookup row ''metadata'' of
              Some (PDict nested) \<Rightarrow> foldR promote (dwithout row ex) nested
            | _ \<Rightarrow> Inr (dwithout row ex)) = Inr m0"
    and m: "m = (case dlookup row ''params'' of None \<Rightarrow> m0 | Some p \<Rightarrow> dput m0 ''params'' p)"
    by (auto simp: build_metadata_def rbind_eq_Inr)
  from r have m0: "m0 = dwithout row ex \<or> (\<exists>n. foldR promote (dwithout row ex) n = Inr m0)"
    by (auto split: option.splits pyval.splits)
  from m0 have "wf_meta m0"
    using assms(2) promote_wf by (auto elim!: foldR_invariant [where P = wf_meta])
  with m show ?thesis by (simp split: option.splits)
qed

lemma foldl_dput_lookup:
  "wf_meta kvs \<Longrightarrow>
    dlookup (foldl (\<lambda>m kv. dput m (key_string (fst kv)) (snd kv)) d kvs) k =
      (case dlookup kvs k of None \<Rightarrow> dlookup d k | Some v \<Rightarrow> Some v)"
proof (induction kvs arbitrary: d)
  case (Cons kv kvs)
  obtain s v where kv: "kv = (PStr s, v)"
    using Cons.prems by (cases kv; cases "fst kv") (auto simp: wf_meta_def string_keys_def)
  with Cons.prems have "wf_meta kvs" "\<not> dhas kvs s"
    by (auto simp: wf_meta_def string_keys_def wf_dict_def dhas_def)
  with Cons.IH [of "dput d s v"] show ?case
    by (auto simp: kv dict_simps dhas_dlookup split: option.splits)
qed simp

lemma dlookup_filter_benchmark:
  assumes "wf_meta m"
  shows "dlookup (filter keep_benchmark m) k =
    (if starts_with ''benchmark_'' k \<and> dget m k \<noteq> PNone then dlookup m k else None)"
  using assms
proof (induction m)
  case (Cons kv m)
  obtain s v where kv: "kv = (PStr s, v)"
    using Cons.prems by (cases kv; cases "fst kv") (auto simp: wf_meta_def string_keys_def)
  with Cons.prems have "wf_meta m" "\<not> dhas m s"
    by (auto simp: wf_meta_def string_keys_def wf_dict_def dhas_def)
  with Cons.IH show ?case
    by (auto simp: kv keep_benchmark_def dget_default_def dhas_dlookup split: option.splits)
qed (simp add: dget_default_def)

lemma wf_meta_filter: "wf_meta m \<Longrightarrow> wf_meta (filter P m)"
  by (auto simp: wf_meta_def string_keys_def wf_dict_def distinct_map inj_on_def)

lemma benchmark_prefix_distinct:
  "\<not> starts_with ''benchmark_'' ''params''" "\<not> starts_with ''benchmark_'' ''dtype''"
  "\<not> starts_with ''benchmark_'' ''shape''" "\<not> starts_with ''benchmark_'' ''test_case_id''"
  "\<not> starts_with ''benchmark_'' ''execution_time_ms''" "\<not> starts_with ''benchmark_'' synthetic_key"
  by (simp_all add: starts_with_def synthetic_key_def)

lemma save_case_lookup:
  assumes "wf_meta (metadata c)"
  shows "dlookup (save_case c) k =
    (if k = synthetic_key \<and> truthy (dget (metadata c) synthetic_key) then Some (PBool True)
     else if starts_with ''benchmark_'' k \<and> dget (metadata c) k \<noteq> PNone then dlookup (metadata c) k
     else if k \<in> {''params'', ''dtype''} \<and> dhas (metadata c) k then dlookup (metadata c) k
     else if k = ''shape'' \<and> shape c \<noteq> PNone then Some (shape c)
     else if k = ''test_case_id'' then Some (test_case_id c)
     else if k = ''execution_time_ms'' then Some (time_value (execution_time_ms c)) else None)"
proof -
  let ?m = "metadata c"
  let ?bench = "starts_with ''benchmark_'' k \<and> dget ?m k \<noteq> PNone"
  define d0 where "d0 = [(PStr ''test_case_id'', test_case_id c), (PStr ''execution_time_ms'', time_value (execution_time_ms c))]"
  define d1 where "d1 = (if shape c \<noteq> PNone then dput d0 ''shape'' (shape c) else d0)"
  define d2 where "d2 = copy_key ?m ''dtype'' (copy_key ?m ''params'' d1)"
  define d3 where "d3 = foldl (\<lambda>m kv. dput m (key_string (fst kv)) (snd kv)) d2 (filter keep_benchmark ?m)"
  have sv: "save_case c = (if truthy (dget ?m synthetic_key) then dput d3 synthetic_key (PBool True) else d3)"
    by (simp add: save_case_def Let_def d0_def d1_def d2_def d3_def)
  have l3: "dlookup d3 k = (if ?bench then dlookup ?m k else dlookup d2 k)"
    unfolding d3_def foldl_dput_lookup [OF wf_meta_filter [OF assms]] dlookup_filter_benchmark [OF assms]
    by (auto simp: dget_default_def split: option.splits)
  have l2: "dlookup d2 k = (if k \<in> {''params'', ''dtype''} \<and> dhas ?m k then dlookup ?m k else dlookup d1 k)"
    by (auto simp: d2_def dict_simps)
  have l1: "dlookup d1 k = (if k = ''shape'' \<and> shape c \<noteq> PNone then Some (shape c) else dlookup d0 k)"
    by (auto simp: d1_def dict_simps)
  have l0: "dlookup d0 k = (if k = ''test_case_id'' then Some (test_case_id c)
      else if k = ''execution_time_ms'' then Some (time_value (execution_time_ms c)) else None)"
    by (auto simp: d0_def)
  show ?thesis
    unfolding sv l0 [symmetric] l1 [symmetric] l2 [symmetric]
    by (simp add: dict_simps l3)
qed

section \<open>Properties\<close>

text \<open>
  Host-side timings cannot influence a measurement: two rows that differ only in the
  host timing fields give the same time from the same field, or the second gives no time at
  all.  (A host field may void the two last-resort formats, it can never supply or scale a
  value.)
\<close>

theorem host_time_noninterference:
  assumes same: "\<And>k. k \<notin> set host_time_keys \<Longrightarrow> dlookup d k = dlookup d' k"
    and m: "extract_time d b tt = Inr (t, Some k)"
  shows "extract_time d' b tt = Inr (t, Some k) \<or> extract_time d' b tt = Inr (Fin 0, None)"
proof -
  have torch: "torch2hip_value d b tt = torch2hip_value d' b tt"
    by (rule torch2hip_cong) (auto intro!: same simp: time_keys)
  have dev: "first_time d device_time_keys = first_time d' device_time_keys"
    by (rule first_time_cong) (auto intro!: same simp: time_keys)
  have amb: "first_time d ambiguous_time_keys = first_time d' ambiguous_time_keys"
    by (rule first_time_cong) (auto intro!: same simp: time_keys)
  have tim: "timing_ms_value d = timing_ms_value d'"
    by (rule timing_ms_cong) (rule same, simp add: time_keys)
  have thr: "throughput_value d = throughput_value d'"
    by (rule throughput_cong) (rule same, simp add: time_keys)
  show ?thesis
  proof (cases "list_ex (dhas d) host_time_keys = list_ex (dhas d') host_time_keys")
    case True
    have "extract_time d b tt = extract_time d' b tt"
      unfolding extract_time_def torch dev amb tim thr True ..
    with m show ?thesis by simp
  next
    case False
    with m show ?thesis
      unfolding extract_time_def torch dev amb tim thr or_else_if
      by (simp split: if_splits)
  qed
qed

lemma host_time_noninterference_witness:
  "extract_time [(PStr ''wall_time_ms'', PInt 1), (PStr ''gpu_time_ms'', PInt 7)] False None
     = Inr (Fin 7, Some ''gpu_time_ms'')"
proof -
  let ?d = "[(PStr ''gpu_time_ms'', PInt 7)]"
  let ?d' = "[(PStr ''wall_time_ms'', PInt 1), (PStr ''gpu_time_ms'', PInt 7)]"
  have m: "extract_time ?d False None = Inr (Fin 7, Some ''gpu_time_ms'')" by code_simp
  have "extract_time ?d' False None = Inr (Fin 7, Some ''gpu_time_ms'')
      \<or> extract_time ?d' False None = Inr (Fin 0, None)"
    by (rule host_time_noninterference [OF _ m]) (auto simp: time_keys)
  moreover have "extract_time ?d' False None \<noteq> Inr (Fin 0, None)" by code_simp
  ultimately show ?thesis by blast
qed

text \<open>
  Every parsed case names the field its time came from, that field is none of the
  host-side timings, and the case is marked synthetic exactly when the row carries no
  \<open>test_case_id\<close> of its own.
\<close>

theorem parsed_case_provenance:
  assumes "parse_single_case row i b tt = Inr (Some c)"
  shows "\<exists>k t. extract_time row b tt = Inr (t, Some k) \<and> execution_time_ms c = FloatTime t
     \<and> (k \<noteq> [] \<longrightarrow> dlookup (metadata c) timing_source_key = Some (PStr k))
     \<and> k \<notin> set host_time_keys
     \<and> dlookup (metadata c) synthetic_key = Some (PBool (\<not> dhas row ''test_case_id''))"
proof -
  from assms obtain time matched m0 where
    e: "extract_time row b tt = Inr (time, matched)" and nz: "\<not> (feq time (Fin 0) \<and> matched = None)"
    and c: "c = \<lparr>test_case_id = dget_default row ''test_case_id'' (PStr i),
        shape = row_shape row, execution_time_ms = FloatTime time, metadata = finish_metadata row tt matched m0\<rparr>"
    by (auto simp: parse_single_case_def rbind_eq_Inr split: if_splits)
  from e nz obtain k where k: "matched = Some k"
    by (cases matched) (auto dest!: extract_time_none)
  have "timing_source_key \<noteq> synthetic_key" "timing_source_key \<noteq> ''bytes_per_second_gs''"
    "timing_source_key \<notin> {''speedup'', ''opt_time'', ''ori_time''}"
    by (simp_all add: timing_source_key_def synthetic_key_def)
  with c k have "execution_time_ms c = FloatTime time"
    "k \<noteq> [] \<longrightarrow> dlookup (metadata c) timing_source_key = Some (PStr k)"
    "dlookup (metadata c) synthetic_key = Some (PBool (\<not> dhas row ''test_case_id''))"
    by (auto simp: finish_metadata_def Let_def dict_simps)
  with e k show ?thesis using extract_time_source by auto
qed

lemma parsed_case_provenance_witness:
  "\<exists>c. parse_single_case [(PStr ''time_ms'', PInt 3)] ''test_case_0'' False None = Inr (Some c)
     \<and> dlookup (metadata c) synthetic_key = Some (PBool True)"
proof -
  have p: "parse_single_case [(PStr ''time_ms'', PInt 3)] ''test_case_0'' False None
    = Inr (Some \<lparr>test_case_id = PStr ''test_case_0'', shape = PNone, execution_time_ms = FloatTime (Fin 3),
        metadata = [(PStr ''_timing_source'', PStr ''time_ms''),
                    (PStr ''_synthetic_test_case_id'', PBool True)]\<rparr>)" by code_simp
  from parsed_case_provenance [OF p] p show ?thesis by (auto simp: synthetic_key_def)
qed

text \<open>
  What the matcher and the comparison gates read survives the YAML record: after saving
  and loading, a case has the same identifier and shape, the float its time converts to, the same declared workload
  (params, dtype), the same \<open>benchmark_*\<close> values and the same synthetic mark.
\<close>

theorem save_load_case:
  assumes "wf_meta (metadata c)" "time_float (execution_time_ms c) = Inr t"
  shows "\<exists>c'. load_case (PDict (save_case c)) = Inr c'
     \<and> test_case_id c' = test_case_id c \<and> shape c' = shape c
     \<and> execution_time_ms c' = FloatTime t
     \<and> (\<forall>k \<in> {''params'', ''dtype''}. dlookup (metadata c') k = dlookup (metadata c) k)
     \<and> (\<forall>k. starts_with ''benchmark_'' k \<longrightarrow> dget (metadata c') k = dget (metadata c) k)
     \<and> truthy (dget (metadata c') synthetic_key) = truthy (dget (metadata c) synthetic_key)"
proof -
  let ?s = "save_case c" and ?m = "metadata c"
  define c' where "c' = \<lparr>test_case_id = test_case_id c, shape = shape c,
    execution_time_ms = FloatTime t,
    metadata = dwithout ?s [''test_case_id'', ''shape'', ''execution_time_ms'']\<rparr>"
  note l = save_case_lookup [OF assms(1)]
  have t: "py_float (time_value (execution_time_ms c)) = Inr t"
    using assms(2) by (cases "execution_time_ms c") simp_all
  have "dget_default ?s ''execution_time_ms'' v = time_value (execution_time_ms c)"
    "dget_default ?s ''test_case_id'' v = test_case_id c" "dget ?s ''shape'' = shape c" for v
    by (simp_all add: dget_default_def l synthetic_key_def starts_with_def)
  then have "load_case (PDict ?s) = Inr c'" by (simp add: load_case_def c'_def t)
  moreover have "dlookup (metadata c') k = dlookup ?m k" if "k \<in> {''params'', ''dtype''}" for k
    using that by (auto simp: c'_def dict_simps l dhas_dlookup synthetic_key_def starts_with_def)
  moreover have "dget (metadata c') k = dget ?m k" if "starts_with ''benchmark_'' k" for k
  proof -
    from that have "k \<notin> {''test_case_id'', ''shape'', ''execution_time_ms'', ''params'', ''dtype'', synthetic_key}"
      using benchmark_prefix_distinct by auto
    with that show ?thesis by (auto simp: c'_def dget_default_def dict_simps l split: option.splits)
  qed
  moreover have "truthy (dget (metadata c') synthetic_key) = truthy (dget ?m synthetic_key)"
    using benchmark_prefix_distinct
    by (auto simp: c'_def dget_default_def dict_simps l synthetic_key_def)
  ultimately show ?thesis by (auto simp: c'_def)
qed

lemma save_load_case_witness:
  "\<exists>c'. load_case (PDict (save_case \<lparr>test_case_id = PStr ''a'', shape = PNone,
       execution_time_ms = FloatTime (Fin 2), metadata = [(PStr ''dtype'', PStr ''fp8'')]\<rparr>)) = Inr c'
     \<and> dlookup (metadata c') ''dtype'' = Some (PStr ''fp8'')"
  using save_load_case [of "\<lparr>test_case_id = PStr ''a'', shape = PNone,
       execution_time_ms = FloatTime (Fin 2), metadata = [(PStr ''dtype'', PStr ''fp8'')]\<rparr>"]
  by (auto simp: wf_meta_def wf_dict_def string_keys_def)

text \<open>
  \<open>_safe_float\<close> is documented to return \<open>None\<close> for invalid values, but the
  \<open>OverflowError\<close> of an integer too large for a float is not among the exceptions it
  catches and escapes; a finite float never raises.
\<close>

theorem safe_float_overflow_escapes:
  "safe_float (PInt (2 ^ 1024 + int n)) = Inl OverflowErr \<and> safe_float (PFloat f) \<noteq> Inl e"
proof -
  have "pow2 1024 \<le> of_int (2 ^ 1024 + int n)"
    by (simp add: pow2_def' del: of_int_power)
  then have "round64 (of_int (2 ^ 1024 + int n)) = PInf" by (rule round64_overflow)
  then show ?thesis
    unfolding safe_float_def by (simp add: float_of_int_def Let_def del: of_int_add of_int_power)
qed

end
