(* ===== verification/CaseMatching.thy ===== *)
theory CaseMatching
  imports CaseParsing
begin

text \<open>
  The second half of \<open>src/testcases.py\<close>: pairing baseline and optimized cases by unique
  keys, the workload and benchmark-method gates over the pairs, and the average speedup.
  A case list is addressed by index, as the code addresses it by object identity.
\<close>

section \<open>Keys\<close>

text \<open>\<open>freeze_value\<close>: dictionaries and lists become tuples (lists of the model).\<close>

fun freeze :: "pyval \<Rightarrow> pyval" where
  "freeze (PDict d) = PList (map (\<lambda>kv. PList [fst kv, snd kv])
     (sort_key (key_string \<circ> fst) (map (\<lambda>kv. (fst kv, freeze (snd kv))) d)))"
| "freeze (PList xs) = PList (map freeze xs)"
| "freeze v = v"

definition get_params_key :: "test_case \<Rightarrow> pyval option" where
  "get_params_key c = (let p = dget (metadata c) ''params'' in
     if \<not> truthy p \<or> \<not> is_dict p then None else Some (freeze p))"

definition get_shape_key :: "test_case \<Rightarrow> pyval option" where
  "get_shape_key c = (if \<not> truthy (shape c) then None else Some (freeze (shape c)))"

definition get_explicit_id_key :: "test_case \<Rightarrow> pyval option" where
  "get_explicit_id_key c =
     (if \<not> truthy (test_case_id c) then None
      else if truthy (dget_default (metadata c) synthetic_key (PBool False)) then None
      else Some (test_case_id c))"

section \<open>Pairing\<close>

type_synonym pairing = "(nat \<times> nat) list"

text \<open>
  \<open>remaining_cases\<close>.  The two sets of used cases are always the two projections of the
  pairs matched so far: every append adds to both.
\<close>

definition remaining :: "nat \<Rightarrow> nat list \<Rightarrow> nat list" where
  "remaining n used = filter (\<lambda>i. i \<notin> set used) [0..<n]"

text \<open>The cases among \<open>idxs\<close> filed under the key \<open>k\<close>.\<close>

definition candidates ::
    "(test_case \<Rightarrow> pyval option) \<Rightarrow> test_case list \<Rightarrow> nat list \<Rightarrow> pyval \<Rightarrow> nat list" where
  "candidates key cases idxs k =
     filter (\<lambda>i. case key (cases ! i) of Some k' \<Rightarrow> py_eq k' k | None \<Rightarrow> False) idxs"

definition usable ::
    "(test_case \<Rightarrow> pyval option) \<Rightarrow> test_case list \<Rightarrow> test_case list \<Rightarrow> nat list \<Rightarrow> nat list \<Rightarrow> nat \<Rightarrow> bool" where
  "usable key bs os rb ro i =
     (case key (bs ! i) of None \<Rightarrow> False
      | Some k \<Rightarrow> length (candidates key bs rb k) = 1 \<and> length (candidates key os ro k) = 1)"

definition partner ::
    "(test_case \<Rightarrow> pyval option) \<Rightarrow> test_case list \<Rightarrow> test_case list \<Rightarrow> nat list \<Rightarrow> nat \<Rightarrow> nat" where
  "partner key bs os ro i =
     (case key (bs ! i) of None \<Rightarrow> 0 | Some k \<Rightarrow> hd (candidates key os ro k))"

definition match_by_unique_key ::
    "test_case list \<Rightarrow> test_case list \<Rightarrow> pairing \<Rightarrow> (test_case \<Rightarrow> pyval option) \<Rightarrow> pairing" where
  "match_by_unique_key bs os m key =
     (let rb = remaining (length bs) (map fst m); ro = remaining (length os) (map snd m)
      in m @ map (\<lambda>i. (i, partner key bs os ro i)) (filter (usable key bs os rb ro) rb))"

definition strategies :: "(test_case \<Rightarrow> pyval option) list" where
  "strategies = [get_explicit_id_key, get_params_key, get_shape_key]"

definition index_fallback :: "test_case list \<Rightarrow> test_case list \<Rightarrow> pairing \<Rightarrow> pairing" where
  "index_fallback bs os m =
     m @ zip (remaining (length bs) (map fst m)) (remaining (length os) (map snd m))"

text \<open>
  \<open>match_test_cases\<close>.  An explicit identifier that is a list or a mapping cannot be a
  dictionary key: a \<open>TypeError\<close> of the first pass.
\<close>

definition match_test_cases ::
    "test_case list \<Rightarrow> test_case list \<Rightarrow> bool \<Rightarrow> (py_exc, pairing) result" where
  "match_test_cases bs os allow_index_fallback =
     (if list_ex (\<lambda>c. case get_explicit_id_key c of Some k \<Rightarrow> \<not> hashable k | None \<Rightarrow> False) (bs @ os)
      then Inl TypeErr
      else let m = foldl (match_by_unique_key bs os) [] strategies
           in Inr (if allow_index_fallback then index_fallback bs os m else m))"

section \<open>The gates\<close>

type_synonym case_pair = "test_case \<times> test_case"

definition pair_cases :: "test_case list \<Rightarrow> test_case list \<Rightarrow> pairing \<Rightarrow> case_pair list" where
  "pair_cases bs os m = map (\<lambda>(i, j). (bs ! i, os ! j)) m"

record method_mismatch =
  mm_case :: pyval
  mm_optimized_case :: pyval
  mm_baseline :: pyval
  mm_optimized :: pyval
  mm_reason :: "string option"

definition comparable_method :: "pyval \<Rightarrow> bool" where
  "comparable_method v = (v = PStr ''cuda_graph'' \<or> v = PStr ''cuda_event_fallback'')"

definition mixed_method :: "pyval \<Rightarrow> bool" where
  "mixed_method v = (case v of PStr s \<Rightarrow> starts_with ''mixed:'' s | _ \<Rightarrow> False)"

text \<open>One pair: nothing, a mismatch, or the \<open>TypeError\<close> of an unhashable method.\<close>

definition method_check :: "case_pair \<Rightarrow> (py_exc, method_mismatch list) result" where
  "method_check p = (case p of (b, opt) \<Rightarrow>
     let bm = dget (metadata b) ''benchmark_method'';
         om = dget (metadata opt) ''benchmark_method'';
         reported = (dget (metadata b) ''benchmark_method_consistent'' = PBool False
                     \<or> dget (metadata opt) ''benchmark_method_consistent'' = PBool False);
         mixed = (mixed_method bm \<or> mixed_method om);
         unknown = (\<not> comparable_method bm \<or> \<not> comparable_method om)
     in if \<not> hashable bm \<or> (comparable_method bm \<and> \<not> hashable om) then Inl TypeErr
        else if py_eq bm om \<and> \<not> mixed \<and> \<not> unknown \<and> \<not> reported then Inr []
        else Inr [\<lparr>mm_case = test_case_id b, mm_optimized_case = test_case_id opt,
                   mm_baseline = bm, mm_optimized = om,
                   mm_reason = (if reported then Some ''task_reported_method_mismatch''
                                else if mixed then Some ''ambiguous_mixed_aggregate''
                                else if unknown then Some ''missing_or_unknown_benchmark_method''
                                else None)\<rparr>])"

definition benchmark_method_mismatches :: "case_pair list \<Rightarrow> (py_exc, method_mismatch list) result" where
  "benchmark_method_mismatches ps = rbind (mapR method_check ps) (\<lambda>xs. Inr (concat xs))"

text \<open>The declared workload of a case.\<close>

definition workload :: "test_case \<Rightarrow> pydict" where
  "workload c =
     (let f = copy_key (metadata c) ''dtype'' (copy_key (metadata c) ''params'' [])
      in if shape c \<noteq> PNone then dput f ''shape'' (shape c) else f)"

text \<open>The sorted names of the fields that differ or are declared on one side only.\<close>

definition changed_fields :: "pydict \<Rightarrow> pydict \<Rightarrow> string list" where
  "changed_fields base opt =
     filter (\<lambda>k. case (dlookup base k, dlookup opt k) of
                   (None, None) \<Rightarrow> False | (Some x, Some y) \<Rightarrow> \<not> py_eq x y | _ \<Rightarrow> True)
       [''dtype'', ''params'', ''shape'']"

record workload_mismatch =
  wm_case :: pyval
  wm_optimized_case :: pyval
  wm_fields :: "string list"
  wm_baseline :: pydict
  wm_optimized :: pydict

definition workload_mismatches :: "case_pair list \<Rightarrow> workload_mismatch list" where
  "workload_mismatches ps = concat (map (\<lambda>(b, opt).
     let f = changed_fields (workload b) (workload opt)
     in if f = [] then []
        else [\<lparr>wm_case = test_case_id b, wm_optimized_case = test_case_id opt, wm_fields = f,
               wm_baseline = workload b, wm_optimized = workload opt\<rparr>]) ps)"

definition singletons :: "test_case list \<Rightarrow> test_case list \<Rightarrow> bool" where
  "singletons bs os = (length bs = 1 \<and> length os = 1)"

definition analyze_workload_consistency ::
    "test_case list \<Rightarrow> test_case list \<Rightarrow> (py_exc, bool \<times> workload_mismatch list) result" where
  "analyze_workload_consistency bs os =
     rbind (match_test_cases bs os (singletons bs os)) (\<lambda>m.
       let mis = workload_mismatches (pair_cases bs os m);
           complete = (m \<noteq> [] \<and> length m = length bs \<and> length bs = length os)
       in Inr (complete \<and> mis = [], mis))"

definition incomplete :: "test_case list \<Rightarrow> test_case list \<Rightarrow> pairing \<Rightarrow> bool" where
  "incomplete bs os m = (length m \<noteq> length bs \<or> length m \<noteq> length os)"

definition analyze_benchmark_method_consistency ::
    "test_case list \<Rightarrow> test_case list \<Rightarrow> bool \<Rightarrow> (py_exc, bool \<times> method_mismatch list) result" where
  "analyze_benchmark_method_consistency bs os require_complete =
     rbind (match_test_cases bs os (\<not> require_complete \<or> singletons bs os)) (\<lambda>m.
       if m = [] then Inr (False, [])
       else if require_complete \<and> incomplete bs os m then Inr (False, [])
       else rbind (benchmark_method_mismatches (pair_cases bs os m)) (\<lambda>mis. Inr (mis = [], mis)))"

section \<open>The average speedup\<close>

definition valid_times :: "case_pair \<Rightarrow> bool" where
  "valid_times p = (case p of (b, opt) \<Rightarrow>
     finite_time (execution_time_ms b) \<and> finite_time (execution_time_ms opt)
     \<and> positive_time (execution_time_ms b) \<and> positive_time (execution_time_ms opt))"

text \<open>The loop over the pairs: \<open>None\<close> is the early return of 0.\<close>

fun collect_speedups :: "bool \<Rightarrow> case_pair list \<Rightarrow> (py_exc, pyfloat list option) result" where
  "collect_speedups require_complete [] = Inr (Some [])"
| "collect_speedups require_complete (p # ps) =
     (if valid_times p
      then rbind (time_div (execution_time_ms (fst p)) (execution_time_ms (snd p))) (\<lambda>s.
             rbind (collect_speedups require_complete ps) (\<lambda>r. Inr (map_option (Cons s) r)))
      else if require_complete then Inr None else collect_speedups require_complete ps)"

definition average :: "pyfloat list \<Rightarrow> (py_exc, pyfloat) result" where
  "average xs = rbind (float_of_int (int (length xs))) (\<lambda>n. fdiv (fsum xs) n)"

definition calculate_average_speedup ::
    "test_case list \<Rightarrow> test_case list \<Rightarrow> bool \<Rightarrow> (py_exc, pyfloat) result" where
  "calculate_average_speedup bs os require_complete =
     rbind (match_test_cases bs os (\<not> require_complete \<or> singletons bs os)) (\<lambda>m.
       let ps = pair_cases bs os m in
       if m = [] then Inr (Fin 0)
       else if require_complete \<and> incomplete bs os m then Inr (Fin 0)
       else if workload_mismatches ps \<noteq> [] then Inr (Fin 0)
       else rbind (benchmark_method_mismatches ps) (\<lambda>mis.
         if mis \<noteq> [] then Inr (Fin 0)
         else rbind (collect_speedups require_complete ps) (\<lambda>r. case r of
             None \<Rightarrow> Inr (Fin 0)
           | Some speedups \<Rightarrow> if speedups = [] then Inr (Fin 0) else average speedups)))"

section \<open>Equality of keys\<close>

text \<open>Keys contain no dictionaries; on such values \<open>==\<close> is symmetric and transitive.\<close>

fun frozen :: "pyval \<Rightarrow> bool" where
  "frozen (PDict _) = False"
| "frozen (PList xs) = (\<forall>x \<in> set xs. frozen x)"
| "frozen _ = True"

lemma py_eq_list_all2: "py_eq_list xs ys = list_all2 py_eq xs ys"
  by (induction xs arbitrary: ys) (auto simp: list_all2_Cons1 split: list.splits)

lemma py_eq_numeric:
  "numeric x = Some f \<Longrightarrow> py_eq x y \<longleftrightarrow> (\<exists>g. numeric y = Some g \<and> feq f g)"
  by (cases x) (auto split: option.splits)

lemma feq_trans: "feq x y \<Longrightarrow> feq y z \<Longrightarrow> feq x z"
  by (cases x; cases y; cases z) auto

lemma py_eq_sym: "frozen x \<Longrightarrow> frozen y \<Longrightarrow> py_eq x y \<Longrightarrow> py_eq y x"
proof (induction x arbitrary: y)
  case (PList xs)
  then obtain ys where y: "y = PList ys" "list_all2 py_eq xs ys" "\<forall>z \<in> set ys. frozen z"
    by (auto simp: py_eq_list_all2 split: pyval.splits)
  then have "list_all2 py_eq ys xs"
    using PList by (auto simp: list_all2_conv_all_nth)
  with y show ?case by (simp add: py_eq_list_all2)
qed (auto simp: feq_sym py_eq_numeric split: option.splits)

lemma py_eq_trans:
  "frozen x \<Longrightarrow> frozen y \<Longrightarrow> py_eq x y \<Longrightarrow> py_eq y z \<Longrightarrow> py_eq x z"
proof (induction x arbitrary: y z)
  case (PList xs)
  then obtain ys where y: "y = PList ys" "list_all2 py_eq xs ys" "\<forall>z \<in> set ys. frozen z"
    by (auto simp: py_eq_list_all2 split: pyval.splits)
  with PList.prems obtain zs where z: "z = PList zs" "list_all2 py_eq ys zs"
    by (auto simp: py_eq_list_all2 split: pyval.splits)
  have "list_all2 py_eq xs zs"
    using PList.IH PList.prems(1) y z
    by (auto simp: list_all2_conv_all_nth) (metis nth_mem)
  with z show ?case by (simp add: py_eq_list_all2)
qed (auto simp: py_eq_numeric split: option.splits intro: feq_trans)

text \<open>In every Python value the keys of a dictionary are hashable.\<close>

fun python_value :: "pyval \<Rightarrow> bool" where
  "python_value (PDict d) = (\<forall>kv \<in> set d. hashable (fst kv) \<and> python_value (snd kv))"
| "python_value (PList xs) = (\<forall>x \<in> set xs. python_value x)"
| "python_value _ = True"

lemma hashable_frozen: "hashable v \<Longrightarrow> frozen v"
  by (cases v) auto

lemma frozen_freeze: "python_value v \<Longrightarrow> frozen (freeze v)"
  by (induction v) (auto intro: hashable_frozen)

text \<open>A pass is sound for keys that are frozen wherever they exist.\<close>

definition frozen_keys :: "(test_case \<Rightarrow> pyval option) \<Rightarrow> test_case list \<Rightarrow> bool" where
  "frozen_keys key cs = (\<forall>c \<in> set cs. \<forall>k. key c = Some k \<longrightarrow> frozen k)"

definition python_case :: "test_case \<Rightarrow> bool" where
  "python_case c = (python_value (shape c) \<and> python_value (dget (metadata c) ''params'')
     \<and> (\<forall>k. get_explicit_id_key c = Some k \<longrightarrow> hashable k))"

lemma frozen_keys_strategies:
  "\<forall>c \<in> set cs. python_case c \<Longrightarrow> key \<in> set strategies \<Longrightarrow> frozen_keys key cs"
  by (auto simp: frozen_keys_def strategies_def python_case_def get_params_key_def
      get_shape_key_def Let_def intro!: frozen_freeze intro: hashable_frozen split: if_splits)

section \<open>Pairings are one-to-one\<close>

lemma set_remaining [simp]: "set (remaining n used) = {i. i < n \<and> i \<notin> set used}"
  by (auto simp: remaining_def)

lemma distinct_remaining [simp]: "distinct (remaining n used)"
  by (simp add: remaining_def)

definition one_to_one :: "test_case list \<Rightarrow> test_case list \<Rightarrow> pairing \<Rightarrow> bool" where
  "one_to_one bs os m =
     (distinct (map fst m) \<and> distinct (map snd m) \<and> set m \<subseteq> {..<length bs} \<times> {..<length os})"

lemma singleton_list_mem: "length xs = 1 \<Longrightarrow> x \<in> set xs \<Longrightarrow> y \<in> set xs \<Longrightarrow> x = y"
  by (cases xs) auto

lemma usable_partner:
  assumes "usable key bs os rb ro i"
  obtains k k' where "key (bs ! i) = Some k" "partner key bs os ro i \<in> set ro"
    "key (os ! partner key bs os ro i) = Some k'" "py_eq k' k"
    "length (candidates key bs rb k) = 1"
proof -
  from assms obtain k where k: "key (bs ! i) = Some k" "length (candidates key bs rb k) = 1"
    "length (candidates key os ro k) = 1"
    by (auto simp: usable_def split: option.splits)
  then have "partner key bs os ro i = hd (candidates key os ro k)"
    by (simp add: partner_def)
  with k(3) have "partner key bs os ro i \<in> set (candidates key os ro k)"
    by (metis hd_in_set list.size(3) zero_neq_one)
  then have "partner key bs os ro i \<in> set ro"
    "\<exists>k'. key (os ! partner key bs os ro i) = Some k' \<and> py_eq k' k"
    by (auto simp: candidates_def split: option.splits)
  with k that show ?thesis by blast
qed

lemma partner_inj:
  assumes fb: "frozen_keys key bs" and fo: "frozen_keys key os"
    and rb: "set rb \<subseteq> {..<length bs}" and ro: "set ro \<subseteq> {..<length os}"
  shows "inj_on (partner key bs os ro) {i \<in> set rb. usable key bs os rb ro i}"
proof (rule inj_onI)
  fix i i'
  assume i: "i \<in> {i \<in> set rb. usable key bs os rb ro i}"
    and i': "i' \<in> {i \<in> set rb. usable key bs os rb ro i}"
    and eq: "partner key bs os ro i = partner key bs os ro i'"
  let ?j = "partner key bs os ro i"
  from i obtain k h where k: "key (bs ! i) = Some k" "?j \<in> set ro" "key (os ! ?j) = Some h" "py_eq h k"
      "length (candidates key bs rb k) = 1"
    by (auto elim: usable_partner)
  from i' obtain k' h' where k': "key (bs ! i') = Some k'" "key (os ! ?j) = Some h'" "py_eq h' k'"
    unfolding eq by (auto elim: usable_partner)
  from k(3) k'(2) have [simp]: "h' = h" by simp
  have "i < length bs" "i' < length bs" "?j < length os" using i i' k(2) rb ro by auto
  then have fr: "frozen k" "frozen k'" "frozen h"
    using fb fo k(1,3) k'(1) by (auto simp: frozen_keys_def)
  have "py_eq k' h" using py_eq_sym fr k'(3) by simp
  then have k'k: "py_eq k' k" using py_eq_trans [OF fr(2,3) _ k(4)] by simp
  have kk: "py_eq k k"
    using py_eq_trans [OF fr(1,3) _ k(4)] py_eq_sym [OF fr(3,1) k(4)] by simp
  have "i \<in> set (candidates key bs rb k)" "i' \<in> set (candidates key bs rb k)"
    using i i' k(1) k'(1) kk k'k by (auto simp: candidates_def)
  with k(5) show "i = i'" by (rule singleton_list_mem)
qed

lemma match_by_unique_key_one_to_one:
  assumes m: "one_to_one bs os m" and "frozen_keys key bs" "frozen_keys key os"
  shows "one_to_one bs os (match_by_unique_key bs os m key)"
proof -
  let ?rb = "remaining (length bs) (map fst m)" and ?ro = "remaining (length os) (map snd m)"
  let ?new = "filter (usable key bs os ?rb ?ro) ?rb" and ?p = "partner key bs os ?ro"
  have inj: "inj_on ?p (set ?new)"
    using partner_inj [OF assms(2,3), of ?rb ?ro] by (auto intro: inj_on_subset)
  have pin: "?p i \<in> set ?ro" if "i \<in> set ?new" for i
  proof -
    from that have "usable key bs os ?rb ?ro i" by simp
    then show ?thesis by (rule usable_partner)
  qed
  have "distinct (map fst (m @ map (\<lambda>i. (i, ?p i)) ?new))"
    using m by (auto simp: one_to_one_def comp_def)
  moreover have "?p i \<notin> set (map snd m)" if "i \<in> set ?new" for i
    using pin [OF that] unfolding set_remaining by blast
  then have disj: "set (map snd m) \<inter> ?p ` set ?new = {}"
    by blast
  then have "distinct (map snd (m @ map (\<lambda>i. (i, ?p i)) ?new))"
    using m inj by (simp add: one_to_one_def comp_def distinct_map image_image)
  moreover have "?p i < length os" if "i \<in> set ?new" for i
    using pin [OF that] unfolding set_remaining by blast
  ultimately show ?thesis
    using m unfolding one_to_one_def match_by_unique_key_def Let_def by auto
qed

lemma index_fallback_one_to_one:
  assumes "one_to_one bs os m"
  shows "one_to_one bs os (index_fallback bs os m)"
proof -
  let ?rb = "remaining (length bs) (map fst m)" and ?ro = "remaining (length os) (map snd m)"
  have z: "map fst (zip ?rb ?ro) = take (length ?ro) ?rb" "map snd (zip ?rb ?ro) = take (length ?rb) ?ro"
    by (simp_all add: map_fst_zip_take map_snd_zip_take take_all_iff min_def)
  have sub: "set (take n xs) \<subseteq> set xs" for n and xs :: "nat list" by (rule set_take_subset)
  have dist: "distinct (map fst (m @ zip ?rb ?ro))" "distinct (map snd (m @ zip ?rb ?ro))"
    using assms sub [of "length ?ro" ?rb] sub [of "length ?rb" ?ro]
    unfolding map_append z by (auto simp: one_to_one_def)
  moreover have "set (zip ?rb ?ro) \<subseteq> {..<length bs} \<times> {..<length os}"
    by (auto dest: set_zip_leftD set_zip_rightD)
  ultimately show ?thesis
    using assms by (auto simp: one_to_one_def index_fallback_def)
qed

lemma match_passes_one_to_one:
  assumes "\<forall>c \<in> set bs \<union> set os. python_case c" and "set ks \<subseteq> set strategies" "one_to_one bs os m"
  shows "one_to_one bs os (foldl (match_by_unique_key bs os) m ks)"
  using assms(2,3)
proof (induction ks arbitrary: m)
  case (Cons key ks)
  then have "frozen_keys key bs" "frozen_keys key os"
    using frozen_keys_strategies assms(1) by auto
  with Cons show ?case by (simp add: match_by_unique_key_one_to_one)
qed simp

lemma match_test_cases_ok:
  "match_test_cases bs os fb = Inr m \<Longrightarrow>
     m = (let m0 = foldl (match_by_unique_key bs os) [] strategies
          in if fb then index_fallback bs os m0 else m0)
     \<and> (\<forall>c \<in> set bs \<union> set os. \<forall>k. get_explicit_id_key c = Some k \<longrightarrow> hashable k)"
  by (auto simp: match_test_cases_def Let_def list_ex_iff split: if_splits option.splits)

section \<open>What a match means\<close>

definition share_key :: "(test_case \<Rightarrow> pyval option) \<Rightarrow> test_case \<Rightarrow> test_case \<Rightarrow> bool" where
  "share_key key b opt = (\<exists>k k'. key b = Some k \<and> key opt = Some k' \<and> py_eq k' k)"

lemma match_by_unique_key_shares:
  "(i, j) \<in> set (match_by_unique_key bs os m key) \<Longrightarrow>
     (i, j) \<in> set m \<or> share_key key (bs ! i) (os ! j)"
  by (auto simp: match_by_unique_key_def Let_def share_key_def elim: usable_partner)

lemma match_passes_share:
  "(i, j) \<in> set (foldl (match_by_unique_key bs os) m ks) \<Longrightarrow>
     (i, j) \<in> set m \<or> (\<exists>key \<in> set ks. share_key key (bs ! i) (os ! j))"
  by (induction ks arbitrary: m) (auto dest!: match_by_unique_key_shares)

lemma match_by_unique_key_keeps: "set m \<subseteq> set (match_by_unique_key bs os m key)"
  by (auto simp: match_by_unique_key_def Let_def)

lemma match_passes_keep: "set m \<subseteq> set (foldl (match_by_unique_key bs os) m ks)"
  by (induction ks arbitrary: m) (use match_by_unique_key_keeps in fastforce)+

lemma remaining_Nil [simp]: "remaining n [] = [0..<n]"
  by (simp add: remaining_def)

lemma first_pass_finds:
  assumes "key (bs ! i) = Some k" "candidates key bs [0..<length bs] k = [i]"
    and "candidates key os [0..<length os] k = [j]"
  shows "(i, j) \<in> set (match_by_unique_key bs os [] key)"
proof -
  have "i \<in> set (candidates key bs [0..<length bs] k)" using assms(2) by simp
  then have "i < length bs" by (auto simp: candidates_def)
  with assms show ?thesis
    by (auto simp: match_by_unique_key_def Let_def usable_def partner_def)
qed

lemma complete_pairing_onto:
  assumes "one_to_one bs os m" "length m = length bs" "length m = length os"
  shows "set (map fst m) = {..<length bs} \<and> set (map snd m) = {..<length os}"
proof -
  have "card (set (map fst m)) = card {..<length bs}" "card (set (map snd m)) = card {..<length os}"
    using assms by (simp_all add: one_to_one_def distinct_card del: set_map)
  moreover have "set (map fst m) \<subseteq> {..<length bs}" "set (map snd m) \<subseteq> {..<length os}"
    using assms(1) by (auto simp: one_to_one_def)
  ultimately show ?thesis by (simp add: card_subset_eq del: set_map)
qed

lemma method_check_ok:
  "method_check (b, opt) = Inr [] \<Longrightarrow>
     comparable_method (dget (metadata b) ''benchmark_method'')
     \<and> dget (metadata opt) ''benchmark_method'' = dget (metadata b) ''benchmark_method''"
  by (auto simp: method_check_def Let_def comparable_method_def split: if_splits)

lemma method_mismatches_Nil:
  "benchmark_method_mismatches ps = Inr [] \<Longrightarrow> p \<in> set ps \<Longrightarrow> method_check p = Inr []"
  by (auto simp: benchmark_method_mismatches_def rbind_eq_Inr mapR_eq_Inr list_all2_conv_all_nth
      in_set_conv_nth) (metis nth_mem)

lemma workload_mismatches_Nil:
  "workload_mismatches ps = [] \<Longrightarrow> (b, opt) \<in> set ps \<Longrightarrow>
     changed_fields (workload b) (workload opt) = []"
  by (force simp: workload_mismatches_def Let_def split: if_splits)

lemma collect_speedups_valid:
  "collect_speedups True ps = Inr (Some xs) \<Longrightarrow>
     (\<forall>p \<in> set ps. valid_times p) \<and> length xs = length ps"
  by (induction ps arbitrary: xs) (auto simp: rbind_eq_Inr split: if_splits)

lemma average_speedup_nonzero:
  assumes "calculate_average_speedup bs os rc = Inr v" "v \<noteq> Fin 0"
  obtains m xs where "match_test_cases bs os (\<not> rc \<or> singletons bs os) = Inr m" "m \<noteq> []"
    "rc \<longrightarrow> \<not> incomplete bs os m" "workload_mismatches (pair_cases bs os m) = []"
    "benchmark_method_mismatches (pair_cases bs os m) = Inr []"
    "collect_speedups rc (pair_cases bs os m) = Inr (Some xs)" "xs \<noteq> []" "average xs = Inr v"
  using assms
  by (auto simp: calculate_average_speedup_def Let_def rbind_eq_Inr split: if_splits option.splits)

section \<open>The arithmetic of the average\<close>

abbreviation nonneg :: "pyfloat \<Rightarrow> bool" where
  "nonneg x \<equiv> fle (Fin 0) x"

lemma nonneg_not_nan: "nonneg x \<Longrightarrow> x \<noteq> NaN"
  by (auto simp: fle_def)

lemma nonneg_fval: "nonneg x \<Longrightarrow> 0 \<le> fval x"
  by (cases x) (auto simp: fle_def)

lemma round64_nonneg': "0 \<le> q \<Longrightarrow> nonneg (round64 q)"
  using b64.above [of 0 q] by simp

lemma fadd_nonneg: "nonneg x \<Longrightarrow> nonneg y \<Longrightarrow> nonneg (fadd x y)"
  using nonneg_fval [of x] nonneg_fval [of y] round64_nonneg' [of "fval x + fval y"]
  by (cases x; cases y) (auto simp: fle_def)

lemma fsum_nonneg: "\<forall>x \<in> set xs. nonneg x \<Longrightarrow> nonneg (fsum xs)"
proof -
  have "nonneg a \<Longrightarrow> \<forall>x \<in> set xs. nonneg x \<Longrightarrow> nonneg (foldl fadd a xs)" for a
    by (induction xs arbitrary: a) (auto intro: fadd_nonneg)
  then show "\<forall>x \<in> set xs. nonneg x \<Longrightarrow> nonneg (fsum xs)"
    by (simp add: fsum_def fle_def)
qed

lemma fdiv_nonneg:
  assumes "nonneg x" "isfinite y" "flt (Fin 0) y" "fdiv x y = Inr z"
  shows "nonneg z"
proof -
  obtain q where y: "y = Fin q" "0 < q" using isfinite_positive_Fin assms(2,3) by blast
  with assms(1,4) nonneg_fval [OF assms(1)] show ?thesis
    using round64_nonneg' [of "fval x / q"]
    by (cases x) (auto simp: fdiv_def Let_def fle_def signed_zero_def signed_inf_def split: if_splits)
qed

lemma float_of_int_pos:
  assumes "0 < k" "float_of_int k = Inr f"
  shows "isfinite f \<and> flt (Fin 0) f"
proof -
  from assms(2) have f: "f = round64 (of_int k)" "isfinite f"
    by (auto simp: float_of_int_def Let_def split: if_splits)
  have "fle (Fin (of_int 1)) (round64 (of_int k))"
    using assms(1) by (intro b64.above) auto
  then have "fle (Fin 1) f" using f by simp
  with f(2) show ?thesis by (cases f) (auto simp: fle_def)
qed

lemma finite_time_float:
  assumes "finite_time t" "positive_time t"
  shows "\<exists>f. time_float t = Inr f \<and> isfinite f \<and> flt (Fin 0) f"
proof (cases t)
  case (IntTime k)
  with assms(1) have "float_of_int k = Inr (round64 (of_int k))" by (simp add: float_of_int_def)
  with float_of_int_pos [of k] assms(2) show ?thesis by (simp add: IntTime)
qed (use assms in simp)

lemma int_div_nonneg:
  assumes "0 < a" "0 < b" "int_div a b = Inr z"
  shows "nonneg z"
proof -
  from assms have "z = round64 (of_int a / of_int b)" by (simp add: int_div_def Let_def split: if_splits)
  with assms(1, 2) round64_nonneg' [of "of_int a / of_int b"] show ?thesis by simp
qed

lemma time_div_nonneg:
  assumes "positive_time x" "finite_time y" "positive_time y" "time_div x y = Inr z" "finite_time x"
  shows "nonneg z"
proof (cases "\<exists>a b. x = IntTime a \<and> y = IntTime b")
  case True
  then obtain a b where "x = IntTime a" "y = IntTime b" by blast
  with assms(1, 3, 4) show ?thesis by (intro int_div_nonneg [of a b z]) simp_all
next
  case False
  then have d: "time_div x y = rbind (time_float x) (\<lambda>x. rbind (time_float y) (fdiv x))"
    by (cases x; cases y) simp_all
  obtain f where f: "time_float x = Inr f" "isfinite f" "flt (Fin 0) f" using finite_time_float assms(1, 5) by blast
  obtain g where g: "time_float y = Inr g" "isfinite g" "flt (Fin 0) g" using finite_time_float assms(2, 3) by blast
  from assms(4) have "fdiv f g = Inr z" by (simp add: d f(1) g(1))
  moreover have "nonneg f" using f(3) by (simp add: fle_def)
  ultimately show ?thesis using g(2, 3) fdiv_nonneg by blast
qed

lemma collect_speedups_nonneg:
  "collect_speedups rc ps = Inr (Some xs) \<Longrightarrow> \<forall>x \<in> set xs. nonneg x"
proof (induction ps arbitrary: xs)
  case (Cons p ps)
  show ?case
  proof (cases "valid_times p")
    case True
    with Cons.prems obtain s ys where s: "time_div (execution_time_ms (fst p)) (execution_time_ms (snd p)) = Inr s"
      and ys: "collect_speedups rc ps = Inr (Some ys)" "xs = s # ys"
      by (auto simp: rbind_eq_Inr)
    have "nonneg s"
      using True by (intro time_div_nonneg [OF _ _ _ s _]) (simp_all add: valid_times_def split: prod.splits)
    with ys Cons.IH show ?thesis by simp
  qed (use Cons in \<open>auto split: if_splits\<close>)
qed simp

lemma average_nonneg:
  assumes "average xs = Inr v" "xs \<noteq> []" "\<forall>x \<in> set xs. nonneg x"
  shows "nonneg v"
  using assms float_of_int_pos [of "int (length xs)"] fsum_nonneg [OF assms(3)] fdiv_nonneg
  by (auto simp: average_def rbind_eq_Inr)

section \<open>A run compared with itself\<close>

lemma filter_eq_index: "i < n \<Longrightarrow> filter (\<lambda>j. j = i) [0..<n] = [i]"
proof -
  assume "i < n"
  then have "[0..<n] = [0..<i] @ i # [Suc i..<n]"
    using upt_add_eq_append [of 0 i "n - i"] upt_conv_Cons [of i n] by simp
  then show ?thesis by (simp add: filter_empty_conv)
qed

lemma candidates_by_name:
  assumes "map key cs = map (\<lambda>s. Some (PStr s)) ids" "distinct ids" "i < length cs"
  shows "candidates key cs [0..<length cs] (PStr (ids ! i)) = [i]"
proof -
  have l: "length ids = length cs" using assms(1) by (metis length_map)
  have "key (cs ! j) = Some (PStr (ids ! j))" if "j < length cs" for j
    using assms(1) that l by (metis nth_map)
  then have "candidates key cs [0..<length cs] (PStr (ids ! i)) = filter (\<lambda>j. j = i) [0..<length cs]"
    unfolding candidates_def
    by (intro filter_cong) (auto simp: nth_eq_iff_index_eq [OF assms(2)] l assms(3))
  with assms(3) show ?thesis by (simp add: filter_eq_index)
qed

lemma match_self:
  assumes k: "map get_explicit_id_key bs = map (\<lambda>s. Some (PStr s)) ids" and d: "distinct ids"
  shows "match_test_cases bs bs fb = Inr (map (\<lambda>i. (i, i)) [0..<length bs])"
proof -
  let ?n = "length bs" and ?e = get_explicit_id_key
  let ?id = "map (\<lambda>i. (i, i)) [0..<?n] :: pairing"
  have l: "length ids = ?n" using k by (metis length_map)
  have key: "?e (bs ! i) = Some (PStr (ids ! i))" if "i < ?n" for i
    using k that l by (metis nth_map)
  note c = candidates_by_name [OF k d]
  have "usable ?e bs bs [0..<?n] [0..<?n] i" "partner ?e bs bs [0..<?n] i = i" if "i < ?n" for i
    using that c [OF that] by (simp_all add: usable_def partner_def key)
  then have one: "match_by_unique_key bs bs [] ?e = ?id"
    by (simp add: match_by_unique_key_def Let_def cong: map_cong filter_cong)
  have rem: "remaining ?n (map fst ?id) = []" "remaining ?n (map snd ?id) = []"
    by (simp_all add: remaining_def filter_empty_conv comp_def)
  have stable: "match_by_unique_key bs bs ?id key = ?id" for key
    unfolding match_by_unique_key_def Let_def rem by simp
  have "index_fallback bs bs ?id = ?id" unfolding index_fallback_def rem by simp
  moreover have "foldl (match_by_unique_key bs bs) [] strategies = ?id"
    by (simp add: strategies_def one stable)
  moreover have "hashable h" if "x \<in> set bs" "?e x = Some h" for x h
    using that key by (auto simp: in_set_conv_nth)
  ultimately show ?thesis
    by (auto simp: match_test_cases_def Let_def list_ex_iff split: option.splits)
qed

lemma fsum_ones: "int n \<le> 2 ^ 53 \<Longrightarrow> fsum (replicate n (Fin 1)) = Fin (of_nat n)"
proof -
  have "int (a + n) \<le> 2 ^ 53 \<Longrightarrow> foldl fadd (Fin (of_nat a)) (replicate n (Fin 1)) = Fin (of_nat (a + n))" for a
  proof (induction n arbitrary: a)
    case (Suc n)
    have "round64 (of_int (int (Suc a))) = Fin (of_int (int (Suc a)))"
      using Suc.prems by (intro b64.exact) simp
    then have "fadd (Fin (of_nat a)) (Fin 1) = Fin (of_nat (Suc a))"
      by (simp add: add.commute)
    then show ?case using Suc.IH [of "Suc a"] Suc.prems by simp
  qed simp
  from this [of 0] show "int n \<le> 2 ^ 53 \<Longrightarrow> fsum (replicate n (Fin 1)) = Fin (of_nat n)"
    by (simp add: fsum_def)
qed

lemma fdiv_self: "0 < q \<Longrightarrow> fdiv (Fin q) (Fin q) = Inr (Fin 1)"
  using b64.exact [of 1] by (simp add: fdiv_def)

lemma time_div_self: "finite_time t \<Longrightarrow> positive_time t \<Longrightarrow> time_div t t = Inr (Fin 1)"
  using b64.exact [of 1] isfinite_positive_Fin fdiv_self by (cases t) (fastforce simp: int_div_def)+

lemma average_ones:
  assumes "0 < n" "int n \<le> 2 ^ 53"
  shows "average (replicate n (Fin 1)) = Inr (Fin 1)"
proof -
  have "float_of_int (int n) = Inr (Fin (of_nat n))"
    using float_of_int_small [of "int n"] assms(2) by simp
  with assms fsum_ones [OF assms(2)] fdiv_self [of "of_nat n"] show ?thesis
    by (simp add: average_def)
qed

text \<open>A case that can be compared: comparable method, positive time, plain workload.\<close>

definition comparable_case :: "test_case \<Rightarrow> bool" where
  "comparable_case c =
     (comparable_method (dget (metadata c) ''benchmark_method'')
      \<and> dget (metadata c) ''benchmark_method_consistent'' \<noteq> PBool False
      \<and> finite_time (execution_time_ms c) \<and> positive_time (execution_time_ms c)
      \<and> plain_value (shape c) \<and> plain_value (dget (metadata c) ''params'')
      \<and> plain_value (dget (metadata c) ''dtype''))"

lemma changed_fields_self: "comparable_case c \<Longrightarrow> changed_fields (workload c) (workload c) = []"
  by (auto simp: changed_fields_def workload_def Let_def dict_simps comparable_case_def dget_default_def
      dhas_dlookup filter_empty_conv split: option.splits intro: py_eq_refl)

lemma method_check_self: "comparable_case c \<Longrightarrow> method_check (c, c) = Inr []"
  by (auto simp: method_check_def Let_def comparable_case_def comparable_method_def mixed_method_def
      starts_with_def)

lemma collect_self:
  "\<forall>c \<in> set cs. comparable_case c \<Longrightarrow>
     collect_speedups rc (map (\<lambda>c. (c, c)) cs) = Inr (Some (replicate (length cs) (Fin 1)))"
proof (induction cs)
  case (Cons c cs)
  then have "valid_times (c, c)" "time_div (execution_time_ms c) (execution_time_ms c) = Inr (Fin 1)"
    by (auto simp: comparable_case_def valid_times_def intro: time_div_self)
  with Cons show ?case by simp
qed simp

section \<open>Properties\<close>

lemma matching_one_to_one:
  assumes "match_test_cases bs os fb = Inr m" and "\<forall>c \<in> set bs \<union> set os. python_case c"
  shows "one_to_one bs os m"
proof -
  let ?m0 = "foldl (match_by_unique_key bs os) [] strategies"
  have "one_to_one bs os ?m0"
    using assms(2) by (intro match_passes_one_to_one) (auto simp: one_to_one_def)
  then show ?thesis
    using match_test_cases_ok [OF assms(1)] by (auto simp: Let_def intro: index_fallback_one_to_one)
qed

text \<open>
  C20.  Matching is one-to-one on both sides whatever the strategies and the index fallback
  do: no baseline case and no optimized case is paired twice, and every pair names existing
  cases.
\<close>

theorem match_one_to_one:
  assumes "match_test_cases bs os fb = Inr m" and "\<forall>c \<in> set bs \<union> set os. python_case c"
  shows "distinct (map fst m) \<and> distinct (map snd m)
       \<and> (\<forall>(i, j) \<in> set m. i < length bs \<and> j < length os)"
  using matching_one_to_one [OF assms] by (auto simp: one_to_one_def)

definition sample_case :: "string \<Rightarrow> rat \<Rightarrow> test_case" where
  "sample_case i t = \<lparr>test_case_id = PStr i, shape = PNone, execution_time_ms = FloatTime (Fin t),
     metadata = [(PStr ''benchmark_method'', PStr ''cuda_graph'')]\<rparr>"

lemma match_one_to_one_witness:
  "\<exists>m. match_test_cases [sample_case ''a'' 6, sample_case ''b'' 4] [sample_case ''b'' 2, sample_case ''a'' 3] False = Inr m
     \<and> m = [(0, 1), (1, 0)] \<and> distinct (map snd m)"
proof -
  let ?bs = "[sample_case ''a'' 6, sample_case ''b'' 4]" and ?os = "[sample_case ''b'' 2, sample_case ''a'' 3]"
  have m: "match_test_cases ?bs ?os False = Inr [(0, 1), (1, 0)]" by code_simp
  have "\<forall>c \<in> set ?bs \<union> set ?os. python_case c"
    by (simp add: python_case_def sample_case_def get_explicit_id_key_def dget_default_def)
  from match_one_to_one [OF m this] m show ?thesis by blast
qed

text \<open>
  Without the index fallback every pair shares a key of one of the three strategies,
  and two cases that carry the same producer-supplied identifier, each unique on its side,
  are always paired with each other.
\<close>

theorem match_by_identity:
  assumes "match_test_cases bs os False = Inr m"
  shows "(\<forall>(i, j) \<in> set m. \<exists>key \<in> set strategies. share_key key (bs ! i) (os ! j))
       \<and> (\<forall>i j k. get_explicit_id_key (bs ! i) = Some k
            \<longrightarrow> candidates get_explicit_id_key bs [0..<length bs] k = [i]
            \<longrightarrow> candidates get_explicit_id_key os [0..<length os] k = [j] \<longrightarrow> (i, j) \<in> set m)"
proof -
  have m: "m = foldl (match_by_unique_key bs os) [] strategies"
    using match_test_cases_ok [OF assms] by (simp add: Let_def)
  have share: "\<forall>(i, j) \<in> set m. \<exists>key \<in> set strategies. share_key key (bs ! i) (os ! j)"
    unfolding m by (auto dest: match_passes_share)
  have "set (match_by_unique_key bs os [] get_explicit_id_key) \<subseteq> set m"
  proof -
    have "m = foldl (match_by_unique_key bs os) (match_by_unique_key bs os [] get_explicit_id_key)
        [get_params_key, get_shape_key]"
      by (simp add: m strategies_def)
    then show ?thesis by (simp only: match_passes_keep)
  qed
  with share show ?thesis by (blast intro: first_pass_finds)
qed

lemma match_by_identity_witness:
  "(0::nat, 1::nat) \<in> set [(0, 1), (1, 0)]
   \<and> (\<exists>key \<in> set strategies. share_key key (sample_case ''a'' 6) (sample_case ''a'' 3))"
proof -
  let ?bs = "[sample_case ''a'' 6, sample_case ''b'' 4]" and ?os = "[sample_case ''b'' 2, sample_case ''a'' 3]"
  have m: "match_test_cases ?bs ?os False = Inr [(0, 1), (1, 0)]" by code_simp
  from match_by_identity [OF m] show ?thesis by auto
qed

text \<open>
  C19.  The scoring gate: when complete matching is required, a nonzero average speedup is
  computed only over a bijection between all baseline and all optimized cases, each pair with
  equal declared workloads, the same comparable timing method and finite positive times.
\<close>

theorem nonzero_speedup_is_gated:
  assumes "calculate_average_speedup bs os True = Inr v" "v \<noteq> Fin 0"
    and "\<forall>c \<in> set bs \<union> set os. python_case c"
  shows "\<exists>m. match_test_cases bs os (singletons bs os) = Inr m
     \<and> distinct (map fst m) \<and> set (map fst m) = {..<length bs}
     \<and> distinct (map snd m) \<and> set (map snd m) = {..<length os}
     \<and> (\<forall>(b, opt) \<in> set (pair_cases bs os m).
          changed_fields (workload b) (workload opt) = []
          \<and> comparable_method (dget (metadata b) ''benchmark_method'')
          \<and> dget (metadata opt) ''benchmark_method'' = dget (metadata b) ''benchmark_method''
          \<and> valid_times (b, opt))"
proof -
  from assms(1,2) obtain m xs where m: "match_test_cases bs os (singletons bs os) = Inr m"
    and c: "\<not> incomplete bs os m" and w: "workload_mismatches (pair_cases bs os m) = []"
    and mm: "benchmark_method_mismatches (pair_cases bs os m) = Inr []"
    and sp: "collect_speedups True (pair_cases bs os m) = Inr (Some xs)"
    by (rule average_speedup_nonzero) auto
  have o: "one_to_one bs os m"
    by (rule matching_one_to_one [OF m assms(3)])
  have on: "set (map fst m) = {..<length bs} \<and> set (map snd m) = {..<length os}"
    using c by (intro complete_pairing_onto [OF o]) (auto simp: incomplete_def)
  have "changed_fields (workload b) (workload opt) = []
      \<and> comparable_method (dget (metadata b) ''benchmark_method'')
      \<and> dget (metadata opt) ''benchmark_method'' = dget (metadata b) ''benchmark_method''
      \<and> valid_times (b, opt)" if "(b, opt) \<in> set (pair_cases bs os m)" for b opt
    using workload_mismatches_Nil [OF w that] method_check_ok [OF method_mismatches_Nil [OF mm that]]
      collect_speedups_valid [OF sp] that by blast
  with m o on show ?thesis by (auto simp: one_to_one_def)
qed

lemma nonzero_speedup_is_gated_witness:
  "\<exists>m. match_test_cases [sample_case ''a'' 6, sample_case ''b'' 4] [sample_case ''b'' 2, sample_case ''a'' 3] False = Inr m
     \<and> set (map fst m) = {..<2}"
proof -
  let ?bs = "[sample_case ''a'' 6, sample_case ''b'' 4]" and ?os = "[sample_case ''b'' 2, sample_case ''a'' 3]"
  have v: "calculate_average_speedup ?bs ?os True = Inr (Fin 2)" by code_simp
  have ok: "\<forall>c \<in> set ?bs \<union> set ?os. python_case c"
    by (simp add: python_case_def sample_case_def get_explicit_id_key_def dget_default_def)
  have "Fin 2 \<noteq> Fin 0" by simp
  from nonzero_speedup_is_gated [OF v this ok] obtain m
    where "match_test_cases ?bs ?os (singletons ?bs ?os) = Inr m" "set (map fst m) = {..<length ?bs}"
    by blast
  then show ?thesis by (intro exI [of _ m]) (simp add: singletons_def)
qed

text \<open>
  C21.  A nonzero speedup and the two analyses written beside it agree: the workload analysis
  and the benchmark-method analysis of the same cases both report consistency.
\<close>

theorem nonzero_speedup_agrees_with_analyses:
  assumes "calculate_average_speedup bs os True = Inr v" "v \<noteq> Fin 0"
  shows "analyze_workload_consistency bs os = Inr (True, [])
       \<and> analyze_benchmark_method_consistency bs os True = Inr (True, [])"
proof -
  from assms obtain m xs where "match_test_cases bs os (singletons bs os) = Inr m" "m \<noteq> []"
    "\<not> incomplete bs os m" "workload_mismatches (pair_cases bs os m) = []"
    "benchmark_method_mismatches (pair_cases bs os m) = Inr []"
    by (rule average_speedup_nonzero) auto
  then show ?thesis
    by (auto simp: analyze_workload_consistency_def analyze_benchmark_method_consistency_def
        incomplete_def Let_def)
qed

lemma nonzero_speedup_agrees_witness:
  "analyze_benchmark_method_consistency [sample_case ''a'' 6, sample_case ''b'' 4]
     [sample_case ''b'' 2, sample_case ''a'' 3] True = Inr (True, [])"
proof -
  have "calculate_average_speedup [sample_case ''a'' 6, sample_case ''b'' 4]
     [sample_case ''b'' 2, sample_case ''a'' 3] True = Inr (Fin 2)" by code_simp
  from nonzero_speedup_agrees_with_analyses [OF this] show ?thesis by simp
qed

text \<open>
  The average speedup is never NaN and never negative, with or without the
  complete-match requirement (an overflowing ratio gives infinity, which the score rejects).
\<close>

theorem average_speedup_nonneg:
  assumes "calculate_average_speedup bs os rc = Inr v"
  shows "v \<noteq> NaN \<and> fle (Fin 0) v"
proof (cases "v = Fin 0")
  case False
  with assms obtain m xs where "collect_speedups rc (pair_cases bs os m) = Inr (Some xs)"
    "xs \<noteq> []" "average xs = Inr v"
    by (rule average_speedup_nonzero) auto
  then have "nonneg v" by (metis average_nonneg collect_speedups_nonneg)
  then show ?thesis using nonneg_not_nan by blast
qed (simp add: fle_def)

lemma average_speedup_nonneg_witness:
  "calculate_average_speedup [sample_case ''a'' 6] [sample_case ''a'' 4] True = Inr (Fin (3/2))
   \<and> fle (Fin 0) (Fin (3/2))"
proof -
  have v: "calculate_average_speedup [sample_case ''a'' 6] [sample_case ''a'' 4] True = Inr (Fin (3/2))"
    by code_simp
  from average_speedup_nonneg [OF v] v show ?thesis by simp
qed

text \<open>
  A run compared with itself has average speedup exactly 1.0: with distinct explicit
  identifiers and comparable cases, each case is paired with itself, each quotient is exactly
  1.0, and neither the sum nor the division rounds (up to $2^{53}$ cases).
\<close>

theorem self_speedup_is_one:
  assumes "bs \<noteq> []" "int (length bs) \<le> 2 ^ 53"
    and "map get_explicit_id_key bs = map (\<lambda>s. Some (PStr s)) ids" "distinct ids"
    and c: "\<forall>c \<in> set bs. comparable_case c"
  shows "calculate_average_speedup bs bs rc = Inr (Fin 1)"
proof -
  let ?ps = "map (\<lambda>c. (c, c)) bs"
  have ps: "pair_cases bs bs (map (\<lambda>i. (i, i)) [0..<length bs]) = ?ps"
    by (rule nth_equalityI) (simp_all add: pair_cases_def)
  have w: "workload_mismatches ?ps = []"
    using c by (auto simp: workload_mismatches_def changed_fields_self)
  have "mapR method_check ?ps = Inr (map (\<lambda>_. []) ?ps)"
    using c by (intro mapR_Inr_map) (auto simp: method_check_self)
  then have mm: "benchmark_method_mismatches ?ps = Inr []"
    by (simp add: benchmark_method_mismatches_def)
  show ?thesis
    using assms(1,2) average_ones [of "length bs"]
    by (simp add: calculate_average_speedup_def Let_def match_self [OF assms(3,4)] ps w mm
        collect_self [OF c] incomplete_def)
qed

lemma self_speedup_is_one_witness:
  "calculate_average_speedup [sample_case ''a'' 6, sample_case ''b'' 4]
     [sample_case ''a'' 6, sample_case ''b'' 4] True = Inr (Fin 1)"
  by (rule self_speedup_is_one [of _ "[''a'', ''b'']"])
     (auto simp: sample_case_def get_explicit_id_key_def dget_default_def synthetic_key_def
       comparable_case_def comparable_method_def)

end
