(* ===== verification/Json.thy ===== *)
theory Json
  imports PyValue
begin

text \<open>
  The JSON decoder of the standard library as the sources use it: \<open>json.loads\<close> with its two
  hooks, the one that builds an object from its pairs and the one that interprets the constants
  \<open>NaN\<close>, \<open>Infinity\<close> and \<open>-Infinity\<close>.  The scanner follows CPython's, case by case.  An
  escape of a code point above 255 has no counterpart among the strings of this development and
  is reported as \<open>Unrepresentable\<close>; no statement depends on how such a document is read.
\<close>

datatype json_error =
  MalformedJson | DuplicateKey string | BadConstant string | TooManyDigits | Unrepresentable

section \<open>Scanning\<close>

definition json_space :: "char \<Rightarrow> bool" where
  "json_space c = (c \<in> {CHR 0x20, CHR 0x09, CHR 0x0A, CHR 0x0D})"

definition skip_ws :: "string \<Rightarrow> string" where
  "skip_ws s = dropWhile json_space s"

definition hex_value :: "char \<Rightarrow> nat option" where
  "hex_value c = (let n = (of_char c :: nat) in
     if 48 \<le> n \<and> n \<le> 57 then Some (n - 48)
     else if 97 \<le> n \<and> n \<le> 102 then Some (n - 87)
     else if 65 \<le> n \<and> n \<le> 70 then Some (n - 55) else None)"

definition hex4 :: "char \<Rightarrow> char \<Rightarrow> char \<Rightarrow> char \<Rightarrow> nat option" where
  "hex4 a b c d =
     (case (hex_value a, hex_value b, hex_value c, hex_value d) of
        (Some w, Some x, Some y, Some z) \<Rightarrow> Some (4096 * w + 256 * x + 16 * y + z)
      | _ \<Rightarrow> None)"

definition escape_char :: "char \<Rightarrow> char option" where
  "escape_char c =
     map_of [(CHR 0x22, CHR 0x22), (CHR 0x5C, CHR 0x5C), (CHR ''/'', CHR ''/''), (CHR ''b'', CHR 0x08),
             (CHR ''f'', CHR 0x0C), (CHR ''n'', CHR 0x0A), (CHR ''r'', CHR 0x0D), (CHR ''t'', CHR 0x09)] c"

definition push_char :: "char \<Rightarrow> (json_error, string \<times> string) result \<Rightarrow> (json_error, string \<times> string) result" where
  "push_char c r = rbind r (\<lambda>(t, rest). Inr (c # t, rest))"

text \<open>The rest of a string literal, after its opening quote.\<close>

fun scan_string :: "string \<Rightarrow> (json_error, string \<times> string) result" where
  "scan_string [] = Inl MalformedJson"
| "scan_string (c # s) =
     (if c = CHR 0x22 then Inr ([], s)
      else if c = CHR 0x5C then
        (case s of [] \<Rightarrow> Inl MalformedJson
         | e # s1 \<Rightarrow>
           if e = CHR ''u'' then
             (case s1 of a # b # d # f # s2 \<Rightarrow>
                (case hex4 a b d f of None \<Rightarrow> Inl MalformedJson
                 | Some n \<Rightarrow> if n < 256 then push_char (char_of n) (scan_string s2)
                             else Inl Unrepresentable)
              | _ \<Rightarrow> Inl MalformedJson)
           else (case escape_char e of None \<Rightarrow> Inl MalformedJson
                 | Some x \<Rightarrow> push_char x (scan_string s1)))
      else if (of_char c :: nat) < 32 then Inl MalformedJson
      else push_char c (scan_string s))"

text \<open>
  A number literal: its integer part with the sign, its fraction and exponent, and the rest.
  A fraction or exponent without digits is left to the rest.
\<close>

definition scan_fraction :: "string \<Rightarrow> string \<times> string" where
  "scan_fraction s =
     (case s of c # r \<Rightarrow>
        if c = CHR ''.'' \<and> takeWhile is_digit r \<noteq> []
        then (c # takeWhile is_digit r, dropWhile is_digit r) else ([], s)
      | [] \<Rightarrow> ([], s))"

definition scan_exponent :: "string \<Rightarrow> string \<times> string" where
  "scan_exponent s =
     (case s of c # r \<Rightarrow>
        if c = CHR ''e'' \<or> c = CHR ''E'' then
          (let (sg, r1) = (case r of d # r' \<Rightarrow>
                 if d = CHR ''+'' \<or> d = CHR ''-'' then ([d], r') else ([], r) | [] \<Rightarrow> ([], r)) in
           if takeWhile is_digit r1 \<noteq> []
           then (c # sg @ takeWhile is_digit r1, dropWhile is_digit r1) else ([], s))
        else ([], s)
      | [] \<Rightarrow> ([], s))"

definition scan_number :: "string \<Rightarrow> (string \<times> string \<times> string) option" where
  "scan_number s =
     (let (sg, s1) = (case s of c # r \<Rightarrow> if c = CHR ''-'' then ([c], r) else ([], s) | [] \<Rightarrow> ([], s));
          ds = takeWhile is_digit s1 in
      if ds = [] then None
      else let ip = (if hd ds = CHR ''0'' then [hd ds] else ds);
               (fr, s2) = scan_fraction (drop (length ip) s1);
               (ex, s3) = scan_exponent s2 in
           Some (sg @ ip, fr @ ex, s3))"

text \<open>\<open>int(text)\<close> refuses more than 4300 digits.\<close>

definition number_value :: "string \<Rightarrow> string \<Rightarrow> (json_error, pyval) result" where
  "number_value ip fe =
     (if fe \<noteq> [] then
        (case float_of_string (ip @ fe) of Some f \<Rightarrow> Inr (PFloat f) | None \<Rightarrow> Inl MalformedJson)
      else let (neg, ds) = (case ip of c # r \<Rightarrow> if c = CHR ''-'' then (True, r) else (False, ip)
                            | [] \<Rightarrow> (False, [])) in
        if 4300 < length ds then Inl TooManyDigits
        else Inr (PInt (if neg then - digits_value ds else digits_value ds)))"

section \<open>Values\<close>

type_synonym pairs_hook = "(string \<times> pyval) list \<Rightarrow> (json_error, pydict) result"
type_synonym constant_hook = "string \<Rightarrow> (json_error, pyval) result"

text \<open>The constants, tried in this order.\<close>

definition json_literals :: "constant_hook \<Rightarrow> (string \<times> (json_error, pyval) result) list" where
  "json_literals const =
     [(''null'', Inr PNone), (''true'', Inr (PBool True)), (''false'', Inr (PBool False)),
      (''NaN'', const ''NaN''), (''Infinity'', const ''Infinity''), (''-Infinity'', const ''-Infinity'')]"

definition scan_atom :: "constant_hook \<Rightarrow> string \<Rightarrow> (json_error, pyval \<times> string) result" where
  "scan_atom const s =
     (case find (\<lambda>(w, _). starts_with w s) (json_literals const) of
        Some (w, r) \<Rightarrow> rbind r (\<lambda>v. Inr (v, drop (length w) s))
      | None \<Rightarrow>
        (case scan_number s of None \<Rightarrow> Inl MalformedJson
         | Some (ip, fe, rest) \<Rightarrow> rbind (number_value ip fe) (\<lambda>v. Inr (v, rest))))"

text \<open>A member's key and the colon after it.\<close>

definition scan_key :: "string \<Rightarrow> (json_error, string \<times> string) result" where
  "scan_key s =
     (case s of c # r \<Rightarrow>
        if c = CHR 0x22 then
          rbind (scan_string r) (\<lambda>(k, r1).
            case skip_ws r1 of d # r2 \<Rightarrow>
              if d = CHR '':'' then Inr (k, skip_ws r2) else Inl MalformedJson
            | [] \<Rightarrow> Inl MalformedJson)
        else Inl MalformedJson
      | [] \<Rightarrow> Inl MalformedJson)"

text \<open>
  Values, the elements of an array and the members of an object.  The first argument bounds the
  recursion; \<open>2 * length s + 1\<close> is enough, by \<open>json_fuel\<close> below.
\<close>

fun json_value :: "pairs_hook \<Rightarrow> constant_hook \<Rightarrow> nat \<Rightarrow> string \<Rightarrow> (json_error, pyval \<times> string) result"
  and json_items :: "pairs_hook \<Rightarrow> constant_hook \<Rightarrow> nat \<Rightarrow> pyval list \<Rightarrow> string
        \<Rightarrow> (json_error, pyval \<times> string) result"
  and json_members :: "pairs_hook \<Rightarrow> constant_hook \<Rightarrow> nat \<Rightarrow> (string \<times> pyval) list \<Rightarrow> string
        \<Rightarrow> (json_error, pyval \<times> string) result" where
  "json_value hook const 0 s = Inl MalformedJson"
| "json_value hook const (Suc n) s =
     (case s of [] \<Rightarrow> Inl MalformedJson
      | c # r \<Rightarrow>
        if c = CHR 0x22 then rbind (scan_string r) (\<lambda>(t, r1). Inr (PStr t, r1))
        else if c = CHR ''{'' then
          (case skip_ws r of [] \<Rightarrow> Inl MalformedJson
           | d # r1 \<Rightarrow> if d = CHR ''}'' then rbind (hook []) (\<lambda>o'. Inr (PDict o', r1))
                       else json_members hook const n [] (d # r1))
        else if c = CHR ''['' then
          (case skip_ws r of [] \<Rightarrow> Inl MalformedJson
           | d # r1 \<Rightarrow> if d = CHR '']'' then Inr (PList [], r1)
                       else json_items hook const n [] (d # r1))
        else scan_atom const s)"
| "json_items hook const 0 vs s = Inl MalformedJson"
| "json_items hook const (Suc n) vs s =
     rbind (json_value hook const n s) (\<lambda>(v, r).
       case skip_ws r of [] \<Rightarrow> Inl MalformedJson
       | d # r1 \<Rightarrow>
         if d = CHR '']'' then Inr (PList (vs @ [v]), r1)
         else if d = CHR '','' then json_items hook const n (vs @ [v]) (skip_ws r1)
         else Inl MalformedJson)"
| "json_members hook const 0 ps s = Inl MalformedJson"
| "json_members hook const (Suc n) ps s =
     rbind (scan_key s) (\<lambda>(k, r0).
     rbind (json_value hook const n r0) (\<lambda>(v, r).
       case skip_ws r of [] \<Rightarrow> Inl MalformedJson
       | d # r1 \<Rightarrow>
         if d = CHR ''}'' then rbind (hook (ps @ [(k, v)])) (\<lambda>o'. Inr (PDict o', r1))
         else if d = CHR '','' then json_members hook const n (ps @ [(k, v)]) (skip_ws r1)
         else Inl MalformedJson))"

text \<open>\<open>json.loads\<close>: one value between white space.\<close>

definition json_loads :: "pairs_hook \<Rightarrow> constant_hook \<Rightarrow> string \<Rightarrow> (json_error, pyval) result" where
  "json_loads hook const s =
     rbind (json_value hook const (2 * length s + 1) (skip_ws s)) (\<lambda>(v, r).
       if skip_ws r = [] then Inr v else Inl MalformedJson)"

section \<open>The decoder reads its whole input\<close>

lemma length_skip_ws: "length (skip_ws s) \<le> length s"
  by (simp add: skip_ws_def length_dropWhile_le)

lemma skip_ws_Cons: "skip_ws s = d # r \<Longrightarrow> length r < length s"
  using length_skip_ws [of s] by simp

lemma scan_string_shorter: "scan_string s = Inr (t, r) \<Longrightarrow> length r < length s"
proof (induction s arbitrary: t r rule: scan_string.induct)
  case (2 c s)
  show ?case
  proof (cases "c = CHR 0x22 \<or> c \<noteq> CHR 0x5C")
    case True
    then show ?thesis
      using 2 by (auto simp: push_char_def result_simps less_Suc_eq split: if_splits)
  next
    case False
    then obtain e s1 where s: "c = CHR 0x5C" "s = e # s1"
      using 2 by (auto split: list.splits)
    show ?thesis
    proof (cases "e = CHR ''u''")
      case True
      with s 2(4) obtain a b d f s2 n where s1: "s1 = a # b # d # f # s2" "hex4 a b d f = Some n"
          "n < 256" "push_char (char_of n) (scan_string s2) = Inr (t, r)"
        by (auto split: list.splits option.splits if_splits)
      then obtain t' where "scan_string s2 = Inr (t', r)"
        by (auto simp: push_char_def result_simps)
      then have "length r < length s2"
        using 2(1) [OF _ _ s(2) True s1(1) refl refl refl s1(2,3)] s by simp
      then show ?thesis by (simp add: s s1)
    next
      case False
      with s 2(4) obtain x where x: "escape_char e = Some x" "push_char x (scan_string s1) = Inr (t, r)"
        by (auto split: option.splits)
      then obtain t' where "scan_string s1 = Inr (t', r)"
        by (auto simp: push_char_def result_simps)
      then have "length r < length s1"
        using 2(2) [OF _ _ s(2) False x(1)] s by simp
      then show ?thesis by (simp add: s)
    qed
  qed
qed simp

lemma scan_fraction_length: "scan_fraction s = (f, r) \<Longrightarrow> length r \<le> length s"
  by (auto simp: scan_fraction_def split: list.splits if_splits)
     (metis length_dropWhile_le le_SucI)

lemma scan_exponent_length: "scan_exponent s = (f, r) \<Longrightarrow> length r \<le> length s"
  using length_dropWhile_le [of is_digit] 
  by (auto simp: scan_exponent_def Let_def split: list.splits if_splits prod.splits)
     (metis le_SucI length_Cons order_trans)+

lemma scan_number_shorter:
  assumes "scan_number s = Some (i, f, r)"
  shows "length r < length s"
proof -
  obtain sg s1 where sg: "(case s of c # r \<Rightarrow> if c = CHR ''-'' then ([c], r) else ([], s) | [] \<Rightarrow> ([], s)) = (sg, s1)"
    by (cases "case s of c # r \<Rightarrow> if c = CHR ''-'' then ([c], r) else ([], s) | [] \<Rightarrow> ([], s)")
  then have l1: "length s1 \<le> length s" by (auto split: list.splits if_splits)
  define ds where "ds = takeWhile is_digit s1"
  define ip where "ip = (if hd ds = CHR ''0'' then [hd ds] else ds)"
  obtain fr s2 where fr: "scan_fraction (drop (length ip) s1) = (fr, s2)"
    by (cases "scan_fraction (drop (length ip) s1)")
  obtain ex s3 where ex: "scan_exponent s2 = (ex, s3)" by (cases "scan_exponent s2")
  from assms have ds: "ds \<noteq> []" and r: "r = s3"
    using sg fr ex by (auto simp: scan_number_def Let_def ds_def ip_def split: if_splits)
  have "length ip > 0" using ds by (simp add: ip_def)
  moreover have "s1 \<noteq> []" using ds by (auto simp: ds_def)
  ultimately have "length (drop (length ip) s1) < length s1" by (cases s1) auto
  with scan_fraction_length [OF fr] scan_exponent_length [OF ex] l1 r show ?thesis by simp
qed

lemma scan_atom_shorter:
  assumes "scan_atom const s = Inr (v, r)" "s \<noteq> []"
  shows "length r < length s"
proof (cases "find (\<lambda>(w, _). starts_with w s) (json_literals const)")
  case None
  with assms show ?thesis
    by (auto simp: scan_atom_def result_simps dest: scan_number_shorter split: option.splits)
next
  case (Some p)
  obtain w q where p: "p = (w, q)" by (cases p)
  from Some have "(w, q) \<in> set (json_literals const)"
    by (auto simp: p find_Some_iff in_set_conv_nth)
  then have "w \<noteq> []" by (auto simp: json_literals_def)
  with assms Some p show ?thesis by (auto simp: scan_atom_def result_simps)
qed

lemma scan_key_shorter:
  assumes "scan_key s = Inr (k, r)"
  shows "length r < length s"
proof -
  from assms obtain r0 r1 r2 d where "s = CHR 0x22 # r0" "scan_string r0 = Inr (k, r1)"
      "skip_ws r1 = d # r2" "r = skip_ws r2"
    by (auto simp: scan_key_def rbind_def split: list.split_asm if_split_asm sum.split_asm prod.split_asm)
  with scan_string_shorter [of r0 k r1] length_skip_ws [of r1] length_skip_ws [of r2] show ?thesis
    by simp
qed

lemma json_shorter:
  "json_value hook const n s = Inr (v, r) \<Longrightarrow> length r < length s"
  "json_items hook const n vs s = Inr (v, r) \<Longrightarrow> length r < length s"
  "json_members hook const n ps s = Inr (v, r) \<Longrightarrow> length r < length s"
proof (induction hook const n s and hook const n vs s and hook const n ps s arbitrary: v r and v r and v r
    rule: json_value_json_items_json_members.induct)
  case (2 hook const n s)
  then obtain c t where s: "s = c # t" by (cases s) auto
  consider "c = CHR 0x22" | "c = CHR ''{''" | "c = CHR ''[''"
    | "c \<notin> {CHR 0x22, CHR ''{'', CHR ''[''}" by blast
  then show ?case
  proof cases
    case 1
    with 2 s show ?thesis by (auto simp: result_simps less_Suc_eq dest: scan_string_shorter)
  next
    case c: 2
    then obtain d r1 where d: "skip_ws t = d # r1" using 2 s by (auto split: list.splits)
    show ?thesis
    proof (cases "d = CHR ''}''")
      case True
      with c d s 2 length_skip_ws [of t] show ?thesis by (auto simp: result_simps)
    next
      case False
      with c d s 2 have "length r < length (skip_ws t)" by auto
      with length_skip_ws [of t] s show ?thesis by simp
    qed
  next
    case c: 3
    then obtain d r1 where d: "skip_ws t = d # r1" using 2 s by (auto split: list.splits)
    show ?thesis
    proof (cases "d = CHR '']''")
      case True
      with c d s 2 length_skip_ws [of t] show ?thesis by auto
    next
      case False
      with c d s 2 have "length r < length (skip_ws t)" by auto
      with length_skip_ws [of t] s show ?thesis by simp
    qed
  next
    case 4
    with 2 s show ?thesis using scan_atom_shorter [of const s v r] by simp
  qed
next
  case (4 hook const n vs s)
  from 4(3) obtain w r0 d r1 where w: "json_value hook const n s = Inr (w, r0)" "skip_ws r0 = d # r1"
      "(if d = CHR '']'' then Inr (PList (vs @ [w]), r1)
         else if d = CHR '','' then json_items hook const n (vs @ [w]) (skip_ws r1)
         else Inl MalformedJson) = Inr (v, r)"
    by (auto simp: result_simps neq_Nil_conv split: list.splits)
  have l: "length r0 < length s" by (rule 4(1) [OF w(1)])
  from w(3) have "length r \<le> length r1"
    using 4(2) [OF w(1) refl w(2)] length_skip_ws [of r1] by (auto split: if_splits)
  with l skip_ws_Cons [OF w(2)] show ?case by simp
next
  case (6 hook const n ps s)
  from 6(3) obtain k s0 w r0 d r1 where k: "scan_key s = Inr (k, s0)"
      and w: "json_value hook const n s0 = Inr (w, r0)" "skip_ws r0 = d # r1"
      "(if d = CHR ''}'' then rbind (hook (ps @ [(k, w)])) (\<lambda>o'. Inr (PDict o', r1))
         else if d = CHR '','' then json_members hook const n (ps @ [(k, w)]) (skip_ws r1)
         else Inl MalformedJson) = Inr (v, r)"
    by (auto simp: result_simps neq_Nil_conv split: list.splits)
  have l: "length r0 < length s0" by (rule 6(1) [OF k refl w(1)])
  from w(3) have "length r \<le> length r1"
    using 6(2) [OF k refl w(1) refl w(2)] length_skip_ws [of r1] by (auto simp: result_simps split: if_splits)
  with l skip_ws_Cons [OF w(2)] scan_key_shorter [OF k] show ?case by simp
qed auto


text \<open>More fuel than the bound changes nothing.\<close>

abbreviation value_fuel :: "pairs_hook \<Rightarrow> constant_hook \<Rightarrow> nat \<Rightarrow> bool" where
  "value_fuel hook const L \<equiv>
     (\<forall>s n m. length s \<le> L \<longrightarrow> 2 * length s + 1 \<le> n \<longrightarrow> 2 * length s + 1 \<le> m
        \<longrightarrow> json_value hook const n s = json_value hook const m s)"

lemma value_fuelD:
  "value_fuel hook const L \<Longrightarrow> length s \<le> L \<Longrightarrow> 2 * length s + 1 \<le> n \<Longrightarrow> 2 * length s + 1 \<le> m
   \<Longrightarrow> json_value hook const n s = json_value hook const m s"
  by blast

lemma json_items_fuel:
  assumes V: "value_fuel hook const L"
  shows "length t \<le> L \<Longrightarrow> 2 * length t + 2 \<le> a \<Longrightarrow> 2 * length t + 2 \<le> b
    \<Longrightarrow> json_items hook const a vs t = json_items hook const b vs t"
proof (induction t arbitrary: a b vs rule: measure_induct_rule [of length])
  case (less t)
  then obtain a' b' where ab: "a = Suc a'" "b = Suc b'" by (metis Suc_le_D add_2_eq_Suc')
  with less.prems have l: "2 * length t + 1 \<le> a'" "2 * length t + 1 \<le> b'" by simp_all
  have v: "json_value hook const a' t = json_value hook const b' t"
    by (rule value_fuelD [OF V less.prems(1) l])
  have "json_items hook const a' ws (skip_ws r1) = json_items hook const b' ws (skip_ws r1)"
    if "json_value hook const b' t = Inr (w, r0)" "skip_ws r0 = d # r1" for w r0 d r1 ws
  proof -
    have "length (skip_ws r1) < length t"
      using json_shorter(1) [OF that(1)] skip_ws_Cons [OF that(2)] length_skip_ws [of r1] by simp
    with less.prems(1) l show ?thesis by (intro less.IH) simp_all
  qed
  then show ?case unfolding ab json_items.simps v by (intro rbind_cong) (auto split: list.splits)
qed

lemma json_members_fuel:
  assumes V: "value_fuel hook const L"
  shows "length t \<le> L \<Longrightarrow> 2 * length t + 2 \<le> a \<Longrightarrow> 2 * length t + 2 \<le> b
    \<Longrightarrow> json_members hook const a ps t = json_members hook const b ps t"
proof (induction t arbitrary: a b ps rule: measure_induct_rule [of length])
  case (less t)
  then obtain a' b' where ab: "a = Suc a'" "b = Suc b'" by (metis Suc_le_D add_2_eq_Suc')
  with less.prems have l: "2 * length t + 1 \<le> a'" "2 * length t + 1 \<le> b'" by simp_all
  have v: "json_value hook const a' t0 = json_value hook const b' t0" if "scan_key t = Inr (k, t0)" for k t0
    using scan_key_shorter [OF that] less.prems(1) l by (intro value_fuelD [OF V]) simp_all
  have m: "json_members hook const a' qs (skip_ws r1) = json_members hook const b' qs (skip_ws r1)"
    if "scan_key t = Inr (k, t0)" "json_value hook const b' t0 = Inr (w, r0)" "skip_ws r0 = d # r1"
    for k t0 w r0 d r1 qs
  proof -
    have "length (skip_ws r1) < length t"
      using scan_key_shorter [OF that(1)] json_shorter(1) [OF that(2)] skip_ws_Cons [OF that(3)]
        length_skip_ws [of r1] by simp
    with less.prems(1) l show ?thesis by (intro less.IH) simp_all
  qed
  show ?case
  proof (cases "scan_key t")
    case (Inr p)
    then obtain k t0 where k: "scan_key t = Inr (k, t0)" by (cases p) auto
    show ?thesis
      unfolding ab json_members.simps k v [OF k] rbind_simps prod.case
      by (intro rbind_cong refl) (auto simp: m [OF k] split: list.splits)
  qed (simp add: ab)
qed

lemma json_fuel:
  "2 * length s + 1 \<le> n \<Longrightarrow> 2 * length s + 1 \<le> m \<Longrightarrow> json_value hook const n s = json_value hook const m s"
proof (induction s arbitrary: n m rule: measure_induct_rule [of length])
  case (less s)
  obtain n' m' where nm: "n = Suc n'" "m = Suc m'"
    using less.prems by (metis Suc_le_D add.commute plus_1_eq_Suc)
  show ?case
  proof (cases s)
    case (Cons c r)
    have V: "value_fuel hook const (length r)"
      by (intro allI impI less.IH) (simp_all add: Cons)
    have l: "length (d # r1) \<le> length r" "2 * length (d # r1) + 2 \<le> n'" "2 * length (d # r1) + 2 \<le> m'"
      if "skip_ws r = d # r1" for d r1
      using that length_skip_ws [of r] less.prems nm Cons by simp_all
    have "json_items hook const n' vs (d # r1) = json_items hook const m' vs (d # r1)"
      "json_members hook const n' ps (d # r1) = json_members hook const m' ps (d # r1)"
      if "skip_ws r = d # r1" for d r1 vs ps
      by (rule json_items_fuel [OF V l [OF that]], rule json_members_fuel [OF V l [OF that]])
    then show ?thesis
      unfolding nm json_value.simps Cons list.case by (auto split: list.splits simp del: json_value.simps json_items.simps json_members.simps)
  qed (simp add: nm)
qed

declare json_value.simps [simp del] json_items.simps [simp del] json_members.simps [simp del]

end
