(* ===== verification/TaskSpec.thy ===== *)
theory TaskSpec
  imports PyValue
begin

text \<open>
  \<open>src/task_spec.py\<close>: the declaration of a task, read from a YAML mapping.  The checkers of
  single values come first, then paths and edit scopes, then the sections of a declaration in
  the order of the code, and \<open>from_mapping\<close>, \<open>action\<close> and \<open>to_mapping\<close> of \<open>TaskSpec\<close>.

  Every \<open>raise TaskConfigError\<close> is a value of \<open>config_error\<close>: the checkers carry the
  \<open>where\<close> argument of the code, and \<open>Refused\<close> carries a fixed message.
\<close>

named_theorems spec_simps \<open>inversion of the checkers of a task declaration\<close>

datatype config_error =
    NotAMapping string | UnknownFields string | NotAText string | NotAChoice string
  | NotATimeout string | NotRelative string | NotAList string | DuplicatePaths string
  | NotAnArgv string | NotCommands string | Refused string

section \<open>Checkers of single values\<close>

text \<open>\<open>_mapping\<close>: a mapping whose keys are all strings and all allowed.\<close>

definition string_keyed :: "pydict \<Rightarrow> bool" where
  "string_keyed d = list_all (\<lambda>(k, _). is_str k) d"

definition mapping_arg :: "pyval \<Rightarrow> string \<Rightarrow> string list \<Rightarrow> (config_error, pydict) result" where
  "mapping_arg v place allowed =
     (case v of
        PDict d \<Rightarrow>
          if \<not> string_keyed d then Inl (NotAMapping place)
          else if list_all (\<lambda>(k, _). k \<in> PStr ` set allowed) d then Inr d
          else Inl (UnknownFields place)
      | _ \<Rightarrow> Inl (NotAMapping place))"

definition text_ok :: "string \<Rightarrow> bool" where
  "text_ok s = (strip s \<noteq> [] \<and> NUL \<notin> set s)"

fun text_arg :: "pyval \<Rightarrow> string \<Rightarrow> (config_error, string) result" where
  "text_arg (PStr s) place = (if text_ok s then Inr s else Inl (NotAText place))"
| "text_arg _ place = Inl (NotAText place)"

fun choice_arg :: "pyval \<Rightarrow> string list \<Rightarrow> string \<Rightarrow> (config_error, string) result" where
  "choice_arg (PStr s) choices place = (if s \<in> set choices then Inr s else Inl (NotAChoice place))"
| "choice_arg _ choices place = Inl (NotAChoice place)"

fun timeout_arg :: "pyval \<Rightarrow> string \<Rightarrow> (config_error, int) result" where
  "timeout_arg (PInt n) place = (if n \<le> 0 then Inl (NotATimeout place) else Inr n)"
| "timeout_arg _ place = Inl (NotATimeout place)"

fun list_arg :: "pyval \<Rightarrow> string \<Rightarrow> (config_error, pyval list) result" where
  "list_arg (PList vs) place = Inr vs"
| "list_arg _ place = Inl (NotAList place)"

text \<open>\<open>required_gpu_arches\<close>; \<open>None\<close> is a missing platform section.\<close>

definition required_gpu_arches :: "pydict option \<Rightarrow> (config_error, string list) result" where
  "required_gpu_arches platform =
     (case platform of None \<Rightarrow> Inr []
      | Some p \<Rightarrow>
        if \<not> dhas p ''required_arch'' then Inr []
        else case (case dget p ''required_arch'' of PStr s \<Rightarrow> PList [PStr s] | v \<Rightarrow> v) of
          PList (v # vs) \<Rightarrow>
            rbind (mapR (\<lambda>a. rbind (text_arg a ''platform_support.required_arch'')
                               (\<lambda>s. Inr (strip s))) (v # vs)) (\<lambda>arches.
            if list_ex (\<lambda>a. list_ex py_isspace a \<or> CHR ''*'' \<in> set a) arches
              then Inl (Refused ''platform_support.required_arch requires exact architecture names'')
            else if \<not> distinct arches
              then Inl (Refused ''platform_support.required_arch contains duplicate architectures'')
            else Inr arches)
        | _ \<Rightarrow> Inl (NotAList ''platform_support.required_arch''))"

section \<open>Paths\<close>

text \<open>\<open>relative_path\<close>: a literal, normalized path below the task's root.\<close>

definition drive_prefix :: "string \<Rightarrow> bool" where
  "drive_prefix s = (case s of c # d # _ \<Rightarrow> is_alpha c \<and> d = CHR '':'' | _ \<Rightarrow> False)"

definition relative_ok :: "string \<Rightarrow> bool" where
  "relative_ok p =
     (\<not> (CHR 0x5C \<in> set p \<or> starts_with ''/'' p \<or> drive_prefix p
         \<or> list_ex (\<lambda>part. part \<in> {[], ''.'', ''..''}) (split_on CHR ''/'' p)))"

definition relative_path :: "pyval \<Rightarrow> string \<Rightarrow> (config_error, string) result" where
  "relative_path v place =
     rbind (text_arg v place) (\<lambda>p. if relative_ok p then Inr p else Inl (NotRelative place))"

definition paths_arg :: "pyval \<Rightarrow> string \<Rightarrow> (config_error, string list) result" where
  "paths_arg v place =
     rbind (list_arg v place) (\<lambda>vs.
     rbind (mapR (\<lambda>x. relative_path x place) vs) (\<lambda>ps.
     if distinct ps then Inr ps else Inl (DuplicatePaths place)))"

fun argument :: "pyval \<Rightarrow> string option" where
  "argument (PStr s) = (if NUL \<in> set s then None else Some s)"
| "argument _ = None"

definition argv_arg :: "pyval \<Rightarrow> string \<Rightarrow> (config_error, string list) result" where
  "argv_arg v place =
     (case v of
        PList (x # xs) \<Rightarrow>
          (case those (map argument (x # xs)) of
             None \<Rightarrow> Inl (NotAnArgv place)
           | Some argv \<Rightarrow> rbind (text_arg x place) (\<lambda>_. Inr argv))
      | _ \<Rightarrow> Inl (NotAnArgv place))"

definition commands_arg :: "pyval \<Rightarrow> string \<Rightarrow> (config_error, string list list) result" where
  "commands_arg v place =
     (case v of
        PList (x # xs) \<Rightarrow> mapR (\<lambda>c. argv_arg c place) (x # xs)
      | _ \<Rightarrow> Inl (NotCommands place))"

text \<open>
  \<open>PurePosixPath\<close>: a root (\<open>/\<close>, exactly two slashes, or none) and the parts that are neither
  empty nor a dot; its \<open>parents\<close> drop the last parts one by one.
\<close>

definition posix_path :: "string \<Rightarrow> string \<times> string list" where
  "posix_path s =
     ((if starts_with ''//'' s \<and> \<not> starts_with ''///'' s then ''//''
       else if starts_with ''/'' s then ''/'' else []),
      filter (\<lambda>p. p \<noteq> [] \<and> p \<noteq> ''.'') (split_on CHR ''/'' s))"

definition posix_parents :: "string \<times> string list \<Rightarrow> (string \<times> string list) list" where
  "posix_parents p = map (\<lambda>n. (fst p, take n (snd p))) (rev [0..<length (snd p)])"

section \<open>The parts of a task\<close>

record edit_scope =
  es_path :: string
  es_scope :: string
  es_symbols :: "string list"
  es_allow_new_helpers :: bool

text \<open>\<open>EditScope.contains\<close>.\<close>

definition contains :: "edit_scope \<Rightarrow> string \<Rightarrow> bool" where
  "contains e p =
     (p = es_path e
      \<or> es_scope e = ''tree'' \<and> posix_path (es_path e) \<in> set (posix_parents (posix_path p)))"

record entry_point =
  ep_file :: string
  ep_kind :: string
  ep_symbol :: "string option"

record candidate_spec =
  cand_language :: string
  cand_initial_state :: string
  cand_initial_language :: "string option"
  cand_editable :: "edit_scope list"
  cand_entrypoints :: "entry_point list"

record baseline_spec =
  base_kind :: string
  base_language :: "string option"
  base_source_files :: "string list"
  base_correctness_policy :: string
  base_diagnostic_reason :: "string option"

record action_spec =
  act_role :: string
  act_action :: string
  act_commands :: "string list list"
  act_timeout_s :: int

record task_spec =
  ts_task_id :: string
  ts_candidate :: candidate_spec
  ts_baseline :: baseline_spec
  ts_actions :: "action_spec list"
  ts_config :: pydict

definition ACTIONS :: "(string \<times> string) list" where
  "ACTIONS =
     [(''task'', ''validate-task''),
      (''baseline'', ''compile''), (''baseline'', ''correctness''), (''baseline'', ''performance''),
      (''candidate'', ''compile''), (''candidate'', ''correctness''), (''candidate'', ''performance'')]"

text \<open>A list of nonempty names, and a boolean.\<close>

fun symbol_name :: "pyval \<Rightarrow> (config_error, string) result" where
  "symbol_name (PStr s) =
     (if s = [] then Inl (Refused ''Editable symbols must be a list of nonempty names'') else Inr s)"
| "symbol_name _ = Inl (Refused ''Editable symbols must be a list of nonempty names'')"

definition symbol_names :: "pyval \<Rightarrow> (config_error, string list) result" where
  "symbol_names v = rbind (list_arg v ''symbols'') (mapR symbol_name)"

fun bool_arg :: "pyval \<Rightarrow> string \<Rightarrow> (config_error, bool) result" where
  "bool_arg (PBool b) message = Inr b"
| "bool_arg _ message = Inl (Refused message)"

text \<open>One entry of \<open>candidate.editable\<close>, checked against the entries before it.\<close>

definition edit_mapping :: "pyval \<Rightarrow> (config_error, pydict) result" where
  "edit_mapping raw =
     (case raw of PStr s \<Rightarrow> Inr [(PStr ''path'', PStr s)]
      | _ \<Rightarrow> mapping_arg raw ''candidate.editable[]''
               [''path'', ''scope'', ''symbols'', ''allow_new_helpers''])"

definition edit_item :: "pyval \<Rightarrow> (config_error, edit_scope) result" where
  "edit_item raw =
     rbind (edit_mapping raw) (\<lambda>edit.
     rbind (relative_path (dget edit ''path'') ''candidate.editable[].path'') (\<lambda>path.
     rbind (choice_arg (dget_default edit ''scope'' (PStr ''file''))
              [''file'', ''symbols'', ''tree''] ''scope'') (\<lambda>scope.
     rbind (symbol_names (dget_default edit ''symbols'' (PList []))) (\<lambda>symbols.
     rbind (bool_arg (dget_default edit ''allow_new_helpers'' (PBool False))
              ''allow_new_helpers must be a boolean'') (\<lambda>helpers.
     if scope = ''symbols'' \<and> (symbols = [] \<or> \<not> distinct symbols)
       then Inl (Refused ''Symbol scope requires nonempty unique symbols'')
     else if scope \<noteq> ''symbols'' \<and> (dhas edit ''symbols'' \<or> dhas edit ''allow_new_helpers'')
       then Inl (Refused ''symbols/allow_new_helpers only apply to symbol scope'')
     else Inr \<lparr>es_path = path, es_scope = scope, es_symbols = symbols,
               es_allow_new_helpers = helpers\<rparr>)))))"

definition overlapping :: "edit_scope list \<Rightarrow> edit_scope \<Rightarrow> bool" where
  "overlapping edits item =
     list_ex (\<lambda>e. contains e (es_path item) \<or> contains item (es_path e)) edits"

definition add_edit :: "edit_scope list \<Rightarrow> pyval \<Rightarrow> (config_error, edit_scope list) result" where
  "add_edit edits raw =
     rbind (edit_item raw) (\<lambda>item.
       if overlapping edits item then Inl (Refused ''Overlapping editable declarations'')
       else Inr (edits @ [item]))"

text \<open>One entry of \<open>candidate.entrypoints\<close>.\<close>

definition add_entry ::
    "edit_scope list \<Rightarrow> entry_point list \<Rightarrow> pyval \<Rightarrow> (config_error, entry_point list) result" where
  "add_entry edits entries raw =
     rbind (mapping_arg raw ''candidate.entrypoints[]'' [''file'', ''kind'', ''symbol'']) (\<lambda>entry.
     rbind (relative_path (dget entry ''file'') ''entrypoint.file'') (\<lambda>path.
     rbind (choice_arg (dget entry ''kind'') [''function'', ''builder'', ''class'', ''executable'']
              ''entrypoint.kind'') (\<lambda>kind.
     rbind (if kind = ''executable''
            then (if dhas entry ''symbol''
                  then Inl (Refused ''Executable entrypoints must omit symbol'') else Inr None)
            else rbind (text_arg (dget entry ''symbol'') ''entrypoint.symbol'') (\<lambda>s. Inr (Some s)))
       (\<lambda>symbol.
     if \<not> list_ex (\<lambda>e. contains e path) edits
       then Inl (Refused ''Entrypoint is outside candidate boundary'')
     else let parsed = \<lparr>ep_file = path, ep_kind = kind, ep_symbol = symbol\<rparr> in
       if parsed \<in> set entries then Inl (Refused ''Duplicate entrypoint'')
       else Inr (entries @ [parsed])))))"

text \<open>\<open>initial_language\<close>: the candidate's language unless declared, and only when implemented.\<close>

definition initial_language ::
    "pydict \<Rightarrow> string \<Rightarrow> string \<Rightarrow> (config_error, string option) result" where
  "initial_language obj language state =
     (if state = ''unimplemented'' \<and> dhas obj ''initial_language''
        then Inl (Refused ''An unimplemented candidate must omit initial_language'')
      else if state = ''implemented''
        then rbind (text_arg (dget_default obj ''initial_language'' (PStr language))
                     ''candidate.initial_language'') (\<lambda>s. Inr (Some s))
      else Inr None)"

text \<open>\<open>_candidate\<close>.\<close>

definition candidate_of :: "pyval \<Rightarrow> (config_error, candidate_spec) result" where
  "candidate_of value =
     rbind (mapping_arg value ''candidate''
              [''language'', ''initial_state'', ''initial_language'', ''editable'', ''entrypoints''])
       (\<lambda>obj.
     rbind (text_arg (dget obj ''language'') ''candidate.language'') (\<lambda>language.
     rbind (choice_arg (dget_default obj ''initial_state'' (PStr ''implemented''))
              [''implemented'', ''unimplemented''] ''candidate.initial_state'') (\<lambda>state.
     rbind (initial_language obj language state) (\<lambda>initial.
     rbind (list_arg (dget obj ''editable'') ''candidate.editable'') (\<lambda>raws.
     if raws = [] then Inl (NotAList ''candidate.editable'')
     else
     rbind (foldR add_edit [] raws) (\<lambda>edits.
     rbind (list_arg (dget_default obj ''entrypoints'' (PList [])) ''candidate.entrypoints'') (\<lambda>entries.
     rbind (foldR (add_entry edits) [] entries) (\<lambda>parsed.
     Inr \<lparr>cand_language = language, cand_initial_state = state, cand_initial_language = initial,
          cand_editable = edits, cand_entrypoints = parsed\<rparr>))))))))"

text \<open>\<open>_baseline\<close>, with its optional language and its reason for a diagnostic policy.\<close>

definition baseline_language :: "pydict \<Rightarrow> (config_error, string option) result" where
  "baseline_language obj =
     (if dget obj ''language'' = PNone then Inr None
      else rbind (text_arg (dget obj ''language'') ''baseline.language'') (\<lambda>s. Inr (Some s)))"

definition diagnostic_reason :: "pydict \<Rightarrow> string \<Rightarrow> (config_error, string option) result" where
  "diagnostic_reason obj policy =
     (if policy = ''diagnostic''
        then rbind (text_arg (dget obj ''diagnostic_reason'') ''baseline.diagnostic_reason'')
               (\<lambda>s. Inr (Some s))
      else if dhas obj ''diagnostic_reason''
        then Inl (Refused ''diagnostic_reason requires the diagnostic policy'')
      else Inr None)"

definition baseline_of :: "pyval \<Rightarrow> candidate_spec \<Rightarrow> (config_error, baseline_spec) result" where
  "baseline_of value candidate =
     rbind (mapping_arg value ''baseline''
              [''kind'', ''language'', ''source_files'', ''correctness_policy'', ''diagnostic_reason''])
       (\<lambda>obj.
     rbind (choice_arg
              (dget_default obj ''kind''
                 (PStr (if cand_initial_state candidate = ''implemented''
                        then ''initial_candidate'' else ''provided'')))
              [''initial_candidate'', ''provided''] ''baseline.kind'') (\<lambda>kind.
     if kind = ''initial_candidate'' \<and> cand_initial_state candidate = ''unimplemented''
       then Inl (Refused ''An unimplemented candidate cannot be the baseline'')
     else
     rbind (baseline_language obj) (\<lambda>language.
     rbind (choice_arg (dget_default obj ''correctness_policy'' (PStr ''required''))
              [''required'', ''diagnostic''] ''baseline.correctness_policy'') (\<lambda>policy.
     rbind (diagnostic_reason obj policy) (\<lambda>reason.
     rbind (paths_arg (dget_default obj ''source_files'' (PList [])) ''baseline.source_files'')
       (\<lambda>sources.
     Inr \<lparr>base_kind = kind, base_language = language, base_source_files = sources,
          base_correctness_policy = policy, base_diagnostic_reason = reason\<rparr>))))))"

text \<open>\<open>_actions\<close>: the declaration of one action, its timeout and its commands.\<close>

definition raw_action :: "pydict \<Rightarrow> string \<Rightarrow> string \<Rightarrow> pyval" where
  "raw_action obj role action =
     (if role = ''task'' then dget_default obj ''task'' (PDict [])
      else case dget_default obj role (PDict []) of
        PDict d \<Rightarrow> dget_default d action (PDict []) | v \<Rightarrow> v)"

definition action_of ::
    "pydict \<Rightarrow> string list option \<Rightarrow> int \<Rightarrow> string \<times> string \<Rightarrow> (config_error, action_spec) result" where
  "action_of obj runner default_timeout ra =
     (case ra of (role, action) \<Rightarrow>
     rbind (mapping_arg (raw_action obj role action) (''evaluation.'' @ role @ ''.'' @ action)
              [''commands'', ''timeout_s'']) (\<lambda>override.
     rbind (timeout_arg (dget_default override ''timeout_s'' (PInt default_timeout))
              (role @ ''.'' @ action @ ''.timeout_s'')) (\<lambda>timeout.
     rbind (if dhas override ''commands''
            then commands_arg (dget override ''commands'') (role @ ''.'' @ action @ ''.commands'')
            else case runner of
              Some argv \<Rightarrow> Inr [argv @ (if role = ''task'' then [action] else [role, action])]
            | None \<Rightarrow> Inl (Refused ''Missing commands; no evaluation.runner'')) (\<lambda>commands.
     Inr \<lparr>act_role = role, act_action = action, act_commands = commands,
          act_timeout_s = timeout\<rparr>))))"

definition actions_of :: "pyval \<Rightarrow> (config_error, action_spec list) result" where
  "actions_of value =
     rbind (mapping_arg value ''evaluation''
              [''runner'', ''workloads'', ''timeout_s'', ''task'', ''baseline'', ''candidate''])
       (\<lambda>obj.
     rbind (if dhas obj ''runner''
            then rbind (argv_arg (dget obj ''runner'') ''evaluation.runner'') (\<lambda>a. Inr (Some a))
            else Inr None) (\<lambda>runner.
     rbind (timeout_arg (dget_default obj ''timeout_s'' (PInt 3600)) ''evaluation.timeout_s'')
       (\<lambda>default_timeout.
     rbind (if dhas obj ''workloads''
            then relative_path (dget obj ''workloads'') ''evaluation.workloads'' else Inr [])
       (\<lambda>_.
     rbind (mapR (\<lambda>role. if dhas obj role
              then mapping_arg (dget obj role) (''evaluation.'' @ role)
                     [''compile'', ''correctness'', ''performance''] else Inr [])
              [''baseline'', ''candidate'']) (\<lambda>_.
     mapR (action_of obj runner default_timeout) ACTIONS)))))"

text \<open>\<open>_optional_fields\<close>: sections that are only checked here.\<close>

definition check_if :: "bool \<Rightarrow> ('e, 'a) result \<Rightarrow> ('e, unit) result" where
  "check_if b r = (if b then rbind r (\<lambda>_. Inr ()) else Inr ())"

definition check_platform :: "pyval \<Rightarrow> (config_error, unit) result" where
  "check_platform value =
     rbind (mapping_arg value ''platform_support'' [''required_arch'', ''status'', ''skip_reason''])
       (\<lambda>platform.
     rbind (required_gpu_arches (Some platform)) (\<lambda>_.
     rbind (choice_arg (dget_default platform ''status'' (PStr ''active'')) [''active'', ''skip'']
              ''platform_support.status'') (\<lambda>status.
     check_if (status = ''skip'' \<or> dhas platform ''skip_reason'')
       (text_arg (dget platform ''skip_reason'') ''platform_support.skip_reason''))))"

definition is_hex :: "char \<Rightarrow> bool" where
  "is_hex c = (is_digit c \<or> c \<in> set ''abcdefABCDEF'')"

definition commit_sha :: "string \<Rightarrow> bool" where
  "commit_sha s = (length s = 40 \<and> list_all is_hex s)"

definition image_path_ok :: "string \<Rightarrow> bool" where
  "image_path_ok p =
     (\<not> (\<not> starts_with ''/'' p \<or> ''..'' \<in> set (split_on CHR ''/'' p) \<or> CHR 0x5C \<in> set p))"

definition nested :: "string \<Rightarrow> string \<Rightarrow> bool" where
  "nested a b = (a = b \<or> starts_with (a @ ''/'') b \<or> starts_with (b @ ''/'') a)"

definition add_source :: "string list \<Rightarrow> pyval \<Rightarrow> (config_error, string list) result" where
  "add_source destinations raw =
     rbind (mapping_arg raw ''workspace.sources[]''
              [''kind'', ''image_path'', ''destination'', ''exclude'', ''url'', ''revision''])
       (\<lambda>source.
     rbind (choice_arg (dget source ''kind'') [''image'', ''git''] ''source.kind'') (\<lambda>kind.
     rbind (relative_path (dget source ''destination'') ''source.destination'') (\<lambda>dest.
     if list_ex (\<lambda>d. nested d dest) destinations
       then Inl (Refused ''Source destinations overlap'')
     else rbind
       (if kind = ''image'' then
          rbind (text_arg (dget source ''image_path'') ''source.image_path'') (\<lambda>path.
          if \<not> image_path_ok path
            then Inl (Refused ''image_path must be an absolute path inside the runtime image'')
          else if dhas source ''url'' \<or> dhas source ''revision''
            then Inl (Refused ''Image source cannot declare Git fields'')
          else check_if True (paths_arg (dget_default source ''exclude'' (PList [])) ''source.exclude''))
        else
          rbind (text_arg (dget source ''url'') ''source.url'') (\<lambda>_.
          if \<not> (case dget source ''revision'' of PStr r \<Rightarrow> commit_sha r | _ \<Rightarrow> False)
            then Inl (Refused ''Git source requires a full immutable commit SHA'')
          else if dhas source ''image_path'' \<or> dhas source ''exclude''
            then Inl (Refused ''Git source cannot declare image fields'')
          else Inr ()))
       (\<lambda>_. Inr (destinations @ [dest])))))"

definition check_workspace :: "pyval \<Rightarrow> (config_error, string list) result" where
  "check_workspace value =
     rbind (mapping_arg value ''workspace'' [''sources'', ''setup'', ''timeout_s'']) (\<lambda>workspace.
     rbind (timeout_arg (dget_default workspace ''timeout_s'' (PInt 3600)) ''workspace.timeout_s'')
       (\<lambda>_.
     rbind (check_if (dhas workspace ''setup'')
              (commands_arg (dget workspace ''setup'') ''workspace.setup'')) (\<lambda>_.
     rbind (list_arg (dget_default workspace ''sources'' (PList [])) ''workspace.sources'')
       (foldR add_source []))))"

definition add_export :: "string list \<Rightarrow> pyval \<Rightarrow> (config_error, string list) result" where
  "add_export outputs raw =
     rbind (mapping_arg raw ''exports[]'' [''format'', ''output'', ''command'', ''timeout_s''])
       (\<lambda>export.
     rbind (text_arg (dget export ''format'') ''exports.format'') (\<lambda>_.
     rbind (relative_path (dget export ''output'') ''exports.output'') (\<lambda>output.
     if output \<in> set outputs then Inl (Refused ''Duplicate export output'')
     else
     rbind (argv_arg (dget export ''command'') ''exports.command'') (\<lambda>_.
     rbind (timeout_arg (dget_default export ''timeout_s'' (PInt 60)) ''exports.timeout_s'') (\<lambda>_.
     Inr (outputs @ [output]))))))"

definition check_exports :: "pyval \<Rightarrow> (config_error, string list) result" where
  "check_exports value =
     rbind (list_arg value ''exports'') (foldR add_export [])"

definition check_identity :: "pyval \<Rightarrow> (config_error, unit) result" where
  "check_identity value =
     rbind (mapping_arg value ''kernel_identity'' [''logical_operator'', ''source_owner''])
       (\<lambda>identity. check_if True (mapR (\<lambda>(k, v). text_arg v (''kernel_identity.'' @ (case k of PStr s \<Rightarrow> s | _ \<Rightarrow> []))) identity))"

definition optional_fields :: "pydict \<Rightarrow> (config_error, unit) result" where
  "optional_fields obj =
     rbind (check_if (dhas obj ''description'') (text_arg (dget obj ''description'') ''description''))
       (\<lambda>_.
     rbind (check_if (dhas obj ''instructions'') (paths_arg (dget obj ''instructions'') ''instructions''))
       (\<lambda>_.
     rbind (check_if (dhas obj ''kernel_identity'') (check_identity (dget obj ''kernel_identity'')))
       (\<lambda>_.
     rbind (check_if (dhas obj ''platform_support'') (check_platform (dget obj ''platform_support'')))
       (\<lambda>_.
     rbind (check_workspace (dget_default obj ''workspace'' (PDict []))) (\<lambda>_.
     rbind (check_exports (dget_default obj ''exports'' (PList []))) (\<lambda>_.
     check_if True (mapR (\<lambda>f. if dhas obj f \<and> \<not> is_dict (dget obj f) then Inl (NotAMapping f) else Inr ())
       [''evaluation_profile'', ''evaluation_tools''])))))))"

section \<open>The task specification\<close>

definition config_fields :: "string list" where
  "config_fields =
     [''schema_version'', ''description'', ''instructions'', ''kernel_identity'', ''candidate'',
      ''baseline'', ''evaluation'', ''workspace'', ''platform_support'', ''evaluation_profile'',
      ''evaluation_tools'', ''exports'']"

text \<open>A nested mapping of the declaration, and the strings of a list of paths.\<close>

fun entries_of :: "pyval \<Rightarrow> pydict" where
  "entries_of (PDict d) = d"
| "entries_of _ = []"

fun strings_of :: "pyval \<Rightarrow> string list" where
  "strings_of (PList vs) = concat (map (\<lambda>v. case v of PStr s \<Rightarrow> [s] | _ \<Rightarrow> []) vs)"
| "strings_of _ = []"

text \<open>
  The inputs no edit may touch.  They are read after the sections were checked: instructions
  and workloads are then relative paths, and the evaluation a mapping.
\<close>

definition protected_inputs :: "pydict \<Rightarrow> string list" where
  "protected_inputs obj =
     [''config.yaml'', ''README.md'']
     @ strings_of (dget_default obj ''instructions'' (PList []))
     @ (let evaluation = entries_of (dget obj ''evaluation'') in
        if dhas evaluation ''workloads'' then strings_of (PList [dget evaluation ''workloads'']) else [])"

definition touches_protected :: "edit_scope list \<Rightarrow> string list \<Rightarrow> string list \<Rightarrow> bool" where
  "touches_protected edits protected sources =
     list_ex (\<lambda>path. list_ex (\<lambda>e. contains e path \<and> (es_scope e \<noteq> ''symbols'' \<or> path \<in> set protected))
                edits) (protected @ sources)"

definition from_mapping :: "pyval \<Rightarrow> string \<Rightarrow> (config_error, task_spec) result" where
  "from_mapping config task_id =
     rbind (relative_path (PStr task_id) ''task_id'') (\<lambda>_.
     rbind (mapping_arg config ''task config'' config_fields) (\<lambda>obj.
     if dget obj ''schema_version'' \<noteq> PInt 2
       then Inl (Refused ''Expected schema_version: 2; migrate legacy configuration explicitly'')
     else
     rbind (candidate_of (dget obj ''candidate'')) (\<lambda>candidate.
     rbind (baseline_of (dget_default obj ''baseline'' (PDict [])) candidate) (\<lambda>baseline.
     rbind (actions_of (dget obj ''evaluation'')) (\<lambda>actions.
     rbind (optional_fields obj) (\<lambda>_.
     if touches_protected (cand_editable candidate) (protected_inputs obj)
          (base_source_files baseline)
       then Inl (Refused ''Editable declaration includes protected task input'')
     else Inr \<lparr>ts_task_id = task_id, ts_candidate = candidate, ts_baseline = baseline,
               ts_actions = actions, ts_config = obj\<rparr>))))))"

text \<open>\<open>TaskSpec.action\<close>.\<close>

definition select_action :: "task_spec \<Rightarrow> string \<Rightarrow> string \<Rightarrow> (config_error, action_spec) result" where
  "select_action s role act =
     (case find (\<lambda>a. act_role a = role \<and> act_action a = act) (ts_actions s) of
        Some a \<Rightarrow> Inr a | None \<Rightarrow> Inl (Refused ''Unsupported task action''))"

text \<open>
  \<open>TaskSpec.to_mapping\<close>: the stored declaration with its defaults made explicit.  Reading a
  missing key raises \<open>KeyError\<close>, storing into a value that is not a mapping \<open>TypeError\<close>.
\<close>

definition dict_item :: "pydict \<Rightarrow> string \<Rightarrow> (py_exc, pydict) result" where
  "dict_item d k = (case dlookup d k of None \<Rightarrow> Inl KeyErr | Some (PDict e) \<Rightarrow> Inr e | Some _ \<Rightarrow> Inl TypeErr)"

definition explicit_candidate :: "candidate_spec \<Rightarrow> pydict \<Rightarrow> pydict" where
  "explicit_candidate c c0 =
     (let c1 = dput c0 ''initial_state'' (PStr (cand_initial_state c)) in
      case cand_initial_language c of Some l \<Rightarrow> dput c1 ''initial_language'' (PStr l) | None \<Rightarrow> c1)"

definition explicit_baseline :: "baseline_spec \<Rightarrow> pydict \<Rightarrow> pydict" where
  "explicit_baseline b b0 =
     dput (dput b0 ''kind'' (PStr (base_kind b))) ''correctness_policy'' (PStr (base_correctness_policy b))"

definition to_mapping :: "task_spec \<Rightarrow> (py_exc, pydict) result" where
  "to_mapping s =
     rbind (dict_item (ts_config s) ''candidate'') (\<lambda>c0.
     let obj1 = dsetdefault (dput (ts_config s) ''candidate''
                  (PDict (explicit_candidate (ts_candidate s) c0))) ''baseline'' (PDict []) in
     rbind (dict_item obj1 ''baseline'') (\<lambda>b0.
     let obj2 = dput obj1 ''baseline'' (PDict (explicit_baseline (ts_baseline s) b0)) in
     rbind (dict_item obj2 ''evaluation'') (\<lambda>e0.
     Inr (dput obj2 ''evaluation'' (PDict (dsetdefault e0 ''timeout_s'' (PInt 3600)))))))"

section \<open>An example\<close>

definition sample_config :: pyval where
  "sample_config = PDict
     [(PStr ''schema_version'', PInt 2),
      (PStr ''instructions'', PList [PStr ''docs/guide.md'']),
      (PStr ''candidate'', PDict
         [(PStr ''language'', PStr ''hip''),
          (PStr ''editable'', PList [PStr ''kernel.hip'',
             PDict [(PStr ''path'', PStr ''src''), (PStr ''scope'', PStr ''tree'')]]),
          (PStr ''entrypoints'', PList [PDict
             [(PStr ''file'', PStr ''src/op/launch.hip''), (PStr ''kind'', PStr ''function''),
              (PStr ''symbol'', PStr ''launch'')]])]),
      (PStr ''evaluation'', PDict
         [(PStr ''runner'', PList [PStr ''python'', PStr ''run.py'']),
          (PStr ''workloads'', PStr ''workloads.json''),
          (PStr ''candidate'', PDict [(PStr ''performance'', PDict [(PStr ''timeout_s'', PInt 90)])])])]"

lemma sample_config_accepted: "is_ok (from_mapping sample_config ''hip/op'')"
  by code_simp

end
