(* ===== verification/TaskProtocol.thy ===== *)
theory TaskProtocol
  imports Json TaskSpec CaseParsing
begin

text \<open>
  \<open>src/task_protocol.py\<close>: the evidence of one command of a task.  A report is one JSON line
  of the process's standard output; it is decoded, checked field by field, merged with the
  reports of the other commands of the action, and compared with the manifest of cases that was
  captured before the optimization.

  \<open>Protocol\<close> is \<open>TaskProtocolError\<close>.  \<open>Escapes\<close> is an exception of another class, which
  the callers do not expect here.
\<close>

datatype report_error = Protocol string | Escapes py_exc

section \<open>Decoding a report\<close>

text \<open>\<open>str.splitlines\<close> on code points below 256.\<close>

definition line_break :: "char \<Rightarrow> bool" where
  "line_break c = (let n = (of_char c :: nat) in (10 \<le> n \<and> n \<le> 13) \<or> (28 \<le> n \<and> n \<le> 30) \<or> n = 133)"

fun splitlines :: "string \<Rightarrow> string list" where
  "splitlines [] = []"
| "splitlines (c # s) =
     (if c = CHR 0x0D \<and> s \<noteq> [] \<and> hd s = CHR 0x0A then [] # splitlines (tl s)
      else if line_break c then [] # splitlines s
      else (case splitlines s of [] \<Rightarrow> [[c]] | l # ls \<Rightarrow> (c # l) # ls))"

definition RESULT_PREFIX :: string where "RESULT_PREFIX = ''ARENA_EVAL_RESULT=''"
definition PROTOCOL :: string where "PROTOCOL = ''arena-eval-v1''"
definition IDENTITY_FIELDS :: "string list" where "IDENTITY_FIELDS = [''shape'', ''dtype'', ''params'']"
definition TIMING_METHODS :: "string list" where
  "TIMING_METHODS = [''cuda_graph'', ''cuda_event_fallback'']"

text \<open>\<open>_object_pairs\<close> and the constant hook.\<close>

definition object_pairs :: pairs_hook where
  "object_pairs ps =
     foldR (\<lambda>obj (k, v). if dhas obj k then Inl (DuplicateKey k) else Inr (dput obj k v)) [] ps"

definition reject_constant :: constant_hook where
  "reject_constant c = Inl (BadConstant c)"

fun report_json_error :: "json_error \<Rightarrow> report_error" where
  "report_json_error (DuplicateKey k) = Protocol ''Duplicate JSON key''"
| "report_json_error (BadConstant c) = Protocol ''Invalid JSON constant''"
| "report_json_error TooManyDigits = Escapes ValueErr"
| "report_json_error _ = Protocol ''Malformed command report''"

text \<open>\<open>_text\<close>, \<open>_status\<close> and \<open>_validate_json_numbers\<close>.\<close>

fun nonblank :: "pyval \<Rightarrow> bool" where
  "nonblank (PStr s) = (strip s \<noteq> [])"
| "nonblank _ = False"

definition check_text :: "pyval \<Rightarrow> string \<Rightarrow> (report_error, unit) result" where
  "check_text v place = guardR (nonblank v) (Protocol (place @ '' must be a nonempty string''))"

definition check_status :: "pyval \<Rightarrow> string \<Rightarrow> (report_error, unit) result" where
  "check_status v place =
     guardR (v = PStr ''PASS'' \<or> v = PStr ''FAIL'') (Protocol (place @ '' must be PASS or FAIL''))"

fun finite_numbers :: "pyval \<Rightarrow> bool" where
  "finite_numbers (PFloat f) = isfinite f"
| "finite_numbers (PDict d) = list_all (\<lambda>(k, v). finite_numbers v) d"
| "finite_numbers (PList vs) = list_all finite_numbers vs"
| "finite_numbers _ = True"

section \<open>Checking a report\<close>

record action_result =
  ar_role :: string
  ar_action :: string
  ar_status :: string
  ar_cases :: "pydict list"
  ar_reason :: pyval
  ar_failure_kind :: pyval
  ar_metadata :: pyval

definition passed :: "action_result \<Rightarrow> bool" where
  "passed r = (ar_status r = ''PASS'')"

text \<open>\<open>ActionResult.to_mapping\<close>.\<close>

definition add_present :: "string \<Rightarrow> pyval \<Rightarrow> pydict \<Rightarrow> pydict" where
  "add_present k v d = (if v \<noteq> PNone then dput d k v else d)"

definition result_to_mapping :: "action_result \<Rightarrow> pydict" where
  "result_to_mapping r =
     add_present ''metadata'' (ar_metadata r)
       (add_present ''failure_kind'' (ar_failure_kind r)
         (add_present ''reason'' (ar_reason r)
           [(PStr ''protocol'', PStr PROTOCOL), (PStr ''role'', PStr (ar_role r)),
            (PStr ''action'', PStr (ar_action r)), (PStr ''status'', PStr (ar_status r)),
            (PStr ''cases'', PList (map PDict (ar_cases r)))]))"

text \<open>
  The fields of a case that depend on the action: the checks a task declares for it, and the
  timing of a passing performance case.  \<open>math.isfinite\<close> converts an integer to a float first,
  which overflows on a huge one.
\<close>

definition check_checks :: "pydict \<Rightarrow> (report_error, unit) result" where
  "check_checks row =
     (case dget row ''checks'' of
        PList cs \<Rightarrow>
          if cs = [] \<or> \<not> list_all (\<lambda>c. c = PStr ''correctness'' \<or> c = PStr ''performance'') cs \<or> \<not> distinct cs
            then Inl (Protocol ''case requires a checks list'')
          else if PStr ''performance'' \<in> set cs \<and> PStr ''correctness'' \<notin> set cs
            then Inl (Protocol ''Performance case lacks correctness coverage'')
          else Inr ()
      | _ \<Rightarrow> Inl (Protocol ''case requires a checks list''))"

definition latency_ok :: "pyval \<Rightarrow> (report_error, bool) result" where
  "latency_ok v =
     (case v of
        PInt k \<Rightarrow> rbind (map_error Escapes (float_of_int k)) (\<lambda>_. Inr (0 < k))
      | PFloat f \<Rightarrow> Inr (isfinite f \<and> \<not> fle f (Fin 0))
      | _ \<Rightarrow> Inr False)"

definition check_timing :: "pydict \<Rightarrow> (report_error, unit) result" where
  "check_timing row =
     rbind (latency_ok (dget row ''execution_time_ms'')) (\<lambda>ok.
     rbind (guardR ok (Protocol ''case requires finite positive execution_time_ms'')) (\<lambda>_.
     guardR (dget row ''benchmark_method'' \<in> PStr ` set TIMING_METHODS)
       (Protocol ''case has unsupported device benchmark_method'')))"

definition is_dict_if :: "pydict \<Rightarrow> string \<Rightarrow> (report_error, unit) result" where
  "is_dict_if row k = guardR (\<not> (dhas row k \<and> \<not> is_dict (dget row k))) (Protocol (k @ '' must be an object''))"

text \<open>One row of the cases; the state of the loop is the identifiers seen so far.\<close>

definition check_row ::
    "string \<Rightarrow> bool \<Rightarrow> pydict list \<Rightarrow> pyval \<Rightarrow> (report_error, pydict list) result" where
  "check_row action ok seen v =
     (case v of PDict row \<Rightarrow>
        let case_id = dget row ''test_case_id'' in
        rbind (check_text case_id ''test_case_id'') (\<lambda>_.
        rbind (raise_when (case_id \<in> (\<lambda>r. dget r ''test_case_id'') ` set seen)
                 (Protocol ''Duplicate test_case_id'')) (\<lambda>_.
        rbind (check_status (dget row ''status'') ''case status'') (\<lambda>_.
        rbind (raise_when (ok \<and> dget row ''status'' \<noteq> PStr ''PASS'')
                 (Protocol ''PASS report contains failed case'')) (\<lambda>_.
        rbind (is_dict_if row ''params'') (\<lambda>_.
        rbind (if dhas row ''dtype'' then check_text (dget row ''dtype'') ''dtype'' else Inr ()) (\<lambda>_.
        rbind (is_dict_if row ''metrics'') (\<lambda>_.
        rbind (is_dict_if row ''metadata'') (\<lambda>_.
        rbind (if action = ''validate-task'' then check_checks row else Inr ()) (\<lambda>_.
        rbind (if action = ''performance'' \<and> dget row ''status'' = PStr ''PASS''
               then check_timing row else Inr ()) (\<lambda>_.
        Inr (seen @ [row])))))))))))
      | _ \<Rightarrow> Inl (Protocol ''Each case must be an object''))"

definition report_fields :: "string list" where
  "report_fields =
     [''protocol'', ''role'', ''action'', ''status'', ''cases'', ''reason'', ''failure_kind'', ''metadata'']"

fun as_list :: "pyval \<Rightarrow> (report_error, pyval list) result" where
  "as_list (PList vs) = Inr vs"
| "as_list _ = Inl (Protocol ''cases must be an array'')"

fun as_object :: "pyval \<Rightarrow> (report_error, pydict) result" where
  "as_object (PDict d) = Inr d"
| "as_object _ = Inl (Protocol ''Command report must be an object'')"

text \<open>The checks of \<open>parse_command_result\<close> on the decoded report.\<close>

definition check_report ::
    "pydict \<Rightarrow> string \<Rightarrow> string \<Rightarrow> int \<Rightarrow> (report_error, action_result) result" where
  "check_report obj role action returncode =
     rbind (guardR (finite_numbers (PDict obj)) (Protocol ''Report contains a nonfinite JSON number'')) (\<lambda>_.
     rbind (guardR (keys obj \<subseteq> PStr ` set report_fields) (Protocol ''Unknown command report fields'')) (\<lambda>_.
     rbind (guardR (dget obj ''protocol'' = PStr PROTOCOL \<and> dget obj ''role'' = PStr role
                    \<and> dget obj ''action'' = PStr action)
              (Protocol ''Command report protocol/role/action does not match invocation'')) (\<lambda>_.
     rbind (check_status (dget obj ''status'') ''status'') (\<lambda>_.
     let ok = (dget obj ''status'' = PStr ''PASS'') in
     rbind (raise_when ((returncode = 0) \<noteq> ok) (Protocol ''Command exit code contradicts report status'')) (\<lambda>_.
     rbind (raise_when (returncode < 0) (Protocol ''Command was terminated by a signal'')) (\<lambda>_.
     rbind (if \<not> ok then check_text (dget obj ''reason'') ''failure reason'' else Inr ()) (\<lambda>_.
     rbind (if dhas obj ''failure_kind'' then
              rbind (check_text (dget obj ''failure_kind'') ''failure_kind'') (\<lambda>_.
                raise_when ok (Protocol ''PASS report cannot carry failure_kind''))
            else Inr ()) (\<lambda>_.
     rbind (is_dict_if obj ''metadata'') (\<lambda>_.
     rbind (as_list (dget obj ''cases'')) (\<lambda>cases.
     rbind (raise_when (ok \<and> action \<noteq> ''compile'' \<and> cases = []) (Protocol ''A passing action requires nonempty cases'')) (\<lambda>_.
     rbind (foldR (check_row action ok) [] cases) (\<lambda>rows.
     Inr \<lparr>ar_role = role, ar_action = action, ar_status = (if ok then ''PASS'' else ''FAIL''),
          ar_cases = rows, ar_reason = dget obj ''reason'', ar_failure_kind = dget obj ''failure_kind'',
          ar_metadata = dget obj ''metadata''\<rparr>))))))))))))"

text \<open>\<open>parse_command_result\<close>.\<close>

definition result_lines :: "string \<Rightarrow> string list" where
  "result_lines stdout =
     map (drop (length RESULT_PREFIX)) (filter (starts_with RESULT_PREFIX) (splitlines stdout))"

definition parse_command_result ::
    "string \<Rightarrow> string \<Rightarrow> string \<Rightarrow> int \<Rightarrow> (report_error, action_result) result" where
  "parse_command_result stdout role action returncode =
     (if (role, action) \<notin> set ACTIONS then Inl (Protocol ''Unsupported action'')
      else case result_lines stdout of
        [line] \<Rightarrow>
          rbind (map_error report_json_error (json_loads object_pairs reject_constant line)) (\<lambda>v.
          rbind (as_object v) (\<lambda>obj. check_report obj role action returncode))
      | _ \<Rightarrow> Inl (Protocol ''Expected exactly one result line''))"

section \<open>The manifest of cases\<close>

text \<open>
  \<open>_identity\<close>: two rows have the same identity when the JSON text of their identity fields,
  with sorted keys, is the same.  The text determines and is determined by the value with its
  keys sorted, which is what is compared here; integers, floats and booleans stay distinct, as
  they are in the text.
\<close>

fun key_text :: "pyval \<Rightarrow> string" where
  "key_text (PStr s) = s"
| "key_text _ = []"

fun canonical :: "pyval \<Rightarrow> pyval" where
  "canonical (PDict d) = PDict (sort_key (\<lambda>kv. key_text (fst kv)) (map (\<lambda>(k, v). (k, canonical v)) d))"
| "canonical (PList vs) = PList (map canonical vs)"
| "canonical v = v"

definition identity :: "pydict \<Rightarrow> pyval" where
  "identity row =
     canonical (PDict (concat (map (\<lambda>k. case dlookup row k of Some v \<Rightarrow> [(PStr k, v)] | None \<Rightarrow> [])
       IDENTITY_FIELDS)))"

text \<open>
  \<open>CaseManifest\<close> is the list of its cases.  Their checks are lists, by \<open>check_checks\<close>.
\<close>

type_synonym manifest = "pydict list"

definition row_id :: "pydict \<Rightarrow> pyval" where
  "row_id row = dget row ''test_case_id''"

definition has_check :: "string \<Rightarrow> pydict \<Rightarrow> bool" where
  "has_check c row = (case dget row ''checks'' of PList cs \<Rightarrow> PStr c \<in> set cs | _ \<Rightarrow> False)"

definition manifest_from_result :: "action_result \<Rightarrow> (report_error, manifest) result" where
  "manifest_from_result r =
     (if (ar_role r, ar_action r, ar_status r) \<noteq> (''task'', ''validate-task'', ''PASS'')
        then Inl (Protocol ''Manifest requires a successful validate-task action'')
      else if \<not> list_ex (has_check ''performance'') (ar_cases r)
        then Inl (Protocol ''Task manifest has no performance cases'')
      else Inr (ar_cases r))"

text \<open>\<open>validate\<close>; a later row of the manifest with the same identifier would win.\<close>

definition manifest_row :: "manifest \<Rightarrow> pyval \<Rightarrow> pydict option" where
  "manifest_row m i = map_of (rev (map (\<lambda>r. (row_id r, r)) m)) i"

definition expected_ids :: "manifest \<Rightarrow> string \<Rightarrow> pyval list" where
  "expected_ids m action =
     filter (\<lambda>i. case manifest_row m i of Some r \<Rightarrow> has_check action r | None \<Rightarrow> False) (map row_id m)"

definition validate :: "manifest \<Rightarrow> action_result \<Rightarrow> (report_error, unit) result" where
  "validate m r =
     (if ar_action r = ''validate-task''
        then Inl (Protocol ''A validate-task result creates the manifest; it is not candidate evidence'')
      else let actual = map row_id (ar_cases r) in
      if \<not> distinct actual then Inl (Protocol ''Duplicate cases in action result'')
      else if ar_action r = ''compile'' \<and> \<not> set actual \<subseteq> set (map row_id m)
        then Inl (Protocol ''Compile result contains cases outside the manifest'')
      else if ar_action r \<noteq> ''compile'' \<and> set actual \<noteq> set (expected_ids m (ar_action r))
        then Inl (Protocol ''Case manifest mismatch'')
      else if list_ex (\<lambda>row. map_option identity (manifest_row m (row_id row)) \<noteq> Some (identity row))
                (ar_cases r)
        then Inl (Protocol ''Case input identity changed'')
      else Inr ())"

section \<open>Merging the commands of an action\<close>

text \<open>\<open>result.reason or "Command failed"\<close>, joined with semicolons.\<close>

fun reason_text :: "pyval \<Rightarrow> (report_error, string) result" where
  "reason_text (PStr s) = Inr (if s = [] then ''Command failed'' else s)"
| "reason_text v = (if truthy v then Inl (Escapes TypeErr) else Inr ''Command failed'')"

fun join_reasons :: "string list \<Rightarrow> string" where
  "join_reasons [] = []"
| "join_reasons [r] = r"
| "join_reasons (r # s # rs) = r @ ''; '' @ join_reasons (s # rs)"

definition add_case :: "pydict list \<Rightarrow> pydict \<Rightarrow> (report_error, pydict list) result" where
  "add_case cases row =
     (if row_id row \<in> row_id ` set cases then Inl (Protocol ''Duplicate case across commands'')
      else Inr (cases @ [row]))"

definition add_result ::
    "string \<times> string \<Rightarrow> pydict list \<Rightarrow> action_result \<Rightarrow> (report_error, pydict list) result" where
  "add_result ra cases r =
     (if (ar_role r, ar_action r) \<noteq> ra then Inl (Protocol ''Cannot merge different actions'')
      else foldR add_case cases (ar_cases r))"

definition merge_command_results :: "action_result list \<Rightarrow> (report_error, action_result) result" where
  "merge_command_results results =
     (case results of [] \<Rightarrow> Inl (Protocol ''Action produced no command results'')
      | first # _ \<Rightarrow>
        rbind (foldR (add_result (ar_role first, ar_action first)) [] results) (\<lambda>cases.
        let failed = filter (\<lambda>r. \<not> passed r) results in
        rbind (mapR (\<lambda>r. reason_text (ar_reason r)) failed) (\<lambda>reasons.
        Inr \<lparr>ar_role = ar_role first, ar_action = ar_action first,
             ar_status = (if failed \<noteq> [] then ''FAIL'' else ''PASS''), ar_cases = cases,
             ar_reason = (if join_reasons reasons = [] then PNone else PStr (join_reasons reasons)),
             ar_failure_kind = (case remdups (map ar_failure_kind failed) of [k] \<Rightarrow> k | _ \<Rightarrow> PNone),
             ar_metadata = PDict [(PStr ''commands'', PList (map ar_metadata results))]\<rparr>)))"

section \<open>Accepting and scoring\<close>

definition baseline_correctness_accepted ::
    "action_result \<Rightarrow> baseline_spec \<Rightarrow> string \<Rightarrow> manifest \<Rightarrow> (report_error, bool) result" where
  "baseline_correctness_accepted r baseline phase m =
     (if (ar_role r, ar_action r) \<noteq> (''baseline'', ''correctness'')
        then Inl (Protocol ''Baseline policy cannot be applied to another role/action'')
      else rbind (validate m r) (\<lambda>_. Inr
       (if passed r then True
        else if phase \<noteq> ''task_validation'' \<or> base_correctness_policy baseline \<noteq> ''diagnostic'' then False
        else if ar_failure_kind r \<noteq> PStr ''numerical_mismatch'' then False
        else let failed = filter (\<lambda>row. dget row ''status'' = PStr ''FAIL'') (ar_cases r) in
          failed \<noteq> [] \<and> list_all (\<lambda>row. dget row ''failure_kind'' = PStr ''numerical_mismatch'') failed)))"

text \<open>
  \<open>performance_cases\<close>: the rows as scoring input, with the time as it was reported, an integer or a
  float; the rows of a passing result have no other.
\<close>

definition copy_fields :: "string list \<Rightarrow> pydict \<Rightarrow> pydict \<Rightarrow> pydict" where
  "copy_fields ks row d =
     foldl (\<lambda>m k. case dlookup row k of Some v \<Rightarrow> dput m k v | None \<Rightarrow> m) d ks"

fun given_time :: "pyval \<Rightarrow> (py_exc, case_time) result" where
  "given_time (PInt k) = Inr (IntTime k)"
| "given_time v = rbind (py_float v) (\<lambda>f. Inr (FloatTime f))"

definition scoring_case :: "pydict \<Rightarrow> (report_error, test_case) result" where
  "scoring_case row =
     (case dlookup row ''execution_time_ms'' of None \<Rightarrow> Inl (Escapes KeyErr)
      | Some v \<Rightarrow> rbind (map_error Escapes (given_time v)) (\<lambda>t.
        Inr \<lparr>test_case_id = row_id row, shape = dget row ''shape'', execution_time_ms = t,
             metadata = copy_fields [''dtype'', ''params'', ''metrics'', ''benchmark_method''] row
               (case dget_default row ''metadata'' (PDict []) of PDict d \<Rightarrow> d | _ \<Rightarrow> [])\<rparr>))"

definition performance_cases :: "action_result \<Rightarrow> (report_error, test_case list) result" where
  "performance_cases r =
     (if ar_action r \<noteq> ''performance'' \<or> \<not> passed r
        then Inl (Protocol ''Scoring requires a passing performance action'')
      else mapR scoring_case (ar_cases r))"

end
