(* ===== verification/TaskProtocolFacts.thy ===== *)
theory TaskProtocolFacts
  imports TaskProtocol
begin

text \<open>
  What accepted evidence guarantees: a parsed report agrees with the exit code and has sound
  rows, a validated result covers the manifest exactly, merged results lose no case, the
  baseline exception is narrow, and timing evidence can always be scored.
\<close>

section \<open>What an accepted report says\<close>

definition sound_time :: "pyval \<Rightarrow> bool" where
  "sound_time v = (case py_float v of Inr t \<Rightarrow> isfinite t \<and> flt (Fin 0) t | Inl _ \<Rightarrow> False)"

definition sound_row :: "string \<Rightarrow> bool \<Rightarrow> pydict \<Rightarrow> bool" where
  "sound_row act ok row =
     (nonblank (row_id row) \<and> dget row ''status'' \<in> {PStr ''PASS'', PStr ''FAIL''}
      \<and> (ok \<longrightarrow> dget row ''status'' = PStr ''PASS'')
      \<and> (act = ''validate-task'' \<and> has_check ''performance'' row \<longrightarrow> has_check ''correctness'' row)
      \<and> (act = ''performance'' \<and> dget row ''status'' = PStr ''PASS'' \<longrightarrow>
           sound_time (dget row ''execution_time_ms'')
           \<and> dget row ''benchmark_method'' \<in> PStr ` set TIMING_METHODS))"

lemma latency_ok_sound: "latency_ok v = Inr True \<Longrightarrow> sound_time v"
proof (cases v)
  case (PInt k)
  assume "latency_ok v = Inr True"
  then obtain t where t: "float_of_int k = Inr t" "0 < k"
    by (auto simp: latency_ok_def PInt result_simps)
  then have "isfinite t" "round64 (of_int k) = t"
    by (auto simp: float_of_int_def Let_def split: if_splits)
  moreover from this have "fle (Fin 1) t"
    using t(2) b64.above [of 1 "of_int k"] by simp
  ultimately show ?thesis
    using t by (cases t) (auto simp: sound_time_def PInt fle_def)
next
  case (PFloat f)
  assume "latency_ok v = Inr True"
  then show ?thesis by (cases f) (auto simp: latency_ok_def PFloat sound_time_def fle_def)
qed (auto simp: latency_ok_def)

lemma check_row_sound:
  assumes "check_row act ok seen v = Inr seen'"
  shows "\<exists>row. v = PDict row \<and> seen' = seen @ [row] \<and> sound_row act ok row \<and> row_id row \<notin> row_id ` set seen"
proof (cases v)
  case (PDict row)
  have "seen' = seen @ [row] \<and> sound_row act ok row \<and> row_id row \<notin> row_id ` set seen"
    using assms latency_ok_sound [of "dget row ''execution_time_ms''"]
    unfolding check_row_def PDict Let_def
    by (auto simp: result_simps row_id_def [abs_def] sound_row_def check_text_def check_status_def
        check_timing_def check_checks_def has_check_def split: if_splits pyval.splits)
  with PDict show ?thesis by blast
qed (use assms in \<open>auto simp: check_row_def\<close>)

lemma check_rows_sound:
  assumes "foldR (check_row act ok) [] vs = Inr rows"
  shows "list_all (sound_row act ok) rows" "distinct (map row_id rows)" "vs = map PDict rows"
proof -
  have "list_all (sound_row act ok) rows \<and> distinct (map row_id rows)"
    by (rule foldR_invariant [OF assms, where P = "\<lambda>rs. list_all (sound_row act ok) rs \<and> distinct (map row_id rs)"])
       (auto dest!: check_row_sound)
  then show "list_all (sound_row act ok) rows" "distinct (map row_id rows)" by auto
  have "\<exists>rest. rows = seen @ rest \<and> vs = map PDict rest"
    if "foldR (check_row act ok) seen vs = Inr rows" for seen
    using that by (induction vs arbitrary: seen) (fastforce simp: rbind_eq_Inr dest!: check_row_sound)+
  from this [OF assms] show "vs = map PDict rows" by simp
qed

lemma check_report_Inr:
  assumes "check_report obj role act rc = Inr r"
  shows "ar_role r = role" "ar_action r = act" "passed r \<longleftrightarrow> rc = 0" "0 \<le> rc"
    "list_all (sound_row act (passed r)) (ar_cases r)" "distinct (map row_id (ar_cases r))"
    "passed r \<and> act \<noteq> ''compile'' \<longrightarrow> ar_cases r \<noteq> []" "\<not> passed r \<longrightarrow> nonblank (ar_reason r)"
    "finite_numbers (PDict obj)"
proof -
  define ok where "ok = (dget obj ''status'' = PStr ''PASS'')"
  from assms obtain cases rows u1 u2 u3 u4 u5 where
      f: "guardR (finite_numbers (PDict obj)) (Protocol ''Report contains a nonfinite JSON number'') = Inr u1"
      and rc: "raise_when ((rc = 0) \<noteq> ok) (Protocol ''Command exit code contradicts report status'') = Inr u2"
      and neg: "raise_when (rc < 0) (Protocol ''Command was terminated by a signal'') = Inr u3"
      and re: "(if \<not> ok then check_text (dget obj ''reason'') ''failure reason'' else Inr ()) = Inr u4"
      and ne: "raise_when (ok \<and> act \<noteq> ''compile'' \<and> cases = [])
          (Protocol ''A passing action requires nonempty cases'') = Inr u5"
      and rows: "foldR (check_row act ok) [] cases = Inr rows"
      and "Inr \<lparr>ar_role = role, ar_action = act, ar_status = (if ok then ''PASS'' else ''FAIL''),
          ar_cases = rows, ar_reason = dget obj ''reason'', ar_failure_kind = dget obj ''failure_kind'',
          ar_metadata = dget obj ''metadata''\<rparr> = (Inr r :: (report_error, action_result) result)"
    unfolding check_report_def Let_def ok_def by (elim rbindE)
  then have r: "r = \<lparr>ar_role = role, ar_action = act, ar_status = (if ok then ''PASS'' else ''FAIL''),
          ar_cases = rows, ar_reason = dget obj ''reason'', ar_failure_kind = dget obj ''failure_kind'',
          ar_metadata = dget obj ''metadata''\<rparr>"
    by simp
  have p: "passed r = ok" by (simp add: r passed_def)
  note rs = check_rows_sound [OF rows]
  show "ar_role r = role" "ar_action r = act" "passed r \<longleftrightarrow> rc = 0" "0 \<le> rc"
    using rc neg by (simp_all add: p, simp_all add: r result_simps)
  show "list_all (sound_row act (passed r)) (ar_cases r)" "distinct (map row_id (ar_cases r))"
    using rs p by (simp_all add: r)
  show "passed r \<and> act \<noteq> ''compile'' \<longrightarrow> ar_cases r \<noteq> []"
    using ne rs(3) unfolding p by (auto simp: r result_simps)
  show "\<not> passed r \<longrightarrow> nonblank (ar_reason r)"
    using re unfolding p by (auto simp: r result_simps check_text_def)
  show "finite_numbers (PDict obj)" using f by (simp add: result_simps)
qed

lemma parse_command_result_Inr:
  assumes "parse_command_result out role act rc = Inr r"
  obtains line obj where "(role, act) \<in> set ACTIONS" "result_lines out = [line]"
    "json_loads object_pairs reject_constant line = Inr (PDict obj)" "check_report obj role act rc = Inr r"
proof -
  from assms obtain line v where l: "(role, act) \<in> set ACTIONS" "result_lines out = [line]"
      "json_loads object_pairs reject_constant line = Inr v" and
      o: "rbind (as_object v) (\<lambda>obj. check_report obj role act rc) = Inr r"
    by (auto simp: parse_command_result_def result_simps split: if_splits list.splits)
  moreover from o obtain obj where "v = PDict obj" by (cases v) auto
  ultimately show thesis using that by auto
qed

section \<open>Well-formed documents\<close>

fun strict_json :: "pyval \<Rightarrow> bool" where
  "strict_json (PDict d) = (wf_dict d \<and> list_all (\<lambda>(k, v). is_str k \<and> strict_json v) d)"
| "strict_json (PList vs) = list_all strict_json vs"
| "strict_json _ = True"

lemma set_dput: "x \<in> set (dput d k v) \<Longrightarrow> x \<in> set d \<or> x = (PStr k, v)"
  by (induction d k v rule: dput.induct) (auto split: if_splits)

lemma object_pairs_strict:
  assumes "object_pairs ps = Inr d" "list_all (strict_json \<circ> snd) ps"
  shows "strict_json (PDict d)"
proof (rule foldR_invariant [OF assms(1) [unfolded object_pairs_def], where P = "\<lambda>d. strict_json (PDict d)"])
  fix d kv d'
  assume d: "strict_json (PDict d)" and kv: "kv \<in> set ps"
    and step: "(case kv of (k, v) \<Rightarrow> if dhas d k then Inl (DuplicateKey k) else Inr (dput d k v)) = Inr d'"
  obtain k v where k: "kv = (k, v)" by (cases kv)
  with step have d': "d' = dput d k v" by (simp split: if_splits)
  have "strict_json v" using kv assms(2) by (auto simp: k list_all_iff)
  then show "strict_json (PDict d')"
    using d by (fastforce simp: d' list_all_iff wf_dput dest!: set_dput)
qed simp

lemma scan_atom_strict: "scan_atom reject_constant s = Inr (v, r) \<Longrightarrow> strict_json v"
  by (auto simp: scan_atom_def json_literals_def reject_constant_def number_value_def Let_def result_simps
      split: option.splits if_splits prod.splits list.splits)

lemma json_value_strict:
  "json_value object_pairs reject_constant n s = Inr (v, r) \<Longrightarrow> strict_json v"
  "json_items object_pairs reject_constant n vs s = Inr (v, r) \<Longrightarrow> list_all strict_json vs \<Longrightarrow> strict_json v"
  "json_members object_pairs reject_constant n ps s = Inr (v, r) \<Longrightarrow> list_all (strict_json \<circ> snd) ps
     \<Longrightarrow> strict_json v"
proof (induction object_pairs reject_constant n s and object_pairs reject_constant n vs s
    and object_pairs reject_constant n ps s arbitrary: v r and v r and v r
    rule: json_value_json_items_json_members.induct)
  case (2 n s)
  then show ?case
    by (fastforce simp: json_value.simps result_simps dest: scan_atom_strict object_pairs_strict
        split: list.splits if_splits)
next
  case (4 n vs s)
  from 4(3) obtain w r0 d r1 where w: "json_value object_pairs reject_constant n s = Inr (w, r0)" "skip_ws r0 = d # r1"
      "(if d = CHR '']'' then Inr (PList (vs @ [w]), r1)
         else if d = CHR '','' then json_items object_pairs reject_constant n (vs @ [w]) (skip_ws r1)
         else Inl MalformedJson) = Inr (v, r)"
    by (auto simp: json_items.simps result_simps neq_Nil_conv split: list.splits)
  have "strict_json w" by (rule 4(1) [OF w(1)])
  with 4(4) w(3) 4(2) [OF w(1) refl w(2)] show ?case by (auto split: if_splits)
next
  case (6 n ps s)
  from 6(3) obtain k s0 w r0 d r1 where k: "scan_key s = Inr (k, s0)"
      and w: "json_value object_pairs reject_constant n s0 = Inr (w, r0)" "skip_ws r0 = d # r1"
      "(if d = CHR ''}'' then rbind (object_pairs (ps @ [(k, w)])) (\<lambda>o'. Inr (PDict o', r1))
         else if d = CHR '','' then json_members object_pairs reject_constant n (ps @ [(k, w)]) (skip_ws r1)
         else Inl MalformedJson) = Inr (v, r)"
    by (auto simp: json_members.simps result_simps neq_Nil_conv split: list.splits)
  have "strict_json w" by (rule 6(1) [OF k refl w(1)])
  with 6(4) have "list_all (strict_json \<circ> snd) (ps @ [(k, w)])" by simp
  with w(3) 6(2) [OF k refl w(1) refl w(2)] object_pairs_strict [of "ps @ [(k, w)]"] show ?case
    by (auto simp: result_simps split: if_splits)
qed (auto simp: json_value.simps json_items.simps json_members.simps)

lemma json_loads_strict: "json_loads object_pairs reject_constant s = Inr v \<Longrightarrow> strict_json v"
  by (auto simp: json_loads_def result_simps dest: json_value_strict(1) split: if_splits)

section \<open>The manifest\<close>

lemma manifest_row_distinct:
  assumes "distinct (map row_id m)"
  shows "manifest_row m i = Some x \<longleftrightarrow> x \<in> set m \<and> row_id x = i"
proof -
  have "distinct (map fst (rev (map (\<lambda>r. (row_id r, r)) m)))"
    using assms by (simp add: rev_map [symmetric] comp_def)
  then show ?thesis
    unfolding manifest_row_def by (auto simp: map_of_eq_Some_iff)
qed

definition case_key :: "pydict \<Rightarrow> pyval \<times> pyval" where
  "case_key row = (row_id row, identity row)"

lemma expected_ids_distinct:
  assumes "distinct (map row_id m)"
  shows "set (expected_ids m act) = row_id ` set (filter (has_check act) m)"
proof -
  have "manifest_row m (row_id x) = Some x" if "x \<in> set m" for x
    using manifest_row_distinct [OF assms] that by blast
  then show ?thesis by (force simp: expected_ids_def)
qed


text \<open>
  For an action other than compilation, acceptance by the manifest is exactly coverage: the
  rows are the declared cases of that action, with their identifiers and identities, once each.
\<close>

lemma validate_coverage:
  assumes m: "distinct (map row_id m)"
    and act: "ar_action r \<noteq> ''compile''" "ar_action r \<noteq> ''validate-task''"
  shows "validate m r = Inr () \<longleftrightarrow> distinct (map row_id (ar_cases r))
    \<and> case_key ` set (ar_cases r) = case_key ` set (filter (has_check (ar_action r)) m)"
proof -
  let ?E = "set (filter (has_check (ar_action r)) m)" and ?A = "set (ar_cases r)"
  have row: "manifest_row m (row_id x) = Some x" if "x \<in> set m" for x
    using manifest_row_distinct [OF m] that by blast
  have same: "case_key row = case_key x"
    if "map_option identity (manifest_row m (row_id row)) = Some (identity row)" "x \<in> set m" "row_id row = row_id x"
    for row x
    using that row [of x] by (simp add: case_key_def)
  have v: "validate m r = Inr () \<longleftrightarrow> distinct (map row_id (ar_cases r)) \<and> row_id ` ?A = row_id ` ?E
      \<and> (\<forall>row \<in> ?A. map_option identity (manifest_row m (row_id row)) = Some (identity row))"
    using act by (auto simp: validate_def Let_def expected_ids_distinct [OF m] list_ex_iff)
  have "row_id ` ?A = row_id ` ?E \<and> (\<forall>row \<in> ?A. map_option identity (manifest_row m (row_id row)) = Some (identity row))
      \<longleftrightarrow> case_key ` ?A = case_key ` ?E"
  proof (intro iffI conjI ballI)
    assume *: "row_id ` ?A = row_id ` ?E
        \<and> (\<forall>row \<in> ?A. map_option identity (manifest_row m (row_id row)) = Some (identity row))"
    then have "case_key row \<in> case_key ` ?E" if "row \<in> ?A" for row
    proof -
      from * that obtain x where x: "x \<in> ?E" "row_id row = row_id x" by blast
      have "case_key row = case_key x" by (rule same) (use * that x in auto)
      with x(1) show ?thesis by blast
    qed
    moreover have "case_key x \<in> case_key ` ?A" if "x \<in> ?E" for x
    proof -
      from * that obtain row where r: "row \<in> ?A" "row_id row = row_id x" by (metis imageE imageI)
      have "case_key row = case_key x" by (rule same) (use * that r in auto)
      with r(1) show ?thesis by (metis imageI)
    qed
    ultimately show "case_key ` ?A = case_key ` ?E" by blast
  next
    assume k: "case_key ` ?A = case_key ` ?E"
    then have "fst ` case_key ` ?A = fst ` case_key ` ?E" by simp
    then show "row_id ` ?A = row_id ` ?E" by (simp add: image_image case_key_def)
    fix row
    assume "row \<in> ?A"
    with k obtain x where "x \<in> ?E" "case_key row = case_key x" by blast
    then show "map_option identity (manifest_row m (row_id row)) = Some (identity row)"
      using row [of x] by (simp add: case_key_def)
  qed
  with v show ?thesis by blast
qed

section \<open>Merging\<close>

lemma add_cases_Inr:
  "foldR add_case cases rows = Inr out \<longleftrightarrow>
     out = cases @ rows \<and> distinct (map row_id rows) \<and> row_id ` set rows \<inter> row_id ` set cases = {}"
  by (induction rows arbitrary: cases) (auto simp: add_case_def result_simps)

lemma add_results_Inr:
  "foldR (add_result ra) cases rs = Inr out \<Longrightarrow>
     out = cases @ concat (map ar_cases rs) \<and> (\<forall>r \<in> set rs. (ar_role r, ar_action r) = ra)
     \<and> (distinct (map row_id cases) \<longrightarrow> distinct (map row_id out))"
proof (induction rs arbitrary: cases)
  case (Cons r rs)
  then obtain c where s: "foldR (add_result ra) c rs = Inr out" "add_result ra cases r = Inr c"
    by (auto simp: rbind_eq_Inr)
  from s(2) have "(ar_role r, ar_action r) = ra" "foldR add_case cases (ar_cases r) = Inr c"
    by (simp_all add: add_result_def split: if_splits)
  note c = s(1) this
  have o: "out = c @ concat (map ar_cases rs)" "\<forall>r \<in> set rs. (ar_role r, ar_action r) = ra"
      "distinct (map row_id c) \<longrightarrow> distinct (map row_id out)"
    using Cons.IH [OF c(1)] by blast+
  have d: "c = cases @ ar_cases r" "distinct (map row_id cases) \<longrightarrow> distinct (map row_id c)"
    using c(3) by (auto simp: add_cases_Inr)
  have "out = cases @ concat (map ar_cases (r # rs))" using o(1) d(1) by simp
  moreover have "\<forall>x \<in> set (r # rs). (ar_role x, ar_action x) = ra" using o(2) c(2) by simp
  ultimately show ?case using o(3) d(2) by blast
qed simp

lemma merge_Inr:
  assumes "merge_command_results rs = Inr r"
  shows "ar_cases r = concat (map ar_cases rs)" "distinct (map row_id (ar_cases r))"
    "passed r \<longleftrightarrow> list_all passed rs" "rs \<noteq> []"
    "\<forall>x \<in> set rs. ar_role x = ar_role r \<and> ar_action x = ar_action r"
proof -
  from assms obtain x xs where rs: "rs = x # xs" by (auto simp: merge_command_results_def split: list.splits)
  from assms obtain cases reasons where
      c: "foldR (add_result (ar_role x, ar_action x)) [] rs = Inr cases"
      and "Inr \<lparr>ar_role = ar_role x, ar_action = ar_action x,
             ar_status = (if filter (\<lambda>r. \<not> passed r) rs \<noteq> [] then ''FAIL'' else ''PASS''), ar_cases = cases,
             ar_reason = (if join_reasons reasons = [] then PNone else PStr (join_reasons reasons)),
             ar_failure_kind = (case remdups (map ar_failure_kind (filter (\<lambda>r. \<not> passed r) rs)) of [k] \<Rightarrow> k | _ \<Rightarrow> PNone),
             ar_metadata = PDict [(PStr ''commands'', PList (map ar_metadata rs))]\<rparr>
          = (Inr r :: (report_error, action_result) result)"
    unfolding merge_command_results_def Let_def rs list.case by (elim rbindE)
  then have r: "ar_role r = ar_role x" "ar_action r = ar_action x" "ar_cases r = cases"
      "ar_status r = (if filter (\<lambda>r. \<not> passed r) rs \<noteq> [] then ''FAIL'' else ''PASS'')" by auto
  from add_results_Inr [OF c] r show "ar_cases r = concat (map ar_cases rs)"
      "distinct (map row_id (ar_cases r))" "\<forall>x \<in> set rs. ar_role x = ar_role r \<and> ar_action x = ar_action r"
    by auto
  show "passed r \<longleftrightarrow> list_all passed rs"
    by (simp add: passed_def [of r] r filter_empty_conv list_all_iff)
  show "rs \<noteq> []" by (simp add: rs)
qed

lemma merge_single:
  assumes "distinct (map row_id (ar_cases r))" "passed r"
  shows "merge_command_results [r] = Inr \<lparr>ar_role = ar_role r, ar_action = ar_action r,
    ar_status = ''PASS'', ar_cases = ar_cases r, ar_reason = PNone, ar_failure_kind = PNone,
    ar_metadata = PDict [(PStr ''commands'', PList [ar_metadata r])]\<rparr>"
  using assms by (simp add: merge_command_results_def add_result_def add_cases_Inr [THEN iffD2])


section \<open>Scoring input\<close>

lemma given_time_sound:
  assumes "sound_time v"
  shows "\<exists>t. given_time v = Inr t \<and> finite_time t \<and> positive_time t"
proof (cases v)
  case (PInt k)
  with assms obtain f where f: "float_of_int k = Inr f" "isfinite f" "flt (Fin 0) f"
    by (auto simp: sound_time_def split: sum.splits)
  then have r: "round64 (of_int k) = f" by (auto simp: float_of_int_def Let_def split: if_splits)
  have "0 < k"
  proof (rule ccontr)
    assume "\<not> 0 < k"
    then have "fle (round64 (of_int k)) (Fin 0)" using b64.below [of 0 "of_int k"] by simp
    with r f(2, 3) show False by (cases f) (auto simp: fle_def)
  qed
  with r f(2) show ?thesis by (simp add: PInt)
qed (use assms in \<open>auto simp: sound_time_def split: sum.splits option.splits\<close>)

lemma scoring_case_sound:
  assumes "sound_time (dget row ''execution_time_ms'')"
  obtains c where "scoring_case row = Inr c" "test_case_id c = row_id row"
    "given_time (dget row ''execution_time_ms'') = Inr (execution_time_ms c)"
    "finite_time (execution_time_ms c)" "positive_time (execution_time_ms c)"
proof -
  from given_time_sound [OF assms] obtain t where
      t: "given_time (dget row ''execution_time_ms'') = Inr t" "finite_time t" "positive_time t" by blast
  from assms obtain v where "dlookup row ''execution_time_ms'' = Some v"
    by (cases "dlookup row ''execution_time_ms''") (auto simp: dget_default_def sound_time_def)
  with t have "scoring_case row = Inr \<lparr>test_case_id = row_id row, shape = dget row ''shape'',
      execution_time_ms = t, metadata = copy_fields [''dtype'', ''params'', ''metrics'', ''benchmark_method''] row
               (case dget_default row ''metadata'' (PDict []) of PDict d \<Rightarrow> d | _ \<Rightarrow> [])\<rparr>"
    by (simp add: scoring_case_def dget_default_def)
  from that [OF this] t show thesis by simp
qed

lemma scoring_cases_sound:
  "list_all (\<lambda>row. sound_time (dget row ''execution_time_ms'')) rows \<Longrightarrow>
     \<exists>cs. mapR scoring_case rows = Inr cs \<and> map test_case_id cs = map row_id rows
       \<and> list_all (\<lambda>c. finite_time (execution_time_ms c) \<and> positive_time (execution_time_ms c)) cs"
  by (induction rows) (auto elim!: scoring_case_sound)

section \<open>Properties\<close>

definition sample_report :: string where
  "sample_report = ''log line'' @ [CHR 0x0A] @ RESULT_PREFIX
     @ ''{\"protocol\":\"arena-eval-v1\",\"role\":\"candidate\",\"action\":\"performance\",''
     @ ''\"status\":\"PASS\",\"cases\":[{\"test_case_id\":\"a\",\"shape\":[4,8],\"status\":\"PASS\",''
     @ ''\"execution_time_ms\":1.5,\"benchmark_method\":\"cuda_graph\"}]}'' @ [CHR 0x0A]"

lemma sample_report_accepted:
  "is_ok (parse_command_result sample_report ''candidate'' ''performance'' 0)"
  by code_simp


definition sample_result :: action_result where
  "sample_result = projr (parse_command_result sample_report ''candidate'' ''performance'' 0)"

lemma sample_result: "parse_command_result sample_report ''candidate'' ''performance'' 0 = Inr sample_result"
  unfolding sample_result_def using sample_report_accepted
  by (cases "parse_command_result sample_report ''candidate'' ''performance'' 0") simp_all

text \<open>
  C2.  An accepted report agrees with the process that printed it: it passes exactly when the
  exit code is 0, a negative exit code (a signal) is never accepted, a pass has only passing
  rows and, unless it is a compilation, at least one; identifiers are nonblank and unique; a
  failure carries a reason; a passing performance row has a finite positive time and a device
  timing method.
\<close>

theorem accepted_report_sound:
  assumes "parse_command_result stdout role act returncode = Inr r"
  shows "ar_role r = role \<and> ar_action r = act \<and> (passed r \<longleftrightarrow> returncode = 0) \<and> 0 \<le> returncode
    \<and> list_all (sound_row act (passed r)) (ar_cases r) \<and> distinct (map row_id (ar_cases r))
    \<and> (passed r \<and> act \<noteq> ''compile'' \<longrightarrow> ar_cases r \<noteq> []) \<and> (\<not> passed r \<longrightarrow> nonblank (ar_reason r))"
  using assms
proof (rule parse_command_result_Inr)
  fix obj
  assume "check_report obj role act returncode = Inr r"
  note check_report_Inr [OF this]
  then show ?thesis by blast
qed

lemma sample_passed: "passed sample_result"
  by code_simp

lemma accepted_report_sound_witness: "passed sample_result \<and> ar_cases sample_result \<noteq> []"
  using accepted_report_sound [OF sample_result] by simp

lemma check_report_rows:
  assumes "check_report obj role act rc = Inr r" "row \<in> set (ar_cases r)"
  shows "\<exists>vs. dget obj ''cases'' = PList vs \<and> PDict row \<in> set vs"
proof -
  from assms(1) obtain cases rows where c: "as_list (dget obj ''cases'') = Inr cases"
      and rows: "foldR (check_row act (dget obj ''status'' = PStr ''PASS'')) [] cases = Inr rows"
      and "Inr \<lparr>ar_role = role, ar_action = act,
          ar_status = (if dget obj ''status'' = PStr ''PASS'' then ''PASS'' else ''FAIL''),
          ar_cases = rows, ar_reason = dget obj ''reason'', ar_failure_kind = dget obj ''failure_kind'',
          ar_metadata = dget obj ''metadata''\<rparr> = (Inr r :: (report_error, action_result) result)"
    unfolding check_report_def Let_def by (elim rbindE)
  then have "ar_cases r = rows" by auto
  with check_rows_sound(3) [OF rows] assms(2) have "PDict row \<in> set cases" by auto
  moreover from c have "dget obj ''cases'' = PList cases" by (cases "dget obj ''cases''") auto
  ultimately show ?thesis by blast
qed

lemma dget_in_dict: "dget d k = v \<Longrightarrow> v \<noteq> PNone \<Longrightarrow> (PStr k, v) \<in> set d"
  by (auto simp: dget_default_def dlookup_def dest: map_of_SomeD split: option.splits)

text \<open>
  An accepted report is a well-formed document: in every case row, at every depth, the keys
  of an object are distinct strings and all numbers are finite, so no later reader can disagree
  with the framework on what a duplicated key or an overflowing literal means.
\<close>

theorem accepted_report_well_formed:
  assumes "parse_command_result stdout role act returncode = Inr r" and "row \<in> set (ar_cases r)"
  shows "strict_json (PDict row) \<and> finite_numbers (PDict row)"
  using assms(1)
proof (rule parse_command_result_Inr)
  fix line obj
  assume l: "json_loads object_pairs reject_constant line = Inr (PDict obj)"
    and c: "check_report obj role act returncode = Inr r"
  obtain vs where vs: "dget obj ''cases'' = PList vs" "PDict row \<in> set vs"
    using check_report_rows [OF c assms(2)] by blast
  then have m: "(PStr ''cases'', PList vs) \<in> set obj" using dget_in_dict by blast
  have "strict_json (PList vs)" "finite_numbers (PList vs)"
    using json_loads_strict [OF l] check_report_Inr(9) [OF c] m by (auto simp: list_all_iff)
  with vs(2) show ?thesis unfolding strict_json.simps(2) finite_numbers.simps(3) list_all_iff by blast
qed

lemma accepted_report_well_formed_witness: "strict_json (PDict (hd (ar_cases sample_result)))"
proof -
  have "ar_cases sample_result \<noteq> []" by code_simp
  then show ?thesis using accepted_report_well_formed [OF sample_result] by simp
qed

text \<open>
  C3.  The manifest accepts a correctness or performance result exactly when the result covers
  it: the rows are the declared cases of that action, each once, with unchanged shape, data type
  and parameters; nothing is missing, added or altered.
\<close>

theorem manifest_exact_coverage:
  assumes "distinct (map row_id m)" "ar_action r \<noteq> ''compile''" "ar_action r \<noteq> ''validate-task''"
  shows "validate m r = Inr () \<longleftrightarrow> distinct (map row_id (ar_cases r))
    \<and> case_key ` set (ar_cases r) = case_key ` set (filter (has_check (ar_action r)) m)"
  by (rule validate_coverage [OF assms])

definition sample_manifest :: manifest where
  "sample_manifest =
     [[(PStr ''test_case_id'', PStr ''a''), (PStr ''shape'', PList [PInt 4, PInt 8]),
       (PStr ''checks'', PList [PStr ''correctness'', PStr ''performance''])],
      [(PStr ''test_case_id'', PStr ''b''), (PStr ''checks'', PList [PStr ''correctness''])]]"

lemma manifest_exact_coverage_witness:
  "case_key ` set (ar_cases sample_result) = case_key ` set (filter (has_check ''performance'') sample_manifest)"
proof -
  have a: "ar_action sample_result = ''performance''" by code_simp
  have "distinct (map row_id sample_manifest)" by code_simp
  moreover have "validate sample_manifest sample_result = Inr ()" by code_simp
  ultimately show ?thesis using manifest_exact_coverage [of sample_manifest sample_result] by (simp add: a)
qed

text \<open>
  Merging the commands of an action loses and invents nothing: the merged rows are the rows
  of all commands in order, with identifiers unique across commands, and the action passes
  exactly when every command passed.
\<close>

theorem merge_keeps_every_case:
  assumes "merge_command_results rs = Inr r"
  shows "ar_cases r = concat (map ar_cases rs) \<and> distinct (map row_id (ar_cases r))
    \<and> (passed r \<longleftrightarrow> list_all passed rs)
    \<and> (\<forall>x \<in> set rs. ar_role x = ar_role r \<and> ar_action x = ar_action r)"
  using merge_Inr [OF assms] by blast

lemma merge_keeps_every_case_witness:
  "\<exists>r. merge_command_results [sample_result] = Inr r \<and> ar_cases r = ar_cases sample_result"
proof -
  have "distinct (map row_id (ar_cases sample_result))" "passed sample_result"
    using sample_result check_report_Inr(6) sample_passed
    by (auto elim!: parse_command_result_Inr)
  then obtain r where "merge_command_results [sample_result] = Inr r" by (simp add: merge_single)
  with merge_keeps_every_case [OF this] show ?thesis by simp
qed

text \<open>
  C4.  The baseline exception is narrow: an accepted baseline correctness result passed, or it
  was run during task validation of a task that declares the diagnostic policy, covers the
  manifest exactly, has at least one failing row, and every failing row is a numerical mismatch.
  While a candidate is evaluated only a passing baseline is accepted.
\<close>

theorem baseline_exception_narrow:
  assumes "baseline_correctness_accepted r baseline phase m = Inr True"
  shows "validate m r = Inr () \<and>
    (passed r \<or> phase = ''task_validation'' \<and> base_correctness_policy baseline = ''diagnostic''
      \<and> (\<exists>row \<in> set (ar_cases r). dget row ''status'' = PStr ''FAIL'')
      \<and> (\<forall>row \<in> set (ar_cases r). dget row ''status'' = PStr ''FAIL''
           \<longrightarrow> dget row ''failure_kind'' = PStr ''numerical_mismatch''))"
proof -
  from assms have "validate m r = Inr ()"
    by (auto simp: baseline_correctness_accepted_def result_simps split: if_splits)
  then show ?thesis
    using assms by (auto simp: baseline_correctness_accepted_def Let_def filter_empty_conv list_all_iff
        split: if_splits)
qed

definition sample_mismatch :: action_result where
  "sample_mismatch = \<lparr>ar_role = ''baseline'', ar_action = ''correctness'', ar_status = ''FAIL'',
     ar_cases = [[(PStr ''test_case_id'', PStr ''a''), (PStr ''shape'', PList [PInt 4, PInt 8]), (PStr ''status'', PStr ''FAIL''),
         (PStr ''failure_kind'', PStr ''numerical_mismatch'')],
       [(PStr ''test_case_id'', PStr ''b''), (PStr ''status'', PStr ''PASS'')]],
     ar_reason = PStr ''mismatch'', ar_failure_kind = PStr ''numerical_mismatch'', ar_metadata = PNone\<rparr>"

definition diagnostic_baseline :: baseline_spec where
  "diagnostic_baseline = \<lparr>base_kind = ''provided'', base_language = None, base_source_files = [],
     base_correctness_policy = ''diagnostic'', base_diagnostic_reason = Some ''known drift''\<rparr>"

lemma baseline_exception_narrow_witness:
  "validate sample_manifest sample_mismatch = Inr () \<and> \<not> passed sample_mismatch"
proof -
  have "baseline_correctness_accepted sample_mismatch diagnostic_baseline ''task_validation'' sample_manifest
      = Inr True" by code_simp
  moreover have "\<not> passed sample_mismatch" by code_simp
  ultimately show ?thesis using baseline_exception_narrow by blast
qed

text \<open>
  Accepted timing evidence can always be scored: for a performance report of a process that
  exited with 0, \<open>performance_cases\<close> returns one scoring case per row, in order, under the
  row's identifier, with a finite positive execution time.
\<close>

theorem performance_evidence_scorable:
  assumes "parse_command_result stdout role ''performance'' 0 = Inr r"
  shows "\<exists>cs. performance_cases r = Inr cs \<and> map test_case_id cs = map row_id (ar_cases r)
    \<and> list_all (\<lambda>c. finite_time (execution_time_ms c) \<and> positive_time (execution_time_ms c)) cs"
  using assms
proof (rule parse_command_result_Inr)
  fix obj
  assume c: "check_report obj role ''performance'' 0 = Inr r"
  note r = check_report_Inr [OF c]
  have "list_all (\<lambda>row. sound_time (dget row ''execution_time_ms'')) (ar_cases r)"
    using r(3,5) by (auto simp: list_all_iff sound_row_def)
  with scoring_cases_sound show ?thesis by (simp add: performance_cases_def r(2,3))
qed

lemma performance_evidence_scorable_witness:
  "\<exists>cs. performance_cases sample_result = Inr cs \<and> map test_case_id cs = map row_id (ar_cases sample_result)"
  using performance_evidence_scorable [OF sample_result] by blast

definition huge_report :: "int \<Rightarrow> pydict" where
  "huge_report k =
     [(PStr ''protocol'', PStr PROTOCOL), (PStr ''role'', PStr ''candidate''),
      (PStr ''action'', PStr ''performance''), (PStr ''status'', PStr ''PASS''),
      (PStr ''cases'', PList [PDict [(PStr ''test_case_id'', PStr ''a''), (PStr ''status'', PStr ''PASS''),
         (PStr ''execution_time_ms'', PInt k), (PStr ''benchmark_method'', PStr ''cuda_graph'')]])]"

lemma float_of_int_overflow: "float_of_int (2 ^ 1024 + int n) = Inl OverflowErr"
proof -
  have "pow2 1024 \<le> of_int (2 ^ 1024 + int n)"
    by (simp add: pow2_def' del: of_int_power)
  then have "round64 (of_int (2 ^ 1024 + int n)) = PInf" by (rule round64_overflow)
  then show ?thesis by (simp add: float_of_int_def Let_def del: of_int_add of_int_power)
qed

lemma huge_report_timing:
  assumes "float_of_int k = Inl OverflowErr"
  shows "check_report (huge_report k) ''candidate'' ''performance'' 0 = Inl (Escapes OverflowErr)"
  by (simp add: check_report_def huge_report_def report_fields_def check_status_def is_dict_if_def
      dget_default_def check_row_def check_text_def check_timing_def latency_ok_def assms strip_def
      py_isspace_def Let_def)

text \<open>
  C28.  An integer time that is too large for a float is not refused as invalid evidence:
  \<open>math.isfinite\<close> raises \<open>OverflowError\<close>, which is not the \<open>TaskProtocolError\<close>
  its callers handle.
\<close>

theorem huge_time_overflow_escapes:
  "check_report (huge_report (2 ^ 1024 + int n)) ''candidate'' ''performance'' 0 = Inl (Escapes OverflowErr)"
  by (rule huge_report_timing [OF float_of_int_overflow])

end
