(* ===== verification/StepSystem.thy ===== *)
theory StepSystem
  imports Main
begin

text \<open>
  Step relations: the states reachable from the initial ones, runs with their length, and what
  follows once for all from an invariant and from a measure that every step lowers.
\<close>

inductive reach :: "('s \<Rightarrow> bool) \<Rightarrow> ('s \<Rightarrow> 's \<Rightarrow> bool) \<Rightarrow> 's \<Rightarrow> bool" for I R where
  start: "I s \<Longrightarrow> reach I R s"
| step: "reach I R s \<Longrightarrow> R s t \<Longrightarrow> reach I R t"

inductive run :: "('s \<Rightarrow> 's \<Rightarrow> bool) \<Rightarrow> 's \<Rightarrow> nat \<Rightarrow> 's \<Rightarrow> bool" for R where
  none: "run R s 0 s"
| more: "R s t \<Longrightarrow> run R t n u \<Longrightarrow> run R s (Suc n) u"

lemma reach_run: "run R s n t \<Longrightarrow> reach I R s \<Longrightarrow> reach I R t"
  by (induction rule: run.induct) (blast intro: reach.step)+

locale invariant_system =
  fixes I :: "'s \<Rightarrow> bool" and R :: "'s \<Rightarrow> 's \<Rightarrow> bool" and Inv :: "'s \<Rightarrow> bool"
  assumes initially: "I s \<Longrightarrow> Inv s"
    and kept: "Inv s \<Longrightarrow> R s t \<Longrightarrow> Inv t"
begin

lemma reach_inv: "reach I R s \<Longrightarrow> Inv s"
  by (induction rule: reach.induct) (auto intro: initially kept)

lemma run_inv: "run R s n t \<Longrightarrow> Inv s \<Longrightarrow> Inv t"
  by (induction rule: run.induct) (auto intro: kept)

end

locale terminating_system = invariant_system +
  fixes m :: "'s \<Rightarrow> nat"
  assumes lowered: "Inv s \<Longrightarrow> R s t \<Longrightarrow> m t < m s"
begin

lemma run_bound: "run R s n t \<Longrightarrow> Inv s \<Longrightarrow> n + m t \<le> m s"
proof (induction rule: run.induct)
  case (more s t n u)
  then show ?case using kept lowered [of s t] by fastforce
qed simp

text \<open>From every state of the invariant some run reaches a state without a step.\<close>

lemma run_to_end: "Inv s \<Longrightarrow> \<exists>n t. run R s n t \<and> Inv t \<and> (\<forall>u. \<not> R t u)"
proof (induction "m s" arbitrary: s rule: less_induct)
  case less
  show ?case
  proof (cases "\<exists>t. R s t")
    case True
    then obtain t where t: "R s t" by blast
    with less.prems less.hyps [of t] lowered kept obtain n u
      where "run R t n u" "Inv u" "\<forall>v. \<not> R u v" by blast
    with t show ?thesis by (blast intro: run.more)
  next
    case False
    with less.prems show ?thesis by (blast intro: run.none)
  qed
qed

end

end
