(* ===== verification/Digits.thy ===== *)
theory Digits
  imports PyValue
begin

text \<open>
  Decimal digits: reading back what \<open>nat_digits\<close> renders, and zero-padded numbers
  (\<open>f"{n:06d}"\<close>), whose order as text is their order as numbers up to their width.
\<close>

lemma digits_value_append:
  "digits_value (xs @ ys) = digits_value xs * 10 ^ length ys + digits_value ys"
proof (induction ys rule: rev_induct)
  case (snoc y ys)
  have step: "digits_value (zs @ [y]) = 10 * digits_value zs + (int (of_char y) - 48)" for zs
    by (simp add: digits_value_def)
  have "digits_value (xs @ ys @ [y]) = 10 * digits_value (xs @ ys) + (int (of_char y) - 48)"
    using step [of "xs @ ys"] by simp
  also have "\<dots> = digits_value xs * 10 ^ length (ys @ [y]) + digits_value (ys @ [y])"
    unfolding snoc step by (simp add: algebra_simps)
  finally show ?case .
qed (simp add: digits_value_def)

lemma digits_value_single: "digits_value [c] = int (of_char c) - 48"
  by (simp add: digits_value_def)

lemma digits_value_Cons: "digits_value (c # ys) = (int (of_char c) - 48) * 10 ^ length ys + digits_value ys"
  using digits_value_append [of "[c]" ys] by (simp add: digits_value_single)

lemma digits_value_Nil [simp]: "digits_value [] = 0"
  by (simp add: digits_value_def)

lemma digits_value_nat_digits: "digits_value (nat_digits n) = int n"
proof (induction n rule: nat_digits.induct)
  case (1 n)
  have d: "digits_value [char_of (48 + m)] = int m" if "m < 10" for m :: nat
    using that by (simp add: digits_value_single of_char_char_of_nat)
  show ?case
  proof (cases "n < 10")
    case True
    then show ?thesis by (subst nat_digits.simps) (simp add: d)
  next
    case False
    then have "nat_digits n = nat_digits (n div 10) @ [char_of (48 + n mod 10)]"
      by (subst nat_digits.simps) simp
    then have "digits_value (nat_digits n) = int (n div 10) * 10 + int (n mod 10)"
      using 1 False d [of "n mod 10"] by (simp add: digits_value_append)
    then show ?thesis by presburger
  qed
qed

lemma digits_value_bounds:
  assumes "list_all is_digit ds"
  shows "0 \<le> digits_value ds \<and> digits_value ds < 10 ^ length ds"
  using assms
proof (induction ds)
  case (Cons c ds)
  then have c: "0 \<le> int (of_char c) - 48" "int (of_char c) - 48 \<le> 9"
    by (auto simp: is_digit_def Let_def)
  have "(int (of_char c) - 48) * 10 ^ length ds \<le> 9 * 10 ^ length ds"
    using c(2) by (intro mult_right_mono) simp_all
  then have "(int (of_char c) - 48) * 10 ^ length ds + 10 ^ length ds \<le> 10 ^ length (c # ds)" by simp
  moreover have "0 \<le> (int (of_char c) - 48) * 10 ^ length ds" using c(1) by simp
  moreover have "0 \<le> digits_value ds \<and> digits_value ds < 10 ^ length ds" using Cons by simp
  ultimately show ?case unfolding digits_value_Cons by linarith
qed simp

lemma digits_less:
  assumes "list_all is_digit u" "list_all is_digit v" "length u = length v" "digits_value u < digits_value v"
  shows "u < v"
  using assms
proof (induction u arbitrary: v)
  case (Cons c u)
  then obtain d w where v: "v = d # w" by (cases v) auto
  let ?c = "int (of_char c) - 48" and ?d = "int (of_char d) - 48"
  have b: "0 \<le> digits_value u" "digits_value w < 10 ^ length u"
    using digits_value_bounds [of u] digits_value_bounds [of w] Cons.prems v by auto
  have lt: "?c * 10 ^ length u + digits_value u < ?d * 10 ^ length u + digits_value w"
    using Cons.prems v by (simp add: digits_value_Cons)
  consider "of_char c < (of_char d :: nat)" | "c = d" | "of_char d < (of_char c :: nat)"
    by (metis linorder_less_linear of_char_eq_iff)
  then show ?case
  proof cases
    case 1
    then show ?thesis by (simp add: v less_char_def)
  next
    case 2
    with lt have "digits_value u < digits_value w" by simp
    then have "u < w" using Cons.prems v by (intro Cons.IH) auto
    then show ?thesis by (simp add: v 2)
  next
    case 3
    then have "?d + 1 \<le> ?c" by simp
    then have "(?d + 1) * 10 ^ length u \<le> ?c * 10 ^ length u" by (intro mult_right_mono) simp_all
    with lt b show ?thesis by (simp add: algebra_simps)
  qed
qed simp

lemma less_append: "length u = length v \<Longrightarrow> u < v \<Longrightarrow> u @ x < v @ (y :: string)"
  by (induction u v rule: list_induct2) auto

lemma nat_digits_length: "0 < k \<Longrightarrow> n < 10 ^ k \<Longrightarrow> length (nat_digits n) \<le> k"
proof (induction k arbitrary: n)
  case (Suc k)
  show ?case
  proof (cases "n < 10")
    case True
    then show ?thesis by (subst nat_digits.simps) simp
  next
    case False
    then have k: "0 < k" using Suc.prems by (cases k) auto
    have "n div 10 < 10 ^ k" using Suc.prems by (simp add: less_mult_imp_div_less mult.commute)
    then have "length (nat_digits (n div 10)) \<le> k" using k Suc.IH by blast
    then show ?thesis using False by (subst nat_digits.simps) simp
  qed
qed simp

section \<open>Numbers of a fixed width\<close>

definition zero_padded :: "nat \<Rightarrow> nat \<Rightarrow> string" where
  "zero_padded width n = replicate (width - length (nat_digits n)) CHR ''0'' @ nat_digits n"

lemma zero_padded_digits: "list_all is_digit (zero_padded k n)"
  using nat_digits_is_digit by (auto simp: zero_padded_def list_all_iff is_digit_def Let_def)

lemma zero_padded_value: "digits_value (zero_padded k n) = int n"
proof -
  have "digits_value (replicate m CHR ''0'') = 0" for m
    by (induction m) (simp_all add: digits_value_Cons)
  then show ?thesis by (simp add: zero_padded_def digits_value_append digits_value_nat_digits)
qed

lemma zero_padded_length: "0 < k \<Longrightarrow> n < 10 ^ k \<Longrightarrow> length (zero_padded k n) = k"
  using nat_digits_length [of k n] by (simp add: zero_padded_def)

lemma zero_padded_not_Nil: "zero_padded k n \<noteq> []"
  by (simp add: zero_padded_def)

text \<open>Numbered names sort as their numbers, as long as the width holds them.\<close>

lemma zero_padded_less:
  assumes "i < j" "j < 10 ^ k" "0 < k"
  shows "zero_padded k i @ x < zero_padded k j @ y"
proof -
  have "zero_padded k i < zero_padded k j"
    by (rule digits_less)
       (use assms in \<open>simp_all add: zero_padded_digits zero_padded_value zero_padded_length\<close>)
  then show ?thesis by (intro less_append) (use assms in \<open>simp_all add: zero_padded_length\<close>)
qed

lemma takeWhile_zero_padded: "\<not> is_digit c \<Longrightarrow> takeWhile is_digit (zero_padded k n @ c # s) = zero_padded k n"
  using zero_padded_digits [of k n] by (subst takeWhile_append2) (auto simp: list_all_iff)

end
