(* ===== verification/ParallelQueue.thy ===== *)
theory ParallelQueue
  imports TaskSpec StepSystem Digits "HOL-Library.Multiset"
begin

text \<open>
  The run driver of \<open>main.py\<close>: names of runs and workspaces, the platform filter, the choice of
  the run directory, and the queue that parallel workers share.  The queue is four directories
  of YAML files below the run directory; a worker owns a task after renaming its file out of
  \<open>pending\<close>, which the file system does atomically.  The interleaving of several workers is a
  step relation whose steps are those file operations.
\<close>

section \<open>Names\<close>

text \<open>\<open>_sanitize_task_name\<close> and the name of a task's workspace.\<close>

definition sanitize_task_name :: "string \<Rightarrow> string" where
  "sanitize_task_name s = replace_char CHR ''/'' CHR ''_'' s"

definition task_workspace_name :: "string \<Rightarrow> string \<Rightarrow> string" where
  "task_workspace_name name timestamp = sanitize_task_name name @ ''_'' @ timestamp"

text \<open>\<open>_extract_timestamp\<close>: eight digits, an underscore and six digits after \<open>run_\<close>.\<close>

definition timestamp_ok :: "string \<Rightarrow> bool" where
  "timestamp_ok t =
     (length t = 15 \<and> list_all is_digit (take 8 t) \<and> t ! 8 = CHR ''_'' \<and> list_all is_digit (drop 9 t))"

definition extract_timestamp :: "string \<Rightarrow> string option" where
  "extract_timestamp name =
     (let t = take 15 (drop 4 name) in
      if starts_with ''run_'' name \<and> timestamp_ok t then Some t else None)"

text \<open>
  \<open>_validate_run_suffix\<close> and \<open>_run_suffix_from_name\<close>.  The second pattern ends in \<open>$\<close>, which
  also matches before a final newline.
\<close>

definition suffix_char :: "char \<Rightarrow> bool" where
  "suffix_char c = (is_alpha c \<or> is_digit c \<or> c \<in> set ''._-'')"

definition suffix_text :: "string \<Rightarrow> bool" where
  "suffix_text s = (s \<noteq> [] \<and> list_all suffix_char s)"

definition validate_run_suffix :: "string option \<Rightarrow> bool" where
  "validate_run_suffix s = (case s of None \<Rightarrow> True | Some t \<Rightarrow> suffix_text t)"

definition drop_final_newline :: "string \<Rightarrow> string" where
  "drop_final_newline s = (if s \<noteq> [] \<and> last s = CHR 0x0A then butlast s else s)"

definition run_suffix_from_name :: "string \<Rightarrow> string" where
  "run_suffix_from_name name =
     (case extract_timestamp name of None \<Rightarrow> []
      | Some _ \<Rightarrow>
        (case drop_final_newline (drop 19 name) of
           c # r \<Rightarrow> if c = CHR ''_'' \<and> suffix_text r then c # r else []
         | [] \<Rightarrow> []))"

text \<open>
  \<open>_descriptor_name\<close>: the index in at least six digits and the task's name with every run of
  other characters replaced by one underscore and the outer underscores stripped.
\<close>

definition pad6 :: "nat \<Rightarrow> string" where
  "pad6 n = zero_padded 6 n"

fun squeeze :: "bool \<Rightarrow> string \<Rightarrow> string" where
  "squeeze after_run [] = []"
| "squeeze after_run (c # s) =
     (if suffix_char c then c # squeeze False s
      else if after_run then squeeze True s else CHR ''_'' # squeeze True s)"

definition strip_underscores :: "string \<Rightarrow> string" where
  "strip_underscores s =
     rev (dropWhile (\<lambda>c. c = CHR ''_'') (rev (dropWhile (\<lambda>c. c = CHR ''_'') s)))"

definition safe_name :: "string \<Rightarrow> string" where
  "safe_name s = (let t = strip_underscores (squeeze False s) in if t = [] then ''task'' else t)"

definition descriptor_name :: "nat \<Rightarrow> string \<Rightarrow> string" where
  "descriptor_name index name = pad6 index @ ''_'' @ safe_name name @ ''.yaml''"

definition claimed_name :: "string \<Rightarrow> string \<Rightarrow> string" where
  "claimed_name worker f = ''worker_'' @ worker @ ''__'' @ f"

section \<open>Which tasks run\<close>

text \<open>
  \<open>should_run_task_for_platform\<close>.  A status that is not a string is never the text \<open>skip\<close> and
  runs with a warning.  \<open>required_gpu_arches\<close> may refuse the declaration.
\<close>

definition skips :: "pydict \<Rightarrow> bool" where
  "skips platform =
     (case dget_default platform ''status'' (PStr ''active'') of
        PStr s \<Rightarrow> lower (strip s) = ''skip'' | _ \<Rightarrow> False)"

definition should_run_task_for_platform ::
    "pydict \<Rightarrow> string option \<Rightarrow> (config_error, bool) result" where
  "should_run_task_for_platform task_config current_arch =
     (case dget task_config ''platform_support'' of
        PDict platform \<Rightarrow>
          if skips platform then Inr False
          else rbind (required_gpu_arches (Some platform)) (\<lambda>required.
            Inr (required = []
                 \<or> (case current_arch of None \<Rightarrow> False
                    | Some arch \<Rightarrow> arch \<noteq> [] \<and> arch \<in> set required)))
      | _ \<Rightarrow> Inr True)"

text \<open>
  \<open>filter_tasks_by_platform\<close>: the tasks are pairs of a name and the path of their
  configuration, \<open>load\<close> reads it.
\<close>

definition filter_tasks_by_platform ::
    "(string \<Rightarrow> pydict) \<Rightarrow> string option \<Rightarrow> (string \<times> string) list
     \<Rightarrow> (config_error, (string \<times> string) list) result" where
  "filter_tasks_by_platform load arch tasks =
     foldR (\<lambda>runnable (name, path).
       rbind (should_run_task_for_platform (load path) arch) (\<lambda>b.
         Inr (if b then runnable @ [(name, path)] else runnable))) [] tasks"

text \<open>
  \<open>is_task_complete\<close> on what it finds on disk: whether the validator's report is complete,
  whether framework state of a v2 task exists, the declaration (\<open>None\<close> when unreadable), whether
  the v2 completion record holds, and whether a legacy result file exists.
\<close>

record completion_evidence =
  validator_report_complete :: bool
  v2_state_exists :: bool
  task_declaration :: "pyval option"
  v2_run_complete :: bool
  task_result_exists :: bool

definition is_task_complete :: "string \<Rightarrow> completion_evidence \<Rightarrow> bool" where
  "is_task_complete agent e =
     (if agent = ''task_validator'' then validator_report_complete e
      else if v2_state_exists e
           \<or> (case task_declaration e of Some (PDict d) \<Rightarrow> dhas d ''schema_version'' | _ \<Rightarrow> False)
        then v2_run_complete e
      else task_result_exists e)"

definition filter_completed_tasks :: "(string \<Rightarrow> bool) \<Rightarrow> (string \<times> string) list \<Rightarrow> (string \<times> string) list" where
  "filter_completed_tasks finished tasks = filter (\<lambda>(name, _). \<not> finished name) tasks"

section \<open>The run directory\<close>

record run_args =
  run_name :: "string option"
  resume_run :: "string option"
  resume_latest :: bool
  run_suffix :: "string option"

record run_choice =
  chosen_name :: string
  chosen_timestamp :: string
  resume_mode :: bool

text \<open>
  \<open>_resolve_run\<close> on the names of the existing directories and the current time; the result also
  gives the directories that exist afterwards.
\<close>

definition given :: "string option \<Rightarrow> bool" where
  "given s = (case s of None \<Rightarrow> False | Some t \<Rightarrow> t \<noteq> [])"

definition choose_run :: "string list \<Rightarrow> string \<Rightarrow> string \<Rightarrow> bool \<Rightarrow> (run_choice \<times> string list) option" where
  "choose_run dirs name timestamp resume =
     Some (\<lparr>chosen_name = name, chosen_timestamp = timestamp, resume_mode = resume\<rparr>,
           if name \<in> set dirs then dirs else dirs @ [name])"

definition fresh_run_name :: "string option \<Rightarrow> string \<Rightarrow> string" where
  "fresh_run_name ending now = ''run_'' @ now @ (if given ending then CHR ''_'' # the ending else [])"

definition resolve_run :: "run_args \<Rightarrow> string list \<Rightarrow> string \<Rightarrow> (run_choice \<times> string list) option" where
  "resolve_run args dirs now =
     (if given (run_name args) then
        (let name = the (run_name args) in
         case extract_timestamp name of None \<Rightarrow> None
         | Some t \<Rightarrow> choose_run dirs name t (name \<in> set dirs))
      else if given (resume_run args) then
        (let name = the (resume_run args) in
         if name \<notin> set dirs then None
         else case extract_timestamp name of None \<Rightarrow> None
         | Some t \<Rightarrow> choose_run dirs name t True)
      else if resume_latest args then
        (case rev (sort (filter (\<lambda>d. starts_with ''run_'' d \<and> \<not> ends_with ''_heldout'' d) dirs)) of
           [] \<Rightarrow> None
         | name # _ \<Rightarrow>
             choose_run dirs name (case extract_timestamp name of Some t \<Rightarrow> t | None \<Rightarrow> now) True)
      else choose_run dirs (fresh_run_name (run_suffix args) now) now False)"

section \<open>The queue\<close>

record descriptor =
  d_index :: nat
  d_total_tasks :: nat
  d_task_name :: string
  d_config_dir :: string
  d_workspace :: string
  d_status :: string
  d_worker :: "string option"

text \<open>A directory of descriptor files; writing or renaming onto a name replaces that file.\<close>

type_synonym directory = "(string \<times> descriptor) list"

record queue =
  q_pending :: directory
  q_running :: directory
  q_done :: directory
  q_failed :: directory

definition remove_file :: "string \<Rightarrow> directory \<Rightarrow> directory" where
  "remove_file f d = filter (\<lambda>x. fst x \<noteq> f) d"

definition put_file :: "string \<Rightarrow> descriptor \<Rightarrow> directory \<Rightarrow> directory" where
  "put_file f x d = remove_file f d @ [(f, x)]"

text \<open>\<open>initialize_parallel_queue\<close>: the old descriptors are removed first.\<close>

definition new_descriptor :: "(string \<Rightarrow> bool) \<Rightarrow> string \<Rightarrow> nat \<Rightarrow> nat \<times> string \<times> string \<Rightarrow> descriptor" where
  "new_descriptor finished timestamp n = (\<lambda>(index, name, config).
     \<lparr>d_index = index, d_total_tasks = n, d_task_name = name, d_config_dir = config,
      d_workspace = task_workspace_name name timestamp,
      d_status = (if finished name then ''already_complete'' else ''pending''), d_worker = None\<rparr>)"

definition enqueue :: "(string \<Rightarrow> bool) \<Rightarrow> string \<Rightarrow> nat \<Rightarrow> queue \<Rightarrow> nat \<times> string \<times> string \<Rightarrow> queue" where
  "enqueue finished timestamp n q t =
     (let x = new_descriptor finished timestamp n t;
          f = descriptor_name (d_index x) (d_task_name x) in
      if finished (d_task_name x) then q\<lparr>q_done := put_file f x (q_done q)\<rparr>
      else q\<lparr>q_pending := put_file f x (q_pending q)\<rparr>)"

definition initialize_parallel_queue ::
    "(string \<Rightarrow> bool) \<Rightarrow> string \<Rightarrow> (string \<times> string) list \<Rightarrow> queue" where
  "initialize_parallel_queue finished timestamp tasks =
     foldl (enqueue finished timestamp (length tasks))
       \<lparr>q_pending = [], q_running = [], q_done = [], q_failed = []\<rparr> (enumerate 1 tasks)"

text \<open>\<open>claim_next_descriptor\<close>: one attempt renames a file; the loop takes the first that is there.\<close>

definition attempt :: "string \<Rightarrow> string \<Rightarrow> queue \<Rightarrow> queue option" where
  "attempt worker f q =
     (case map_of (q_pending q) f of None \<Rightarrow> None
      | Some x \<Rightarrow> Some (q\<lparr>q_pending := remove_file f (q_pending q),
                         q_running := put_file (claimed_name worker f) x (q_running q)\<rparr>))"

definition listing :: "directory \<Rightarrow> string list" where
  "listing d = filter (ends_with ''.yaml'') (map fst d)"

fun claim_from :: "string \<Rightarrow> string list \<Rightarrow> queue \<Rightarrow> (string \<times> queue) option" where
  "claim_from worker [] q = None"
| "claim_from worker (f # fs) q =
     (case attempt worker f q of Some q' \<Rightarrow> Some (claimed_name worker f, q')
      | None \<Rightarrow> claim_from worker fs q)"

definition claim_next_descriptor :: "string \<Rightarrow> queue \<Rightarrow> (string \<times> queue) option" where
  "claim_next_descriptor worker q = claim_from worker (sort (listing (q_pending q))) q"

text \<open>
  \<open>finish_descriptor\<close>: the file is rewritten in place, then renamed into its final directory.
  \<open>None\<close>: the file is not there.
\<close>

definition finish_write :: "string \<Rightarrow> bool \<Rightarrow> string option \<Rightarrow> string \<Rightarrow> queue \<Rightarrow> queue option" where
  "finish_write f success workspace worker q =
     (case map_of (q_running q) f of None \<Rightarrow> None
      | Some x \<Rightarrow>
        (let x1 = x\<lparr>d_status := (if success then ''done'' else ''failed''), d_worker := Some worker\<rparr>;
             x2 = (case workspace of Some w \<Rightarrow> x1\<lparr>d_workspace := w\<rparr> | None \<Rightarrow> x1) in
         Some (q\<lparr>q_running := put_file f x2 (q_running q)\<rparr>)))"

definition finish_rename :: "string \<Rightarrow> bool \<Rightarrow> queue \<Rightarrow> queue option" where
  "finish_rename f success q =
     (case map_of (q_running q) f of None \<Rightarrow> None
      | Some x \<Rightarrow>
        (let q1 = q\<lparr>q_running := remove_file f (q_running q)\<rparr> in
         Some (if success then q1\<lparr>q_done := put_file f x (q_done q1)\<rparr>
               else q1\<lparr>q_failed := put_file f x (q_failed q1)\<rparr>)))"

definition finish_descriptor :: "string \<Rightarrow> bool \<Rightarrow> string option \<Rightarrow> string \<Rightarrow> queue \<Rightarrow> queue option" where
  "finish_descriptor f success workspace worker q =
     (case finish_write f success workspace worker q of None \<Rightarrow> None
      | Some q1 \<Rightarrow> finish_rename f success q1)"

text \<open>
  \<open>run_postprocess_only\<close>: the exit code after the workers have ended.
\<close>

definition postprocess_exit_code :: "queue \<Rightarrow> bool \<Rightarrow> int" where
  "postprocess_exit_code q post_processing_passed =
     (if listing (q_pending q) \<noteq> [] \<or> listing (q_running q) \<noteq> [] then 1
      else if listing (q_failed q) \<noteq> [] then 1
      else if \<not> post_processing_passed then 1 else 0)"

section \<open>Workers\<close>

text \<open>
  One worker of \<open>run_parallel_worker\<close> is before a claim, in the claim loop with the names it has
  still to try, running a claimed task, between the two file operations of
  \<open>finish_descriptor\<close>, or stopped with its number of failures.
\<close>

datatype phase =
    Ready nat | Scanning nat "string list" | Working nat string
  | Finishing nat string bool | Stopped nat

record run_state =
  rs_queue :: queue
  rs_phase :: "string \<Rightarrow> phase"

text \<open>The outcome of \<open>run_task\<close> and the workspace it returns are chosen by the environment.\<close>

inductive worker_step :: "string set \<Rightarrow> run_state \<Rightarrow> run_state \<Rightarrow> bool" for ws where
  scan: "w \<in> ws \<Longrightarrow> rs_phase s w = Ready n \<Longrightarrow>
    worker_step ws s (s\<lparr>rs_phase := (rs_phase s)(w := Scanning n (sort (listing (q_pending (rs_queue s)))))\<rparr>)"
| hit: "w \<in> ws \<Longrightarrow> rs_phase s w = Scanning n (f # fs) \<Longrightarrow> attempt w f (rs_queue s) = Some q \<Longrightarrow>
    worker_step ws s \<lparr>rs_queue = q, rs_phase = (rs_phase s)(w := Working n (claimed_name w f))\<rparr>"
| miss: "w \<in> ws \<Longrightarrow> rs_phase s w = Scanning n (f # fs) \<Longrightarrow> attempt w f (rs_queue s) = None \<Longrightarrow>
    worker_step ws s (s\<lparr>rs_phase := (rs_phase s)(w := Scanning n fs)\<rparr>)"
| stop: "w \<in> ws \<Longrightarrow> rs_phase s w = Scanning n [] \<Longrightarrow>
    worker_step ws s (s\<lparr>rs_phase := (rs_phase s)(w := Stopped n)\<rparr>)"
| finish: "w \<in> ws \<Longrightarrow> rs_phase s w = Working n f \<Longrightarrow>
      finish_write f success workspace w (rs_queue s) = Some q \<Longrightarrow>
    worker_step ws s \<lparr>rs_queue = q,
      rs_phase = (rs_phase s)(w := Finishing (if success then n else Suc n) f success)\<rparr>"
| leave: "w \<in> ws \<Longrightarrow> rs_phase s w = Finishing n f success \<Longrightarrow>
      finish_rename f success (rs_queue s) = Some q \<Longrightarrow>
    worker_step ws s \<lparr>rs_queue = q, rs_phase = (rs_phase s)(w := Ready n)\<rparr>"

definition initial_run :: "(string \<Rightarrow> bool) \<Rightarrow> string \<Rightarrow> (string \<times> string) list \<Rightarrow> run_state" where
  "initial_run finished timestamp tasks =
     \<lparr>rs_queue = initialize_parallel_queue finished timestamp tasks, rs_phase = (\<lambda>_. Ready 0)\<rparr>"

definition worker_exit_code :: "phase \<Rightarrow> int option" where
  "worker_exit_code p = (case p of Stopped n \<Rightarrow> Some (if n = 0 then 0 else 1) | _ \<Rightarrow> None)"

end
