(* ===== verification/ParallelQueueFacts.thy ===== *)
theory ParallelQueueFacts
  imports ParallelQueue
begin

text \<open>
  The queue loses no task and gives none to two workers: every task is in exactly one directory
  after any number of steps of any workers, a claim takes the least pending index, every run of
  the workers ends, and when it has ended all tasks are done or failed.
\<close>

section \<open>Numbered names\<close>

lemma pad6_length: "n < 10 ^ 6 \<Longrightarrow> length (pad6 n) = 6"
  by (simp add: pad6_def zero_padded_length)

lemma descriptor_name_order:
  assumes "i < j" "j < 10 ^ 6"
  shows "descriptor_name i a < descriptor_name j b"
  unfolding descriptor_name_def pad6_def by (rule zero_padded_less) (use assms in simp_all)

lemma takeWhile_pad6: "takeWhile is_digit (descriptor_name n a) = pad6 n"
  by (simp add: descriptor_name_def pad6_def takeWhile_zero_padded is_digit_def)

lemma descriptor_name_index: "descriptor_name i a = descriptor_name j b \<Longrightarrow> i = j"
  by (metis takeWhile_pad6 pad6_def zero_padded_value of_nat_eq_iff)

lemma claimed_name_inj:
  assumes "claimed_name w f = claimed_name v g" "CHR ''_'' \<notin> set w" "CHR ''_'' \<notin> set v"
  shows "w = v \<and> f = g"
proof -
  from assms(1) have e: "w @ CHR ''_'' # CHR ''_'' # f = v @ CHR ''_'' # CHR ''_'' # g"
    by (simp add: claimed_name_def)
  have "takeWhile (\<lambda>c. c \<noteq> CHR ''_'') (u @ CHR ''_'' # x) = u" if "CHR ''_'' \<notin> set u" for u x
    using that by (subst takeWhile_append2) auto
  with e assms have "w = v" by metis
  with e show ?thesis by simp
qed

lemma claimed_not_base: "claimed_name w f \<noteq> descriptor_name i a"
proof
  assume e: "claimed_name w f = descriptor_name i a"
  have "takeWhile is_digit (claimed_name w f) = []"
    by (simp add: claimed_name_def is_digit_def)
  with e have "pad6 i = []" by (simp add: takeWhile_pad6)
  then show False by (simp add: pad6_def zero_padded_not_Nil)
qed

lemma ends_with_append: "ends_with s (t @ s)"
  by (simp add: ends_with_def starts_with_def)

lemma ends_with_appendI: "ends_with s t \<Longrightarrow> ends_with s (u @ t)"
  by (auto simp: ends_with_def starts_with_prefix prefix_def)

lemma yaml_names: "ends_with ''.yaml'' (descriptor_name i a)" "ends_with ''.yaml'' (claimed_name w (descriptor_name i a))"
proof -
  show d: "ends_with ''.yaml'' (descriptor_name i a)"
    using ends_with_append [of "''.yaml''" "pad6 i @ ''_'' @ safe_name a"] by (simp add: descriptor_name_def)
  show "ends_with ''.yaml'' (claimed_name w (descriptor_name i a))"
    using ends_with_appendI [OF d, of "''worker_'' @ w @ ''__''"] by (simp add: claimed_name_def)
qed

section \<open>The invariant of the queue\<close>

definition key :: "descriptor \<Rightarrow> nat \<times> string" where
  "key x = (d_index x, d_task_name x)"

definition base :: "descriptor \<Rightarrow> string" where
  "base x = descriptor_name (d_index x) (d_task_name x)"

definition entries :: "queue \<Rightarrow> directory" where
  "entries q = q_pending q @ q_running q @ q_done q @ q_failed q"

definition plain_name :: "string \<Rightarrow> bool" where
  "plain_name w = (CHR ''_'' \<notin> set w)"

definition named :: "string \<times> descriptor \<Rightarrow> bool" where
  "named e = (fst e = base (snd e) \<or> (\<exists>w. plain_name w \<and> fst e = claimed_name w (base (snd e))))"

definition queue_inv :: "(nat \<times> string) list \<Rightarrow> queue \<Rightarrow> bool" where
  "queue_inv K q =
     (mset (map (key \<circ> snd) (entries q)) = mset K \<and> (\<forall>e \<in> set (entries q). named e)
      \<and> (\<forall>e \<in> set (q_pending q). fst e = base (snd e)))"

lemma named_index: "named (f, x) \<Longrightarrow> named (f, y) \<Longrightarrow> d_index x = d_index y"
  unfolding named_def base_def plain_name_def fst_conv snd_conv
  by (metis claimed_name_inj claimed_not_base descriptor_name_index)

lemma queue_inv_indices:
  assumes "queue_inv K q" "distinct (map fst K)"
  shows "distinct (map (d_index \<circ> snd) (entries q))"
proof -
  have "mset (map fst (map (key \<circ> snd) (entries q))) = mset (map fst K)"
    using assms(1) unfolding queue_inv_def mset_map by simp
  then have "distinct (map fst (map (key \<circ> snd) (entries q)))"
    using assms(2) by (metis mset_eq_imp_distinct_iff)
  then show ?thesis by (simp add: comp_def key_def)
qed

lemma dir_names_distinct:
  assumes "distinct (map (d_index \<circ> snd) d)" "\<forall>e \<in> set d. named e"
  shows "distinct (map fst d)"
proof -
  have "inj_on fst (set d)"
  proof (rule inj_onI)
    fix a b
    assume ab: "a \<in> set d" "b \<in> set d" "fst a = fst b"
    obtain f x y where [simp]: "a = (f, x)" "b = (f, y)" using ab(3) by (metis surjective_pairing)
    have "named (f, x)" "named (f, y)" using ab assms(2) by auto
    then have "d_index x = d_index y" by (rule named_index)
    then have "(d_index \<circ> snd) a = (d_index \<circ> snd) b" by simp
    moreover have "inj_on (d_index \<circ> snd) (set d)" using assms(1) by (simp add: distinct_map)
    ultimately show "a = b" using ab(1,2) by (meson inj_onD)
  qed
  with assms(1) show ?thesis by (simp add: distinct_map)
qed

lemma fresh_name:
  assumes "distinct (map (d_index \<circ> snd) (d @ d'))" "\<forall>e \<in> set (d @ d'). named e"
    and "(g, x) \<in> set d" "named (f, x)"
  shows "f \<notin> fst ` set d'"
proof
  assume "f \<in> fst ` set d'"
  then obtain y where y: "(f, y) \<in> set d'" by auto
  then have "named (f, y)" using assms(2) by auto
  with assms(4) have "d_index x = d_index y" by (rule named_index)
  moreover have "d_index x \<in> (d_index \<circ> snd) ` set d" "d_index y \<in> (d_index \<circ> snd) ` set d'"
    using y assms(3) by force+
  ultimately show False using assms(1) by auto
qed

lemma remove_absent: "f \<notin> fst ` set d \<Longrightarrow> remove_file f d = d"
  unfolding remove_file_def by (intro filter_True) auto

lemma put_fresh: "f \<notin> fst ` set d \<Longrightarrow> put_file f x d = d @ [(f, x)]"
  by (simp add: put_file_def remove_absent)

lemma remove_mset:
  assumes "distinct (map fst d)" "(f, x) \<in> set d"
  shows "mset (remove_file f d) + {#(f, x)#} = mset d"
  using assms
proof (induction d)
  case (Cons e d)
  show ?case
  proof (cases "fst e = f")
    case True
    have f: "f \<notin> fst ` set d" using Cons.prems(1) True by auto
    then have "(f, x) \<notin> set d" by (metis fst_conv imageI)
    then have "e = (f, x)" using Cons.prems(2) by simp
    with remove_absent [OF f] show ?thesis by (simp add: remove_file_def)
  next
    case False
    then show ?thesis using Cons by (auto simp: remove_file_def)
  qed
qed simp

lemma remove_keys:
  "distinct (map fst d) \<Longrightarrow> (f, x) \<in> set d \<Longrightarrow>
     image_mset (key \<circ> snd) (mset d) = add_mset (key x) (image_mset (key \<circ> snd) (mset (remove_file f d)))"
  by (simp flip: remove_mset)

lemma remove_not_in: "f \<notin> fst ` set (remove_file f d)"
  by (auto simp: remove_file_def)

lemma set_remove_file: "set (remove_file f d) = {e \<in> set d. fst e \<noteq> f}"
  by (simp add: remove_file_def)

lemma map_of_dir: "distinct (map fst d) \<Longrightarrow> map_of d f = Some x \<longleftrightarrow> (f, x) \<in> set d"
  by (rule map_of_eq_Some_iff)

text \<open>The parts of the invariant, as they are used below.\<close>

lemma queue_inv_parts:
  assumes "queue_inv K q" "distinct (map fst K)"
  shows "distinct (map (d_index \<circ> snd) (q_pending q @ q_running q))"
    "distinct (map (d_index \<circ> snd) (q_running q @ q_done q))"
    "distinct (map (d_index \<circ> snd) (q_running q @ q_failed q))"
    "distinct (map fst (q_pending q))" "distinct (map fst (q_running q))"
    "\<forall>e \<in> set (q_pending q @ q_running q @ q_done q @ q_failed q). named e"
proof -
  note d = queue_inv_indices [OF assms, unfolded entries_def]
  show n: "\<forall>e \<in> set (q_pending q @ q_running q @ q_done q @ q_failed q). named e"
    using assms(1) by (simp add: queue_inv_def entries_def)
  show "distinct (map (d_index \<circ> snd) (q_pending q @ q_running q))"
    "distinct (map (d_index \<circ> snd) (q_running q @ q_done q))"
    "distinct (map (d_index \<circ> snd) (q_running q @ q_failed q))"
    using d by auto
  show "distinct (map fst (q_pending q))" "distinct (map fst (q_running q))"
    using d n by (auto intro!: dir_names_distinct)
qed

lemma attempt_step:
  assumes inv: "queue_inv K q" "distinct (map fst K)" and w: "plain_name w" and a: "attempt w f q = Some q'"
  obtains x where "(f, x) \<in> set (q_pending q)" "q_pending q' = remove_file f (q_pending q)"
    "q_running q' = q_running q @ [(claimed_name w f, x)]" "q_done q' = q_done q" "q_failed q' = q_failed q"
    "queue_inv K q'" "claimed_name w f \<notin> fst ` set (q_running q)"
proof -
  note p = queue_inv_parts [OF inv]
  from a obtain x where m: "map_of (q_pending q) f = Some x"
      and q': "q' = q\<lparr>q_pending := remove_file f (q_pending q),
                  q_running := put_file (claimed_name w f) x (q_running q)\<rparr>"
    by (auto simp: attempt_def split: option.splits)
  have fx: "(f, x) \<in> set (q_pending q)" using m by (rule map_of_SomeD)
  then have fb: "f = base x" using inv(1) by (auto simp: queue_inv_def)
  then have nm: "named (claimed_name w f, x)" using w by (auto simp: named_def)
  have fr: "claimed_name w f \<notin> fst ` set (q_running q)"
    by (rule fresh_name [OF p(1) _ fx nm]) (use p(6) in auto)
  then have r: "q_running q' = q_running q @ [(claimed_name w f, x)]" by (simp add: q' put_fresh)
  have "mset (map (key \<circ> snd) (entries q')) = mset (map (key \<circ> snd) (entries q))"
    using remove_keys [OF p(4) fx] unfolding entries_def r by (simp add: q')
  moreover have "(\<forall>e \<in> set (entries q'). named e) \<and> (\<forall>e \<in> set (q_pending q'). fst e = base (snd e))"
    using inv(1) nm r by (auto simp: queue_inv_def entries_def q' put_fresh fr set_remove_file)
  ultimately have "queue_inv K q'" using inv(1) by (simp only: queue_inv_def)
  then show thesis using that fx r fr by (simp add: q')
qed

lemma queue_invI:
  assumes "queue_inv K q" "image_mset (key \<circ> snd) (mset (entries q')) = image_mset (key \<circ> snd) (mset (entries q))"
    "\<forall>e \<in> set (entries q'). named e" "q_pending q' = q_pending q"
  shows "queue_inv K q'"
  using assms unfolding queue_inv_def mset_map by simp

lemma finish_write_step:
  assumes inv: "queue_inv K q" "distinct (map fst K)" and a: "finish_write f ok wsp w q = Some q'"
  shows "q_pending q' = q_pending q" "fst ` set (q_running q') = fst ` set (q_running q)"
    "queue_inv K q'" "f \<in> fst ` set (q_running q)"
proof -
  note p = queue_inv_parts [OF inv]
  from a obtain x where m: "map_of (q_running q) f = Some x"
    by (auto simp: finish_write_def split: option.splits)
  define x1 where "x1 = x\<lparr>d_status := (if ok then ''done'' else ''failed''), d_worker := Some w\<rparr>"
  define y where "y = (case wsp of Some v \<Rightarrow> x1\<lparr>d_workspace := v\<rparr> | None \<Rightarrow> x1)"
  have q': "q' = q\<lparr>q_running := put_file f y (q_running q)\<rparr>"
    using a m unfolding finish_write_def Let_def y_def x1_def by simp
  have k: "key y = key x" "base y = base x"
    by (simp_all add: y_def x1_def key_def base_def split: option.splits)
  have fx: "(f, x) \<in> set (q_running q)" using m by (rule map_of_SomeD)
  then show "f \<in> fst ` set (q_running q)" by force
  show pe: "q_pending q' = q_pending q" by (simp add: q')
  show "fst ` set (q_running q') = fst ` set (q_running q)"
    using fx by (force simp: q' put_file_def set_remove_file)
  have "image_mset (key \<circ> snd) (mset (entries q')) = image_mset (key \<circ> snd) (mset (entries q))"
    using remove_keys [OF p(5) fx] by (simp add: entries_def q' put_file_def k)
  moreover have "named (f, x)" using fx p(6) by auto
  then have "named (f, y)" by (simp add: named_def k)
  then have "\<forall>e \<in> set (entries q'). named e"
    using p(6) by (auto simp: entries_def q' put_file_def set_remove_file)
  ultimately show "queue_inv K q'" by (rule queue_invI [OF inv(1) _ _ pe])
qed

lemma finish_rename_step:
  assumes inv: "queue_inv K q" "distinct (map fst K)" and a: "finish_rename f ok q = Some q'"
  shows "q_pending q' = q_pending q" "q_running q' = remove_file f (q_running q)"
    "queue_inv K q'" "f \<in> fst ` set (q_running q)"
proof -
  note p = queue_inv_parts [OF inv]
  from a obtain x where m: "map_of (q_running q) f = Some x"
      and q': "q' = (if ok then q\<lparr>q_running := remove_file f (q_running q), q_done := put_file f x (q_done q)\<rparr>
               else q\<lparr>q_running := remove_file f (q_running q), q_failed := put_file f x (q_failed q)\<rparr>)"
    by (auto simp: finish_rename_def Let_def split: option.splits)
  have fx: "(f, x) \<in> set (q_running q)" using m by (rule map_of_SomeD)
  then show "f \<in> fst ` set (q_running q)" by force
  have nm: "named (f, x)" using fx p(6) by auto
  have "f \<notin> fst ` set (q_done q)"
    by (rule fresh_name [OF p(2) _ fx nm]) (use p(6) in auto)
  moreover have "f \<notin> fst ` set (q_failed q)"
    by (rule fresh_name [OF p(3) _ fx nm]) (use p(6) in auto)
  ultimately have q2: "q' = (if ok then q\<lparr>q_running := remove_file f (q_running q), q_done := q_done q @ [(f, x)]\<rparr>
      else q\<lparr>q_running := remove_file f (q_running q), q_failed := q_failed q @ [(f, x)]\<rparr>)"
    by (simp add: q' put_fresh)
  then show pe: "q_pending q' = q_pending q" "q_running q' = remove_file f (q_running q)" by simp_all
  have "image_mset (key \<circ> snd) (mset (entries q')) = image_mset (key \<circ> snd) (mset (entries q))"
    using remove_keys [OF p(5) fx] by (simp add: entries_def q2)
  moreover have "\<forall>e \<in> set (entries q'). named e"
    using p(6) nm by (auto simp: entries_def q2 set_remove_file split: if_splits)
  ultimately show "queue_inv K q'" by (rule queue_invI [OF inv(1) _ _ pe(1)])
qed

section \<open>The initial queue\<close>

definition task_keys :: "(nat \<times> string \<times> string) list \<Rightarrow> (nat \<times> string) list" where
  "task_keys L = map (\<lambda>(i, n, c). (i, n)) L"

lemma enqueue_inv:
  fixes finished ts n
  assumes "distinct (map fst L)"
  defines "q \<equiv> foldl (enqueue finished ts n) \<lparr>q_pending = [], q_running = [], q_done = [], q_failed = []\<rparr> L"
  shows "queue_inv (task_keys L) q \<and> q_running q = [] \<and> q_failed q = []
    \<and> (\<forall>e \<in> set (entries q). fst e = base (snd e))
    \<and> length (q_pending q) + length (q_done q) = length L"
  using assms(1) unfolding q_def
proof (induction L rule: rev_induct)
  case (snoc t L)
  define q0 where "q0 = foldl (enqueue finished ts n) \<lparr>q_pending = [], q_running = [], q_done = [], q_failed = []\<rparr> L"
  have IH: "queue_inv (task_keys L) q0" "q_running q0 = []" "q_failed q0 = []"
      "\<forall>e \<in> set (entries q0). fst e = base (snd e)" "length (q_pending q0) + length (q_done q0) = length L"
    using snoc by (simp_all add: q0_def)
  obtain i nm c where t: "t = (i, nm, c)" by (cases t)
  define x where "x = new_descriptor finished ts n t"
  have kx: "key x = (i, nm)" "d_index x = i" "d_task_name x = nm" by (simp_all add: x_def t new_descriptor_def key_def)
  have "d_index y \<noteq> i" if "(f, y) \<in> set (entries q0)" for f y
  proof -
    have "key y \<in># mset (map (key \<circ> snd) (entries q0))" using that by force
    then have "key y \<in># mset (task_keys L)" using IH(1) by (simp only: queue_inv_def)
    then have "key y \<in> set (task_keys L)" by simp
    then have "d_index y \<in> fst ` set L" by (force simp: key_def task_keys_def)
    with snoc.prems t show ?thesis by auto
  qed
  then have fr: "base x \<notin> fst ` set (entries q0)"
    using IH(4) kx(2) by (fastforce simp: base_def dest: descriptor_name_index)
  then have e: "enqueue finished ts n q0 t = (if finished nm then q0\<lparr>q_done := q_done q0 @ [(base x, x)]\<rparr>
      else q0\<lparr>q_pending := q_pending q0 @ [(base x, x)]\<rparr>)"
    unfolding enqueue_def x_def [symmetric] Let_def base_def [symmetric] kx(3)
    using put_fresh [of "base x" "q_done q0" x] put_fresh [of "base x" "q_pending q0" x]
    by (auto simp: entries_def image_Un)
  define q1 where "q1 = enqueue finished ts n q0 t"
  have "image_mset (key \<circ> snd) (mset (entries q1)) = add_mset (i, nm) (image_mset (key \<circ> snd) (mset (entries q0)))"
    by (simp add: q1_def e entries_def kx(1))
  also have "\<dots> = mset (task_keys (L @ [t]))"
    using IH(1) by (simp add: queue_inv_def task_keys_def t)
  finally have m1: "mset (map (key \<circ> snd) (entries q1)) = mset (task_keys (L @ [t]))" by simp
  have b1: "\<forall>e \<in> set (entries q1). fst e = base (snd e)"
    using IH(4) by (simp add: q1_def e entries_def ball_Un)
  have p1: "\<forall>e \<in> set (q_pending q1). fst e = base (snd e)"
    using b1 by (simp add: entries_def)
  have "queue_inv (task_keys (L @ [t])) q1"
    unfolding queue_inv_def using m1 b1 p1 by (simp add: named_def)
  moreover have "q_running q1 = [] \<and> q_failed q1 = [] \<and> length (q_pending q1) + length (q_done q1) = length (L @ [t])"
    using IH by (simp add: q1_def e)
  ultimately show ?case using b1 by (simp add: q0_def [symmetric] q1_def [symmetric])
qed (simp add: queue_inv_def task_keys_def entries_def)

section \<open>The invariant of the workers\<close>

fun held :: "phase \<Rightarrow> string option" where
  "held (Working n f) = Some f"
| "held (Finishing n f ok) = Some f"
| "held _ = None"

definition files :: "directory \<Rightarrow> string set" where
  "files d = fst ` set d"

definition phase_ok :: "queue \<Rightarrow> string \<Rightarrow> phase \<Rightarrow> bool" where
  "phase_ok q w p =
     ((\<forall>f. held p = Some f \<longrightarrow> f \<in> files (q_running q) \<and> (\<exists>g. f = claimed_name w g))
      \<and> (case p of Scanning n fs \<Rightarrow> sorted fs \<and> files (q_pending q) \<subseteq> set fs
         | Stopped n \<Rightarrow> q_pending q = [] | _ \<Rightarrow> True))"

definition run_inv :: "(nat \<times> string) list \<Rightarrow> string set \<Rightarrow> run_state \<Rightarrow> bool" where
  "run_inv K ws s =
     (queue_inv K (rs_queue s) \<and> (\<forall>w \<in> ws. phase_ok (rs_queue s) w (rs_phase s w))
      \<and> (\<forall>f \<in> files (q_running (rs_queue s)). \<exists>w \<in> ws. held (rs_phase s w) = Some f))"

lemma files_remove: "files (remove_file f d) = files d - {f}"
  by (auto simp: files_def set_remove_file)

lemma listing_named: "\<forall>e \<in> set d. named e \<Longrightarrow> listing d = map fst d"
  unfolding listing_def by (intro filter_True) (auto simp: named_def base_def yaml_names)

lemma listing_queue:
  assumes "queue_inv K q"
  shows "listing (q_pending q) = map fst (q_pending q)" "listing (q_running q) = map fst (q_running q)"
    "listing (q_done q) = map fst (q_done q)" "listing (q_failed q) = map fst (q_failed q)"
  using assms by (auto intro!: listing_named simp: queue_inv_def entries_def)

lemma phase_ok_keep:
  assumes "phase_ok q w p" "files (q_pending q') \<subseteq> files (q_pending q)"
    "\<And>f. held p = Some f \<Longrightarrow> f \<in> files (q_running q) \<Longrightarrow> f \<in> files (q_running q')"
  shows "phase_ok q' w p"
  using assms by (auto simp: phase_ok_def files_def split: phase.splits)

text \<open>A step that changes the phase of one worker and, perhaps, the queue.\<close>

lemma run_invI:
  assumes inv: "run_inv K ws s" and w: "w \<in> ws"
    and q: "queue_inv K q" and p: "phase_ok q w p"
    and pe: "files (q_pending q) \<subseteq> files (q_pending (rs_queue s))"
    and keep: "\<And>v f. v \<in> ws \<Longrightarrow> v \<noteq> w \<Longrightarrow> held (rs_phase s v) = Some f \<Longrightarrow> f \<in> files (q_running (rs_queue s))
      \<Longrightarrow> f \<in> files (q_running q)"
    and own: "\<And>f. f \<in> files (q_running q) \<Longrightarrow> held p = Some f
      \<or> f \<in> files (q_running (rs_queue s)) \<and> held (rs_phase s w) \<noteq> Some f"
  shows "run_inv K ws \<lparr>rs_queue = q, rs_phase = (rs_phase s)(w := p)\<rparr>"
proof -
  have "phase_ok q v (((rs_phase s)(w := p)) v)" if "v \<in> ws" for v
  proof (cases "v = w")
    case False
    have "phase_ok (rs_queue s) v (rs_phase s v)" using inv that by (simp add: run_inv_def)
    from phase_ok_keep [OF this pe keep [OF that False]] False show ?thesis by simp
  qed (simp add: p)
  moreover have "\<exists>v \<in> ws. held (((rs_phase s)(w := p)) v) = Some f" if "f \<in> files (q_running q)" for f
  proof (cases "held p = Some f")
    case False
    with own [OF that] inv obtain v where "v \<in> ws" "held (rs_phase s v) = Some f" "v \<noteq> w"
      unfolding run_inv_def by metis
    then show ?thesis by (intro bexI [of _ v]) simp_all
  qed (use w in auto)
  ultimately show ?thesis using q by (simp add: run_inv_def)
qed

lemma worker_step_inv:
  assumes K: "distinct (map fst K)" and ws: "\<forall>w \<in> ws. plain_name w"
    and inv: "run_inv K ws s" and st: "worker_step ws s t"
  shows "run_inv K ws t"
proof -
  let ?q = "rs_queue s"
  have q: "queue_inv K ?q" using inv by (simp add: run_inv_def)
  have ok: "phase_ok ?q w (rs_phase s w)" if "w \<in> ws" for w using inv that by (simp add: run_inv_def)
  have same: "run_inv K ws (s\<lparr>rs_phase := (rs_phase s)(w := p)\<rparr>)"
    if "w \<in> ws" "phase_ok ?q w p" "held p = held (rs_phase s w)" for w p
    using run_invI [OF inv that(1) q that(2)] that(3) inv that(1)
    by (cases s) (auto simp: run_inv_def files_def)
  from st show ?thesis
  proof (cases rule: worker_step.cases)
    case (scan w n)
    then show ?thesis
      by (auto intro!: same simp: phase_ok_def files_def listing_queue [OF q])
  next
    case (miss w n f fs)
    then have "f \<notin> files (q_pending ?q)"
      by (auto simp: attempt_def files_def map_of_eq_None_iff split: option.splits)
    with miss ok [of w] show ?thesis by (auto intro!: same simp: phase_ok_def)
  next
    case (stop w n)
    with ok [of w] show ?thesis by (auto intro!: same simp: phase_ok_def files_def)
  next
    case (hit w n f fs q')
    have pw: "plain_name w" using ws hit(2) by blast
    obtain x where a: "(f, x) \<in> set (q_pending ?q)" "q_pending q' = remove_file f (q_pending ?q)"
      "q_running q' = q_running ?q @ [(claimed_name w f, x)]" "queue_inv K q'"
      by (rule attempt_step [OF q K pw hit(4)])
    show ?thesis unfolding hit(1)
      by (rule run_invI [OF inv hit(2) a(4)])
         (use a hit(3) in \<open>auto simp: phase_ok_def files_def set_remove_file\<close>)
  next
    case (finish w n f ok' wsp q')
    note a = finish_write_step [OF q K finish(4)]
    show ?thesis unfolding finish(1)
      by (rule run_invI [OF inv finish(2) a(3)])
         (use a ok [OF finish(2)] finish(3) in \<open>auto simp: phase_ok_def files_def\<close>)
  next
    case (leave w n f ok' q')
    note a = finish_rename_step [OF q K leave(4)]
    obtain g where g: "f = claimed_name w g" using ok [OF leave(2)] leave(3) by (auto simp: phase_ok_def)
    have other: "f' \<noteq> f" if "v \<in> ws" "v \<noteq> w" "held (rs_phase s v) = Some f'" for v f'
    proof -
      note h = that
      obtain g' where "f' = claimed_name v g'" using ok [OF h(1)] h(3) by (auto simp: phase_ok_def)
      then show ?thesis using claimed_name_inj [of v g' w g] g ws that(1,2) leave(2) by (auto simp: plain_name_def)
    qed
    show ?thesis unfolding leave(1)
      by (rule run_invI [OF inv leave(2) a(3)])
         (use a leave(3) other in \<open>auto simp: phase_ok_def files_remove\<close>)
  qed
qed


section \<open>Progress and termination\<close>

text \<open>A worker that has not stopped can take a step.\<close>

lemma files_map_of: "f \<in> files d \<Longrightarrow> \<exists>x. map_of d f = Some x"
  by (metis files_def map_of_eq_None_iff not_None_eq)

lemma worker_progress:
  assumes inv: "run_inv K ws s" and w: "w \<in> ws" and p: "\<forall>n. rs_phase s w \<noteq> Stopped n"
  shows "\<exists>t. worker_step ws s t"
proof -
  have ok: "phase_ok (rs_queue s) w (rs_phase s w)" using inv w by (simp add: run_inv_def)
  show ?thesis
  proof (cases "rs_phase s w")
    case (Ready n)
    then show ?thesis using w by (blast intro: worker_step.scan)
  next
    case (Scanning n fs)
    show ?thesis
    proof (cases fs)
      case Nil
      then show ?thesis using w Scanning by (blast intro: worker_step.stop)
    next
      case (Cons f fs')
      then show ?thesis using w Scanning
        by (cases "attempt w f (rs_queue s)") (blast intro: worker_step.miss worker_step.hit)+
    qed
  next
    case (Working n f)
    then have "f \<in> files (q_running (rs_queue s))" using ok by (simp add: phase_ok_def)
    then obtain x where "map_of (q_running (rs_queue s)) f = Some x" using files_map_of by blast
    then have "\<exists>q. finish_write f True None w (rs_queue s) = Some q"
      by (simp add: finish_write_def Let_def)
    then show ?thesis using w Working worker_step.finish by blast
  next
    case (Finishing n f success)
    then have "f \<in> files (q_running (rs_queue s))" using ok by (simp add: phase_ok_def)
    then obtain x where "map_of (q_running (rs_queue s)) f = Some x" using files_map_of by blast
    then have "\<exists>q. finish_rename f success (rs_queue s) = Some q"
      by (simp add: finish_rename_def Let_def)
    then show ?thesis using w Finishing worker_step.leave by blast
  qed (use p in blast)
qed

text \<open>
  Every step lowers this measure, where \<open>N\<close> is the number of tasks: a claim shortens the pending
  list for good, and between two claims a worker can only try the names it has listed.
\<close>

fun weight :: "nat \<Rightarrow> phase \<Rightarrow> nat" where
  "weight N (Ready n) = N + 2"
| "weight N (Scanning n fs) = length fs + 1"
| "weight N (Working n f) = N + 4"
| "weight N (Finishing n f ok) = N + 3"
| "weight N (Stopped n) = 0"

definition work_left :: "nat \<Rightarrow> string set \<Rightarrow> run_state \<Rightarrow> nat" where
  "work_left N ws s = (N + 4) * length (q_pending (rs_queue s)) + (\<Sum>w \<in> ws. weight N (rs_phase s w))"

lemma sum_fun_upd:
  assumes "finite ws" "w \<in> ws"
  shows "(\<Sum>v \<in> ws. weight N ((ph(w := p)) v)) + weight N (ph w) = (\<Sum>v \<in> ws. weight N (ph v)) + weight N p"
proof -
  have "(\<Sum>v \<in> ws - {w}. weight N ((ph(w := p)) v)) = (\<Sum>v \<in> ws - {w}. weight N (ph v))"
    by (intro sum.cong) auto
  then show ?thesis
    using sum.remove [OF assms, of "\<lambda>v. weight N ((ph(w := p)) v)"] sum.remove [OF assms, of "\<lambda>v. weight N (ph v)"]
    by simp
qed

lemma pending_bound: "queue_inv K q \<Longrightarrow> length (q_pending q) \<le> length K"
proof -
  assume "queue_inv K q"
  then have "size (mset (map (key \<circ> snd) (entries q))) = length K" by (simp add: queue_inv_def)
  then show ?thesis by (simp add: entries_def)
qed

lemma work_left_lowered:
  assumes K: "distinct (map fst K)" and ws: "\<forall>w \<in> ws. plain_name w" "finite ws"
    and inv: "run_inv K ws s" and st: "worker_step ws s t"
  shows "work_left (length K) ws t < work_left (length K) ws s"
proof -
  have q: "queue_inv K (rs_queue s)" using inv by (simp add: run_inv_def)
  note b = pending_bound [OF q] and S = sum_fun_upd [OF ws(2), of _ "length K" "rs_phase s"]
  from st show ?thesis
  proof (cases rule: worker_step.cases)
    case (scan w n)
    then show ?thesis using S [OF scan(2), of "Scanning n (sort (listing (q_pending (rs_queue s))))"] b
      by (simp add: work_left_def listing_queue [OF q])
  next
    case (miss w n f fs)
    then show ?thesis using S [OF miss(2), of "Scanning n fs"] by (simp add: work_left_def)
  next
    case (stop w n)
    then show ?thesis using S [OF stop(2), of "Stopped n"] by (simp add: work_left_def)
  next
    case (hit w n f fs q')
    have pw: "plain_name w" using ws hit(2) by blast
    obtain x where a: "(f, x) \<in> set (q_pending (rs_queue s))" "q_pending q' = remove_file f (q_pending (rs_queue s))"
      by (rule attempt_step [OF q K pw hit(4)])
    have l: "length (q_pending q') < length (q_pending (rs_queue s))"
      unfolding a(2) remove_file_def by (rule length_filter_less [OF a(1)]) simp
    then have "(length K + 4) * length (q_pending q') + (length K + 4)
        \<le> (length K + 4) * length (q_pending (rs_queue s))"
      using mult_le_mono2 [OF Suc_leI [OF l], of "length K + 4"] by simp
    then show ?thesis using S [OF hit(2), of "Working n (claimed_name w f)"] hit(1,3)
      by (simp add: work_left_def)
  next
    case (finish w n f success wsp q')
    then show ?thesis
      using S [OF finish(2), of "Finishing (if success then n else Suc n) f success"]
        finish_write_step(1) [OF q K finish(4)] by (simp add: work_left_def)
  next
    case (leave w n f success q')
    then show ?thesis
      using S [OF leave(2), of "Ready n"] finish_rename_step(1) [OF q K leave(4)] by (simp add: work_left_def)
  qed
qed


section \<open>Runs from the initial queue\<close>

definition keys_of :: "(string \<times> string) list \<Rightarrow> (nat \<times> string) list" where
  "keys_of tasks = task_keys (enumerate 1 tasks)"

lemma keys_of_fst: "map fst (keys_of tasks) = [1..<Suc (length tasks)]"
proof -
  have "map fst (keys_of tasks) = map fst (enumerate 1 tasks)"
    unfolding keys_of_def task_keys_def map_map by (intro map_cong) auto
  then show ?thesis by (simp add: map_fst_enumerate del: upt_Suc)
qed

lemma keys_of_distinct: "distinct (map fst (keys_of tasks))"
  unfolding keys_of_fst by simp

lemma initial_inv: "run_inv (keys_of tasks) ws (initial_run finished ts tasks)"
proof -
  have "distinct (map fst (enumerate 1 tasks))" by (simp add: map_fst_enumerate)
  from enqueue_inv [OF this, of finished ts "length tasks"] show ?thesis
    by (simp add: run_inv_def initial_run_def initialize_parallel_queue_def keys_of_def phase_ok_def files_def)
qed

abbreviation workers_reach ::
    "(string \<Rightarrow> bool) \<Rightarrow> string \<Rightarrow> (string \<times> string) list \<Rightarrow> string set \<Rightarrow> run_state \<Rightarrow> bool" where
  "workers_reach finished ts tasks ws \<equiv> reach (\<lambda>s. s = initial_run finished ts tasks) (worker_step ws)"

text \<open>
  The workers as an instance of \<open>terminating_system\<close>, for worker identifiers without an
  underscore (the launcher numbers its workers): the guard makes the instance unconditional.
\<close>

definition sane_workers :: "string set \<Rightarrow> bool" where
  "sane_workers ws = ((\<forall>w \<in> ws. plain_name w) \<and> finite ws)"

interpretation workers: terminating_system
  "\<lambda>s. sane_workers ws \<and> s = initial_run finished ts tasks"
  "worker_step ws"
  "\<lambda>s. sane_workers ws \<and> run_inv (keys_of tasks) ws s"
  "work_left (length (keys_of tasks)) ws" for ws finished ts tasks
proof unfold_locales
  fix s t
  show "sane_workers ws \<and> s = initial_run finished ts tasks \<Longrightarrow> sane_workers ws \<and> run_inv (keys_of tasks) ws s"
    using initial_inv by blast
  assume i: "sane_workers ws \<and> run_inv (keys_of tasks) ws s" and st: "worker_step ws s t"
  show "sane_workers ws \<and> run_inv (keys_of tasks) ws t"
    using i worker_step_inv [OF keys_of_distinct _ _ st] by (auto simp: sane_workers_def)
  show "work_left (length (keys_of tasks)) ws t < work_left (length (keys_of tasks)) ws s"
    by (rule work_left_lowered [OF keys_of_distinct _ _ _ st]) (use i in \<open>auto simp: sane_workers_def\<close>)
qed

lemma workers_inv:
  assumes "workers_reach finished ts tasks ws s" "sane_workers ws"
  shows "run_inv (keys_of tasks) ws s"
proof -
  have "reach (\<lambda>s. sane_workers ws \<and> s = initial_run finished ts tasks) (worker_step ws) s"
    using assms(1) by (induction rule: reach.induct) (auto intro: reach.intros simp: assms(2))
  then show ?thesis using workers.reach_inv by blast
qed

lemma queue_inv_keys: "queue_inv K q \<Longrightarrow> mset (map (key \<circ> snd) (entries q)) = mset K"
  by (simp add: queue_inv_def)

lemma stopped_queue:
  assumes inv: "run_inv K ws s" and ws: "ws \<noteq> {}" and st: "\<forall>w \<in> ws. \<exists>n. rs_phase s w = Stopped n"
  shows "q_pending (rs_queue s) = [] \<and> q_running (rs_queue s) = []"
proof -
  obtain w n where "w \<in> ws" "rs_phase s w = Stopped n" using ws st by blast
  then have "q_pending (rs_queue s) = []" using inv by (auto simp: run_inv_def phase_ok_def)
  moreover have "files (q_running (rs_queue s)) = {}"
    using inv st unfolding run_inv_def by (metis held.simps(5) all_not_in_conv option.distinct(1))
  ultimately show ?thesis by (simp add: files_def)
qed


end
