(* ===== verification/TaskSpecFacts.thy ===== *)
theory TaskSpecFacts
  imports TaskSpec
begin

text \<open>
  What an accepted task declaration guarantees: paths stay below the task's root, edit scopes
  are disjoint and keep away from protected inputs, the seven actions are all runnable, and a
  declaration written back by \<open>to_mapping\<close> is read as the same task.
\<close>

section \<open>What the checkers accept\<close>

lemma mapping_arg_Inr [spec_simps]:
  "mapping_arg v w allowed = Inr d \<longleftrightarrow> v = PDict d \<and> keys d \<subseteq> PStr ` set allowed"
  by (cases v) (auto simp: mapping_arg_def string_keyed_def list_all_iff keys_def split: if_splits)

lemma text_arg_Inr [spec_simps]: "text_arg v w = Inr s \<longleftrightarrow> v = PStr s \<and> text_ok s"
  by (cases v) auto

lemma choice_arg_Inr [spec_simps]: "choice_arg v cs w = Inr s \<longleftrightarrow> v = PStr s \<and> s \<in> set cs"
  by (cases v) auto

lemma timeout_arg_Inr [spec_simps]: "timeout_arg v w = Inr n \<longleftrightarrow> v = PInt n \<and> 0 < n"
  by (cases v) auto

lemma relative_path_Inr [spec_simps]:
  "relative_path v w = Inr p \<longleftrightarrow> v = PStr p \<and> text_ok p \<and> relative_ok p"
  by (auto simp: relative_path_def result_simps spec_simps split: if_splits)

lemma list_arg_Inr [spec_simps]: "list_arg v w = Inr vs \<longleftrightarrow> v = PList vs"
  by (cases v) auto

lemma bool_arg_Inr [spec_simps]: "bool_arg v w = Inr b \<longleftrightarrow> v = PBool b"
  by (cases v) auto

lemma paths_arg_Inr:
  assumes "paths_arg v w = Inr ps"
  shows "v = PList (map PStr ps)" "\<forall>p \<in> set ps. relative_ok p" "distinct ps"
proof -
  from assms obtain vs where v: "v = PList vs" and m: "mapR (\<lambda>x. relative_path x w) vs = Inr ps"
      and d: "distinct ps"
    by (auto simp: paths_arg_def result_simps spec_simps split: if_splits)
  from m have "vs = map PStr ps \<and> (\<forall>p \<in> set ps. relative_ok p)"
    by (induction vs arbitrary: ps) (auto simp: result_simps spec_simps)
  with v d show "v = PList (map PStr ps)" "\<forall>p \<in> set ps. relative_ok p" "distinct ps" by auto
qed

lemma argv_arg_Inr:
  assumes "argv_arg v w = Inr argv"
  shows "argv \<noteq> []" "text_ok (hd argv)"
proof -
  from assms obtain x xs where "v = PList (x # xs)" "those (map argument (x # xs)) = Some argv"
      "is_ok (text_arg x w)"
    by (auto simp: argv_arg_def result_simps split: pyval.splits list.splits option.splits)
  then show "argv \<noteq> []" "text_ok (hd argv)"
    by (auto split: option.splits if_splits elim!: argument.elims)
qed

lemma commands_arg_Inr:
  assumes "commands_arg v w = Inr cs"
  shows "cs \<noteq> [] \<and> (\<forall>c \<in> set cs. c \<noteq> [] \<and> text_ok (hd c))"
proof -
  from assms obtain x xs where v: "v = PList (x # xs)"
      and m: "mapR (\<lambda>c. argv_arg c w) (x # xs) = Inr cs"
    by (auto simp: commands_arg_def split: pyval.splits list.splits)
  have "cs \<noteq> []" using mapR_length [OF m] by auto
  moreover have "c \<noteq> [] \<and> text_ok (hd c)" if "c \<in> set cs" for c
    using mapR_set [OF m that] argv_arg_Inr by blast
  ultimately show ?thesis by blast
qed

section \<open>Paths\<close>

abbreviation path_parts :: "string \<Rightarrow> string list" where
  "path_parts p \<equiv> split_on CHR ''/'' p"

lemma path_parts_inj: "path_parts p = path_parts q \<Longrightarrow> p = q"
  by (rule split_on_inj)

lemma relative_ok_posix: "relative_ok p \<Longrightarrow> posix_path p = ([], path_parts p)"
  by (auto simp: relative_ok_def posix_path_def starts_with_prefix list_ex_iff prefix_def
      filter_id_conv)

lemma in_posix_parents:
  "(r, a) \<in> set (posix_parents (s, b)) \<longleftrightarrow> r = s \<and> strict_prefix a b"
proof -
  have "strict_prefix a b \<longleftrightarrow> (\<exists>n < length b. a = take n b)"
  proof
    assume "strict_prefix a b"
    then have "a = take (length a) b" "length a < length b"
      by (auto simp: strict_prefix_def prefix_def)
    then show "\<exists>n < length b. a = take n b" by blast
  next
    assume "\<exists>n < length b. a = take n b"
    then obtain n where n: "n < length b" "a = take n b" by blast
    then have "prefix a b" "length a \<noteq> length b" by (simp_all add: take_is_prefix)
    then show "strict_prefix a b" by (auto simp: strict_prefix_def)
  qed
  then show ?thesis by (auto simp: posix_parents_def)
qed

lemma contains_parts:
  assumes "relative_ok (es_path e)" "relative_ok p"
  shows "contains e p \<longleftrightarrow> p = es_path e
           \<or> es_scope e = ''tree'' \<and> strict_prefix (path_parts (es_path e)) (path_parts p)"
  using assms by (simp add: contains_def relative_ok_posix in_posix_parents)


text \<open>A path, read part by part below a directory, as the kernel resolves it without links.\<close>

fun resolve_part :: "string list \<Rightarrow> string \<Rightarrow> string list" where
  "resolve_part dir part =
     (if part = [] \<or> part = ''.'' then dir else if part = ''..'' then butlast dir else dir @ [part])"

lemma resolve_normal:
  "\<forall>q \<in> set ps. q \<notin> {[], ''.'', ''..''} \<Longrightarrow> foldl resolve_part dir ps = dir @ ps"
  by (induction ps arbitrary: dir) auto

lemma relative_ok_parts:
  "relative_ok p \<Longrightarrow> \<forall>q \<in> set (path_parts p). q \<notin> {[], ''.'', ''..''}"
  unfolding relative_ok_def list_ex_iff by blast

section \<open>Edit scopes\<close>

text \<open>Two scopes that neither contains the other's path share no path at all.\<close>

definition separate :: "edit_scope \<Rightarrow> edit_scope \<Rightarrow> bool" where
  "separate e f = (\<not> contains e (es_path f) \<and> \<not> contains f (es_path e))"

definition disjoint_scopes :: "edit_scope list \<Rightarrow> bool" where
  "disjoint_scopes edits =
     ((\<forall>e \<in> set edits. relative_ok (es_path e)) \<and> sorted_wrt separate edits)"

lemma separate_exclusive:
  assumes e: "relative_ok (es_path e)" and f: "relative_ok (es_path f)" and p: "relative_ok p"
    and s: "separate e f" and c: "contains e p" "contains f p"
  shows False
proof -
  have "prefix (path_parts (es_path e)) (path_parts p)" "prefix (path_parts (es_path f)) (path_parts p)"
    using c by (auto simp: contains_parts e f p)
  then consider "prefix (path_parts (es_path e)) (path_parts (es_path f))"
    | "prefix (path_parts (es_path f)) (path_parts (es_path e))"
    using prefix_same_cases by blast
  then show False
  proof cases
    case 1
    show False
    proof (cases "es_scope e = ''tree'' \<or> es_path e = es_path f")
      case True
      with 1 s show False
        by (auto simp: separate_def contains_parts e f strict_prefix_def dest: path_parts_inj)
    next
      case False
      with c(1) have "p = es_path e" by (simp add: contains_parts e p)
      with c(2) s show False by (simp add: separate_def)
    qed
  next
    case 2
    show False
    proof (cases "es_scope f = ''tree'' \<or> es_path e = es_path f")
      case True
      with 2 s show False
        by (auto simp: separate_def contains_parts e f strict_prefix_def dest: path_parts_inj)
    next
      case False
      with c(2) have "p = es_path f" by (simp add: contains_parts f p)
      with c(1) s show False by (simp add: separate_def)
    qed
  qed
qed

lemma disjoint_scopes_at_most_one:
  "disjoint_scopes edits \<Longrightarrow> relative_ok p \<Longrightarrow> length (filter (\<lambda>e. contains e p) edits) \<le> 1"
proof (induction edits)
  case (Cons e edits)
  then have IH: "length (filter (\<lambda>e. contains e p) edits) \<le> 1"
    by (simp add: disjoint_scopes_def)
  have "filter (\<lambda>f. contains f p) edits = []" if "contains e p"
    using Cons.prems that separate_exclusive [of e _ p]
    by (auto simp: disjoint_scopes_def filter_empty_conv)
  with IH show ?case by simp
qed simp

lemma edit_item_Inr:
  assumes "edit_item raw = Inr e"
  shows "relative_ok (es_path e)" "es_scope e \<in> {''file'', ''symbols'', ''tree''}"
    "es_scope e = ''symbols'' \<longleftrightarrow> es_symbols e \<noteq> []" "distinct (es_symbols e)"
proof -
  from assms obtain edit path scope symbols helpers where
      p: "relative_path (dget edit ''path'') ''candidate.editable[].path'' = Inr path"
      and sc: "choice_arg (dget_default edit ''scope'' (PStr ''file''))
              [''file'', ''symbols'', ''tree''] ''scope'' = Inr scope"
      and sy: "symbol_names (dget_default edit ''symbols'' (PList [])) = Inr symbols"
      and c: "\<not> (scope = ''symbols'' \<and> (symbols = [] \<or> \<not> distinct symbols))"
             "\<not> (scope \<noteq> ''symbols'' \<and> (dhas edit ''symbols'' \<or> dhas edit ''allow_new_helpers''))"
      and e: "Inr \<lparr>es_path = path, es_scope = scope, es_symbols = symbols,
               es_allow_new_helpers = helpers\<rparr> = (Inr e :: (config_error, edit_scope) result)"
    unfolding edit_item_def by (elim rbindE if_InlE)
  from e have e: "es_path e = path" "es_scope e = scope" "es_symbols e = symbols" by auto
  show "relative_ok (es_path e)" using p e by (simp add: spec_simps)
  show "es_scope e \<in> {''file'', ''symbols'', ''tree''}" using sc e by (simp add: spec_simps)
  have "symbols = []" if "scope \<noteq> ''symbols''"
    using sy c(2) that by (simp add: symbol_names_def dget_default_def dhas_dlookup)
  with c e show "es_scope e = ''symbols'' \<longleftrightarrow> es_symbols e \<noteq> []" "distinct (es_symbols e)"
    by auto
qed

lemma add_edit_disjoint:
  assumes "disjoint_scopes edits" "add_edit edits raw = Inr edits'"
  shows "disjoint_scopes edits'"
  using assms edit_item_Inr(1) [of raw]
  by (auto simp: add_edit_def disjoint_scopes_def overlapping_def list_ex_iff separate_def
      sorted_wrt_append result_simps split: if_splits)

lemma add_edit_length: "add_edit edits raw = Inr edits' \<Longrightarrow> length edits' = Suc (length edits)"
  by (auto simp: add_edit_def result_simps split: if_splits)

lemma add_edits_length:
  "foldR add_edit edits raws = Inr edits' \<Longrightarrow> length edits' = length edits + length raws"
  by (induction raws arbitrary: edits) (auto simp: result_simps dest: add_edit_length)

definition entry_inside :: "edit_scope list \<Rightarrow> entry_point \<Rightarrow> bool" where
  "entry_inside edits x = (relative_ok (ep_file x) \<and> list_ex (\<lambda>e. contains e (ep_file x)) edits)"

lemma add_entry_inside:
  assumes "list_all (entry_inside edits) es \<and> distinct es" "add_entry edits es raw = Inr es'"
  shows "list_all (entry_inside edits) es' \<and> distinct es'"
proof -
  from assms(2) obtain entry path x where
      "relative_path (dget entry ''file'') ''entrypoint.file'' = Inr path"
      "\<not> \<not> list_ex (\<lambda>e. contains e path) edits" "x \<notin> set es"
      "Inr (es @ [x]) = (Inr es' :: (config_error, entry_point list) result)" "ep_file x = path"
    unfolding add_entry_def Let_def by (elim rbindE if_InlE) simp
  with assms(1) show ?thesis by (auto simp: entry_inside_def spec_simps)
qed

lemma candidate_of_Inr:
  assumes "candidate_of v = Inr c"
  shows "cand_editable c \<noteq> []" "disjoint_scopes (cand_editable c)"
    "list_all (entry_inside (cand_editable c)) (cand_entrypoints c)" "distinct (cand_entrypoints c)"
    "cand_initial_state c \<in> {''implemented'', ''unimplemented''}"
    "cand_initial_state c = ''unimplemented'' \<longleftrightarrow> cand_initial_language c = None"
proof -
  from assms obtain obj language state initial raws edits entries parsed where
      st: "choice_arg (dget_default obj ''initial_state'' (PStr ''implemented''))
              [''implemented'', ''unimplemented''] ''candidate.initial_state'' = Inr state"
      and il: "initial_language obj language state = Inr initial"
      and ed: "raws \<noteq> []" "foldR add_edit [] raws = Inr edits"
      and en: "foldR (add_entry edits) [] entries = Inr parsed"
      and "Inr \<lparr>cand_language = language, cand_initial_state = state,
             cand_initial_language = initial, cand_editable = edits, cand_entrypoints = parsed\<rparr>
           = (Inr c :: (config_error, candidate_spec) result)"
    unfolding candidate_of_def by (elim rbindE if_InlE)
  then have c: "c = \<lparr>cand_language = language, cand_initial_state = state,
      cand_initial_language = initial, cand_editable = edits, cand_entrypoints = parsed\<rparr>"
    by simp
  have "edits \<noteq> []" using add_edits_length [OF ed(2)] ed(1) by auto
  then show "cand_editable c \<noteq> []" by (simp add: c)
  have "disjoint_scopes edits"
    by (rule foldR_invariant [OF ed(2)]) (simp add: disjoint_scopes_def, rule add_edit_disjoint)
  then show "disjoint_scopes (cand_editable c)" by (simp add: c)
  have "list_all (entry_inside edits) parsed \<and> distinct parsed"
    by (rule foldR_invariant [OF en, where P = "\<lambda>es. list_all (entry_inside edits) es \<and> distinct es"])
       (simp, rule add_entry_inside)
  then show "list_all (entry_inside (cand_editable c)) (cand_entrypoints c)"
      "distinct (cand_entrypoints c)" by (simp_all add: c)
  have s: "state = ''implemented'' \<or> state = ''unimplemented''" using st by (simp add: spec_simps)
  then show "cand_initial_state c \<in> {''implemented'', ''unimplemented''}" by (simp add: c)
  show "cand_initial_state c = ''unimplemented'' \<longleftrightarrow> cand_initial_language c = None"
    using s il by (elim disjE) (auto simp: c initial_language_def result_simps split: if_splits)
qed

section \<open>Reading a declaration\<close>

lemma from_mapping_Inr:
  "from_mapping config tid = Inr s \<longleftrightarrow>
     (\<exists>obj. config = PDict obj \<and> keys obj \<subseteq> PStr ` set config_fields
       \<and> text_ok tid \<and> relative_ok tid \<and> ts_task_id s = tid \<and> ts_config s = obj
       \<and> dget obj ''schema_version'' = PInt 2
       \<and> candidate_of (dget obj ''candidate'') = Inr (ts_candidate s)
       \<and> baseline_of (dget_default obj ''baseline'' (PDict [])) (ts_candidate s) = Inr (ts_baseline s)
       \<and> actions_of (dget obj ''evaluation'') = Inr (ts_actions s)
       \<and> optional_fields obj = Inr ()
       \<and> \<not> touches_protected (cand_editable (ts_candidate s)) (protected_inputs obj)
            (base_source_files (ts_baseline s)))"
  by (cases s) (auto simp: from_mapping_def result_simps spec_simps split: if_splits)

lemma action_of_Inr:
  assumes "action_of obj runner t ra = Inr a" and "0 < t" and "\<forall>r. runner = Some r \<longrightarrow> r \<noteq> [] \<and> text_ok (hd r)"
  shows "(act_role a, act_action a) = ra \<and> 0 < act_timeout_s a \<and> act_commands a \<noteq> []
    \<and> (\<forall>c \<in> set (act_commands a). c \<noteq> [] \<and> text_ok (hd c))"
proof -
  obtain role act where ra: "ra = (role, act)" by (cases ra)
  from assms(1) obtain override timeout commands where
      t: "timeout_arg (dget_default override ''timeout_s'' (PInt t))
              (role @ ''.'' @ act @ ''.timeout_s'') = Inr timeout"
      and c: "(if dhas override ''commands''
            then commands_arg (dget override ''commands'') (role @ ''.'' @ act @ ''.commands'')
            else case runner of
              Some argv \<Rightarrow> Inr [argv @ (if role = ''task'' then [act] else [role, act])]
            | None \<Rightarrow> Inl (Refused ''Missing commands; no evaluation.runner'')) = Inr commands"
      and a: "Inr \<lparr>act_role = role, act_action = act, act_commands = commands, act_timeout_s = timeout\<rparr>
              = (Inr a :: (config_error, action_spec) result)"
    unfolding ra action_of_def prod.case by (elim rbindE)
  from t have "0 < timeout" by (simp add: spec_simps)
  moreover have "commands \<noteq> [] \<and> (\<forall>c \<in> set commands. c \<noteq> [] \<and> text_ok (hd c))"
    using c assms(3) commands_arg_Inr [of _ _ commands] by (auto split: if_splits option.splits)
  ultimately show ?thesis using a by (auto simp: ra)
qed

lemma actions_of_Inr:
  assumes "actions_of v = Inr as"
  shows "map (\<lambda>a. (act_role a, act_action a)) as = ACTIONS"
    "\<forall>a \<in> set as. 0 < act_timeout_s a \<and> act_commands a \<noteq> []
       \<and> (\<forall>c \<in> set (act_commands a). c \<noteq> [] \<and> text_ok (hd c))"
proof -
  from assms obtain obj runner t where
      r: "(if dhas obj ''runner''
            then rbind (argv_arg (dget obj ''runner'') ''evaluation.runner'') (\<lambda>a. Inr (Some a))
            else Inr None) = Inr runner"
      and t: "timeout_arg (dget_default obj ''timeout_s'' (PInt 3600)) ''evaluation.timeout_s'' = Inr t"
      and m: "mapR (action_of obj runner t) ACTIONS = Inr as"
    unfolding actions_of_def by (elim rbindE)
  have r: "\<forall>a. runner = Some a \<longrightarrow> a \<noteq> [] \<and> text_ok (hd a)"
    using r argv_arg_Inr by (auto simp: result_simps split: if_splits)
  have t: "0 < t" using t by (simp add: spec_simps)
  note step = action_of_Inr [OF _ t r, of obj]
  have "map (\<lambda>a. (act_role a, act_action a)) as = ras" if "mapR (action_of obj runner t) ras = Inr as" for ras
    using that by (induction ras arbitrary: as) (auto simp: result_simps dest!: step)
  then show "map (\<lambda>a. (act_role a, act_action a)) as = ACTIONS" using m by simp
  show "\<forall>a \<in> set as. 0 < act_timeout_s a \<and> act_commands a \<noteq> []
       \<and> (\<forall>c \<in> set (act_commands a). c \<noteq> [] \<and> text_ok (hd c))"
    using mapR_set [OF m] step by blast
qed

section \<open>Writing a declaration back\<close>

lemma dget_dict: "dget d k = PDict e \<longleftrightarrow> dlookup d k = Some (PDict e)"
  by (auto simp: dget_default_def split: option.splits)

lemma mapping_arg_dict: "keys d \<subseteq> PStr ` set allowed \<Longrightarrow> mapping_arg (PDict d) w allowed = Inr d"
  by (simp add: spec_simps)

lemma candidate_explicit:
  assumes "candidate_of (PDict c0) = Inr c"
  shows "candidate_of (PDict (explicit_candidate c c0)) = Inr c"
proof -
  define c2 where "c2 = explicit_candidate c c0"
  from assms obtain obj language state initial raws edits entries parsed where
      k: "mapping_arg (PDict c0) ''candidate''
              [''language'', ''initial_state'', ''initial_language'', ''editable'', ''entrypoints'']
            = Inr obj"
      and la: "text_arg (dget obj ''language'') ''candidate.language'' = Inr language"
      and st: "choice_arg (dget_default obj ''initial_state'' (PStr ''implemented''))
              [''implemented'', ''unimplemented''] ''candidate.initial_state'' = Inr state"
      and il: "initial_language obj language state = Inr initial"
      and li: "list_arg (dget obj ''editable'') ''candidate.editable'' = Inr raws"
      and ed: "raws \<noteq> []" "foldR add_edit [] raws = Inr edits"
      and en: "list_arg (dget_default obj ''entrypoints'' (PList [])) ''candidate.entrypoints'' = Inr entries"
        "foldR (add_entry edits) [] entries = Inr parsed"
      and "Inr \<lparr>cand_language = language, cand_initial_state = state,
             cand_initial_language = initial, cand_editable = edits, cand_entrypoints = parsed\<rparr>
           = (Inr c :: (config_error, candidate_spec) result)"
    unfolding candidate_of_def by (elim rbindE if_InlE)
  then have c: "c = \<lparr>cand_language = language, cand_initial_state = state,
      cand_initial_language = initial, cand_editable = edits, cand_entrypoints = parsed\<rparr>"
    by simp
  have obj: "obj = c0" using k by (simp add: spec_simps)
  have same: "dget c2 ''language'' = dget c0 ''language''" "dget c2 ''editable'' = dget c0 ''editable''"
      "dget_default c2 ''entrypoints'' (PList []) = dget_default c0 ''entrypoints'' (PList [])"
      "dget_default c2 ''initial_state'' (PStr ''implemented'') = PStr state"
    by (simp_all add: c2_def explicit_candidate_def c dict_simps Let_def split: option.splits)
  have ch: "choice_arg (PStr state) [''implemented'', ''unimplemented''] ''candidate.initial_state'' = Inr state"
    using st by (simp add: spec_simps)
  have il2: "initial_language c2 language state = Inr initial"
    using il unfolding obj
    by (auto simp: initial_language_def c2_def explicit_candidate_def c Let_def dict_simps result_simps spec_simps
        split: if_splits)
  have "keys c2 \<subseteq> PStr ` set [''language'', ''initial_state'', ''initial_language'', ''editable'', ''entrypoints'']"
    using k by (auto simp: spec_simps c2_def explicit_candidate_def Let_def dict_simps split: option.splits)
  then have k2: "mapping_arg (PDict c2) ''candidate''
              [''language'', ''initial_state'', ''initial_language'', ''editable'', ''entrypoints'']
            = Inr c2"
    by (rule mapping_arg_dict)
  show ?thesis
    using la li en ed st unfolding c2_def [symmetric] candidate_of_def k2 obj
    by (simp add: same ch il2 c spec_simps)
qed

lemma baseline_explicit:
  assumes "baseline_of (PDict b0) c = Inr b"
  shows "baseline_of (PDict (explicit_baseline b b0)) c = Inr b"
proof -
  define b1 where "b1 = explicit_baseline b b0"
  let ?A = "[''kind'', ''language'', ''source_files'', ''correctness_policy'', ''diagnostic_reason'']"
  from assms obtain obj kind language policy reason sources where
      k: "mapping_arg (PDict b0) ''baseline'' ?A = Inr obj"
      and ki: "choice_arg
              (dget_default obj ''kind''
                 (PStr (if cand_initial_state c = ''implemented''
                        then ''initial_candidate'' else ''provided'')))
              [''initial_candidate'', ''provided''] ''baseline.kind'' = Inr kind"
      and no: "\<not> (kind = ''initial_candidate'' \<and> cand_initial_state c = ''unimplemented'')"
      and la: "baseline_language obj = Inr language"
      and po: "choice_arg (dget_default obj ''correctness_policy'' (PStr ''required''))
              [''required'', ''diagnostic''] ''baseline.correctness_policy'' = Inr policy"
      and re: "diagnostic_reason obj policy = Inr reason"
      and so: "paths_arg (dget_default obj ''source_files'' (PList [])) ''baseline.source_files'' = Inr sources"
      and "Inr \<lparr>base_kind = kind, base_language = language, base_source_files = sources,
          base_correctness_policy = policy, base_diagnostic_reason = reason\<rparr>
         = (Inr b :: (config_error, baseline_spec) result)"
    unfolding baseline_of_def by (elim rbindE if_InlE)
  then have b: "b = \<lparr>base_kind = kind, base_language = language, base_source_files = sources,
      base_correctness_policy = policy, base_diagnostic_reason = reason\<rparr>"
    by simp
  have obj: "obj = b0" using k by (simp add: spec_simps)
  have same: "dget_default b1 ''kind'' v = PStr kind" "baseline_language b1 = baseline_language b0"
      "dget_default b1 ''correctness_policy'' v = PStr policy"
      "diagnostic_reason b1 policy = diagnostic_reason b0 policy"
      "dget_default b1 ''source_files'' v = dget_default b0 ''source_files'' v" for v
    by (simp_all add: b1_def explicit_baseline_def b baseline_language_def diagnostic_reason_def dict_simps)
  have "keys b1 \<subseteq> PStr ` set ?A"
    using k by (auto simp: spec_simps b1_def explicit_baseline_def dict_simps)
  then have k2: "mapping_arg (PDict b1) ''baseline'' ?A = Inr b1" by (rule mapping_arg_dict)
  show ?thesis
    using ki no la po re so unfolding b1_def [symmetric] baseline_of_def k2 obj
    by (simp add: same b spec_simps)
qed

lemma raw_action_dsetdefault:
  "k \<noteq> role \<Longrightarrow> k \<noteq> ''task'' \<Longrightarrow> raw_action (dsetdefault e k v) role act = raw_action e role act"
  by (simp add: raw_action_def dget_default_def dict_simps)

lemma actions_explicit:
  assumes "actions_of (PDict e) = Inr as"
  shows "actions_of (PDict (dsetdefault e ''timeout_s'' (PInt 3600))) = Inr as"
proof -
  let ?A = "[''runner'', ''workloads'', ''timeout_s'', ''task'', ''baseline'', ''candidate'']"
  define e' where "e' = dsetdefault e ''timeout_s'' (PInt 3600)"
  have k: "keys e \<subseteq> PStr ` set ?A"
    using assms by (auto simp: actions_of_def rbind_eq_Inr mapping_arg_Inr)
  then have "keys e' \<subseteq> PStr ` set ?A" by (auto simp: e'_def dict_simps)
  from this k have m: "mapping_arg (PDict e) ''evaluation'' ?A = Inr e"
      "mapping_arg (PDict e') ''evaluation'' ?A = Inr e'"
    by (simp_all only: mapping_arg_dict)
  have look: "dlookup e' k = (if k = ''timeout_s'' then Some (dget_default e ''timeout_s'' (PInt 3600))
        else dlookup e k)" for k
    by (simp add: e'_def dict_simps)
  have same: "dhas e' k = dhas e k" "dget_default e' k v = dget_default e k v" if "k \<noteq> ''timeout_s''" for k v
    using that by (simp_all add: dhas_dlookup dget_default_def look)
  have t: "dget_default e' ''timeout_s'' (PInt 3600) = dget_default e ''timeout_s'' (PInt 3600)"
    by (simp add: dget_default_def look)
  have "action_of e' runner n ra = action_of e runner n ra" if "ra \<in> set ACTIONS" for runner n ra
  proof -
    obtain role act where ra: "ra = (role, act)" by (cases ra)
    have "role \<noteq> ''timeout_s''" using that by (auto simp: ACTIONS_def ra)
    then have "raw_action e' role act = raw_action e role act"
      unfolding e'_def by (intro raw_action_dsetdefault) auto
    then show ?thesis by (simp only: action_of_def ra prod.case)
  qed
  then have "mapR (action_of e' runner n) ACTIONS = mapR (action_of e runner n) ACTIONS" for runner n
    by (intro mapR_cong) auto
  then show ?thesis
    using assms unfolding e'_def [symmetric] actions_of_def m by (simp add: same t cong: if_cong)
qed

lemma to_mapping_reads_back:
  assumes "from_mapping config tid = Inr s"
  shows "\<exists>m. to_mapping s = Inr m \<and> from_mapping (PDict m) tid = Inr (s\<lparr>ts_config := m\<rparr>)
    \<and> to_mapping (s\<lparr>ts_config := m\<rparr>) = Inr m"
proof -
  from assms obtain obj where obj: "keys obj \<subseteq> PStr ` set config_fields" "text_ok tid" "relative_ok tid"
      "ts_task_id s = tid" "ts_config s = obj" "dget obj ''schema_version'' = PInt 2"
    and c: "candidate_of (dget obj ''candidate'') = Inr (ts_candidate s)"
    and b: "baseline_of (dget_default obj ''baseline'' (PDict [])) (ts_candidate s) = Inr (ts_baseline s)"
    and a: "actions_of (dget obj ''evaluation'') = Inr (ts_actions s)"
    and o: "optional_fields obj = Inr ()"
    and p: "\<not> touches_protected (cand_editable (ts_candidate s)) (protected_inputs obj)
            (base_source_files (ts_baseline s))"
    by (auto simp: from_mapping_Inr)
  obtain c0 where c0: "dget obj ''candidate'' = PDict c0"
    using c by (auto simp: candidate_of_def rbind_eq_Inr mapping_arg_Inr)
  obtain b0 where b0: "dget_default obj ''baseline'' (PDict []) = PDict b0"
    using b by (auto simp: baseline_of_def rbind_eq_Inr mapping_arg_Inr)
  obtain e0 where e0: "dget obj ''evaluation'' = PDict e0"
    using a by (auto simp: actions_of_def rbind_eq_Inr mapping_arg_Inr)
  define c2 where "c2 = explicit_candidate (ts_candidate s) c0"
  define b2 where "b2 = explicit_baseline (ts_baseline s) b0"
  define e2 where "e2 = dsetdefault e0 ''timeout_s'' (PInt 3600)"
  define obj1 where "obj1 = dsetdefault (dput obj ''candidate'' (PDict c2)) ''baseline'' (PDict [])"
  define m where "m = dput (dput obj1 ''baseline'' (PDict b2)) ''evaluation'' (PDict e2)"
  have i: "dict_item obj ''candidate'' = Inr c0" "dict_item obj1 ''baseline'' = Inr b0"
      "dict_item (dput obj1 ''baseline'' (PDict b2)) ''evaluation'' = Inr e0"
    using c0 b0 e0 by (auto simp: dict_item_def dget_dict obj1_def dict_simps dget_default_def split: option.splits)
  have m1: "to_mapping s = Inr m"
    by (simp add: to_mapping_def obj i Let_def c2_def [symmetric] obj1_def [symmetric]
        b2_def [symmetric] e2_def [symmetric] m_def [symmetric])
  have look: "dlookup m k = (if k = ''evaluation'' then Some (PDict e2) else if k = ''baseline''
      then Some (PDict b2) else if k = ''candidate'' then Some (PDict c2) else dlookup obj k)" for k
    by (simp add: m_def obj1_def dict_simps)
  have same: "dhas m k = dhas obj k" "dget_default m k v = dget_default obj k v"
    if "k \<notin> {''evaluation'', ''baseline'', ''candidate''}" for k v
    using that by (simp_all add: dhas_dlookup dget_default_def look)
  have parts: "dget_default m ''candidate'' v = PDict c2" "dget_default m ''baseline'' v = PDict b2"
      "dget_default m ''evaluation'' v = PDict e2" for v
    by (simp_all add: dget_default_def look)
  have km: "keys m \<subseteq> PStr ` set config_fields"
    using obj(1) by (auto simp: m_def obj1_def dict_simps config_fields_def)
  have om: "optional_fields m = optional_fields obj"
    by (simp add: optional_fields_def same)
  have "dhas e2 ''workloads'' = dhas e0 ''workloads''" "dget e2 ''workloads'' = dget e0 ''workloads''"
    by (simp_all add: e2_def dhas_dlookup dget_default_def dict_simps)
  then have pm: "protected_inputs m = protected_inputs obj"
    by (simp add: protected_inputs_def same parts e0)
  have "candidate_of (PDict c2) = Inr (ts_candidate s)" "baseline_of (PDict b2) (ts_candidate s) = Inr (ts_baseline s)"
      "actions_of (PDict e2) = Inr (ts_actions s)"
    using candidate_explicit baseline_explicit actions_explicit c b a
    by (simp_all add: c0 b0 e0 c2_def b2_def e2_def)
  then have "from_mapping (PDict m) tid = Inr (s\<lparr>ts_config := m\<rparr>)"
    using obj km o p by (simp add: from_mapping_Inr parts om pm same)
  moreover have "to_mapping (s\<lparr>ts_config := m\<rparr>) = Inr m"
  proof -
    have c3: "explicit_candidate (ts_candidate s) c2 = c2" and b3: "explicit_baseline (ts_baseline s) b2 = b2"
      by (simp_all add: c2_def b2_def explicit_candidate_def explicit_baseline_def Let_def dict_simps
          dput_existing split: option.splits)
    have e3: "dsetdefault e2 ''timeout_s'' (PInt 3600) = e2"
      by (simp add: e2_def dsetdefault_def dict_simps)
    have m3: "dput m ''candidate'' (PDict c2) = m" "dput m ''baseline'' (PDict b2) = m"
        "dput m ''evaluation'' (PDict e2) = m"
      by (simp_all add: dput_existing look)
    have "dsetdefault m ''baseline'' v = m" for v
      by (simp add: dsetdefault_def dhas_dlookup look)
    moreover have "dict_item m ''candidate'' = Inr c2" "dict_item m ''baseline'' = Inr b2" "dict_item m ''evaluation'' = Inr e2"
      by (simp_all add: dict_item_def look)
    ultimately show ?thesis by (simp add: to_mapping_def Let_def c3 b3 e3 m3)
  qed
  ultimately show ?thesis using m1 by blast
qed

section \<open>Properties\<close>

definition sample_spec :: task_spec where
  "sample_spec = projr (from_mapping sample_config ''hip/op'')"

lemma sample_spec: "from_mapping sample_config ''hip/op'' = Inr sample_spec"
  unfolding sample_spec_def using sample_config_accepted
  by (cases "from_mapping sample_config ''hip/op''") simp_all

text \<open>
  A path that \<open>relative_path\<close> accepts never leaves the task's root: resolved part by part
  below any directory, with the meaning of \<open>.\<close>, \<open>..\<close> and empty parts, it names a location
  strictly below that directory, and the location determines the path.
\<close>

theorem relative_path_stays_below:
  assumes "relative_path v place = Inr p"
  shows "strict_prefix dir (foldl resolve_part dir (split_on CHR ''/'' p))
    \<and> join_with CHR ''/'' (drop (length dir) (foldl resolve_part dir (split_on CHR ''/'' p))) = p"
  using assms resolve_normal [OF relative_ok_parts]
  by (simp add: relative_path_Inr strict_prefix_def join_split)

lemma relative_path_stays_below_witness:
  "strict_prefix [''work''] (foldl resolve_part [''work''] (split_on CHR ''/'' ''src/a.py''))"
  using relative_path_stays_below [of "PStr ''src/a.py''" "''path''" "''src/a.py''" "[''work'']"]
  by (simp add: relative_path_def text_ok_def relative_ok_def drive_prefix_def starts_with_def strip_def
      py_isspace_def NUL_def)

text \<open>
  C5.  The edit scopes of an accepted task are disjoint: a task-relative path lies in at most
  one of them, although the code compares only the declared paths with each other.
\<close>

theorem edit_scopes_disjoint:
  assumes "from_mapping config task_id = Inr s" and "relative_ok p"
  shows "length (filter (\<lambda>e. contains e p) (cand_editable (ts_candidate s))) \<le> 1"
  using assms candidate_of_Inr(2) disjoint_scopes_at_most_one by (auto simp: from_mapping_Inr)

lemma edit_scopes_disjoint_witness:
  "length (filter (\<lambda>e. contains e ''src/op/launch.hip'') (cand_editable (ts_candidate sample_spec))) \<le> 1"
proof -
  have "relative_ok ''src/op/launch.hip''" by code_simp
  with sample_spec show ?thesis by (rule edit_scopes_disjoint)
qed

text \<open>
  C6.  No edit of an accepted task reaches a protected input: \<open>config.yaml\<close>, \<open>README.md\<close>, every path the
  declaration lists as instructions and the path it names as workloads are in no edit scope at all, and a
  baseline source file is at most in a scope restricted to named symbols.
\<close>

theorem protected_inputs_not_editable:
  assumes "from_mapping (PDict d) task_id = Inr s" and "e \<in> set (cand_editable (ts_candidate s))"
  shows "\<not> contains e ''config.yaml'' \<and> \<not> contains e ''README.md''
    \<and> (dlookup d ''instructions'' = Some (PList vs) \<and> PStr p \<in> set vs \<longrightarrow> \<not> contains e p)
    \<and> (dlookup d ''evaluation'' = Some (PDict ev) \<and> dlookup ev ''workloads'' = Some (PStr p) \<longrightarrow> \<not> contains e p)
    \<and> (p \<in> set (base_source_files (ts_baseline s)) \<and> contains e p \<longrightarrow> es_scope e = ''symbols'')"
proof -
  from assms(1) have t: "\<not> touches_protected (cand_editable (ts_candidate s)) (protected_inputs d) (base_source_files (ts_baseline s))"
    by (auto simp: from_mapping_Inr)
  have no: "\<not> contains e q" if "q \<in> set (protected_inputs d)" for q
    using t assms(2) that by (auto simp: touches_protected_def list_ex_iff)
  have "''config.yaml'' \<in> set (protected_inputs d)" "''README.md'' \<in> set (protected_inputs d)"
    by (simp_all add: protected_inputs_def)
  moreover have "p \<in> set (protected_inputs d)" if "dlookup d ''instructions'' = Some (PList vs) \<and> PStr p \<in> set vs"
    using that by (force simp: protected_inputs_def dget_default_def)
  moreover have "p \<in> set (protected_inputs d)"
    if "dlookup d ''evaluation'' = Some (PDict ev) \<and> dlookup ev ''workloads'' = Some (PStr p)"
    using that by (simp add: protected_inputs_def dget_default_def dhas_dlookup)
  moreover have "es_scope e = ''symbols''" if "p \<in> set (base_source_files (ts_baseline s)) \<and> contains e p"
    using t assms(2) that by (auto simp: touches_protected_def list_ex_iff)
  ultimately show ?thesis using no by blast
qed

lemma protected_inputs_not_editable_witness:
  "\<not> contains (hd (cand_editable (ts_candidate sample_spec))) ''docs/guide.md''
    \<and> \<not> contains (hd (cand_editable (ts_candidate sample_spec))) ''README.md''"
proof -
  obtain d where d: "sample_config = PDict d" by (auto simp: sample_config_def)
  have "hd (cand_editable (ts_candidate sample_spec)) \<in> set (cand_editable (ts_candidate sample_spec))"
    using sample_spec candidate_of_Inr(1) by (auto simp: from_mapping_Inr)
  note p = protected_inputs_not_editable [OF sample_spec [unfolded d] this]
  have "dlookup d ''instructions'' = Some (PList [PStr ''docs/guide.md''])"
    using d by (auto simp: sample_config_def dlookup_def)
  with p [of "[PStr ''docs/guide.md'']" "''docs/guide.md''"] show ?thesis by simp
qed

text \<open>
  Every action of the protocol can be run for an accepted task: looking up each of the
  seven role and action pairs returns that action with a positive timeout and at least one
  command whose program name is a nonblank text, and every other pair is refused.
\<close>

theorem actions_complete:
  assumes "from_mapping config task_id = Inr s"
  shows "if (role, act) \<in> set ACTIONS
    then \<exists>a. select_action s role act = Inr a \<and> act_role a = role \<and> act_action a = act \<and> 0 < act_timeout_s a
           \<and> act_commands a \<noteq> [] \<and> (\<forall>c \<in> set (act_commands a). c \<noteq> [] \<and> text_ok (hd c))
    else select_action s role act = Inl (Refused ''Unsupported task action'')"
proof -
  from assms have "actions_of (dget (ts_config s) ''evaluation'') = Inr (ts_actions s)"
    by (auto simp: from_mapping_Inr)
  note as = actions_of_Inr [OF this]
  have m: "(role, act) \<in> set ACTIONS \<longleftrightarrow> (\<exists>a \<in> set (ts_actions s). act_role a = role \<and> act_action a = act)"
    unfolding as(1) [symmetric] by auto
  show ?thesis
  proof (cases "find (\<lambda>a. act_role a = role \<and> act_action a = act) (ts_actions s)")
    case None
    then have "(role, act) \<notin> set ACTIONS" unfolding m by (auto simp: find_None_iff)
    with None show ?thesis by (simp add: select_action_def)
  next
    case (Some a)
    then have "a \<in> set (ts_actions s)" "act_role a = role" "act_action a = act"
      by (auto simp: find_Some_iff)
    with Some show ?thesis unfolding m using as(2) by (auto simp: select_action_def)
  qed
qed

lemma actions_complete_witness:
  "\<exists>a. select_action sample_spec ''candidate'' ''performance'' = Inr a \<and> 0 < act_timeout_s a"
  using actions_complete [OF sample_spec, of "''candidate''" "''performance''"]
  by (auto simp: ACTIONS_def)

text \<open>
  C7.  A task written back is the same task: \<open>to_mapping\<close> of an accepted specification does
  not fail, reading its result again gives a specification that differs only in the stored
  declaration, whose defaults are now explicit, and writing that one back changes nothing more.
\<close>

theorem to_mapping_round_trip:
  assumes "from_mapping config task_id = Inr s"
  shows "\<exists>m. to_mapping s = Inr m \<and> from_mapping (PDict m) task_id = Inr (s\<lparr>ts_config := m\<rparr>)
    \<and> to_mapping (s\<lparr>ts_config := m\<rparr>) = Inr m"
  by (rule to_mapping_reads_back [OF assms])

lemma to_mapping_round_trip_witness:
  "\<exists>m. to_mapping sample_spec = Inr m
    \<and> from_mapping (PDict m) ''hip/op'' = Inr (sample_spec\<lparr>ts_config := m\<rparr>)"
  using to_mapping_round_trip [OF sample_spec] by blast

end
