(* ===== verification/ParallelQueueProps.thy ===== *)
theory ParallelQueueProps
  imports ParallelQueueFacts TaskSpecFacts
begin

text \<open>
  The properties of the parallel task queue, of the choice of the run and of the platform filter:
  whatever way the worker processes interleave, no task is lost or duplicated, claims are exclusive
  and in order, the run ends, and the verdict accounts for every task.
\<close>

section \<open>The queue under interleaved workers\<close>

definition one_task :: "(string \<times> string) list" where
  "one_task = [(''hip/op'', ''tasks/hip/op/config.yaml'')]"

definition started :: run_state where
  "started = initial_run (\<lambda>_. False) ''20260101_000000'' one_task"

definition scanning :: run_state where
  "scanning = started\<lparr>rs_phase := (rs_phase started)(''0'' := Scanning 0 [''000001_hip_op.yaml''])\<rparr>"

lemma sane_zero: "sane_workers {''0''}"
  by (simp add: sane_workers_def plain_name_def)

lemma scanning_reach: "workers_reach (\<lambda>_. False) ''20260101_000000'' one_task {''0''} scanning"
proof -
  have l: "sort (listing (q_pending (rs_queue started))) = [''000001_hip_op.yaml'']" by code_simp
  have "workers_reach (\<lambda>_. False) ''20260101_000000'' one_task {''0''} started"
    by (rule reach.start) (simp add: started_def)
  moreover have "worker_step {''0''} started scanning"
    unfolding scanning_def l [symmetric] by (rule worker_step.scan) (simp_all add: started_def initial_run_def)
  ultimately show ?thesis by (rule reach.step)
qed

text \<open>
  C22.  The queue neither loses nor duplicates a task: after any interleaving of any workers every
  task of the run, with its index, is in exactly one of the four directories, once.
\<close>

theorem queue_conserves_tasks:
  assumes "workers_reach finished ts tasks ws s" "sane_workers ws"
  shows "mset (map (key \<circ> snd) (entries (rs_queue s))) = mset (keys_of tasks)"
  using workers_inv [OF assms] by (simp add: run_inv_def queue_inv_def)

lemma queue_conserves_tasks_witness:
  "mset (map (key \<circ> snd) (entries (rs_queue scanning))) = mset [(1, ''hip/op'')]"
  using queue_conserves_tasks [OF scanning_reach sane_zero]
  by (simp add: keys_of_def task_keys_def one_task_def)

text \<open>
  C23.  Claims are exclusive: two workers that hold files hold descriptors of different tasks, and
  a held file is in the running directory.
\<close>

theorem claims_are_exclusive:
  assumes "workers_reach finished ts tasks ws s" "sane_workers ws" "w \<in> ws" "v \<in> ws" "w \<noteq> v"
    and "held (rs_phase s w) = Some f" "held (rs_phase s v) = Some g"
  shows "\<exists>x y. map_of (q_running (rs_queue s)) f = Some x \<and> map_of (q_running (rs_queue s)) g = Some y
    \<and> d_index x \<noteq> d_index y"
proof -
  note inv = workers_inv [OF assms(1,2)]
  have q: "queue_inv (keys_of tasks) (rs_queue s)" using inv by (simp add: run_inv_def)
  have "phase_ok (rs_queue s) w (rs_phase s w)" "phase_ok (rs_queue s) v (rs_phase s v)"
    using inv assms(3,4) by (simp_all add: run_inv_def)
  then obtain x y g1 g2 where m: "map_of (q_running (rs_queue s)) f = Some x"
      "map_of (q_running (rs_queue s)) g = Some y" and n: "f = claimed_name w g1" "g = claimed_name v g2"
    using assms(6,7) files_map_of by (fastforce simp: phase_ok_def)
  have "f \<noteq> g" using n claimed_name_inj [of w g1 v g2] assms(2-5) by (auto simp: sane_workers_def plain_name_def)
  moreover have e: "(f, x) \<in> set (q_running (rs_queue s))" "(g, y) \<in> set (q_running (rs_queue s))"
    using m by (auto dest: map_of_SomeD)
  moreover have "inj_on (d_index \<circ> snd) (set (q_running (rs_queue s)))"
    using queue_inv_parts(2) [OF q keys_of_distinct] by (simp add: distinct_map)
  ultimately have "d_index x \<noteq> d_index y" by (fastforce simp: inj_on_def)
  with m show ?thesis by blast
qed

definition two_tasks :: "(string \<times> string) list" where
  "two_tasks = [(''hip/op'', ''tasks/hip/op/config.yaml''), (''hip/up'', ''tasks/hip/up/config.yaml'')]"

text \<open>Two workers list the queue at the same time; the second misses the file the first has taken.\<close>

definition both_scanning :: run_state where
  "both_scanning = (initial_run (\<lambda>_. False) ''20260101_000000'' two_tasks)
     \<lparr>rs_phase := (\<lambda>_. Ready 0)(''0'' := Scanning 0 [''000001_hip_op.yaml'', ''000002_hip_up.yaml''],
        ''1'' := Scanning 0 [''000001_hip_op.yaml'', ''000002_hip_up.yaml''])\<rparr>"

definition both_working :: run_state where
  "both_working =
     \<lparr>rs_queue = the (attempt ''1'' ''000002_hip_up.yaml''
        (the (attempt ''0'' ''000001_hip_op.yaml'' (rs_queue both_scanning)))),
      rs_phase = (\<lambda>_. Ready 0)(''0'' := Working 0 (claimed_name ''0'' ''000001_hip_op.yaml''),
        ''1'' := Working 0 (claimed_name ''1'' ''000002_hip_up.yaml''))\<rparr>"

lemma both_scanning_reach:
  "workers_reach (\<lambda>_. False) ''20260101_000000'' two_tasks {''0'', ''1''} both_scanning"
proof -
  let ?i = "initial_run (\<lambda>_. False) ''20260101_000000'' two_tasks"
  let ?ws = "{''0'', ''1''}"
  let ?l = "[''000001_hip_op.yaml'', ''000002_hip_up.yaml'']"
  have l: "sort (listing (q_pending (rs_queue ?i))) = ?l" by code_simp
  have i: "rs_phase ?i = (\<lambda>_. Ready 0)" by (simp add: initial_run_def)
  let ?s = "?i\<lparr>rs_phase := (\<lambda>_. Ready 0)(''0'' := Scanning 0 ?l)\<rparr>"
  have "worker_step ?ws ?i ?s" using worker_step.scan [of "''0''" ?ws ?i 0] by (simp add: l i)
  moreover have "worker_step ?ws ?s both_scanning"
    using worker_step.scan [of "''1''" ?ws ?s 0] by (simp add: l both_scanning_def)
  moreover have "workers_reach (\<lambda>_. False) ''20260101_000000'' two_tasks ?ws ?i" by (rule reach.start) simp
  ultimately show ?thesis by (blast intro: reach.step)
qed

lemma both_working_reach:
  "workers_reach (\<lambda>_. False) ''20260101_000000'' two_tasks {''0'', ''1''} both_working"
proof -
  let ?a = "''000001_hip_op.yaml''" and ?b = "''000002_hip_up.yaml''" and ?ws = "{''0'', ''1''}"
  let ?q = "the (attempt ''0'' ?a (rs_queue both_scanning))"
  have a: "attempt ''0'' ?a (rs_queue both_scanning) = Some ?q" by code_simp
  have b: "attempt ''1'' ?a ?q = None" by code_simp
  have c: "attempt ''1'' ?b ?q = Some (rs_queue both_working)" by code_simp
  have p: "rs_phase both_scanning = (\<lambda>_. Ready 0)(''0'' := Scanning 0 [?a, ?b], ''1'' := Scanning 0 [?a, ?b])"
    by (simp add: both_scanning_def)
  let ?s = "\<lparr>rs_queue = ?q, rs_phase = (rs_phase both_scanning)(''0'' := Working 0 (claimed_name ''0'' ?a))\<rparr>"
  let ?t = "?s\<lparr>rs_phase := (rs_phase ?s)(''1'' := Scanning 0 [?b])\<rparr>"
  have "worker_step ?ws both_scanning ?s" by (rule worker_step.hit [OF _ _ a]) (simp_all add: p)
  moreover have "worker_step ?ws ?s ?t" by (rule worker_step.miss [of _ _ _ _ ?a]) (simp_all add: p b)
  moreover have "worker_step ?ws ?t both_working"
  proof -
    have "rs_phase ?t ''1'' = Scanning 0 [?b]" by simp
    from worker_step.hit [OF _ this, of ?ws] c
    have "worker_step ?ws ?t \<lparr>rs_queue = rs_queue both_working,
        rs_phase = (rs_phase ?t)(''1'' := Working 0 (claimed_name ''1'' ?b))\<rparr>" by simp
    moreover have "\<lparr>rs_queue = rs_queue both_working,
        rs_phase = (rs_phase ?t)(''1'' := Working 0 (claimed_name ''1'' ?b))\<rparr> = both_working"
      by (simp add: both_working_def p)
    ultimately show ?thesis by simp
  qed
  ultimately show ?thesis by (rule reach.step [OF reach.step [OF reach.step [OF both_scanning_reach]]])
qed

lemma claims_are_exclusive_witness:
  "\<exists>x y. map_of (q_running (rs_queue both_working)) ''worker_0__000001_hip_op.yaml'' = Some x
    \<and> map_of (q_running (rs_queue both_working)) ''worker_1__000002_hip_up.yaml'' = Some y
    \<and> d_index x \<noteq> d_index y"
proof -
  have "sane_workers {''0'', ''1''}" by (simp add: sane_workers_def plain_name_def)
  moreover have "held (rs_phase both_working ''0'') = Some ''worker_0__000001_hip_op.yaml''"
    "held (rs_phase both_working ''1'') = Some ''worker_1__000002_hip_up.yaml''"
    by (simp_all add: both_working_def claimed_name_def)
  ultimately show ?thesis using claims_are_exclusive [OF both_working_reach, of "''0''" "''1''"] by simp
qed

text \<open>
  Tasks are claimed in order: of at most 999999 tasks, a successful claim takes the pending
  task with the least index, even while other workers claim at the same time.
\<close>

theorem claims_least_index:
  assumes "workers_reach finished ts tasks ws s" "sane_workers ws" "w \<in> ws" "length tasks < 10 ^ 6"
    and "rs_phase s w = Scanning n (f # fs)" "attempt w f (rs_queue s) = Some q"
  shows "\<exists>x. map_of (q_pending (rs_queue s)) f = Some x
    \<and> (\<forall>(g, y) \<in> set (q_pending (rs_queue s)). d_index x \<le> d_index y)"
proof -
  note inv = workers_inv [OF assms(1,2)]
  let ?q = "rs_queue s"
  have qi: "queue_inv (keys_of tasks) ?q" using inv by (simp add: run_inv_def)
  have b: "g = base y \<and> d_index y < 10 ^ 6" if "(g, y) \<in> set (q_pending ?q)" for g y
  proof -
    have "key y \<in># mset (map (key \<circ> snd) (entries ?q))" using that by (force simp: entries_def)
    then have "key y \<in># mset (keys_of tasks)" using qi by (simp only: queue_inv_def)
    then have "key y \<in> set (keys_of tasks)" by simp
    then have "d_index y \<in> set (map fst (keys_of tasks))" by (force simp: key_def)
    then have "d_index y \<le> length tasks" unfolding keys_of_fst by auto
    with assms(4) that qi show ?thesis by (auto simp: queue_inv_def)
  qed
  have ok: "sorted (f # fs)" "files (q_pending ?q) \<subseteq> set (f # fs)"
    using inv assms(3,5) by (force simp: run_inv_def phase_ok_def)+
  obtain x where x: "map_of (q_pending ?q) f = Some x"
    using assms(6) by (auto simp: attempt_def split: option.splits)
  have "d_index x \<le> d_index y" if y: "(g, y) \<in> set (q_pending ?q)" for g y
  proof (rule ccontr)
    assume "\<not> d_index x \<le> d_index y"
    then have "base y < base x"
      unfolding base_def using b [OF map_of_SomeD [OF x]] by (intro descriptor_name_order) auto
    moreover have "f \<le> g" using ok y by (force simp: files_def)
    ultimately show False using b [OF y] b [OF map_of_SomeD [OF x]] by auto
  qed
  with x show ?thesis by blast
qed

lemma claims_least_index_witness:
  "\<exists>x. map_of (q_pending (rs_queue scanning)) ''000001_hip_op.yaml'' = Some x
    \<and> (\<forall>(g, y) \<in> set (q_pending (rs_queue scanning)). d_index x \<le> d_index y)"
proof -
  have "attempt ''0'' ''000001_hip_op.yaml'' (rs_queue scanning) \<noteq> None" by code_simp
  then obtain q where "attempt ''0'' ''000001_hip_op.yaml'' (rs_queue scanning) = Some q" by auto
  from claims_least_index [OF scanning_reach sane_zero _ _ _ this] show ?thesis
    by (auto simp: one_task_def scanning_def)
qed

text \<open>
  C24.  The parallel run ends: from every reachable state the number of further steps of all
  workers together is bounded, and the workers can always go on until all of them have stopped.
\<close>

theorem workers_terminate:
  assumes "workers_reach finished ts tasks ws s" "sane_workers ws"
  shows "(\<forall>n t. run (worker_step ws) s n t \<longrightarrow> n \<le> work_left (length tasks) ws s)
    \<and> (\<exists>n t. run (worker_step ws) s n t \<and> (\<forall>w \<in> ws. \<exists>k. rs_phase t w = Stopped k))"
proof
  have l: "length (keys_of tasks) = length tasks" by (simp add: keys_of_def task_keys_def)
  have i: "sane_workers ws \<and> run_inv (keys_of tasks) ws s" using workers_inv [OF assms] assms(2) by blast
  show "\<forall>n t. run (worker_step ws) s n t \<longrightarrow> n \<le> work_left (length tasks) ws s"
    using workers.run_bound [OF _ i] l by fastforce
  show "\<exists>n t. run (worker_step ws) s n t \<and> (\<forall>w \<in> ws. \<exists>k. rs_phase t w = Stopped k)"
    using workers.run_to_end [OF i] worker_progress by metis
qed

lemma workers_terminate_witness:
  "\<exists>n t. run (worker_step {''0''}) scanning n t \<and> (\<exists>k. rs_phase t ''0'' = Stopped k)"
  using workers_terminate [OF scanning_reach sane_zero] by simp

definition stopped :: run_state where
  "stopped = (initial_run (\<lambda>_. True) ''20260101_000000'' one_task)\<lparr>rs_phase := (\<lambda>_. Ready 0)(''0'' := Stopped 0)\<rparr>"

lemma stopped_reach: "workers_reach (\<lambda>_. True) ''20260101_000000'' one_task {''0''} stopped"
proof -
  let ?s = "initial_run (\<lambda>_. True) ''20260101_000000'' one_task"
  have "sort (listing (q_pending (rs_queue ?s))) = []" by code_simp
  then have "worker_step {''0''} ?s (?s\<lparr>rs_phase := (rs_phase ?s)(''0'' := Scanning 0 [])\<rparr>)"
    using worker_step.scan [of "''0''" "{''0''}" ?s 0] by (simp add: initial_run_def)
  moreover have "worker_step {''0''} (?s\<lparr>rs_phase := (rs_phase ?s)(''0'' := Scanning 0 [])\<rparr>) stopped"
    using worker_step.stop [of "''0''" "{''0''}" "?s\<lparr>rs_phase := (rs_phase ?s)(''0'' := Scanning 0 [])\<rparr>" 0]
    by (simp add: stopped_def initial_run_def)
  ultimately show ?thesis by (blast intro: reach.intros)
qed

text \<open>
  C25.  The verdict on a parallel run accounts for every task: when all of at least one worker
  have stopped, nothing is pending or running, the done and failed directories together hold
  exactly the tasks of the run, and the final process exits with 0 precisely when none failed and
  the post-processing gate passed.
\<close>

theorem finished_run_verdict:
  assumes "workers_reach finished ts tasks ws s" "sane_workers ws" "ws \<noteq> {}"
    and "\<forall>w \<in> ws. \<exists>n. rs_phase s w = Stopped n"
  shows "q_pending (rs_queue s) = [] \<and> q_running (rs_queue s) = []
    \<and> mset (map (key \<circ> snd) (q_done (rs_queue s) @ q_failed (rs_queue s))) = mset (keys_of tasks)
    \<and> postprocess_exit_code (rs_queue s) gate = (if q_failed (rs_queue s) = [] \<and> gate then 0 else 1)"
proof -
  note inv = workers_inv [OF assms(1,2)]
  then have q: "queue_inv (keys_of tasks) (rs_queue s)" by (simp add: run_inv_def)
  note e = stopped_queue [OF inv assms(3,4)]
  have "postprocess_exit_code (rs_queue s) gate = (if q_failed (rs_queue s) = [] \<and> gate then 0 else 1)"
    unfolding postprocess_exit_code_def listing_queue [OF q] using e by simp
  with e queue_inv_keys [OF q] show ?thesis by (simp add: entries_def)
qed

lemma finished_run_verdict_witness:
  "mset (map (key \<circ> snd) (q_done (rs_queue stopped) @ q_failed (rs_queue stopped))) = mset (keys_of one_task)"
proof -
  have "\<forall>w \<in> {''0''}. \<exists>n. rs_phase stopped w = Stopped n" by (simp add: stopped_def)
  from finished_run_verdict [OF stopped_reach sane_zero _ this] show ?thesis by blast
qed

text \<open>
  The names of the descriptors sort like the indices of the tasks: below one million, a
  smaller index gives a smaller file name whatever the tasks are called, so the sorted listing a
  worker claims from is the order of the tasks.
\<close>

theorem descriptor_names_sorted:
  assumes "i < j" "j < 10 ^ 6"
  shows "descriptor_name i a < descriptor_name j b"
  by (rule descriptor_name_order [OF assms])

lemma descriptor_names_sorted_witness:
  "descriptor_name 9 ''z'' < descriptor_name 10 ''a''"
  by (rule descriptor_names_sorted) simp_all

section \<open>Runs and platforms\<close>

lemma lower_strip_active: "lower (strip ''active'') = ''active''" "lower (strip ''skip'') = ''skip''"
  by code_simp+

text \<open>
  A task that \<open>from_mapping\<close> accepts never breaks the platform filter: the filter, which
  reads the raw declaration, returns without an error, and it keeps the task exactly when the
  task is not marked as skipped and names no architecture or the present one.
\<close>

theorem platform_filter_total:
  assumes "from_mapping (PDict config) task_id = Inr s"
  shows "\<exists>archs. required_gpu_arches
        (case dget config ''platform_support'' of PDict p \<Rightarrow> Some p | _ \<Rightarrow> None) = Inr archs
    \<and> should_run_task_for_platform config arch =
        Inr (\<not> (case dget config ''platform_support'' of PDict p \<Rightarrow> dget p ''status'' = PStr ''skip'' | _ \<Rightarrow> False)
             \<and> (archs = [] \<or> (\<exists>a. arch = Some a \<and> a \<noteq> [] \<and> a \<in> set archs)))"
proof (cases "dhas config ''platform_support''")
  case False
  then have "dget config ''platform_support'' = PNone"
    by (simp add: dget_default_def dhas_dlookup)
  then show ?thesis by (simp add: should_run_task_for_platform_def required_gpu_arches_def)
next
  case True
  from assms have "optional_fields config = Inr ()" by (auto simp: from_mapping_Inr)
  then obtain u where "check_if (dhas config ''platform_support'')
      (check_platform (dget config ''platform_support'')) = Inr u"
    unfolding optional_fields_def by (elim rbindE)
  with True obtain p archs st where p: "dget config ''platform_support'' = PDict p"
      and r: "required_gpu_arches (Some p) = Inr archs"
      and st: "dget_default p ''status'' (PStr ''active'') = PStr st" "st = ''active'' \<or> st = ''skip''"
    by (auto simp: check_if_def check_platform_def result_simps spec_simps)
  have "(dget p ''status'' = PStr ''skip'') = (st = ''skip'')"
    using st(1) by (auto simp: dget_default_def split: option.splits)
  moreover have "skips p = (st = ''skip'')"
    using st by (auto simp: skips_def lower_strip_active)
  ultimately show ?thesis using p r
    by (auto simp: should_run_task_for_platform_def split: option.splits)
qed

lemma platform_filter_total_witness:
  "\<exists>b. should_run_task_for_platform (ts_config sample_spec) None = Inr b"
proof -
  have "sample_config = PDict (ts_config sample_spec)" using sample_spec by (auto simp: from_mapping_Inr)
  then have "from_mapping (PDict (ts_config sample_spec)) ''hip/op'' = Inr sample_spec" using sample_spec by simp
  from platform_filter_total [OF this, of None] show ?thesis by blast
qed

text \<open>
  C26.  Resuming a fresh run by its name (\<open>--run-name\<close>) finds the same run: the name a fresh run gets from a
  well-formed time and a valid suffix is read back as that time, in resume mode, and its suffix
  is the one the log files use.
\<close>

theorem fresh_run_resumes:
  assumes "timestamp_ok now" "validate_run_suffix (run_suffix args)"
    and "\<not> given (run_name args)" "\<not> given (resume_run args)" "\<not> resume_latest args"
  shows "\<exists>c dirs'. resolve_run args dirs now = Some (c, dirs') \<and> \<not> resume_mode c
    \<and> resolve_run (args\<lparr>run_name := Some (chosen_name c)\<rparr>) dirs' later = Some (c\<lparr>resume_mode := True\<rparr>, dirs')
    \<and> run_suffix_from_name (chosen_name c) =
        (case run_suffix args of None \<Rightarrow> [] | Some x \<Rightarrow> CHR ''_'' # x)"
proof -
  let ?n = "fresh_run_name (run_suffix args) now"
  have l: "length now = 15" using assms(1) by (simp add: timestamp_ok_def)
  have t: "extract_timestamp ?n = Some now"
    using assms(1) l by (simp add: extract_timestamp_def fresh_run_name_def starts_with_def Let_def)
  have "run_suffix_from_name ?n = (case run_suffix args of None \<Rightarrow> [] | Some x \<Rightarrow> CHR ''_'' # x)"
  proof (cases "run_suffix args")
    case None
    then show ?thesis using t l
      by (simp add: run_suffix_from_name_def fresh_run_name_def given_def drop_final_newline_def)
  next
    case (Some x)
    then have x: "suffix_text x" "x \<noteq> []" using assms(2) by (auto simp: validate_run_suffix_def suffix_text_def)
    then have "suffix_char (last x)" by (simp add: suffix_text_def list_all_iff)
    then have "last x \<noteq> CHR 0x0A" by (auto simp: suffix_char_def is_alpha_def is_digit_def)
    then show ?thesis using t l x Some
      by (simp add: run_suffix_from_name_def fresh_run_name_def given_def drop_final_newline_def)
  qed
  moreover have "given (Some ?n)" by (simp add: given_def fresh_run_name_def)
  ultimately show ?thesis using t assms(3-5)
    by (auto simp: resolve_run_def choose_run_def Let_def)
qed

lemma fresh_run_resumes_witness:
  "\<exists>c. resolve_run \<lparr>run_name = None, resume_run = None, resume_latest = False, run_suffix = Some ''hip''\<rparr> []
      ''20260101_000000'' = Some c"
proof -
  let ?a = "\<lparr>run_name = None, resume_run = None, resume_latest = False, run_suffix = Some ''hip''\<rparr>"
  have "timestamp_ok ''20260101_000000''" "validate_run_suffix (run_suffix ?a)"
      "\<not> given (run_name ?a)" "\<not> given (resume_run ?a)" "\<not> resume_latest ?a"
    by code_simp+
  from fresh_run_resumes [OF this, of "[]"] show ?thesis by blast
qed

text \<open>
  C27.  Exactly which tasks of a run share a workspace: those whose names are alike but for positions where
  each has a slash or an underscore.  The sanitized name therefore does not determine the task.
\<close>

theorem workspace_names_collide:
  "task_workspace_name a ts = task_workspace_name b ts
   \<longleftrightarrow> list_all2 (\<lambda>x y. x = y \<or> {x, y} \<subseteq> {CHR ''/'', CHR ''_''}) a b"
proof -
  have "map (\<lambda>c. if c = CHR ''/'' then CHR ''_'' else c) a = map (\<lambda>c. if c = CHR ''/'' then CHR ''_'' else c) b
      \<longleftrightarrow> list_all2 (\<lambda>x y. x = y \<or> {x, y} \<subseteq> {CHR ''/'', CHR ''_''}) a b"
  proof (induction a arbitrary: b)
    case (Cons x xs)
    then show ?case by (cases b) auto
  qed auto
  then show ?thesis by (simp add: task_workspace_name_def sanitize_task_name_def replace_char_def)
qed

end
