(* ===== verification/PyBuiltins.thy ===== *)
theory PyBuiltins
  imports PyValue "HOL-Library.AList"
begin

text \<open>
  The Python builtins the evaluation tools apply to values of any type: \<open>str\<close> and
  \<open>repr\<close>, \<open>int\<close>, iteration, \<open>dict\<close>, subscripts, \<open>sorted(set(...))\<close>, and lookup in a string
  enumeration.  An exception is a value of \<open>py_exc\<close>.
\<close>

named_theorems builtin_simps \<open>evaluation of builtins on values of a known type\<close>

section \<open>\<open>repr\<close> and \<open>str\<close>\<close>

fun join_by :: "string \<Rightarrow> string list \<Rightarrow> string" where
  "join_by s [] = []"
| "join_by s [x] = x"
| "join_by s (x # y # zs) = x @ s @ join_by s (y # zs)"

function pos_digits :: "int \<Rightarrow> string" where
  "pos_digits k =
     (if k < 10 then [char_of (48 + nat k)]
      else pos_digits (k div 10) @ [char_of (48 + nat (k mod 10))])"
  by pat_completeness auto
termination
  by (relation "measure nat") auto

declare pos_digits.simps [simp del]

definition int_digits :: "int \<Rightarrow> string" where
  "int_digits k = (if k < 0 then CHR ''-'' # pos_digits (- k) else pos_digits k)"

text \<open>
  \<open>repr\<close> of a float: the shortest decimal digits that round back to it, the nearest of these.
  \<open>log10_floor\<close> is the exponent of the leading digit.
\<close>

definition log10_floor :: "rat \<Rightarrow> int" where
  "log10_floor a =
     (if 1 \<le> a then int (length (pos_digits \<lfloor>a\<rfloor>)) - 1
      else - int (length (pos_digits (\<lceil>1 / a\<rceil> - 1))))"

definition decimal_candidate :: "rat \<Rightarrow> nat \<Rightarrow> (int \<times> int) option" where
  "decimal_candidate a n =
     (let x = log10_floor a - int n + 1;
          scaled = a / pow10 x;
          ok = (\<lambda>c. round64 (of_int c * pow10 x) = Fin a);
          lo = \<lfloor>scaled\<rfloor>; hi = \<lceil>scaled\<rceil>; near = rne scaled
      in if ok near then Some (near, x) else if ok lo then Some (lo, x)
         else if ok hi then Some (hi, x) else None)"

fun first_some :: "('a \<Rightarrow> 'b option) \<Rightarrow> 'a list \<Rightarrow> 'b option" where
  "first_some f [] = None"
| "first_some f (x # xs) = (case f x of Some y \<Rightarrow> Some y | None \<Rightarrow> first_some f xs)"

text \<open>The digits without trailing zeros, and the position of the decimal point.\<close>

definition shortest_decimal :: "rat \<Rightarrow> string \<times> int" where
  "shortest_decimal a =
     (case first_some (decimal_candidate a) [1..<18] of
        None \<Rightarrow> (''0'', 1)
      | Some (c, x) \<Rightarrow>
          let ds = pos_digits c in
          (rev (dropWhile (\<lambda>d. d = CHR ''0'') (rev ds)), int (length ds) + x))"

definition zeros :: "int \<Rightarrow> string" where
  "zeros n = replicate (nat n) CHR ''0''"

definition float_text :: "rat \<Rightarrow> string" where
  "float_text a =
     (let (ds, point) = shortest_decimal a; m = int (length ds) in
      if - 4 < point \<and> point \<le> 16 then
        (if point \<le> 0 then ''0.'' @ zeros (- point) @ ds
         else if m \<le> point then ds @ zeros (point - m) @ ''.0''
         else take (nat point) ds @ ''.'' @ drop (nat point) ds)
      else
        let e = point - 1; xs = pos_digits \<bar>e\<bar> in
        take 1 ds @ (if 1 < m then CHR ''.'' # drop 1 ds else []) @
        ''e'' @ (if e < 0 then ''-'' else ''+'') @ zeros (2 - int (length xs)) @ xs)"

fun float_repr :: "pyfloat \<Rightarrow> string" where
  "float_repr (Fin q) = (if q = 0 then ''0.0'' else if q < 0 then CHR ''-'' # float_text (- q) else float_text q)"
| "float_repr NegZero = ''-0.0''"
| "float_repr PInf = ''inf''"
| "float_repr NInf = ''-inf''"
| "float_repr NaN = ''nan''"

definition hex_digit :: "nat \<Rightarrow> char" where
  "hex_digit n = char_of (if n < 10 then 48 + n else 87 + n)"

text \<open>One character of a quoted string, on the code points below 256.\<close>

definition repr_char :: "char \<Rightarrow> char \<Rightarrow> string" where
  "repr_char q c =
     (let n = (of_char c :: nat) in
      if c = q \<or> n = 92 then [CHR 0x5C, c]
      else if n = 9 then [CHR 0x5C, CHR ''t''] else if n = 10 then [CHR 0x5C, CHR ''n'']
      else if n = 13 then [CHR 0x5C, CHR ''r'']
      else if n < 32 \<or> (127 \<le> n \<and> n \<le> 160) \<or> n = 173
        then [CHR 0x5C, CHR ''x'', hex_digit (n div 16), hex_digit (n mod 16)]
      else [c])"

definition str_repr :: "string \<Rightarrow> string" where
  "str_repr s =
     (let q = (if CHR 0x27 \<in> set s \<and> CHR 0x22 \<notin> set s then CHR 0x22 else CHR 0x27)
      in q # concat (map (repr_char q) s) @ [q])"

fun py_repr :: "pyval \<Rightarrow> string" where
  "py_repr PNone = ''None''"
| "py_repr (PBool b) = (if b then ''True'' else ''False'')"
| "py_repr (PInt k) = int_digits k"
| "py_repr (PFloat f) = float_repr f"
| "py_repr (PStr s) = str_repr s"
| "py_repr (PList xs) = ''['' @ join_by '', '' (map py_repr xs) @ '']''"
| "py_repr (PDict d) =
     ''{'' @ join_by '', '' (map (\<lambda>kv. py_repr (fst kv) @ '': '' @ py_repr (snd kv)) d) @ ''}''"

fun py_str :: "pyval \<Rightarrow> string" where
  "py_str (PStr s) = s"
| "py_str v = py_repr v"

section \<open>\<open>int\<close>\<close>

definition digit_value :: "char \<Rightarrow> nat option" where
  "digit_value c =
     (let n = (of_char c :: nat) in
      if 48 \<le> n \<and> n \<le> 57 then Some (n - 48) else if 97 \<le> n \<and> n \<le> 122 then Some (n - 87)
      else if 65 \<le> n \<and> n \<le> 90 then Some (n - 55) else None)"

text \<open>Digits of a base, with single underscores between them.\<close>

definition digits_in :: "nat \<Rightarrow> string \<Rightarrow> int option" where
  "digits_in base s =
     (let parts = split_on CHR ''_'' s;
          vals = map digit_value (concat parts)
      in if [] \<in> set parts \<or> list_ex (\<lambda>v. case v of None \<Rightarrow> True | Some d \<Rightarrow> base \<le> d) vals then None
         else Some (foldl (\<lambda>n v. int base * n + int (the v)) 0 vals))"

definition too_many_digits :: "string \<Rightarrow> bool" where
  "too_many_digits s = (4300 < length (filter (\<lambda>c. c \<noteq> CHR ''_'') s))"

text \<open>\<open>int(s)\<close> and \<open>int(s, 0)\<close>; \<open>None\<close> is \<open>ValueError\<close>.\<close>

definition negate_if :: "bool \<Rightarrow> int \<Rightarrow> int" where
  "negate_if neg k = (if neg then - k else k)"

definition int_of_string :: "string \<Rightarrow> int option" where
  "int_of_string s =
     (let (neg, r) = take_sign (strip s) in
      if too_many_digits r then None else map_option (negate_if neg) (digits_in 10 r))"

definition prefix_base :: "string \<Rightarrow> (nat \<times> string) option" where
  "prefix_base r =
     (case r of z # p # ds \<Rightarrow>
        if z \<noteq> CHR ''0'' then None
        else let ds' = (case ds of u # us \<Rightarrow> if u = CHR ''_'' then us else ds | [] \<Rightarrow> []) in
          if p \<in> {CHR ''x'', CHR ''X''} then Some (16, ds')
          else if p \<in> {CHR ''o'', CHR ''O''} then Some (8, ds')
          else if p \<in> {CHR ''b'', CHR ''B''} then Some (2, ds') else None
      | _ \<Rightarrow> None)"

definition int_of_literal :: "string \<Rightarrow> int option" where
  "int_of_literal s =
     (let (neg, r) = take_sign (strip s) in
      case prefix_base r of
        Some (b, ds) \<Rightarrow> map_option (negate_if neg) (digits_in b ds)
      | None \<Rightarrow>
          if too_many_digits r then None
          else case digits_in 10 r of None \<Rightarrow> None
          | Some k \<Rightarrow> if r \<noteq> [] \<and> hd r = CHR ''0'' \<and> k \<noteq> 0 then None else Some (negate_if neg k))"

definition truncate_float :: "pyfloat \<Rightarrow> (py_exc, int) result" where
  "truncate_float f =
     (case f of NaN \<Rightarrow> Inl ValueErr | PInf \<Rightarrow> Inl OverflowErr | NInf \<Rightarrow> Inl OverflowErr
      | _ \<Rightarrow> Inr (if fval f < 0 then - \<lfloor>- fval f\<rfloor> else \<lfloor>fval f\<rfloor>))"

fun py_int :: "pyval \<Rightarrow> (py_exc, int) result" where
  "py_int (PBool b) = Inr (if b then 1 else 0)"
| "py_int (PInt k) = Inr k"
| "py_int (PFloat f) = truncate_float f"
| "py_int (PStr s) = (case int_of_string s of None \<Rightarrow> Inl ValueErr | Some k \<Rightarrow> Inr k)"
| "py_int _ = Inl TypeErr"

section \<open>Containers\<close>

text \<open>Iteration: the elements of a list, the characters of a string, the keys of a dictionary.\<close>

fun py_iter :: "pyval \<Rightarrow> (py_exc, pyval list) result" where
  "py_iter (PList xs) = Inr xs"
| "py_iter (PStr s) = Inr (map (\<lambda>c. PStr [c]) s)"
| "py_iter (PDict d) = Inr (map fst d)"
| "py_iter _ = Inl TypeErr"

text \<open>\<open>tuple(v or ())\<close>.\<close>

definition tuple_or_empty :: "pyval \<Rightarrow> (py_exc, pyval list) result" where
  "tuple_or_empty v = (if truthy v then py_iter v else Inr [])"

text \<open>\<open>d[k] = v\<close> for a key of any hashable type: an equal key is kept.\<close>

fun dset :: "pydict \<Rightarrow> pyval \<Rightarrow> pyval \<Rightarrow> pydict" where
  "dset [] k v = [(k, v)]"
| "dset ((k', v') # d) k v = (if py_eq k' k then (k', v) # d else (k', v') # dset d k v)"

text \<open>\<open>dict(v or {})\<close>: of a mapping, or of pairs.\<close>

definition add_pair :: "pydict \<Rightarrow> pyval \<Rightarrow> (py_exc, pydict) result" where
  "add_pair d item =
     rbind (py_iter item) (\<lambda>xs.
       case xs of [k, v] \<Rightarrow> if hashable k then Inr (dset d k v) else Inl TypeErr
       | _ \<Rightarrow> Inl ValueErr)"

definition dict_or_empty :: "pyval \<Rightarrow> (py_exc, pydict) result" where
  "dict_or_empty v =
     (if \<not> truthy v then Inr []
      else case v of PDict d \<Rightarrow> Inr d | _ \<Rightarrow> rbind (py_iter v) (foldR add_pair []))"

text \<open>\<open>{str(k): str(v) for k, v in (v or {}).items()}\<close>.\<close>

definition str_items :: "pyval \<Rightarrow> (py_exc, (string \<times> string) list) result" where
  "str_items v =
     (if \<not> truthy v then Inr []
      else case v of
        PDict d \<Rightarrow> Inr (fold (\<lambda>(k, x) acc. AList.update (py_str k) (py_str x) acc) d [])
      | _ \<Rightarrow> Inl AttributeErr)"

text \<open>\<open>v[k]\<close> and \<open>v.get(k, w)\<close> for a string \<open>k\<close>.\<close>

definition subscript :: "pyval \<Rightarrow> string \<Rightarrow> (py_exc, pyval) result" where
  "subscript v k =
     (case v of PDict d \<Rightarrow> (case dlookup d k of None \<Rightarrow> Inl KeyErr | Some x \<Rightarrow> Inr x)
      | _ \<Rightarrow> Inl TypeErr)"

definition attr_get :: "pyval \<Rightarrow> string \<Rightarrow> pyval \<Rightarrow> (py_exc, pyval) result" where
  "attr_get v k w = (case v of PDict d \<Rightarrow> Inr (dget_default d k w) | _ \<Rightarrow> Inl AttributeErr)"

text \<open>
  \<open>sorted(set(v))\<close>: the first of equal elements stays; more than one element must be all
  strings or all numbers (NaN, whose place is unspecified, apart).
\<close>

definition same_kind :: "pyval list \<Rightarrow> bool" where
  "same_kind xs = (length xs < 2 \<or> list_all is_str xs \<or> list_all (\<lambda>x. numeric x \<noteq> None) xs)"

fun value_less :: "pyval \<Rightarrow> pyval \<Rightarrow> bool" where
  "value_less (PStr s) (PStr t) = (s < t)"
| "value_less x y = (case (numeric x, numeric y) of (Some f, Some g) \<Rightarrow> flt f g | _ \<Rightarrow> False)"

fun insert_value :: "pyval \<Rightarrow> pyval list \<Rightarrow> pyval list" where
  "insert_value x [] = [x]"
| "insert_value x (y # ys) =
     (if py_eq y x then y # ys else if value_less x y then x # y # ys else y # insert_value x ys)"

definition sorted_set :: "pyval list \<Rightarrow> (py_exc, pyval list) result" where
  "sorted_set xs =
     (if \<not> list_all hashable xs then Inl TypeErr
      else let distinct_values = foldl (\<lambda>acc x. if list_ex (\<lambda>y. py_eq y x) acc then acc else acc @ [x]) [] xs in
        if same_kind distinct_values then Inr (foldl (\<lambda>acc x. insert_value x acc) [] distinct_values)
        else Inl TypeErr)"

section \<open>String enumerations\<close>

text \<open>\<open>_enum_value\<close>: an enumeration member of the text of a value, without case or outer blanks.\<close>

definition enum_value :: "('a \<times> string) list \<Rightarrow> pyval \<Rightarrow> (py_exc, 'a) result" where
  "enum_value members v =
     (case find (\<lambda>m. snd m = lower (strip (py_str v))) members of
        Some (m, _) \<Rightarrow> Inr m | None \<Rightarrow> Inl ValueErr)"

end
