(* ===== verification/EvalContracts.thy ===== *)
theory EvalContracts
  imports PyBuiltins TaskSpec
begin

text \<open>
  \<open>src/eval_tools/contracts.py\<close>: the values that cross the boundaries of the evaluation tools.
  Every frozen dataclass is a record; its \<open>__post_init__\<close> is the function \<open>mk_\<close>... that checks
  and normalizes the fields, \<open>to_dict\<close> and \<open>from_dict\<close> are functions on Python values.  A member
  of a string enumeration is a \<open>str\<close>, so an untyped argument that may be a member or a text is
  the text.  Fields the code leaves unchecked hold any Python value.
\<close>

named_theorems contract_simps \<open>construction of the contract records\<close>

section \<open>Enumerations\<close>

datatype tool_name =
    TRITON_FPSAN | GPU_ASAN | ROCJITSU | ROCJITSU_WAITCHECK | ROCJITSU_CONSAN | HIP_FPSAN
datatype kernel_language = TRITON | HIP | FLYDSL | UNKNOWN_LANGUAGE
datatype artifact_kind = SOURCE_AOT | PYTHON_JIT | HSACO_PRECOMPILED | UNKNOWN_ARTIFACT
datatype instrumentation_control = COMPILER_CONTROLLED | RECOMPILE | NO_CONTROL | UNKNOWN_CONTROL
datatype capability_state =
    READY | ADAPTER_REQUIRED | UNSUPPORTED | NOT_APPLICABLE | UNAVAILABLE_RUNTIME
datatype execution_status = NOT_RUN | COMPLETED | TOOL_ERROR | TIMEOUT
datatype finding_status = NOT_EVALUATED | CLEAN | FOUND | INCONCLUSIVE
datatype finding_severity = INFO | WARNING | ERROR
datatype evaluation_policy = ADVISORY | REQUIRED

definition tool_names :: "(tool_name \<times> string) list" where
  "tool_names =
     [(TRITON_FPSAN, ''triton_fpsan''), (GPU_ASAN, ''gpu_asan''), (ROCJITSU, ''rocjitsu''),
      (ROCJITSU_WAITCHECK, ''rocjitsu_waitcheck''), (ROCJITSU_CONSAN, ''rocjitsu_consan''),
      (HIP_FPSAN, ''hip_fpsan'')]"

definition kernel_languages :: "(kernel_language \<times> string) list" where
  "kernel_languages =
     [(TRITON, ''triton''), (HIP, ''hip''), (FLYDSL, ''flydsl''), (UNKNOWN_LANGUAGE, ''unknown'')]"

definition artifact_kinds :: "(artifact_kind \<times> string) list" where
  "artifact_kinds =
     [(SOURCE_AOT, ''source_aot''), (PYTHON_JIT, ''python_jit''),
      (HSACO_PRECOMPILED, ''hsaco_precompiled''), (UNKNOWN_ARTIFACT, ''unknown'')]"

definition instrumentation_controls :: "(instrumentation_control \<times> string) list" where
  "instrumentation_controls =
     [(COMPILER_CONTROLLED, ''compiler_controlled''), (RECOMPILE, ''recompile''),
      (NO_CONTROL, ''none''), (UNKNOWN_CONTROL, ''unknown'')]"

definition capability_states :: "(capability_state \<times> string) list" where
  "capability_states =
     [(READY, ''ready''), (ADAPTER_REQUIRED, ''adapter_required''), (UNSUPPORTED, ''unsupported''),
      (NOT_APPLICABLE, ''not_applicable''), (UNAVAILABLE_RUNTIME, ''unavailable_runtime'')]"

definition execution_statuses :: "(execution_status \<times> string) list" where
  "execution_statuses =
     [(NOT_RUN, ''not_run''), (COMPLETED, ''completed''), (TOOL_ERROR, ''tool_error''),
      (TIMEOUT, ''timeout'')]"

definition finding_statuses :: "(finding_status \<times> string) list" where
  "finding_statuses =
     [(NOT_EVALUATED, ''not_evaluated''), (CLEAN, ''clean''), (FOUND, ''found''),
      (INCONCLUSIVE, ''inconclusive'')]"

definition finding_severities :: "(finding_severity \<times> string) list" where
  "finding_severities = [(INFO, ''info''), (WARNING, ''warning''), (ERROR, ''error'')]"

definition evaluation_policies :: "(evaluation_policy \<times> string) list" where
  "evaluation_policies = [(ADVISORY, ''advisory''), (REQUIRED, ''required'')]"

text \<open>The \<open>value\<close> of a member.\<close>

definition text_of :: "('a \<times> string) list \<Rightarrow> 'a \<Rightarrow> string" where
  "text_of members m = (case map_of members m of Some s \<Rightarrow> s | None \<Rightarrow> [])"

abbreviation member :: "('a \<times> string) list \<Rightarrow> 'a \<Rightarrow> pyval" where
  "member members m \<equiv> PStr (text_of members m)"

section \<open>Shared conversions\<close>

text \<open>\<open>_tool_value\<close> on the text of its argument.\<close>

definition tool_value :: "string \<Rightarrow> (py_exc, string) result" where
  "tool_value s =
     (let name = replace_char CHR ''-'' CHR ''_'' (lower (strip s)) in
      if name = [] then Inl ValueErr else Inr name)"

definition string_tuple :: "pyval \<Rightarrow> (py_exc, string list) result" where
  "string_tuple v =
     (case v of PNone \<Rightarrow> Inr [] | PStr s \<Rightarrow> Inr [s]
      | _ \<Rightarrow> rbind (py_iter v) (\<lambda>xs. Inr (map py_str xs)))"

text \<open>\<open>_plain\<close>: later entries with the same text as key win.\<close>

definition dict_of :: "(string \<times> pyval) list \<Rightarrow> pydict" where
  "dict_of kvs = foldl (\<lambda>d (k, v). dput d k v) [] kvs"

fun plain :: "pyval \<Rightarrow> pyval" where
  "plain (PDict d) = PDict (dict_of (map (\<lambda>kv. (py_str (fst kv), plain (snd kv))) d))"
| "plain (PList xs) = PList (map plain xs)"
| "plain v = v"

abbreviation strings :: "string list \<Rightarrow> pyval" where
  "strings xs \<equiv> PList (map PStr xs)"

definition when_present :: "bool \<Rightarrow> string \<Rightarrow> pyval \<Rightarrow> pydict" where
  "when_present b k v = (if b then [(PStr k, v)] else [])"

fun opt_text :: "string option \<Rightarrow> pyval" where
  "opt_text None = PNone"
| "opt_text (Some s) = PStr s"

definition env_dict :: "(string \<times> string) list \<Rightarrow> pyval" where
  "env_dict e = PDict (map (\<lambda>(k, v). (PStr k, PStr v)) e)"

text \<open>\<open>str(Path(p).absolute())\<close> in the working directory \<open>cwd\<close>, whose own path starts at the root.\<close>

definition path_text :: "string \<times> string list \<Rightarrow> string" where
  "path_text p = (let t = fst p @ join_with CHR ''/'' (snd p) in if t = [] then ''.'' else t)"

definition absolute_path :: "string \<Rightarrow> string \<Rightarrow> string" where
  "absolute_path cwd p =
     (let q = posix_path p in
      path_text (if fst q \<noteq> [] then q else (''/'', snd (posix_path cwd) @ snd q)))"

section \<open>Capabilities\<close>

record capability_check =
  cc_state :: capability_state
  cc_reason_code :: pyval
  cc_detail :: pyval
  cc_evidence :: pydict

definition mk_capability_check ::
    "pyval \<Rightarrow> pyval \<Rightarrow> pyval \<Rightarrow> pyval \<Rightarrow> (py_exc, capability_check) result" where
  "mk_capability_check state reason_code detail evidence =
     rbind (enum_value capability_states state) (\<lambda>s.
     rbind (dict_or_empty evidence) (\<lambda>e.
     Inr \<lparr>cc_state = s, cc_reason_code = reason_code, cc_detail = detail, cc_evidence = e\<rparr>))"

text \<open>\<open>CapabilityCheck.ready\<close> and \<open>CapabilityCheck.blocked\<close>.\<close>

definition ready_check :: "pydict \<Rightarrow> capability_check" where
  "ready_check evidence =
     \<lparr>cc_state = READY, cc_reason_code = PNone, cc_detail = PNone, cc_evidence = evidence\<rparr>"

definition blocked_check ::
    "capability_state \<Rightarrow> string \<Rightarrow> pyval \<Rightarrow> pydict \<Rightarrow> (py_exc, capability_check) result" where
  "blocked_check state reason_code detail evidence =
     (if state = READY then Inl ValueErr
      else Inr \<lparr>cc_state = state, cc_reason_code = PStr reason_code, cc_detail = detail,
                cc_evidence = evidence\<rparr>)"

definition check_to_dict :: "capability_check \<Rightarrow> pyval" where
  "check_to_dict c = PDict
     ([(PStr ''state'', member capability_states (cc_state c))]
      @ when_present (truthy (cc_reason_code c)) ''reason_code'' (cc_reason_code c)
      @ when_present (truthy (cc_detail c)) ''detail'' (cc_detail c)
      @ when_present (cc_evidence c \<noteq> []) ''evidence'' (plain (PDict (cc_evidence c))))"

definition check_from_dict :: "pyval \<Rightarrow> (py_exc, capability_check) result" where
  "check_from_dict data =
     rbind (subscript data ''state'') (\<lambda>state.
     rbind (attr_get data ''reason_code'' PNone) (\<lambda>reason.
     rbind (attr_get data ''detail'' PNone) (\<lambda>detail.
     rbind (attr_get data ''evidence'' PNone) (\<lambda>evidence.
     mk_capability_check state reason detail (py_or evidence (PDict []))))))"

definition capability_precedence :: "capability_state list" where
  "capability_precedence = [NOT_APPLICABLE, UNSUPPORTED, ADAPTER_REQUIRED, UNAVAILABLE_RUNTIME]"

text \<open>The two loops of \<open>effective_capability\<close>: states outside, checks inside.\<close>

definition effective_capability ::
    "capability_check \<Rightarrow> capability_check \<Rightarrow> capability_check \<Rightarrow> capability_check" where
  "effective_capability engine adapter runtime =
     (case first_some (\<lambda>state. find (\<lambda>check. cc_state check = state) [engine, adapter, runtime])
             capability_precedence of
        Some check \<Rightarrow> check
      | None \<Rightarrow> ready_check [])"

record tool_capability =
  tc_tool :: string
  tc_engine :: capability_check
  tc_adapter :: capability_check
  tc_runtime :: capability_check
  tc_effective :: capability_check

definition mk_tool_capability ::
    "string \<Rightarrow> capability_check \<Rightarrow> capability_check \<Rightarrow> capability_check \<Rightarrow> capability_check option
     \<Rightarrow> (py_exc, tool_capability) result" where
  "mk_tool_capability tool engine adapter runtime effective =
     rbind (tool_value tool) (\<lambda>name.
     Inr \<lparr>tc_tool = name, tc_engine = engine, tc_adapter = adapter, tc_runtime = runtime,
          tc_effective = (case effective of Some c \<Rightarrow> c
                          | None \<Rightarrow> effective_capability engine adapter runtime)\<rparr>)"

definition capability_ready :: "tool_capability \<Rightarrow> bool" where
  "capability_ready c = (cc_state (tc_effective c) = READY)"

definition capability_to_dict :: "tool_capability \<Rightarrow> pyval" where
  "capability_to_dict c = PDict
     [(PStr ''tool'', PStr (tc_tool c)), (PStr ''engine'', check_to_dict (tc_engine c)),
      (PStr ''adapter'', check_to_dict (tc_adapter c)), (PStr ''runtime'', check_to_dict (tc_runtime c)),
      (PStr ''effective'', check_to_dict (tc_effective c))]"

definition capability_from_dict :: "pyval \<Rightarrow> (py_exc, tool_capability) result" where
  "capability_from_dict data =
     rbind (subscript data ''tool'') (\<lambda>tool.
     rbind (rbind (subscript data ''engine'') check_from_dict) (\<lambda>engine.
     rbind (rbind (subscript data ''adapter'') check_from_dict) (\<lambda>adapter.
     rbind (rbind (subscript data ''runtime'') check_from_dict) (\<lambda>runtime.
     rbind (rbind (subscript data ''effective'') check_from_dict) (\<lambda>effective.
     mk_tool_capability (py_str tool) engine adapter runtime (Some effective))))))"

section \<open>Profiles and contexts\<close>

record task_profile =
  tp_task_type :: string
  tp_language :: kernel_language
  tp_artifact_kind :: artifact_kind
  tp_framework :: string
  tp_control :: instrumentation_control
  tp_adapter :: "string option"
  tp_source_available :: bool
  tp_source_files :: "string list"
  tp_target_functions :: "string list"
  tp_explicit_overrides :: "pyval list"
  tp_evidence :: pydict

definition framework_text :: "pyval \<Rightarrow> string" where
  "framework_text v =
     (let f = replace_char CHR ''-'' CHR ''_'' (lower (strip (py_str (py_or v (PStr ''unknown''))))) in
      if f = [] then ''unknown'' else f)"

definition adapter_text :: "pyval \<Rightarrow> string option" where
  "adapter_text v =
     (if v = PNone then None
      else let a = lower (strip (py_str v)) in if a = [] then None else Some a)"

definition mk_task_profile ::
    "pyval \<Rightarrow> pyval \<Rightarrow> pyval \<Rightarrow> pyval \<Rightarrow> pyval \<Rightarrow> pyval \<Rightarrow> bool \<Rightarrow> pyval \<Rightarrow> pyval \<Rightarrow> pyval list \<Rightarrow> pyval
     \<Rightarrow> (py_exc, task_profile) result" where
  "mk_task_profile task_type language artifact framework control adapter available sources targets
       overrides evidence =
     rbind (enum_value kernel_languages language) (\<lambda>l.
     rbind (enum_value artifact_kinds artifact) (\<lambda>a.
     rbind (enum_value instrumentation_controls control) (\<lambda>c.
     rbind (string_tuple sources) (\<lambda>files.
     rbind (string_tuple targets) (\<lambda>functions.
     rbind (sorted_set overrides) (\<lambda>os.
     rbind (dict_or_empty evidence) (\<lambda>e.
     Inr \<lparr>tp_task_type = lower (strip (py_str (py_or task_type (PStr [])))), tp_language = l,
          tp_artifact_kind = a, tp_framework = framework_text framework, tp_control = c,
          tp_adapter = adapter_text adapter, tp_source_available = available,
          tp_source_files = files, tp_target_functions = functions,
          tp_explicit_overrides = os, tp_evidence = e\<rparr>)))))))"

definition profile_to_dict :: "task_profile \<Rightarrow> pyval" where
  "profile_to_dict p = PDict
     [(PStr ''task_type'', PStr (tp_task_type p)),
      (PStr ''language'', member kernel_languages (tp_language p)),
      (PStr ''artifact_kind'', member artifact_kinds (tp_artifact_kind p)),
      (PStr ''framework'', PStr (tp_framework p)),
      (PStr ''instrumentation_control'', member instrumentation_controls (tp_control p)),
      (PStr ''adapter'', opt_text (tp_adapter p)),
      (PStr ''source_available'', PBool (tp_source_available p)),
      (PStr ''source_files'', strings (tp_source_files p)),
      (PStr ''target_functions'', strings (tp_target_functions p)),
      (PStr ''explicit_overrides'', PList (tp_explicit_overrides p)),
      (PStr ''evidence'', plain (PDict (tp_evidence p)))]"

definition profile_from_dict :: "pyval \<Rightarrow> (py_exc, task_profile) result" where
  "profile_from_dict data =
     (case data of PDict d \<Rightarrow>
        rbind (tuple_or_empty (dget d ''source_files'')) (\<lambda>sources.
        rbind (tuple_or_empty (dget d ''target_functions'')) (\<lambda>targets.
        rbind (tuple_or_empty (dget d ''explicit_overrides'')) (\<lambda>overrides.
        mk_task_profile
          (PStr (py_str (py_or (dget d ''task_type'') (PStr []))))
          (dget_default d ''language'' (member kernel_languages UNKNOWN_LANGUAGE))
          (dget_default d ''artifact_kind'' (member artifact_kinds UNKNOWN_ARTIFACT))
          (PStr (py_str (py_or (dget d ''framework'') (PStr ''unknown''))))
          (dget_default d ''instrumentation_control''
             (member instrumentation_controls UNKNOWN_CONTROL))
          (dget d ''adapter'') (truthy (dget_default d ''source_available'' (PBool False)))
          (PList sources) (PList targets) overrides
          (py_or (dget d ''evidence'') (PDict [])))))
      | _ \<Rightarrow> Inl AttributeErr)"

record source_evidence =
  se_original_root :: pyval
  se_original_fingerprint :: pyval
  se_candidate_fingerprint :: pyval
  se_metadata :: pydict

definition no_evidence :: source_evidence where
  "no_evidence = \<lparr>se_original_root = PNone, se_original_fingerprint = PNone,
     se_candidate_fingerprint = PNone, se_metadata = []\<rparr>"

definition evidence_to_dict :: "source_evidence \<Rightarrow> pyval" where
  "evidence_to_dict e = PDict
     [(PStr ''original_root'', se_original_root e),
      (PStr ''original_fingerprint'', se_original_fingerprint e),
      (PStr ''candidate_fingerprint'', se_candidate_fingerprint e),
      (PStr ''metadata'', plain (PDict (se_metadata e)))]"

text \<open>\<open>SourceEvidence.from_value\<close> of \<open>None\<close> or a mapping; of a record it is the record.\<close>

definition evidence_from_value :: "pyval \<Rightarrow> (py_exc, source_evidence) result" where
  "evidence_from_value v =
     (case v of PNone \<Rightarrow> Inr no_evidence
      | PDict d \<Rightarrow>
          rbind (dict_or_empty (py_or (dget d ''metadata'') (PDict []))) (\<lambda>m.
          Inr \<lparr>se_original_root = dget d ''original_root'',
               se_original_fingerprint = dget d ''original_fingerprint'',
               se_candidate_fingerprint = dget d ''candidate_fingerprint'', se_metadata = m\<rparr>)
      | _ \<Rightarrow> Inl AttributeErr)"

record tool_context =
  tx_workspace :: string
  tx_task_config :: pydict
  tx_profile :: task_profile
  tx_artifact_dir :: string
  tx_gpu_arch :: pyval
  tx_runtime_ref :: pyval
  tx_env :: "(string \<times> string) list"
  tx_options :: pydict
  tx_source_evidence :: source_evidence

definition mk_tool_context ::
    "string \<Rightarrow> string \<Rightarrow> pyval \<Rightarrow> task_profile \<Rightarrow> string \<Rightarrow> pyval \<Rightarrow> pyval \<Rightarrow> pyval \<Rightarrow> pyval
     \<Rightarrow> source_evidence \<Rightarrow> (py_exc, tool_context) result" where
  "mk_tool_context cwd workspace config profile artifact_dir gpu_arch runtime_ref env options source =
     rbind (dict_or_empty config) (\<lambda>c.
     rbind (str_items env) (\<lambda>e.
     rbind (dict_or_empty options) (\<lambda>os.
     Inr \<lparr>tx_workspace = absolute_path cwd workspace, tx_task_config = c, tx_profile = profile,
          tx_artifact_dir = absolute_path cwd artifact_dir, tx_gpu_arch = gpu_arch,
          tx_runtime_ref = runtime_ref, tx_env = e, tx_options = os,
          tx_source_evidence = source\<rparr>)))"

definition context_to_dict :: "tool_context \<Rightarrow> pyval" where
  "context_to_dict c = PDict
     [(PStr ''workspace'', PStr (tx_workspace c)),
      (PStr ''task_config'', plain (PDict (tx_task_config c))),
      (PStr ''profile'', profile_to_dict (tx_profile c)),
      (PStr ''artifact_dir'', PStr (tx_artifact_dir c)),
      (PStr ''gpu_arch'', tx_gpu_arch c), (PStr ''runtime_ref'', tx_runtime_ref c),
      (PStr ''env'', env_dict (tx_env c)), (PStr ''options'', plain (PDict (tx_options c))),
      (PStr ''source_evidence'', evidence_to_dict (tx_source_evidence c))]"

definition context_from_dict :: "string \<Rightarrow> pyval \<Rightarrow> (py_exc, tool_context) result" where
  "context_from_dict cwd data =
     rbind (subscript data ''workspace'') (\<lambda>workspace.
     rbind (attr_get data ''task_config'' PNone) (\<lambda>config.
     rbind (rbind (subscript data ''profile'') profile_from_dict) (\<lambda>profile.
     rbind (subscript data ''artifact_dir'') (\<lambda>artifact_dir.
     rbind (attr_get data ''gpu_arch'' PNone) (\<lambda>gpu_arch.
     rbind (attr_get data ''runtime_ref'' PNone) (\<lambda>runtime_ref.
     rbind (attr_get data ''env'' PNone) (\<lambda>env.
     rbind (attr_get data ''options'' PNone) (\<lambda>options.
     rbind (rbind (attr_get data ''source_evidence'' PNone) evidence_from_value) (\<lambda>source.
     mk_tool_context cwd (py_str workspace) (py_or config (PDict [])) profile (py_str artifact_dir)
       gpu_arch runtime_ref (py_or env (PDict [])) (py_or options (PDict [])) source)))))))))"

end
