(* ===== verification/EvalResults.thy ===== *)
theory EvalResults
  imports EvalContracts
begin

text \<open>
  The second half of \<open>src/eval_tools/contracts.py\<close>: invocations, execution records, findings,
  run results, plans, policy decisions and the report of an evaluation.
\<close>

section \<open>Invocations and executions\<close>

record tool_invocation =
  ti_tool :: string
  ti_command :: "string list"
  ti_cwd :: string
  ti_env :: "(string \<times> string) list"
  ti_timeout_s :: int
  ti_artifact_dir :: pyval
  ti_shell :: bool
  ti_metadata :: pydict

definition mk_tool_invocation ::
    "string \<Rightarrow> string \<Rightarrow> pyval \<Rightarrow> string \<Rightarrow> pyval \<Rightarrow> pyval \<Rightarrow> pyval \<Rightarrow> bool \<Rightarrow> pyval
     \<Rightarrow> (py_exc, tool_invocation) result" where
  "mk_tool_invocation here tool command cwd env timeout artifact_dir shell metadata =
     rbind (tool_value tool) (\<lambda>name.
     rbind (string_tuple command) (\<lambda>argv.
     if argv = [] then Inl ValueErr
     else
     rbind (py_int timeout) (\<lambda>t.
     if t \<le> 0 then Inl ValueErr
     else
     rbind (str_items env) (\<lambda>e.
     rbind (dict_or_empty metadata) (\<lambda>m.
     Inr \<lparr>ti_tool = name, ti_command = argv, ti_cwd = absolute_path here cwd, ti_env = e,
          ti_timeout_s = t, ti_artifact_dir = artifact_dir, ti_shell = shell,
          ti_metadata = m\<rparr>)))))"

definition invocation_to_dict :: "tool_invocation \<Rightarrow> pyval" where
  "invocation_to_dict i = PDict
     [(PStr ''tool'', PStr (ti_tool i)), (PStr ''command'', strings (ti_command i)),
      (PStr ''cwd'', PStr (ti_cwd i)), (PStr ''env'', env_dict (ti_env i)),
      (PStr ''timeout_s'', PInt (ti_timeout_s i)), (PStr ''artifact_dir'', ti_artifact_dir i),
      (PStr ''shell'', PBool (ti_shell i)), (PStr ''metadata'', plain (PDict (ti_metadata i)))]"

definition invocation_from_dict :: "string \<Rightarrow> pyval \<Rightarrow> (py_exc, tool_invocation) result" where
  "invocation_from_dict here data =
     rbind (subscript data ''tool'') (\<lambda>tool.
     rbind (rbind (attr_get data ''command'' PNone) tuple_or_empty) (\<lambda>command.
     rbind (subscript data ''cwd'') (\<lambda>cwd.
     rbind (attr_get data ''env'' PNone) (\<lambda>env.
     rbind (rbind (attr_get data ''timeout_s'' (PInt 3600)) py_int) (\<lambda>timeout.
     rbind (attr_get data ''artifact_dir'' PNone) (\<lambda>artifact_dir.
     rbind (attr_get data ''shell'' (PBool False)) (\<lambda>shell.
     rbind (attr_get data ''metadata'' PNone) (\<lambda>metadata.
     mk_tool_invocation here (py_str tool) (PList command) (py_str cwd) (py_or env (PDict []))
       (PInt timeout) artifact_dir (truthy shell) (py_or metadata (PDict []))))))))))"

record execution_record =
  er_command :: "string list"
  er_returncode :: pyval
  er_stdout :: string
  er_stderr :: string
  er_duration_s :: pyfloat
  er_timed_out :: bool
  er_metadata :: pydict

text \<open>\<open>max(0.0, d)\<close>: also of NaN it is zero.\<close>

definition duration :: "pyfloat \<Rightarrow> pyfloat" where
  "duration d = (if flt (Fin 0) d then d else Fin 0)"

definition mk_execution_record ::
    "pyval \<Rightarrow> pyval \<Rightarrow> string \<Rightarrow> string \<Rightarrow> pyval \<Rightarrow> bool \<Rightarrow> pyval \<Rightarrow> (py_exc, execution_record) result" where
  "mk_execution_record command returncode stdout stderr duration_s timed_out metadata =
     rbind (string_tuple command) (\<lambda>argv.
     rbind (py_float duration_s) (\<lambda>d.
     rbind (dict_or_empty metadata) (\<lambda>m.
     Inr \<lparr>er_command = argv, er_returncode = returncode, er_stdout = stdout, er_stderr = stderr,
          er_duration_s = duration d, er_timed_out = timed_out, er_metadata = m\<rparr>)))"

definition record_status :: "execution_record \<Rightarrow> execution_status" where
  "record_status r =
     (if er_timed_out r then TIMEOUT
      else if py_eq (er_returncode r) (PInt 0) then COMPLETED else TOOL_ERROR)"

definition record_to_dict :: "bool \<Rightarrow> execution_record \<Rightarrow> pyval" where
  "record_to_dict include_output r = PDict
     ([(PStr ''command'', strings (er_command r)), (PStr ''returncode'', er_returncode r),
       (PStr ''duration_s'', PFloat (er_duration_s r)), (PStr ''timed_out'', PBool (er_timed_out r)),
       (PStr ''metadata'', plain (PDict (er_metadata r)))]
      @ (if include_output
         then [(PStr ''stdout'', PStr (er_stdout r)), (PStr ''stderr'', PStr (er_stderr r))] else []))"

definition record_from_dict :: "pyval \<Rightarrow> (py_exc, execution_record) result" where
  "record_from_dict data =
     (case data of PDict d \<Rightarrow>
        rbind (tuple_or_empty (dget d ''command'')) (\<lambda>command.
        rbind (py_float (dget_default d ''duration_s'' (PFloat (Fin 0)))) (\<lambda>seconds.
        mk_execution_record (PList command) (dget d ''returncode'')
          (py_str (py_or (dget d ''stdout'') (PStr []))) (py_str (py_or (dget d ''stderr'') (PStr [])))
          (PFloat seconds) (truthy (dget_default d ''timed_out'' (PBool False)))
          (py_or (dget d ''metadata'') (PDict []))))
      | _ \<Rightarrow> Inl AttributeErr)"

section \<open>Findings and run results\<close>

record finding =
  fi_kind :: string
  fi_severity :: finding_severity
  fi_message :: string
  fi_locations :: "string list"
  fi_raw :: pyval
  fi_metadata :: pydict

definition mk_finding ::
    "string \<Rightarrow> pyval \<Rightarrow> string \<Rightarrow> pyval \<Rightarrow> pyval \<Rightarrow> pyval \<Rightarrow> (py_exc, finding) result" where
  "mk_finding kind severity message locations raw metadata =
     (if strip kind = [] then Inl ValueErr
      else
      rbind (enum_value finding_severities severity) (\<lambda>s.
      rbind (string_tuple locations) (\<lambda>ls.
      rbind (dict_or_empty metadata) (\<lambda>m.
      Inr \<lparr>fi_kind = kind, fi_severity = s, fi_message = message, fi_locations = ls, fi_raw = raw,
           fi_metadata = m\<rparr>))))"

definition finding_to_dict :: "bool \<Rightarrow> finding \<Rightarrow> pyval" where
  "finding_to_dict include_output f = PDict
     ([(PStr ''kind'', PStr (fi_kind f)),
       (PStr ''severity'', member finding_severities (fi_severity f)),
       (PStr ''message'', PStr (fi_message f)), (PStr ''locations'', strings (fi_locations f)),
       (PStr ''metadata'', plain (PDict (fi_metadata f)))]
      @ when_present (include_output \<and> fi_raw f \<noteq> PNone) ''raw'' (fi_raw f))"

definition finding_from_dict :: "pyval \<Rightarrow> (py_exc, finding) result" where
  "finding_from_dict data =
     rbind (subscript data ''kind'') (\<lambda>kind.
     rbind (attr_get data ''severity'' (member finding_severities ERROR)) (\<lambda>severity.
     rbind (attr_get data ''message'' PNone) (\<lambda>message.
     rbind (rbind (attr_get data ''locations'' PNone) tuple_or_empty) (\<lambda>locations.
     rbind (attr_get data ''raw'' PNone) (\<lambda>raw.
     rbind (attr_get data ''metadata'' PNone) (\<lambda>metadata.
     mk_finding (py_str kind) severity (py_str (py_or message (PStr []))) (PList locations) raw
       (py_or metadata (PDict []))))))))"

record tool_run_result =
  rr_tool :: string
  rr_execution :: execution_status
  rr_finding :: finding_status
  rr_findings :: "finding list"
  rr_summary :: pyval
  rr_artifacts :: "string list"
  rr_record :: "execution_record option"
  rr_metadata :: pydict

text \<open>The last two checks of \<open>ToolRunResult.__post_init__\<close>.\<close>

definition findings_agree :: "tool_run_result \<Rightarrow> bool" where
  "findings_agree r =
     (\<not> (rr_finding r = CLEAN \<and> rr_findings r \<noteq> []) \<and> \<not> (rr_finding r = FOUND \<and> rr_findings r = []))"

definition checked_result :: "tool_run_result \<Rightarrow> (py_exc, tool_run_result) result" where
  "checked_result r = (if findings_agree r then Inr r else Inl ValueErr)"

definition mk_tool_run_result ::
    "string \<Rightarrow> pyval \<Rightarrow> pyval \<Rightarrow> finding list \<Rightarrow> pyval \<Rightarrow> pyval \<Rightarrow> execution_record option \<Rightarrow> pyval
     \<Rightarrow> (py_exc, tool_run_result) result" where
  "mk_tool_run_result tool execution finding findings summary artifacts record_option metadata =
     rbind (tool_value tool) (\<lambda>name.
     rbind (enum_value execution_statuses execution) (\<lambda>ex.
     rbind (enum_value finding_statuses finding) (\<lambda>fs.
     rbind (string_tuple artifacts) (\<lambda>paths.
     rbind (dict_or_empty metadata) (\<lambda>m.
     checked_result
       \<lparr>rr_tool = name, rr_execution = ex, rr_finding = fs, rr_findings = findings,
        rr_summary = summary, rr_artifacts = paths, rr_record = record_option,
        rr_metadata = m\<rparr>)))))"

definition result_to_dict :: "bool \<Rightarrow> tool_run_result \<Rightarrow> pyval" where
  "result_to_dict include_output r = PDict
     ([(PStr ''tool'', PStr (rr_tool r)),
       (PStr ''execution'', member execution_statuses (rr_execution r)),
       (PStr ''finding'', member finding_statuses (rr_finding r)),
       (PStr ''findings_count'', PInt (int (length (rr_findings r)))),
       (PStr ''findings'', PList (map (finding_to_dict include_output) (rr_findings r))),
       (PStr ''artifacts'', strings (rr_artifacts r)),
       (PStr ''metadata'', plain (PDict (rr_metadata r)))]
      @ when_present (truthy (rr_summary r)) ''summary'' (rr_summary r)
      @ (case rr_record r of None \<Rightarrow> []
         | Some e \<Rightarrow> [(PStr ''execution_record'', record_to_dict include_output e)]))"

definition optional_record :: "pyval \<Rightarrow> (py_exc, execution_record option) result" where
  "optional_record v =
     (case v of PDict d \<Rightarrow> rbind (record_from_dict v) (\<lambda>r. Inr (Some r)) | _ \<Rightarrow> Inr None)"

definition result_from_dict :: "pyval \<Rightarrow> (py_exc, tool_run_result) result" where
  "result_from_dict data =
     rbind (attr_get data ''execution_record'' PNone) (\<lambda>record_data.
     rbind (subscript data ''tool'') (\<lambda>tool.
     rbind (attr_get data ''execution'' (member execution_statuses NOT_RUN)) (\<lambda>execution.
     rbind (attr_get data ''finding'' (member finding_statuses NOT_EVALUATED)) (\<lambda>finding.
     rbind (rbind (rbind (attr_get data ''findings'' PNone) tuple_or_empty) (mapR finding_from_dict))
       (\<lambda>findings.
     rbind (attr_get data ''summary'' PNone) (\<lambda>summary.
     rbind (rbind (attr_get data ''artifacts'' PNone) tuple_or_empty) (\<lambda>artifacts.
     rbind (optional_record record_data) (\<lambda>record_option.
     rbind (attr_get data ''metadata'' PNone) (\<lambda>metadata.
     mk_tool_run_result (py_str tool) execution finding findings summary (PList artifacts)
       record_option (py_or metadata (PDict [])))))))))))"

record tool_evaluation =
  te_capability :: tool_capability
  te_result :: "tool_run_result option"

definition mk_tool_evaluation ::
    "tool_capability \<Rightarrow> tool_run_result option \<Rightarrow> (py_exc, tool_evaluation) result" where
  "mk_tool_evaluation capability outcome =
     (case outcome of None \<Rightarrow> Inr \<lparr>te_capability = capability, te_result = None\<rparr>
      | Some r \<Rightarrow>
          if rr_tool r \<noteq> tc_tool capability then Inl ValueErr
          else if \<not> capability_ready capability then Inl ValueErr
          else Inr \<lparr>te_capability = capability, te_result = Some r\<rparr>)"

definition evaluation_to_dict :: "bool \<Rightarrow> tool_evaluation \<Rightarrow> pyval" where
  "evaluation_to_dict include_output e = PDict
     [(PStr ''capability'', capability_to_dict (te_capability e)),
      (PStr ''result'', case te_result e of None \<Rightarrow> PNone | Some r \<Rightarrow> result_to_dict include_output r)]"

section \<open>Plans, decisions and reports\<close>

record tool_plan =
  pl_tool :: string
  pl_runtime_ref :: pyval
  pl_plugin_version :: string
  pl_timeout_s :: int
  pl_options :: pydict

definition mk_tool_plan ::
    "string \<Rightarrow> pyval \<Rightarrow> string \<Rightarrow> pyval \<Rightarrow> pyval \<Rightarrow> (py_exc, tool_plan) result" where
  "mk_tool_plan tool runtime_ref version timeout options =
     rbind (tool_value tool) (\<lambda>name.
     rbind (py_int timeout) (\<lambda>t.
     if t \<le> 0 then Inl ValueErr
     else
     rbind (dict_or_empty options) (\<lambda>os.
     Inr \<lparr>pl_tool = name, pl_runtime_ref = runtime_ref, pl_plugin_version = version,
          pl_timeout_s = t, pl_options = os\<rparr>)))"

definition tool_plan_to_dict :: "tool_plan \<Rightarrow> pyval" where
  "tool_plan_to_dict p = PDict
     [(PStr ''tool'', PStr (pl_tool p)), (PStr ''runtime_ref'', pl_runtime_ref p),
      (PStr ''plugin_version'', PStr (pl_plugin_version p)),
      (PStr ''timeout_s'', PInt (pl_timeout_s p)), (PStr ''options'', plain (PDict (pl_options p)))]"

record evaluation_plan =
  ev_schema_version :: int
  ev_policy :: evaluation_policy
  ev_profile :: task_profile
  ev_tools :: "tool_plan list"
  ev_fingerprint :: string
  ev_source_evidence :: source_evidence

definition mk_evaluation_plan ::
    "int \<Rightarrow> evaluation_policy \<Rightarrow> task_profile \<Rightarrow> tool_plan list \<Rightarrow> string \<Rightarrow> source_evidence
     \<Rightarrow> (py_exc, evaluation_plan) result" where
  "mk_evaluation_plan version policy profile tools fingerprint source =
     (if \<not> distinct (map pl_tool tools) then Inl ValueErr
      else Inr \<lparr>ev_schema_version = version, ev_policy = policy, ev_profile = profile,
                ev_tools = tools, ev_fingerprint = fingerprint, ev_source_evidence = source\<rparr>)"

definition plan_to_dict :: "evaluation_plan \<Rightarrow> pyval" where
  "plan_to_dict p = PDict
     [(PStr ''schema_version'', PInt (ev_schema_version p)),
      (PStr ''policy'', member evaluation_policies (ev_policy p)),
      (PStr ''profile'', profile_to_dict (ev_profile p)),
      (PStr ''tools'', PList (map tool_plan_to_dict (ev_tools p))),
      (PStr ''fingerprint'', PStr (ev_fingerprint p)),
      (PStr ''source_evidence'', evidence_to_dict (ev_source_evidence p))]"

record policy_decision =
  pd_policy :: evaluation_policy
  pd_allowed :: bool
  pd_policy_satisfied :: bool
  pd_reasons :: "string list"

definition decision_to_dict :: "policy_decision \<Rightarrow> pyval" where
  "decision_to_dict d = PDict
     [(PStr ''policy'', member evaluation_policies (pd_policy d)),
      (PStr ''allowed'', PBool (pd_allowed d)),
      (PStr ''policy_satisfied'', PBool (pd_policy_satisfied d)),
      (PStr ''reasons'', strings (pd_reasons d))]"

record evaluation_report =
  rp_plan :: evaluation_plan
  rp_evaluations :: "tool_evaluation list"
  rp_decision :: policy_decision

definition mk_evaluation_report ::
    "evaluation_plan \<Rightarrow> tool_evaluation list \<Rightarrow> policy_decision \<Rightarrow> (py_exc, evaluation_report) result" where
  "mk_evaluation_report plan evaluations decision =
     (if map pl_tool (ev_tools plan) \<noteq> map (tc_tool \<circ> te_capability) evaluations then Inl ValueErr
      else Inr \<lparr>rp_plan = plan, rp_evaluations = evaluations, rp_decision = decision\<rparr>)"

text \<open>
  \<open>overall_status\<close>: the loop over the evaluations with its two flags, whether an applicable one
  was seen and whether one was incomplete; the first finding ends it.
\<close>

fun scan_status :: "bool \<Rightarrow> bool \<Rightarrow> tool_evaluation list \<Rightarrow> string" where
  "scan_status applicable incomplete [] =
     (if \<not> applicable then ''not_applicable'' else if incomplete then ''incomplete'' else ''clean'')"
| "scan_status applicable incomplete (e # es) =
     (if cc_state (tc_effective (te_capability e)) = NOT_APPLICABLE then scan_status applicable incomplete es
      else if \<not> capability_ready (te_capability e) then scan_status True True es
      else case te_result e of None \<Rightarrow> scan_status True True es
      | Some r \<Rightarrow>
          if rr_finding r = FOUND then ''finding''
          else scan_status True
                 (incomplete \<or> rr_execution r \<noteq> COMPLETED \<or> rr_finding r \<noteq> CLEAN) es)"

definition overall_status :: "evaluation_report \<Rightarrow> string" where
  "overall_status r = scan_status False False (rp_evaluations r)"

definition report_to_dict :: "bool \<Rightarrow> evaluation_report \<Rightarrow> pyval" where
  "report_to_dict include_output r = PDict
     [(PStr ''schema_version'', PInt (ev_schema_version (rp_plan r))),
      (PStr ''plan_fingerprint'', PStr (ev_fingerprint (rp_plan r))),
      (PStr ''plan'', plan_to_dict (rp_plan r)),
      (PStr ''policy'', member evaluation_policies (ev_policy (rp_plan r))),
      (PStr ''overall_status'', PStr (overall_status r)),
      (PStr ''resolved_task_profile'', profile_to_dict (ev_profile (rp_plan r))),
      (PStr ''source_evidence'', evidence_to_dict (ev_source_evidence (rp_plan r))),
      (PStr ''decision'', decision_to_dict (rp_decision r)),
      (PStr ''tools'', PDict (dict_of
         (map (\<lambda>e. (tc_tool (te_capability e), evaluation_to_dict include_output e))
            (rp_evaluations r))))]"

end
