(* ===== verification/Sha256.thy ===== *)
theory Sha256
  imports Main "HOL-Library.Word"
begin

text \<open>
  \<open>hashlib.sha256(data).hexdigest()\<close>: FIPS 180-4 on 32-bit words, whose additions wrap.  A byte
  string is a \<open>string\<close> of code points below 256, a digest its 64 lower-case hexadecimal digits.
\<close>

type_synonym w32 = "32 word"

definition ch :: "w32 \<Rightarrow> w32 \<Rightarrow> w32 \<Rightarrow> w32" where
  "ch x y z = xor (and x y) (and (not x) z)"

definition maj :: "w32 \<Rightarrow> w32 \<Rightarrow> w32 \<Rightarrow> w32" where
  "maj x y z = xor (xor (and x y) (and x z)) (and y z)"

definition big_sigma0 :: "w32 \<Rightarrow> w32" where
  "big_sigma0 x = xor (xor (word_rotr 2 x) (word_rotr 13 x)) (word_rotr 22 x)"

definition big_sigma1 :: "w32 \<Rightarrow> w32" where
  "big_sigma1 x = xor (xor (word_rotr 6 x) (word_rotr 11 x)) (word_rotr 25 x)"

definition small_sigma0 :: "w32 \<Rightarrow> w32" where
  "small_sigma0 x = xor (xor (word_rotr 7 x) (word_rotr 18 x)) (drop_bit 3 x)"

definition small_sigma1 :: "w32 \<Rightarrow> w32" where
  "small_sigma1 x = xor (xor (word_rotr 17 x) (word_rotr 19 x)) (drop_bit 10 x)"

definition round_constants :: "w32 list" where
  "round_constants =
    [1116352408, 1899447441, 3049323471, 3921009573, 961987163, 1508970993, 2453635748, 2870763221,
     3624381080, 310598401, 607225278, 1426881987, 1925078388, 2162078206, 2614888103, 3248222580,
     3835390401, 4022224774, 264347078, 604807628, 770255983, 1249150122, 1555081692, 1996064986,
     2554220882, 2821834349, 2952996808, 3210313671, 3336571891, 3584528711, 113926993, 338241895,
     666307205, 773529912, 1294757372, 1396182291, 1695183700, 1986661051, 2177026350, 2456956037,
     2730485921, 2820302411, 3259730800, 3345764771, 3516065817, 3600352804, 4094571909, 275423344,
     430227734, 506948616, 659060556, 883997877, 958139571, 1322822218, 1537002063, 1747873779,
     1955562222, 2024104815, 2227730452, 2361852424, 2428436474, 2756734187, 3204031479, 3329325298]"

definition initial_hash :: "w32 list" where
  "initial_hash =
    [1779033703, 3144134277, 1013904242, 2773480762, 1359893119, 2600822924, 528734635, 1541459225]"

text \<open>The message schedule, newest word first.\<close>

definition extend_schedule :: "w32 list \<Rightarrow> w32 list" where
  "extend_schedule ws =
     (small_sigma1 (ws ! 1) + ws ! 6 + small_sigma0 (ws ! 14) + ws ! 15) # ws"

definition schedule :: "w32 list \<Rightarrow> w32 list" where
  "schedule block = rev ((extend_schedule ^^ 48) (rev block))"

fun sha_round :: "w32 list \<Rightarrow> w32 \<times> w32 \<Rightarrow> w32 list" where
  "sha_round [a, b, c, d, e, f, g, h] (k, w) =
     (let t1 = h + big_sigma1 e + ch e f g + k + w; t2 = big_sigma0 a + maj a b c
      in [t1 + t2, a, b, c, d + t1, e, f, g])"
| "sha_round s _ = s"

definition compress :: "w32 list \<Rightarrow> w32 list \<Rightarrow> w32 list" where
  "compress hs block = map2 (+) hs (foldl sha_round hs (zip round_constants (schedule block)))"

definition pad_message :: "nat list \<Rightarrow> nat list" where
  "pad_message bs =
     (let n = length bs in
      bs @ [128] @ replicate (nat ((55 - int n) mod 64)) 0 @
      map (\<lambda>i. (8 * n) div 256 ^ i mod 256) [7, 6, 5, 4, 3, 2, 1, 0])"

fun words_of :: "nat list \<Rightarrow> w32 list" where
  "words_of (a # b # c # d # r) = word_of_nat (((a * 256 + b) * 256 + c) * 256 + d) # words_of r"
| "words_of _ = []"

fun blocks :: "nat \<Rightarrow> w32 list \<Rightarrow> w32 list list" where
  "blocks 0 ws = []"
| "blocks (Suc n) ws = take 16 ws # blocks n (drop 16 ws)"

definition hex_of_word :: "w32 \<Rightarrow> string" where
  "hex_of_word w =
     map (\<lambda>i. let n = unat (and (drop_bit (4 * i) w) 15)
              in char_of (if n < 10 then 48 + n else 87 + n)) [7, 6, 5, 4, 3, 2, 1, 0]"

definition sha256_hex :: "string \<Rightarrow> string" where
  "sha256_hex s =
     (let ws = words_of (pad_message (map of_char s))
      in concat (map hex_of_word (foldl compress initial_hash (blocks (length ws div 16) ws))))"

lemma hex_of_word_length [simp]: "length (hex_of_word w) = 8"
  by (simp add: hex_of_word_def)

lemma sha_round_length: "length hs = 8 \<Longrightarrow> length (sha_round hs kw) = 8"
  by (cases "(hs, kw)" rule: sha_round.cases) (auto simp: Let_def)

lemma compress_length: "length hs = 8 \<Longrightarrow> length (compress hs b) = 8"
proof -
  assume "length hs = 8"
  moreover have "length (foldl sha_round g kws) = 8" if "length g = 8" for g kws
    using that by (induction kws arbitrary: g) (auto simp: sha_round_length)
  ultimately show ?thesis by (simp add: compress_def)
qed

text \<open>A digest has 64 characters, whatever was hashed.\<close>

lemma sha256_hex_length [simp]: "length (sha256_hex s) = 64"
proof -
  have "length (foldl compress hs bs) = 8" if "length hs = 8" for hs bs
    using that by (induction bs arbitrary: hs) (auto simp: compress_length)
  then have "length (foldl compress initial_hash bs) = 8" for bs by (simp add: initial_hash_def)
  then show ?thesis by (simp add: sha256_hex_def Let_def length_concat comp_def sum_list_triv)
qed

end
