(* ===== verification/EvalConfig.thy ===== *)
theory EvalConfig
  imports EvalResults Sha256
begin

text \<open>
  \<open>src/eval_tools/config.py\<close> and \<open>src/eval_tools/registry.py\<close>: the configuration of the
  evaluation tools, read from a run configuration and the environment the host runner sets,
  merged with the adapter options of a task, and turned into a plan with its fingerprint; and
  the registry of plugins.
\<close>

section \<open>JSON output\<close>

text \<open>
  \<open>json.dumps(v, separators=(",", ":"), ensure_ascii=False)\<close> of a value whose keys are strings,
  in the order they have.
\<close>

definition json_char :: "char \<Rightarrow> string" where
  "json_char c =
     (let n = (of_char c :: nat) in
      if n = 34 \<or> n = 92 then [CHR 0x5C, c]
      else if n = 10 then [CHR 0x5C, CHR ''n''] else if n = 13 then [CHR 0x5C, CHR ''r'']
      else if n = 9 then [CHR 0x5C, CHR ''t''] else if n = 12 then [CHR 0x5C, CHR ''f'']
      else if n = 8 then [CHR 0x5C, CHR ''b'']
      else if n < 32 then [CHR 0x5C, CHR ''u'', CHR ''0'', CHR ''0'', hex_digit (n div 16), hex_digit (n mod 16)]
      else [c])"

definition json_string :: "string \<Rightarrow> string" where
  "json_string s = CHR 0x22 # concat (map json_char s) @ [CHR 0x22]"

fun json_float :: "pyfloat \<Rightarrow> string" where
  "json_float NaN = ''NaN''"
| "json_float PInf = ''Infinity''"
| "json_float NInf = ''-Infinity''"
| "json_float f = float_repr f"

fun json_dumps :: "pyval \<Rightarrow> string" where
  "json_dumps PNone = ''null''"
| "json_dumps (PBool b) = (if b then ''true'' else ''false'')"
| "json_dumps (PInt k) = int_digits k"
| "json_dumps (PFloat f) = json_float f"
| "json_dumps (PStr s) = json_string s"
| "json_dumps (PList xs) = ''['' @ join_by '','' (map json_dumps xs) @ '']''"
| "json_dumps (PDict d) =
     ''{'' @ join_by '','' (map (\<lambda>kv. json_string (py_str (fst kv)) @ '':'' @ json_dumps (snd kv)) d) @ ''}''"

text \<open>\<open>s.encode("utf-8")\<close> on code points below 256.\<close>

definition utf8_char :: "char \<Rightarrow> string" where
  "utf8_char c =
     (let n = (of_char c :: nat) in
      if n < 128 then [c] else [char_of (192 + n div 64), char_of (128 + n mod 64)])"

definition utf8 :: "string \<Rightarrow> string" where
  "utf8 s = concat (map utf8_char s)"

section \<open>Limits and key sets\<close>

definition PLAN_SCHEMA_VERSION :: int where "PLAN_SCHEMA_VERSION = 2"
definition MAX_TOOL_TIMEOUT_SECONDS :: int where "MAX_TOOL_TIMEOUT_SECONDS = 3600"

definition run_section_keys :: "string list" where
  "run_section_keys =
     [''enabled'', ''policy'', ''runtime_profile'', ''positive_control'', ''timeout_s'', ''tools'']"

definition tool_config_keys :: "string list" where
  "tool_config_keys = [''runtime_ref'', ''image_digest'', ''timeout_s'', ''options'']"

definition runtime_option_table :: "(string \<times> string list) list" where
  "runtime_option_table =
     [(''gpu_asan'', [''asan_runtime_dir'', ''hip_asan_runtime'', ''host_asan_preload'',
         ''host_asan_lib_dir'', ''normal_rocm_lib_dir'']),
      (''rocjitsu'', [''rocjitsu_binary'', ''config_path'']),
      (''rocjitsu_waitcheck'', [''waitcheck_binary'', ''waitcheck_capi_wrapper'']),
      (''rocjitsu_consan'', [''consan_hook'']),
      (''hip_fpsan'', [''include_dir'', ''public_header''])]"

definition entries_of :: "(string \<times> string list) list \<Rightarrow> string \<Rightarrow> string list" where
  "entries_of table name = (case map_of table name of Some ks \<Rightarrow> ks | None \<Rightarrow> [])"

definition reserved_option_keys :: "string \<Rightarrow> string list" where
  "reserved_option_keys tool = ''positive_control_required'' # entries_of runtime_option_table tool"

definition adapter_option_table :: "(string \<times> string list) list" where
  "adapter_option_table =
     [(''gpu_asan'', [''command'', ''attestation_path'']),
      (''triton_fpsan'', [''command'', ''comparison_command'', ''attestation_path'']),
      (''hip_fpsan'', [''command'', ''comparison_command'', ''attestation_path'']),
      (''rocjitsu'', [''command'', ''launcher'', ''capsule'', ''race_report'', ''expected_kernel'']),
      (''rocjitsu_waitcheck'', [''code_object'', ''expected_kernel'', ''kernel_entry'']),
      (''rocjitsu_consan'', [''code_object'', ''command'', ''oracle_command''])]"

definition argv_options :: "string list" where
  "argv_options = [''command'', ''comparison_command'', ''launcher'', ''oracle_command'']"

section \<open>Checkers\<close>

text \<open>\<open>_validate_keys\<close> and \<open>_timeout\<close>; every refusal is a \<open>ValueError\<close>.\<close>

definition validate_keys :: "pydict \<Rightarrow> string list \<Rightarrow> (py_exc, unit) result" where
  "validate_keys d allowed = guardR (list_all (\<lambda>kv. py_str (fst kv) \<in> set allowed) d) ValueErr"

fun timeout_value :: "pyval \<Rightarrow> int \<Rightarrow> (py_exc, int) result" where
  "timeout_value (PInt n) most = (if n \<le> 0 \<or> most < n then Inl ValueErr else Inr n)"
| "timeout_value _ most = Inl ValueErr"

fun as_mapping :: "pyval \<Rightarrow> (py_exc, pydict) result" where
  "as_mapping (PDict d) = Inr d"
| "as_mapping _ = Inl ValueErr"

fun nul_free_text :: "pyval \<Rightarrow> bool" where
  "nul_free_text (PStr s) = (strip s \<noteq> [] \<and> NUL \<notin> set s)"
| "nul_free_text _ = False"

fun argv_part :: "pyval \<Rightarrow> bool" where
  "argv_part (PStr s) = (s \<noteq> [] \<and> NUL \<notin> set s)"
| "argv_part _ = False"

fun argv_value :: "pyval \<Rightarrow> bool" where
  "argv_value (PList xs) = (xs \<noteq> [] \<and> list_all argv_part xs)"
| "argv_value _ = False"

fun entry_value :: "pyval \<Rightarrow> bool" where
  "entry_value (PStr s) = (case int_of_literal s of None \<Rightarrow> False | Some k \<Rightarrow> 0 \<le> k)"
| "entry_value (PInt k) = (0 \<le> k)"
| "entry_value _ = False"

definition option_value_ok :: "pyval \<times> pyval \<Rightarrow> bool" where
  "option_value_ok kv =
     (if fst kv \<in> PStr ` set argv_options then argv_value (snd kv)
      else if fst kv = PStr ''kernel_entry'' then entry_value (snd kv)
      else nul_free_text (snd kv))"

text \<open>\<open>_adapter_options\<close>.\<close>

definition adapter_options :: "string \<Rightarrow> pyval \<Rightarrow> (py_exc, pydict) result" where
  "adapter_options tool v =
     rbind (as_mapping v) (\<lambda>d.
     if list_ex (\<lambda>k. dhas d k) (''timeout_s'' # reserved_option_keys tool) then Inl ValueErr
     else
     rbind (validate_keys d (entries_of adapter_option_table tool @ [''capsule'', ''code_object''])) (\<lambda>_.
     if \<not> list_all option_value_ok d then Inl ValueErr else Inr d))"

section \<open>Configurations\<close>

record tool_config =
  cf_name :: string
  cf_runtime_ref :: "string option"
  cf_timeout_s :: int
  cf_options :: pydict

definition mk_tool_config ::
    "string \<Rightarrow> string option \<Rightarrow> pyval \<Rightarrow> pydict \<Rightarrow> (py_exc, tool_config) result" where
  "mk_tool_config name runtime_ref timeout options =
     rbind (tool_value name) (\<lambda>n.
     rbind (timeout_value timeout MAX_TOOL_TIMEOUT_SECONDS) (\<lambda>t.
     Inr \<lparr>cf_name = n, cf_runtime_ref = runtime_ref, cf_timeout_s = t, cf_options = options\<rparr>))"

text \<open>\<open>_canonical\<close>: dictionaries in the order of the texts of their keys.\<close>

fun canonical_value :: "pyval \<Rightarrow> pyval" where
  "canonical_value (PDict d) =
     PDict (dict_of (map (\<lambda>kv. (py_str (fst kv), snd kv))
       (sort_key (\<lambda>kv. py_str (fst kv)) (map (\<lambda>kv. (fst kv, canonical_value (snd kv))) d))))"
| "canonical_value (PList xs) = PList (map canonical_value xs)"
| "canonical_value v = v"

definition tool_config_to_dict :: "tool_config \<Rightarrow> pyval" where
  "tool_config_to_dict c = PDict
     [(PStr ''name'', PStr (cf_name c)), (PStr ''runtime_ref'', opt_text (cf_runtime_ref c)),
      (PStr ''timeout_s'', PInt (cf_timeout_s c)),
      (PStr ''options'', canonical_value (PDict (cf_options c)))]"

record eval_tools_config =
  ec_tools :: "tool_config list"
  ec_policy :: evaluation_policy
  ec_runtime_profile :: "string option"
  ec_positive_control_required :: bool
  ec_schema_version :: int

definition disabled_config :: eval_tools_config where
  "disabled_config =
     \<lparr>ec_tools = [], ec_policy = ADVISORY, ec_runtime_profile = None,
      ec_positive_control_required = True, ec_schema_version = PLAN_SCHEMA_VERSION\<rparr>"

definition enabled_tools :: "eval_tools_config \<Rightarrow> string list" where
  "enabled_tools c = map cf_name (ec_tools c)"

definition checked_config :: "eval_tools_config \<Rightarrow> (py_exc, eval_tools_config) result" where
  "checked_config c = (if distinct (enabled_tools c) then Inr c else Inl ValueErr)"

definition config_to_dict :: "eval_tools_config \<Rightarrow> pyval" where
  "config_to_dict c = PDict
     [(PStr ''schema_version'', PInt (ec_schema_version c)),
      (PStr ''policy'', member evaluation_policies (ec_policy c)),
      (PStr ''runtime_profile'', opt_text (ec_runtime_profile c)),
      (PStr ''positive_control_required'', PBool (ec_positive_control_required c)),
      (PStr ''tools'', PList (map tool_config_to_dict (ec_tools c)))]"

section \<open>\<open>EvalToolsConfig.from_mapping\<close>\<close>

text \<open>\<open>v in (None, False)\<close>.\<close>

definition none_or_false :: "pyval \<Rightarrow> bool" where
  "none_or_false v = (v = PNone \<or> py_eq v (PBool False))"

text \<open>The section to read; \<open>None\<close> keeps the tools disabled.\<close>

definition run_section :: "pyval \<Rightarrow> (py_exc, pydict option) result" where
  "run_section config =
     (if config = PNone then Inr None
      else
      rbind (as_mapping config) (\<lambda>d.
      if dhas d ''evaluation_tools'' then
        (let section = dget d ''evaluation_tools'' in
         if none_or_false section then Inr None
         else rbind (as_mapping section) (\<lambda>s. Inr (Some s)))
      else if d = [] \<or> list_ex (\<lambda>kv. py_str (fst kv) \<in> set run_section_keys) d then Inr (Some d)
      else Inr None))"

text \<open>\<open>str(v).strip() or None\<close>, of \<open>None\<close> itself \<open>None\<close>.\<close>

definition stripped_text :: "pyval \<Rightarrow> string option" where
  "stripped_text v =
     (if v = PNone then None else let s = strip (py_str v) in if s = [] then None else Some s)"

definition positive_control :: "pyval \<Rightarrow> (py_exc, bool) result" where
  "positive_control v =
     (case v of PBool b \<Rightarrow> Inr b
      | _ \<Rightarrow> let s = lower (strip (py_str v)) in
          if s \<in> {''required'', ''optional'', ''disabled''} then Inr (s = ''required'') else Inl ValueErr)"

fun split_blanks :: "string \<Rightarrow> string \<Rightarrow> string list" where
  "split_blanks w [] = (if w = [] then [] else [rev w])"
| "split_blanks w (c # cs) =
     (if py_isspace c then (if w = [] then split_blanks [] cs else rev w # split_blanks [] cs)
      else split_blanks (c # w) cs)"

definition enabled_values :: "string option \<Rightarrow> pyval \<Rightarrow> (py_exc, pyval list) result" where
  "enabled_values selected raw =
     (case selected of
        Some s \<Rightarrow> Inr (map PStr (split_blanks [] (replace_char CHR '','' CHR '' '' s)))
      | None \<Rightarrow>
          if raw = PBool True then Inr (map (\<lambda>t. PStr (snd t)) tool_names)
          else if none_or_false raw then Inr []
          else case raw of PStr s \<Rightarrow> Inr [PStr s] | PList xs \<Rightarrow> Inr xs | _ \<Rightarrow> Inl ValueErr)"

definition known_tool :: "string \<Rightarrow> bool" where
  "known_tool name = (name \<in> set (map snd tool_names))"

text \<open>The two names of a runtime identity must agree when both are given.\<close>

definition conflicting :: "pydict \<Rightarrow> bool" where
  "conflicting item =
     (dget item ''runtime_ref'' \<noteq> PNone \<and> dget item ''image_digest'' \<noteq> PNone
      \<and> \<not> py_eq (dget item ''runtime_ref'') (dget item ''image_digest''))"

definition check_timeout :: "pydict \<Rightarrow> (py_exc, unit) result" where
  "check_timeout item =
     (if dhas item ''timeout_s''
      then rbind (timeout_value (dget item ''timeout_s'') MAX_TOOL_TIMEOUT_SECONDS) (\<lambda>_. Inr ())
      else Inr ())"

type_synonym tool_table = "(string \<times> pydict) list"

text \<open>One entry of \<open>evaluation_tools.tools\<close>.\<close>

definition add_tool_item :: "tool_table \<Rightarrow> pyval \<times> pyval \<Rightarrow> (py_exc, tool_table) result" where
  "add_tool_item table kv =
     rbind (tool_value (py_str (fst kv))) (\<lambda>name.
     if \<not> known_tool name then Inl ValueErr
     else if name \<in> fst ` set table then Inl ValueErr
     else
     rbind (as_mapping (snd kv)) (\<lambda>item.
     rbind (validate_keys item tool_config_keys) (\<lambda>_.
     rbind (adapter_options name (dget_default item ''options'' (PDict []))) (\<lambda>_.
     rbind (check_timeout item) (\<lambda>_.
     if conflicting item then Inl ValueErr else Inr (table @ [(name, item)]))))))"

definition item_of :: "tool_table \<Rightarrow> string \<Rightarrow> pydict" where
  "item_of table name = (case map_of table name of Some d \<Rightarrow> d | None \<Rightarrow> [])"

definition upper :: "string \<Rightarrow> string" where
  "upper s = map (\<lambda>c. let n = (of_char c :: nat) in if 97 \<le> n \<and> n \<le> 122 then char_of (n - 32) else c) s"

definition runtime_env_name :: "string \<Rightarrow> string" where
  "runtime_env_name name = ''AKA_EVAL_TOOL_RUNTIME_REF_'' @ upper name"

text \<open>The image the host selected: an empty variable stays empty, a blank one is \<open>None\<close>.\<close>

definition resolved_ref :: "(string \<Rightarrow> string option) \<Rightarrow> string \<Rightarrow> string option" where
  "resolved_ref environ name =
     (case environ (runtime_env_name name) of None \<Rightarrow> None
      | Some s \<Rightarrow> if s = [] then Some [] else if strip s = [] then None else Some (strip s))"

definition has_text :: "string option \<Rightarrow> bool" where
  "has_text s = (case s of None \<Rightarrow> False | Some t \<Rightarrow> t \<noteq> [])"

definition text_or :: "string option \<Rightarrow> string option \<Rightarrow> string option" where
  "text_or a b = (if has_text a then a else b)"

definition authored_ref :: "pydict \<Rightarrow> string option" where
  "authored_ref item = stripped_text (dget_default item ''runtime_ref'' (dget item ''image_digest''))"

text \<open>One enabled tool.\<close>

definition enable_tool ::
    "(string \<Rightarrow> string option) \<Rightarrow> tool_table \<Rightarrow> int \<Rightarrow> bool \<Rightarrow> pyval \<Rightarrow> (py_exc, tool_config) result" where
  "enable_tool environ table default_timeout positive raw_name =
     rbind (tool_value (py_str raw_name)) (\<lambda>name.
     if \<not> known_tool name then Inl ValueErr
     else
     let item = item_of table name; authored = authored_ref item; resolved = resolved_ref environ name in
     if conflicting item then Inl ValueErr
     else if has_text authored \<and> has_text resolved \<and> authored \<noteq> resolved then Inl ValueErr
     else
     rbind (as_mapping (py_or (dget item ''options'') (PDict []))) (\<lambda>options.
     if list_ex (\<lambda>kv. py_str (fst kv) \<in> set (reserved_option_keys name)) options then Inl ValueErr
     else
     rbind (timeout_value (dget_default item ''timeout_s'' (PInt default_timeout)) default_timeout)
       (\<lambda>timeout.
     mk_tool_config name (text_or authored resolved) (PInt timeout)
       (dput options ''positive_control_required'' (PBool positive)))))"

definition from_section ::
    "(string \<Rightarrow> string option) \<Rightarrow> pydict \<Rightarrow> (py_exc, eval_tools_config) result" where
  "from_section environ section =
     rbind (validate_keys section run_section_keys) (\<lambda>_.
     rbind (enum_value evaluation_policies (dget_default section ''policy'' (PStr ''advisory''))) (\<lambda>policy.
     rbind (positive_control (dget_default section ''positive_control'' (PStr ''required''))) (\<lambda>positive.
     rbind (enabled_values (environ ''AKA_EVAL_TOOLS_SELECTED'')
              (dget_default section ''enabled'' (PList []))) (\<lambda>enabled.
     rbind (as_mapping (dget_default section ''tools'' (PDict []))) (\<lambda>raw_tools.
     rbind (foldR add_tool_item [] raw_tools) (\<lambda>table.
     rbind (timeout_value (dget_default section ''timeout_s'' (PInt MAX_TOOL_TIMEOUT_SECONDS))
              MAX_TOOL_TIMEOUT_SECONDS) (\<lambda>default_timeout.
     rbind (mapR (enable_tool environ table default_timeout positive) enabled) (\<lambda>tools.
     checked_config
       \<lparr>ec_tools = tools, ec_policy = policy,
        ec_runtime_profile = stripped_text (dget section ''runtime_profile''),
        ec_positive_control_required = positive,
        ec_schema_version = PLAN_SCHEMA_VERSION\<rparr>))))))))"

definition config_from_mapping ::
    "(string \<Rightarrow> string option) \<Rightarrow> pyval \<Rightarrow> (py_exc, eval_tools_config) result" where
  "config_from_mapping environ config =
     rbind (run_section config) (\<lambda>section.
     case section of None \<Rightarrow> Inr disabled_config | Some s \<Rightarrow> from_section environ s)"

section \<open>Plans\<close>

text \<open>The versions of the plugins, by name.\<close>

type_synonym versions = "(string \<times> string) list"

definition plan_payload ::
    "eval_tools_config \<Rightarrow> task_profile \<Rightarrow> versions \<Rightarrow> source_evidence \<Rightarrow> pyval" where
  "plan_payload config profile versions source = PDict
     [(PStr ''schema_version'', PInt (ec_schema_version config)),
      (PStr ''config'', config_to_dict config), (PStr ''profile'', profile_to_dict profile),
      (PStr ''plugin_versions'', PDict (map (\<lambda>(n, v). (PStr n, PStr v)) (sort_key fst versions))),
      (PStr ''source_evidence'', evidence_to_dict source)]"

definition plan_fingerprint ::
    "eval_tools_config \<Rightarrow> task_profile \<Rightarrow> versions \<Rightarrow> source_evidence \<Rightarrow> string" where
  "plan_fingerprint config profile versions source =
     sha256_hex (utf8 (json_dumps (canonical_value (plan_payload config profile versions source))))"

definition plan_tool ::
    "eval_tools_config \<Rightarrow> versions \<Rightarrow> tool_config \<Rightarrow> (py_exc, tool_plan) result" where
  "plan_tool config versions item =
     mk_tool_plan (cf_name item) (opt_text (text_or (cf_runtime_ref item) (ec_runtime_profile config)))
       (the (map_of versions (cf_name item))) (PInt (cf_timeout_s item)) (PDict (cf_options item))"

definition build_evaluation_plan ::
    "eval_tools_config \<Rightarrow> task_profile \<Rightarrow> versions \<Rightarrow> source_evidence \<Rightarrow> (py_exc, evaluation_plan) result" where
  "build_evaluation_plan config profile versions source =
     (if list_ex (\<lambda>item. cf_name item \<notin> fst ` set versions) (ec_tools config) then Inl KeyErr
      else
      rbind (mapR (plan_tool config versions) (ec_tools config)) (\<lambda>tools.
      mk_evaluation_plan (ec_schema_version config) (ec_policy config) profile tools
        (plan_fingerprint config profile versions source) source))"

section \<open>\<open>merge_task_tool_config\<close>\<close>

definition add_override :: "tool_table \<Rightarrow> pyval \<times> pyval \<Rightarrow> (py_exc, tool_table) result" where
  "add_override table kv =
     rbind (tool_value (py_str (fst kv))) (\<lambda>name.
     if name \<notin> fst ` set adapter_option_table then Inl ValueErr
     else if name \<in> fst ` set table then Inl ValueErr
     else
     rbind (as_mapping (snd kv)) (\<lambda>item.
     rbind (validate_keys item [''options'', ''timeout_s'']) (\<lambda>_.
     rbind (adapter_options name (dget_default item ''options'' (PDict []))) (\<lambda>_.
     rbind (check_timeout item) (\<lambda>_.
     Inr (table @ [(name, item)]))))))"

text \<open>\<open>{**a, **b}\<close>.\<close>

definition dmerge :: "pydict \<Rightarrow> pydict \<Rightarrow> pydict" where
  "dmerge a b = foldl (\<lambda>d (k, v). dset d k v) a b"

definition merge_tool :: "tool_table \<Rightarrow> tool_config \<Rightarrow> (py_exc, tool_config) result" where
  "merge_tool overrides base =
     (let override = item_of overrides (cf_name base) in
      rbind (timeout_value (dget_default override ''timeout_s'' (PInt (cf_timeout_s base)))
               (cf_timeout_s base)) (\<lambda>timeout.
      rbind (as_mapping (dget_default override ''options'' (PDict []))) (\<lambda>options.
      mk_tool_config (cf_name base) (cf_runtime_ref base) (PInt timeout)
        (dmerge (cf_options base) options))))"

definition merge_task_tool_config ::
    "eval_tools_config \<Rightarrow> pydict \<Rightarrow> (py_exc, eval_tools_config) result" where
  "merge_task_tool_config config task_config =
     rbind (as_mapping (dget_default task_config ''evaluation_tools'' (PDict []))) (\<lambda>section.
     rbind (validate_keys section [''tools'']) (\<lambda>_.
     rbind (as_mapping (dget_default section ''tools'' (PDict []))) (\<lambda>raw_tools.
     rbind (foldR add_override [] raw_tools) (\<lambda>overrides.
     rbind (mapR (merge_tool overrides) (ec_tools config)) (\<lambda>tools.
     checked_config (config\<lparr>ec_tools := tools\<rparr>))))))"

section \<open>The registry\<close>

text \<open>
  \<open>ToolRegistry\<close>: plugins by normalized name, in the order of registration.  \<open>_validate_plugin\<close>
  looks at attributes a HOL value always has, except the version, which must not be blank.
\<close>

type_synonym 'p registry = "(string \<times> 'p) list"

definition normalize_tool_name :: "string \<Rightarrow> (py_exc, string) result" where
  "normalize_tool_name s = tool_value s"

definition register ::
    "('p \<Rightarrow> string) \<Rightarrow> ('p \<Rightarrow> string) \<Rightarrow> 'p registry \<Rightarrow> 'p \<Rightarrow> bool \<Rightarrow> (py_exc, 'p registry) result" where
  "register name_of version_of reg plugin replace =
     (if strip (version_of plugin) = [] then Inl ValueErr
      else
      rbind (normalize_tool_name (name_of plugin)) (\<lambda>name.
      if name \<in> fst ` set reg \<and> \<not> replace then Inl ValueErr
      else Inr (AList.update name plugin reg)))"

definition unregister :: "'p registry \<Rightarrow> string \<Rightarrow> (py_exc, 'p \<times> 'p registry) result" where
  "unregister reg s =
     rbind (normalize_tool_name s) (\<lambda>name.
     case map_of reg name of None \<Rightarrow> Inl KeyErr | Some p \<Rightarrow> Inr (p, AList.delete name reg))"

definition get_plugin :: "'p registry \<Rightarrow> string \<Rightarrow> (py_exc, 'p) result" where
  "get_plugin reg s =
     rbind (normalize_tool_name s) (\<lambda>name.
     case map_of reg name of None \<Rightarrow> Inl KeyErr | Some p \<Rightarrow> Inr p)"

definition registered :: "'p registry \<Rightarrow> string \<Rightarrow> bool" where
  "registered reg s = (case normalize_tool_name s of Inl _ \<Rightarrow> False | Inr name \<Rightarrow> name \<in> fst ` set reg)"

definition plugin_versions ::
    "('p \<Rightarrow> string) \<Rightarrow> 'p registry \<Rightarrow> string list \<Rightarrow> (py_exc, versions) result" where
  "plugin_versions version_of reg names =
     rbind (mapR normalize_tool_name names) (\<lambda>selected.
     foldR (\<lambda>acc name. rbind (get_plugin reg name) (\<lambda>p. Inr (AList.update name (version_of p) acc)))
       [] selected)"

end
