(* ===== verification/EvalManager.thy ===== *)
theory EvalManager
  imports EvalConfig
begin

text \<open>
  \<open>src/eval_tools/manager.py\<close>: the policy, the evidence bound to a plan, and \<open>evaluate\<close>, which
  runs the registered plugins through a runtime.  Plugins and runtimes are the protocols
  \<open>ToolPlugin\<close> and \<open>RuntimeClient\<close>: any functions of their arguments and of the world \<open>'w\<close>
  they read and change.  A call returns an object of the expected class, an object of another
  class, raises an \<open>Exception\<close>, or ends with an exception that is none (\<open>SystemExit\<close>).
\<close>

section \<open>Policy\<close>

definition evaluation_reasons :: "tool_evaluation \<Rightarrow> string list" where
  "evaluation_reasons e =
     (let c = te_capability e; tool = tc_tool c; state = cc_state (tc_effective c) in
      if state = NOT_APPLICABLE then []
      else if \<not> capability_ready c then [tool @ '':capability:'' @ text_of capability_states state]
      else case te_result e of None \<Rightarrow> [tool @ '':missing_result'']
      | Some r \<Rightarrow>
          (if rr_execution r \<noteq> COMPLETED
           then [tool @ '':execution:'' @ text_of execution_statuses (rr_execution r)] else [])
          @ (if rr_finding r \<noteq> CLEAN
             then [tool @ '':finding:'' @ text_of finding_statuses (rr_finding r)] else []))"

definition evaluate_policy :: "evaluation_policy \<Rightarrow> tool_evaluation list \<Rightarrow> policy_decision" where
  "evaluate_policy policy evaluations =
     (let reasons = concat (map evaluation_reasons evaluations); satisfied = (reasons = []) in
      \<lparr>pd_policy = policy, pd_allowed = (policy = ADVISORY \<or> satisfied),
       pd_policy_satisfied = satisfied, pd_reasons = reasons\<rparr>)"

section \<open>Evidence\<close>

definition source_evidence_of ::
    "(string \<Rightarrow> string option) \<Rightarrow> source_evidence \<Rightarrow> string option \<Rightarrow> pyval \<Rightarrow> pyval \<Rightarrow> source_evidence" where
  "source_evidence_of environ base original_root original_fingerprint candidate_fingerprint =
     (let scoring = environ ''AKA_SCORING_IMAGE_RUNTIME_REF'' in
      \<lparr>se_original_root = (case original_root of Some r \<Rightarrow> PStr r | None \<Rightarrow> se_original_root base),
       se_original_fingerprint = py_or original_fingerprint (se_original_fingerprint base),
       se_candidate_fingerprint = py_or candidate_fingerprint (se_candidate_fingerprint base),
       se_metadata =
         (if has_text scoring
          then dput (se_metadata base) ''scoring_runtime''
            (PDict [(PStr ''image_id'', opt_text scoring),
                    (PStr ''reference'', opt_text (environ ''AKA_SCORING_IMAGE_REFERENCE''))])
          else se_metadata base)\<rparr>)"

text \<open>
  The file system as the evidence sees it: the path a path resolves to through symbolic links,
  and the contents of the regular files.
\<close>

record file_view =
  fv_resolve :: "string \<Rightarrow> string"
  fv_contents :: "string \<Rightarrow> string option"

text \<open>\<open>path.relative_to(ancestor)\<close>; \<open>None\<close> is \<open>ValueError\<close>.\<close>

definition path_relative_to :: "string \<Rightarrow> string \<Rightarrow> string option" where
  "path_relative_to path ancestor =
     (let p = posix_path path; r = posix_path ancestor in
      if fst p = fst r \<and> take (length (snd r)) (snd p) = snd r
      then Some (path_text ([], drop (length (snd r)) (snd p))) else None)"

text \<open>\<open>a / b\<close>: an absolute \<open>b\<close> replaces \<open>a\<close>.\<close>

definition path_join :: "string \<Rightarrow> string \<Rightarrow> string" where
  "path_join a b =
     (let p = posix_path a; q = posix_path b in
      path_text (if fst q \<noteq> [] then q else (fst p, snd p @ snd q)))"

definition artifact_record :: "file_view \<Rightarrow> string \<Rightarrow> string \<Rightarrow> pydict" where
  "artifact_record fs workspace raw =
     (let candidate = fv_resolve fs (path_join workspace raw) in
      (PStr ''configured_path'', PStr raw) #
      (case path_relative_to candidate workspace of
         None \<Rightarrow> [(PStr ''status'', PStr ''outside_workspace'')]
       | Some rel \<Rightarrow> (PStr ''workspace_relative_path'', PStr rel) #
           (case fv_contents fs candidate of
              Some bytes \<Rightarrow> [(PStr ''status'', PStr ''captured''), (PStr ''sha256'', PStr (sha256_hex bytes)),
                 (PStr ''size'', PInt (int (length bytes)))]
            | None \<Rightarrow> [(PStr ''status'', PStr ''missing'')])))"

definition tool_records :: "file_view \<Rightarrow> string \<Rightarrow> tool_config \<Rightarrow> pydict" where
  "tool_records fs workspace tool =
     concat (map (\<lambda>name. let raw = dget (cf_options tool) name in
         when_present (truthy raw) name (PDict (artifact_record fs workspace (py_str raw))))
       [''capsule'', ''code_object''])"

definition with_option_artifact_evidence ::
    "file_view \<Rightarrow> source_evidence \<Rightarrow> eval_tools_config \<Rightarrow> string \<Rightarrow> source_evidence" where
  "with_option_artifact_evidence fs evidence config workspace =
     (let ancestor = fv_resolve fs workspace;
          records = dict_of (concat (map (\<lambda>t. let r = tool_records fs ancestor t in
              if r = [] then [] else [(cf_name t, PDict r)]) (ec_tools config)))
      in if records = [] then evidence
         else evidence\<lparr>se_metadata := dput (se_metadata evidence) ''option_artifacts'' (PDict records)\<rparr>)"

section \<open>Results the manager makes itself\<close>

definition exception_result :: "string \<Rightarrow> string \<Rightarrow> execution_record option \<Rightarrow> tool_run_result" where
  "exception_result tool message record_option =
     \<lparr>rr_tool = tool,
      rr_execution = (case record_option of Some r \<Rightarrow> record_status r | None \<Rightarrow> TOOL_ERROR),
      rr_finding = INCONCLUSIVE, rr_findings = [], rr_summary = PStr message, rr_artifacts = [],
      rr_record = record_option, rr_metadata = [(PStr ''manager_error'', PStr message)]\<rparr>"

fun truncated_stream :: "pydict \<Rightarrow> string \<Rightarrow> bool" where
  "truncated_stream execution name =
     (case dget execution name of PDict s \<Rightarrow> dget s ''truncated'' = PBool True | _ \<Rightarrow> False)"

definition truncated_streams :: "execution_record \<Rightarrow> string list" where
  "truncated_streams r =
     (case dget (er_metadata r) ''execution'' of
        PDict execution \<Rightarrow> filter (truncated_stream execution) [''stdout'', ''stderr'']
      | _ \<Rightarrow> [])"

definition fail_closed_on_truncated_output :: "tool_run_result \<Rightarrow> tool_run_result" where
  "fail_closed_on_truncated_output r =
     (case rr_record r of
        Some e \<Rightarrow>
          if rr_finding r \<noteq> CLEAN \<or> truncated_streams e = [] then r
          else r\<lparr>rr_finding := INCONCLUSIVE,
                 rr_summary := PStr (''sanitizer output was truncated; absence of a finding cannot be trusted (''
                    @ join_by '', '' (truncated_streams e) @ '')''),
                 rr_metadata := dput (dput (rr_metadata r) ''reason_code'' (PStr ''OUTPUT_TRUNCATED''))
                    ''truncated_streams'' (strings (truncated_streams e))\<rparr>
      | None \<Rightarrow> r)"

section \<open>Plugins and runtimes\<close>

datatype 'a outcome = Returned 'a | WrongType string | Raised string | Exited string

text \<open>
  How \<open>evaluate\<close> itself can raise: with an exception of the plan, the \<open>OSError\<close> of a directory that
  could not be made, or an exception of a call that \<open>except Exception\<close> lets through.
\<close>

datatype manager_error = PlanError py_exc | MkdirError string | ExitError string

definition let_through :: "'a outcome \<times> 'w \<Rightarrow> (manager_error, 'a outcome) result \<times> 'w" where
  "let_through c = (case c of (Exited s, w) \<Rightarrow> (Inl (ExitError s), w) | (r, w) \<Rightarrow> (Inr r, w))"

record 'w plugin =
  pg_name :: string
  pg_version :: string
  pg_assess :: "tool_context \<Rightarrow> capability_check \<Rightarrow> 'w \<Rightarrow> tool_capability outcome \<times> 'w"
  pg_build :: "tool_context \<Rightarrow> 'w \<Rightarrow> tool_invocation outcome \<times> 'w"
  pg_parse :: "tool_context \<Rightarrow> execution_record \<Rightarrow> 'w \<Rightarrow> tool_run_result outcome \<times> 'w"

record 'w runtime =
  rt_probe :: "string \<Rightarrow> tool_context \<Rightarrow> 'w \<Rightarrow> capability_check outcome \<times> 'w"
  rt_execute :: "tool_invocation \<Rightarrow> tool_context \<Rightarrow> 'w \<Rightarrow> execution_record outcome \<times> 'w"

text \<open>
  The text of the failure of a call: of a wrong class \<open>what returned C, expected D\<close>, of an object
  for another tool, of an exception its own.
\<close>

definition failure_text :: "string \<Rightarrow> string \<Rightarrow> 'a outcome \<Rightarrow> string" where
  "failure_text what expected r =
     (case r of Raised s \<Rightarrow> s | WrongType t \<Rightarrow> what @ '' '' @ t @ '', expected '' @ expected
      | _ \<Rightarrow> [])"

definition blocked_runtime :: "string \<Rightarrow> capability_check" where
  "blocked_runtime message =
     \<lparr>cc_state = UNAVAILABLE_RUNTIME, cc_reason_code = PStr ''RUNTIME_PROBE_ERROR'',
      cc_detail = PStr message, cc_evidence = []\<rparr>"

definition probed :: "capability_check outcome \<Rightarrow> capability_check" where
  "probed r =
     (case r of Returned c \<Rightarrow> c
      | _ \<Rightarrow> blocked_runtime (failure_text ''runtime probe returned'' ''CapabilityCheck'' r))"

definition runtime_options :: "string \<Rightarrow> capability_check \<Rightarrow> pydict" where
  "runtime_options tool runtime =
     filter (\<lambda>kv. fst kv \<in> PStr ` set (entries_of runtime_option_table tool)) (cc_evidence runtime)"

definition failed_capability :: "string \<Rightarrow> string \<Rightarrow> capability_check \<Rightarrow> tool_capability" where
  "failed_capability tool message runtime =
     (let engine = \<lparr>cc_state = UNSUPPORTED, cc_reason_code = PStr ''PLUGIN_ASSESS_ERROR'',
            cc_detail = PStr message, cc_evidence = []\<rparr>
      in \<lparr>tc_tool = tool, tc_engine = engine, tc_adapter = ready_check [], tc_runtime = runtime,
          tc_effective = effective_capability engine (ready_check []) runtime\<rparr>)"

definition assessed :: "string \<Rightarrow> capability_check \<Rightarrow> tool_capability outcome \<Rightarrow> tool_capability" where
  "assessed tool runtime r =
     (case r of
        Returned c \<Rightarrow>
          if tc_tool c = tool then c
          else failed_capability tool
                 (''plugin returned capability for '' @ tc_tool c @ '', expected '' @ tool) runtime
      | _ \<Rightarrow> failed_capability tool (failure_text ''plugin assess returned'' ''ToolCapability'' r) runtime)"

definition built :: "tool_plan \<Rightarrow> string \<Rightarrow> tool_invocation outcome \<Rightarrow> (string, tool_invocation) result" where
  "built plan artifact_dir r =
     (case r of
        Returned i \<Rightarrow>
          if ti_tool i = pl_tool plan
          then Inr (i\<lparr>ti_timeout_s := pl_timeout_s plan, ti_artifact_dir := PStr artifact_dir\<rparr>)
          else Inl (''plugin built invocation for '' @ ti_tool i @ '', expected '' @ pl_tool plan)
      | _ \<Rightarrow> Inl (failure_text ''plugin invocation is'' ''ToolInvocation'' r))"

definition failed_execution :: "tool_invocation \<Rightarrow> string \<Rightarrow> execution_record" where
  "failed_execution i message =
     \<lparr>er_command = ti_command i, er_returncode = PNone, er_stdout = [], er_stderr = message,
      er_duration_s = Fin 0, er_timed_out = False,
      er_metadata = [(PStr ''runtime_execute_error'', PStr message)]\<rparr>"

definition parsed_result :: "string \<Rightarrow> execution_record \<Rightarrow> tool_run_result outcome \<Rightarrow> tool_run_result" where
  "parsed_result tool execution r =
     (let failed = (\<lambda>m. exception_result tool (''failed to parse tool output: '' @ m) (Some execution)) in
      case r of
        Returned x \<Rightarrow>
          if rr_tool x \<noteq> tool
          then failed (''plugin parsed result for '' @ rr_tool x @ '', expected '' @ tool)
          else fail_closed_on_truncated_output
                 (if rr_record x = None then x\<lparr>rr_record := Some execution\<rparr> else x)
      | _ \<Rightarrow> failed (failure_text ''plugin parse returned'' ''ToolRunResult'' r))"

section \<open>\<open>EvalToolManager.evaluate\<close>\<close>

text \<open>
  The arguments of one evaluation, and what is the same for all of its tools; \<open>in_uuid\<close> and \<open>in_mkdir\<close>
  are the identifiers drawn and \<open>mkdir(parents=True, exist_ok=False)\<close>, which may fail with a text.
\<close>

record 'w evaluation_input =
  in_registry :: "'w plugin registry"
  in_runtime :: "'w runtime"
  in_cwd :: string
  in_workspace :: string
  in_task_config :: pydict
  in_profile :: task_profile
  in_gpu_arch :: pyval
  in_artifact_root :: "string option"
  in_env :: "(string \<times> string) list"
  in_uuid :: "nat \<Rightarrow> string"
  in_mkdir :: "string \<Rightarrow> 'w \<Rightarrow> (string, unit) result \<times> 'w"

definition artifact_root_of :: "'w evaluation_input \<Rightarrow> string" where
  "artifact_root_of inp =
     (if has_text (in_artifact_root inp) then absolute_path (in_cwd inp) (the (in_artifact_root inp))
      else path_join (absolute_path (in_cwd inp) (in_workspace inp)) ''tool_reports'')"

definition artifact_dir_of :: "'w evaluation_input \<Rightarrow> evaluation_plan \<Rightarrow> nat \<Rightarrow> string \<Rightarrow> string" where
  "artifact_dir_of inp plan n tool =
     path_join (path_join (path_join (artifact_root_of inp) tool) (ev_fingerprint plan)) (in_uuid inp n)"

definition context_of :: "'w evaluation_input \<Rightarrow> evaluation_plan \<Rightarrow> nat \<Rightarrow> tool_plan \<Rightarrow> tool_context" where
  "context_of inp plan n p =
     \<lparr>tx_workspace = absolute_path (in_cwd inp) (in_workspace inp), tx_task_config = in_task_config inp,
      tx_profile = in_profile inp, tx_artifact_dir = artifact_dir_of inp plan n (pl_tool p),
      tx_gpu_arch = in_gpu_arch inp, tx_runtime_ref = pl_runtime_ref p, tx_env = in_env inp,
      tx_options = pl_options p, tx_source_evidence = ev_source_evidence plan\<rparr>"

text \<open>Running a tool whose capability is ready: build, execute, parse.\<close>

definition run_tool ::
    "'w plugin \<Rightarrow> 'w runtime \<Rightarrow> tool_plan \<Rightarrow> tool_context \<Rightarrow> 'w
     \<Rightarrow> (manager_error, tool_run_result) result \<times> 'w" where
  "run_tool plugin rt p context w =
     sbind (let_through (pg_build plugin context w)) (\<lambda>b w1.
     case built p (tx_artifact_dir context) b of
       Inl message \<Rightarrow> (Inr (exception_result (pl_tool p) (''failed to build invocation: '' @ message) None), w1)
     | Inr invocation \<Rightarrow>
         sbind (let_through (rt_execute rt invocation context w1)) (\<lambda>x w2.
         case x of
           Returned execution \<Rightarrow>
             sbind (let_through (pg_parse plugin context execution w2)) (\<lambda>r w3.
             (Inr (parsed_result (pl_tool p) execution r), w3))
         | _ \<Rightarrow>
             (let message = failure_text ''runtime returned'' ''ExecutionRecord'' x
              in (Inr (exception_result (pl_tool p) (''runtime execution failed: '' @ message)
                    (Some (failed_execution invocation message))), w2))))"

definition evaluate_tool ::
    "'w evaluation_input \<Rightarrow> evaluation_plan \<Rightarrow> nat \<Rightarrow> tool_plan \<Rightarrow> 'w
     \<Rightarrow> (manager_error, tool_evaluation) result \<times> 'w" where
  "evaluate_tool inp plan n p w =
     sbind (map_error PlanError (get_plugin (in_registry inp) (pl_tool p)), w) (\<lambda>plugin w.
     sbind (case in_mkdir inp (artifact_dir_of inp plan n (pl_tool p)) w of (r, w') \<Rightarrow> (map_error MkdirError r, w')) (\<lambda>_ w.
     let context = context_of inp plan n p in
     sbind (let_through (rt_probe (in_runtime inp) (pl_tool p) context w)) (\<lambda>pr w1.
     let runtime = probed pr;
         context' = context\<lparr>tx_options := dmerge (tx_options context) (runtime_options (pl_tool p) runtime)\<rparr> in
     sbind (let_through (pg_assess plugin context' runtime w1)) (\<lambda>ar w2.
     let capability = assessed (pl_tool p) runtime ar in
     if \<not> capability_ready capability then (map_error PlanError (mk_tool_evaluation capability None), w2)
     else sbind (run_tool plugin (in_runtime inp) p context' w2) (\<lambda>r w3.
          (map_error PlanError (mk_tool_evaluation capability (Some r)), w3))))))"

fun evaluate_tools ::
    "'w evaluation_input \<Rightarrow> evaluation_plan \<Rightarrow> nat \<Rightarrow> tool_plan list \<Rightarrow> 'w
     \<Rightarrow> (manager_error, tool_evaluation list) result \<times> 'w" where
  "evaluate_tools inp plan n [] w = (Inr [], w)"
| "evaluate_tools inp plan n (p # ps) w =
     (case evaluate_tool inp plan n p w of
        (Inl e, w1) \<Rightarrow> (Inl e, w1)
      | (Inr x, w1) \<Rightarrow>
          (case evaluate_tools inp plan (Suc n) ps w1 of
             (Inl e, w2) \<Rightarrow> (Inl e, w2) | (Inr xs, w2) \<Rightarrow> (Inr (x # xs), w2)))"

definition build_plan ::
    "'w plugin registry \<Rightarrow> eval_tools_config \<Rightarrow> task_profile \<Rightarrow> source_evidence
     \<Rightarrow> (py_exc, evaluation_plan) result" where
  "build_plan reg config profile evidence =
     rbind (plugin_versions pg_version reg (enabled_tools config)) (\<lambda>versions.
     build_evaluation_plan config profile versions evidence)"

text \<open>
  \<open>evaluate\<close> of a parsed configuration and a resolved profile; \<open>evidence\<close> is the source evidence
  with the artifacts of the options.
\<close>

definition evaluate ::
    "'w evaluation_input \<Rightarrow> eval_tools_config \<Rightarrow> source_evidence \<Rightarrow> 'w
     \<Rightarrow> (manager_error, evaluation_report) result \<times> 'w" where
  "evaluate inp config evidence w =
     (case build_plan (in_registry inp) config (in_profile inp) evidence of
        Inl e \<Rightarrow> (Inl (PlanError e), w)
      | Inr plan \<Rightarrow>
          (case evaluate_tools inp plan 0 (ev_tools plan) w of
             (Inl e, w') \<Rightarrow> (Inl e, w')
           | (Inr evaluations, w') \<Rightarrow>
               (map_error PlanError
                  (mk_evaluation_report plan evaluations (evaluate_policy (ev_policy plan) evaluations)), w')))"

text \<open>
  The evidence \<open>evaluate\<close> computes first: the given one with the scoring image and the files the
  options name.
\<close>

definition evaluate_run ::
    "(string \<Rightarrow> string option) \<Rightarrow> file_view \<Rightarrow> 'w evaluation_input \<Rightarrow> eval_tools_config \<Rightarrow> source_evidence
     \<Rightarrow> string option \<Rightarrow> pyval \<Rightarrow> pyval \<Rightarrow> 'w \<Rightarrow> (manager_error, evaluation_report) result \<times> 'w" where
  "evaluate_run environ fs inp config original original_root original_fingerprint candidate_fingerprint w =
     evaluate inp config
       (with_option_artifact_evidence fs
          (source_evidence_of environ original original_root original_fingerprint candidate_fingerprint)
          config (absolute_path (in_cwd inp) (in_workspace inp))) w"

end
