(* ===== verification/RuntimeClient.thy ===== *)
theory RuntimeClient
  imports EvalManager
begin

text \<open>
  \<open>src/eval_tools/runtime_client.py\<close>: the transport to the tool sidecars.  The socket is a
  parameter (the chunks it delivers, the health a worker reports, its response to a request), and
  so are the file system (\<open>resolve\<close> and the contents of the log files) and the text a log's bytes
  decode to.  What the client makes of them is modelled: the bound on a response, its checks, the
  paths that cross the boundary, the readiness of a runtime, and the record of an execution.
\<close>

section \<open>Errors and checkers\<close>

datatype client_error = RpcError string string | ClientExc py_exc

text \<open>\<open>str.isalnum\<close> on one code point below 256.\<close>

definition py_isalnum :: "char \<Rightarrow> bool" where
  "py_isalnum c =
     (let n = (of_char c :: nat) in
      is_digit c \<or> is_alpha c \<or> n \<in> {170, 178, 179, 181, 185, 186, 188, 189, 190}
      \<or> 192 \<le> n \<and> n \<noteq> 215 \<and> n \<noteq> 247)"

definition hex_lower :: "char \<Rightarrow> bool" where
  "hex_lower c = (let n = (of_char c :: nat) in is_digit c \<or> 97 \<le> n \<and> n \<le> 102)"

fun is_sha256 :: "pyval \<Rightarrow> bool" where
  "is_sha256 (PStr s) = (length s = 64 \<and> list_all hex_lower s)"
| "is_sha256 _ = False"

definition safe_tool_id :: "string \<Rightarrow> (client_error, string) result" where
  "safe_tool_id tool =
     (if tool = [] \<or> \<not> list_all (\<lambda>c. py_isalnum c \<or> c \<in> {CHR ''_'', CHR ''.'', CHR ''-''}) tool
      then Inl (ClientExc ValueErr) else Inr tool)"

definition validate_relative_rpc_path :: "string \<Rightarrow> (client_error, string) result" where
  "validate_relative_rpc_path v =
     (if v = [] \<or> NUL \<in> set v \<or> CHR 0x5C \<in> set v then Inl (ClientExc ValueErr)
      else let p = posix_path v in
        if fst p \<noteq> [] \<or> ''..'' \<in> set (snd p) then Inl (ClientExc ValueErr) else Inr (path_text p))"

definition socket_path_for_tool :: "string \<Rightarrow> string \<Rightarrow> (client_error, string) result" where
  "socket_path_for_tool tool directory =
     rbind (safe_tool_id tool) (\<lambda>t. Inr (path_join directory (t @ ''.sock'')))"

section \<open>One RPC\<close>

definition invalid_response :: "string \<Rightarrow> client_error" where
  "invalid_response message = RpcError ''INVALID_RESPONSE'' message"

text \<open>
  \<open>_receive_line\<close>: the chunks the socket delivers, each at most what the code asks for; an empty
  chunk, like the end of the list, is a closed socket.
\<close>

fun receive_line :: "nat \<Rightarrow> nat \<Rightarrow> string list \<Rightarrow> (client_error, string) result" where
  "receive_line limit received [] =
     Inl (invalid_response ''worker closed the socket without a response'')"
| "receive_line limit received (chunk # chunks) =
     (let c = take (min 65536 (limit + 1 - received)) chunk in
      if c = [] then Inl (invalid_response ''worker closed the socket without a response'')
      else if CHR 0x0A \<in> set c then
        (let l = takeWhile (\<lambda>x. x \<noteq> CHR 0x0A) c in
         if limit < received + length l then Inl (invalid_response ''worker response exceeded size limit'')
         else Inr l)
      else if limit < received + length c then Inl (invalid_response ''worker response exceeded size limit'')
      else rbind (receive_line limit (received + length c) chunks) (\<lambda>rest. Inr (c @ rest)))"

definition method_ok :: "string \<Rightarrow> bool" where
  "method_ok m =
     (let s = filter (\<lambda>c. c \<noteq> CHR ''_'') m in m \<noteq> [] \<and> s \<noteq> [] \<and> list_all py_isalnum s)"

text \<open>The checks of \<open>call\<close> on the decoded response; \<open>None\<close> is a line that is not JSON.\<close>

definition rejection :: "pyval \<Rightarrow> client_error" where
  "rejection e =
     (case e of
        PDict d \<Rightarrow> RpcError (py_str (py_or (dget d ''code'') (PStr ''WORKER_ERROR'')))
                          (py_str (py_or (dget d ''message'') (PStr ''worker rejected request'')))
      | _ \<Rightarrow> RpcError ''WORKER_ERROR'' (py_str (py_or e (PStr ''worker rejected request''))))"

definition checked_response :: "string \<Rightarrow> pyval option \<Rightarrow> (client_error, pydict) result" where
  "checked_response request_id response =
     (case response of None \<Rightarrow> Inl (invalid_response ''worker returned invalid JSON'')
      | Some (PDict d) \<Rightarrow>
          if dget d ''id'' \<noteq> PStr request_id then Inl (invalid_response ''worker returned a mismatched response'')
          else if dget d ''ok'' \<noteq> PBool True then Inl (rejection (dget d ''error''))
          else (case dget d ''result'' of PDict r \<Rightarrow> Inr r
                | _ \<Rightarrow> Inl (invalid_response ''worker result must be an object''))
      | _ \<Rightarrow> Inl (invalid_response ''worker returned a mismatched response''))"

text \<open>
  \<open>call\<close>: \<open>delivered\<close> are the chunks of the connection, or its failure; \<open>decode\<close> is
  \<open>json.loads\<close> of the received bytes.
\<close>

definition rpc_call ::
    "string \<Rightarrow> nat \<Rightarrow> string \<Rightarrow> (client_error, string list) result \<Rightarrow> (string \<Rightarrow> pyval option)
     \<Rightarrow> (client_error, pydict) result" where
  "rpc_call method limit request_id delivered decode =
     (if \<not> method_ok method then Inl (ClientExc ValueErr)
      else
      rbind delivered (\<lambda>chunks.
      rbind (receive_line limit 0 chunks) (\<lambda>l. checked_response request_id (decode l))))"

section \<open>Readiness\<close>

definition required_assets :: "(string \<times> string list) list" where
  "required_assets =
     [(''triton_fpsan'', [''triton_fpsan'']),
      (''gpu_asan'', [''asan_runtime_dir'', ''hip_asan_runtime'', ''host_asan_preload'',
         ''host_asan_lib_dir'', ''normal_rocm_lib_dir'', ''xnack_supported'']),
      (''rocjitsu'', [''rocjitsu_binary'', ''config_path'']),
      (''rocjitsu_waitcheck'', [''waitcheck_binary'', ''waitcheck_capi_wrapper'', ''target_arch'']),
      (''rocjitsu_consan'', [''consan_hook'', ''target_arch'', ''gpu_arch'']),
      (''hip_fpsan'', [''include_dir'', ''public_header'', ''hip_fpsan_headers''])]"

definition builtin_probes :: "(string \<times> string list) list" where
  "builtin_probes =
     [(''triton_fpsan'', [''triton_fpsan_probe.py'']),
      (''gpu_asan'', [''gpu_asan_probe.hip'', ''triton_asan_probe.py'']),
      (''rocjitsu'', [''rocjitsu_race_probe.hip'']),
      (''rocjitsu_waitcheck'', [''waitcheck_probe.hip'']),
      (''rocjitsu_consan'', [''consan_probe.hip'', ''consan_module_launcher.hip'']),
      (''hip_fpsan'', [''hip_fpsan_probe.hip''])]"

definition image_framework_root :: string where "image_framework_root = ''/opt/aka-eval-tools''"

text \<open>
  \<open>CapabilityCheck.ready\<close> and \<open>blocked\<close> with the evidence as keyword arguments after others:
  a name given twice, or that of a parameter, is a \<open>TypeError\<close>.
\<close>

definition keyword_evidence :: "string list \<Rightarrow> pydict \<Rightarrow> pydict \<Rightarrow> (client_error, pydict) result" where
  "keyword_evidence parameters given_first evidence =
     (if list_ex (\<lambda>kv. fst kv \<in> PStr ` set parameters \<or> fst kv \<in> fst ` set given_first) evidence
      then Inl (ClientExc TypeErr) else Inr (given_first @ evidence))"

definition unavailable ::
    "string \<Rightarrow> string \<Rightarrow> pydict \<Rightarrow> pydict \<Rightarrow> (client_error, capability_check) result" where
  "unavailable code detail given_first evidence =
     rbind (keyword_evidence [''cls'', ''state'', ''reason_code'', ''detail''] given_first evidence) (\<lambda>e.
     Inr \<lparr>cc_state = UNAVAILABLE_RUNTIME, cc_reason_code = PStr code, cc_detail = PStr detail,
          cc_evidence = e\<rparr>)"

definition ready_runtime :: "pydict \<Rightarrow> pydict \<Rightarrow> (client_error, capability_check) result" where
  "ready_runtime given_first evidence =
     rbind (keyword_evidence [''cls''] given_first evidence) (\<lambda>e. Inr (ready_check e))"

definition missing_assets :: "string \<Rightarrow> pydict \<Rightarrow> string list" where
  "missing_assets tool evidence =
     filter (\<lambda>n. \<not> truthy (dget evidence n)) (entries_of required_assets tool)"

definition framework_valid :: "string \<Rightarrow> pydict \<Rightarrow> bool" where
  "framework_valid tool evidence =
     (dget evidence ''framework_root'' = PStr image_framework_root
      \<and> dget evidence ''framework_source'' \<in> {PStr ''configured_image'', PStr ''image_default''}
      \<and> dget evidence ''worker_module'' = PStr (image_framework_root @ ''/src/eval_tools/worker.py'')
      \<and> is_sha256 (dget evidence ''worker_module_sha256'')
      \<and> (case dget evidence ''probe_manifest'' of
           PDict m \<Rightarrow> list_all (\<lambda>n. is_sha256 (dget m n)) (entries_of builtin_probes tool) | _ \<Rightarrow> False))"

definition positive_required :: "tool_context \<Rightarrow> bool" where
  "positive_required context =
     (case dget_default (tx_options context) ''positive_control_required'' (PBool False) of
        PBool b \<Rightarrow> b
      | v \<Rightarrow> lower (strip (py_str v)) \<in> {''1'', ''true'', ''yes'', ''on'', ''required''})"

definition selected_positive :: "string \<Rightarrow> tool_context \<Rightarrow> pydict \<Rightarrow> pyval" where
  "selected_positive tool context evidence =
     (let positive = dget evidence ''positive_control'' in
      case (tool = ''gpu_asan'', positive) of
        (True, PDict p) \<Rightarrow>
          (case dget p ''controls'' of
             PDict controls \<Rightarrow>
               dget controls
                 (if tp_language (tx_profile context) = TRITON \<or> tp_framework (tx_profile context) = ''triton''
                  then ''triton'' else ''hip'')
           | _ \<Rightarrow> positive)
      | _ \<Rightarrow> positive)"

definition control_passed :: "pyval \<Rightarrow> bool" where
  "control_passed v = (case v of PDict d \<Rightarrow> dget d ''passed'' = PBool True | _ \<Rightarrow> False)"

definition control_detail :: "pyval \<Rightarrow> string" where
  "control_detail v =
     ''required synthetic positive control did not pass: '' @
     (case v of PDict d \<Rightarrow> py_str (py_or (dget d ''detail'') (dget d ''kind''))
      | _ \<Rightarrow> ''missing positive-control evidence'')"

text \<open>The checks of \<open>probe\<close> on the evidence of a worker that identified itself.\<close>

definition probe_evidence ::
    "string \<Rightarrow> tool_context \<Rightarrow> pydict \<Rightarrow> pydict \<Rightarrow> (client_error, capability_check) result" where
  "probe_evidence tool context health evidence =
     (let expected = tx_runtime_ref context; actual = dget evidence ''runtime_ref'' in
      if truthy expected \<and> \<not> py_eq actual expected then
        unavailable ''RUNTIME_REF_MISMATCH''
          (''configured runtime_ref '' @ py_repr expected @ '' does not match sidecar image ID '' @ py_repr actual)
          [] evidence
      else if missing_assets tool evidence \<noteq> [] then
        unavailable ''RUNTIME_ASSET_MISSING''
          (''sidecar is missing required runtime evidence: '' @ join_by '', '' (missing_assets tool evidence))
          [(PStr ''runtime'', PStr ''unix_socket_sidecar''),
           (PStr ''protocol_version'', dget health ''protocol_version'')] evidence
      else if tool \<in> fst ` set builtin_probes
          \<and> dget evidence ''framework_root'' = PStr image_framework_root
          \<and> \<not> hashable (dget evidence ''framework_source'') then Inl (ClientExc TypeErr)
      else if tool \<in> fst ` set builtin_probes \<and> \<not> framework_valid tool evidence then
        unavailable ''INVALID_FRAMEWORK_PROVENANCE''
          ''sidecar worker and startup probes were not loaded from the image-owned evaluation framework''
          [] evidence
      else if positive_required context \<and> \<not> control_passed (selected_positive tool context evidence) then
        unavailable ''POSITIVE_CONTROL_FAILED'' (control_detail (selected_positive tool context evidence))
          [] evidence
      else
        ready_runtime
          [(PStr ''runtime'', PStr ''unix_socket_sidecar''),
           (PStr ''protocol_version'', dget health ''protocol_version''),
           (PStr ''worker_pid'', dget health ''pid'')] evidence)"

text \<open>
  \<open>probe\<close>, on what the health call returned; its only \<open>ValueError\<close> is that of the tool's id.
\<close>

definition probe ::
    "string \<Rightarrow> tool_context \<Rightarrow> (client_error, pydict) result \<Rightarrow> (client_error, capability_check) result" where
  "probe tool context answer =
     (case answer of
        Inl (RpcError code message) \<Rightarrow> unavailable code message [] []
      | Inl (ClientExc ValueErr) \<Rightarrow>
          unavailable ''UNAVAILABLE_RUNTIME''
            (if tool = [] then ''tool must be a non-empty string'' else ''invalid tool id: '' @ str_repr tool) [] []
      | Inl e \<Rightarrow> Inl e
      | Inr health \<Rightarrow>
          if \<not> hashable (dget health ''status'') then Inl (ClientExc TypeErr)
          else if dget health ''status'' \<notin> {PStr ''ready'', PStr ''degraded''} \<or> dget health ''tool'' \<noteq> PStr tool then
            unavailable ''INVALID_RUNTIME_IDENTITY''
              (''sidecar health response did not identify tool '' @ str_repr tool)
              [(PStr ''health'', PDict health)] []
          else
          (case dget_default health ''evidence'' (PDict []) of
             PDict raw \<Rightarrow>
               probe_evidence tool context health (dput raw ''worker_status'' (dget health ''status''))
           | _ \<Rightarrow> unavailable ''INVALID_RUNTIME_EVIDENCE'' ''sidecar health evidence was not an object'' [] []))"

section \<open>Paths across the boundary\<close>

text \<open>The client's roots and the file system it resolves paths in.\<close>

record client_roots =
  cr_scoring :: string
  cr_artifact :: string
  cr_sidecar_input :: string
  cr_sidecar_artifact :: string
  cr_resolve :: "string \<Rightarrow> string"
  cr_stdout_limit :: "int option"
  cr_stderr_limit :: "int option"

definition absolute_only :: "client_roots \<Rightarrow> string \<Rightarrow> (client_error, string) result" where
  "absolute_only cr v =
     (if fst (posix_path v) = [] then Inl (ClientExc ValueErr) else Inr (cr_resolve cr (path_text (posix_path v))))"

definition relative_below :: "client_roots \<Rightarrow> string \<Rightarrow> string \<Rightarrow> (client_error, string) result" where
  "relative_below cr path ancestor =
     (case path_relative_to (cr_resolve cr path) ancestor of
        None \<Rightarrow> Inl (ClientExc ValueErr) | Some r \<Rightarrow> validate_relative_rpc_path r)"

definition map_cwd ::
    "client_roots \<Rightarrow> tool_invocation \<Rightarrow> tool_context \<Rightarrow> (client_error, string \<times> string) result" where
  "map_cwd cr invocation context =
     rbind (absolute_only cr (ti_cwd invocation)) (\<lambda>cwd.
     rbind (absolute_only cr (tx_workspace context)) (\<lambda>workspace.
     rbind (relative_below cr cwd workspace) (\<lambda>_.
     rbind (relative_below cr cwd (cr_scoring cr)) (\<lambda>relative.
     Inr (''input'', relative)))))"

fun path_argument :: "pyval \<Rightarrow> (client_error, string) result" where
  "path_argument (PStr s) = Inr s"
| "path_argument _ = Inl (ClientExc TypeErr)"

definition map_artifact_dir ::
    "client_roots \<Rightarrow> tool_invocation \<Rightarrow> tool_context \<Rightarrow> (client_error, string \<times> string) result" where
  "map_artifact_dir cr invocation context =
     rbind (rbind (path_argument (py_or (ti_artifact_dir invocation) (PStr (tx_artifact_dir context))))
              (absolute_only cr)) (\<lambda>artifact_dir.
     rbind (absolute_only cr (tx_artifact_dir context)) (\<lambda>context_dir.
     rbind (relative_below cr artifact_dir context_dir) (\<lambda>_.
     rbind (relative_below cr artifact_dir (cr_artifact cr)) (\<lambda>relative.
     Inr (relative, artifact_dir)))))"

definition translate_absolute_path :: "client_roots \<Rightarrow> string \<Rightarrow> string" where
  "translate_absolute_path cr v =
     (if \<not> starts_with ''/'' v \<or> NUL \<in> set v then v
      else let path = cr_resolve cr v in
        case path_relative_to path (cr_artifact cr) of
          Some relative \<Rightarrow> path_join (cr_sidecar_artifact cr) relative
        | None \<Rightarrow>
            (case path_relative_to path (cr_scoring cr) of
               Some relative \<Rightarrow> path_join (cr_sidecar_input cr) relative
             | None \<Rightarrow> v))"

definition translate_argument :: "client_roots \<Rightarrow> string \<Rightarrow> string" where
  "translate_argument cr a =
     (let t = translate_absolute_path cr a in
      if t \<noteq> a then t
      else if starts_with ''-I/'' a then ''-I'' @ translate_absolute_path cr (drop 2 a)
      else if starts_with ''-L/'' a then ''-L'' @ translate_absolute_path cr (drop 2 a)
      else if CHR ''='' \<in> set a then
        (let p = takeWhile (\<lambda>c. c \<noteq> CHR ''='') a; v = drop (Suc (length p)) a in
         if starts_with ''/'' v then p @ ''='' @ translate_absolute_path cr v else a)
      else a)"

definition translate_environment :: "client_roots \<Rightarrow> (string \<times> string) list \<Rightarrow> (string \<times> string) list" where
  "translate_environment cr e =
     map (\<lambda>(k, v). (k, if starts_with ''/'' v \<and> CHR '':'' \<notin> set v then translate_absolute_path cr v else v)) e"

section \<open>Executions\<close>

text \<open>\<open>_read_bounded_log\<close>: the bytes of the file at the path, and the size the worker reported.\<close>

definition read_bounded_log ::
    "(string \<Rightarrow> string) \<Rightarrow> string option \<Rightarrow> pyval \<Rightarrow> (client_error, string) result" where
  "read_bounded_log decode bytes expected =
     rbind (case py_int expected of
              Inr n \<Rightarrow> Inr n
            | Inl e \<Rightarrow> if e = TypeErr \<or> e = ValueErr then Inl (invalid_response ''worker returned invalid log metadata'')
                       else Inl (ClientExc e)) (\<lambda>size.
     if size < 0 then Inl (invalid_response ''worker returned invalid log size'')
     else case bytes of
       None \<Rightarrow> Inl (RpcError ''MISSING_ARTIFACT'' ''could not read evaluation-tool log artifact'')
     | Some b \<Rightarrow>
         if length (take (nat size + 1) b) \<noteq> nat size
         then Inl (invalid_response ''evaluation-tool log size did not match worker metadata'')
         else Inr (decode (take (nat size + 1) b)))"

record client_env =
  ce_roots :: client_roots
  ce_bytes :: "string \<Rightarrow> string option"
  ce_decode :: "string \<Rightarrow> string"

definition log_path :: "client_roots \<Rightarrow> string \<Rightarrow> string \<Rightarrow> (client_error, string) result" where
  "log_path cr artifact_relative relative_log =
     (let path = cr_resolve cr (path_join (cr_artifact cr) relative_log) in
      rbind (relative_below cr path (cr_artifact cr)) (\<lambda>_.
      rbind (relative_below cr path (cr_resolve cr (path_join (cr_artifact cr) artifact_relative))) (\<lambda>_.
      Inr path)))"

definition read_stream ::
    "client_env \<Rightarrow> string \<Rightarrow> pydict \<Rightarrow> string \<Rightarrow> (client_error, string) result" where
  "read_stream ce artifact_relative execution name =
     (case dget execution name of
        PDict stream \<Rightarrow>
          rbind (validate_relative_rpc_path (py_str (py_or (dget stream ''path'') (PStr [])))) (\<lambda>relative_log.
          rbind (log_path (ce_roots ce) artifact_relative relative_log) (\<lambda>path.
          read_bounded_log (ce_decode ce) (ce_bytes ce path) (dget stream ''bytes_written'')))
      | _ \<Rightarrow> Inl (invalid_response (''worker response omitted '' @ name @ '' metadata'')))"

definition int_or_invalid :: "string \<Rightarrow> pyval \<Rightarrow> (client_error, int) result" where
  "int_or_invalid what v =
     (case py_int v of Inr n \<Rightarrow> Inr n
      | Inl e \<Rightarrow> if e = TypeErr \<or> e = ValueErr then Inl (invalid_response what) else Inl (ClientExc e))"

definition return_code :: "pydict \<Rightarrow> (client_error, pyval) result" where
  "return_code execution =
     (if dget execution ''cleanup_required'' = PBool True then Inr PNone
      else if dget execution ''exit_code'' \<noteq> PNone then
        rbind (int_or_invalid ''worker returned invalid exit code'' (dget execution ''exit_code'')) (\<lambda>n. Inr (PInt n))
      else if dget execution ''signal'' \<noteq> PNone then
        rbind (int_or_invalid ''worker returned invalid signal'' (dget execution ''signal'')) (\<lambda>n. Inr (PInt (- n)))
      else Inr PNone)"

definition duration_seconds :: "pydict \<Rightarrow> (client_error, pyfloat) result" where
  "duration_seconds execution =
     (case rbind (py_float (dget_default execution ''duration_ms'' (PInt 0))) (\<lambda>d. fdiv d (Fin 1000)) of
        Inr s \<Rightarrow> Inr s
      | Inl e \<Rightarrow> if e = TypeErr \<or> e = ValueErr then Inl (invalid_response ''worker returned invalid duration'')
                 else Inl (ClientExc e))"

text \<open>What \<open>execute\<close> makes of the worker's response.\<close>

definition record_of_response ::
    "client_env \<Rightarrow> tool_invocation \<Rightarrow> string \<Rightarrow> pydict \<Rightarrow> (client_error, execution_record) result" where
  "record_of_response ce invocation artifact_relative response =
     (if dget response ''tool'' \<noteq> PStr (ti_tool invocation)
      then Inl (invalid_response ''worker result tool did not match invocation'')
      else
      (case dget response ''execution'' of
         PDict execution \<Rightarrow>
           rbind (read_stream ce artifact_relative execution ''stdout'') (\<lambda>out.
           rbind (read_stream ce artifact_relative execution ''stderr'') (\<lambda>err.
           rbind (return_code execution) (\<lambda>returncode.
           rbind (duration_seconds execution) (\<lambda>seconds.
           Inr \<lparr>er_command = ti_command invocation, er_returncode = returncode, er_stdout = out,
                er_stderr = err, er_duration_s = duration seconds,
                er_timed_out = truthy (dget_default execution ''timed_out'' (PBool False)),
                er_metadata = dput (dput (dput (ti_metadata invocation) ''runtime'' (PStr ''unix_socket_sidecar''))
                   ''tool'' (PStr (ti_tool invocation))) ''execution'' (PDict execution)\<rparr>))))
       | _ \<Rightarrow> Inl (invalid_response ''worker response omitted execution metadata'')))"

definition byte_limit :: "string \<Rightarrow> int option \<Rightarrow> pydict" where
  "byte_limit k limit = (case limit of None \<Rightarrow> [] | Some n \<Rightarrow> [(PStr k, PInt n)])"

definition execute_request ::
    "client_roots \<Rightarrow> tool_invocation \<Rightarrow> tool_context \<Rightarrow> string \<times> string \<Rightarrow> string \<Rightarrow> pydict" where
  "execute_request cr invocation context cwd artifact_relative =
     [(PStr ''argv'', strings (map (translate_argument cr) (ti_command invocation))),
      (PStr ''cwd'', PDict [(PStr ''root'', PStr (fst cwd)), (PStr ''path'', PStr (snd cwd))]),
      (PStr ''artifact_dir'', PStr artifact_relative), (PStr ''timeout_s'', PInt (ti_timeout_s invocation)),
      (PStr ''env'', env_dict (translate_environment cr
         (foldl (\<lambda>e (k, v). AList.update k v e) (tx_env context) (ti_env invocation))))]
     @ byte_limit ''stdout_limit_bytes'' (cr_stdout_limit cr)
     @ byte_limit ''stderr_limit_bytes'' (cr_stderr_limit cr)"

text \<open>The part of \<open>execute\<close> before the RPC: the request and the relative artifact directory.\<close>

definition prepare_request ::
    "client_roots \<Rightarrow> tool_invocation \<Rightarrow> tool_context \<Rightarrow> (client_error, pydict \<times> string) result" where
  "prepare_request cr invocation context =
     (if ti_shell invocation then Inl (ClientExc ValueErr)
      else
      rbind (map_cwd cr invocation context) (\<lambda>cwd.
      rbind (map_artifact_dir cr invocation context) (\<lambda>(artifact_relative, _).
      Inr (execute_request cr invocation context cwd artifact_relative, artifact_relative))))"

section \<open>The sidecars as a runtime\<close>

text \<open>
  \<open>health\<close> and \<open>answer\<close> are the two calls to the worker of a tool, in a world they may change;
  \<open>files\<close> is what the client sees of it, \<open>message\<close> the text of an exception.
\<close>

definition outcome_of :: "(client_error \<Rightarrow> string) \<Rightarrow> (client_error, 'a) result \<Rightarrow> 'a outcome" where
  "outcome_of message r = (case r of Inr x \<Rightarrow> Returned x | Inl e \<Rightarrow> Raised (message e))"

definition sidecar_execute ::
    "(string \<Rightarrow> pydict \<Rightarrow> 'w \<Rightarrow> (client_error, pydict) result \<times> 'w) \<Rightarrow> ('w \<Rightarrow> client_env)
     \<Rightarrow> tool_invocation \<Rightarrow> tool_context \<Rightarrow> 'w \<Rightarrow> (client_error, execution_record) result \<times> 'w" where
  "sidecar_execute answer files invocation context w =
     (case prepare_request (ce_roots (files w)) invocation context of
        Inl e \<Rightarrow> (Inl e, w)
      | Inr (request, artifact_relative) \<Rightarrow>
          (let (response, w') = answer (ti_tool invocation) request w
           in (rbind response (record_of_response (files w') invocation artifact_relative), w')))"

definition sidecar_runtime ::
    "(client_error \<Rightarrow> string) \<Rightarrow> (string \<Rightarrow> 'w \<Rightarrow> (client_error, pydict) result \<times> 'w)
     \<Rightarrow> (string \<Rightarrow> pydict \<Rightarrow> 'w \<Rightarrow> (client_error, pydict) result \<times> 'w) \<Rightarrow> ('w \<Rightarrow> client_env) \<Rightarrow> 'w runtime" where
  "sidecar_runtime message health answer files =
     \<lparr>rt_probe = (\<lambda>tool context w.
        let (h, w') = health tool w in (outcome_of message (probe tool context h), w')),
      rt_execute = (\<lambda>invocation context w.
        let (r, w') = sidecar_execute answer files invocation context w in (outcome_of message r, w'))\<rparr>"

end
