(* ===== verification/EvalNormal.thy ===== *)
theory EvalNormal
  imports EvalResults
begin

text \<open>
  Normal forms of the texts, paths, dictionaries and enumerations in the evaluation contracts:
  every normalization of a constructor is idempotent, so a value that was constructed once is
  left as it is when it is constructed again.
\<close>

section \<open>Text normalization\<close>

lemma isspace_lower_char [simp]: "py_isspace (lower_char c) = py_isspace c"
proof -
  have "(of_char c :: nat) < 256" by simp
  then show ?thesis by (auto simp: py_isspace_def lower_char_def Let_def of_char_char_of_nat)
qed

lemma dropWhile_map_lower: "dropWhile py_isspace (map lower_char s) = map lower_char (dropWhile py_isspace s)"
  by (induction s) auto

lemma strip_lower: "strip (lower s) = lower (strip s)"
  unfolding strip_def lower_def by (simp add: dropWhile_map_lower rev_map)

lemma strip_replace: "\<not> py_isspace a \<Longrightarrow> \<not> py_isspace b \<Longrightarrow> strip (replace_char a b s) = replace_char a b (strip s)"
proof -
  assume ab: "\<not> py_isspace a" "\<not> py_isspace b"
  then have "dropWhile py_isspace (map (\<lambda>c. if c = a then b else c) t)
      = map (\<lambda>c. if c = a then b else c) (dropWhile py_isspace t)" for t
    by (induction t) auto
  then show ?thesis unfolding strip_def replace_char_def by (simp add: rev_map)
qed

lemma lower_replace_dash: "lower (replace_char CHR ''-'' CHR ''_'' s) = replace_char CHR ''-'' CHR ''_'' (lower s)"
proof -
  have "lower_char c = CHR ''-'' \<longleftrightarrow> c = CHR ''-''" for c
  proof -
    have "(of_char c :: nat) < 256" by simp
    then have "of_char (lower_char c) = (of_char CHR ''-'' :: nat) \<longleftrightarrow> of_char c = (of_char CHR ''-'' :: nat)"
      by (auto simp: lower_char_def Let_def of_char_char_of_nat)
    then show ?thesis by (simp only: of_char_eq_iff)
  qed
  moreover have "lower_char CHR ''_'' = CHR ''_''" by (simp add: lower_char_def)
  ultimately show ?thesis by (simp add: lower_def replace_char_def)
qed


text \<open>A tool name in normal form is its own normal form.\<close>

lemma tool_value_normal: "tool_value s = Inr t \<Longrightarrow> tool_value t = Inr t"
proof -
  assume a: "tool_value s = Inr t"
  then have t: "t = replace_char CHR ''-'' CHR ''_'' (lower (strip s))" "t \<noteq> []"
    by (auto simp: tool_value_def Let_def split: if_splits)
  have "strip t = t" unfolding t(1) by (simp add: strip_replace strip_lower py_isspace_def)
  moreover have "lower t = t" unfolding t(1) by (simp add: lower_replace_dash)
  moreover have "replace_char CHR ''-'' CHR ''_'' t = t" unfolding t(1) by (simp add: replace_char_def)
  ultimately show ?thesis using t(2) by (simp add: tool_value_def)
qed

lemma lower_strip_idem [simp]: "lower (strip (lower (strip s))) = lower (strip s)"
  by (simp add: strip_lower)

section \<open>Paths\<close>

lemma clean_parts: "q \<in> set (snd (posix_path p)) \<Longrightarrow> q \<noteq> [] \<and> q \<noteq> ''.'' \<and> CHR ''/'' \<notin> set q"
  by (auto simp: posix_path_def dest: split_on_no_sep)

lemma split_parts:
  assumes "\<forall>q \<in> set ps. q \<noteq> [] \<and> q \<noteq> ''.'' \<and> CHR ''/'' \<notin> set q"
  shows "filter (\<lambda>q. q \<noteq> [] \<and> q \<noteq> ''.'') (split_on CHR ''/'' (join_with CHR ''/'' ps)) = ps"
proof (cases "ps = []")
  case False
  then have "split_on CHR ''/'' (join_with CHR ''/'' ps) = ps" using assms by (auto intro: split_join)
  with assms show ?thesis by simp
qed simp

lemma join_first:
  assumes "\<forall>q \<in> set ps. q \<noteq> [] \<and> q \<noteq> ''.'' \<and> CHR ''/'' \<notin> set q"
  shows "\<not> starts_with ''/'' (join_with CHR ''/'' ps)"
  using assms by (cases ps; cases "tl ps") (auto simp: starts_with_def neq_Nil_conv)

lemma path_text_rooted:
  assumes "r = ''/'' \<or> r = ''//''" and ps: "\<forall>q \<in> set ps. q \<noteq> [] \<and> q \<noteq> ''.'' \<and> CHR ''/'' \<notin> set q"
  shows "posix_path (path_text (r, ps)) = (r, ps)"
proof -
  let ?j = "join_with CHR ''/'' ps"
  have "\<not> starts_with ''/'' ?j" by (rule join_first [OF ps])
  then have "take 1 ?j \<noteq> ''/''" by (simp add: starts_with_def)
  then have "starts_with ''//'' (r @ ?j) \<and> \<not> starts_with ''///'' (r @ ?j) \<longleftrightarrow> r = ''//''"
    and "starts_with ''/'' (r @ ?j)"
    using assms(1) by (auto simp: starts_with_def)
  moreover have "filter (\<lambda>q. q \<noteq> [] \<and> q \<noteq> ''.'') (split_on CHR ''/'' (r @ ?j)) = ps"
    using assms(1) split_parts [OF ps] by auto
  ultimately show ?thesis using assms(1) by (auto simp: path_text_def posix_path_def Let_def)
qed

lemma posix_root: "fst (posix_path p) = [] \<or> fst (posix_path p) = ''/'' \<or> fst (posix_path p) = ''//''"
  by (simp add: posix_path_def)

lemma absolute_path_idem: "absolute_path cwd (absolute_path cwd p) = absolute_path cwd p"
proof -
  define q where "q = (if fst (posix_path p) \<noteq> [] then posix_path p
     else (''/'', snd (posix_path cwd) @ snd (posix_path p)))"
  have r: "fst q = ''/'' \<or> fst q = ''//''" using posix_root [of p] by (cases "fst (posix_path p) = []") (simp_all add: q_def)
  have "\<exists>p'. x \<in> set (snd (posix_path p'))" if "x \<in> set (snd q)" for x
    using that unfolding q_def by (cases "fst (posix_path p) = []") auto
  then have "\<forall>x \<in> set (snd q). x \<noteq> [] \<and> x \<noteq> ''.'' \<and> CHR ''/'' \<notin> set x" using clean_parts by blast
  from path_text_rooted [OF r this] r have "posix_path (path_text q) = q" "fst q \<noteq> []" by auto
  moreover have "absolute_path cwd p = path_text q" by (simp add: absolute_path_def q_def Let_def)
  ultimately show ?thesis by (simp add: absolute_path_def)
qed

section \<open>Plain values\<close>

abbreviation plain_dict :: "pydict \<Rightarrow> pydict" where
  "plain_dict d \<equiv> dict_of (map (\<lambda>kv. (py_str (fst kv), plain (snd kv))) d)"

fun str_keyed :: "pyval \<Rightarrow> bool" where
  "str_keyed (PDict d) =
     (distinct (map fst d) \<and> (\<forall>kv \<in> set d. is_str (fst kv) \<and> str_keyed (snd kv)))"
| "str_keyed (PList xs) = (\<forall>x \<in> set xs. str_keyed x)"
| "str_keyed _ = True"

lemma dput_fresh: "\<not> dhas d k \<Longrightarrow> dput d k v = d @ [(PStr k, v)]"
  by (induction d k v rule: dput.induct) auto

lemma dict_of_append: "dict_of (xs @ [(k, v)]) = dput (dict_of xs) k v"
  by (simp add: dict_of_def)

lemma keys_dict_of: "keys (dict_of kvs) = PStr ` fst ` set kvs"
proof (induction kvs rule: rev_induct)
  case (snoc kv kvs)
  then show ?case by (cases kv) (simp add: dict_of_append keys_dput)
qed (simp add: dict_of_def)

lemma wf_dict_of: "wf_dict (dict_of kvs)"
proof (induction kvs rule: rev_induct)
  case (snoc kv kvs)
  then show ?case by (cases kv) (simp add: dict_of_append wf_dput)
qed (simp add: dict_of_def)

lemma set_dput_str: "set (dput d k v) \<subseteq> insert (PStr k, v) (set d)"
  by (induction d k v rule: dput.induct) auto

lemma set_dict_of: "set (dict_of kvs) \<subseteq> (\<lambda>(k, v). (PStr k, v)) ` set kvs"
proof (induction kvs rule: rev_induct)
  case (snoc kv kvs)
  then show ?case using set_dput_str by (cases kv) (fastforce simp: dict_of_append)
qed (simp add: dict_of_def)

lemma dict_of_distinct: "distinct (map fst kvs) \<Longrightarrow> dict_of kvs = map (\<lambda>(k, v). (PStr k, v)) kvs"
proof (induction kvs rule: rev_induct)
  case (snoc kv kvs)
  obtain k v where kv: "kv = (k, v)" by force
  with snoc have "k \<notin> fst ` set kvs" "dict_of kvs = map (\<lambda>(k, v). (PStr k, v)) kvs" by auto
  moreover from this have "\<not> dhas (dict_of kvs) k" unfolding dhas_keys keys_dict_of by auto
  ultimately show ?case by (simp add: kv dict_of_append dput_fresh)
qed (simp add: dict_of_def)

lemma dict_of_Nil_iff [simp]: "dict_of kvs = [] \<longleftrightarrow> kvs = []"
  using keys_dict_of [of kvs] by (auto simp: keys_def dict_of_def)

lemma str_keyed_plain: "str_keyed (plain v)"
proof (induction v rule: plain.induct)
  case (1 d)
  have "distinct (map fst (plain_dict d))" using wf_dict_of by (simp add: wf_dict_def)
  moreover have "is_str (fst kv) \<and> str_keyed (snd kv)" if "kv \<in> set (plain_dict d)" for kv
  proof -
    from set_dict_of that obtain x where "x \<in> set d" "kv = (PStr (py_str (fst x)), plain (snd x))" by fastforce
    with 1 show ?thesis by simp
  qed
  ultimately show ?case by simp
qed auto

lemma plain_str_keyed: "str_keyed v \<Longrightarrow> plain v = v"
proof (induction v rule: plain.induct)
  case (1 d)
  have s: "\<exists>s. fst kv = PStr s" if "kv \<in> set d" for kv
    using 1(2) that by (auto elim!: is_str.elims(2))
  have "map fst (map (\<lambda>kv. (py_str (fst kv), plain (snd kv))) d) = map py_str (map fst d)" by simp
  moreover have "inj_on py_str (set (map fst d))"
  proof (rule inj_onI)
    fix x y
    assume "x \<in> set (map fst d)" "y \<in> set (map fst d)" and e: "py_str x = py_str y"
    then obtain a b where "a \<in> set d" "x = fst a" "b \<in> set d" "y = fst b" by auto
    moreover from this s obtain t u where "fst a = PStr t" "fst b = PStr u" by metis
    ultimately show "x = y" using e by simp
  qed
  ultimately have "distinct (map fst (map (\<lambda>kv. (py_str (fst kv), plain (snd kv))) d))"
    using 1(2) by (simp add: distinct_map del: map_map)
  then have "plain_dict d = map (\<lambda>kv. (PStr (py_str (fst kv)), plain (snd kv))) d"
    by (simp add: dict_of_distinct)
  also have "\<dots> = d" using 1 s by (intro map_idI) (force simp: prod_eq_iff)
  finally show ?case by simp
next
  case (2 xs)
  then show ?case by (simp add: map_idI)
qed auto

lemma plain_idem [simp]: "plain (plain v) = plain v"
  by (rule plain_str_keyed [OF str_keyed_plain])

lemma plain_dict_idem [simp]: "plain_dict (plain_dict d) = plain_dict d"
  using plain_idem [of "PDict d"] by simp


text \<open>What a constructor does to a dictionary, to strings and to an environment it has built itself.\<close>

lemma dict_or_empty_PDict [contract_simps]: "dict_or_empty (PDict d) = Inr d"
  by (simp add: dict_or_empty_def)

lemma py_or_PDict [contract_simps]: "py_or (PDict d) (PDict []) = PDict d"
  by (simp add: py_or_def)

lemma py_or_PNone [contract_simps]: "py_or PNone v = v"
  by (simp add: py_or_def)

lemma py_or_PStr [contract_simps]: "py_or (PStr s) (PStr []) = PStr s"
  by (simp add: py_or_def)

lemma tuple_or_empty_PList [contract_simps]: "tuple_or_empty (PList xs) = Inr xs"
  by (simp add: tuple_or_empty_def)

lemma string_tuple_strings [contract_simps]: "string_tuple (strings xs) = Inr xs"
  by (simp add: string_tuple_def comp_def)

lemma adapter_text_opt: "adapter_text (opt_text (adapter_text v)) = adapter_text v"
  by (simp add: adapter_text_def Let_def)

lemma framework_text_idem: "framework_text (PStr (framework_text v)) = framework_text v"
proof -
  define f where "f = framework_text v"
  have "f = ''unknown'' \<or> f = replace_char CHR ''-'' CHR ''_'' (lower (strip (py_str (py_or v (PStr ''unknown'')))))"
    by (simp add: f_def framework_text_def Let_def)
  moreover have "strip ''unknown'' = ''unknown''" "lower ''unknown'' = ''unknown''" by code_simp+
  ultimately have "strip f = f" "lower f = f"
    by (auto simp: strip_replace strip_lower py_isspace_def lower_replace_dash)
  moreover have "replace_char CHR ''-'' CHR ''_'' f = f"
    unfolding f_def framework_text_def Let_def by (simp add: replace_char_def)
  moreover have "f \<noteq> []" by (simp add: f_def framework_text_def Let_def)
  ultimately show ?thesis by (simp add: framework_text_def [of "PStr _"] py_or_def flip: f_def)
qed

lemma keys_update: "fst ` set (AList.update k v e) = insert k (fst ` set e)"
  by (simp add: AList.dom_update)

lemma str_items_distinct:
  assumes "str_items v = Inr e"
  shows "distinct (map fst e)"
proof -
  have "distinct (map fst (fold (\<lambda>(k, x). AList.update (py_str k) (py_str x)) d acc))"
    if "distinct (map fst acc)" for d acc
    using that by (induction d arbitrary: acc) (auto simp: AList.distinct_update)
  from this [of "[]"] assms show ?thesis
    by (auto simp: str_items_def split_def split: if_splits pyval.splits)
qed

lemma update_fresh: "k \<notin> fst ` set e \<Longrightarrow> AList.update k v e = e @ [(k, v)]"
  by (induction e) auto

lemma str_items_env [contract_simps]:
  assumes "distinct (map fst e)"
  shows "str_items (env_dict e) = Inr e"
proof -
  have "fold (\<lambda>(k, x). AList.update (py_str k) (py_str x)) (map (\<lambda>(k, v). (PStr k, PStr v)) e) acc = acc @ e"
    if "distinct (map fst (acc @ e))" for acc
    using that
  proof (induction e arbitrary: acc)
    case (Cons kv e)
    then show ?case by (cases kv) (simp add: update_fresh image_iff)
  qed simp
  from this [of "[]"] assms show ?thesis by (simp add: str_items_def env_dict_def split_def)
qed

section \<open>\<open>sorted(set(v))\<close>\<close>

text \<open>Every element is unequal to, and not above, each later one.\<close>

fun ascending :: "pyval list \<Rightarrow> bool" where
  "ascending [] = True"
| "ascending (x # xs) = ((\<forall>y \<in> set xs. \<not> py_eq x y \<and> \<not> value_less y x) \<and> ascending xs)"


lemma flt_trans: "flt f g \<Longrightarrow> flt g h \<Longrightarrow> flt f h"
  by (cases f; cases g; cases h) auto

lemma feq_flt: "feq f g \<Longrightarrow> flt f h \<Longrightarrow> flt g h"
  by (cases f; cases g; cases h) auto

lemma flt_not_feq: "flt f g \<Longrightarrow> \<not> feq f g \<and> \<not> flt g f"
  by (cases f; cases g) auto

lemma value_lessE:
  assumes "value_less x y"
  obtains (str) s t where "x = PStr s" "y = PStr t" "s < t"
    | (num) f g where "numeric x = Some f" "numeric y = Some g" "flt f g"
  using assms by (cases "(x, y)" rule: value_less.cases) (auto split: option.splits)

lemma value_less_numeric: "numeric x = Some f \<Longrightarrow> numeric y = Some g \<Longrightarrow> value_less x y = flt f g"
  by (cases x; cases y) auto

lemma py_eq_numbers: "numeric x = Some f \<Longrightarrow> py_eq x y = (\<exists>g. numeric y = Some g \<and> feq f g)"
  by (cases x) (auto split: option.splits)

lemma value_less_trans: "value_less w x \<Longrightarrow> value_less x y \<Longrightarrow> value_less w y"
  by (elim value_lessE) (auto simp: value_less_numeric intro: flt_trans)

lemma py_eq_less: "py_eq x w \<Longrightarrow> value_less x y \<Longrightarrow> value_less w y"
  by (elim value_lessE) (auto simp: value_less_numeric py_eq_numbers intro: feq_flt)

lemma value_less_distinct: "value_less x y \<Longrightarrow> \<not> py_eq x y \<and> \<not> value_less y x"
  by (elim value_lessE) (auto simp: value_less_numeric py_eq_numbers flt_not_feq)

lemma set_insert_value: "set (insert_value x ys) \<subseteq> insert x (set ys)"
  by (induction ys) auto

lemma ascending_insert: "ascending ys \<Longrightarrow> ascending (insert_value x ys)"
proof (induction ys)
  case (Cons y ys)
  consider (same) "py_eq y x" | (less) "\<not> py_eq y x" "value_less x y"
    | (rest) "\<not> py_eq y x" "\<not> value_less x y" by blast
  then show ?case
  proof cases
    case less
    have "\<not> py_eq x w \<and> \<not> value_less w x" if "w \<in> set ys" for w
      using that Cons.prems less value_less_trans [of w x y] py_eq_less [of x w y] by auto
    with less Cons.prems value_less_distinct [of x y] show ?thesis by simp
  next
    case rest
    with Cons set_insert_value [of x ys] show ?thesis by auto
  qed (use Cons.prems in simp)
qed simp

lemma insert_value_last:
  "\<forall>y \<in> set xs. \<not> py_eq y x \<and> \<not> value_less x y \<Longrightarrow> insert_value x xs = xs @ [x]"
  by (induction xs) auto

lemma ascending_append:
  "ascending (xs @ ys) \<longleftrightarrow> ascending xs \<and> ascending ys
     \<and> (\<forall>x \<in> set xs. \<forall>y \<in> set ys. \<not> py_eq x y \<and> \<not> value_less y x)"
  by (induction xs) auto

abbreviation first_values :: "pyval list \<Rightarrow> pyval list \<Rightarrow> pyval list" where
  "first_values \<equiv> foldl (\<lambda>acc x. if list_ex (\<lambda>y. py_eq y x) acc then acc else acc @ [x])"

abbreviation insert_values :: "pyval list \<Rightarrow> pyval list \<Rightarrow> pyval list" where
  "insert_values \<equiv> foldl (\<lambda>acc x. insert_value x acc)"

lemma first_values_ascending: "ascending (acc @ xs) \<Longrightarrow> first_values acc xs = acc @ xs"
proof (induction xs arbitrary: acc)
  case (Cons x xs)
  then have "\<not> list_ex (\<lambda>y. py_eq y x) acc" by (auto simp: ascending_append list_ex_iff)
  with Cons.IH [of "acc @ [x]"] Cons.prems show ?case by simp
qed simp

lemma insert_values_ascending: "ascending (acc @ xs) \<Longrightarrow> insert_values acc xs = acc @ xs"
proof (induction xs arbitrary: acc)
  case (Cons x xs)
  then have "insert_value x acc = acc @ [x]" by (auto simp: ascending_append intro!: insert_value_last)
  with Cons.IH [of "acc @ [x]"] Cons.prems show ?case by simp
qed simp

lemma ascending_insert_values: "ascending acc \<Longrightarrow> ascending (insert_values acc xs)"
  by (induction xs arbitrary: acc) (auto simp: ascending_insert)

lemma set_insert_values: "set (insert_values acc xs) \<subseteq> set acc \<union> set xs"
  using set_insert_value by (induction xs arbitrary: acc) fastforce+

lemma length_insert_values: "length (insert_values acc xs) \<le> length acc + length xs"
proof (induction xs arbitrary: acc)
  case (Cons x xs)
  have "length (insert_value x acc) \<le> Suc (length acc)" by (induction acc) auto
  with Cons.IH [of "insert_value x acc"] show ?case by simp
qed simp

lemma set_first_values: "set (first_values acc xs) \<subseteq> set acc \<union> set xs"
proof (induction xs arbitrary: acc)
  case (Cons x xs)
  show ?case using Cons.IH [of acc] Cons.IH [of "acc @ [x]"] by auto
qed simp

lemma sorted_set_idem:
  assumes "sorted_set xs = Inr ys"
  shows "sorted_set ys = Inr ys"
proof -
  let ?d = "first_values [] xs"
  from assms have h: "list_all hashable xs" and k: "same_kind ?d" and ys: "ys = insert_values [] ?d"
    by (auto simp: sorted_set_def Let_def split: if_splits)
  have asc: "ascending ys" unfolding ys by (rule ascending_insert_values) simp
  have sub: "set ys \<subseteq> set ?d" "length ys \<le> length ?d"
    using set_insert_values [of "[]" ?d] length_insert_values [of "[]" ?d] by (auto simp: ys)
  then have "list_all hashable ys" using h set_first_values [of "[]" xs] by (auto simp: list_all_iff)
  moreover have "same_kind ys" using k sub by (auto simp: same_kind_def list_all_iff)
  ultimately show ?thesis using asc
    by (simp add: sorted_set_def first_values_ascending insert_values_ascending)
qed

section \<open>Enumerations\<close>

text \<open>
  What \<open>_enum_value\<close> needs of an enumeration: every member has one text, no two share one, and
  the texts are in normal form.
\<close>

locale string_enum =
  fixes members :: "('a \<times> string) list"
  assumes complete_members: "m \<in> fst ` set members"
    and texts: "distinct (map snd members)"
    and normal: "list_all (\<lambda>s. lower (strip s) = s) (map snd members)"
begin

lemma text_in: "(m, text_of members m) \<in> set members"
proof -
  obtain s where "map_of members m = Some s"
    using complete_members [of m] by (metis map_of_eq_None_iff not_None_eq)
  then show ?thesis by (simp add: text_of_def map_of_SomeD)
qed

lemma find_text: "(m, s) \<in> set members \<Longrightarrow> find (\<lambda>x. snd x = s) members = Some (m, s)"
  using texts
proof (induction members)
  case (Cons x xs)
  then show ?case by (cases "snd x = s") (force simp: image_iff)+
qed simp

lemma enum_text [simp]: "enum_value members (PStr (text_of members m)) = Inr m"
proof -
  have "lower (strip (text_of members m)) = text_of members m"
    using normal text_in [of m] by (auto simp: list_all_iff)
  then show ?thesis by (simp add: enum_value_def find_text [OF text_in])
qed

lemma text_inj: "text_of members m = text_of members n \<longleftrightarrow> m = n"
  by (metis enum_text sum.inject(2))

end

interpretation languages: string_enum kernel_languages
proof unfold_locales
  show "m \<in> fst ` set kernel_languages" for m by (cases m) (simp_all add: kernel_languages_def)
qed code_simp+

interpretation artifacts: string_enum artifact_kinds
proof unfold_locales
  show "m \<in> fst ` set artifact_kinds" for m by (cases m) (simp_all add: artifact_kinds_def)
qed code_simp+

interpretation controls: string_enum instrumentation_controls
proof unfold_locales
  show "m \<in> fst ` set instrumentation_controls" for m by (cases m) (simp_all add: instrumentation_controls_def)
qed code_simp+

interpretation states: string_enum capability_states
proof unfold_locales
  show "m \<in> fst ` set capability_states" for m by (cases m) (simp_all add: capability_states_def)
qed code_simp+

interpretation executions: string_enum execution_statuses
proof unfold_locales
  show "m \<in> fst ` set execution_statuses" for m by (cases m) (simp_all add: execution_statuses_def)
qed code_simp+

interpretation outcomes: string_enum finding_statuses
proof unfold_locales
  show "m \<in> fst ` set finding_statuses" for m by (cases m) (simp_all add: finding_statuses_def)
qed code_simp+

interpretation severities: string_enum finding_severities
proof unfold_locales
  show "m \<in> fst ` set finding_severities" for m by (cases m) (simp_all add: finding_severities_def)
qed code_simp+

interpretation policies: string_enum evaluation_policies
proof unfold_locales
  show "m \<in> fst ` set evaluation_policies" for m by (cases m) (simp_all add: evaluation_policies_def)
qed code_simp+

interpretation tools: string_enum tool_names
proof unfold_locales
  show "m \<in> fst ` set tool_names" for m by (cases m) (simp_all add: tool_names_def)
qed code_simp+

end
