(* ===== verification/EvalConfigFacts.thy ===== *)
theory EvalConfigFacts
  imports EvalConfig EvalNormal
begin

text \<open>
  What an accepted configuration of the evaluation tools guarantees, what the merge with a task
  may change, and that the registry returns what was registered.
\<close>

lemma timeout_value_Inr: "timeout_value v most = Inr n \<longleftrightarrow> v = PInt n \<and> 0 < n \<and> n \<le> most"
  by (cases v) (auto split: if_splits)

lemma as_mapping_Inr: "as_mapping v = Inr d \<longleftrightarrow> v = PDict d"
  by (cases v) auto

lemma mk_tool_config_Inr:
  "mk_tool_config name r t os = Inr c \<longleftrightarrow>
     (\<exists>n k. tool_value name = Inr n \<and> t = PInt k \<and> 0 < k \<and> k \<le> MAX_TOOL_TIMEOUT_SECONDS
        \<and> c = \<lparr>cf_name = n, cf_runtime_ref = r, cf_timeout_s = k, cf_options = os\<rparr>)"
  by (auto simp: mk_tool_config_def result_simps timeout_value_Inr)

text \<open>The invariant of one tool of a configuration in an environment, under a positive-control rule.\<close>

definition tool_config_ok :: "(string \<Rightarrow> string option) \<Rightarrow> bool \<Rightarrow> tool_config \<Rightarrow> bool" where
  "tool_config_ok environ positive t =
     (tool_value (cf_name t) = Inr (cf_name t) \<and> known_tool (cf_name t)
      \<and> 0 < cf_timeout_s t \<and> cf_timeout_s t \<le> MAX_TOOL_TIMEOUT_SECONDS
      \<and> dlookup (cf_options t) ''positive_control_required'' = Some (PBool positive)
      \<and> (\<forall>k \<in> set (entries_of runtime_option_table (cf_name t)). \<not> dhas (cf_options t) k)
      \<and> (has_text (resolved_ref environ (cf_name t)) \<longrightarrow> cf_runtime_ref t = resolved_ref environ (cf_name t)))"

definition config_ok :: "(string \<Rightarrow> string option) \<Rightarrow> eval_tools_config \<Rightarrow> bool" where
  "config_ok environ c =
     (distinct (enabled_tools c)
      \<and> (\<forall>t \<in> set (ec_tools c). tool_config_ok environ (ec_positive_control_required c) t))"

lemma positive_not_runtime: "''positive_control_required'' \<notin> set (entries_of runtime_option_table n)"
proof -
  have "list_all (\<lambda>e. ''positive_control_required'' \<notin> set (snd e)) runtime_option_table" by code_simp
  then show ?thesis
    by (cases "map_of runtime_option_table n") (fastforce simp: entries_of_def list_all_iff dest: map_of_SomeD)+
qed

lemma enable_tool_ok:
  assumes "enable_tool environ table limit positive raw = Inr t"
  shows "tool_config_ok environ positive t"
proof -
  from assms obtain name options timeout n where
      n: "tool_value (py_str raw) = Inr name" "known_tool name" and
      r: "\<not> (has_text (authored_ref (item_of table name)) \<and> has_text (resolved_ref environ name)
            \<and> authored_ref (item_of table name) \<noteq> resolved_ref environ name)" and
      os: "\<not> list_ex (\<lambda>kv. py_str (fst kv) \<in> set (reserved_option_keys name)) options" and
      t: "mk_tool_config name (text_or (authored_ref (item_of table name)) (resolved_ref environ name))
            (PInt timeout) (dput options ''positive_control_required'' (PBool positive)) = Inr t"
    unfolding enable_tool_def Let_def by (elim rbindE if_InlE) auto
  have v: "tool_value name = Inr name" by (rule tool_value_normal [OF n(1)])
  have "\<not> dhas options k" if "k \<in> set (entries_of runtime_option_table name)" for k
    using os that by (force simp: list_ex_iff dhas_def reserved_option_keys_def)
  with v n(2) r t positive_not_runtime show ?thesis
    by (auto simp: tool_config_ok_def mk_tool_config_Inr dict_simps text_or_def)
qed

lemma enable_tools_ok:
  "mapR (enable_tool environ table limit positive) xs = Inr ts \<Longrightarrow> t \<in> set ts \<Longrightarrow> tool_config_ok environ positive t"
  by (auto dest: mapR_set enable_tool_ok)

lemma from_section_ok: "from_section environ s = Inr c \<Longrightarrow> config_ok environ c"
  unfolding from_section_def checked_config_def
  by (elim rbindE) (auto simp: config_ok_def enabled_tools_def split: if_splits dest: enable_tools_ok)

lemma disabled_ok: "config_ok environ disabled_config"
  by (simp add: config_ok_def disabled_config_def enabled_tools_def)

lemma config_from_mapping_ok: "config_from_mapping environ v = Inr c \<Longrightarrow> config_ok environ c"
  unfolding config_from_mapping_def
  by (elim rbindE) (auto split: option.splits dest: from_section_ok simp: disabled_ok)

section \<open>Merging\<close>

lemma dlookup_dset: "dlookup (dset d k v) s = (if k = PStr s then Some v else dlookup d s)"
  by (induction d k v rule: dset.induct) auto

lemma dlookup_dmerge_other: "\<not> dhas e k \<Longrightarrow> dlookup (dmerge d e) k = dlookup d k"
  unfolding dmerge_def by (induction e arbitrary: d) (auto simp: dlookup_dset)

lemma dhas_dmerge_other: "\<not> dhas e k \<Longrightarrow> dhas (dmerge d e) k = dhas d k"
  by (simp add: dhas_dlookup dlookup_dmerge_other)

lemma adapter_options_reserved:
  "adapter_options tool v = Inr d \<Longrightarrow> v = PDict d \<and> (\<forall>k \<in> set (reserved_option_keys tool). \<not> dhas d k)"
  unfolding adapter_options_def by (elim rbindE if_InlE) (auto simp: list_ex_iff as_mapping_Inr)

definition overrides_ok :: "tool_table \<Rightarrow> bool" where
  "overrides_ok table =
     (\<forall>(name, item) \<in> set table. \<forall>d. dget_default item ''options'' (PDict []) = PDict d \<longrightarrow>
        (\<forall>k \<in> set (reserved_option_keys name). \<not> dhas d k))"

lemma add_override_ok: "add_override table kv = Inr table' \<Longrightarrow> overrides_ok table \<Longrightarrow> overrides_ok table'"
  unfolding add_override_def
  by (elim rbindE if_InlE) (fastforce simp: overrides_ok_def dest: adapter_options_reserved)

lemma item_of_options:
  assumes "overrides_ok table" "dget_default (item_of table name) ''options'' (PDict []) = PDict d"
    and "k \<in> set (reserved_option_keys name)"
  shows "\<not> dhas d k"
proof (cases "map_of table name")
  case None
  with assms(2) show ?thesis by (simp add: item_of_def dget_default_def)
next
  case (Some item)
  with assms map_of_SomeD [OF Some] show ?thesis by (auto simp: item_of_def overrides_ok_def)
qed

text \<open>What a task may change of a tool: a shorter timeout, and options that are not reserved.\<close>

definition narrows :: "tool_config \<Rightarrow> tool_config \<Rightarrow> bool" where
  "narrows base t =
     (cf_name t = cf_name base \<and> cf_runtime_ref t = cf_runtime_ref base
      \<and> 0 < cf_timeout_s t \<and> cf_timeout_s t \<le> cf_timeout_s base
      \<and> (\<forall>k \<in> set (reserved_option_keys (cf_name base)).
           dlookup (cf_options t) k = dlookup (cf_options base) k))"

lemma merge_tool_narrows:
  assumes "merge_tool overrides base = Inr t" "overrides_ok overrides"
    and "tool_value (cf_name base) = Inr (cf_name base)"
  shows "narrows base t"
proof -
  from assms(1) obtain timeout os where
      "timeout_value (dget_default (item_of overrides (cf_name base)) ''timeout_s''
         (PInt (cf_timeout_s base))) (cf_timeout_s base) = Inr timeout" and
      o: "dget_default (item_of overrides (cf_name base)) ''options'' (PDict []) = PDict os" and
      "mk_tool_config (cf_name base) (cf_runtime_ref base) (PInt timeout) (dmerge (cf_options base) os) = Inr t"
    unfolding merge_tool_def Let_def by (elim rbindE) (auto simp: as_mapping_Inr)
  with assms(3) item_of_options [OF assms(2) o] show ?thesis
    by (auto simp: narrows_def mk_tool_config_Inr timeout_value_Inr dlookup_dmerge_other)
qed

lemma merge_narrows:
  assumes "merge_task_tool_config config task = Inr merged"
    and "\<forall>t \<in> set (ec_tools config). tool_value (cf_name t) = Inr (cf_name t)"
  shows "list_all2 narrows (ec_tools config) (ec_tools merged) \<and> distinct (enabled_tools merged)
    \<and> merged = config\<lparr>ec_tools := ec_tools merged\<rparr>"
proof -
  from assms(1) obtain raw overrides tools where
      o: "foldR add_override [] raw = Inr overrides" and
      t: "mapR (merge_tool overrides) (ec_tools config) = Inr tools" and
      m: "checked_config (config\<lparr>ec_tools := tools\<rparr>) = Inr merged"
    unfolding merge_task_tool_config_def by (elim rbindE) (auto simp: as_mapping_Inr)
  have "overrides_ok overrides"
    by (rule foldR_invariant [OF o]) (simp add: overrides_ok_def, rule add_override_ok)
  then have "list_all2 narrows (ec_tools config) tools"
    using t assms(2) unfolding mapR_eq_Inr
    by (auto simp: list_all2_conv_all_nth intro!: merge_tool_narrows [of overrides])
  with m show ?thesis by (auto simp: checked_config_def split: if_splits)
qed

lemma narrows_names: "list_all2 narrows xs ys \<Longrightarrow> map cf_name ys = map cf_name xs"
  by (induction rule: list_all2_induct) (auto simp: narrows_def)

lemma narrows_ok: "narrows base t \<Longrightarrow> tool_config_ok environ b base \<Longrightarrow> tool_config_ok environ b t"
  by (auto simp: narrows_def tool_config_ok_def reserved_option_keys_def dhas_dlookup)

lemma merge_keeps_ok:
  assumes "merge_task_tool_config config task = Inr merged" "config_ok environ config"
  shows "config_ok environ merged"
proof -
  have "\<forall>t \<in> set (ec_tools config). tool_value (cf_name t) = Inr (cf_name t)"
    using assms(2) by (simp add: config_ok_def tool_config_ok_def)
  note m = merge_narrows [OF assms(1) this]
  then have "\<exists>b \<in> set (ec_tools config). narrows b t" if "t \<in> set (ec_tools merged)" for t
    using that by (auto dest: list_all2_right)
  moreover have "ec_positive_control_required merged = ec_positive_control_required config"
    using m by (metis eval_tools_config.select_convs(4) eval_tools_config.surjective eval_tools_config.update_convs(1))
  ultimately show ?thesis using assms(2) m by (fastforce simp: config_ok_def intro: narrows_ok)
qed

section \<open>The registry\<close>

lemma register_get:
  assumes "register name_of version_of reg p replace = Inr reg'" "tool_value (name_of p) = Inr n"
  shows "get_plugin reg' s = (if tool_value s = Inr n then Inr p else get_plugin reg s)"
  using assms unfolding register_def normalize_tool_name_def
  by (auto simp: get_plugin_def normalize_tool_name_def update_conv' rbind_def split: if_splits sum.splits)

end
