(* ===== verification/EvalWire.thy ===== *)
theory EvalWire
  imports EvalNormal
begin

text \<open>
  The dictionary form of the evaluation contracts.  The locale \<open>wire_format\<close> is what a caller
  of \<open>to_dict\<close> and \<open>from_dict\<close> relies on: a well-formed value reads back as its normal form,
  which has the same dictionary; and whatever \<open>from_dict\<close> accepts is well formed.  Every record
  of the contracts that has both functions is an instance.
\<close>

locale wire_format =
  fixes to_d :: "'a \<Rightarrow> pyval" and from_d :: "pyval \<Rightarrow> (py_exc, 'a) result"
    and wf :: "'a \<Rightarrow> bool" and norm :: "'a \<Rightarrow> 'a"
  assumes reads_back: "wf x \<Longrightarrow> from_d (to_d x) = Inr (norm x)"
    and same_dict: "to_d (norm x) = to_d x"
    and accepted_wf: "from_d v = Inr x \<Longrightarrow> wf x"
begin

lemma norm_wf: "wf x \<Longrightarrow> wf (norm x)"
  by (rule accepted_wf [OF reads_back])

lemma norm_idem: "wf x \<Longrightarrow> norm (norm x) = norm x"
  using reads_back [of "norm x"] reads_back [of x] norm_wf same_dict by simp

lemma list_reads_back: "\<forall>x \<in> set xs. wf x \<Longrightarrow> mapR from_d (map to_d xs) = Inr (map norm xs)"
  by (induction xs) (auto simp: reads_back)

lemma list_same_dict [simp]: "map to_d (map norm xs) = map to_d xs"
  by (simp add: same_dict)

lemma list_accepted: "mapR from_d vs = Inr xs \<Longrightarrow> \<forall>x \<in> set xs. wf x"
  using mapR_set [of from_d vs xs] accepted_wf by blast

text \<open>What arrives at the other side is stable: sent on, it arrives unchanged.\<close>

lemma relayed:
  assumes "from_d v = Inr x"
  shows "\<exists>y. from_d (to_d x) = Inr y \<and> to_d y = to_d x \<and> from_d (to_d y) = Inr y"
  using reads_back [OF accepted_wf [OF assms]] by (auto simp: same_dict)

end

lemmas [contract_simps] = dlookup_append

lemma dlookup_when_present [contract_simps]:
  "dlookup (when_present b k' v) k = (if b \<and> k' = k then Some v else None)"
  by (simp add: when_present_def)

lemma dict_of_Nil [simp]: "dict_of [] = []"
  by (simp add: dict_of_def)

lemma lower_Nil [simp]: "lower [] = []"
  by (simp add: lower_def)

lemma py_or_env [contract_simps]: "py_or (env_dict e) (PDict []) = env_dict e"
  by (simp add: env_dict_def contract_simps)

lemmas reading = subscript_def attr_get_def dget_default_def contract_simps

section \<open>Capabilities\<close>

definition present :: "pyval \<Rightarrow> pyval" where
  "present v = (if truthy v then v else PNone)"

lemma truthy_present [simp]: "truthy (present v) = truthy v"
  by (simp add: present_def)

definition check_norm :: "capability_check \<Rightarrow> capability_check" where
  "check_norm c = c\<lparr>cc_reason_code := present (cc_reason_code c), cc_detail := present (cc_detail c),
     cc_evidence := plain_dict (cc_evidence c)\<rparr>"

interpretation check_wire: wire_format check_to_dict check_from_dict "\<lambda>_. True" check_norm
proof
  fix c
  show "check_from_dict (check_to_dict c) = Inr (check_norm c)"
    by (cases c) (simp add: check_from_dict_def check_to_dict_def reading mk_capability_check_def check_norm_def present_def)
  show "check_to_dict (check_norm c) = check_to_dict c"
    by (simp add: check_to_dict_def check_norm_def when_present_def present_def)
qed simp

definition capability_wf :: "tool_capability \<Rightarrow> bool" where
  "capability_wf c = (tool_value (tc_tool c) = Inr (tc_tool c))"

definition capability_norm :: "tool_capability \<Rightarrow> tool_capability" where
  "capability_norm c = \<lparr>tc_tool = tc_tool c, tc_engine = check_norm (tc_engine c),
     tc_adapter = check_norm (tc_adapter c), tc_runtime = check_norm (tc_runtime c),
     tc_effective = check_norm (tc_effective c)\<rparr>"

interpretation capability_wire:
  wire_format capability_to_dict capability_from_dict capability_wf capability_norm
proof
  fix c v
  show "capability_from_dict (capability_to_dict c) = Inr (capability_norm c)" if "capability_wf c"
    using that by (simp add: capability_from_dict_def capability_to_dict_def reading capability_wf_def
        mk_tool_capability_def capability_norm_def check_wire.reads_back)
  show "capability_to_dict (capability_norm c) = capability_to_dict c"
    by (simp add: capability_to_dict_def capability_norm_def check_wire.same_dict)
  show "capability_wf c" if "capability_from_dict v = Inr c"
    using that unfolding capability_from_dict_def mk_tool_capability_def capability_wf_def
    by (elim rbindE) (auto dest: tool_value_normal)
qed

section \<open>Profiles and contexts\<close>

definition profile_wf :: "task_profile \<Rightarrow> bool" where
  "profile_wf p =
     (lower (strip (tp_task_type p)) = tp_task_type p
      \<and> framework_text (PStr (tp_framework p)) = tp_framework p
      \<and> adapter_text (opt_text (tp_adapter p)) = tp_adapter p
      \<and> sorted_set (tp_explicit_overrides p) = Inr (tp_explicit_overrides p))"

definition profile_norm :: "task_profile \<Rightarrow> task_profile" where
  "profile_norm p = p\<lparr>tp_evidence := plain_dict (tp_evidence p)\<rparr>"

lemma framework_nonempty: "framework_text v \<noteq> []"
  by (simp add: framework_text_def Let_def)

lemma mk_task_profile_wf: "mk_task_profile t l a f c ad av ss ts os e = Inr p \<Longrightarrow> profile_wf p"
  unfolding mk_task_profile_def
  by (elim rbindE) (auto simp: profile_wf_def framework_text_idem adapter_text_opt dest: sorted_set_idem)

interpretation profile_wire: wire_format profile_to_dict profile_from_dict profile_wf profile_norm
proof
  fix p v
  show "profile_from_dict (profile_to_dict p) = Inr (profile_norm p)" if "profile_wf p"
  proof -
    have "tp_framework p \<noteq> []" using that framework_nonempty unfolding profile_wf_def by metis
    with that show ?thesis
      by (cases p) (simp add: profile_from_dict_def profile_to_dict_def reading profile_wf_def
          mk_task_profile_def profile_norm_def py_or_def)
  qed
  show "profile_to_dict (profile_norm p) = profile_to_dict p"
    by (simp add: profile_to_dict_def profile_norm_def)
  show "profile_wf p" if "profile_from_dict v = Inr p"
    using that unfolding profile_from_dict_def
    by (cases v; simp) (elim rbindE, auto dest: mk_task_profile_wf)
qed

definition evidence_norm :: "source_evidence \<Rightarrow> source_evidence" where
  "evidence_norm e = e\<lparr>se_metadata := plain_dict (se_metadata e)\<rparr>"

interpretation evidence_wire: wire_format evidence_to_dict evidence_from_value "\<lambda>_. True" evidence_norm
proof
  fix e
  show "evidence_from_value (evidence_to_dict e) = Inr (evidence_norm e)"
    by (cases e) (simp add: evidence_from_value_def evidence_to_dict_def reading evidence_norm_def)
  show "evidence_to_dict (evidence_norm e) = evidence_to_dict e"
    by (simp add: evidence_to_dict_def evidence_norm_def)
qed simp

definition context_wf :: "string \<Rightarrow> tool_context \<Rightarrow> bool" where
  "context_wf cwd c =
     (absolute_path cwd (tx_workspace c) = tx_workspace c
      \<and> absolute_path cwd (tx_artifact_dir c) = tx_artifact_dir c
      \<and> profile_wf (tx_profile c) \<and> distinct (map fst (tx_env c)))"

definition context_norm :: "tool_context \<Rightarrow> tool_context" where
  "context_norm c = c\<lparr>tx_task_config := plain_dict (tx_task_config c),
     tx_profile := profile_norm (tx_profile c), tx_options := plain_dict (tx_options c),
     tx_source_evidence := evidence_norm (tx_source_evidence c)\<rparr>"

interpretation context_wire:
  wire_format context_to_dict "context_from_dict cwd" "context_wf cwd" context_norm for cwd
proof
  fix c v
  show "context_from_dict cwd (context_to_dict c) = Inr (context_norm c)" if "context_wf cwd c"
    using that by (cases c) (simp add: context_from_dict_def context_to_dict_def reading context_wf_def
        mk_tool_context_def context_norm_def profile_wire.reads_back evidence_wire.reads_back)
  show "context_to_dict (context_norm c) = context_to_dict c"
    by (simp add: context_to_dict_def context_norm_def profile_wire.same_dict evidence_wire.same_dict)
  show "context_wf cwd c" if "context_from_dict cwd v = Inr c"
    using that unfolding context_from_dict_def mk_tool_context_def
    by (elim rbindE)
       (auto simp: context_wf_def absolute_path_idem dest: profile_wire.accepted_wf str_items_distinct)
qed

section \<open>Invocations, executions and results\<close>

definition invocation_wf :: "string \<Rightarrow> tool_invocation \<Rightarrow> bool" where
  "invocation_wf here i =
     (tool_value (ti_tool i) = Inr (ti_tool i) \<and> ti_command i \<noteq> [] \<and> 0 < ti_timeout_s i
      \<and> absolute_path here (ti_cwd i) = ti_cwd i \<and> distinct (map fst (ti_env i)))"

definition invocation_norm :: "tool_invocation \<Rightarrow> tool_invocation" where
  "invocation_norm i = i\<lparr>ti_metadata := plain_dict (ti_metadata i)\<rparr>"

lemma mk_tool_invocation_wf:
  "mk_tool_invocation here t c d e n a s m = Inr i \<Longrightarrow> invocation_wf here i"
  unfolding mk_tool_invocation_def
  by (elim rbindE if_InlE)
     (auto simp: invocation_wf_def absolute_path_idem dest: tool_value_normal str_items_distinct)

interpretation invocation_wire:
  wire_format invocation_to_dict "invocation_from_dict here" "invocation_wf here" invocation_norm for here
proof
  fix i v
  show "invocation_from_dict here (invocation_to_dict i) = Inr (invocation_norm i)" if "invocation_wf here i"
    using that by (cases i) (simp add: invocation_from_dict_def invocation_to_dict_def reading
        invocation_wf_def mk_tool_invocation_def invocation_norm_def)
  show "invocation_to_dict (invocation_norm i) = invocation_to_dict i"
    by (simp add: invocation_to_dict_def invocation_norm_def)
  show "invocation_wf here i" if "invocation_from_dict here v = Inr i"
    using that unfolding invocation_from_dict_def by (elim rbindE) (rule mk_tool_invocation_wf)
qed

definition record_wf :: "execution_record \<Rightarrow> bool" where
  "record_wf r = (duration (er_duration_s r) = er_duration_s r)"

definition record_norm :: "execution_record \<Rightarrow> execution_record" where
  "record_norm r = r\<lparr>er_metadata := plain_dict (er_metadata r)\<rparr>"

lemma duration_idem: "duration (duration d) = duration d"
  by (simp add: duration_def)

lemma mk_execution_record_wf: "mk_execution_record c rc so se d t m = Inr r \<Longrightarrow> record_wf r"
  unfolding mk_execution_record_def by (elim rbindE) (auto simp: record_wf_def duration_idem)

interpretation record_wire: wire_format "record_to_dict True" record_from_dict record_wf record_norm
proof
  fix r v
  show "record_from_dict (record_to_dict True r) = Inr (record_norm r)" if "record_wf r"
    using that by (cases r) (simp add: record_from_dict_def record_to_dict_def reading record_wf_def
        mk_execution_record_def record_norm_def)
  show "record_to_dict True (record_norm r) = record_to_dict True r"
    by (simp add: record_to_dict_def record_norm_def)
  show "record_wf r" if "record_from_dict v = Inr r"
    using that unfolding record_from_dict_def
    by (cases v; simp) (elim rbindE, rule mk_execution_record_wf)
qed

definition finding_wf :: "finding \<Rightarrow> bool" where
  "finding_wf f = (strip (fi_kind f) \<noteq> [])"

definition finding_norm :: "finding \<Rightarrow> finding" where
  "finding_norm f = f\<lparr>fi_metadata := plain_dict (fi_metadata f)\<rparr>"

lemma mk_finding_wf: "mk_finding k s m l r d = Inr f \<Longrightarrow> finding_wf f"
  unfolding mk_finding_def by (elim rbindE if_InlE) (auto simp: finding_wf_def)

interpretation finding_wire: wire_format "finding_to_dict True" finding_from_dict finding_wf finding_norm
proof
  fix f v
  show "finding_from_dict (finding_to_dict True f) = Inr (finding_norm f)" if "finding_wf f"
    using that by (cases f) (simp add: finding_from_dict_def finding_to_dict_def reading finding_wf_def
        mk_finding_def finding_norm_def)
  show "finding_to_dict True (finding_norm f) = finding_to_dict True f"
    by (simp add: finding_to_dict_def finding_norm_def when_present_def)
  show "finding_wf f" if "finding_from_dict v = Inr f"
    using that unfolding finding_from_dict_def by (elim rbindE) (rule mk_finding_wf)
qed

definition result_wf :: "tool_run_result \<Rightarrow> bool" where
  "result_wf r =
     (tool_value (rr_tool r) = Inr (rr_tool r) \<and> findings_agree r
      \<and> (\<forall>f \<in> set (rr_findings r). finding_wf f) \<and> (\<forall>e. rr_record r = Some e \<longrightarrow> record_wf e))"

definition result_norm :: "tool_run_result \<Rightarrow> tool_run_result" where
  "result_norm r = r\<lparr>rr_findings := map finding_norm (rr_findings r), rr_summary := present (rr_summary r),
     rr_record := map_option record_norm (rr_record r), rr_metadata := plain_dict (rr_metadata r)\<rparr>"

lemma mk_tool_run_result_wf:
  assumes "mk_tool_run_result t e f fs s a rec m = Inr r"
    and "\<forall>f \<in> set fs. finding_wf f" "\<forall>e. rec = Some e \<longrightarrow> record_wf e"
  shows "result_wf r"
  using assms(1) unfolding mk_tool_run_result_def checked_result_def
  by (elim rbindE) (use assms(2,3) in \<open>auto simp: result_wf_def dest: tool_value_normal split: if_splits\<close>)

lemma optional_record_wf: "optional_record v = Inr r \<Longrightarrow> r = Some e \<Longrightarrow> record_wf e"
  by (auto simp: optional_record_def result_simps split: pyval.splits dest: record_wire.accepted_wf)

lemma optional_record_dict: "record_wf e \<Longrightarrow> optional_record (record_to_dict True e) = Inr (Some (record_norm e))"
  using record_wire.reads_back [of e] by (simp add: optional_record_def record_to_dict_def)

lemma result_reads_back:
  assumes "result_wf r"
  shows "result_from_dict (result_to_dict True r) = Inr (result_norm r)"
proof (cases r)
  case (fields tool execution finding findings summary artifacts rec metadata)
  with assms have w: "tool_value tool = Inr tool" "\<forall>f \<in> set findings. finding_wf f"
      "\<And>e. rec = Some e \<Longrightarrow> record_wf e" "findings_agree r"
    by (simp_all add: result_wf_def)
  have n: "optional_record PNone = Inr None" by (simp add: optional_record_def)
  from w show ?thesis unfolding fields
    by (cases rec)
       (simp_all add: result_from_dict_def result_to_dict_def reading mk_tool_run_result_def
         checked_result_def result_norm_def finding_wire.list_reads_back present_def n optional_record_dict
         findings_agree_def)
qed

interpretation result_wire: wire_format "result_to_dict True" result_from_dict result_wf result_norm
proof
  fix r v
  show "result_from_dict (result_to_dict True r) = Inr (result_norm r)" if "result_wf r"
    using that by (rule result_reads_back)
  show "result_to_dict True (result_norm r) = result_to_dict True r"
    by (cases "rr_record r")
       (simp_all add: result_to_dict_def result_norm_def when_present_def present_def
         finding_wire.same_dict record_wire.same_dict)
  show "result_wf r" if "result_from_dict v = Inr r"
    using that unfolding result_from_dict_def
    by (elim rbindE) (erule mk_tool_run_result_wf, auto dest: finding_wire.list_accepted optional_record_wf)
qed

end
