(* ===== verification/EvalManagerFacts.thy ===== *)
theory EvalManagerFacts
  imports EvalManager EvalConfigFacts EvalWire
begin

text \<open>
  What an evaluation promises whatever its plugins and its runtime do: it returns a report in the
  order of the plan, it fails closed, and its status agrees with the policy's decision.
\<close>

section \<open>The precedence of capability states\<close>

text \<open>The states in the order in which they hide each other; \<open>READY\<close> hides nothing.\<close>

instantiation capability_state :: linorder
begin

definition state_rank :: "capability_state \<Rightarrow> nat" where
  "state_rank s = (case s of NOT_APPLICABLE \<Rightarrow> 0 | UNSUPPORTED \<Rightarrow> 1 | ADAPTER_REQUIRED \<Rightarrow> 2
     | UNAVAILABLE_RUNTIME \<Rightarrow> 3 | READY \<Rightarrow> 4)"

definition less_eq_capability_state :: "capability_state \<Rightarrow> capability_state \<Rightarrow> bool" where
  "less_eq_capability_state s t = (state_rank s \<le> state_rank t)"

definition less_capability_state :: "capability_state \<Rightarrow> capability_state \<Rightarrow> bool" where
  "less_capability_state s t = (state_rank s < state_rank t)"

instance
proof
  fix s t :: capability_state
  show "s = t" if "s \<le> t" "t \<le> s"
    using that by (cases s; cases t) (simp_all add: less_eq_capability_state_def state_rank_def)
qed (auto simp: less_eq_capability_state_def less_capability_state_def)

end

lemma effective_state:
  "cc_state (effective_capability e a r) = min (cc_state e) (min (cc_state a) (cc_state r))"
  by (cases "cc_state e"; cases "cc_state a"; cases "cc_state r")
     (simp_all add: effective_capability_def capability_precedence_def ready_check_def min_def
       less_eq_capability_state_def state_rank_def)

lemma effective_source:
  "cc_state (effective_capability e a r) \<noteq> READY \<Longrightarrow> effective_capability e a r \<in> {e, a, r}"
  by (cases "cc_state e"; cases "cc_state a"; cases "cc_state r")
     (simp_all add: effective_capability_def capability_precedence_def ready_check_def)

section \<open>The policy\<close>

text \<open>An evaluation that does not stand in the way of the performance measurement.\<close>

definition acceptable :: "tool_evaluation \<Rightarrow> bool" where
  "acceptable e =
     (cc_state (tc_effective (te_capability e)) = NOT_APPLICABLE
      \<or> capability_ready (te_capability e)
        \<and> (\<exists>r. te_result e = Some r \<and> rr_execution r = COMPLETED \<and> rr_finding r = CLEAN))"

lemma reasons_acceptable: "evaluation_reasons e = [] \<longleftrightarrow> acceptable e"
  by (auto simp: evaluation_reasons_def acceptable_def Let_def split: option.splits)

lemma policy_satisfied: "pd_policy_satisfied (evaluate_policy p es) \<longleftrightarrow> list_all acceptable es"
  by (induction es) (auto simp: evaluate_policy_def Let_def reasons_acceptable)

lemma policy_allowed: "pd_allowed (evaluate_policy p es) \<longleftrightarrow> p = ADVISORY \<or> list_all acceptable es"
  using policy_satisfied [of p es] by (simp add: evaluate_policy_def Let_def)

lemma scan_status_clean:
  "i \<longrightarrow> a \<Longrightarrow> scan_status a i es \<in> {''clean'', ''not_applicable''} \<longleftrightarrow> \<not> i \<and> list_all acceptable es"
proof (induction es arbitrary: a i)
  case (Cons e es)
  consider (none) "cc_state (tc_effective (te_capability e)) = NOT_APPLICABLE"
    | (blocked) "cc_state (tc_effective (te_capability e)) \<noteq> NOT_APPLICABLE" "\<not> capability_ready (te_capability e)"
    | (empty) "capability_ready (te_capability e)" "te_result e = None"
    | (ran) r where "capability_ready (te_capability e)" "te_result e = Some r"
    by blast
  then show ?case
  proof cases
    case none
    with Cons show ?thesis by (simp add: acceptable_def)
  next
    case blocked
    with Cons.IH [of True True] show ?thesis by (simp add: acceptable_def)
  next
    case empty
    with Cons.IH [of True True] show ?thesis by (simp add: acceptable_def capability_ready_def)
  next
    case (ran r)
    with Cons.IH [of "i \<or> rr_execution r \<noteq> COMPLETED \<or> rr_finding r \<noteq> CLEAN" True] show ?thesis
      by (cases "rr_finding r = FOUND") (auto simp: acceptable_def capability_ready_def)
  qed
qed auto

section \<open>One tool\<close>

lemma exception_result_fields [simp]:
  "rr_tool (exception_result t m r) = t" "rr_finding (exception_result t m r) = INCONCLUSIVE"
  by (simp_all add: exception_result_def)

lemma fail_closed_tool [simp]: "rr_tool (fail_closed_on_truncated_output r) = rr_tool r"
  by (simp add: fail_closed_on_truncated_output_def split: option.splits)

lemma parsed_result_tool [simp]: "rr_tool (parsed_result t e r) = t"
  by (auto simp: parsed_result_def Let_def split: outcome.splits)

lemma assessed_tool [simp]: "tc_tool (assessed t c r) = t"
  by (auto simp: assessed_def failed_capability_def Let_def split: outcome.splits)

lemma sbind_eq_Inr: "sbind p f = (Inr y, t) \<longleftrightarrow> (\<exists>x s. p = (Inr x, s) \<and> f x s = (Inr y, t))"
  by (auto elim: sbind_InrE)

lemma sbind_eq_Inl:
  "sbind p f = (Inl e, t) \<longleftrightarrow> p = (Inl e, t) \<or> (\<exists>x s. p = (Inr x, s) \<and> f x s = (Inl e, t))"
  by (auto elim: sbindE)

lemma let_through_Inr: "let_through c = (Inr r, w) \<longleftrightarrow> c = (r, w) \<and> (\<forall>s. r \<noteq> Exited s)"
  by (cases c; cases "fst c") (auto simp: let_through_def)

lemma let_through_Inl: "let_through c = (Inl e, w) \<longleftrightarrow> (\<exists>s. c = (Exited s, w) \<and> e = ExitError s)"
  by (cases c; cases "fst c") (auto simp: let_through_def)

lemma let_through_simps [simp]:
  "let_through (Returned x, w) = (Inr (Returned x), w)" "let_through (Raised m, w) = (Inr (Raised m), w)"
  "let_through (WrongType t, w) = (Inr (WrongType t), w)" "let_through (Exited m, w) = (Inl (ExitError m), w)"
  by (simp_all add: let_through_def)

text \<open>What a run that returned a result did.\<close>

lemma run_tool_cases:
  assumes "run_tool g rt p c w = (Inr r, w')"
  obtains (failed) m x where "r = exception_result (pl_tool p) m x"
    | (parsed) i w0 x w1 q where "rt_execute rt i c w0 = (Returned x, w1)" "ti_tool i = pl_tool p"
        "pg_parse g c x w1 = (q, w')" "r = parsed_result (pl_tool p) x q"
proof -
  from assms obtain b w0 where b: "pg_build g c w = (b, w0)" and
      k: "(case built p (tx_artifact_dir c) b of
        Inl message \<Rightarrow> (Inr (exception_result (pl_tool p) (''failed to build invocation: '' @ message) None), w0)
      | Inr invocation \<Rightarrow>
          sbind (let_through (rt_execute rt invocation c w0)) (\<lambda>x w2.
          case x of
            Returned execution \<Rightarrow>
              sbind (let_through (pg_parse g c execution w2)) (\<lambda>r w3.
              (Inr (parsed_result (pl_tool p) execution r), w3))
          | _ \<Rightarrow>
              (let message = failure_text ''runtime returned'' ''ExecutionRecord'' x
               in (Inr (exception_result (pl_tool p) (''runtime execution failed: '' @ message)
                     (Some (failed_execution invocation message))), w2)))) = (Inr r, w')"
    unfolding run_tool_def by (auto simp: let_through_Inr elim!: sbind_InrE)
  show ?thesis
  proof (cases "built p (tx_artifact_dir c) b")
    case (Inl m)
    with k have "exception_result (pl_tool p) (''failed to build invocation: '' @ m) None = r" by simp
    then show ?thesis by (rule failed [OF sym])
  next
    case (Inr i)
    then have "ti_tool i = pl_tool p" by (auto simp: built_def split: outcome.splits if_splits)
    from k Inr obtain x w1 where x: "rt_execute rt i c w0 = (x, w1)" "\<forall>s. x \<noteq> Exited s" and
        k': "(case x of
            Returned execution \<Rightarrow>
              sbind (let_through (pg_parse g c execution w1)) (\<lambda>r w3.
              (Inr (parsed_result (pl_tool p) execution r), w3))
          | _ \<Rightarrow>
              (let message = failure_text ''runtime returned'' ''ExecutionRecord'' x
               in (Inr (exception_result (pl_tool p) (''runtime execution failed: '' @ message)
                     (Some (failed_execution i message))), w1))) = (Inr r, w')"
      by (auto simp: let_through_Inr elim!: sbind_InrE)
    show ?thesis
    proof (cases x)
      case (Returned y)
      with k' obtain q where "pg_parse g c y w1 = (q, w')" "r = parsed_result (pl_tool p) y q"
        by (auto simp: let_through_Inr elim!: sbind_InrE)
      with x Returned \<open>ti_tool i = pl_tool p\<close> show ?thesis by (intro parsed) simp_all
    next
      case (WrongType t)
      with k' have "exception_result (pl_tool p) (''runtime execution failed: '' @ failure_text ''runtime returned'' ''ExecutionRecord'' x)
          (Some (failed_execution i (failure_text ''runtime returned'' ''ExecutionRecord'' x))) = r"
        by (simp add: Let_def)
      then show ?thesis by (rule failed [OF sym])
    next
      case (Raised t)
      with k' have "exception_result (pl_tool p) (''runtime execution failed: '' @ failure_text ''runtime returned'' ''ExecutionRecord'' x)
          (Some (failed_execution i (failure_text ''runtime returned'' ''ExecutionRecord'' x))) = r"
        by (simp add: Let_def)
      then show ?thesis by (rule failed [OF sym])
    qed (use x in blast)
  qed
qed

lemma run_tool_name: "run_tool g rt p c w = (Inr r, w') \<Longrightarrow> rr_tool r = pl_tool p"
  by (auto elim: run_tool_cases)

text \<open>A result without findings can only come from a parser that saw the whole output.\<close>

lemma parsed_result_clean:
  assumes "rr_finding (parsed_result t e r) = CLEAN"
  shows "\<exists>x. rr_record (parsed_result t e r) = Some x \<and> truncated_streams x = []"
proof -
  from assms obtain x where x: "r = Returned x" "rr_tool x = t"
    by (auto simp: parsed_result_def Let_def split: outcome.splits if_splits)
  let ?y = "if rr_record x = None then x\<lparr>rr_record := Some e\<rparr> else x"
  have p: "parsed_result t e r = fail_closed_on_truncated_output ?y" by (simp add: parsed_result_def x)
  obtain z where z: "rr_record ?y = Some z" by (cases "rr_record x") auto
  with assms p have "truncated_streams z = []"
    by (auto simp: fail_closed_on_truncated_output_def split: if_splits)
  with z p show ?thesis by (auto simp: fail_closed_on_truncated_output_def)
qed

lemma run_tool_clean:
  assumes "run_tool g rt p c w = (Inr r, w')" "rr_finding r = CLEAN"
  shows "\<exists>x. rr_record r = Some x \<and> truncated_streams x = []"
  using assms by (auto elim!: run_tool_cases dest: parsed_result_clean)

definition whole_output :: "tool_evaluation \<Rightarrow> bool" where
  "whole_output e =
     (\<forall>r. te_result e = Some r \<longrightarrow> rr_finding r = CLEAN \<longrightarrow>
        (\<exists>x. rr_record r = Some x \<and> truncated_streams x = []))"

lemma evaluate_tool_InrE:
  assumes "evaluate_tool inp plan n p w = (Inr e, w')"
  obtains (not_run) "te_result e = None" "tc_tool (te_capability e) = pl_tool p"
    | (ran) g cx r w1 where "get_plugin (in_registry inp) (pl_tool p) = Inr g" "tx_profile cx = in_profile inp"
        "tx_gpu_arch cx = in_gpu_arch inp" "run_tool g (in_runtime inp) p cx w1 = (Inr r, w')"
        "te_result e = Some r" "tc_tool (te_capability e) = pl_tool p"
proof -
  from assms obtain g w0 pr w1 ar w2 where g: "get_plugin (in_registry inp) (pl_tool p) = Inr g" and
      k: "(if \<not> capability_ready (assessed (pl_tool p) (probed pr) ar)
           then (map_error PlanError (mk_tool_evaluation (assessed (pl_tool p) (probed pr) ar) None), w2)
           else sbind (run_tool g (in_runtime inp) p ((context_of inp plan n p)\<lparr>tx_options :=
                  dmerge (tx_options (context_of inp plan n p)) (runtime_options (pl_tool p) (probed pr))\<rparr>) w2)
                (\<lambda>r w3. (map_error PlanError (mk_tool_evaluation (assessed (pl_tool p) (probed pr) ar) (Some r)), w3)))
         = (Inr e, w')"
    unfolding evaluate_tool_def Let_def by (elim sbind_InrE) (simp add: map_error_eq_Inr)
  show ?thesis
  proof (cases "capability_ready (assessed (pl_tool p) (probed pr) ar)")
    case False
    with k show ?thesis by (intro not_run) (auto simp: mk_tool_evaluation_def)
  next
    case True
    with k obtain r where r: "run_tool g (in_runtime inp) p ((context_of inp plan n p)\<lparr>tx_options :=
          dmerge (tx_options (context_of inp plan n p)) (runtime_options (pl_tool p) (probed pr))\<rparr>) w2 = (Inr r, w')"
        "mk_tool_evaluation (assessed (pl_tool p) (probed pr) ar) (Some r) = Inr e"
      by (auto simp: map_error_eq_Inr elim: sbind_InrE)
    from r(2) show ?thesis
      by (intro ran [OF g _ _ r(1)]) (auto simp: context_of_def mk_tool_evaluation_def split: if_splits)
  qed
qed

lemma evaluate_tool_Inr:
  assumes "evaluate_tool inp plan n p w = (Inr e, w')"
  shows "tc_tool (te_capability e) = pl_tool p \<and> whole_output e"
  using assms
proof (cases rule: evaluate_tool_InrE)
  case (ran g cx r w1)
  with run_tool_clean [OF ran(4)] show ?thesis by (simp add: whole_output_def)
qed (simp add: whole_output_def)

text \<open>A call that ended with an exception \<open>except Exception\<close> lets through.\<close>

definition call_exits :: "'w evaluation_input \<Rightarrow> string \<Rightarrow> bool" where
  "call_exits inp s =
     ((\<exists>tool cx w w'. rt_probe (in_runtime inp) tool cx w = (Exited s, w'))
      \<or> (\<exists>i cx w w'. rt_execute (in_runtime inp) i cx w = (Exited s, w'))
      \<or> (\<exists>name g. get_plugin (in_registry inp) name = Inr g \<and>
           ((\<exists>cx c w w'. pg_assess g cx c w = (Exited s, w')) \<or> (\<exists>cx w w'. pg_build g cx w = (Exited s, w'))
           \<or> (\<exists>cx x w w'. pg_parse g cx x w = (Exited s, w')))))"

text \<open>Why an evaluation of some tools stops.\<close>

definition stopped_by :: "'w evaluation_input \<Rightarrow> evaluation_plan \<Rightarrow> tool_plan list \<Rightarrow> manager_error \<Rightarrow> bool" where
  "stopped_by inp plan ps e =
     ((\<exists>m n p w w'. e = MkdirError m \<and> p \<in> set ps
         \<and> in_mkdir inp (artifact_dir_of inp plan n (pl_tool p)) w = (Inl m, w'))
      \<or> (\<exists>s. e = ExitError s \<and> call_exits inp s))"

lemma probe_exits:
  assumes "let_through (rt_probe (in_runtime inp) tool cx w) = (Inl e, w')"
  shows "stopped_by inp plan ps e"
proof -
  from assms(1) obtain s where s: "rt_probe (in_runtime inp) tool cx w = (Exited s, w')" "e = ExitError s" by (auto simp: let_through_Inl)
  from s(1) have "call_exits inp s" unfolding call_exits_def by (intro disjI1 exI)
  with s(2) show ?thesis by (simp add: stopped_by_def)
qed

lemma execute_exits:
  assumes "let_through (rt_execute (in_runtime inp) i cx w) = (Inl e, w')"
  shows "stopped_by inp plan ps e"
proof -
  from assms(1) obtain s where s: "rt_execute (in_runtime inp) i cx w = (Exited s, w')" "e = ExitError s" by (auto simp: let_through_Inl)
  from s(1) have "call_exits inp s" unfolding call_exits_def by (intro disjI2 [OF disjI1] exI)
  with s(2) show ?thesis by (simp add: stopped_by_def)
qed

lemma assess_exits:
  assumes "let_through (pg_assess g cx c w) = (Inl e, w')" "get_plugin (in_registry inp) name = Inr g"
  shows "stopped_by inp plan ps e"
proof -
  from assms(1) obtain s where s: "pg_assess g cx c w = (Exited s, w')" "e = ExitError s" by (auto simp: let_through_Inl)
  from s(1) assms(2) have "call_exits inp s" unfolding call_exits_def by metis
  with s(2) show ?thesis by (simp add: stopped_by_def)
qed

lemma build_exits:
  assumes "let_through (pg_build g cx w) = (Inl e, w')" "get_plugin (in_registry inp) name = Inr g"
  shows "stopped_by inp plan ps e"
proof -
  from assms(1) obtain s where s: "pg_build g cx w = (Exited s, w')" "e = ExitError s" by (auto simp: let_through_Inl)
  from s(1) assms(2) have "call_exits inp s" unfolding call_exits_def by metis
  with s(2) show ?thesis by (simp add: stopped_by_def)
qed

lemma parse_exits:
  assumes "let_through (pg_parse g cx x w) = (Inl e, w')" "get_plugin (in_registry inp) name = Inr g"
  shows "stopped_by inp plan ps e"
proof -
  from assms(1) obtain s where s: "pg_parse g cx x w = (Exited s, w')" "e = ExitError s" by (auto simp: let_through_Inl)
  from s(1) assms(2) have "call_exits inp s" unfolding call_exits_def by metis
  with s(2) show ?thesis by (simp add: stopped_by_def)
qed

lemma run_tool_Inl:
  assumes "run_tool g (in_runtime inp) p c w = (Inl e, w')" and g: "get_plugin (in_registry inp) name = Inr g"
  shows "stopped_by inp plan ps e"
  using assms(1) unfolding run_tool_def
proof (cases rule: sbindE)
  case (raised e')
  then show ?thesis using build_exits [OF _ g] by blast
next
  case (returned b w0)
  show ?thesis
  proof (cases "built p (tx_artifact_dir c) b")
    case (Inr i)
    with returned(2) show ?thesis
      by (auto simp: Let_def elim!: sbindE intro: execute_exits parse_exits [OF _ g] split: outcome.splits)
  qed (use returned in simp)
qed

lemma evaluate_tool_Inl:
  assumes "evaluate_tool inp plan n p w = (Inl e, w')" "get_plugin (in_registry inp) (pl_tool p) = Inr g"
  shows "stopped_by inp plan [p] e"
proof -
  note g = assms(2)
  note x = assms(1) [unfolded evaluate_tool_def assms(2) map_error_simps sbind_simps Let_def]
  from x show ?thesis
  proof (cases rule: sbindE)
    case (raised e')
    then obtain m where "in_mkdir inp (artifact_dir_of inp plan n (pl_tool p)) w = (Inl m, w')" "e = MkdirError m"
      by (cases "in_mkdir inp (artifact_dir_of inp plan n (pl_tool p)) w") (auto simp: map_error_def split: sum.splits)
    then show ?thesis unfolding stopped_by_def by fastforce
  next
    case (returned u w0)
    from returned(2) show ?thesis
    proof (cases rule: sbindE)
      case (raised e')
      then show ?thesis by (auto intro: probe_exits)
    next
      case (returned pr w1)
      from returned(2) show ?thesis
      proof (cases rule: sbindE)
        case (raised e')
        then show ?thesis using assess_exits [OF _ g] by blast
      next
        case (returned ar w2)
        from returned(2) show ?thesis using g
          by (auto simp: mk_tool_evaluation_def intro: run_tool_Inl [OF _ g] dest!: run_tool_name elim!: sbindE split: if_splits)
      qed
    qed
  qed
qed

lemma evaluate_tools_Inr:
  assumes "evaluate_tools inp plan n ps w = (Inr es, w')"
  shows "map (tc_tool \<circ> te_capability) es = map pl_tool ps \<and> list_all whole_output es"
  using assms
proof (induction ps arbitrary: n w es)
  case (Cons p ps)
  then obtain e w1 es' where "evaluate_tool inp plan n p w = (Inr e, w1)" "evaluate_tools inp plan (Suc n) ps w1 = (Inr es', w')"
      "es = e # es'"
    by (auto split: prod.splits sum.splits)
  with Cons.IH [of "Suc n" w1 es'] evaluate_tool_Inr [of inp plan n p w e w1] show ?case by simp
qed simp

lemma stopped_by_mono: "stopped_by inp plan ps e \<Longrightarrow> set ps \<subseteq> set qs \<Longrightarrow> stopped_by inp plan qs e"
  unfolding stopped_by_def by blast

lemma evaluate_tools_Inl:
  assumes "evaluate_tools inp plan n ps w = (Inl e, w')" "\<forall>p \<in> set ps. is_ok (get_plugin (in_registry inp) (pl_tool p))"
  shows "stopped_by inp plan ps e"
  using assms
proof (induction ps arbitrary: n w)
  case (Cons p ps)
  obtain g where g: "get_plugin (in_registry inp) (pl_tool p) = Inr g"
    using Cons.prems(2) by (cases "get_plugin (in_registry inp) (pl_tool p)") auto
  from Cons.prems(1) consider w1 where "evaluate_tool inp plan n p w = (Inl e, w1)"
    | w1 where "evaluate_tools inp plan (Suc n) ps w1 = (Inl e, w')"
    by (auto split: prod.splits sum.splits)
  then show ?case
  proof cases
    case 1
    from evaluate_tool_Inl [OF this g] show ?thesis by (rule stopped_by_mono) simp
  next
    case 2
    from Cons.IH [OF this] Cons.prems(2) have "stopped_by inp plan ps e" by simp
    then show ?thesis by (rule stopped_by_mono) auto
  qed
qed simp

section \<open>The whole evaluation\<close>

lemma plugin_versions_registered:
  assumes "plugin_versions version_of reg names = Inr vs" "s \<in> set names" "tool_value s = Inr n"
  shows "is_ok (get_plugin reg n)"
proof -
  from assms(1) obtain selected where s: "mapR normalize_tool_name names = Inr selected" and
      f: "foldR (\<lambda>acc name. rbind (get_plugin reg name) (\<lambda>p. Inr (AList.update name (version_of p) acc)))
            [] selected = Inr vs"
    unfolding plugin_versions_def by (elim rbindE)
  have "n \<in> set selected" using s assms(2,3)
    by (auto simp: mapR_eq_Inr normalize_tool_name_def list_all2_conv_all_nth in_set_conv_nth)
  moreover have "foldR (\<lambda>acc name. rbind (get_plugin reg name) (\<lambda>p. Inr (AList.update name (version_of p) acc)))
      acc xs = Inr vs \<Longrightarrow> m \<in> set xs \<Longrightarrow> is_ok (get_plugin reg m)" for acc xs m
    by (induction xs arbitrary: acc) (auto simp: result_simps)
  ultimately show ?thesis using f by blast
qed

lemma plan_tools:
  assumes "build_evaluation_plan config profile versions evidence = Inr plan"
  shows "list_all2 (\<lambda>t p. tool_value (cf_name t) = Inr (pl_tool p) \<and> pl_timeout_s p = cf_timeout_s t
      \<and> pl_options p = cf_options t) (ec_tools config) (ev_tools plan)
    \<and> distinct (map pl_tool (ev_tools plan)) \<and> ev_policy plan = ec_policy config
    \<and> ev_profile plan = profile \<and> ev_source_evidence plan = evidence
    \<and> ev_fingerprint plan = plan_fingerprint config profile versions evidence"
proof -
  from assms obtain tools where t: "mapR (plan_tool config versions) (ec_tools config) = Inr tools" and
      m: "mk_evaluation_plan (ec_schema_version config) (ec_policy config) profile tools
        (plan_fingerprint config profile versions evidence) evidence = Inr plan"
    unfolding build_evaluation_plan_def by (elim if_InlE rbindE)
  have "tool_value (cf_name x) = Inr (pl_tool p) \<and> pl_timeout_s p = cf_timeout_s x \<and> pl_options p = cf_options x"
    if "plan_tool config versions x = Inr p" for x p
    using that unfolding plan_tool_def mk_tool_plan_def
    by (elim rbindE if_InlE) (auto simp: dict_or_empty_def split: if_splits)
  with t m show ?thesis
    by (auto simp: mk_evaluation_plan_def mapR_eq_Inr elim!: list_all2_mono split: if_splits)
qed

lemma build_plan_registered:
  assumes "build_plan reg config profile evidence = Inr plan"
  shows "\<forall>p \<in> set (ev_tools plan). is_ok (get_plugin reg (pl_tool p))"
proof -
  from assms obtain versions where v: "plugin_versions pg_version reg (enabled_tools config) = Inr versions"
      and b: "build_evaluation_plan config profile versions evidence = Inr plan"
    unfolding build_plan_def by (elim rbindE)
  note l = conjunct1 [OF plan_tools [OF b]]
  show ?thesis
  proof
    fix p
    assume "p \<in> set (ev_tools plan)"
    from list_all2_right [OF l this] obtain t where
      "t \<in> set (ec_tools config)" "tool_value (cf_name t) = Inr (pl_tool p)" by blast
    then show "is_ok (get_plugin reg (pl_tool p))"
      by (intro plugin_versions_registered [OF v, of "cf_name t"]) (simp_all add: enabled_tools_def)
  qed
qed

text \<open>A report is of the plan; without one, the evaluation was stopped.\<close>

lemma evaluate_Inr:
  assumes "fst (evaluate inp config evidence w) = Inr rep"
  obtains w' where "build_plan (in_registry inp) config (in_profile inp) evidence = Inr (rp_plan rep)"
    "evaluate_tools inp (rp_plan rep) 0 (ev_tools (rp_plan rep)) w = (Inr (rp_evaluations rep), w')"
    "rp_decision rep = evaluate_policy (ev_policy (rp_plan rep)) (rp_evaluations rep)"
proof -
  from assms obtain plan es w' where "build_plan (in_registry inp) config (in_profile inp) evidence = Inr plan"
      "evaluate_tools inp plan 0 (ev_tools plan) w = (Inr es, w')"
      "mk_evaluation_report plan es (evaluate_policy (ev_policy plan) es) = Inr rep"
    by (auto simp: evaluate_def map_error_eq_Inr split: sum.splits prod.splits)
  then show ?thesis by (intro that) (auto simp: mk_evaluation_report_def split: if_splits)
qed

lemma evaluate_report:
  assumes "fst (evaluate inp config evidence w) = Inr rep"
  shows "build_plan (in_registry inp) config (in_profile inp) evidence = Inr (rp_plan rep)
    \<and> rp_decision rep = evaluate_policy (ev_policy (rp_plan rep)) (rp_evaluations rep)
    \<and> map (tc_tool \<circ> te_capability) (rp_evaluations rep) = map pl_tool (ev_tools (rp_plan rep))
    \<and> list_all whole_output (rp_evaluations rep)"
  using assms by (elim evaluate_Inr) (auto dest: evaluate_tools_Inr)

lemma evaluate_stopped:
  assumes "build_plan (in_registry inp) config (in_profile inp) evidence = Inr plan"
    and "fst (evaluate inp config evidence w) = Inl e"
  shows "stopped_by inp plan (ev_tools plan) e"
proof (cases "evaluate_tools inp plan 0 (ev_tools plan) w")
  case (Pair r w')
  show ?thesis
  proof (cases r)
    case (Inl e')
    with assms Pair have "e' = e" by (simp add: evaluate_def)
    with Pair Inl evaluate_tools_Inl [OF _ build_plan_registered [OF assms(1)]] show ?thesis by blast
  next
    case (Inr es)
    with Pair have "map (tc_tool \<circ> te_capability) es = map pl_tool (ev_tools plan)" by (auto dest: evaluate_tools_Inr)
    with assms Pair Inr show ?thesis by (simp add: evaluate_def mk_evaluation_report_def)
  qed
qed

end
