(* ===== verification/RuntimeClientFacts.thy ===== *)
theory RuntimeClientFacts
  imports RuntimeClient EvalManagerFacts
begin

text \<open>
  What the sidecar client guarantees: the bound on a response, what a ready probe has checked,
  that paths keep their place below the mapped roots, and where the logs of an execution come
  from.  The locale \<open>runtime_contract\<close> is the one law the manager needs of a runtime to fail
  closed; the sidecars keep it.
\<close>

section \<open>The response line\<close>

lemma receive_line_bound:
  "receive_line limit received chunks = Inr l \<Longrightarrow> received + length l \<le> limit \<and> CHR 0x0A \<notin> set l"
proof (induction limit received chunks arbitrary: l rule: receive_line.induct)
  case (2 limit received chunk chunks)
  let ?c = "take (min 65536 (limit + 1 - received)) chunk"
  from 2(2) have ne: "?c \<noteq> []" by (auto simp: Let_def split: if_splits)
  show ?case
  proof (cases "CHR 0x0A \<in> set ?c")
    case True
    with 2(2) ne show ?thesis by (auto simp: Let_def split: if_splits dest: set_takeWhileD)
  next
    case False
    with 2(2) ne obtain r where "l = ?c @ r" "\<not> limit < received + length ?c"
        "receive_line limit (received + length ?c) chunks = Inr r"
      by (auto simp: Let_def result_simps split: if_splits)
    with 2(1) [OF refl ne False] False show ?thesis by auto
  qed
qed simp

text \<open>When the socket keeps to the sizes asked for, the line is what precedes the first newline.\<close>

fun asked_for :: "nat \<Rightarrow> nat \<Rightarrow> string list \<Rightarrow> bool" where
  "asked_for limit received [] = True"
| "asked_for limit received (c # cs) =
     (length c \<le> min 65536 (limit + 1 - received) \<and> asked_for limit (received + length c) cs)"

lemma receive_line_prefix:
  "receive_line limit received chunks = Inr l \<Longrightarrow> asked_for limit received chunks \<Longrightarrow>
     \<exists>rest. concat chunks = l @ CHR 0x0A # rest"
proof (induction limit received chunks arbitrary: l rule: receive_line.induct)
  case (2 limit received chunk chunks)
  from 2(3) have t: "take (min 65536 (Suc limit - received)) chunk = chunk" by simp
  from 2(2) have ne: "chunk \<noteq> []" by (auto simp: Let_def t split: if_splits)
  show ?case
  proof (cases "CHR 0x0A \<in> set chunk")
    case True
    with 2(2) ne have l: "l = takeWhile (\<lambda>x. x \<noteq> CHR 0x0A) chunk"
      by (auto simp: Let_def t split: if_splits)
    let ?d = "dropWhile (\<lambda>x. x \<noteq> CHR 0x0A) chunk"
    have d: "?d \<noteq> []" using True by (auto simp: dropWhile_eq_Nil_conv)
    then have "hd ?d = CHR 0x0A" using hd_dropWhile [OF d] by simp
    with d have "?d = CHR 0x0A # tl ?d" by (cases ?d) auto
    then have "chunk = l @ CHR 0x0A # tl ?d" unfolding l by (metis takeWhile_dropWhile_id)
    then have "concat (chunk # chunks) = l @ CHR 0x0A # (tl ?d @ concat chunks)"
      by (metis append.assoc append_Cons concat.simps(2))
    then show ?thesis by blast
  next
    case False
    with 2(2) ne obtain r where "l = chunk @ r" "\<not> limit < received + length chunk"
        "receive_line limit (received + length chunk) chunks = Inr r"
      by (auto simp: Let_def t result_simps split: if_splits)
    with 2(1) [of chunk r] 2(3) t ne False show ?thesis by auto
  qed
qed simp

section \<open>Readiness\<close>

lemma unavailable_state: "unavailable c d g e = Inr x \<Longrightarrow> cc_state x = UNAVAILABLE_RUNTIME"
  by (auto simp: unavailable_def result_simps)

lemma ready_runtime_Inr:
  "ready_runtime g e = Inr x \<Longrightarrow> cc_state x = READY \<and> cc_evidence x = g @ e
     \<and> (\<forall>kv \<in> set e. fst kv \<notin> fst ` set g)"
  by (auto simp: ready_runtime_def keyword_evidence_def ready_check_def list_ex_iff result_simps split: if_splits)

text \<open>What a probe has established when it says the runtime is ready.\<close>

definition runtime_ready :: "string \<Rightarrow> tool_context \<Rightarrow> pydict \<Rightarrow> bool" where
  "runtime_ready tool cx evidence =
     ((truthy (tx_runtime_ref cx) \<longrightarrow> py_eq (dget evidence ''runtime_ref'') (tx_runtime_ref cx))
      \<and> (\<forall>n \<in> set (entries_of required_assets tool). truthy (dget evidence n))
      \<and> (tool \<in> fst ` set builtin_probes \<longrightarrow> framework_valid tool evidence)
      \<and> (positive_required cx \<longrightarrow> control_passed (selected_positive tool cx evidence)))"

lemma probe_evidence_cases:
  assumes "probe_evidence tool cx health evidence = Inr x"
  shows "cc_state x = UNAVAILABLE_RUNTIME
    \<or> cc_state x = READY \<and> runtime_ready tool cx evidence \<and> (\<exists>g. cc_evidence x = g @ evidence
        \<and> (\<forall>kv \<in> set evidence. fst kv \<notin> fst ` set g))"
  using assms
  by (auto simp: probe_evidence_def Let_def runtime_ready_def missing_assets_def filter_empty_conv
      split: if_splits dest!: unavailable_state ready_runtime_Inr)

lemma probe_cases:
  assumes "probe tool cx answer = Inr x"
  shows "cc_state x = UNAVAILABLE_RUNTIME
    \<or> (cc_state x = READY \<and> (\<exists>health raw. answer = Inr health \<and> dget health ''tool'' = PStr tool
        \<and> dget_default health ''evidence'' (PDict []) = PDict raw
        \<and> runtime_ready tool cx (dput raw ''worker_status'' (dget health ''status''))))"
proof (cases answer)
  case (Inl e)
  with assms show ?thesis
    by (auto simp: probe_def split: client_error.splits py_exc.splits if_splits dest: unavailable_state)
next
  case (Inr health)
  show ?thesis
  proof (cases "dget_default health ''evidence'' (PDict [])")
    case (PDict raw)
    with assms Inr show ?thesis
      by (auto simp: probe_def split: if_splits dest: unavailable_state probe_evidence_cases)
  qed (use assms Inr in \<open>auto simp: probe_def split: if_splits dest: unavailable_state\<close>)
qed

section \<open>The contract of a runtime\<close>

locale runtime_contract =
  fixes rt :: "'w runtime"
  assumes probe_state:
    "fst (rt_probe rt tool cx w) = Returned x \<Longrightarrow> cc_state x \<in> {READY, UNAVAILABLE_RUNTIME}"
begin

lemma probed_state: "cc_state (probed (fst (rt_probe rt tool cx w))) \<in> {READY, UNAVAILABLE_RUNTIME}"
  using probe_state [of tool cx w] by (auto simp: probed_def blocked_runtime_def split: outcome.splits)

text \<open>A plugin that cannot assess a tool leaves it unsupported, never irrelevant.\<close>

lemma failed_assessment:
  assumes "\<forall>c. r = Returned c \<longrightarrow> tc_tool c \<noteq> tool"
  shows "cc_state (tc_effective (assessed tool (probed (fst (rt_probe rt t cx w))) r)) = UNSUPPORTED"
proof -
  let ?p = "probed (fst (rt_probe rt t cx w))"
  have "cc_state (tc_effective (failed_capability tool m ?p)) = UNSUPPORTED" for m
    using probed_state [of t cx w]
    by (auto simp: failed_capability_def Let_def effective_state ready_check_def min_def
        less_eq_capability_state_def state_rank_def)
  with assms show ?thesis by (auto simp: assessed_def split: outcome.splits)
qed

end

interpretation sidecars: runtime_contract "sidecar_runtime message health answer files"
  for message health answer files
proof
  fix tool cx w x
  assume "fst (rt_probe (sidecar_runtime message health answer files) tool cx w) = Returned x"
  then have "probe tool cx (fst (health tool w)) = Inr x"
    by (auto simp: sidecar_runtime_def outcome_of_def Let_def split: prod.splits sum.splits)
  from probe_cases [OF this] show "cc_state x \<in> {READY, UNAVAILABLE_RUNTIME}" by auto
qed

section \<open>Paths\<close>

lemma path_relative_to_Some:
  "path_relative_to p a = Some r \<longleftrightarrow>
     (\<exists>ps. posix_path p = (fst (posix_path a), snd (posix_path a) @ ps) \<and> r = path_text ([], ps))"
  by (auto simp: path_relative_to_def Let_def prod_eq_iff) (metis append_take_drop_id)

lemma path_text_relative:
  assumes ps: "\<forall>q \<in> set ps. q \<noteq> [] \<and> q \<noteq> ''.'' \<and> CHR ''/'' \<notin> set q"
  shows "posix_path (path_text ([], ps)) = ([], ps)"
proof (cases "ps = []")
  case False
  let ?j = "join_with CHR ''/'' ps"
  have j: "\<not> starts_with ''/'' ?j" by (rule join_first [OF ps])
  then have "\<not> starts_with ''//'' ?j" by (cases ?j; cases "tl ?j") (auto simp: starts_with_def)
  moreover have "?j \<noteq> []" using False ps by (cases ps; cases "tl ps") auto
  ultimately show ?thesis using j split_parts [OF ps] by (simp add: path_text_def posix_path_def Let_def)
next
  case True
  have "posix_path (path_text ([], [])) = ([], [])" by code_simp
  with True show ?thesis by simp
qed

lemma path_join_relative:
  assumes "fst (posix_path a) \<noteq> []" and ps: "\<forall>q \<in> set ps. q \<noteq> [] \<and> q \<noteq> ''.'' \<and> CHR ''/'' \<notin> set q"
  shows "path_relative_to (path_join a (path_text ([], ps))) a = Some (path_text ([], ps))"
proof -
  have c: "\<forall>q \<in> set (snd (posix_path a) @ ps). q \<noteq> [] \<and> q \<noteq> ''.'' \<and> CHR ''/'' \<notin> set q"
    using ps clean_parts [of _ a] by auto
  have "fst (posix_path a) = ''/'' \<or> fst (posix_path a) = ''//''" using assms(1) posix_root [of a] by blast
  from path_text_rooted [OF this c] show ?thesis
    by (auto simp: path_join_def Let_def path_text_relative [OF ps] path_relative_to_Some)
qed

text \<open>Joining a relative path and taking it back.\<close>

lemma relative_join_back:
  assumes "path_relative_to p a = Some r" "fst (posix_path b) \<noteq> []"
  shows "path_relative_to (path_join b r) b = Some r"
proof -
  from assms(1) obtain ps where ps: "posix_path p = (fst (posix_path a), snd (posix_path a) @ ps)"
      "r = path_text ([], ps)" by (auto simp: path_relative_to_Some)
  then have "set ps \<subseteq> set (snd (posix_path p))" by simp
  then have "\<forall>q \<in> set ps. q \<noteq> [] \<and> q \<noteq> ''.'' \<and> CHR ''/'' \<notin> set q" using clean_parts by blast
  from path_join_relative [OF assms(2) this] ps(2) show ?thesis by simp
qed

section \<open>Executions\<close>

lemma relative_below_Inr:
  "relative_below cr p a = Inr r \<Longrightarrow> path_relative_to (cr_resolve cr p) a \<noteq> None"
  by (auto simp: relative_below_def split: option.splits)

lemma log_path_below:
  "log_path cr rel l = Inr path \<Longrightarrow>
     path_relative_to (cr_resolve cr path) (cr_resolve cr (path_join (cr_artifact cr) rel)) \<noteq> None"
  unfolding log_path_def Let_def by (elim rbindE) (auto dest: relative_below_Inr)

lemma read_stream_Inr:
  assumes "read_stream ce rel execution name = Inr t"
  shows "\<exists>path bytes n. ce_bytes ce path = Some bytes \<and> t = ce_decode ce bytes \<and> length bytes = n
    \<and> path_relative_to (cr_resolve (ce_roots ce) path)
        (cr_resolve (ce_roots ce) (path_join (cr_artifact (ce_roots ce)) rel)) \<noteq> None
    \<and> (\<exists>s. dget execution name = PDict s \<and> py_int (dget s ''bytes_written'') = Inr (int n))"
proof (cases "dget execution name")
  case (PDict stream)
  with assms obtain relative_log path where
      l: "log_path (ce_roots ce) rel relative_log = Inr path" and
      r: "read_bounded_log (ce_decode ce) (ce_bytes ce path) (dget stream ''bytes_written'') = Inr t"
    unfolding read_stream_def by simp (elim rbindE, blast)
  from r obtain size bytes where "py_int (dget stream ''bytes_written'') = Inr size" "0 \<le> size"
      "ce_bytes ce path = Some bytes" "length (take (nat size + 1) bytes) = nat size"
      "t = ce_decode ce (take (nat size + 1) bytes)"
    unfolding read_bounded_log_def
    by (elim rbindE if_InlE) (auto split: option.splits if_splits sum.splits)
  moreover from this have "length bytes = nat size" by simp
  ultimately show ?thesis using log_path_below [OF l] PDict
    by (intro exI [of _ path] exI [of _ bytes] exI [of _ "length bytes"]) auto
qed (use assms in \<open>simp_all add: read_stream_def\<close>)

lemma return_code_zero:
  assumes "return_code execution = Inr v" "py_eq v (PInt 0)"
  shows "dget execution ''cleanup_required'' \<noteq> PBool True
    \<and> (py_int (dget execution ''exit_code'') = Inr 0
       \<or> dget execution ''exit_code'' = PNone \<and> py_int (dget execution ''signal'') = Inr 0)"
  using assms
  by (auto simp: return_code_def int_or_invalid_def result_simps split: if_splits sum.splits)

end
