(* ===== verification/EvalProps.thy ===== *)
theory EvalProps
  imports RuntimeClientFacts
begin

text \<open>
  The properties of the evaluation tools: contracts on the wire, configuration and plan, the
  manager with arbitrary plugins and runtimes, and the sidecar client; each with an application
  to a small configuration with one tool.
\<close>

section \<open>A small evaluation\<close>

definition asan_section :: pyval where
  "asan_section = PDict
     [(PStr ''enabled'', PList [PStr ''gpu-asan'']), (PStr ''policy'', PStr ''Required''),
      (PStr ''tools'', PDict [(PStr ''gpu_asan'', PDict
         [(PStr ''timeout_s'', PInt 60), (PStr ''options'', PDict [(PStr ''command'', PList [PStr ''run''])])])])]"

definition asan_config :: eval_tools_config where
  "asan_config =
     \<lparr>ec_tools =
        [\<lparr>cf_name = ''gpu_asan'', cf_runtime_ref = None, cf_timeout_s = 60,
          cf_options = [(PStr ''command'', PList [PStr ''run'']),
                        (PStr ''positive_control_required'', PBool True)]\<rparr>],
      ec_policy = REQUIRED, ec_runtime_profile = None, ec_positive_control_required = True,
      ec_schema_version = 2\<rparr>"

lemma asan_config: "config_from_mapping (\<lambda>_. None) asan_section = Inr asan_config"
  unfolding asan_section_def asan_config_def by code_simp

definition unknown_profile :: task_profile where
  "unknown_profile =
     \<lparr>tp_task_type = [], tp_language = UNKNOWN_LANGUAGE, tp_artifact_kind = UNKNOWN_ARTIFACT,
      tp_framework = ''unknown'', tp_control = UNKNOWN_CONTROL, tp_adapter = None,
      tp_source_available = False, tp_source_files = [], tp_target_functions = [],
      tp_explicit_overrides = [], tp_evidence = []\<rparr>"

text \<open>A plugin and a runtime whose only tool runs at once and finds nothing.\<close>

definition asan_capability :: tool_capability where
  "asan_capability =
     \<lparr>tc_tool = ''gpu_asan'', tc_engine = ready_check [], tc_adapter = ready_check [],
      tc_runtime = ready_check [], tc_effective = ready_check []\<rparr>"

definition asan_invocation :: tool_invocation where
  "asan_invocation =
     \<lparr>ti_tool = ''gpu_asan'', ti_command = [''run''], ti_cwd = ''/w'', ti_env = [], ti_timeout_s = 3600,
      ti_artifact_dir = PNone, ti_shell = False, ti_metadata = []\<rparr>"

definition asan_record :: execution_record where
  "asan_record =
     \<lparr>er_command = [''run''], er_returncode = PInt 0, er_stdout = [], er_stderr = [],
      er_duration_s = Fin 1, er_timed_out = False, er_metadata = []\<rparr>"

definition asan_result :: tool_run_result where
  "asan_result =
     \<lparr>rr_tool = ''gpu_asan'', rr_execution = COMPLETED, rr_finding = CLEAN, rr_findings = [],
      rr_summary = PNone, rr_artifacts = [], rr_record = Some asan_record, rr_metadata = []\<rparr>"

definition asan_plugin :: "unit plugin" where
  "asan_plugin =
     \<lparr>pg_name = ''gpu_asan'', pg_version = ''1'', pg_assess = (\<lambda>_ _ w. (Returned asan_capability, w)),
      pg_build = (\<lambda>_ w. (Returned asan_invocation, w)), pg_parse = (\<lambda>_ _ w. (Returned asan_result, w))\<rparr>"

definition asan_runtime :: "unit runtime" where
  "asan_runtime =
     \<lparr>rt_probe = (\<lambda>_ _ w. (Returned (ready_check []), w)),
      rt_execute = (\<lambda>_ _ w. (Returned asan_record, w))\<rparr>"

definition asan_input :: "unit evaluation_input" where
  "asan_input =
     \<lparr>in_registry = [(''gpu_asan'', asan_plugin)], in_runtime = asan_runtime, in_cwd = ''/'',
      in_workspace = ''/w'', in_task_config = [], in_profile = unknown_profile, in_gpu_arch = PNone,
      in_artifact_root = None, in_env = [], in_uuid = (\<lambda>_. ''0''),
      in_mkdir = (\<lambda>_ w. (Inr (), w))\<rparr>"

lemma asan_name: "tool_value ''gpu_asan'' = Inr ''gpu_asan''"
  by code_simp

lemma asan_versions:
  "plugin_versions pg_version [(''gpu_asan'', asan_plugin)] (enabled_tools asan_config) = Inr [(''gpu_asan'', ''1'')]"
  by (simp add: plugin_versions_def enabled_tools_def asan_config_def normalize_tool_name_def asan_name
      get_plugin_def asan_plugin_def)

lemma asan_plan:
  "\<exists>plan. build_plan (in_registry asan_input) asan_config (in_profile asan_input) no_evidence = Inr plan"
  by (simp add: asan_input_def build_plan_def asan_versions)
     (simp add: build_evaluation_plan_def asan_config_def plan_tool_def mk_tool_plan_def asan_name
       dict_or_empty_def mk_evaluation_plan_def)

lemma asan_tools:
  assumes "build_plan (in_registry asan_input) asan_config (in_profile asan_input) no_evidence = Inr plan"
  shows "\<exists>p. ev_tools plan = [p] \<and> pl_tool p = ''gpu_asan''"
  using assms
  by (simp add: asan_input_def build_plan_def asan_versions)
     (auto simp: build_evaluation_plan_def asan_config_def plan_tool_def mk_tool_plan_def asan_name
       dict_or_empty_def mk_evaluation_plan_def)

lemma asan_registered: "get_plugin [(''gpu_asan'', asan_plugin)] name = Inr g \<Longrightarrow> g = asan_plugin"
  by (auto simp: get_plugin_def rbind_eq_Inr split: option.splits if_splits)

lemma asan_calls_return: "\<not> call_exits asan_input s"
  by (auto simp: call_exits_def asan_input_def asan_runtime_def asan_plugin_def [symmetric] dest!: asan_registered)
     (auto simp: asan_plugin_def)

lemma asan_report: "\<exists>rep. fst (evaluate asan_input asan_config no_evidence ()) = Inr rep"
proof -
  obtain plan where plan: "build_plan (in_registry asan_input) asan_config (in_profile asan_input) no_evidence = Inr plan"
    using asan_plan by blast
  have "\<not> stopped_by asan_input plan (ev_tools plan) e" for e
    using asan_calls_return by (auto simp: stopped_by_def asan_input_def)
  with evaluate_stopped [OF plan, of "()"] show ?thesis
    by (cases "fst (evaluate asan_input asan_config no_evidence ())") auto
qed

definition good_context :: tool_context where
  "good_context =
     \<lparr>tx_workspace = ''/w'', tx_task_config = [], tx_profile = unknown_profile, tx_artifact_dir = ''/w/a'',
      tx_gpu_arch = PNone, tx_runtime_ref = PNone, tx_env = [],
      tx_options = [(PStr ''positive_control_required'', PBool True)], tx_source_evidence = no_evidence\<rparr>"

text \<open>A world of one directory, in which every path resolves to itself.\<close>

definition plain_roots :: client_roots where
  "plain_roots =
     \<lparr>cr_scoring = ''/w'', cr_artifact = ''/w/a'', cr_sidecar_input = ''/input'', cr_sidecar_artifact = ''/artifacts'',
      cr_resolve = (\<lambda>p. p), cr_stdout_limit = None, cr_stderr_limit = None\<rparr>"

definition plain_env :: client_env where
  "plain_env = \<lparr>ce_roots = plain_roots, ce_bytes = (\<lambda>p. if p = ''/w/a/t/log'' then Some ''ok'' else None),
     ce_decode = (\<lambda>b. b)\<rparr>"

section \<open>Contracts\<close>

text \<open>
  The visible capability of a tool has the state that comes first in the precedence (not
  applicable, unsupported, adapter required, runtime unavailable, ready) among its three
  dimensions, and is one of these, with its reason and evidence, or plain ready.
\<close>

theorem effective_capability_precedence:
  "cc_state (effective_capability engine adapter runtime)
      = min (cc_state engine) (min (cc_state adapter) (cc_state runtime))
   \<and> effective_capability engine adapter runtime \<in> {engine, adapter, runtime, ready_check []}"
  using effective_source [of engine adapter runtime] effective_state [of engine adapter runtime]
  by (cases "cc_state engine"; cases "cc_state adapter"; cases "cc_state runtime")
     (simp_all add: effective_capability_def capability_precedence_def)

text \<open>
  C38.  Whatever arrives as a run result is well formed: a normal tool name, no findings when clean
  and at least one when something was found, no blank kind of finding, and a duration that is
  neither negative nor NaN.
\<close>

theorem accepted_result_well_formed:
  assumes "result_from_dict v = Inr r"
  shows "tool_value (rr_tool r) = Inr (rr_tool r)
    \<and> (if rr_finding r = CLEAN then rr_findings r = [] else rr_finding r = FOUND \<longrightarrow> rr_findings r \<noteq> [])
    \<and> list_all (\<lambda>f. strip (fi_kind f) \<noteq> []) (rr_findings r)
    \<and> (case rr_record r of None \<Rightarrow> True
       | Some e \<Rightarrow> fle (Fin 0) (er_duration_s e) \<and> er_duration_s e \<noteq> NaN)"
proof -
  have w: "result_wf r" by (rule result_wire.accepted_wf [OF assms])
  have "fle (Fin 0) (er_duration_s e) \<and> er_duration_s e \<noteq> NaN" if "record_wf e" for e
    using that by (cases "er_duration_s e") (auto simp: record_wf_def duration_def fle_def split: if_splits)
  with w show ?thesis
    by (auto simp: result_wf_def findings_agree_def finding_wf_def list_all_iff split: option.splits)
qed

definition clean_answer :: pyval where
  "clean_answer = PDict
     [(PStr ''tool'', PStr ''GPU-ASan''), (PStr ''execution'', PStr ''completed''), (PStr ''finding'', PStr ''Clean''),
      (PStr ''execution_record'', PDict [(PStr ''command'', PList [PStr ''run'']), (PStr ''returncode'', PInt 0),
         (PStr ''duration_s'', PFloat (Fin 2))])]"

definition clean_result :: tool_run_result where
  "clean_result = asan_result\<lparr>rr_record := Some (asan_record\<lparr>er_duration_s := Fin 2\<rparr>)\<rparr>"

lemma clean_answer: "result_from_dict clean_answer = Inr clean_result"
  by code_simp

lemma accepted_result_well_formed_witness: "tool_value ''gpu_asan'' = Inr ''gpu_asan'' \<and> rr_findings clean_result = []"
  using accepted_result_well_formed [OF clean_answer] by (simp add: clean_result_def asan_result_def)

text \<open>
  C37.  The dictionaries of the contracts are stable: a context, an invocation or a run result that
  was read once is written as a dictionary that reads back, with the same dictionary, and from
  then on unchanged, however often it is relayed.
\<close>

theorem contracts_relayed:
  assumes "context_from_dict cwd u = Inr c" "invocation_from_dict cwd v = Inr i" "result_from_dict x = Inr r"
  shows "(\<exists>c'. context_from_dict cwd (context_to_dict c) = Inr c' \<and> context_to_dict c' = context_to_dict c
        \<and> context_from_dict cwd (context_to_dict c') = Inr c')
    \<and> (\<exists>i'. invocation_from_dict cwd (invocation_to_dict i) = Inr i' \<and> invocation_to_dict i' = invocation_to_dict i
        \<and> invocation_from_dict cwd (invocation_to_dict i') = Inr i')
    \<and> (\<exists>r'. result_from_dict (result_to_dict True r) = Inr r' \<and> result_to_dict True r' = result_to_dict True r
        \<and> result_from_dict (result_to_dict True r') = Inr r')"
  using context_wire.relayed [OF assms(1)] invocation_wire.relayed [OF assms(2)] result_wire.relayed [OF assms(3)]
  by blast

definition sample_context_dict :: pyval where
  "sample_context_dict = PDict
     [(PStr ''workspace'', PStr ''w''), (PStr ''profile'', PDict []), (PStr ''artifact_dir'', PStr ''/a//b'')]"

definition sample_invocation_dict :: pyval where
  "sample_invocation_dict = PDict
     [(PStr ''tool'', PStr ''gpu-asan''), (PStr ''command'', PList [PStr ''run'']), (PStr ''cwd'', PStr ''w''),
      (PStr ''timeout_s'', PStr ''60'')]"

lemma contracts_relayed_witness:
  "\<exists>r'. result_from_dict (result_to_dict True clean_result) = Inr r'
     \<and> result_to_dict True r' = result_to_dict True clean_result"
proof -
  have "is_ok (context_from_dict ''/'' sample_context_dict)" by code_simp
  then obtain c where c: "context_from_dict ''/'' sample_context_dict = Inr c"
    by (cases "context_from_dict ''/'' sample_context_dict") auto
  have "is_ok (invocation_from_dict ''/'' sample_invocation_dict)" by code_simp
  then obtain i where i: "invocation_from_dict ''/'' sample_invocation_dict = Inr i"
    by (cases "invocation_from_dict ''/'' sample_invocation_dict") auto
  from contracts_relayed [OF c i clean_answer] show ?thesis by blast
qed

section \<open>Configuration\<close>

text \<open>
  C34.  An accepted configuration enables known tools once each, with a timeout of at most an hour,
  with the run's rule for positive controls in the options of every tool and none of the options
  the runtime owns; and when the host has selected an image for a tool, that image is the tool's
  runtime.
\<close>

theorem accepted_tools_config:
  assumes "config_from_mapping environ v = Inr c" "t \<in> set (ec_tools c)"
  shows "distinct (map cf_name (ec_tools c)) \<and> known_tool (cf_name t)
    \<and> 0 < cf_timeout_s t \<and> cf_timeout_s t \<le> 3600
    \<and> dlookup (cf_options t) ''positive_control_required'' = Some (PBool (ec_positive_control_required c))
    \<and> list_all (\<lambda>k. \<not> dhas (cf_options t) k) (entries_of runtime_option_table (cf_name t))
    \<and> (if has_text (resolved_ref environ (cf_name t)) then cf_runtime_ref t = resolved_ref environ (cf_name t)
       else True)"
  using config_from_mapping_ok [OF assms(1)] assms(2)
  by (auto simp: config_ok_def tool_config_ok_def enabled_tools_def list_all_iff MAX_TOOL_TIMEOUT_SECONDS_def)

lemma accepted_tools_config_witness: "known_tool (cf_name (hd (ec_tools asan_config)))"
proof -
  have "hd (ec_tools asan_config) \<in> set (ec_tools asan_config)" by (simp add: asan_config_def)
  from accepted_tools_config [OF asan_config this] show ?thesis by blast
qed

text \<open>
  C33.  A task can only narrow the tools of its run: merging its declaration keeps the tools, their
  order and their images, the policy, the profile and the positive controls; timeouts do not
  grow; and no reserved option of any tool changes.
\<close>

theorem task_only_narrows_tools:
  assumes "config_from_mapping environ v = Inr c" "merge_task_tool_config c task = Inr m"
  shows "list_all2 (\<lambda>a b. cf_name b = cf_name a \<and> cf_runtime_ref b = cf_runtime_ref a
       \<and> 0 < cf_timeout_s b \<and> cf_timeout_s b \<le> cf_timeout_s a
       \<and> list_all (\<lambda>k. dlookup (cf_options b) k = dlookup (cf_options a) k) (reserved_option_keys (cf_name a)))
      (ec_tools c) (ec_tools m)
    \<and> m = c\<lparr>ec_tools := ec_tools m\<rparr> \<and> config_ok environ m"
proof -
  note ok = config_from_mapping_ok [OF assms(1)]
  then have "\<forall>t \<in> set (ec_tools c). tool_value (cf_name t) = Inr (cf_name t)"
    by (simp add: config_ok_def tool_config_ok_def)
  from merge_narrows [OF assms(2) this] merge_keeps_ok [OF assms(2) ok] show ?thesis
    by (auto simp: narrows_def list_all_iff elim!: list_all2_mono)
qed

definition narrowing_task :: pydict where
  "narrowing_task =
     [(PStr ''evaluation_tools'', PDict [(PStr ''tools'', PDict [(PStr ''gpu_asan'', PDict
         [(PStr ''timeout_s'', PInt 30), (PStr ''options'', PDict [(PStr ''command'', PList [PStr ''./asan''])])])])])]"

lemma task_only_narrows_tools_witness:
  "\<exists>m. merge_task_tool_config asan_config narrowing_task = Inr m \<and> ec_policy m = REQUIRED"
proof -
  have "is_ok (merge_task_tool_config asan_config narrowing_task)" by code_simp
  then obtain m where m: "merge_task_tool_config asan_config narrowing_task = Inr m"
    by (cases "merge_task_tool_config asan_config narrowing_task") auto
  have "ec_policy (asan_config\<lparr>ec_tools := ec_tools m\<rparr>) = REQUIRED" by (simp add: asan_config_def)
  with task_only_narrows_tools [OF asan_config m] m show ?thesis by metis
qed

definition pinned_item :: "pydict \<Rightarrow> pyval" where
  "pinned_item rest = PDict
     [(PStr ''enabled'', PList [PStr ''rocjitsu'']),
      (PStr ''tools'', PDict [(PStr ''rocjitsu'', PDict (rest @ [(PStr ''image_digest'', PStr ''sha256:aa'')]))])]"

definition host_image :: "string \<Rightarrow> string option" where
  "host_image name = (if name = ''AKA_EVAL_TOOL_RUNTIME_REF_ROCJITSU'' then Some ''sha256:bb'' else None)"

text \<open>The table of the declared tools holds every entry of the declaration under its canonical name.\<close>

lemma add_tool_item_Inr:
  "add_tool_item table kv = Inr t \<Longrightarrow>
     \<exists>name item. tool_value (py_str (fst kv)) = Inr name \<and> name \<notin> fst ` set table \<and> as_mapping (snd kv) = Inr item
       \<and> \<not> conflicting item \<and> t = table @ [(name, item)]"
  unfolding add_tool_item_def by (elim rbindE) (auto split: if_splits elim!: rbindE)

lemma tool_table_entries:
  "foldR add_tool_item table xs = Inr t \<Longrightarrow>
     (map_of table n = Some d \<longrightarrow> map_of t n = Some d)
     \<and> ((k, PDict item) \<in> set xs \<and> tool_value (py_str k) = Inr n \<longrightarrow> map_of t n = Some item)"
proof (induction xs arbitrary: table d)
  case (Cons kv xs)
  then obtain t1 where t1: "add_tool_item table kv = Inr t1" "foldR add_tool_item t1 xs = Inr t"
    by (auto elim!: rbindE)
  from add_tool_item_Inr [OF t1(1)] obtain name item' where a: "tool_value (py_str (fst kv)) = Inr name"
      "name \<notin> fst ` set table" "as_mapping (snd kv) = Inr item'" "t1 = table @ [(name, item')]" by blast
  have "map_of t1 n = Some d" if "map_of table n = Some d" for d
    using that by (simp add: a(4) map_add_def split: option.splits)
  moreover have "map_of t1 n = Some item" if "kv = (k, PDict item)" "tool_value (py_str k) = Inr n"
    using a that by (simp add: map_add_def map_of_eq_None_iff [THEN iffD2])
  ultimately show ?case using Cons.IH [OF t1(2)] by auto
qed simp

lemma enable_tool_image:
  assumes "enable_tool environ table limit positive raw = Inr t" "map_of table (cf_name t) = Some item"
    and "dlookup item ''image_digest'' = Some (PStr digest)" "strip digest \<noteq> []"
    and "environ (runtime_env_name (cf_name t)) = Some img" "strip img \<noteq> []" "strip img \<noteq> strip digest"
  shows "dlookup item ''runtime_ref'' = Some PNone \<and> cf_runtime_ref t = Some (strip img)"
proof -
  from assms(1) obtain name options timeout where
      n: "tool_value (py_str raw) = Inr name" and c: "\<not> conflicting (item_of table name)" and
      r: "\<not> (has_text (authored_ref (item_of table name)) \<and> has_text (resolved_ref environ name)
            \<and> authored_ref (item_of table name) \<noteq> resolved_ref environ name)" and
      t: "mk_tool_config name (text_or (authored_ref (item_of table name)) (resolved_ref environ name))
            (PInt timeout) (dput options ''positive_control_required'' (PBool positive)) = Inr t"
    unfolding enable_tool_def Let_def by (elim rbindE if_InlE) auto
  from t tool_value_normal [OF n] have name: "cf_name t = name"
      and ref: "cf_runtime_ref t = text_or (authored_ref (item_of table name)) (resolved_ref environ name)"
    by (auto simp: mk_tool_config_Inr)
  have item: "item_of table name = item" using assms(2) by (simp add: item_of_def name)
  have chosen: "resolved_ref environ name = Some (strip img)"
    using assms(5, 6) by (auto simp: resolved_ref_def name strip_def)
  have no: "authored_ref item \<noteq> Some (strip digest)"
    using r assms(4, 6, 7) by (auto simp: item chosen has_text_def)
  have digest_text: "stripped_text (PStr digest) = Some (strip digest)" using assms(4) by (simp add: stripped_text_def)
  have "dlookup item ''runtime_ref'' = Some PNone"
  proof (cases "dlookup item ''runtime_ref''")
    case None
    with no digest_text assms(3) show ?thesis by (simp add: authored_ref_def dget_default_def)
  next
    case (Some v)
    have "v = PStr digest" if "v \<noteq> PNone"
      using c that assms(3) by (cases v) (auto simp: item conflicting_def dget_default_def Some)
    with no digest_text Some show ?thesis by (auto simp: authored_ref_def dget_default_def)
  qed
  moreover from this have "authored_ref item = None"
    by (simp add: authored_ref_def dget_default_def stripped_text_def)
  ultimately show ?thesis by (simp add: ref item chosen text_or_def has_text_def)
qed

text \<open>
  C40.  A null \<open>runtime_ref\<close> hides the image digest the author asserted beside it: in an accepted
  configuration a tool whose declared digest differs from the image the host selected is one whose
  \<open>runtime_ref\<close> is given and null, and it runs the host's image; without it the digest would have to match.
\<close>

theorem null_runtime_ref_hides_digest:
  assumes "config_from_mapping environ config = Inr c" "run_section config = Inr (Some section)"
    and "dlookup section ''tools'' = Some (PDict items)" "(k, PDict item) \<in> set items"
    and "t \<in> set (ec_tools c)" "tool_value (py_str k) = Inr (cf_name t)"
    and "dlookup item ''image_digest'' = Some (PStr digest)" "strip digest \<noteq> []"
    and "environ (runtime_env_name (cf_name t)) = Some img" "strip img \<noteq> []" "strip img \<noteq> strip digest"
  shows "dlookup item ''runtime_ref'' = Some PNone \<and> cf_runtime_ref t = Some (strip img)"
proof -
  from assms(1, 2) have "from_section environ section = Inr c" by (simp add: config_from_mapping_def)
  then obtain table limit positive enabled where
      table: "foldR add_tool_item [] items = Inr table"
      and tools: "mapR (enable_tool environ table limit positive) enabled = Inr (ec_tools c)"
    using assms(3) unfolding from_section_def checked_config_def
    by (elim rbindE) (auto simp: dget_default_def split: if_splits)
  from mapR_set [OF tools assms(5)] obtain raw where "enable_tool environ table limit positive raw = Inr t" by blast
  moreover have "map_of table (cf_name t) = Some item"
    using tool_table_entries [OF table] assms(4, 6) by blast
  ultimately show ?thesis using assms(7-11) by (rule enable_tool_image)
qed

lemma null_runtime_ref_hides_digest_witness:
  "\<exists>c t. config_from_mapping host_image (pinned_item [(PStr ''runtime_ref'', PNone)]) = Inr c \<and> ec_tools c = [t]
     \<and> cf_runtime_ref t = Some ''sha256:bb''"
proof -
  let ?item = "[(PStr ''runtime_ref'', PNone), (PStr ''image_digest'', PStr ''sha256:aa'')]"
  have "case config_from_mapping host_image (pinned_item [(PStr ''runtime_ref'', PNone)]) of
      Inl _ \<Rightarrow> False | Inr c \<Rightarrow> map cf_name (ec_tools c) = [''rocjitsu'']"
    by code_simp
  then obtain c t where c: "config_from_mapping host_image (pinned_item [(PStr ''runtime_ref'', PNone)]) = Inr c"
      "ec_tools c = [t]" "cf_name t = ''rocjitsu''"
    by (auto split: sum.splits)
  have s: "run_section (pinned_item [(PStr ''runtime_ref'', PNone)]) = Inr (Some
      [(PStr ''enabled'', PList [PStr ''rocjitsu'']), (PStr ''tools'', PDict [(PStr ''rocjitsu'', PDict ?item)])])"
    "tool_value (py_str (PStr ''rocjitsu'')) = Inr ''rocjitsu''"
    by code_simp+
  have x: "strip ''sha256:aa'' = ''sha256:aa''" "strip ''sha256:bb'' = ''sha256:bb''" "host_image (runtime_env_name ''rocjitsu'') = Some ''sha256:bb''"
    by code_simp+
  show ?thesis
    using null_runtime_ref_hides_digest [OF c(1) s(1), of _ "PStr ''rocjitsu''" ?item t "''sha256:aa''" "''sha256:bb''"] c s(2) x
    by (simp add: dlookup_def)
qed

section \<open>The manager\<close>

text \<open>
  C30.  Whatever its plugins and its runtime return or raise, an evaluation of a plan that could be
  built returns a report: one evaluation for each tool of the plan, in its order, decided by the policy
  of the plan.  It raises only when the artifact directory of a tool could not be made, or when a
  plugin or the runtime ended with an exception that is no \<open>Exception\<close>.
\<close>

theorem evaluation_reports_or_stops:
  assumes "build_plan (in_registry inp) config (in_profile inp) evidence = Inr plan"
  shows "(\<exists>rep. fst (evaluate inp config evidence w) = Inr rep \<and> rp_plan rep = plan
      \<and> map (tc_tool \<circ> te_capability) (rp_evaluations rep) = map pl_tool (ev_tools plan)
      \<and> rp_decision rep = evaluate_policy (ev_policy plan) (rp_evaluations rep))
    \<or> (\<exists>m n p w1 w2. fst (evaluate inp config evidence w) = Inl (MkdirError m) \<and> p \<in> set (ev_tools plan)
         \<and> in_mkdir inp (artifact_dir_of inp plan n (pl_tool p)) w1 = (Inl m, w2))
    \<or> (\<exists>s. fst (evaluate inp config evidence w) = Inl (ExitError s) \<and> call_exits inp s)"
proof (cases "fst (evaluate inp config evidence w)")
  case (Inl e)
  from evaluate_stopped [OF assms Inl] show ?thesis unfolding Inl stopped_by_def by blast
next
  case (Inr rep)
  from evaluate_report [OF Inr] assms Inr show ?thesis by auto
qed

lemma evaluation_reports_or_stops_witness:
  "\<exists>rep. fst (evaluate asan_input asan_config no_evidence ()) = Inr rep
     \<and> map (tc_tool \<circ> te_capability) (rp_evaluations rep) = [''gpu_asan'']"
proof -
  obtain plan where plan: "build_plan (in_registry asan_input) asan_config (in_profile asan_input) no_evidence = Inr plan"
    using asan_plan by blast
  have "in_mkdir asan_input d v = (Inr (), v)" for d v by (simp add: asan_input_def)
  then show ?thesis
    using evaluation_reports_or_stops [OF plan, of "()"] asan_calls_return asan_tools [OF plan] by auto
qed

text \<open>
  C29.  The required policy fails closed: it allows the performance measurement only when every tool
  of the report that applies was ready, ran to completion and was clean, by a result whose execution is on
  record with neither output stream truncated.
\<close>

theorem required_policy_fails_closed:
  assumes "fst (evaluate inp config evidence w) = Inr rep" "ec_policy config = REQUIRED"
    and "pd_allowed (rp_decision rep)" "e \<in> set (rp_evaluations rep)"
    and "cc_state (tc_effective (te_capability e)) \<noteq> NOT_APPLICABLE"
  shows "capability_ready (te_capability e)
    \<and> (\<exists>r x. te_result e = Some r \<and> rr_execution r = COMPLETED \<and> rr_finding r = CLEAN
         \<and> rr_record r = Some x \<and> truncated_streams x = [])"
proof -
  note rep = evaluate_report [OF assms(1)]
  then obtain versions where "build_evaluation_plan config (in_profile inp) versions evidence = Inr (rp_plan rep)"
    unfolding build_plan_def by (auto elim: rbindE)
  then have "ev_policy (rp_plan rep) = REQUIRED" using plan_tools assms(2) by metis
  with rep assms(3-5) have "acceptable e" "whole_output e"
    by (auto simp: policy_allowed list_all_iff)
  with assms(5) show ?thesis by (auto simp: acceptable_def whole_output_def)
qed

lemma asan_evaluations:
  assumes "fst (evaluate asan_input asan_config no_evidence ()) = Inr rep"
  shows "rp_evaluations rep = [\<lparr>te_capability = asan_capability, te_result = Some asan_result\<rparr>]
    \<and> pd_allowed (rp_decision rep)"
proof -
  obtain plan where b: "build_plan (in_registry asan_input) asan_config (in_profile asan_input) no_evidence = Inr plan"
    using asan_plan by blast
  from asan_tools [OF b] obtain p where p: "ev_tools plan = [p]" "pl_tool p = ''gpu_asan''" by blast
  have g: "get_plugin (in_registry asan_input) ''gpu_asan'' = Inr asan_plugin"
    by (simp add: get_plugin_def normalize_tool_name_def asan_name asan_input_def)
  have "fst (evaluate_tools asan_input plan 0 [p] ()) = Inr [\<lparr>te_capability = asan_capability, te_result = Some asan_result\<rparr>]"
    using g p(2)
    by (simp add: evaluate_tool_def asan_input_def asan_runtime_def asan_plugin_def assessed_def
        asan_capability_def capability_ready_def ready_check_def run_tool_def built_def asan_invocation_def
        parsed_result_def asan_result_def asan_record_def fail_closed_on_truncated_output_def
        truncated_streams_def dget_default_def mk_tool_evaluation_def)
  with assms b p(1) show ?thesis
    by (auto simp: evaluate_def map_error_eq_Inr mk_evaluation_report_def policy_allowed acceptable_def capability_ready_def
        asan_capability_def ready_check_def asan_result_def split: prod.splits if_splits)
qed

lemma required_policy_fails_closed_witness: "\<exists>x. rr_record asan_result = Some x \<and> truncated_streams x = []"
proof -
  obtain rep where r: "fst (evaluate asan_input asan_config no_evidence ()) = Inr rep" using asan_report by blast
  let ?e = "\<lparr>te_capability = asan_capability, te_result = Some asan_result\<rparr>"
  have "ec_policy asan_config = REQUIRED" by (simp add: asan_config_def)
  moreover have "?e \<in> set (rp_evaluations rep)" "pd_allowed (rp_decision rep)" using asan_evaluations [OF r] by simp_all
  moreover have "cc_state (tc_effective (te_capability ?e)) \<noteq> NOT_APPLICABLE"
    by (simp add: asan_capability_def ready_check_def)
  ultimately show ?thesis using required_policy_fails_closed [OF r] by fastforce
qed

text \<open>
  The published status of a report and its decision agree: the status is clean or not
  applicable exactly when the policy is satisfied, and the decision allows the measurement exactly
  when the policy is advisory or satisfied.
\<close>

theorem status_agrees_with_decision:
  assumes "fst (evaluate inp config evidence w) = Inr rep"
  shows "(overall_status rep \<in> {''clean'', ''not_applicable''}) = pd_policy_satisfied (rp_decision rep)
    \<and> pd_allowed (rp_decision rep) = (ev_policy (rp_plan rep) = ADVISORY \<or> pd_policy_satisfied (rp_decision rep))"
  using evaluate_report [OF assms] scan_status_clean [of False False "rp_evaluations rep"]
  by (simp add: overall_status_def policy_satisfied policy_allowed)

lemma status_agrees_with_decision_witness:
  "\<exists>rep. fst (evaluate asan_input asan_config no_evidence ()) = Inr rep
     \<and> (overall_status rep \<in> {''clean'', ''not_applicable''}) = pd_policy_satisfied (rp_decision rep)"
  using asan_report status_agrees_with_decision [of asan_input asan_config no_evidence "()"] by blast

text \<open>
  The plan's timeout and the evaluation's own artifact directory cannot be bypassed: a tool
  only ever reaches the runtime with them, so a runtime that differs on any other invocation gives
  the same result.
\<close>

theorem plan_limits_not_bypassed:
  assumes "\<And>i w. ti_timeout_s i = pl_timeout_s p \<Longrightarrow> ti_tool i = pl_tool p
      \<Longrightarrow> ti_artifact_dir i = PStr (tx_artifact_dir cx) \<Longrightarrow> rt_execute rt i cx w = rt_execute rt' i cx w"
  shows "run_tool plugin rt p cx w = run_tool plugin rt' p cx w"
proof -
  have "ti_timeout_s i = pl_timeout_s p \<and> ti_tool i = pl_tool p \<and> ti_artifact_dir i = PStr (tx_artifact_dir cx)"
    if "built p (tx_artifact_dir cx) b = Inr i" for b i
    using that by (auto simp: built_def split: outcome.splits if_splits)
  with assms have "rt_execute rt i cx v = rt_execute rt' i cx v" if "built p (tx_artifact_dir cx) b = Inr i" for b i v
    using that by blast
  then show ?thesis unfolding run_tool_def by (intro sbind_cong refl) (auto split: sum.splits)
qed

definition other_runtime :: "unit runtime" where
  "other_runtime = asan_runtime\<lparr>rt_execute := (\<lambda>i cx w.
     if ti_timeout_s i = 60 then rt_execute asan_runtime i cx w else (Raised ''killed'', w))\<rparr>"

definition asan_tool_plan :: tool_plan where
  "asan_tool_plan = \<lparr>pl_tool = ''gpu_asan'', pl_runtime_ref = PNone, pl_plugin_version = ''1'',
     pl_timeout_s = 60, pl_options = []\<rparr>"

lemma plan_limits_not_bypassed_witness:
  "run_tool asan_plugin asan_runtime asan_tool_plan good_context () = run_tool asan_plugin other_runtime asan_tool_plan good_context ()"
  by (rule plan_limits_not_bypassed) (simp add: other_runtime_def asan_tool_plan_def)

section \<open>The sidecar client\<close>

text \<open>
  C32.  A sidecar is only ready after every check: it names the tool, runs the configured image,
  shows every asset the tool requires, was loaded from the image's own framework with a hash for
  each of its probes, and its positive control passed when one is required.
\<close>

theorem ready_sidecar_checked:
  assumes "probe tool cx answer = Inr c" "cc_state c = READY"
  shows "\<exists>health raw evidence. answer = Inr health \<and> dget health ''tool'' = PStr tool
    \<and> dget_default health ''evidence'' (PDict []) = PDict raw
    \<and> evidence = dput raw ''worker_status'' (dget health ''status'')
    \<and> (if truthy (tx_runtime_ref cx) then py_eq (dget evidence ''runtime_ref'') (tx_runtime_ref cx) else True)
    \<and> list_all (\<lambda>n. truthy (dget evidence n)) (entries_of required_assets tool)
    \<and> (if tool \<in> fst ` set builtin_probes then framework_valid tool evidence else True)
    \<and> (if positive_required cx then control_passed (selected_positive tool cx evidence) else True)"
  using probe_cases [OF assms(1)] assms(2) by (auto simp: runtime_ready_def list_all_iff)

definition hex64 :: pyval where
  "hex64 = PStr ''0123456789abcdef0123456789abcdef0123456789abcdef0123456789abcdef''"

definition good_health :: pydict where
  "good_health =
     [(PStr ''status'', PStr ''ready''), (PStr ''tool'', PStr ''rocjitsu''), (PStr ''protocol_version'', PInt 1),
      (PStr ''pid'', PInt 7),
      (PStr ''evidence'', PDict
         [(PStr ''rocjitsu_binary'', PStr ''/opt/rj''), (PStr ''config_path'', PStr ''/opt/rj.json''),
          (PStr ''framework_root'', PStr ''/opt/aka-eval-tools''), (PStr ''framework_source'', PStr ''image_default''),
          (PStr ''worker_module'', PStr ''/opt/aka-eval-tools/src/eval_tools/worker.py''),
          (PStr ''worker_module_sha256'', hex64),
          (PStr ''probe_manifest'', PDict [(PStr ''rocjitsu_race_probe.hip'', hex64)]),
          (PStr ''positive_control'', PDict [(PStr ''passed'', PBool True)])])]"

lemma ready_sidecar_checked_witness:
  "\<exists>c. probe ''rocjitsu'' good_context (Inr good_health) = Inr c \<and> cc_state c = READY
     \<and> positive_required good_context"
proof -
  have "(case probe ''rocjitsu'' good_context (Inr good_health) of Inl _ \<Rightarrow> False | Inr c \<Rightarrow> cc_state c = READY)"
    by code_simp
  then obtain c where c: "probe ''rocjitsu'' good_context (Inr good_health) = Inr c" "cc_state c = READY"
    by (auto split: sum.splits)
  moreover have "positive_required good_context" by code_simp
  ultimately show ?thesis using ready_sidecar_checked [OF c] by blast
qed

text \<open>
  A plugin that cannot assess its tool never makes the tool irrelevant: on the sidecar runtime
  the tool is then unsupported, whatever the sidecar answered, and the policy is not satisfied.
\<close>

theorem failed_assessment_blocks:
  assumes "\<forall>c. r = Returned c \<longrightarrow> tc_tool c \<noteq> tool"
    and "te_capability e = assessed tool (probed (fst (rt_probe (sidecar_runtime message health answer files) t cx w))) r"
  shows "cc_state (tc_effective (te_capability e)) = UNSUPPORTED
    \<and> (e \<in> set es \<longrightarrow> \<not> pd_policy_satisfied (evaluate_policy policy es))"
proof -
  have "cc_state (tc_effective (te_capability e)) = UNSUPPORTED"
    unfolding assms(2) by (rule sidecars.failed_assessment [OF assms(1)])
  moreover from this have "\<not> acceptable e" by (simp add: acceptable_def capability_ready_def)
  ultimately show ?thesis by (auto simp: policy_satisfied list_all_iff)
qed

lemma failed_assessment_blocks_witness:
  "\<not> pd_policy_satisfied (evaluate_policy REQUIRED
      [\<lparr>te_capability = assessed ''rocjitsu'' (probed (fst (rt_probe
          (sidecar_runtime (\<lambda>_. []) (\<lambda>_ w. (Inr good_health, w)) (\<lambda>_ _ w. (Inr [], w)) (\<lambda>_. plain_env))
          ''rocjitsu'' good_context ()))) (Raised ''no adapter''), te_result = None\<rparr>])"
  (is "\<not> pd_policy_satisfied (evaluate_policy REQUIRED [?e])")
proof -
  have n: "\<forall>c. Raised ''no adapter'' = Returned c \<longrightarrow> tc_tool c \<noteq> ''rocjitsu''" by simp
  have "te_capability ?e = assessed ''rocjitsu'' (probed (fst (rt_probe
      (sidecar_runtime (\<lambda>_. []) (\<lambda>_ w. (Inr good_health, w)) (\<lambda>_ _ w. (Inr [], w)) (\<lambda>_. plain_env))
      ''rocjitsu'' good_context ()))) (Raised ''no adapter'')" by simp
  from failed_assessment_blocks [OF n this, of "[?e]" REQUIRED] show ?thesis by simp
qed

text \<open>
  A worker cannot flood the client: the line it accepts is no longer than the limit and has
  no newline, and over a socket that keeps to the sizes asked for it is exactly what precedes the
  first newline.
\<close>

theorem response_line_bounded:
  assumes "receive_line limit 0 chunks = Inr l" "asked_for limit 0 chunks"
  shows "length l \<le> limit \<and> l = takeWhile (\<lambda>c. c \<noteq> CHR 0x0A) (concat chunks)
    \<and> CHR 0x0A \<in> set (concat chunks)"
proof -
  from receive_line_prefix [OF assms] obtain rest where r: "concat chunks = l @ CHR 0x0A # rest" by blast
  have b: "length l \<le> limit" "CHR 0x0A \<notin> set l" using receive_line_bound [OF assms(1)] by auto
  then have "takeWhile (\<lambda>c. c \<noteq> CHR 0x0A) (concat chunks) = l"
    unfolding r by (subst takeWhile_append2) auto
  with b r show ?thesis by simp
qed

lemma response_line_bounded_witness:
  "length (''ab'' :: string) \<le> 4 \<and> (''ab'' :: string) = takeWhile (\<lambda>c. c \<noteq> CHR 0x0A) (concat [''a'', ''b'' @ [CHR 0x0A, CHR ''c'']])"
proof -
  have "receive_line 4 0 [''a'', ''b'' @ [CHR 0x0A, CHR ''c'']] = Inr ''ab''" by (simp add: Let_def)
  moreover have "asked_for 4 0 [''a'', ''b'' @ [CHR 0x0A, CHR ''c'']]" by simp
  ultimately show ?thesis using response_line_bounded by blast
qed

text \<open>
  C31.  An execution that counts as completed is one: the record of a sidecar has that status only
  if the worker reported exit code zero (or none and signal zero), no time-out and no process left to clean up,
  and the two logs are the whole contents, of the reported size, of files that resolve below the
  artifact directory of this very execution.
\<close>

theorem completed_execution_genuine:
  assumes "record_of_response ce i rel response = Inr r"
  shows "\<exists>execution out err. dget response ''execution'' = PDict execution
    \<and> dget response ''tool'' = PStr (ti_tool i)
    \<and> er_stdout r = ce_decode ce out \<and> er_stderr r = ce_decode ce err
    \<and> (\<forall>bytes \<in> {out, err}. \<exists>path. ce_bytes ce path = Some bytes
         \<and> path_relative_to (cr_resolve (ce_roots ce) path)
             (cr_resolve (ce_roots ce) (path_join (cr_artifact (ce_roots ce)) rel)) \<noteq> None)
    \<and> (if record_status r = COMPLETED
       then \<not> truthy (dget_default execution ''timed_out'' (PBool False))
         \<and> dget execution ''cleanup_required'' \<noteq> PBool True
         \<and> (py_int (dget execution ''exit_code'') = Inr 0
            \<or> dget execution ''exit_code'' = PNone \<and> py_int (dget execution ''signal'') = Inr 0)
       else True)"
proof -
  from assms obtain execution where x: "dget response ''execution'' = PDict execution"
      "dget response ''tool'' = PStr (ti_tool i)"
    by (auto simp: record_of_response_def split: if_splits pyval.splits)
  with assms obtain out err code seconds where
      s: "read_stream ce rel execution ''stdout'' = Inr out" "read_stream ce rel execution ''stderr'' = Inr err"
      and c: "return_code execution = Inr code" and r: "er_stdout r = out" "er_stderr r = err" "er_returncode r = code"
      "er_timed_out r = truthy (dget_default execution ''timed_out'' (PBool False))"
    unfolding record_of_response_def by simp (elim rbindE, auto)
  from read_stream_Inr [OF s(1)] obtain p1 b1 where o1: "ce_bytes ce p1 = Some b1" "out = ce_decode ce b1"
      "path_relative_to (cr_resolve (ce_roots ce) p1)
         (cr_resolve (ce_roots ce) (path_join (cr_artifact (ce_roots ce)) rel)) \<noteq> None" by blast
  from read_stream_Inr [OF s(2)] obtain p2 b2 where o2: "ce_bytes ce p2 = Some b2" "err = ce_decode ce b2"
      "path_relative_to (cr_resolve (ce_roots ce) p2)
         (cr_resolve (ce_roots ce) (path_join (cr_artifact (ce_roots ce)) rel)) \<noteq> None" by blast
  have st: "record_status r = COMPLETED \<Longrightarrow> \<not> er_timed_out r \<and> py_eq (er_returncode r) (PInt 0)"
    by (simp add: record_status_def split: if_splits)
  show ?thesis
    by (rule exI [of _ execution], rule exI [of _ b1], rule exI [of _ b2])
       (use x r o1 o2 st return_code_zero [OF c] in auto)
qed

definition plain_response :: pydict where
  "plain_response =
     [(PStr ''tool'', PStr ''gpu_asan''),
      (PStr ''execution'', PDict
         [(PStr ''stdout'', PDict [(PStr ''path'', PStr ''t/log''), (PStr ''bytes_written'', PInt 2)]),
          (PStr ''stderr'', PDict [(PStr ''path'', PStr ''t/log''), (PStr ''bytes_written'', PInt 2)]),
          (PStr ''exit_code'', PInt 0)])]"

lemma completed_execution_genuine_witness:
  "\<exists>r. record_of_response plain_env asan_invocation ''t'' plain_response = Inr r
     \<and> (\<exists>bytes. er_stdout r = ce_decode plain_env bytes)"
proof -
  have "is_ok (record_of_response plain_env asan_invocation ''t'' plain_response)" by code_simp
  then obtain r where r: "record_of_response plain_env asan_invocation ''t'' plain_response = Inr r"
    by (cases "record_of_response plain_env asan_invocation ''t'' plain_response") auto
  from completed_execution_genuine [OF this] r show ?thesis by blast
qed

text \<open>
  Paths keep their place across the boundary: an absolute path that resolves below a mapped
  root is translated to the path at the same relative place below the sidecar's mount of that
  root, the artifact root taking precedence; any other text stays as it is.
\<close>

theorem translated_path_keeps_place:
  assumes "fst (posix_path (cr_sidecar_artifact cr)) \<noteq> []" "fst (posix_path (cr_sidecar_input cr)) \<noteq> []"
  shows "(let t = translate_absolute_path cr v; p = cr_resolve cr v in
     if \<not> starts_with ''/'' v \<or> NUL \<in> set v then t = v
     else if path_relative_to p (cr_artifact cr) \<noteq> None
       then path_relative_to t (cr_sidecar_artifact cr) = path_relative_to p (cr_artifact cr)
     else if path_relative_to p (cr_scoring cr) \<noteq> None
       then path_relative_to t (cr_sidecar_input cr) = path_relative_to p (cr_scoring cr)
     else t = v)"
  using relative_join_back assms by (auto simp: translate_absolute_path_def Let_def)

lemma translated_path_keeps_place_witness:
  "path_relative_to (translate_absolute_path plain_roots ''/w/a/x/y'') ''/artifacts'' = Some ''x/y''"
proof -
  have r: "fst (posix_path (cr_sidecar_artifact plain_roots)) \<noteq> []" "fst (posix_path (cr_sidecar_input plain_roots)) \<noteq> []"
    by code_simp+
  have "starts_with ''/'' ''/w/a/x/y''" "NUL \<notin> set ''/w/a/x/y''"
    "path_relative_to (cr_resolve plain_roots ''/w/a/x/y'') (cr_artifact plain_roots) = Some ''x/y''"
    "cr_sidecar_artifact plain_roots = ''/artifacts''" by code_simp+
  with translated_path_keeps_place [OF r, of "''/w/a/x/y''"] show ?thesis by (simp add: Let_def)
qed

end
