(* ===== verification/TaskExecution.thy ===== *)
theory TaskExecution
  imports TaskProtocol Digits
begin

text \<open>
  \<open>src/task_execution.py\<close>: one protocol action of a task, run as processes under one deadline,
  its evidence parsed, merged and compared with the manifest.

  The host is a record of functions on a world \<open>'w\<close>: the clock, \<open>uuid4\<close>, the environment
  \<open>build_subprocess_env\<close> builds, the resolution of the workspace and the processes.  A process
  ends with an exit code and its output, is killed at its time-out, or cannot be started
  (\<open>OSError\<close>).  Interrupts of the framework itself are not modelled.
\<close>

section \<open>Errors and evidence\<close>

record command_evidence =
  cm_argv :: "string list"
  cm_returncode :: int
  cm_stdout :: string
  cm_stderr :: string
  cm_elapsed_s :: pyfloat

text \<open>
  \<open>Execution\<close> is \<open>TaskExecutionError\<close> with the evidence it carries, \<open>Config\<close> \<open>TaskConfigError\<close>,
  \<open>Report\<close> an exception of the report's checks, \<open>OsErr\<close> an \<open>OSError\<close>.
\<close>

datatype session_error =
    Execution string "command_evidence list" | Config config_error | Report report_error | OsErr string

record executed_action =
  xa_invocation_id :: string
  xa_result :: action_result
  xa_commands :: "command_evidence list"

section \<open>The host\<close>

type_synonym process_env = "(string \<times> string) list"

datatype process_end = Exited int string string | Killed string string | NotStarted string

record 'w host =
  h_now :: "'w \<Rightarrow> pyfloat \<times> 'w"
  h_uuid :: "'w \<Rightarrow> string \<times> 'w"
  h_environ :: "'w \<Rightarrow> process_env"
  h_resolve :: "string \<Rightarrow> 'w \<Rightarrow> string option"
  h_process :: "string list \<Rightarrow> string \<Rightarrow> process_env \<Rightarrow> pyfloat \<Rightarrow> 'w \<Rightarrow> process_end \<times> 'w"

fun fneg :: "pyfloat \<Rightarrow> pyfloat" where
  "fneg (Fin x) = (if x = 0 then NegZero else Fin (- x))"
| "fneg NegZero = Fin 0"
| "fneg PInf = NInf"
| "fneg NInf = PInf"
| "fneg NaN = NaN"

definition fsub :: "pyfloat \<Rightarrow> pyfloat \<Rightarrow> pyfloat" where
  "fsub x y = fadd x (fneg y)"

text \<open>\<open>_run_process\<close>: what it returns, or the exception it raises.\<close>

datatype process_outcome = Finished command_evidence | Expired string string | Unstartable string

definition run_process ::
    "'w host \<Rightarrow> string list \<Rightarrow> string \<Rightarrow> process_env \<Rightarrow> pyfloat \<Rightarrow> 'w \<Rightarrow> process_outcome \<times> 'w" where
  "run_process h argv workspace env timeout w =
     (let (started, w1) = h_now h w; (e, w2) = h_process h argv workspace env timeout w1 in
      case e of
        Exited code out err \<Rightarrow>
          let (ended, w3) = h_now h w2 in
          (Finished \<lparr>cm_argv = argv, cm_returncode = code, cm_stdout = out, cm_stderr = err,
                     cm_elapsed_s = fsub ended started\<rparr>, w3)
      | Killed out err \<Rightarrow> (Expired out err, w2)
      | NotStarted m \<Rightarrow> (Unstartable m, w2))"

section \<open>Running an action\<close>

definition PHASES :: "string list" where
  "PHASES = [''task_validation'', ''candidate_evaluation'']"

definition PYTHON_ENV_VAR :: string where
  "PYTHON_ENV_VAR = ''AGENT_KERNEL_ARENA_PYTHON''"

definition put_var :: "string \<Rightarrow> string \<Rightarrow> process_env \<Rightarrow> process_env" where
  "put_var k v env =
     (if k \<in> fst ` set env then map (\<lambda>(n, x). if n = k then (n, v) else (n, x)) env else env @ [(k, v)])"

definition arena_var :: "string \<times> string \<Rightarrow> bool" where
  "arena_var kv = starts_with ''ARENA_'' (fst kv)"

definition action_env ::
    "process_env \<Rightarrow> process_env \<Rightarrow> string \<Rightarrow> (session_error, process_env) result" where
  "action_env inherited extra phase =
     rbind (raise_when (list_ex arena_var extra)
              (Execution ''extra_env cannot override framework ARENA_* context'' [])) (\<lambda>_.
     Inr (put_var ''ARENA_EVAL_PHASE'' phase
            (foldl (\<lambda>env (k, v). put_var k v env) (filter (\<lambda>kv. \<not> arena_var kv) inherited) extra)))"

text \<open>The interpreter of this run replaces a bare \<open>python\<close>, \<open>python3\<close> or \<open>pytest\<close>.\<close>

definition selected_argv :: "process_env \<Rightarrow> string list \<Rightarrow> string list" where
  "selected_argv env command =
     (case map_of env PYTHON_ENV_VAR of
        Some (c # cs) \<Rightarrow>
          if hd command = ''python'' \<or> hd command = ''python3'' then (c # cs) # tl command
          else if hd command = ''pytest'' then [c # cs, ''-m'', ''pytest''] @ tl command
          else command
      | _ \<Rightarrow> command)"

definition deadline_exceeded :: "command_evidence list \<Rightarrow> session_error" where
  "deadline_exceeded evidence = Execution ''exceeded its action deadline'' evidence"

text \<open>A \<open>TaskProtocolError\<close> becomes a \<open>TaskExecutionError\<close> with the evidence so far.\<close>

fun invalid_evidence :: "command_evidence list \<Rightarrow> report_error \<Rightarrow> session_error" where
  "invalid_evidence evidence (Protocol m) = Execution (''Invalid evidence: '' @ m) evidence"
| "invalid_evidence evidence (Escapes x) = Report (Escapes x)"

text \<open>The loop over the commands, with the results and the evidence so far.\<close>

type_synonym progress = "action_result list \<times> command_evidence list"

fun run_commands ::
    "'w host \<Rightarrow> string \<Rightarrow> string \<Rightarrow> string \<Rightarrow> process_env \<Rightarrow> pyfloat \<Rightarrow> string list list
     \<Rightarrow> progress \<Rightarrow> 'w \<Rightarrow> (session_error, progress) result \<times> 'w" where
  "run_commands h workspace role act env deadline [] done_so_far w = (Inr done_so_far, w)"
| "run_commands h workspace role act env deadline (command # commands) (results, evidence) w =
     (let (now, w1) = h_now h w; remaining = fsub deadline now in
      if fle remaining (Fin 0) then (Inl (deadline_exceeded evidence), w1)
      else let argv = selected_argv env command;
               (outcome, w2) = run_process h argv workspace env remaining w1 in
      case outcome of
        Expired out err \<Rightarrow>
          (Inl (deadline_exceeded (evidence @
             [\<lparr>cm_argv = argv, cm_returncode = - 9, cm_stdout = out, cm_stderr = err,
               cm_elapsed_s = remaining\<rparr>])), w2)
      | Unstartable m \<Rightarrow> (Inl (Execution (''Cannot execute: '' @ m) evidence), w2)
      | Finished executed \<Rightarrow>
          (case parse_command_result (cm_stdout executed) role act (cm_returncode executed) of
             Inl e \<Rightarrow> (Inl (invalid_evidence (evidence @ [executed]) e), w2)
           | Inr r \<Rightarrow>
               if passed r
               then run_commands h workspace role act env deadline commands
                      (results @ [r], evidence @ [executed]) w2
               else (Inr (results @ [r], evidence @ [executed]), w2)))"

text \<open>The merged result, held against the manifest.\<close>

definition merged_result ::
    "string \<Rightarrow> manifest option \<Rightarrow> progress \<Rightarrow> (session_error, action_result) result" where
  "merged_result act manifest = (\<lambda>(results, evidence).
     map_error (invalid_evidence evidence)
       (rbind (merge_command_results results) (\<lambda>r.
        rbind (case manifest of Some m \<Rightarrow> if act \<noteq> ''validate-task'' then validate m r else Inr () | None \<Rightarrow> Inr ())
          (\<lambda>_. Inr r))))"

definition run_action ::
    "'w host \<Rightarrow> task_spec \<Rightarrow> string \<Rightarrow> string \<Rightarrow> string \<Rightarrow> string \<Rightarrow> manifest option \<Rightarrow> process_env
     \<Rightarrow> 'w \<Rightarrow> (session_error, executed_action) result \<times> 'w" where
  "run_action h spec workspace role act phase manifest extra w =
     sbind (guardR (phase \<in> set PHASES) (Execution ''Unknown evaluation phase'' []), w) (\<lambda>_ w.
     sbind (raise_when (act \<in> {''correctness'', ''performance''} \<and> manifest = None)
              (Execution ''Correctness/performance require an independently captured manifest'' []), w) (\<lambda>_ w.
     sbind (map_error Config (select_action spec role act), w) (\<lambda>selected w.
     sbind (case h_resolve h workspace w of None \<Rightarrow> Inl (OsErr ''no workspace'') | Some p \<Rightarrow> Inr p, w) (\<lambda>place w.
     sbind (action_env (h_environ h w) extra phase, w) (\<lambda>env w.
     let (invocation, w) = h_uuid h w; (now, w) = h_now h w in
     sbind (map_error (Report \<circ> Escapes) (float_of_int (act_timeout_s selected)), w) (\<lambda>limit w.
     let deadline = fadd now limit in
     sbind (run_commands h place role act env deadline (act_commands selected) ([], []) w) (\<lambda>progress w.
     sbind (merged_result act manifest progress, w) (\<lambda>r w.
     let (ended, w) = h_now h w in
     if flt deadline ended then (Inl (deadline_exceeded (snd progress)), w)
     else (Inr \<lparr>xa_invocation_id = invocation, xa_result = r, xa_commands = snd progress\<rparr>, w)))))))))"

end
