(* ===== verification/CandidateFiles.thy ===== *)
theory CandidateFiles
  imports TaskExecution
begin

text \<open>
  What a session reads of the candidate's files: the frozen baseline, the structural check of the
  declared files and entry points (\<open>TaskSession._check_candidate_files\<close> with the stub detection of
  \<open>src/evaluator_utils.py\<close>) and the identity of the candidate (\<open>_candidate_sources\<close>).

  The file system is part of the host.  A path that has been resolved stands for its place
  relative to the candidate's workspace; \<open>ast.parse\<close> gives a module's top-level statements, of
  which only what the stub detection looks at is kept.
\<close>

section \<open>Modules\<close>

datatype py_expr = NameExpr string | CallExpr py_expr | AttributeExpr py_expr string | StringExpr | OtherExpr

datatype py_stmt =
    DefStmt string "py_stmt list" | ClassStmt string "py_stmt list" | ExprStmt py_expr
  | PassStmt | RaiseStmt "py_expr option" | OtherStmt

definition is_not_implemented_exception :: "py_expr option \<Rightarrow> bool" where
  "is_not_implemented_exception expression =
     (case (case expression of Some (CallExpr f) \<Rightarrow> Some f | e \<Rightarrow> e) of
        Some (NameExpr n) \<Rightarrow> n = ''NotImplementedError''
      | Some (AttributeExpr (NameExpr m) a) \<Rightarrow> a = ''NotImplementedError'' \<and> m = ''builtins''
      | _ \<Rightarrow> False)"

definition is_unimplemented_target_stub :: "py_stmt list \<Rightarrow> bool" where
  "is_unimplemented_target_stub body =
     (let rest = (case body of ExprStmt StringExpr # b \<Rightarrow> b | b \<Rightarrow> b) in
      case filter (\<lambda>s. s \<noteq> PassStmt) rest of
        [RaiseStmt e] \<Rightarrow> is_not_implemented_exception e | _ \<Rightarrow> False)"

text \<open>The definitions of a module by name; the last one of a name counts.\<close>

fun definition_of :: "py_stmt \<Rightarrow> (string \<times> py_stmt list) list" where
  "definition_of (DefStmt n b) = [(n, b)]"
| "definition_of (ClassStmt n b) = [(n, b)]"
| "definition_of _ = []"

definition module_definition :: "py_stmt list \<Rightarrow> string \<Rightarrow> py_stmt list option" where
  "module_definition m n = map_of (rev (concat (map definition_of m))) n"

section \<open>The host's file system\<close>

datatype node = Directory | Regular nat | OtherNode

record 'w session_host = "'w host" +
  h_baseline_digest :: "string \<Rightarrow> 'w \<Rightarrow> string option"
  h_locate :: "string \<Rightarrow> bool \<Rightarrow> 'w \<Rightarrow> string option"
  h_node :: "string \<Rightarrow> 'w \<Rightarrow> node option"
  h_below :: "string \<Rightarrow> 'w \<Rightarrow> string list"
  h_digest :: "string \<Rightarrow> 'w \<Rightarrow> string"
  h_module :: "string \<Rightarrow> 'w \<Rightarrow> py_stmt list option"
  h_harness :: "bool \<Rightarrow> 'w \<Rightarrow> (session_error, unit) result \<times> 'w"
  h_snapshot :: "'w \<Rightarrow> (session_error, (string \<times> string) list) result \<times> 'w"

definition resolve_task_path ::
    "'w session_host \<Rightarrow> string \<Rightarrow> bool \<Rightarrow> 'w \<Rightarrow> (session_error, string) result" where
  "resolve_task_path h path must_exist w =
     rbind (map_error Config (relative_path (PStr path) ''path'')) (\<lambda>_.
     case h_locate h path must_exist w of
       None \<Rightarrow> Inl (Config (Refused ''Task path cannot be resolved within workspace''))
     | Some p \<Rightarrow> Inr p)"

fun is_regular :: "node option \<Rightarrow> bool" where
  "is_regular (Some (Regular _)) = True"
| "is_regular _ = False"

section \<open>The frozen baseline\<close>

definition verify_baseline_sources ::
    "'w session_host \<Rightarrow> (string \<times> string) list \<Rightarrow> 'w \<Rightarrow> (session_error, unit) result" where
  "verify_baseline_sources h sources w =
     foldR (\<lambda>_ (relative, digest).
       guardR (h_baseline_digest h relative w = Some digest)
         (Execution (''Frozen baseline source changed: '' @ relative) [])) () sources"

section \<open>The structural check\<close>

definition check_editable ::
    "'w session_host \<Rightarrow> 'w \<Rightarrow> edit_scope \<Rightarrow> (session_error, unit) result" where
  "check_editable h w e =
     rbind (resolve_task_path h (es_path e) True w) (\<lambda>p.
     if es_scope e = ''tree''
     then guardR (h_node h p w = Some Directory) (Execution ''Candidate subtree is not a directory'' [])
     else guardR (case h_node h p w of Some (Regular n) \<Rightarrow> 0 < n | _ \<Rightarrow> False)
            (Execution ''Candidate file is missing or empty'' []))"

definition python_suffix :: "string \<Rightarrow> bool" where
  "python_suffix p = (let name = last (split_on CHR ''/'' p) in ends_with ''.py'' name \<and> name \<noteq> ''.py'')"

definition check_entrypoint ::
    "'w session_host \<Rightarrow> 'w \<Rightarrow> entry_point \<Rightarrow> (session_error, unit) result" where
  "check_entrypoint h w e =
     rbind (resolve_task_path h (ep_file e) True w) (\<lambda>p.
     if \<not> is_regular (h_node h p w) then Inl (Execution ''Candidate entrypoint is not a file'' [])
     else if \<not> python_suffix p \<or> ep_kind e = ''executable'' then Inr ()
     else case h_module h p w of
       None \<Rightarrow> Inl (Execution ''Cannot parse candidate entrypoint'' [])
     | Some m \<Rightarrow>
         (case Option.bind (ep_symbol e) (module_definition m) of
            None \<Rightarrow> Inl (Execution ''Missing candidate entrypoint'' [])
          | Some body \<Rightarrow>
              if is_unimplemented_target_stub body
              then Inl (Execution ''Unimplemented candidate entrypoint'' []) else Inr ()))"

definition check_candidate_files ::
    "'w session_host \<Rightarrow> candidate_spec \<Rightarrow> 'w \<Rightarrow> (session_error, unit) result" where
  "check_candidate_files h c w =
     rbind (foldR (\<lambda>_. check_editable h w) () (cand_editable c)) (\<lambda>_.
     foldR (\<lambda>_. check_entrypoint h w) () (cand_entrypoints c))"

section \<open>The identity of a candidate\<close>

type_synonym sources = "(string \<times> string) list"

definition runtime_dirs :: "string list" where
  "runtime_dirs = [''__pycache__'', ''.pytest_cache'', ''.git'', ''build'']"

definition add_candidate_source ::
    "'w session_host \<Rightarrow> 'w \<Rightarrow> sources \<Rightarrow> string \<Rightarrow> (session_error, sources) result" where
  "add_candidate_source h w sources p =
     rbind (resolve_task_path h p False w) (\<lambda>_.
     Inr (if \<not> is_regular (h_node h p w) then sources
          else if list_ex (\<lambda>part. part \<in> set runtime_dirs) (butlast (split_on CHR ''/'' p)) then sources
          else put_var p (h_digest h p w) sources))"

definition add_edit_sources ::
    "'w session_host \<Rightarrow> 'w \<Rightarrow> bool \<Rightarrow> sources \<Rightarrow> edit_scope \<Rightarrow> (session_error, sources) result" where
  "add_edit_sources h w allow_missing sources e =
     rbind (resolve_task_path h (es_path e) (\<not> allow_missing) w) (\<lambda>p.
     if h_node h p w = None then Inr (put_var (es_path e) ''missing'' sources)
     else foldR (add_candidate_source h w) sources (if es_scope e = ''tree'' then h_below h p w else [p]))"

definition candidate_sources ::
    "'w session_host \<Rightarrow> candidate_spec \<Rightarrow> bool \<Rightarrow> 'w \<Rightarrow> (session_error, sources) result" where
  "candidate_sources h c allow_missing w =
     foldR (add_edit_sources h w allow_missing) [] (cand_editable c)"

text \<open>Two dictionaries of sources are equal when they have the same items.\<close>

definition same_sources :: "sources \<Rightarrow> sources \<Rightarrow> bool" where
  "same_sources a b = (set a = set b)"

end
