(* ===== verification/TaskSession.thy ===== *)
theory TaskSession
  imports CandidateFiles
begin

text \<open>
  \<open>src/task_session.py\<close>: the session of one task, which validates the task's own package once,
  evaluates candidates against the captured manifest, and keeps every piece of evidence as a file
  from which \<open>load\<close> rebuilds the session.

  The state is the object's attributes with the files of its state directory (by name) and the
  world.  A file holds the value that was serialized; the order of keys in the JSON text does not
  matter to any reader.  \<open>load\<close> reads what \<open>create\<close>, \<open>_execute\<close> and \<open>validate_initial\<close> write.
\<close>

section \<open>State\<close>

record initial_validation =
  iv_accepted :: bool
  iv_numerical_status :: string
  iv_diagnostic :: bool
  iv_initial_state :: string
  iv_candidate_checks :: string
  iv_errors :: "string list"

datatype session_file =
    DescriptorFile int string string | SpecFile pydict | SourcesFile sources | HarnessFile
  | ActionFile string string pydict "command_evidence list"
  | FailureFile string string string string "command_evidence list"
  | ReportFile initial_validation
  | AgentContextFile pydict
  | ValidationContextFile initial_validation "session_file list"

type_synonym session_files = "(string \<times> session_file) list"

text \<open>Results are held by phase, role and action.\<close>

type_synonym result_key = "string \<times> string \<times> string"

record 'w session_setup =
  st_host :: "'w session_host"
  st_spec :: task_spec
  st_workspace :: string
  st_state_directory :: string

record 'w session =
  ss_baseline_sources :: sources
  ss_manifest :: "manifest option"
  ss_task_evidence :: "executed_action option"
  ss_initial :: "initial_validation option"
  ss_results :: "result_key \<Rightarrow> executed_action option"
  ss_invocations :: nat
  ss_identity :: "sources option"
  ss_files :: session_files
  ss_world :: 'w

definition TASK_KEY :: result_key where
  "TASK_KEY = (''task_validation'', ''task'', ''validate-task'')"

text \<open>The constructor.\<close>

definition new_session :: "sources \<Rightarrow> session_files \<Rightarrow> 'w \<Rightarrow> 'w session" where
  "new_session sources files w =
     \<lparr>ss_baseline_sources = sources, ss_manifest = None, ss_task_evidence = None, ss_initial = None,
      ss_results = (\<lambda>_. None), ss_invocations = 0, ss_identity = None, ss_files = files, ss_world = w\<rparr>"

text \<open>
  \<open>_write_json\<close> creates its file exclusively.  It refuses numbers that are not finite, which only
  the task's declaration could hold: the records consist of parsed results, which have none.
\<close>

definition write_json ::
    "string \<Rightarrow> session_file \<Rightarrow> 'w session \<Rightarrow> (session_error, unit) result \<times> 'w session" where
  "write_json name f s =
     (if name \<in> fst ` set (ss_files s) then (Inl (OsErr ''file exists''), s)
      else (Inr (), s\<lparr>ss_files := ss_files s @ [(name, f)]\<rparr>))"

section \<open>Creating a session\<close>

definition baseline_workspace :: "'w session_setup \<Rightarrow> string" where
  "baseline_workspace st = st_state_directory st @ ''/baseline''"

text \<open>\<open>is_relative_to\<close> of resolved absolute paths.\<close>

definition directory_parts :: "string \<Rightarrow> string list" where
  "directory_parts p = filter (\<lambda>q. q \<noteq> []) (split_on CHR ''/'' p)"

definition is_relative_to :: "string \<Rightarrow> string \<Rightarrow> bool" where
  "is_relative_to p q = prefix (directory_parts q) (directory_parts p)"

definition create :: "'w session_setup \<Rightarrow> bool \<Rightarrow> 'w \<Rightarrow> (session_error, 'w session) result \<times> 'w" where
  "create st state_exists w =
     (if is_relative_to (st_state_directory st) (st_workspace st)
         \<or> is_relative_to (st_workspace st) (st_state_directory st)
      then (Inl (Config (Refused ''Task session state and candidate workspace must be separate directories'')), w)
      else if state_exists then (Inl (OsErr ''file exists''), w)
      else sbind (h_snapshot (st_host st) w) (\<lambda>sources w.
        sbind (map_error (Report \<circ> Escapes) (to_mapping (st_spec st)), w) (\<lambda>m w.
        sbind (guardR (finite_numbers (PDict m)) (Report (Escapes ValueErr)), w) (\<lambda>_ w.
        (Inr (new_session sources
           [(''initial_sources.json'', SourcesFile sources), (''task_spec.json'', SpecFile m),
            (''session.json'', DescriptorFile 1 (ts_task_id (st_spec st)) (st_workspace st)),
            (''harness.json'', HarnessFile)] w), w)))))"

section \<open>Executing an action\<close>

definition record_name :: "nat \<Rightarrow> string \<Rightarrow> string \<Rightarrow> string" where
  "record_name n role act = ''action-'' @ zero_padded 4 n @ ''-'' @ role @ ''-'' @ act @ ''.json''"

definition session_workspace :: "'w session_setup \<Rightarrow> string \<Rightarrow> string \<Rightarrow> string" where
  "session_workspace st role phase =
     (if phase = ''task_validation'' \<or> role = ''baseline'' then baseline_workspace st else st_workspace st)"

definition baseline_unchanged :: "'w session_setup \<Rightarrow> 'w session \<Rightarrow> (session_error, unit) result" where
  "baseline_unchanged st s = verify_baseline_sources (st_host st) (ss_baseline_sources s) (ss_world s)"

definition verify_harness ::
    "'w session_setup \<Rightarrow> bool \<Rightarrow> 'w session \<Rightarrow> (session_error, unit) result \<times> 'w session" where
  "verify_harness st discard_added s =
     (let (r, w) = h_harness (st_host st) discard_added (ss_world s) in (r, s\<lparr>ss_world := w\<rparr>))"

text \<open>What follows the run of the action: its record, the result kept or dropped.\<close>

definition record_failure ::
    "string \<Rightarrow> result_key \<Rightarrow> string \<Rightarrow> command_evidence list \<Rightarrow> 'w session
     \<Rightarrow> (session_error, executed_action) result \<times> 'w session" where
  "record_failure name = (\<lambda>(phase, role, act) message evidence s.
     let s = s\<lparr>ss_results := (ss_results s)((phase, role, act) := None)\<rparr> in
     sbind (write_json name (FailureFile role act phase message evidence) s) (\<lambda>_ s.
     (Inl (Execution message evidence), s)))"

definition record_success ::
    "'w session_setup \<Rightarrow> string \<Rightarrow> result_key \<Rightarrow> executed_action \<Rightarrow> 'w session
     \<Rightarrow> (session_error, executed_action) result \<times> 'w session" where
  "record_success st name k x s =
     sbind (write_json name (ActionFile (xa_invocation_id x) (fst k) (result_to_mapping (xa_result x))
              (xa_commands x)) s) (\<lambda>_ s.
     let s = s\<lparr>ss_results := (ss_results s)(k := Some x)\<rparr> in
     sbind (baseline_unchanged st s, s) (\<lambda>_ s. (Inr x, s)))"

definition execute ::
    "'w session_setup \<Rightarrow> string \<Rightarrow> string \<Rightarrow> string \<Rightarrow> 'w session
     \<Rightarrow> (session_error, executed_action) result \<times> 'w session" where
  "execute st role act phase s =
     (let n = Suc (ss_invocations s); s = s\<lparr>ss_invocations := n\<rparr>; name = record_name n role act in
      sbind (baseline_unchanged st s, s) (\<lambda>_ s.
      let (r, w) = run_action (host.truncate (st_host st)) (st_spec st) (session_workspace st role phase)
                     role act phase (if role = ''task'' then None else ss_manifest s) [] (ss_world s);
          s = s\<lparr>ss_world := w\<rparr> in
      case r of
        Inl (Execution m evidence) \<Rightarrow> record_failure name (phase, role, act) m evidence s
      | Inl e \<Rightarrow> (Inl e, s)
      | Inr x \<Rightarrow> record_success st name (phase, role, act) x s))"

section \<open>The initial validation\<close>

definition states_reported :: "pyval \<Rightarrow> pyval list" where
  "states_reported v =
     (case v of PDict d \<Rightarrow>
        (case dget_default d ''commands'' (PList []) of
           PList cs \<Rightarrow> concat (map (\<lambda>c. case c of
             PDict m \<Rightarrow> (case dlookup m ''candidate_state'' of Some v \<Rightarrow> [v] | None \<Rightarrow> [])
           | _ \<Rightarrow> []) cs)
         | _ \<Rightarrow> [])
      | _ \<Rightarrow> [])"

definition verify_initial_state :: "task_spec \<Rightarrow> executed_action \<Rightarrow> (session_error, unit) result" where
  "verify_initial_state spec task =
     (let states = states_reported (ar_metadata (xa_result task)) in
      guardR (states \<noteq> [] \<and> list_all (\<lambda>v. v = PStr (cand_initial_state (ts_candidate spec))) states)
        (Execution ''Task check must verify candidate_state against the actual initial files'' []))"

text \<open>\<open>result.reason or default\<close>; the reason of a merged result is a text or missing.\<close>

fun reason_or :: "string \<Rightarrow> pyval \<Rightarrow> string" where
  "reason_or otherwise (PStr s) = (if s = [] then otherwise else s)"
| "reason_or otherwise _ = otherwise"

definition check_actions :: "string list" where
  "check_actions = [''compile'', ''correctness'', ''performance'']"

text \<open>\<open>baseline_correctness_accepted\<close> with the session's own manifest.\<close>

definition correctness_accepted ::
    "task_spec \<Rightarrow> manifest option \<Rightarrow> action_result \<Rightarrow> (session_error, bool) result" where
  "correctness_accepted spec manifest r =
     (case manifest of None \<Rightarrow> Inl (Report (Escapes AttributeErr))
      | Some m \<Rightarrow> map_error Report (baseline_correctness_accepted r (ts_baseline spec) ''task_validation'' m))"

text \<open>
  The local variables of \<open>validate_initial\<close> that outlive an exception: the numerical status, the
  diagnostic flag and the candidate checks.
\<close>

type_synonym progress_notes = "string \<times> bool \<times> string"

fun baseline_steps ::
    "'w session_setup \<Rightarrow> string list \<Rightarrow> progress_notes \<Rightarrow> 'w session
     \<Rightarrow> progress_notes \<times> (session_error, unit) result \<times> 'w session" where
  "baseline_steps st [] notes s = (notes, Inr (), s)"
| "baseline_steps st (act # acts) (numerical, diagnostic, checks) s =
     (case execute st ''baseline'' act ''task_validation'' s of
        (Inl e, s') \<Rightarrow> ((numerical, diagnostic, checks), Inl e, s')
      | (Inr x, s') \<Rightarrow>
          let r = xa_result x; numerical' = (if act = ''correctness'' then ar_status r else numerical) in
          (case (if act = ''correctness'' then correctness_accepted (st_spec st) (ss_manifest s') r
                 else Inr (passed r)) of
             Inl e \<Rightarrow> ((numerical', diagnostic, checks), Inl e, s')
           | Inr accepted \<Rightarrow>
               let diagnostic' = (if act = ''correctness'' then accepted \<and> \<not> passed r else diagnostic) in
               if \<not> accepted
               then ((numerical', diagnostic', checks), Inl (Execution (''Baseline '' @ act @ '': '' @ reason_or ''failed'' (ar_reason r)) []), s')
               else baseline_steps st acts (numerical', diagnostic', checks) s'))"

fun candidate_steps ::
    "'w session_setup \<Rightarrow> string list \<Rightarrow> 'w session \<Rightarrow> (session_error, unit) result \<times> 'w session" where
  "candidate_steps st [] s = (Inr (), s)"
| "candidate_steps st (act # acts) s =
     sbind (execute st ''candidate'' act ''task_validation'' s) (\<lambda>x s.
     if \<not> passed (xa_result x) then (Inl (Execution (''Initial candidate '' @ act @ '': '' @ reason_or ''failed'' (ar_reason (xa_result x))) []), s)
     else candidate_steps st acts s)"

text \<open>The task's own check: its evidence is kept, then judged, then becomes the manifest.\<close>

definition task_step :: "'w session_setup \<Rightarrow> 'w session \<Rightarrow> (session_error, unit) result \<times> 'w session" where
  "task_step st s =
     sbind (execute st ''task'' ''validate-task'' ''task_validation'' s) (\<lambda>task s.
     let s = s\<lparr>ss_task_evidence := Some task\<rparr> in
     if \<not> passed (xa_result task) then (Inl (Execution (reason_or ''Task validation failed'' (ar_reason (xa_result task))) []), s)
     else sbind (verify_initial_state (st_spec st) task, s) (\<lambda>_ s.
     sbind (map_error Report (manifest_from_result (xa_result task)), s) (\<lambda>m s.
     (Inr (), s\<lparr>ss_manifest := Some m\<rparr>))))"

definition validation_steps ::
    "'w session_setup \<Rightarrow> 'w session \<Rightarrow> progress_notes \<times> (session_error, unit) result \<times> 'w session" where
  "validation_steps st s =
     (let notes = (''NOT_RUN'', False, ''NOT_RUN'') in
      case task_step st s of
        (Inl e, s') \<Rightarrow> (notes, Inl e, s')
      | (Inr _, s') \<Rightarrow>
          (case baseline_steps st check_actions notes s' of
             (notes, Inl e, s'') \<Rightarrow> (notes, Inl e, s'')
           | ((numerical, diagnostic, checks), Inr _, s'') \<Rightarrow>
               if cand_initial_state (ts_candidate (st_spec st)) = ''unimplemented''
               then ((numerical, diagnostic, ''candidate_unimplemented''), Inr (), s'')
               else if base_kind (ts_baseline (st_spec st)) = ''initial_candidate''
               then ((numerical, diagnostic, ''verified_as_frozen_baseline''), Inr (), s'')
               else (case candidate_steps st check_actions s'' of
                  (Inl e, s3) \<Rightarrow> ((numerical, diagnostic, checks), Inl e, s3)
                | (Inr _, s3) \<Rightarrow> ((numerical, diagnostic, ''PASS''), Inr (), s3))))"

text \<open>\<open>except (TaskExecutionError, TaskConfigError, ValueError)\<close>, with \<open>str(exc)\<close>.\<close>

fun error_text :: "session_error \<Rightarrow> string" where
  "error_text (Execution m _) = m"
| "error_text (Config (Refused m)) = m"
| "error_text (Config _) = ''invalid task configuration''"
| "error_text (Report (Protocol m)) = m"
| "error_text (Report (Escapes _)) = ''error in a report''"
| "error_text (OsErr m) = m"

fun caught_in_validation :: "session_error \<Rightarrow> bool" where
  "caught_in_validation (OsErr _) = False"
| "caught_in_validation (Report (Escapes x)) = (x = ValueErr)"
| "caught_in_validation _ = True"

text \<open>The records of the initial validation, in the order of their names.\<close>

definition action_record :: "string \<times> session_file \<Rightarrow> bool" where
  "action_record f = (starts_with ''action-'' (fst f) \<and> ends_with ''.json'' (fst f))"

definition sorted_records :: "session_files \<Rightarrow> session_files" where
  "sorted_records files = sort_key fst (filter action_record files)"

fun phase_of :: "session_file \<Rightarrow> string" where
  "phase_of (ActionFile _ phase _ _) = phase"
| "phase_of (FailureFile _ _ phase _ _) = phase"
| "phase_of _ = []"

definition validation_context ::
    "'w session \<Rightarrow> (session_error, initial_validation \<times> session_file list) result" where
  "validation_context s =
     (case ss_initial s of None \<Rightarrow> Inl (Execution ''Initial task validation has not completed'' [])
      | Some report \<Rightarrow> Inr (report, filter (\<lambda>f. phase_of f = ''task_validation'')
          (map snd (sorted_records (ss_files s)))))"

definition write_agent_context :: "'w session \<Rightarrow> (session_error, unit) result \<times> 'w session" where
  "write_agent_context s =
     (case ss_task_evidence s of None \<Rightarrow> (Inl (Report (Escapes AttributeErr)), s)
      | Some task \<Rightarrow> write_json ''agent_context.json'' (AgentContextFile (result_to_mapping (xa_result task))) s)"

definition validate_initial ::
    "'w session_setup \<Rightarrow> 'w session \<Rightarrow> (session_error, initial_validation) result \<times> 'w session" where
  "validate_initial st s =
     (if ss_initial s \<noteq> None
      then (Inl (Execution ''Initial task validation has already completed for this session'' []), s)
      else case validation_steps st s of ((numerical, diagnostic, checks), r, s) \<Rightarrow>
      let caught = (case r of Inl e \<Rightarrow> if caught_in_validation e then Inr [error_text e] else Inl e | Inr _ \<Rightarrow> Inr []) in
      sbind (caught, s) (\<lambda>errors s.
      let report = \<lparr>iv_accepted = (errors = []), iv_numerical_status = numerical, iv_diagnostic = diagnostic,
                    iv_initial_state = cand_initial_state (ts_candidate (st_spec st)),
                    iv_candidate_checks = checks, iv_errors = errors\<rparr>;
          s = s\<lparr>ss_initial := Some report\<rparr> in
      sbind (write_json ''initial_validation.json'' (ReportFile report) s) (\<lambda>_ s.
      sbind (if errors = [] then write_agent_context s else (Inr (), s)) (\<lambda>_ s.
      sbind (validation_context s, s) (\<lambda>(report, actions) s.
      sbind (write_json ''validation_context.json'' (ValidationContextFile report actions) s) (\<lambda>_ s.
      (Inr report, s)))))))"

section \<open>Candidate actions\<close>

definition prerequisites :: "string \<Rightarrow> string list option" where
  "prerequisites act =
     map_of [(''compile'', []), (''correctness'', [''compile'']), (''performance'', [''compile'', ''correctness''])] act"

definition candidate_key :: "string \<Rightarrow> result_key" where
  "candidate_key act = (''candidate_evaluation'', ''candidate'', act)"

definition sources_now :: "'w session_setup \<Rightarrow> 'w session \<Rightarrow> (session_error, sources) result" where
  "sources_now st s = candidate_sources (st_host st) (ts_candidate (st_spec st)) False (ss_world s)"

text \<open>A compile begins a new attempt; every other action needs the identity of the attempt.\<close>

definition begin_attempt ::
    "string \<Rightarrow> sources \<Rightarrow> 'w session \<Rightarrow> (session_error, unit) result \<times> 'w session" where
  "begin_attempt act ident s =
     (if act = ''compile'' then
        (Inr (), s\<lparr>ss_results := (\<lambda>k. if (fst k, fst (snd k)) = (''candidate_evaluation'', ''candidate'')
                                   then None else ss_results s k),
                   ss_identity := Some ident\<rparr>)
      else (guardR (case ss_identity s of Some i \<Rightarrow> same_sources ident i | None \<Rightarrow> False)
              (Execution ''Candidate changed after compilation; recompile and recheck it'' []), s))"

definition passed_before :: "'w session \<Rightarrow> string \<Rightarrow> bool" where
  "passed_before s act =
     (case ss_results s (candidate_key act) of Some x \<Rightarrow> passed (xa_result x) | None \<Rightarrow> False)"

definition accepted_initially :: "'w session \<Rightarrow> bool" where
  "accepted_initially s = (case ss_initial s of Some report \<Rightarrow> iv_accepted report | None \<Rightarrow> False)"

definition run_attempt ::
    "'w session_setup \<Rightarrow> string \<Rightarrow> string list \<Rightarrow> sources \<Rightarrow> 'w session
     \<Rightarrow> (session_error, executed_action) result \<times> 'w session" where
  "run_attempt st act required ident s =
     sbind (begin_attempt act ident s) (\<lambda>_ s.
     if \<not> list_all (passed_before s) required
     then (Inl (Execution ''Candidate action requires a successful earlier action'' []), s)
     else sbind (execute st ''candidate'' act ''candidate_evaluation'' s) (\<lambda>x s.
     sbind (verify_harness st True s) (\<lambda>_ s.
     sbind (sources_now st s, s) (\<lambda>after s.
     if same_sources after ident then (Inr x, s)
     else (Inl (Execution ''Evaluation command modified candidate source'' []), s)))))"

definition candidate_action ::
    "'w session_setup \<Rightarrow> string \<Rightarrow> 'w session \<Rightarrow> (session_error, executed_action) result \<times> 'w session" where
  "candidate_action st act s =
     (if \<not> accepted_initially s
      then (Inl (Execution ''Candidate evaluation requires accepted initial task validation'' []), s)
      else sbind (verify_harness st True s) (\<lambda>_ s.
      sbind (check_candidate_files (st_host st) (ts_candidate (st_spec st)) (ss_world s), s) (\<lambda>_ s.
      case prerequisites act of None \<Rightarrow> (Inl (Execution ''Unsupported candidate action'' []), s)
      | Some required \<Rightarrow>
      sbind (sources_now st s, s) (\<lambda>ident s. run_attempt st act required ident s))))"

section \<open>Loading a session\<close>

definition record_number :: "string \<Rightarrow> (session_error, nat) result" where
  "record_number name =
     (case split_on CHR ''-'' name of
        _ # d # _ \<Rightarrow>
          if d \<noteq> [] \<and> list_all is_digit d then Inr (nat (digits_value d)) else Inl (Report (Escapes ValueErr))
      | _ \<Rightarrow> Inl (Report (Escapes ValueErr)))"

text \<open>\<open>result["role"]\<close>, as an argument of \<open>parse_command_result\<close>, which knows no other than texts.\<close>

definition result_field :: "pydict \<Rightarrow> string \<Rightarrow> (session_error, string) result" where
  "result_field d k =
     (case dlookup d k of None \<Rightarrow> Inl (Report (Escapes KeyErr))
      | Some (PStr s) \<Rightarrow> Inr s
      | Some _ \<Rightarrow> Inl (Report (Protocol ''Unsupported action'')))"

definition parsed_evidence :: "pydict \<Rightarrow> command_evidence list \<Rightarrow> (session_error, action_result) result" where
  "parsed_evidence result commands =
     rbind (mapR (\<lambda>c. rbind (result_field result ''role'') (\<lambda>role. rbind (result_field result ''action'') (\<lambda>act.
              map_error Report (parse_command_result (cm_stdout c) role act (cm_returncode c))))) commands) (\<lambda>rs.
     map_error Report (merge_command_results rs))"

text \<open>The result of a record enters the session; the task's own check also sets the manifest.\<close>

definition replay_result ::
    "result_key \<Rightarrow> executed_action \<Rightarrow> 'w session \<Rightarrow> (session_error, 'w session) result" where
  "replay_result k x s =
     (let s = s\<lparr>ss_results := (ss_results s)(k := Some x)\<rparr> in
      if k = TASK_KEY then
        let s = s\<lparr>ss_task_evidence := Some x\<rparr> in
        if passed (xa_result x)
        then rbind (map_error Report (manifest_from_result (xa_result x))) (\<lambda>m. Inr (s\<lparr>ss_manifest := Some m\<rparr>))
        else Inr s
      else case ss_manifest s of None \<Rightarrow> Inr s
      | Some m \<Rightarrow> rbind (map_error Report (validate m (xa_result x))) (\<lambda>_. Inr s))"

definition replay_file ::
    "session_file \<Rightarrow> 'w session \<Rightarrow> (session_error, 'w session) result" where
  "replay_file f s =
     (case f of
        FailureFile role act phase message commands \<Rightarrow>
          let s = s\<lparr>ss_results := (ss_results s)((phase, role, act) := None)\<rparr> in
          Inr (if (phase, role, act) = TASK_KEY
               then s\<lparr>ss_task_evidence := None, ss_manifest := None\<rparr> else s)
      | ActionFile invocation phase result commands \<Rightarrow>
          rbind (parsed_evidence result commands) (\<lambda>r.
          rbind (guardR (py_eq (PDict (result_to_mapping r)) (PDict result))
                   (Execution ''Saved result contradicts its command evidence'' [])) (\<lambda>_.
          replay_result (phase, ar_role r, ar_action r)
            \<lparr>xa_invocation_id = invocation, xa_result = r, xa_commands = commands\<rparr> s))
      | _ \<Rightarrow> Inl (Report (Escapes KeyErr)))"

definition replay_record ::
    "'w session \<Rightarrow> string \<times> session_file \<Rightarrow> (session_error, 'w session) result" where
  "replay_record s f =
     rbind (record_number (fst f)) (\<lambda>n.
     replay_file (snd f) (s\<lparr>ss_invocations := max (ss_invocations s) n\<rparr>))"

text \<open>\<open>_verify_saved_initial_validation\<close>: an accepted report must follow from the records.\<close>

definition saved_baseline_ok ::
    "'w session_setup \<Rightarrow> 'w session \<Rightarrow> manifest \<Rightarrow> string \<Rightarrow> (session_error, unit) result" where
  "saved_baseline_ok st s m act =
     (case ss_results s (''task_validation'', ''baseline'', act) of
        None \<Rightarrow> Inl (Execution ''Accepted initial report lacks baseline evidence'' [])
      | Some x \<Rightarrow>
          rbind (map_error Report (validate m (xa_result x))) (\<lambda>_.
          rbind (if act = ''correctness'' then correctness_accepted (st_spec st) (Some m) (xa_result x)
                 else Inr (passed (xa_result x))) (\<lambda>accepted.
          guardR accepted (Execution ''Saved baseline does not satisfy the task policy'' []))))"

definition saved_candidate_ok ::
    "'w session \<Rightarrow> manifest \<Rightarrow> string \<Rightarrow> (session_error, unit) result" where
  "saved_candidate_ok s m act =
     (case ss_results s (''task_validation'', ''candidate'', act) of
        Some x \<Rightarrow>
          if passed (xa_result x) then map_error Report (validate m (xa_result x))
          else Inl (Execution ''Saved initial candidate lacks a passing action'' [])
      | None \<Rightarrow> Inl (Execution ''Saved initial candidate lacks a passing action'' []))"

definition verify_saved_initial_validation ::
    "'w session_setup \<Rightarrow> 'w session \<Rightarrow> initial_validation \<Rightarrow> (session_error, unit) result" where
  "verify_saved_initial_validation st s report =
     (case (ss_manifest s, ss_task_evidence s) of
        (Some m, Some task) \<Rightarrow>
          rbind (guardR (passed (xa_result task))
                   (Execution ''Accepted initial report has no valid task manifest evidence'' [])) (\<lambda>_.
          rbind (verify_initial_state (st_spec st) task) (\<lambda>_.
          rbind (foldR (\<lambda>_. saved_baseline_ok st s m) () check_actions) (\<lambda>_.
          rbind (let c = ts_candidate (st_spec st) in
                 if cand_initial_state c = ''implemented'' then
                   if base_kind (ts_baseline (st_spec st)) = ''provided''
                   then rbind (foldR (\<lambda>_. saved_candidate_ok s m) () check_actions) (\<lambda>_. Inr ''PASS'')
                   else Inr ''verified_as_frozen_baseline''
                 else Inr ''candidate_unimplemented'') (\<lambda>checks.
          case ss_results s (''task_validation'', ''baseline'', ''correctness'') of
            None \<Rightarrow> Inl (Report (Escapes KeyErr))
          | Some x \<Rightarrow>
              guardR (report = \<lparr>iv_accepted = True, iv_numerical_status = ar_status (xa_result x),
                        iv_diagnostic = (\<not> passed (xa_result x)),
                        iv_initial_state = cand_initial_state (ts_candidate (st_spec st)),
                        iv_candidate_checks = checks, iv_errors = []\<rparr>)
                (Execution ''Saved lifecycle verdict contradicts original command evidence'' [])))))
      | _ \<Rightarrow> Inl (Execution ''Accepted initial report has no valid task manifest evidence'' []))"

text \<open>The saved identity of the session: its descriptor, declaration, sources and harness.\<close>

definition saved_identity :: "'w session_setup \<Rightarrow> session_files \<Rightarrow> (session_error, sources) result" where
  "saved_identity st files =
     (case (map_of files ''session.json'', map_of files ''task_spec.json'',
            map_of files ''initial_sources.json'', map_of files ''harness.json'') of
        (Some (DescriptorFile v i ws), Some (SpecFile d), Some (SourcesFile sources), Some HarnessFile) \<Rightarrow>
          rbind (map_error (Report \<circ> Escapes) (to_mapping (st_spec st))) (\<lambda>m.
          rbind (guardR (v = 1 \<and> i = ts_task_id (st_spec st) \<and> ws = st_workspace st \<and> py_eq (PDict d) (PDict m))
                   (Execution ''Resume task identity/configuration does not match original session'' [])) (\<lambda>_.
          rbind (guardR (sources \<noteq> []) (Execution ''Original baseline source evidence is missing'' [])) (\<lambda>_.
          Inr sources)))
      | _ \<Rightarrow> Inl (OsErr ''file missing''))"

definition saved_report :: "session_files \<Rightarrow> (session_error, initial_validation option) result" where
  "saved_report files =
     (case map_of files ''initial_validation.json'' of None \<Rightarrow> Inr None
      | Some (ReportFile report) \<Rightarrow> Inr (Some report)
      | Some _ \<Rightarrow> Inl (Report (Escapes KeyErr)))"

definition load ::
    "'w session_setup \<Rightarrow> bool \<Rightarrow> session_files \<Rightarrow> 'w \<Rightarrow> (session_error, 'w session) result \<times> 'w" where
  "load st read_only files w =
     sbind (saved_identity st files, w) (\<lambda>sources w.
     let s = new_session sources files w in
     sbind (baseline_unchanged st s, w) (\<lambda>_ w.
     let (r, s) = verify_harness st (\<not> read_only) s; w = ss_world s in
     sbind (r, w) (\<lambda>_ w.
     sbind (foldR replay_record s (sorted_records files), w) (\<lambda>s w.
     sbind (saved_report files, w) (\<lambda>report w.
     case report of None \<Rightarrow> (Inr s, w)
     | Some v \<Rightarrow>
         sbind (if iv_accepted v then verify_saved_initial_validation st s v else Inr (), w) (\<lambda>_ w.
         (Inr (s\<lparr>ss_initial := Some v\<rparr>), w)))))))"

end
