(* ===== verification/TaskExecutionFacts.thy ===== *)
theory TaskExecutionFacts
  imports TaskExecution TaskProtocolFacts
begin

text \<open>
  What an executed action is: the merge of what its commands' outputs parse to, valid for the
  manifest it was held against, and a value that survives being written and read back.
\<close>

section \<open>Plain results\<close>

lemma strict_plain: "strict_json v \<Longrightarrow> finite_numbers v \<Longrightarrow> plain_value v"
proof (induction v)
  case (PDict d)
  then have "plain_value y \<and> is_str x" if "(x, y) \<in> set d" for x y
    using PDict.IH [OF that, of y] that by (force simp: list_all_iff)
  moreover have "distinct (map fst d)" using PDict.prems by (simp add: wf_dict_def)
  ultimately show ?case by auto
qed (auto simp: list_all_iff)

definition plain_result :: "action_result \<Rightarrow> bool" where
  "plain_result r =
     (list_all (\<lambda>row. plain_value (PDict row)) (ar_cases r) \<and> plain_value (ar_reason r)
      \<and> plain_value (ar_failure_kind r) \<and> plain_value (ar_metadata r))"

lemma plain_dget: "plain_value (PDict d) \<Longrightarrow> plain_value (dget d k)"
  by (cases "dget d k = PNone") (use dget_in_dict [of d k "dget d k"] in force)+

lemma check_report_fields:
  assumes "check_report obj role act rc = Inr r"
  shows "ar_reason r = dget obj ''reason'' \<and> ar_failure_kind r = dget obj ''failure_kind''
    \<and> ar_metadata r = dget obj ''metadata''"
  using assms unfolding check_report_def Let_def by (elim rbindE) auto

lemma parsed_plain:
  assumes "parse_command_result out role act rc = Inr r"
  shows "plain_result r"
  using assms
proof (rule parse_command_result_Inr)
  fix line obj
  assume l: "json_loads object_pairs reject_constant line = Inr (PDict obj)"
    and c: "check_report obj role act rc = Inr r"
  have obj: "plain_value (PDict obj)"
    by (rule strict_plain [OF json_loads_strict [OF l] check_report_Inr(9) [OF c]])
  have "plain_value (PDict row)" if "row \<in> set (ar_cases r)" for row
  proof -
    from check_report_rows [OF c that] obtain vs where "dget obj ''cases'' = PList vs" "PDict row \<in> set vs"
      by blast
    with plain_dget [OF obj, of "''cases''"] show ?thesis by (metis plain_value.simps(2))
  qed
  with obj check_report_fields [OF c] show ?thesis by (simp add: plain_result_def list_all_iff plain_dget del: plain_value.simps)
qed

lemma merged_fields:
  assumes "merge_command_results rs = Inr r"
  shows "ar_metadata r = PDict [(PStr ''commands'', PList (map ar_metadata rs))]
    \<and> (ar_reason r = PNone \<or> (\<exists>s. ar_reason r = PStr s))
    \<and> (ar_failure_kind r = PNone \<or> ar_failure_kind r \<in> ar_failure_kind ` set rs)"
proof -
  have k: "(case remdups (map ar_failure_kind (filter P rs)) of [k] \<Rightarrow> k | _ \<Rightarrow> PNone) = PNone
      \<or> (case remdups (map ar_failure_kind (filter P rs)) of [k] \<Rightarrow> k | _ \<Rightarrow> PNone) \<in> ar_failure_kind ` set rs" for P
  proof -
    have "x \<in> ar_failure_kind ` set rs" if "remdups (map ar_failure_kind (filter P rs)) = [x]" for x
    proof -
      have "x \<in> set (map ar_failure_kind (filter P rs))" by (metis that list.set_intros(1) set_remdups)
      then show ?thesis by auto
    qed
    then show ?thesis by (simp split: list.splits)
  qed
  from merge_Inr(4) [OF assms] obtain first rest where rs: "rs = first # rest" by (cases rs) auto
  from assms obtain cases reasons where
      "Inr \<lparr>ar_role = ar_role first, ar_action = ar_action first,
             ar_status = (if filter (\<lambda>r. \<not> passed r) rs \<noteq> [] then ''FAIL'' else ''PASS''), ar_cases = cases,
             ar_reason = (if join_reasons reasons = [] then PNone else PStr (join_reasons reasons)),
             ar_failure_kind = (case remdups (map ar_failure_kind (filter (\<lambda>r. \<not> passed r) rs)) of [k] \<Rightarrow> k | _ \<Rightarrow> PNone),
             ar_metadata = PDict [(PStr ''commands'', PList (map ar_metadata rs))]\<rparr>
          = (Inr r :: (report_error, action_result) result)"
    unfolding merge_command_results_def Let_def rs list.case by (elim rbindE)
  then show ?thesis using k [of "\<lambda>r. \<not> passed r"] by (auto split: if_splits)
qed

lemma merged_plain:
  assumes "merge_command_results rs = Inr r" "list_all plain_result rs"
  shows "plain_result r"
  using merged_fields [OF assms(1)] merge_Inr(1) [OF assms(1)] assms(2)
  by (auto simp: plain_result_def list_all_iff)

lemma plain_add_present:
  assumes "plain_value (PDict d)" "plain_value v"
  shows "plain_value (PDict (add_present k v d))"
proof -
  have "wf_dict (dput d k v)" using assms(1) wf_dput by (auto simp: wf_dict_def)
  with assms show ?thesis
    by (auto simp: add_present_def wf_dict_def dest!: set_dput)
qed

lemma mapping_plain: "plain_result r \<Longrightarrow> plain_value (PDict (result_to_mapping r))"
  unfolding result_to_mapping_def
  by (intro plain_add_present) (auto simp: plain_result_def list_all_iff)

section \<open>Commands\<close>

definition commands_parse :: "string \<Rightarrow> string \<Rightarrow> action_result list \<Rightarrow> command_evidence list \<Rightarrow> bool" where
  "commands_parse role act =
     list_all2 (\<lambda>r c. parse_command_result (cm_stdout c) role act (cm_returncode c) = Inr r)"

lemma run_commands_parse:
  assumes "run_commands h p role act env d cs (rs, evs) w = (Inr (rs', evs'), w')"
  shows "\<exists>rs1 evs1. rs' = rs @ rs1 \<and> evs' = evs @ evs1 \<and> commands_parse role act rs1 evs1"
  using assms
proof (induction cs arbitrary: rs evs w)
  case Nil
  then show ?case by (auto simp: commands_parse_def)
next
  case (Cons c cs)
  from Cons.prems obtain executed r w2 where
      r: "parse_command_result (cm_stdout executed) role act (cm_returncode executed) = Inr r"
      and k: "(if passed r then run_commands h p role act env d cs (rs @ [r], evs @ [executed]) w2
        else (Inr (rs @ [r], evs @ [executed]), w2)) = (Inr (rs', evs'), w')"
    by (auto simp: Let_def split: prod.splits if_splits process_outcome.splits sum.splits)
  from k show ?case
  proof (cases "passed r")
    case True
    with k Cons.IH obtain rs1 evs1 where "rs' = (rs @ [r]) @ rs1" "evs' = (evs @ [executed]) @ evs1"
        "commands_parse role act rs1 evs1" by (simp only: if_True) blast
    with r show ?thesis
      by (intro exI [of _ "r # rs1"] exI [of _ "executed # evs1"]) (simp add: commands_parse_def)
  next
    case False
    with k r show ?thesis
      by (intro exI [of _ "[r]"] exI [of _ "[executed]"]) (simp add: commands_parse_def)
  qed
qed

definition evidence_ok :: "string \<Rightarrow> string \<Rightarrow> executed_action \<Rightarrow> bool" where
  "evidence_ok role act x =
     (\<exists>rs. commands_parse role act rs (xa_commands x) \<and> merge_command_results rs = Inr (xa_result x))"

lemma run_action_ok:
  assumes "run_action h spec p role act phase manifest extra w = (Inr x, w')"
  shows "phase \<in> set PHASES \<and> (act \<in> {''correctness'', ''performance''} \<longrightarrow> manifest \<noteq> None)
    \<and> evidence_ok role act x
    \<and> (\<forall>m. manifest = Some m \<and> act \<noteq> ''validate-task'' \<longrightarrow> validate m (xa_result x) = Inr ())"
  using assms unfolding run_action_def Let_def case_prod_unfold
proof (elim sbind_InrE, goal_cases)
  case (1 u1 s1 u2 s2 selected s3 place s4 env s5 limit s6 progress s7 r s8)
  note g = 1
  obtain rs evs where p: "progress = (rs, evs)" by (cases progress)
  from g have x: "xa_result x = r" "xa_commands x = evs" by (auto simp: p split: if_splits)
  from g(7) p have c: "commands_parse role act rs evs" by (auto dest!: run_commands_parse)
  from g(8) p have m: "merged_result act manifest (rs, evs) = Inr r" by simp
  from c m x have "evidence_ok role act x"
    by (auto simp: evidence_ok_def merged_result_def result_simps)
  moreover have "\<forall>m. manifest = Some m \<and> act \<noteq> ''validate-task'' \<longrightarrow> validate m (xa_result x) = Inr ()"
    using m by (auto simp: merged_result_def x result_simps)
  ultimately show ?case using g(1, 2) by (auto simp: result_simps)
qed

lemma evidence_fields:
  assumes "evidence_ok role act x"
  shows "ar_role (xa_result x) = role" "ar_action (xa_result x) = act" "plain_result (xa_result x)"
    "(role, act) \<in> set ACTIONS"
proof -
  from assms obtain rs where rs: "commands_parse role act rs (xa_commands x)"
      "merge_command_results rs = Inr (xa_result x)"
    by (auto simp: evidence_ok_def)
  have f: "ar_role r = role \<and> ar_action r = act \<and> plain_result r \<and> (role, act) \<in> set ACTIONS" if "r \<in> set rs" for r
  proof -
    from that obtain i where "i < length rs" "rs ! i = r" by (auto simp: in_set_conv_nth)
    with rs(1) have "parse_command_result (cm_stdout (xa_commands x ! i)) role act
        (cm_returncode (xa_commands x ! i)) = Inr r"
      by (auto simp: commands_parse_def list_all2_conv_all_nth)
    then obtain c :: command_evidence where c: "parse_command_result (cm_stdout c) role act (cm_returncode c) = Inr r" by blast
    show ?thesis
      using c
    proof (rule parse_command_result_Inr)
      fix line obj
      assume "(role, act) \<in> set ACTIONS" and o: "check_report obj role act (cm_returncode c) = Inr r"
      then show ?thesis using check_report_Inr(1, 2) [OF o] parsed_plain [OF c] by simp
    qed
  qed
  note m = merge_Inr [OF rs(2)]
  from m(4) obtain r0 where r0: "r0 \<in> set rs" by (cases rs) auto
  with f m(5) show "ar_role (xa_result x) = role" "ar_action (xa_result x) = act" "(role, act) \<in> set ACTIONS"
    by metis+
  show "plain_result (xa_result x)" using merged_plain [OF rs(2)] f by (simp add: list_all_iff)
qed

end
