(* ===== verification/TaskSessionFacts.thy ===== *)
theory TaskSessionFacts
  imports TaskSession TaskExecutionFacts
begin

text \<open>
  Sessions: what one executed action does to the state and its files; the history of a session's
  candidate actions, from which a timing is only taken after the checks of the same candidate; and
  the replay of the files, from which an accepted session is rebuilt.
\<close>

section \<open>One action\<close>

lemma write_json_cases:
  assumes "write_json name f s = (r, s')"
  obtains (clash) "name \<in> fst ` set (ss_files s)" "s' = s" "\<exists>e. r = Inl e"
    | (written) "name \<notin> fst ` set (ss_files s)" "r = Inr ()" "s' = s\<lparr>ss_files := ss_files s @ [(name, f)]\<rparr>"
  using assms by (auto simp: write_json_def split: if_splits)

lemma execute_cases:
  assumes "execute st role act phase s = (r, s')"
    and "n = Suc (ss_invocations s)" "name = record_name n role act" "k = (phase, role, act)"
  obtains
    (unrecorded) e w where "r = Inl e" "s' = s\<lparr>ss_invocations := n, ss_world := w\<rparr>"
  | (dropped) e w where "r = Inl e" "name \<in> fst ` set (ss_files s)"
      "s' = s\<lparr>ss_invocations := n, ss_world := w, ss_results := (ss_results s)(k := None)\<rparr>"
  | (failed) m evs w where "r = Inl (Execution m evs)" "name \<notin> fst ` set (ss_files s)"
      "s' = s\<lparr>ss_invocations := n, ss_world := w, ss_results := (ss_results s)(k := None),
              ss_files := ss_files s @ [(name, FailureFile role act phase m evs)]\<rparr>"
  | (succeeded) x w w0 where "r = Inr x \<or> (\<exists>e. r = Inl e)" "name \<notin> fst ` set (ss_files s)"
      "run_action (host.truncate (st_host st)) (st_spec st) (session_workspace st role phase) role act phase
         (if role = ''task'' then None else ss_manifest s) [] w0 = (Inr x, w)"
      "s' = s\<lparr>ss_invocations := n, ss_world := w, ss_results := (ss_results s)(k := Some x),
              ss_files := ss_files s @ [(name, ActionFile (xa_invocation_id x) phase
                (result_to_mapping (xa_result x)) (xa_commands x))]\<rparr>"
proof -
  define a where "a = s\<lparr>ss_invocations := n\<rparr>"
  obtain run w where run: "run_action (host.truncate (st_host st)) (st_spec st) (session_workspace st role phase)
      role act phase (if role = ''task'' then None else ss_manifest a) [] (ss_world a) = (run, w)"
    by force
  from assms(1) have e: "sbind (baseline_unchanged st a, a) (\<lambda>_ s.
      let (r, w) = run_action (host.truncate (st_host st)) (st_spec st) (session_workspace st role phase)
                     role act phase (if role = ''task'' then None else ss_manifest s) [] (ss_world s);
          s = s\<lparr>ss_world := w\<rparr> in
      case r of
        Inl (Execution m evidence) \<Rightarrow> record_failure name (phase, role, act) m evidence s
      | Inl e \<Rightarrow> (Inl e, s)
      | Inr x \<Rightarrow> record_success st name (phase, role, act) x s) = (r, s')"
    unfolding execute_def Let_def a_def assms(2, 3) by simp
  then show thesis
  proof (cases rule: sbindE)
    case (raised e)
    then show ?thesis by (intro unrecorded [of e "ss_world s"]) (auto simp: a_def)
  next
    case (returned u b)
    then have b: "b = a" by simp
    from returned(2) have k: "(case run of
        Inl (Execution m evidence) \<Rightarrow> record_failure name (phase, role, act) m evidence (a\<lparr>ss_world := w\<rparr>)
      | Inl e \<Rightarrow> (Inl e, a\<lparr>ss_world := w\<rparr>)
      | Inr x \<Rightarrow> record_success st name (phase, role, act) x (a\<lparr>ss_world := w\<rparr>)) = (r, s')"
      unfolding b run Let_def by simp
    show ?thesis
    proof (cases run)
      case (Inl e)
      show ?thesis
      proof (cases e)
        case (Execution m evs)
        with k Inl have "sbind (write_json name (FailureFile role act phase m evs)
            (a\<lparr>ss_world := w, ss_results := (ss_results s)(k := None)\<rparr>)) (\<lambda>_ s. (Inl (Execution m evs), s)) = (r, s')"
          by (simp add: record_failure_def Let_def a_def assms(4))
        then show ?thesis
        proof (cases rule: sbindE)
          case (raised e')
          from raised(1) show ?thesis
            by (cases rule: write_json_cases)
               (use raised(2) in \<open>auto simp: a_def intro!: dropped [of e' w]\<close>)
        next
          case (returned u c)
          from returned(1) show ?thesis
            by (cases rule: write_json_cases)
               (use returned(2) in \<open>auto simp: a_def intro!: failed [of m evs w]\<close>)
        qed
      qed (use k Inl in \<open>auto simp: a_def intro!: unrecorded [of e w]\<close>)
    next
      case (Inr x)
      with k have "sbind (write_json name (ActionFile (xa_invocation_id x) phase (result_to_mapping (xa_result x))
              (xa_commands x)) (a\<lparr>ss_world := w\<rparr>)) (\<lambda>_ s.
          let s = s\<lparr>ss_results := (ss_results s)(k := Some x)\<rparr> in
          sbind (baseline_unchanged st s, s) (\<lambda>_ s. (Inr x, s))) = (r, s')"
        by (simp add: record_success_def assms(4))
      then show ?thesis
      proof (cases rule: sbindE)
        case (raised e')
        from raised(1) show ?thesis
          by (cases rule: write_json_cases) (use raised(2) in \<open>auto simp: a_def intro!: unrecorded [of e' w]\<close>)
      next
        case (returned u c)
        from returned(1) have c: "name \<notin> fst ` set (ss_files s)"
            "c = s\<lparr>ss_invocations := n, ss_world := w, ss_files := ss_files s @ [(name,
              ActionFile (xa_invocation_id x) phase (result_to_mapping (xa_result x)) (xa_commands x))]\<rparr>"
          by (cases rule: write_json_cases; simp add: a_def)+
        from returned(2) have "(r = Inr x \<or> (\<exists>e. r = Inl e)) \<and> s' = c\<lparr>ss_results := (ss_results c)(k := Some x)\<rparr>"
          by (auto simp: Let_def elim!: sbindE)
        with c run Inr show ?thesis
          by (intro succeeded [of x "ss_world a" w]) (auto simp: a_def)
      qed
    qed
  qed
qed

lemmas execute_casesE = execute_cases
  [OF _ refl refl refl, consumes 1, case_names unrecorded dropped failed succeeded]

section \<open>One candidate action\<close>

definition fresh_attempt :: "'w session \<Rightarrow> result_key \<Rightarrow> executed_action option" where
  "fresh_attempt s k =
     (if (fst k, fst (snd k)) = (''candidate_evaluation'', ''candidate'') then None else ss_results s k)"

lemma verify_harness_world:
  obtains h w where "verify_harness st d s = (h, s\<lparr>ss_world := w\<rparr>)"
  by (cases "h_harness (st_host st) d (ss_world s)") (auto simp: verify_harness_def intro: that)

lemma candidate_action_cases:
  assumes "candidate_action st act s = (r, s')"
  obtains
    (refused) e w where "r = Inl e" "s' = s\<lparr>ss_world := w\<rparr>"
  | (executed) ident i w s1 r2 s2 w2 required where
      "accepted_initially s" "prerequisites act = Some required"
      "s1 = (if act = ''compile''
             then s\<lparr>ss_world := w, ss_results := fresh_attempt s, ss_identity := Some ident\<rparr>
             else s\<lparr>ss_world := w\<rparr>)"
      "ss_identity s1 = Some i" "same_sources ident i" "list_all (passed_before s1) required"
      "execute st ''candidate'' act ''candidate_evaluation'' s1 = (r2, s2)" "s' = s2\<lparr>ss_world := w2\<rparr>"
      "\<And>x. r = Inr x \<Longrightarrow> r2 = Inr x \<and> (\<exists>after. sources_now st s' = Inr after \<and> same_sources after ident)"
proof (cases "accepted_initially s")
  case False
  with assms show ?thesis by (intro refused [of _ "ss_world s"]) (auto simp: candidate_action_def)
next
  case True
  obtain h0 w where h: "verify_harness st True s = (h0, s\<lparr>ss_world := w\<rparr>)"
    by (rule verify_harness_world)
  let ?s = "s\<lparr>ss_world := w\<rparr>"
  from assms True h have e: "sbind (h0, ?s) (\<lambda>_ s.
      sbind (check_candidate_files (st_host st) (ts_candidate (st_spec st)) (ss_world s), s) (\<lambda>_ s.
      case prerequisites act of None \<Rightarrow> (Inl (Execution ''Unsupported candidate action'' []), s)
      | Some required \<Rightarrow>
      sbind (sources_now st s, s) (\<lambda>ident s.
      run_attempt st act required ident s))) = (r, s')"
    by (simp add: candidate_action_def)
  show ?thesis
  proof (cases "\<exists>e. r = Inl e \<and> s' = ?s")
    case True
    then show ?thesis using refused [of _ w] by auto
  next
    case False
    with e obtain required ident where p: "prerequisites act = Some required" and
        b: "run_attempt st act required ident ?s = (r, s')"
      by (elim sbindE) (auto split: option.splits elim!: sbindE)
    define s1 where "s1 = (if act = ''compile''
             then s\<lparr>ss_world := w, ss_results := fresh_attempt s, ss_identity := Some ident\<rparr> else ?s)"
    have "\<exists>i. begin_attempt act ident ?s = (Inr (), s1) \<and> ss_identity s1 = Some i \<and> same_sources ident i"
    proof (cases "act = ''compile''")
      case True
      have "begin_attempt act ident ?s = (Inr (), s1)"
        by (simp add: True begin_attempt_def s1_def fresh_attempt_def [abs_def] cong: if_cong)
      with True show ?thesis by (simp add: s1_def same_sources_def)
    next
      case other: False
      show ?thesis
      proof (cases "case ss_identity s of Some i \<Rightarrow> same_sources ident i | None \<Rightarrow> False")
        case True
        with other show ?thesis by (auto simp: begin_attempt_def s1_def split: option.splits)
      next
        case changed: False
        have "begin_attempt act ident ?s
            = (Inl (Execution ''Candidate changed after compilation; recompile and recheck it'' []), ?s)"
          using other changed by (simp add: begin_attempt_def del: not_None_eq split: option.splits)
        with b False show ?thesis by (auto simp: run_attempt_def)
      qed
    qed
    then obtain i where ba: "begin_attempt act ident ?s = (Inr (), s1)"
        and i: "ss_identity s1 = Some i" "same_sources ident i" by blast
    from b have k: "(if \<not> list_all (passed_before s1) required
      then (Inl (Execution ''Candidate action requires a successful earlier action'' []), s1)
      else sbind (execute st ''candidate'' act ''candidate_evaluation'' s1) (\<lambda>x s.
      sbind (verify_harness st True s) (\<lambda>_ s.
      sbind (sources_now st s, s) (\<lambda>after s.
      if same_sources after ident then (Inr x, s)
      else (Inl (Execution ''Evaluation command modified candidate source'' []), s))))) = (r, s')"
      unfolding run_attempt_def ba sbind_simps .
    have pre: "list_all (passed_before s1) required"
    proof (cases "act = ''compile''")
      case True
      with p show ?thesis by (simp add: prerequisites_def)
    next
      case other: False
      with k False show ?thesis by (auto simp: s1_def split: if_splits)
    qed
    obtain r2 s2 where x: "execute st ''candidate'' act ''candidate_evaluation'' s1 = (r2, s2)" by force
    from k pre x have "\<exists>w2. s' = s2\<lparr>ss_world := w2\<rparr> \<and> (\<forall>x. r = Inr x \<longrightarrow> r2 = Inr x
        \<and> (\<exists>after. sources_now st s' = Inr after \<and> same_sources after ident))"
    proof (cases r2)
      case (Inl e)
      with k pre x show ?thesis by (auto intro: exI [of _ "ss_world s2"])
    next
      case (Inr y)
      obtain h2 w2 where h2: "verify_harness st True s2 = (h2, s2\<lparr>ss_world := w2\<rparr>)" by (rule verify_harness_world)
      from k pre x Inr h2 show ?thesis
        by (intro exI [of _ w2]) (auto elim!: sbindE split: if_splits)
    qed
    then obtain w2 where w2: "s' = s2\<lparr>ss_world := w2\<rparr>" "\<And>x. r = Inr x \<Longrightarrow> r2 = Inr x
        \<and> (\<exists>after. sources_now st s' = Inr after \<and> same_sources after ident)" by blast
    show ?thesis
      by (rule executed [OF \<open>accepted_initially s\<close> p s1_def i pre x w2])
  qed
qed

section \<open>The history of a session\<close>

text \<open>
  The calls of \<open>candidate_action\<close> on a session since it was created or loaded, with arbitrary
  changes of the world between them (the agent edits its files).  A call that got as far as running
  the action leaves an entry: the action, the identity the session then holds, and the evidence it
  then holds for the action.
\<close>

type_synonym history_entry = "string \<times> sources option \<times> executed_action option"

definition history_entry :: "string \<Rightarrow> 'w session \<Rightarrow> 'w session \<Rightarrow> history_entry list" where
  "history_entry act s s' =
     (if ss_invocations s' = ss_invocations s then []
      else [(act, ss_identity s', ss_results s' (candidate_key act))])"

inductive history :: "'w session_setup \<Rightarrow> 'w session \<Rightarrow> history_entry list \<Rightarrow> 'w session \<Rightarrow> bool"
  for st s0 where
  beginning: "history st s0 [] s0"
| outside: "history st s0 h s \<Longrightarrow> history st s0 h (s\<lparr>ss_world := w\<rparr>)"
| acted: "history st s0 h s \<Longrightarrow> candidate_action st act s = (r, s')
    \<Longrightarrow> history st s0 (h @ history_entry act s s') s'"

text \<open>The latest attempt of a history: what follows its last entry for a compile.\<close>

definition in_attempt :: "history_entry list \<Rightarrow> sources \<Rightarrow> string \<Rightarrow> executed_action \<Rightarrow> bool" where
  "in_attempt h i act x =
     (\<exists>h1 h2. h = h1 @ (act, Some i, Some x) # h2 \<and> ''compile'' \<notin> fst ` set h2)"

lemma in_attempt_snoc: "in_attempt h i act x \<Longrightarrow> fst e \<noteq> ''compile'' \<Longrightarrow> in_attempt (h @ [e]) i act x"
proof -
  assume "in_attempt h i act x" "fst e \<noteq> ''compile''"
  then obtain h1 h2 where "h @ [e] = h1 @ (act, Some i, Some x) # (h2 @ [e])" "''compile'' \<notin> fst ` set (h2 @ [e])"
    by (auto simp: in_attempt_def)
  then show ?thesis unfolding in_attempt_def by blast
qed

lemma in_attempt_last: "in_attempt (h @ [(act, Some i, Some x)]) i act x"
  unfolding in_attempt_def by (intro exI [of _ h] exI [of _ "[]"]) simp

text \<open>
  Whatever the session holds for the identity of its attempt was executed in this attempt; a
  correctness result, moreover, after a passing compile.
\<close>

definition compiled_first :: "history_entry list \<Rightarrow> sources \<Rightarrow> executed_action \<Rightarrow> bool" where
  "compiled_first h i x =
     (\<exists>h1 h2 c. h = h1 @ (''correctness'', Some i, Some x) # h2 \<and> ''compile'' \<notin> fst ` set h2
        \<and> in_attempt h1 i ''compile'' c \<and> passed (xa_result c))"

definition attempt_inv :: "history_entry list \<Rightarrow> 'w session \<Rightarrow> bool" where
  "attempt_inv h s =
     (\<forall>i act x. ss_identity s = Some i \<and> ss_results s (candidate_key act) = Some x \<longrightarrow>
        in_attempt h i act x \<and> (act = ''correctness'' \<longrightarrow> compiled_first h i x))"

lemma compiled_first_snoc: "compiled_first h i x \<Longrightarrow> fst e \<noteq> ''compile'' \<Longrightarrow> compiled_first (h @ [e]) i x"
proof -
  assume "compiled_first h i x" "fst e \<noteq> ''compile''"
  then obtain h1 h2 c where "h @ [e] = h1 @ (''correctness'', Some i, Some x) # (h2 @ [e])"
      "''compile'' \<notin> fst ` set (h2 @ [e])" "in_attempt h1 i ''compile'' c" "passed (xa_result c)"
    by (auto simp: compiled_first_def)
  then show ?thesis unfolding compiled_first_def by blast
qed

lemma candidate_key_eq [simp]: "candidate_key a = candidate_key b \<longleftrightarrow> a = b"
  by (simp add: candidate_key_def)

lemma execute_results:
  assumes "execute st role act phase s = (r, s')"
  shows "ss_identity s' = ss_identity s \<and> (k \<noteq> (phase, role, act) \<longrightarrow> ss_results s' k = ss_results s k)
    \<and> (\<forall>x. r = Inr x \<longrightarrow> ss_results s' (phase, role, act) = Some x)"
  using assms by (cases rule: execute_casesE) auto

lemma execute_frame:
  assumes "execute st role act phase s = (r, s')"
  shows "ss_manifest s' = ss_manifest s \<and> ss_task_evidence s' = ss_task_evidence s
    \<and> ss_initial s' = ss_initial s \<and> ss_baseline_sources s' = ss_baseline_sources s"
  using assms by (cases rule: execute_casesE) auto

lemma candidate_action_frame:
  assumes "candidate_action st act s = (r, s')"
  shows "ss_manifest s' = ss_manifest s \<and> ss_task_evidence s' = ss_task_evidence s
    \<and> ss_initial s' = ss_initial s \<and> ss_baseline_sources s' = ss_baseline_sources s"
  using assms
proof (cases rule: candidate_action_cases)
  case (executed ident i w s1 r2 s2 w2 required)
  with execute_frame [OF executed(7)] show ?thesis by simp
qed simp

lemma execute_counts: "execute st role act phase s = (r, s') \<Longrightarrow> ss_invocations s' = Suc (ss_invocations s)"
  by (cases rule: execute_casesE) auto

lemma passed_beforeE:
  assumes "passed_before s act"
  obtains x where "ss_results s (candidate_key act) = Some x" "passed (xa_result x)"
  using assms by (auto simp: passed_before_def split: option.splits)

lemma attempt_inv_step:
  assumes inv: "attempt_inv h s" and call: "candidate_action st act s = (r, s')"
  shows "attempt_inv (h @ history_entry act s s') s'"
  using call
proof (cases rule: candidate_action_cases)
  case (refused e w)
  with inv show ?thesis unfolding attempt_inv_def by (simp add: history_entry_def, blast)
next
  case (executed ident i w s1 r2 s2 w2 required)
  let ?e = "(act, Some i, ss_results s' (candidate_key act))"
  have key: "(''candidate_evaluation'', ''candidate'', act) = candidate_key act" by (simp add: candidate_key_def)
  note res = execute_results [OF executed(7), unfolded key]
  have e: "history_entry act s s' = [?e]" "ss_identity s' = Some i"
    using executed(3, 4, 8) execute_counts [OF executed(7)] res by (auto simp: history_entry_def)
  have other: "ss_results s' (candidate_key b) = ss_results s1 (candidate_key b)" if "b \<noteq> act" for b
    using res that executed(8) by simp
  show ?thesis
  proof (cases "act = ''compile''")
    case True
    then have "ss_results s1 (candidate_key b) = None" for b
      using executed(3) by (simp add: fresh_attempt_def candidate_key_def)
    with other True have "b = ''compile''" if "ss_results s' (candidate_key b) = Some x" for b x
      using that by (cases "b = ''compile''") auto
    with True show ?thesis
      unfolding attempt_inv_def e by (auto intro: in_attempt_last)
  next
    case False
    then have s1: "ss_identity s = Some i" "ss_results s1 = ss_results s" using executed(3, 4) by auto
    have old: "in_attempt h i b x \<and> (b = ''correctness'' \<longrightarrow> compiled_first h i x)"
      if "ss_results s (candidate_key b) = Some x" for b x
      using inv s1(1) that by (simp add: attempt_inv_def)
    have "in_attempt (h @ [?e]) i b x \<and> (b = ''correctness'' \<longrightarrow> compiled_first (h @ [?e]) i x)"
      if x: "ss_results s' (candidate_key b) = Some x" for b x
    proof (cases "b = act")
      case True
      have "compiled_first (h @ [?e]) i x" if "act = ''correctness''"
      proof -
        from executed(2, 6) that have "passed_before s1 ''compile''" by (auto simp: prerequisites_def)
        then obtain c where "ss_results s1 (candidate_key ''compile'') = Some c" "passed (xa_result c)"
          by (rule passed_beforeE)
        with old [of "''compile''" c] s1(2) have "in_attempt h i ''compile'' c" "passed (xa_result c)" by simp_all
        with x True that show ?thesis unfolding compiled_first_def
          by (intro exI [of _ h] exI [of _ "[]"] exI [of _ c]) simp
      qed
      with x True show ?thesis by (simp add: in_attempt_last)
    next
      case False
      with x other s1(2) have "ss_results s (candidate_key b) = Some x" by simp
      from old [OF this] \<open>act \<noteq> ''compile''\<close> show ?thesis
        by (simp add: in_attempt_snoc compiled_first_snoc)
    qed
    then show ?thesis unfolding attempt_inv_def e(1) by (simp add: e(2))
  qed
qed

lemma history_inv:
  assumes "history st s0 h s" "ss_identity s0 = None"
  shows "attempt_inv h s"
  using assms
proof (induction rule: history.induct)
  case (acted h s act r s')
  then show ?case by (intro attempt_inv_step) auto
next
  case (outside h s w)
  then show ?case unfolding attempt_inv_def by simp blast
qed (simp add: attempt_inv_def)

text \<open>A timing: what must have preceded a performance action that returned.\<close>

lemma timing_checks:
  assumes h: "history st s0 h s" "ss_identity s0 = None"
    and call: "candidate_action st ''performance'' s = (Inr x, s')"
  obtains i h1 h2 h3 c k m where "h = h1 @ (''compile'', Some i, Some c) # h2 @ (''correctness'', Some i, Some k) # h3"
    "''compile'' \<notin> fst ` set (h2 @ h3)" "passed (xa_result c)" "passed (xa_result k)"
    "ss_identity s' = Some i" "\<exists>now. sources_now st s' = Inr now \<and> same_sources now i"
    "ss_manifest s' = Some m" "validate m (xa_result x) = Inr ()" "accepted_initially s"
  using call
proof (cases rule: candidate_action_cases)
  case (executed ident i w s1 r2 s2 w2 required)
  have "prerequisites ''performance'' = Some [''compile'', ''correctness'']" by (simp add: prerequisites_def)
  with executed(2, 6) have p: "passed_before s1 ''correctness''" by auto
  have s1: "ss_identity s = Some i" "ss_results s1 = ss_results s" "ss_manifest s1 = ss_manifest s"
    using executed(3, 4) by auto
  from p obtain k where k: "ss_results s1 (candidate_key ''correctness'') = Some k" "passed (xa_result k)"
    by (rule passed_beforeE)
  from history_inv [OF h] s1(1) k(1) s1(2) have "compiled_first h i k" by (simp add: attempt_inv_def)
  then obtain h1 h3 c where "h = h1 @ (''correctness'', Some i, Some k) # h3" "''compile'' \<notin> fst ` set h3"
      "in_attempt h1 i ''compile'' c" "passed (xa_result c)" by (auto simp: compiled_first_def)
  moreover from this(3) obtain g1 g2 where "h1 = g1 @ (''compile'', Some i, Some c) # g2" "''compile'' \<notin> fst ` set g2"
    by (auto simp: in_attempt_def)
  ultimately have split: "h = g1 @ (''compile'', Some i, Some c) # g2 @ (''correctness'', Some i, Some k) # h3"
      "''compile'' \<notin> fst ` set (g2 @ h3)" "passed (xa_result c)" by auto
  from executed(9) have r2: "r2 = Inr x" and now: "\<exists>after. sources_now st s' = Inr after \<and> same_sources after ident" by auto
  have i': "ss_identity s' = Some i" using execute_results [OF executed(7)] executed(4, 8) by simp
  have now': "\<exists>now. sources_now st s' = Inr now \<and> same_sources now i"
    using now executed(5) by (auto simp: same_sources_def)
  have "\<exists>m. ss_manifest s1 = Some m \<and> validate m (xa_result x) = Inr ()"
    using executed(7)
  proof (cases rule: execute_casesE)
    case (succeeded y w0 w')
    with r2 executed(7) have y: "y = x" using execute_results [OF executed(7)] by simp
    from run_action_ok [OF succeeded(3)] y show ?thesis by auto
  qed (use r2 in auto)
  moreover have "ss_manifest s' = ss_manifest s1" using execute_frame [OF executed(7)] executed(8) by simp
  ultimately show ?thesis
    using that [OF split k(2) i' now'] executed(1) by auto
qed simp

end
