(* ===== verification/TaskSessionReplay.thy ===== *)
theory TaskSessionReplay
  imports TaskSessionFacts TaskSpecFacts
begin

text \<open>
  The records of a session replay to the session: the order of their names is the order of the
  actions, every record parses back to the result it was written from, and after an accepted
  initial validation the files load as a session with the same manifest, evidence and verdict.
\<close>

section \<open>Names of records\<close>

lemma record_name_record: "action_record (record_name n role act, f)"
proof -
  have "suffix ''.json'' (record_name n role act)" by (auto simp: suffix_def record_name_def)
  then have "ends_with ''.json'' (record_name n role act)"
    by (simp add: ends_with_def starts_with_prefix suffix_to_prefix)
  then show ?thesis by (simp add: action_record_def starts_with_def record_name_def)
qed

lemma record_named: "fst f = record_name n role act \<Longrightarrow> action_record f"
  by (metis prod.collapse record_name_record)

lemma record_number_name: "record_number (record_name n role act) = Inr n"
proof -
  have d: "CHR ''-'' \<notin> set (zero_padded 4 n)"
    using zero_padded_digits [of 4 n] by (auto simp: list_all_iff is_digit_def)
  have "split_on CHR ''-'' (record_name n role act)
      = ''action'' # zero_padded 4 n # split_on CHR ''-'' (role @ ''-'' @ act @ ''.json'')"
    using split_on_append [of "CHR ''-''" "''action''"] split_on_append [OF d]
    by (simp add: record_name_def)
  then show ?thesis
    by (simp add: record_number_def zero_padded_not_Nil zero_padded_digits zero_padded_value)
qed

lemma record_name_less:
  assumes "i < j" "j < 10 ^ 4"
  shows "record_name i a b < record_name j c d"
proof -
  have "zero_padded 4 i @ x < zero_padded 4 j @ y" for x y
    by (rule zero_padded_less) (use assms in simp_all)
  then show ?thesis by (simp add: record_name_def)
qed

text \<open>The records of a session are numbered in the order they were written.\<close>

definition numbered :: "session_files \<Rightarrow> nat \<Rightarrow> bool" where
  "numbered files n =
     (\<exists>ks. list_all2 (\<lambda>k f. \<exists>role act. fst f = record_name k role act) ks (filter action_record files)
        \<and> sorted_wrt (<) ks \<and> list_all (\<lambda>k. k \<le> n) ks)"

lemma numbered_Suc: "numbered files n \<Longrightarrow> numbered files (Suc n)"
  by (auto simp: numbered_def list_all_iff le_SucI)

lemma numbered_fresh:
  assumes "numbered files n"
  shows "record_name (Suc n) role act \<notin> fst ` set files"
proof
  assume "record_name (Suc n) role act \<in> fst ` set files"
  then obtain f where f: "f \<in> set files" "fst f = record_name (Suc n) role act" by auto
  then have "f \<in> set (filter action_record files)" using record_named by simp
  with assms obtain k role' act' where "fst f = record_name k role' act'" "k \<le> n"
    by (auto simp: numbered_def list_all_iff dest!: list_all2_right [of _ _ "filter action_record files" f])
  with f(2) record_number_name show False by (metis Suc_n_not_le_n sum.inject(2))
qed

lemma numbered_snoc:
  assumes "numbered files n" "fst f = record_name (Suc n) role act"
  shows "numbered (files @ [f]) (Suc n)"
proof -
  from assms(1) obtain ks where ks: "list_all2 (\<lambda>k f. \<exists>role act. fst f = record_name k role act) ks (filter action_record files)"
      "sorted_wrt (<) ks" "list_all (\<lambda>k. k \<le> n) ks" by (auto simp: numbered_def)
  have "action_record f" by (rule record_named [OF assms(2)])
  then show ?thesis unfolding numbered_def
    by (intro exI [of _ "ks @ [Suc n]"])
       (use ks assms(2) in \<open>auto simp: list_all_iff sorted_wrt_append less_Suc_eq_le intro!: list_all2_appendI le_SucI\<close>)
qed

lemma numbered_other: "numbered files n \<Longrightarrow> \<not> action_record f \<Longrightarrow> numbered (files @ [f]) n"
  by (simp add: numbered_def)

text \<open>Up to 9999 actions, sorting the records by name leaves them in the order of writing.\<close>

lemma numbered_sorted:
  assumes "numbered files n" "n < 10 ^ 4"
  shows "sorted_records files = filter action_record files"
proof -
  from assms(1) obtain ks where ks: "list_all2 (\<lambda>k f. \<exists>role act. fst f = record_name k role act) ks (filter action_record files)"
      "sorted_wrt (<) ks" "list_all (\<lambda>k. k \<le> n) ks" by (auto simp: numbered_def)
  have "sorted (map fst (filter action_record files))"
    unfolding sorted_iff_nth_mono_less
  proof (intro allI impI)
    fix i j
    assume ij: "i < j" "j < length (map fst (filter action_record files))"
    with ks(1) obtain a b c d where
        "fst (filter action_record files ! i) = record_name (ks ! i) a b"
        "fst (filter action_record files ! j) = record_name (ks ! j) c d"
      unfolding list_all2_conv_all_nth by (metis length_map order_less_trans)
    moreover have "ks ! i < ks ! j" "ks ! j < 10 ^ 4"
      using ij ks assms(2) le_less_trans
      by (auto simp: sorted_wrt_iff_nth_less list_all2_lengthD list_all_length)
    ultimately show "map fst (filter action_record files) ! i \<le> map fst (filter action_record files) ! j"
      using ij record_name_less [of "ks ! i" "ks ! j" a b c d] by simp
  qed
  then show ?thesis unfolding sorted_records_def by (rule sort_key_id_if_sorted)
qed

section \<open>Replaying a record\<close>

lemma dlookup_add_present: "k' \<noteq> k \<Longrightarrow> dlookup (add_present k v d) k' = dlookup d k'"
  by (simp add: add_present_def dlookup_dput)

lemma mapping_fields:
  "result_field (result_to_mapping r) ''role'' = Inr (ar_role r)"
  "result_field (result_to_mapping r) ''action'' = Inr (ar_action r)"
  by (simp_all add: result_field_def result_to_mapping_def dlookup_add_present)

lemma mapR_parse:
  "commands_parse role act rs cs \<Longrightarrow>
     mapR (\<lambda>c. map_error Report (parse_command_result (cm_stdout c) role act (cm_returncode c))) cs = Inr rs"
  unfolding commands_parse_def by (induction rule: list_all2_induct) auto

lemma executed_eta:
  "\<lparr>xa_invocation_id = xa_invocation_id x, xa_result = xa_result x, xa_commands = xa_commands x\<rparr> = x"
  by (cases x) simp

lemma replay_action_file:
  assumes "evidence_ok role act x"
  shows "replay_file (ActionFile (xa_invocation_id x) phase (result_to_mapping (xa_result x)) (xa_commands x)) s
    = replay_result (phase, role, act) x s"
proof -
  from assms obtain rs where rs: "commands_parse role act rs (xa_commands x)"
      "merge_command_results rs = Inr (xa_result x)"
    by (auto simp: evidence_ok_def)
  note f = evidence_fields [OF assms]
  have "parsed_evidence (result_to_mapping (xa_result x)) (xa_commands x) = Inr (xa_result x)"
    by (simp add: parsed_evidence_def mapping_fields f(1, 2) mapR_parse [OF rs(1)] rs(2))
  moreover have "py_eq (PDict (result_to_mapping (xa_result x))) (PDict (result_to_mapping (xa_result x)))"
    by (rule py_eq_refl [OF mapping_plain [OF f(3)]])
  ultimately show ?thesis by (simp add: replay_file_def f(1, 2) executed_eta del: py_eq.simps)
qed

text \<open>The records replay to the manifest, the task evidence and the results of the session.\<close>

definition replayed ::
    "'w session \<Rightarrow> (result_key \<Rightarrow> executed_action option) \<Rightarrow> nat \<Rightarrow> session_files \<Rightarrow> 'w \<Rightarrow> 'w session" where
  "replayed s R n F w =
     (new_session (ss_baseline_sources s) F w)
       \<lparr>ss_manifest := ss_manifest s, ss_task_evidence := ss_task_evidence s, ss_results := R, ss_invocations := n\<rparr>"

definition replays :: "'w session \<Rightarrow> bool" where
  "replays s =
     (numbered (ss_files s) (ss_invocations s)
      \<and> (\<exists>R n. n \<le> ss_invocations s
          \<and> (\<forall>F w. foldR replay_record (new_session (ss_baseline_sources s) F w) (filter action_record (ss_files s))
                 = Inr (replayed s R n F w))
          \<and> (\<forall>k. ss_results s k \<noteq> None \<or> fst k = ''task_validation'' \<longrightarrow> R k = ss_results s k)))"

text \<open>What does not touch the records, the results of the validation or the manifest keeps this.\<close>

lemma replays_other:
  fixes s s' :: "'w session"
  assumes "replays s" "ss_files s' = ss_files s @ fs" "list_all (\<lambda>f. \<not> action_record f) fs"
    and "ss_invocations s' = ss_invocations s" "ss_manifest s' = ss_manifest s"
    and "ss_task_evidence s' = ss_task_evidence s" "ss_baseline_sources s' = ss_baseline_sources s"
    and "\<forall>k. ss_results s' k \<noteq> None \<or> fst k = ''task_validation'' \<longrightarrow> ss_results s' k = ss_results s k"
  shows "replays s'"
proof -
  have f: "filter action_record (ss_files s') = filter action_record (ss_files s)"
    using assms(2, 3) by (simp add: filter_empty_conv list_all_iff)
  from assms(1) obtain R n where R: "n \<le> ss_invocations s"
      "\<And>F w. foldR replay_record (new_session (ss_baseline_sources s) F w) (filter action_record (ss_files s))
        = Inr (replayed s R n F w)"
      "\<And>k. ss_results s k \<noteq> None \<or> fst k = ''task_validation'' \<Longrightarrow> R k = ss_results s k"
    unfolding replays_def by blast
  have "replayed s' R n F w = replayed s R n F w" for F and w :: 'w
    by (simp add: replayed_def assms(5, 6, 7))
  moreover have "R k = ss_results s' k" if "ss_results s' k \<noteq> None \<or> fst k = ''task_validation''" for k
    using that assms(8) R(3) [of k] by metis
  moreover have "numbered (ss_files s') (ss_invocations s')"
    using assms(1) by (simp add: replays_def numbered_def f assms(4))
  ultimately show ?thesis unfolding replays_def f
    using R(1, 2) by (intro conjI exI [of _ R] exI [of _ n]) (simp_all add: assms(4, 7))
qed

lemma replays_append:
  fixes s s' :: "'w session"
  assumes s: "replays s" and name: "name = record_name (Suc (ss_invocations s)) role act"
    and s': "ss_files s' = ss_files s @ [(name, f)]" "ss_invocations s' = Suc (ss_invocations s)"
      "ss_baseline_sources s' = ss_baseline_sources s" "ss_results s' = (ss_results s)(k := v)"
    and step: "\<And>R n F w. replay_file f (replayed s R n F w) = Inr (replayed s' (R(k := v)) n F w)"
  shows "replays s'"
proof -
  have a: "action_record (name, f)" unfolding name by (rule record_name_record)
  from s obtain R n where R: "n \<le> ss_invocations s"
      "\<And>F w. foldR replay_record (new_session (ss_baseline_sources s) F w) (filter action_record (ss_files s))
        = Inr (replayed s R n F w)"
      "\<And>k. ss_results s k \<noteq> None \<or> fst k = ''task_validation'' \<Longrightarrow> R k = ss_results s k"
    unfolding replays_def by blast
  have "replayed s R n F w\<lparr>ss_invocations := max (ss_invocations (replayed s R n F w)) (Suc (ss_invocations s))\<rparr>
      = replayed s R (Suc (ss_invocations s)) F w" for F and w :: 'w
    using R(1) by (simp add: replayed_def max_def)
  then have "replay_record (replayed s R n F w) (name, f) = Inr (replayed s' (R(k := v)) (Suc (ss_invocations s)) F w)" for F and w :: 'w
    by (simp add: replay_record_def name record_number_name step)
  then have "foldR replay_record (new_session (ss_baseline_sources s') F w) (filter action_record (ss_files s'))
      = Inr (replayed s' (R(k := v)) (Suc (ss_invocations s)) F w)" for F and w :: 'w
    using a R(2) by (simp add: s' foldR_append)
  moreover have "numbered (ss_files s') (ss_invocations s')"
    using s numbered_snoc [of "ss_files s" "ss_invocations s" "(name, f)" role act]
    by (simp add: s' name replays_def)
  moreover have "(R(k := v)) j = ss_results s' j" if "ss_results s' j \<noteq> None \<or> fst j = ''task_validation''" for j
    using that R(3) [of j] by (auto simp: s' split: if_splits)
  ultimately show ?thesis unfolding replays_def
    by (intro conjI exI [of _ "R(k := v)"] exI [of _ "Suc (ss_invocations s)"]) (simp_all add: s')
qed

lemma execute_replays:
  fixes s s' :: "'w session"
  assumes "replays s" "role \<noteq> ''task''" "ss_manifest s = Some m" "act \<noteq> ''validate-task''"
    and "execute st role act phase s = (r, s')"
  shows "replays s'"
  using assms(5)
proof (cases rule: execute_casesE)
  case (unrecorded e w)
  from assms(1) obtain R n where "n \<le> ss_invocations s"
      "\<And>F w. foldR replay_record (new_session (ss_baseline_sources s) F w) (filter action_record (ss_files s))
        = Inr (replayed s R n F w)"
      "\<forall>k. ss_results s k \<noteq> None \<or> fst k = ''task_validation'' \<longrightarrow> R k = ss_results s k"
    unfolding replays_def by blast
  with assms(1) show ?thesis unfolding replays_def unrecorded
    by (intro conjI exI [of _ R] exI [of _ n]) (simp_all add: numbered_Suc replayed_def)
next
  case (dropped e w)
  with assms(1) numbered_fresh show ?thesis by (auto simp: replays_def)
next
  case (failed msg evs w)
  show ?thesis
    by (rule replays_append [OF assms(1) refl, where f = "FailureFile role act phase msg evs"
          and k = "(phase, role, act)" and v = None])
       (use assms(2) in \<open>simp_all add: failed(3) replay_file_def TASK_KEY_def replayed_def\<close>)
next
  case (succeeded x w w0)
  have x: "evidence_ok role act x" "validate m (xa_result x) = Inr ()"
    using run_action_ok [OF succeeded(3)] assms(2, 3, 4) by auto
  show ?thesis
    by (rule replays_append [OF assms(1) refl, where f = "ActionFile (xa_invocation_id x) phase
          (result_to_mapping (xa_result x)) (xa_commands x)" and k = "(phase, role, act)" and v = "Some x"])
       (use assms(2, 3) in \<open>simp_all add: succeeded(4) replay_action_file [OF x(1)] replay_result_def x(2)
          TASK_KEY_def replayed_def new_session_def\<close>)
qed

section \<open>The initial validation\<close>

lemma fresh_replays: "filter action_record files = [] \<Longrightarrow> replays (new_session sources files w)"
  by (simp add: replays_def numbered_def new_session_def replayed_def)

lemma foldR_unit: "foldR (\<lambda>_. f) () xs = Inr () \<longleftrightarrow> (\<forall>x \<in> set xs. f x = Inr ())"
  by (induction xs) (auto simp: rbind_eq_Inr)

lemma execute_Inr:
  assumes "execute st role act phase s = (Inr x, s')"
  shows "evidence_ok role act x" "ss_results s' = (ss_results s)((phase, role, act) := Some x)"
    "role \<noteq> ''task'' \<Longrightarrow> act \<noteq> ''validate-task'' \<Longrightarrow> ss_manifest s = Some m \<Longrightarrow> validate m (xa_result x) = Inr ()"
proof -
  from execute_results [OF assms, of undefined] have k: "ss_results s' (phase, role, act) = Some x" by simp
  from assms have "\<exists>w w0. run_action (host.truncate (st_host st)) (st_spec st) (session_workspace st role phase) role act phase
         (if role = ''task'' then None else ss_manifest s) [] w0 = (Inr x, w)
      \<and> ss_results s' = (ss_results s)((phase, role, act) := Some x)"
  proof (cases rule: execute_casesE)
    case (succeeded y w w0)
    with k have "y = x" by simp
    with succeeded show ?thesis by auto
  qed auto
  then obtain w w0 where r: "run_action (host.truncate (st_host st)) (st_spec st) (session_workspace st role phase) role act phase
         (if role = ''task'' then None else ss_manifest s) [] w0 = (Inr x, w)"
      and "ss_results s' = (ss_results s)((phase, role, act) := Some x)" by blast
  with run_action_ok [OF r] show "evidence_ok role act x" "ss_results s' = (ss_results s)((phase, role, act) := Some x)"
    "role \<noteq> ''task'' \<Longrightarrow> act \<noteq> ''validate-task'' \<Longrightarrow> ss_manifest s = Some m \<Longrightarrow> validate m (xa_result x) = Inr ()"
    by auto
qed

lemma execute_files:
  assumes "execute st role act phase s = (r, s')"
  shows "\<exists>fs. ss_files s' = ss_files s @ fs \<and> list_all action_record fs"
  using assms by (cases rule: execute_casesE) (auto simp: record_name_record)

lemma task_step_ok:
  assumes "task_step st s = (Inr (), s')"
  obtains x m s1 where "execute st ''task'' ''validate-task'' ''task_validation'' s = (Inr x, s1)"
    "passed (xa_result x)" "verify_initial_state (st_spec st) x = Inr ()"
    "manifest_from_result (xa_result x) = Inr m" "s' = s1\<lparr>ss_task_evidence := Some x, ss_manifest := Some m\<rparr>"
proof -
  from assms obtain x s1 where e: "execute st ''task'' ''validate-task'' ''task_validation'' s = (Inr x, s1)"
      and k: "(if \<not> passed (xa_result x)
        then (Inl (Execution (reason_or ''Task validation failed'' (ar_reason (xa_result x))) []), s1\<lparr>ss_task_evidence := Some x\<rparr>)
        else sbind (verify_initial_state (st_spec st) x, s1\<lparr>ss_task_evidence := Some x\<rparr>) (\<lambda>_ s.
          sbind (map_error Report (manifest_from_result (xa_result x)), s) (\<lambda>m s.
          (Inr (), s\<lparr>ss_manifest := Some m\<rparr>)))) = (Inr (), s')"
    unfolding task_step_def Let_def by (elim sbind_InrE)
  from k have p: "passed (xa_result x)" by (simp split: if_splits)
  with k have "sbind (verify_initial_state (st_spec st) x, s1\<lparr>ss_task_evidence := Some x\<rparr>) (\<lambda>_ s.
          sbind (map_error Report (manifest_from_result (xa_result x)), s) (\<lambda>m s.
          (Inr (), s\<lparr>ss_manifest := Some m\<rparr>))) = (Inr (), s')" by simp
  then obtain u m where "verify_initial_state (st_spec st) x = Inr u" "manifest_from_result (xa_result x) = Inr m"
      "s' = s1\<lparr>ss_task_evidence := Some x, ss_manifest := Some m\<rparr>"
    by (elim sbind_InrE) (auto simp: result_simps)
  with e p that show thesis by auto
qed

lemma task_step_replays:
  fixes s s' :: "'w session"
  assumes "replays s" "task_step st s = (Inr (), s')"
  shows "replays s'"
proof -
  from task_step_ok [OF assms(2)] obtain x m s1 where
      e: "execute st ''task'' ''validate-task'' ''task_validation'' s = (Inr x, s1)"
      and p: "passed (xa_result x)" "manifest_from_result (xa_result x) = Inr m"
      and s': "s' = s1\<lparr>ss_task_evidence := Some x, ss_manifest := Some m\<rparr>" by blast
  note ok = execute_Inr(1, 2) [OF e]
  from e show ?thesis
  proof (cases rule: execute_casesE)
    case (succeeded y w w0)
    with fun_cong [OF ok(2), of "(''task_validation'', ''task'', ''validate-task'')"] have y: "y = x" by simp
    show ?thesis
      by (rule replays_append [OF assms(1) refl, where f = "ActionFile (xa_invocation_id x) ''task_validation''
            (result_to_mapping (xa_result x)) (xa_commands x)" and k = TASK_KEY and v = "Some x"])
         (simp_all add: s' succeeded(4) y replay_action_file [OF ok(1)] replay_result_def p
            TASK_KEY_def replayed_def new_session_def)
  qed auto
qed

text \<open>What executed actions leave alone, and what they add to the files.\<close>

definition grows :: "'w session \<Rightarrow> 'w session \<Rightarrow> bool" where
  "grows s s' =
     (ss_manifest s' = ss_manifest s \<and> ss_task_evidence s' = ss_task_evidence s
      \<and> ss_baseline_sources s' = ss_baseline_sources s \<and> ss_initial s' = ss_initial s
      \<and> (\<exists>fs. ss_files s' = ss_files s @ fs \<and> list_all action_record fs))"

lemma grows_refl: "grows s s"
  by (simp add: grows_def)

lemma grows_trans: "grows s t \<Longrightarrow> grows t u \<Longrightarrow> grows s u"
  by (auto simp: grows_def)

lemma execute_grows: "execute st role act phase s = (r, s') \<Longrightarrow> grows s s'"
  using execute_frame execute_files by (fastforce simp: grows_def)

definition baseline_key :: "string \<Rightarrow> result_key" where
  "baseline_key act = (''task_validation'', ''baseline'', act)"

lemma saved_baseline_ok_cong:
  "ss_results s (baseline_key act) = ss_results s' (baseline_key act) \<Longrightarrow>
     saved_baseline_ok st s m act = saved_baseline_ok st s' m act"
  by (simp add: saved_baseline_ok_def baseline_key_def)

lemma baseline_steps_Inr:
  assumes "baseline_steps st (act # acts) (numerical, diagnostic, checks) s = (notes', Inr (), s')"
  obtains x s1 where "execute st ''baseline'' act ''task_validation'' s = (Inr x, s1)"
    "(if act = ''correctness'' then correctness_accepted (st_spec st) (ss_manifest s1) (xa_result x)
      else Inr (passed (xa_result x))) = Inr True"
    "baseline_steps st acts
       (if act = ''correctness'' then (ar_status (xa_result x), \<not> passed (xa_result x), checks)
        else (numerical, diagnostic, checks)) s1 = (notes', Inr (), s')"
  using assms
  by (auto simp: Let_def split: prod.splits sum.splits if_splits)

lemma baseline_steps_ok:
  assumes "baseline_steps st acts (numerical, diagnostic, checks) s = (notes', Inr (), s')"
    and "ss_manifest s = Some m" "replays s" "distinct acts" "''validate-task'' \<notin> set acts"
  shows "replays s' \<and> grows s s' \<and> (\<forall>act \<in> set acts. saved_baseline_ok st s' m act = Inr ())
    \<and> (\<forall>k. k \<notin> baseline_key ` set acts \<longrightarrow> ss_results s' k = ss_results s k)
    \<and> (''correctness'' \<in> set acts \<longrightarrow> (\<exists>x. ss_results s' (baseline_key ''correctness'') = Some x
        \<and> notes' = (ar_status (xa_result x), \<not> passed (xa_result x), checks)))
    \<and> (''correctness'' \<notin> set acts \<longrightarrow> notes' = (numerical, diagnostic, checks))"
  using assms
proof (induction acts arbitrary: numerical diagnostic s)
  case Nil
  then show ?case by (auto simp: grows_refl)
next
  case (Cons act acts)
  from baseline_steps_Inr [OF Cons.prems(1)] obtain x s1 where
      e: "execute st ''baseline'' act ''task_validation'' s = (Inr x, s1)"
      and acc: "(if act = ''correctness'' then correctness_accepted (st_spec st) (ss_manifest s1) (xa_result x)
        else Inr (passed (xa_result x))) = Inr True"
      and rest: "baseline_steps st acts
       (if act = ''correctness'' then (ar_status (xa_result x), \<not> passed (xa_result x), checks)
        else (numerical, diagnostic, checks)) s1 = (notes', Inr (), s')" by blast
  have v: "act \<noteq> ''validate-task''" using Cons.prems(5) by auto
  note g = execute_grows [OF e]
  have m1: "ss_manifest s1 = Some m" using g Cons.prems(2) by (simp add: grows_def)
  have r1: "replays s1" by (rule execute_replays [OF Cons.prems(3) _ Cons.prems(2) v e]) simp
  note ok = execute_Inr(1, 2) [OF e] execute_Inr(3) [OF e _ v Cons.prems(2)]
  obtain n0 d0 where n0: "(if act = ''correctness'' then (ar_status (xa_result x), \<not> passed (xa_result x), checks)
        else (numerical, diagnostic, checks)) = (n0, d0, checks)"
    by (cases "act = ''correctness''") auto
  from Cons.IH [OF rest [unfolded n0] m1 r1] Cons.prems(4, 5)
  have ih: "replays s'" "grows s1 s'" "\<forall>act \<in> set acts. saved_baseline_ok st s' m act = Inr ()"
      "\<forall>k. k \<notin> baseline_key ` set acts \<longrightarrow> ss_results s' k = ss_results s1 k"
      "''correctness'' \<in> set acts \<longrightarrow> (\<exists>x. ss_results s' (baseline_key ''correctness'') = Some x
        \<and> notes' = (ar_status (xa_result x), \<not> passed (xa_result x), checks))"
      "''correctness'' \<notin> set acts \<longrightarrow> notes' = (n0, d0, checks)" by auto
  have fresh: "baseline_key act \<notin> baseline_key ` set acts"
    using Cons.prems(4) by (auto simp: baseline_key_def)
  then have keep: "ss_results s' (baseline_key act) = Some x"
    using ih(4) ok(2) by (simp add: baseline_key_def)
  have "saved_baseline_ok st s' m act = Inr ()"
    using keep acc m1 ok(3) by (simp add: saved_baseline_ok_def baseline_key_def split: if_splits)
  moreover have "ss_results s' k = ss_results s k" if "k \<notin> baseline_key ` set (act # acts)" for k
    using that ih(4) [rule_format, of k] ok(2) by (simp add: baseline_key_def)
  moreover have "\<exists>x. ss_results s' (baseline_key ''correctness'') = Some x
      \<and> notes' = (ar_status (xa_result x), \<not> passed (xa_result x), checks)" if "''correctness'' \<in> set (act # acts)"
  proof (cases "''correctness'' \<in> set acts")
    case False
    with that have "act = ''correctness''" by auto
    with keep ih(6) False n0 show ?thesis by auto
  qed (use ih(5) in blast)
  moreover have "notes' = (numerical, diagnostic, checks)" if "''correctness'' \<notin> set (act # acts)"
    using that ih(6) n0 by (auto split: if_splits)
  ultimately show ?case using ih(1, 3) grows_trans [OF g ih(2)] by auto
qed

definition initial_candidate_key :: "string \<Rightarrow> result_key" where
  "initial_candidate_key act = (''task_validation'', ''candidate'', act)"

lemma candidate_steps_ok:
  assumes "candidate_steps st acts s = (Inr (), s')"
    and "ss_manifest s = Some m" "replays s" "distinct acts" "''validate-task'' \<notin> set acts"
  shows "replays s' \<and> grows s s' \<and> (\<forall>act \<in> set acts. saved_candidate_ok s' m act = Inr ())
    \<and> (\<forall>k. k \<notin> initial_candidate_key ` set acts \<longrightarrow> ss_results s' k = ss_results s k)"
  using assms
proof (induction acts arbitrary: s)
  case Nil
  then show ?case by (auto simp: grows_refl)
next
  case (Cons act acts)
  from Cons.prems(1) obtain x s1 where
      e: "execute st ''candidate'' act ''task_validation'' s = (Inr x, s1)"
      and p: "passed (xa_result x)" and rest: "candidate_steps st acts s1 = (Inr (), s')"
    by (auto elim!: sbind_InrE split: if_splits)
  have v: "act \<noteq> ''validate-task''" using Cons.prems(5) by auto
  note g = execute_grows [OF e]
  have m1: "ss_manifest s1 = Some m" using g Cons.prems(2) by (simp add: grows_def)
  have r1: "replays s1" by (rule execute_replays [OF Cons.prems(3) _ Cons.prems(2) v e]) simp
  note ok = execute_Inr(1, 2) [OF e] execute_Inr(3) [OF e _ v Cons.prems(2)]
  from Cons.IH [OF rest m1 r1] Cons.prems(4, 5)
  have ih: "replays s'" "grows s1 s'" "\<forall>act \<in> set acts. saved_candidate_ok s' m act = Inr ()"
      "\<forall>k. k \<notin> initial_candidate_key ` set acts \<longrightarrow> ss_results s' k = ss_results s1 k" by auto
  have "initial_candidate_key act \<notin> initial_candidate_key ` set acts"
    using Cons.prems(4) by (auto simp: initial_candidate_key_def)
  then have "ss_results s' (initial_candidate_key act) = Some x"
    using ih(4) ok(2) by (simp add: initial_candidate_key_def)
  then have "saved_candidate_ok s' m act = Inr ()"
    using p ok(3) by (simp add: saved_candidate_ok_def initial_candidate_key_def)
  moreover have "ss_results s' k = ss_results s k" if "k \<notin> initial_candidate_key ` set (act # acts)" for k
    using that ih(4) [rule_format, of k] ok(2) by (simp add: initial_candidate_key_def)
  ultimately show ?case using ih(1, 3) grows_trans [OF g ih(2)] by auto
qed

text \<open>The alternatives of an accepted declaration.\<close>

lemma spec_choices:
  assumes "from_mapping config tid = Inr spec"
  shows "cand_initial_state (ts_candidate spec) \<in> {''implemented'', ''unimplemented''}"
    "base_kind (ts_baseline spec) \<in> {''initial_candidate'', ''provided''}"
proof -
  from assms obtain obj where "candidate_of (dget obj ''candidate'') = Inr (ts_candidate spec)"
      and b: "baseline_of (dget_default obj ''baseline'' (PDict [])) (ts_candidate spec) = Inr (ts_baseline spec)"
    by (auto simp: from_mapping_Inr)
  then show "cand_initial_state (ts_candidate spec) \<in> {''implemented'', ''unimplemented''}"
    using candidate_of_Inr(5) by blast
  show "base_kind (ts_baseline spec) \<in> {''initial_candidate'', ''provided''}"
  proof -
    from b obtain v kind language policy reason sources where
        "choice_arg v [''initial_candidate'', ''provided''] ''baseline.kind'' = Inr kind"
        "Inr \<lparr>base_kind = kind, base_language = language, base_source_files = sources,
           base_correctness_policy = policy, base_diagnostic_reason = reason\<rparr>
         = (Inr (ts_baseline spec) :: (config_error, baseline_spec) result)"
      unfolding baseline_of_def by (elim rbindE if_InlE)
    then show ?thesis by (cases "ts_baseline spec") (auto simp: choice_arg_Inr)
  qed
qed

lemma task_step_grows:
  assumes "task_step st s = (r, s')"
  shows "ss_baseline_sources s' = ss_baseline_sources s \<and> ss_initial s' = ss_initial s
    \<and> (\<exists>fs. ss_files s' = ss_files s @ fs \<and> list_all action_record fs)"
proof -
  obtain r1 s1 where e: "execute st ''task'' ''validate-task'' ''task_validation'' s = (r1, s1)" by force
  from execute_grows [OF e] assms e show ?thesis
    unfolding task_step_def Let_def
    by (cases r1) (auto simp: grows_def elim!: sbindE split: if_splits)
qed

text \<open>The verdict of a validation without errors is what its evidence supports.\<close>

lemma verify_saved_cong:
  assumes "ss_manifest s = ss_manifest s'" "ss_task_evidence s = ss_task_evidence s'"
    and "\<And>k. fst k = ''task_validation'' \<Longrightarrow> ss_results s k = ss_results s' k"
  shows "verify_saved_initial_validation st s v = verify_saved_initial_validation st s' v"
  using assms by (simp add: verify_saved_initial_validation_def saved_baseline_ok_def [abs_def]
      saved_candidate_ok_def [abs_def] cong: if_cong option.case_cong)

lemma validation_steps_ok:
  assumes "validation_steps st s = ((numerical, diagnostic, checks), Inr u, s')" "replays s"
    and "cand_initial_state (ts_candidate (st_spec st)) \<in> {''implemented'', ''unimplemented''}"
    and "base_kind (ts_baseline (st_spec st)) \<in> {''initial_candidate'', ''provided''}"
  shows "replays s' \<and> ss_manifest s' \<noteq> None \<and> ss_task_evidence s' \<noteq> None
    \<and> ss_baseline_sources s' = ss_baseline_sources s
    \<and> (\<exists>fs. ss_files s' = ss_files s @ fs \<and> list_all action_record fs)
    \<and> verify_saved_initial_validation st s'
        \<lparr>iv_accepted = True, iv_numerical_status = numerical, iv_diagnostic = diagnostic,
         iv_initial_state = cand_initial_state (ts_candidate (st_spec st)), iv_candidate_checks = checks,
         iv_errors = []\<rparr> = Inr ()"
proof -
  let ?c = "ts_candidate (st_spec st)" and ?b = "ts_baseline (st_spec st)"
  from assms(1) obtain s1 where t: "task_step st s = (Inr (), s1)"
    unfolding validation_steps_def Let_def by (cases "task_step st s"; cases "fst (task_step st s)") auto
  obtain n d k b2 s2 where b: "baseline_steps st check_actions (''NOT_RUN'', False, ''NOT_RUN'') s1 = ((n, d, k), b2, s2)"
    by (metis prod_cases3)
  from assms(1) t b have b2: "b2 = Inr ()"
    unfolding validation_steps_def Let_def by (cases b2) simp_all
  note b = b [unfolded b2]
  from assms(1) t b have
      c: "(if cand_initial_state ?c = ''unimplemented'' then ((n, d, ''candidate_unimplemented''), Inr (), s2)
               else if base_kind ?b = ''initial_candidate'' then ((n, d, ''verified_as_frozen_baseline''), Inr (), s2)
               else (case candidate_steps st check_actions s2 of
                  (Inl e, s3) \<Rightarrow> ((n, d, k), Inl e, s3)
                | (Inr _, s3) \<Rightarrow> ((n, d, ''PASS''), Inr (), s3))) = ((numerical, diagnostic, checks), Inr u, s')"
    unfolding validation_steps_def Let_def by simp
  from task_step_ok [OF t] obtain x m s0 where x: "passed (xa_result x)" "verify_initial_state (st_spec st) x = Inr ()"
      and s1: "s1 = s0\<lparr>ss_task_evidence := Some x, ss_manifest := Some m\<rparr>" by blast
  then have m1: "ss_manifest s1 = Some m" "ss_task_evidence s1 = Some x" by simp_all
  have da: "distinct check_actions" "''validate-task'' \<notin> set check_actions" "''correctness'' \<in> set check_actions"
    by (simp_all add: check_actions_def)
  from baseline_steps_ok [OF b m1(1) task_step_replays [OF assms(2) t] da(1, 2)] da(3)
  obtain y where B: "replays s2" "grows s1 s2" "\<forall>act \<in> set check_actions. saved_baseline_ok st s2 m act = Inr ()"
      "ss_results s2 (baseline_key ''correctness'') = Some y" "n = ar_status (xa_result y)" "d = (\<not> passed (xa_result y))"
    by auto
  have m2: "ss_manifest s2 = Some m" "ss_task_evidence s2 = Some x" using B(2) m1 by (simp_all add: grows_def)
  have "replays s' \<and> grows s2 s' \<and> numerical = n \<and> diagnostic = d
      \<and> (\<forall>k. k \<notin> initial_candidate_key ` set check_actions \<longrightarrow> ss_results s' k = ss_results s2 k)
      \<and> (if cand_initial_state ?c = ''unimplemented'' then checks = ''candidate_unimplemented''
          else if base_kind ?b = ''initial_candidate'' then checks = ''verified_as_frozen_baseline''
          else checks = ''PASS'' \<and> (\<forall>act \<in> set check_actions. saved_candidate_ok s' m act = Inr ()))"
  proof (cases "cand_initial_state ?c = ''unimplemented'' \<or> base_kind ?b = ''initial_candidate''")
    case True
    with c B(1) show ?thesis by (auto simp: grows_refl split: if_splits)
  next
    case False
    with c have cs: "candidate_steps st check_actions s2 = (Inr (), s')"
        "checks = ''PASS''" "numerical = n" "diagnostic = d"
      by (auto split: prod.splits sum.splits)
    with candidate_steps_ok [OF cs(1) m2(1) B(1) da(1, 2)] False show ?thesis by simp
  qed
  moreover have keys: "baseline_key act \<notin> initial_candidate_key ` A" for act A
    by (auto simp: baseline_key_def initial_candidate_key_def)
  ultimately have C: "replays s'" "grows s2 s'" "numerical = n" "diagnostic = d"
      "\<And>act. ss_results s' (baseline_key act) = ss_results s2 (baseline_key act)"
      "if cand_initial_state ?c = ''unimplemented'' then checks = ''candidate_unimplemented''
          else if base_kind ?b = ''initial_candidate'' then checks = ''verified_as_frozen_baseline''
          else checks = ''PASS'' \<and> (\<forall>act \<in> set check_actions. saved_candidate_ok s' m act = Inr ())"
    using keys by blast+
  have m3: "ss_manifest s' = Some m" "ss_task_evidence s' = Some x" using C(2) m2 by (simp_all add: grows_def)
  have base: "foldR (\<lambda>_. saved_baseline_ok st s' m) () check_actions = Inr ()"
    using B(3) saved_baseline_ok_cong [OF C(5)] by (simp add: foldR_unit)
  have cand: "\<forall>act \<in> set check_actions. saved_candidate_ok s' m act = Inr ()
      \<Longrightarrow> foldR (\<lambda>_. saved_candidate_ok s' m) () check_actions = Inr ()" by (simp add: foldR_unit)
  have y: "ss_results s' (''task_validation'', ''baseline'', ''correctness'') = Some y"
    using C(5) [of "''correctness''"] B(4) by (simp add: baseline_key_def)
  have "verify_saved_initial_validation st s'
        \<lparr>iv_accepted = True, iv_numerical_status = numerical, iv_diagnostic = diagnostic,
         iv_initial_state = cand_initial_state ?c, iv_candidate_checks = checks, iv_errors = []\<rparr> = Inr ()"
    using assms(3, 4) C(6) x cand
    by (auto simp: verify_saved_initial_validation_def m3 base y Let_def C(3, 4) B(5, 6) split: if_splits)
  moreover have "ss_baseline_sources s' = ss_baseline_sources s
      \<and> (\<exists>fs. ss_files s' = ss_files s @ fs \<and> list_all action_record fs)"
    using task_step_grows [OF t] grows_trans [OF B(2) C(2)] by (auto simp: grows_def)
  ultimately show ?thesis using C(1) m3 by simp
qed

lemma validate_initial_steps:
  assumes "validate_initial st s = (Inr report, s')" "iv_accepted report"
  obtains numerical diagnostic checks u s1 fs where
    "validation_steps st s = ((numerical, diagnostic, checks), Inr u, s1)"
    "report = \<lparr>iv_accepted = True, iv_numerical_status = numerical, iv_diagnostic = diagnostic,
       iv_initial_state = cand_initial_state (ts_candidate (st_spec st)), iv_candidate_checks = checks,
       iv_errors = []\<rparr>"
    "s' = s1\<lparr>ss_initial := Some report, ss_files := ss_files s1 @ (''initial_validation.json'', ReportFile report) # fs\<rparr>"
    "''initial_validation.json'' \<notin> fst ` set (ss_files s1)"
    "list_all (\<lambda>f. \<not> action_record f) fs" "ss_initial s = None"
proof -
  obtain kept r s1 where v: "validation_steps st s = (kept, r, s1)" by (metis prod_cases3)
  obtain numerical diagnostic checks where n: "kept = (numerical, diagnostic, checks)" by (metis prod_cases3)
  from assms(1) have none: "ss_initial s = None" by (auto simp: validate_initial_def split: if_splits)
  from assms(1) v n none have e: "sbind (case r of Inl e \<Rightarrow> if caught_in_validation e then Inr [error_text e] else Inl e
        | Inr _ \<Rightarrow> Inr [], s1) (\<lambda>errors s.
      let report = \<lparr>iv_accepted = (errors = []), iv_numerical_status = numerical, iv_diagnostic = diagnostic,
                    iv_initial_state = cand_initial_state (ts_candidate (st_spec st)),
                    iv_candidate_checks = checks, iv_errors = errors\<rparr>;
          s = s\<lparr>ss_initial := Some report\<rparr> in
      sbind (write_json ''initial_validation.json'' (ReportFile report) s) (\<lambda>_ s.
      sbind (if errors = [] then write_agent_context s else (Inr (), s)) (\<lambda>_ s.
      sbind (validation_context s, s) (\<lambda>(report, actions) s.
      sbind (write_json ''validation_context.json'' (ValidationContextFile report actions) s) (\<lambda>_ s.
      (Inr report, s)))))) = (Inr report, s')"
    by (simp add: validate_initial_def Let_def)
  then obtain errors where er: "(case r of Inl e \<Rightarrow> if caught_in_validation e then Inr [error_text e] else Inl e
        | Inr _ \<Rightarrow> Inr []) = Inr errors"
    by (elim sbind_InrE) auto
  define rep where "rep = \<lparr>iv_accepted = (errors = []), iv_numerical_status = numerical, iv_diagnostic = diagnostic,
                    iv_initial_state = cand_initial_state (ts_candidate (st_spec st)),
                    iv_candidate_checks = checks, iv_errors = errors\<rparr>"
  from e er have e2: "sbind (write_json ''initial_validation.json'' (ReportFile rep) (s1\<lparr>ss_initial := Some rep\<rparr>)) (\<lambda>_ s.
      sbind (if errors = [] then write_agent_context s else (Inr (), s)) (\<lambda>_ s.
      sbind (validation_context s, s) (\<lambda>(report, actions) s.
      sbind (write_json ''validation_context.json'' (ValidationContextFile report actions) s) (\<lambda>_ s.
      (Inr report, s))))) = (Inr report, s')"
    by (simp add: Let_def rep_def)
  then obtain s2 s3 c s4 where
      w1: "write_json ''initial_validation.json'' (ReportFile rep) (s1\<lparr>ss_initial := Some rep\<rparr>) = (Inr (), s2)"
      and w2: "(if errors = [] then write_agent_context s2 else (Inr (), s2)) = (Inr (), s3)"
      and c: "validation_context s3 = Inr (report, c)"
      and w3: "write_json ''validation_context.json'' (ValidationContextFile report c) s3 = (Inr (), s')"
    by (elim sbind_InrE) (auto split: prod.splits elim!: sbind_InrE)
  from w1 have s2: "''initial_validation.json'' \<notin> fst ` set (ss_files s1)"
      "s2 = s1\<lparr>ss_initial := Some rep, ss_files := ss_files s1 @ [(''initial_validation.json'', ReportFile rep)]\<rparr>"
    by (auto simp: write_json_def split: if_splits)
  have "\<exists>fs. s3 = s2\<lparr>ss_files := ss_files s2 @ fs\<rparr> \<and> list_all (\<lambda>f. \<not> action_record f) fs"
  proof (cases "errors = []")
    case True
    with w2 have "write_agent_context s2 = (Inr (), s3)" by simp
    then show ?thesis
      by (auto simp: write_agent_context_def action_record_def starts_with_def
          split: option.splits elim!: write_json_cases)
  next
    case False
    with w2 show ?thesis by (intro exI [of _ "[]"]) auto
  qed
  then obtain fs where s3: "s3 = s2\<lparr>ss_files := ss_files s2 @ fs\<rparr>" "list_all (\<lambda>f. \<not> action_record f) fs" by blast
  from c s2(2) s3(1) have rep: "report = rep" by (simp add: validation_context_def)
  with assms(2) have er0: "errors = []" by (simp add: rep_def)
  with er obtain u where r: "r = Inr u" by (cases r) (auto split: if_splits)
  from w3 s3 s2 have "s' = s1\<lparr>ss_initial := Some report, ss_files := ss_files s1
      @ (''initial_validation.json'', ReportFile report) # (fs @ [(''validation_context.json'', ValidationContextFile report c)])\<rparr>"
    by (auto simp: rep elim!: write_json_cases)
  moreover have "list_all (\<lambda>f. \<not> action_record f) (fs @ [(''validation_context.json'', ValidationContextFile report c)])"
    using s3(2) by (simp add: action_record_def starts_with_def)
  ultimately show thesis
    using that [OF _ _ _ s2(1) _ none] v n r rep er0 rep_def by simp
qed

section \<open>Candidate actions and the replay\<close>

lemma candidate_action_replays:
  fixes s s' :: "'w session"
  assumes "replays s" "ss_manifest s = Some m" "candidate_action st act s = (r, s')"
  shows "replays s' \<and> grows s s'"
  using assms(3)
proof (cases rule: candidate_action_cases)
  case (refused e w)
  then have "replays s'" by (intro replays_other [OF assms(1), of s' "[]"]) simp_all
  with refused show ?thesis by (simp add: grows_def)
next
  case (executed ident i w s1 r2 s2 w2 required)
  have act: "act \<noteq> ''validate-task''" using executed(2) by (auto simp: prerequisites_def)
  have "replays s1" and m: "ss_manifest s1 = Some m" and g: "grows s s1"
    by (rule replays_other [OF assms(1), of s1 "[]"])
       (simp_all add: executed(3) fresh_attempt_def assms(2) grows_def)
  then have "replays s2" by (intro execute_replays [OF _ _ m act executed(7)]) simp_all
  then have "replays s'" by (rule replays_other [where fs = "[]"]) (simp_all add: executed(8))
  moreover have "grows s s2" by (rule grows_trans [OF g execute_grows [OF executed(7)]])
  ultimately show ?thesis by (simp add: executed(8) grows_def)
qed

lemma history_replays:
  fixes s s0 :: "'w session"
  assumes "history st s0 h s" "replays s0" "ss_manifest s0 = Some m"
  shows "replays s \<and> grows s0 s"
  using assms
proof (induction rule: history.induct)
  case beginning
  then show ?case by (simp add: grows_refl)
next
  case (outside h s w)
  then have s: "replays s" "grows s0 s" by blast+
  have "replays (s\<lparr>ss_world := w\<rparr>)" by (rule replays_other [OF s(1), where fs = "[]"]) simp_all
  with s(2) show ?case by (simp add: grows_def)
next
  case (acted h s act r s')
  then have s: "replays s" "grows s0 s" by blast+
  have "ss_manifest s = Some m" using s(2) acted.prems by (simp add: grows_def)
  from candidate_action_replays [OF s(1) this acted.hyps(2)] s(2) grows_trans show ?case by blast
qed

lemma candidate_action_keeps:
  assumes "candidate_action st act s = (r, s')" "fst k = ''task_validation''"
  shows "ss_results s' k = ss_results s k"
  using assms(1)
proof (cases rule: candidate_action_cases)
  case (executed ident i w s1 r2 s2 w2 required)
  have "k \<noteq> (''candidate_evaluation'', ''candidate'', act)" using assms(2) by auto
  with execute_results [OF executed(7), of k] have "ss_results s2 k = ss_results s1 k" by blast
  with assms(2) show ?thesis by (simp add: executed(3, 8) fresh_attempt_def)
qed simp

lemma history_keeps:
  assumes "history st s0 h s" "fst k = ''task_validation''"
  shows "ss_results s k = ss_results s0 k"
  using assms(1)
proof (induction rule: history.induct)
  case (acted h s act r s')
  then show ?case using candidate_action_keeps [OF acted.hyps(2) assms(2)] by simp
qed simp_all

section \<open>Loading\<close>

lemma map_of_append: "map_of xs k = Some v \<Longrightarrow> map_of (xs @ ys) k = Some v"
  by (simp add: map_add_def)

lemma map_of_fresh: "k \<notin> fst ` set xs \<Longrightarrow> map_of (xs @ (k, v) # ys) k = Some v"
  by (simp add: map_add_def map_of_eq_None_iff [THEN iffD2])

lemma create_ok:
  assumes "create st state_exists w0 = (Inr s, w1)"
  obtains sources m where "to_mapping (st_spec st) = Inr m"
    "s = new_session sources
       [(''initial_sources.json'', SourcesFile sources), (''task_spec.json'', SpecFile m),
        (''session.json'', DescriptorFile 1 (ts_task_id (st_spec st)) (st_workspace st)),
        (''harness.json'', HarnessFile)] w1"
proof -
  from assms show thesis unfolding create_def
    by (auto split: if_splits elim!: sbind_InrE simp: result_simps intro: that)
qed

text \<open>Files that replay, with the world as the session expects it, load.\<close>

lemma load_replays:
  fixes s :: "'w session"
  assumes rep: "replays s" "ss_invocations s < 10 ^ 4"
    and id: "saved_identity st (ss_files s) = Inr (ss_baseline_sources s)"
    and report: "saved_report (ss_files s) = Inr (Some v)"
    and verdict: "iv_accepted v \<Longrightarrow> verify_saved_initial_validation st s v = Inr ()"
    and world: "verify_baseline_sources (st_host st) (ss_baseline_sources s) w = Inr ()"
      "h_harness (st_host st) (\<not> read_only) w = (Inr (), w')"
  shows "\<exists>t. load st read_only (ss_files s) w = (Inr t, w') \<and> ss_manifest t = ss_manifest s
    \<and> ss_task_evidence t = ss_task_evidence s \<and> ss_initial t = Some v \<and> ss_identity t = None
    \<and> ss_baseline_sources t = ss_baseline_sources s \<and> ss_files t = ss_files s
    \<and> ss_invocations t \<le> ss_invocations s
    \<and> (\<forall>k. ss_results s k \<noteq> None \<or> fst k = ''task_validation'' \<longrightarrow> ss_results t k = ss_results s k)"
proof -
  from rep(1) obtain R n where R: "n \<le> ss_invocations s"
      "\<And>F w. foldR replay_record (new_session (ss_baseline_sources s) F w) (filter action_record (ss_files s))
        = Inr (replayed s R n F w)"
      "\<forall>k. ss_results s k \<noteq> None \<or> fst k = ''task_validation'' \<longrightarrow> R k = ss_results s k"
    and num: "numbered (ss_files s) (ss_invocations s)"
    unfolding replays_def by blast
  let ?F = "ss_files s"
  let ?t = "replayed s R n ?F w'"
  have b: "baseline_unchanged st (new_session (ss_baseline_sources s) ?F w) = Inr ()"
    using world(1) by (simp add: baseline_unchanged_def new_session_def)
  have h: "verify_harness st (\<not> read_only) (new_session (ss_baseline_sources s) ?F w)
      = (Inr (), new_session (ss_baseline_sources s) ?F w')"
    using world(2) by (simp add: verify_harness_def new_session_def)
  have f: "foldR replay_record (new_session (ss_baseline_sources s) ?F w') (sorted_records ?F) = Inr ?t"
    using R(2) numbered_sorted [OF num rep(2)] by simp
  have ver: "verify_saved_initial_validation st ?t v = verify_saved_initial_validation st s v"
  proof (rule verify_saved_cong)
    fix k :: result_key
    assume "fst k = ''task_validation''"
    then show "ss_results ?t k = ss_results s k" using R(3) [rule_format, of k] by (simp add: replayed_def)
  qed (simp_all add: replayed_def)
  have "load st read_only ?F w = (Inr (?t\<lparr>ss_initial := Some v\<rparr>), w')"
    unfolding load_def id sbind_simps Let_def b h prod.case f report
    using verdict by (cases "iv_accepted v") (simp_all add: ver new_session_def)
  then show ?thesis
    using R(1, 3) by (intro exI [of _ "?t\<lparr>ss_initial := Some v\<rparr>"]) (simp add: replayed_def new_session_def)
qed

section \<open>What a loaded session rests on\<close>

lemma parsed_evidence_ok:
  assumes "parsed_evidence result cs = Inr r"
  shows "evidence_ok (ar_role r) (ar_action r) \<lparr>xa_invocation_id = i, xa_result = r, xa_commands = cs\<rparr>"
proof -
  from assms obtain rs where rs: "list_all2 (\<lambda>c r. rbind (result_field result ''role'') (\<lambda>role.
          rbind (result_field result ''action'') (\<lambda>act.
            map_error Report (parse_command_result (cm_stdout c) role act (cm_returncode c)))) = Inr r) cs rs"
      and m: "merge_command_results rs = Inr r"
    unfolding parsed_evidence_def by (auto simp: result_simps)
  have "rs \<noteq> []" by (rule merge_Inr(4) [OF m])
  with rs obtain role act where f: "result_field result ''role'' = Inr role" "result_field result ''action'' = Inr act"
    by (cases rs) (auto simp: list_all2_Cons2 rbind_eq_Inr)
  with rs have "commands_parse role act rs cs"
    unfolding commands_parse_def by (subst list_all2_conv_all_nth) (auto simp: list_all2_conv_all_nth result_simps)
  with m have ok: "evidence_ok role act \<lparr>xa_invocation_id = i, xa_result = r, xa_commands = cs\<rparr>"
    by (auto simp: evidence_ok_def)
  from evidence_fields(1, 2) [OF ok] ok show ?thesis by simp
qed

definition supported :: "'w session \<Rightarrow> bool" where
  "supported s = (\<forall>phase role act x. ss_results s (phase, role, act) = Some x \<longrightarrow> evidence_ok role act x)"

lemma replay_result_results:
  "replay_result k x s = Inr s' \<Longrightarrow> ss_results s' = (ss_results s)(k := Some x)"
  by (auto simp: replay_result_def Let_def result_simps split: if_splits option.splits)

lemma replay_result_initial:
  "replay_result k x s = Inr s' \<Longrightarrow> ss_initial s' = ss_initial s"
  by (auto simp: replay_result_def Let_def result_simps split: if_splits option.splits)

lemma replay_file_initial: "replay_file f s = Inr s' \<Longrightarrow> ss_initial s' = ss_initial s"
  by (cases f) (auto simp: replay_file_def Let_def result_simps dest!: replay_result_initial split: if_splits)

lemma replay_record_initial: "replay_record s f = Inr s' \<Longrightarrow> ss_initial s' = ss_initial s"
  by (auto simp: replay_record_def rbind_eq_Inr dest!: replay_file_initial)

lemma replay_record_supported:
  assumes "replay_record s f = Inr s'" "supported s"
  shows "supported s'"
proof -
  from assms(1) obtain n where f: "replay_file (snd f) (s\<lparr>ss_invocations := n\<rparr>) = Inr s'"
    by (auto simp: replay_record_def rbind_eq_Inr)
  show ?thesis
  proof (cases "snd f")
    case (ActionFile i phase result cs)
    with f obtain r where r: "parsed_evidence result cs = Inr r"
        "replay_result (phase, ar_role r, ar_action r) \<lparr>xa_invocation_id = i, xa_result = r, xa_commands = cs\<rparr>
           (s\<lparr>ss_invocations := n\<rparr>) = Inr s'"
      by (auto simp: replay_file_def result_simps)
    from replay_result_results [OF r(2)] parsed_evidence_ok [OF r(1)] assms(2) show ?thesis
      by (auto simp: supported_def split: if_splits)
  next
    case (FailureFile role act phase m cs)
    with f have "ss_results s' = (ss_results s)((phase, role, act) := None)"
      by (auto simp: replay_file_def Let_def split: if_splits)
    with assms(2) show ?thesis by (auto simp: supported_def split: if_splits)
  qed (use f in \<open>auto simp: replay_file_def\<close>)
qed

lemma load_Inr:
  assumes "load st read_only files w = (Inr t, w')"
  obtains sources s v where
    "foldR replay_record (new_session sources files w') (sorted_records files) = Inr s"
    "saved_report files = Inr v" "t = s\<lparr>ss_initial := v\<rparr>"
    "case v of None \<Rightarrow> True | Some r \<Rightarrow> iv_accepted r \<longrightarrow> verify_saved_initial_validation st s r = Inr ()"
proof -
  from assms obtain sources where "(let (r, s) = verify_harness st (\<not> read_only) (new_session sources files w); w = ss_world s in
     sbind (r, w) (\<lambda>_ w.
     sbind (foldR replay_record s (sorted_records files), w) (\<lambda>s w.
     sbind (saved_report files, w) (\<lambda>report w.
     case report of None \<Rightarrow> (Inr s, w)
     | Some v \<Rightarrow>
         sbind (if iv_accepted v then verify_saved_initial_validation st s v else Inr (), w) (\<lambda>_ w.
         (Inr (s\<lparr>ss_initial := Some v\<rparr>), w)))))) = (Inr t, w')"
    unfolding load_def Let_def by (elim sbind_InrE) auto
  moreover obtain r w1 where h: "verify_harness st (\<not> read_only) (new_session sources files w)
      = (r, (new_session sources files w)\<lparr>ss_world := w1\<rparr>)" by (rule verify_harness_world)
  have n: "(new_session sources files w)\<lparr>ss_world := w1\<rparr> = new_session sources files w1"
    by (simp add: new_session_def)
  ultimately have "sbind (r, w1) (\<lambda>_ w.
     sbind (foldR replay_record (new_session sources files w1) (sorted_records files), w) (\<lambda>s w.
     sbind (saved_report files, w) (\<lambda>report w.
     case report of None \<Rightarrow> (Inr s, w)
     | Some v \<Rightarrow>
         sbind (if iv_accepted v then verify_saved_initial_validation st s v else Inr (), w) (\<lambda>_ w.
         (Inr (s\<lparr>ss_initial := Some v\<rparr>), w))))) = (Inr t, w')"
    using h unfolding n by (simp add: Let_def new_session_def)
  then obtain s report where s: "foldR replay_record (new_session sources files w1) (sorted_records files) = Inr s"
      and v: "saved_report files = Inr report"
      and k: "(case report of None \<Rightarrow> (Inr s, w1)
     | Some v \<Rightarrow>
         sbind (if iv_accepted v then verify_saved_initial_validation st s v else Inr (), w1) (\<lambda>_ w.
         (Inr (s\<lparr>ss_initial := Some v\<rparr>), w))) = (Inr t, w')"
    by (elim sbind_InrE) auto
  have i: "ss_initial s = None"
    by (rule foldR_invariant [OF s, where P = "\<lambda>s. ss_initial s = None"])
       (simp_all add: new_session_def replay_record_initial)
  have w: "w1 = w'" using k by (auto split: option.splits elim!: sbind_InrE)
  show thesis
  proof (cases report)
    case None
    with k i have "t = s\<lparr>ss_initial := None\<rparr>" by (cases s) simp
    with s v None w that show thesis by simp
  next
    case (Some r)
    with k have "t = s\<lparr>ss_initial := Some r\<rparr>"
        "iv_accepted r \<longrightarrow> verify_saved_initial_validation st s r = Inr ()"
      by (auto elim!: sbind_InrE)
    with s v Some w that show thesis by simp
  qed
qed

lemma verify_saved_Inr:
  assumes "verify_saved_initial_validation st s v = Inr ()"
  obtains m task where "ss_manifest s = Some m" "ss_task_evidence s = Some task" "passed (xa_result task)"
    "verify_initial_state (st_spec st) task = Inr ()" "\<forall>act \<in> set check_actions. saved_baseline_ok st s m act = Inr ()"
  using assms
  by (auto simp: verify_saved_initial_validation_def foldR_unit rbind_eq_Inr guardR_eq_Inr split: option.splits)

lemma saved_baseline_ok_Inr:
  assumes "saved_baseline_ok st s m act = Inr ()"
  shows "\<exists>x. ss_results s (''task_validation'', ''baseline'', act) = Some x \<and> validate m (xa_result x) = Inr ()
    \<and> (if act = ''correctness''
       then baseline_correctness_accepted (xa_result x) (ts_baseline (st_spec st)) ''task_validation'' m = Inr True
       else passed (xa_result x))"
  using assms
  by (auto simp: saved_baseline_ok_def correctness_accepted_def result_simps split: option.splits if_splits)

end
