(* ===== verification/TaskSessionProps.thy ===== *)
theory TaskSessionProps
  imports TaskSessionReplay
begin

text \<open>
  The properties of task sessions, each applied to a small session: a host without a state on
  which every command of the sample declaration prints a passing report.
\<close>

section \<open>A small session\<close>

definition demo_report :: "string \<Rightarrow> string \<Rightarrow> string \<Rightarrow> string" where
  "demo_report role act cases =
     RESULT_PREFIX @ ''{\"protocol\":\"arena-eval-v1\",\"role\":\"'' @ role @ ''\",\"action\":\"'' @ act
     @ ''\",\"status\":\"PASS\",\"cases\":['' @ cases @ ''],\"metadata\":{\"candidate_state\":\"implemented\"}}''"

definition demo_cases :: "string \<Rightarrow> string \<Rightarrow> string" where
  "demo_cases checks act =
     (if act = ''compile'' then [] else ''{\"test_case_id\":\"a\",\"status\":\"PASS\"'' @
        (if act = ''validate-task'' then '',\"checks\":['' @ checks @ '']''
         else if act = ''performance'' then '',\"execution_time_ms\":1.5,\"benchmark_method\":\"cuda_graph\"''
         else []) @ ''}'')"

fun demo_process :: "string \<Rightarrow> string list \<Rightarrow> process_end" where
  "demo_process checks [_, _, role, act] = Exited 0 (demo_report role act (demo_cases checks act)) []"
| "demo_process checks [_, _, act] = Exited 0 (demo_report ''task'' act (demo_cases checks act)) []"
| "demo_process checks _ = NotStarted []"

definition demo_host :: "string \<Rightarrow> unit session_host" where
  "demo_host checks =
     \<lparr>h_now = (\<lambda>w. (Fin 0, w)), h_uuid = (\<lambda>w. (''id'', w)), h_environ = (\<lambda>_. []),
      h_resolve = (\<lambda>p _. Some p), h_process = (\<lambda>argv _ _ _ w. (demo_process checks argv, w)),
      h_baseline_digest = (\<lambda>_ _. Some ''d''), h_locate = (\<lambda>p _ _. Some p),
      h_node = (\<lambda>p _. if p = ''src'' then Some Directory else Some (Regular 3)),
      h_below = (\<lambda>_ _. [''src/op/launch.hip'']), h_digest = (\<lambda>_ _. ''d''), h_module = (\<lambda>_ _. None),
      h_harness = (\<lambda>_ w. (Inr (), w)), h_snapshot = (\<lambda>w. (Inr [(''kernel.hip'', ''d'')], w))\<rparr>"

definition both_checks :: string where "both_checks = ''\"correctness\",\"performance\"''"

definition demo :: "unit session_setup" where
  "demo = \<lparr>st_host = demo_host both_checks, st_spec = sample_spec,
     st_workspace = ''/run/task'', st_state_directory = ''/run/.task-sessions/task''\<rparr>"

definition demo_created :: "unit session" where
  "demo_created = projr (fst (create demo False ()))"

lemma demo_created: "create demo False () = (Inr demo_created, ())"
proof -
  have "is_ok (fst (create demo False ()))" by code_simp
  then show ?thesis unfolding demo_created_def by (cases "create demo False ()"; cases "fst (create demo False ())") auto
qed

definition demo_report_of :: initial_validation where
  "demo_report_of =
     \<lparr>iv_accepted = True, iv_numerical_status = ''PASS'', iv_diagnostic = False, iv_initial_state = ''implemented'',
      iv_candidate_checks = ''verified_as_frozen_baseline'', iv_errors = []\<rparr>"

definition demo_validated :: "unit session" where
  "demo_validated = snd (validate_initial demo demo_created)"

lemma demo_validation:
  "case validate_initial demo demo_created of (r, s) \<Rightarrow>
     r = Inr demo_report_of \<and> ss_invocations s = 4 \<and> ss_baseline_sources s = [(''kernel.hip'', ''d'')]"
  by code_simp

lemma demo_validated:
  "validate_initial demo demo_created = (Inr demo_report_of, demo_validated)"
  "ss_invocations demo_validated = 4" "ss_baseline_sources demo_validated = [(''kernel.hip'', ''d'')]"
  using demo_validation unfolding demo_validated_def
  by (simp_all add: case_prod_unfold prod_eq_iff del: split_paired_Ex)

text \<open>The session as it is after a load: accepted, with the manifest of one case.\<close>

definition demo_loaded :: "unit session" where
  "demo_loaded = (new_session [(''kernel.hip'', ''d'')] [] ())
     \<lparr>ss_initial := Some demo_report_of,
      ss_manifest := Some [[(PStr ''test_case_id'', PStr ''a''), (PStr ''status'', PStr ''PASS''),
        (PStr ''checks'', PList [PStr ''correctness'', PStr ''performance''])]]\<rparr>"

definition demo_compiled :: "unit session" where
  "demo_compiled = snd (candidate_action demo ''compile'' demo_loaded)"

definition demo_checked :: "unit session" where
  "demo_checked = snd (candidate_action demo ''correctness'' demo_compiled)"

definition demo_timed :: "unit session" where
  "demo_timed = snd (candidate_action demo ''performance'' demo_checked)"

definition demo_timing :: executed_action where
  "demo_timing = projr (fst (candidate_action demo ''performance'' demo_checked))"

lemma demo_timing: "candidate_action demo ''performance'' demo_checked = (Inr demo_timing, demo_timed)"
proof -
  have "is_ok (fst (candidate_action demo ''performance'' demo_checked))" by code_simp
  then show ?thesis unfolding demo_timing_def demo_timed_def
    by (cases "candidate_action demo ''performance'' demo_checked";
        cases "fst (candidate_action demo ''performance'' demo_checked)") auto
qed

lemma demo_history: "\<exists>h. history demo demo_loaded h demo_checked"
proof -
  have "history demo demo_loaded ([] @ history_entry ''compile'' demo_loaded demo_compiled) demo_compiled"
    by (rule history.acted [OF history.beginning, where r = "fst (candidate_action demo ''compile'' demo_loaded)"])
       (simp add: demo_compiled_def)
  then have "history demo demo_loaded (([] @ history_entry ''compile'' demo_loaded demo_compiled)
      @ history_entry ''correctness'' demo_compiled demo_checked) demo_checked"
    by (rule history.acted [where r = "fst (candidate_action demo ''correctness'' demo_compiled)"])
       (simp add: demo_checked_def)
  then show ?thesis by blast
qed

section \<open>Properties\<close>

text \<open>
  C8.  A candidate is only timed after it was checked: whenever a performance action returns, in any
  history of a session since it was created or loaded, with any edits of the files in between, the
  session was accepted, this attempt's compile and after it its correctness action ran and passed
  for the same candidate sources, no compile came later, the sources are still the same, and the
  timing covers exactly the manifest.
\<close>

theorem timing_follows_checks:
  assumes "history st s0 h s" "ss_identity s0 = None"
    and "candidate_action st ''performance'' s = (Inr x, s')"
  shows "\<exists>i h1 h2 h3 c k m. h = h1 @ (''compile'', Some i, Some c) # h2 @ (''correctness'', Some i, Some k) # h3
    \<and> ''compile'' \<notin> fst ` set (h2 @ h3) \<and> passed (xa_result c) \<and> passed (xa_result k)
    \<and> ss_identity s' = Some i \<and> (\<exists>now. sources_now st s' = Inr now \<and> same_sources now i)
    \<and> ss_manifest s' = Some m \<and> validate m (xa_result x) = Inr () \<and> accepted_initially s"
  using assms by (rule timing_checks) blast

lemma timing_follows_checks_witness:
  "\<exists>m. ss_manifest demo_timed = Some m \<and> validate m (xa_result demo_timing) = Inr ()"
proof -
  obtain h where h: "history demo demo_loaded h demo_checked" using demo_history by blast
  have "ss_identity demo_loaded = None" by code_simp
  from timing_follows_checks [OF h this demo_timing] show ?thesis by blast
qed

text \<open>
  C9.  An accepted session survives: created, validated, and then used for any candidate actions with
  any edits in between, its files load again as long as the frozen baseline is intact and the
  harness check passes (and no more than 9999 actions were run), with the same manifest, task
  evidence, verdict and results of the validation, with every candidate result the session still
  holds, and without an attempt, so that the candidate must be compiled anew.
\<close>

theorem accepted_session_reloads:
  assumes "from_mapping config tid = Inr (st_spec st)" "to_mapping (st_spec st) = Inr d" "plain_value (PDict d)"
    and "create st state_exists w0 = (Inr s0, w1)" "ss_baseline_sources s0 \<noteq> []"
    and "validate_initial st s0 = (Inr report, s1)" "iv_accepted report"
    and "history st s1 h s" "ss_invocations s < 10 ^ 4"
    and "verify_baseline_sources (st_host st) (ss_baseline_sources s) w = Inr ()"
    and "h_harness (st_host st) (\<not> read_only) w = (Inr (), w')"
  shows "\<exists>t. load st read_only (ss_files s) w = (Inr t, w') \<and> ss_manifest t = ss_manifest s
    \<and> ss_task_evidence t = ss_task_evidence s \<and> ss_initial t = ss_initial s \<and> ss_identity t = None
    \<and> (\<forall>k. ss_results s k \<noteq> None \<or> fst k = ''task_validation'' \<longrightarrow> ss_results t k = ss_results s k)"
proof -
  from create_ok [OF assms(4)] obtain sources m where m: "to_mapping (st_spec st) = Inr m"
    and s0: "s0 = new_session sources
       [(''initial_sources.json'', SourcesFile sources), (''task_spec.json'', SpecFile m),
        (''session.json'', DescriptorFile 1 (ts_task_id (st_spec st)) (st_workspace st)),
        (''harness.json'', HarnessFile)] w1" (is "_ = new_session sources ?files w1") .
  have "replays s0" unfolding s0 by (rule fresh_replays) (simp add: action_record_def starts_with_def)
  from validate_initial_steps [OF assms(6, 7)] obtain numerical diagnostic checks u v fs where
      v: "validation_steps st s0 = ((numerical, diagnostic, checks), Inr u, v)"
      and report: "report = \<lparr>iv_accepted = True, iv_numerical_status = numerical, iv_diagnostic = diagnostic,
       iv_initial_state = cand_initial_state (ts_candidate (st_spec st)), iv_candidate_checks = checks, iv_errors = []\<rparr>"
      and s1: "s1 = v\<lparr>ss_initial := Some report, ss_files := ss_files v @ (''initial_validation.json'', ReportFile report) # fs\<rparr>"
        "''initial_validation.json'' \<notin> fst ` set (ss_files v)" "list_all (\<lambda>f. \<not> action_record f) fs" .
  from validation_steps_ok [OF v \<open>replays s0\<close> spec_choices [OF assms(1)]]
  obtain m0 es where V: "replays v" "ss_manifest v = Some m0" "ss_baseline_sources v = ss_baseline_sources s0"
      "ss_files v = ss_files s0 @ es" "verify_saved_initial_validation st v report = Inr ()"
    unfolding report by auto
  have "replays s1"
    by (rule replays_other [OF V(1), where fs = "(''initial_validation.json'', ReportFile report) # fs"])
       (use s1 in \<open>simp_all add: action_record_def [of "(''initial_validation.json'', _)"] starts_with_def\<close>)
  from history_replays [OF assms(8) this, of m0] have S: "replays s" "grows s1 s"
    using s1(1) V(2) by simp_all
  then obtain gs where gs: "ss_files s = ss_files s1 @ gs" "ss_baseline_sources s = sources"
      "ss_initial s = Some report" "ss_manifest s = ss_manifest v" "ss_task_evidence s = ss_task_evidence v"
    using s1(1) V(3) s0 by (auto simp: grows_def new_session_def)
  have verdict: "verify_saved_initial_validation st s report = Inr ()"
    using verify_saved_cong [of s v st report] history_keeps [OF assms(8)] gs(4, 5) s1(1) V(5) by simp
  have files: "ss_files s = ?files @ es @ (''initial_validation.json'', ReportFile report) # fs @ gs"
    using gs(1) s1(1) V(4) s0 by (simp add: new_session_def)
  have id: "saved_identity st (ss_files s) = Inr (ss_baseline_sources s)"
    using m assms(2, 3, 5) py_eq_refl [OF assms(3)]
    by (simp add: saved_identity_def files gs(2) s0 new_session_def del: py_eq.simps)
  have "saved_report (ss_files s) = Inr (Some report)"
    using map_of_fresh [OF s1(2), of "ReportFile report" "fs @ gs"] V(4) s0
    by (simp add: saved_report_def files new_session_def)
  from load_replays [OF S(1) assms(9) id this verdict assms(10, 11)] gs(3) show ?thesis by auto
qed

lemma accepted_session_reloads_witness:
  "\<exists>t. load demo True (ss_files demo_validated) () = (Inr t, ()) \<and> ss_manifest t = ss_manifest demo_validated"
proof -
  have spec: "from_mapping sample_config ''hip/op'' = Inr (st_spec demo)" by (simp add: demo_def sample_spec)
  have "is_ok (to_mapping (st_spec demo))" "plain_value (PDict (projr (to_mapping (st_spec demo))))" by code_simp+
  then obtain d where d: "to_mapping (st_spec demo) = Inr d" "plain_value (PDict d)"
    by (cases "to_mapping (st_spec demo)") (simp_all del: plain_value.simps)
  have src: "ss_baseline_sources demo_created \<noteq> []" by code_simp
  have "iv_accepted demo_report_of" "ss_invocations demo_validated < 10 ^ 4"
    by (simp_all add: demo_report_of_def demo_validated)
  moreover have "verify_baseline_sources (st_host demo) (ss_baseline_sources demo_validated) () = Inr ()"
    unfolding demo_validated by code_simp
  moreover have "h_harness (st_host demo) (\<not> True) () = (Inr (), ())" by (simp add: demo_def demo_host_def)
  ultimately show ?thesis
    using accepted_session_reloads [OF spec d demo_created src demo_validated(1) _ history.beginning, of "()" True "()"]
    by blast
qed

text \<open>
  C10.  A loaded session rests on its recorded evidence alone: each of its results is the merge of what
  the recorded outputs parse to, for the role and the action it is held under; and if it is
  accepted, the task's own check passed and reported the declared initial state, and the frozen
  baseline compiled, was correct up to the declared diagnostic exception, and was timed, each time
  on exactly the cases of the manifest.
\<close>

theorem loaded_session_supported:
  assumes "load st read_only files w = (Inr t, w')"
  shows "(\<forall>phase role act. case ss_results t (phase, role, act) of None \<Rightarrow> True | Some x \<Rightarrow> evidence_ok role act x)
    \<and> (if accepted_initially t then \<exists>m task. ss_manifest t = Some m \<and> ss_task_evidence t = Some task
        \<and> passed (xa_result task) \<and> verify_initial_state (st_spec st) task = Inr ()
        \<and> list_all (\<lambda>act. \<exists>x. ss_results t (''task_validation'', ''baseline'', act) = Some x
            \<and> validate m (xa_result x) = Inr ()
            \<and> (if act = ''correctness'' then baseline_correctness_accepted (xa_result x) (ts_baseline (st_spec st)) ''task_validation'' m = Inr True
               else passed (xa_result x))) check_actions
       else True)"
proof -
  from load_Inr [OF assms] obtain sources s v where
      s: "foldR replay_record (new_session sources files w') (sorted_records files) = Inr s"
      and t: "t = s\<lparr>ss_initial := v\<rparr>"
      and v: "case v of None \<Rightarrow> True | Some r \<Rightarrow> iv_accepted r \<longrightarrow> verify_saved_initial_validation st s r = Inr ()" .
  have "supported s"
    by (rule foldR_invariant [OF s, where P = supported])
       (simp add: supported_def new_session_def, rule replay_record_supported)
  moreover have "\<exists>m task. ss_manifest s = Some m \<and> ss_task_evidence s = Some task
        \<and> passed (xa_result task) \<and> verify_initial_state (st_spec st) task = Inr ()
        \<and> (\<forall>act \<in> set check_actions. saved_baseline_ok st s m act = Inr ())" if "accepted_initially t"
    using that v t by (auto simp: accepted_initially_def split: option.splits elim!: verify_saved_Inr)
  ultimately show ?thesis
    using saved_baseline_ok_Inr [of st s] by (fastforce simp: supported_def t list_all_iff split: option.splits)
qed

lemma loaded_session_supported_witness:
  "\<exists>t. load demo True (ss_files demo_created) () = (Inr t, ()) \<and> ss_results t (''task_validation'', ''task'', ''validate-task'') = None"
proof -
  have e: "is_ok (fst (load demo True (ss_files demo_created) ()))"
      "ss_results (projr (fst (load demo True (ss_files demo_created) ()))) (''task_validation'', ''task'', ''validate-task'') = None"
    by code_simp+
  then obtain t where t: "load demo True (ss_files demo_created) () = (Inr t, ())"
    by (cases "load demo True (ss_files demo_created) ()"; cases "fst (load demo True (ss_files demo_created) ())") auto
  with e(2) loaded_session_supported [OF t] show ?thesis by auto
qed

text \<open>
  Without a performance case the task's own check ends in an error that the initial validation catches.
\<close>

lemma validation_without_timing:
  fixes s0 s1 :: "'w session"
  assumes e: "execute st ''task'' ''validate-task'' ''task_validation'' s0 = (Inr x, s1)"
    and x: "passed (xa_result x)" "\<not> list_ex (has_check ''performance'') (ar_cases (xa_result x))"
    and s0: "ss_initial s0 = None" "fst ` set (ss_files s0) \<inter> {''initial_validation.json'', ''validation_context.json''} = {}"
  shows "\<exists>report s fs. validate_initial st s0 = (Inr report, s) \<and> \<not> iv_accepted report \<and> ss_initial s = Some report
    \<and> ss_files s = ss_files s0 @ [(record_name (Suc (ss_invocations s0)) ''task'' ''validate-task'',
          ActionFile (xa_invocation_id x) ''task_validation'' (result_to_mapping (xa_result x)) (xa_commands x)),
        (''initial_validation.json'', ReportFile report), (''validation_context.json'', fs)]"
proof -
  let ?written = "(record_name (Suc (ss_invocations s0)) ''task'' ''validate-task'',
          ActionFile (xa_invocation_id x) ''task_validation'' (result_to_mapping (xa_result x)) (xa_commands x))"
  have s1: "ss_files s1 = ss_files s0 @ [?written]" "ss_initial s1 = None"
  proof -
    from e have "ss_files s1 = ss_files s0 @ [?written] \<and> ss_initial s1 = None"
    proof (cases rule: execute_casesE)
      case (succeeded y w w0)
      with fun_cong [OF execute_Inr(2) [OF e], of "(''task_validation'', ''task'', ''validate-task'')"] have "y = x" by simp
      with succeeded(4) s0(1) show ?thesis by simp
    qed auto
    then show "ss_files s1 = ss_files s0 @ [?written]" "ss_initial s1 = None" by blast+
  qed
  define s2 where "s2 = s1\<lparr>ss_task_evidence := Some x\<rparr>"
  have m: "\<exists>msg. manifest_from_result (xa_result x) = Inl (Protocol msg)"
    using x(2) by (simp add: manifest_from_result_def)
  then have "\<exists>err. task_step st s0 = (Inl err, s2) \<and> caught_in_validation err"
    using e x(1) by (cases "verify_initial_state (st_spec st) x")
      (auto simp: task_step_def Let_def sbind_def s2_def map_error_def verify_initial_state_def guardR_def split: if_splits)
  then obtain err where t: "task_step st s0 = (Inl err, s2)" "caught_in_validation err" by blast
  define report where "report = \<lparr>iv_accepted = False, iv_numerical_status = ''NOT_RUN'', iv_diagnostic = False,
     iv_initial_state = cand_initial_state (ts_candidate (st_spec st)), iv_candidate_checks = ''NOT_RUN'', iv_errors = [error_text err]\<rparr>"
  have fresh: "''initial_validation.json'' \<notin> fst ` set (ss_files s2)" "''validation_context.json'' \<notin> fst ` set (ss_files s2)"
    using s0(2) by (auto simp: s2_def s1(1) record_name_def)
  have "validate_initial st s0 = (Inr report, s2\<lparr>ss_initial := Some report,
      ss_files := ss_files s2 @ [(''initial_validation.json'', ReportFile report),
        (''validation_context.json'', ValidationContextFile report (filter (\<lambda>f. phase_of f = ''task_validation'')
           (map snd (sorted_records (ss_files s2 @ [(''initial_validation.json'', ReportFile report)])))))]\<rparr>)"
    using s0(1) t fresh
    by (simp add: validate_initial_def validation_steps_def Let_def sbind_simps write_json_def validation_context_def
        report_def [symmetric])
  then show ?thesis
    by (intro exI conjI) (assumption, simp_all add: report_def s2_def s1(1))
qed

definition no_timing :: "unit session_setup" where
  "no_timing = demo\<lparr>st_host := demo_host ''\"correctness\"''\<rparr>"

text \<open>
  C11.  A task whose own check passes but names no performance case leaves a session that can never be opened
  again: the initial validation completes and saves its verdict (not accepted), but loading the
  files, in a world where an accepted session would load, raises the error of the missing cases instead of
  returning the session with that verdict.
\<close>

theorem rejected_task_cannot_reload:
  assumes "to_mapping (st_spec st) = Inr d" "plain_value (PDict d)"
    and "create st state_exists w0 = (Inr s0, w1)" "ss_baseline_sources s0 \<noteq> []"
    and "execute st ''task'' ''validate-task'' ''task_validation'' s0 = (Inr x, s1)" "passed (xa_result x)"
    and "\<not> list_ex (has_check ''performance'') (ar_cases (xa_result x))"
    and "verify_baseline_sources (st_host st) (ss_baseline_sources s0) w = Inr ()"
    and "h_harness (st_host st) (\<not> read_only) w = (Inr (), w')"
  shows "\<exists>report s. validate_initial st s0 = (Inr report, s) \<and> \<not> iv_accepted report \<and> ss_initial s = Some report
    \<and> saved_report (ss_files s) = Inr (Some report)
    \<and> load st read_only (ss_files s) w = (Inl (Report (Protocol ''Task manifest has no performance cases'')), w')"
proof -
  from create_ok [OF assms(3)] obtain sources m where m: "to_mapping (st_spec st) = Inr m"
    and s0: "s0 = new_session sources
       [(''initial_sources.json'', SourcesFile sources), (''task_spec.json'', SpecFile m),
        (''session.json'', DescriptorFile 1 (ts_task_id (st_spec st)) (st_workspace st)),
        (''harness.json'', HarnessFile)] w1" (is "_ = new_session sources ?files w1") .
  have fields: "ss_initial s0 = None" "ss_files s0 = ?files" "ss_invocations s0 = 0" "ss_baseline_sources s0 = sources"
    by (simp_all add: s0 new_session_def)
  let ?written = "(record_name 1 ''task'' ''validate-task'',
          ActionFile (xa_invocation_id x) ''task_validation'' (result_to_mapping (xa_result x)) (xa_commands x))"
  have "fst ` set (ss_files s0) \<inter> {''initial_validation.json'', ''validation_context.json''} = {}"
    by (simp add: fields(2))
  from validation_without_timing [OF assms(5-7) fields(1) this] obtain report s fs where
      v: "validate_initial st s0 = (Inr report, s)" "\<not> iv_accepted report" "ss_initial s = Some report"
      and files: "ss_files s = ?files @ [?written, (''initial_validation.json'', ReportFile report), (''validation_context.json'', fs)]"
    by (auto simp: fields(2, 3))
  have id: "saved_identity st (ss_files s) = Inr sources"
    using m assms(1, 2, 4) py_eq_refl [OF assms(2)]
    by (simp add: saved_identity_def files fields(4) record_name_def del: py_eq.simps)
  have report: "saved_report (ss_files s) = Inr (Some report)"
    by (simp add: saved_report_def files record_name_def)
  have "filter action_record (ss_files s) = [?written]"
    using record_name_record [of 1 "''task''" "''validate-task''"]
    by (simp add: files) (simp add: action_record_def starts_with_def)
  then have sorted: "sorted_records (ss_files s) = [?written]" by (simp add: sorted_records_def)
  note ok = execute_Inr(1) [OF assms(5)]
  have "manifest_from_result (xa_result x) = Inl (Protocol ''Task manifest has no performance cases'')"
    using assms(6, 7) evidence_fields(1, 2) [OF ok] by (simp add: manifest_from_result_def passed_def)
  then have "replay_record (new_session sources (ss_files s) w') ?written
      = Inl (Report (Protocol ''Task manifest has no performance cases''))"
    using assms(6) record_number_name [of 1 "''task''" "''validate-task''"]
    by (simp add: replay_record_def replay_action_file [OF ok] replay_result_def TASK_KEY_def Let_def map_error_def)
  then have replay: "foldR replay_record (new_session sources (ss_files s) w') (sorted_records (ss_files s))
      = Inl (Report (Protocol ''Task manifest has no performance cases''))"
    by (simp add: sorted)
  have b: "baseline_unchanged st (new_session sources (ss_files s) w) = Inr ()"
    using assms(8) by (simp add: baseline_unchanged_def new_session_def fields(4))
  have h: "verify_harness st (\<not> read_only) (new_session sources (ss_files s) w) = (Inr (), new_session sources (ss_files s) w')"
    using assms(9) by (simp add: verify_harness_def new_session_def)
  have "load st read_only (ss_files s) w = (Inl (Report (Protocol ''Task manifest has no performance cases'')), w')"
    unfolding load_def id sbind_simps Let_def b h prod.case replay by (simp add: new_session_def)
  with v report show ?thesis by blast
qed

lemma rejected_task_cannot_reload_witness:
  "\<exists>s. validate_initial no_timing demo_created = (Inr \<lparr>iv_accepted = False, iv_numerical_status = ''NOT_RUN'',
       iv_diagnostic = False, iv_initial_state = ''implemented'', iv_candidate_checks = ''NOT_RUN'',
       iv_errors = [''Task manifest has no performance cases'']\<rparr>, s)
     \<and> load no_timing True (ss_files s) () = (Inl (Report (Protocol ''Task manifest has no performance cases'')), ())"
proof -
  have "is_ok (to_mapping (st_spec no_timing))" "plain_value (PDict (projr (to_mapping (st_spec no_timing))))" by code_simp+
  then obtain d where d: "to_mapping (st_spec no_timing) = Inr d" "plain_value (PDict d)"
    by (cases "to_mapping (st_spec no_timing)") (simp_all del: plain_value.simps)
  have c: "create no_timing False () = (Inr demo_created, ())"
  proof -
    have "h_snapshot (st_host no_timing) = h_snapshot (st_host demo)" "st_spec no_timing = st_spec demo"
      "st_workspace no_timing = st_workspace demo" "st_state_directory no_timing = st_state_directory demo"
      by (simp_all add: no_timing_def demo_def demo_host_def)
    then have "create no_timing False () = create demo False ()" by (simp only: create_def)
    with demo_created show ?thesis by simp
  qed
  have src: "ss_baseline_sources demo_created \<noteq> []" by code_simp
  have "case execute no_timing ''task'' ''validate-task'' ''task_validation'' demo_created of
      (Inr x, _) \<Rightarrow> passed (xa_result x) \<and> \<not> list_ex (has_check ''performance'') (ar_cases (xa_result x)) | _ \<Rightarrow> False"
    by code_simp
  then obtain x s1 where x: "execute no_timing ''task'' ''validate-task'' ''task_validation'' demo_created = (Inr x, s1)"
      "passed (xa_result x)" "\<not> list_ex (has_check ''performance'') (ar_cases (xa_result x))"
    by (auto split: prod.splits sum.splits)
  have w: "verify_baseline_sources (st_host no_timing) (ss_baseline_sources demo_created) () = Inr ()" by code_simp
  have h: "h_harness (st_host no_timing) (\<not> True) () = (Inr (), ())" by (simp add: no_timing_def demo_host_def)
  have "fst (validate_initial no_timing demo_created) = Inr \<lparr>iv_accepted = False, iv_numerical_status = ''NOT_RUN'',
       iv_diagnostic = False, iv_initial_state = ''implemented'', iv_candidate_checks = ''NOT_RUN'',
       iv_errors = [''Task manifest has no performance cases'']\<rparr>"
    by code_simp
  with rejected_task_cannot_reload [OF d c src x w h] show ?thesis by auto
qed

end
