(* ===== verification/Evaluator.thy ===== *)
theory Evaluator
  imports TaskSession EvalManager CaseMatching Score
begin

text \<open>
  \<open>src/evaluator.py\<close> as a task session uses it, with \<open>src/task_runtime.py\<close>: the gated pipeline of
  \<open>evaluate_kernel\<close> (compile, correctness, evaluation tools, performance), its speedup, the framework
  around it in \<open>evaluate_task_session\<close>, and the result file \<open>write_task_result\<close> stores and
  \<open>task_result_scoring\<close> scores.

  The state is the session with the runtime identity its state directory holds and the documents
  written to the workspace, newest first.  A document is the value that is dumped; YAML reads back
  what \<open>safe_dump\<close> wrote.  What reads the host (the runtime identity, the submission evidence, the
  default plugins and runtime of the tools, the effect of a file written to the workspace) is an
  argument.  Log messages and plots are left out; they change no value.
\<close>

section \<open>Results\<close>

datatype speedup_error =
    PerformanceFailed string
  | WorkloadsDiffer "workload_mismatch list"
  | MethodsDiffer "method_mismatch list"
  | InvalidTimings nat nat nat nat
  | CasesDoNotMatch
  | NoValidBaseline
  | NoBaseline

text \<open>
  The dictionary \<open>results\<close> of \<open>evaluate_kernel\<close>.  A key that is absent has here the value
  \<open>write_task_result\<close> reads for it.
\<close>

record kernel_result =
  kr_pass_compilation :: bool
  kr_pass_correctness :: bool
  kr_optimized_time :: pyfloat
  kr_speedup :: pyfloat
  kr_valid_baseline :: nat
  kr_valid_optimized :: nat
  kr_compilation_error :: pyval
  kr_correctness_error :: pyval
  kr_speedup_error :: "speedup_error option"
  kr_method_consistent :: bool
  kr_method_mismatches :: "method_mismatch list"
  kr_workload_consistent :: bool
  kr_workload_mismatches :: "workload_mismatch list"
  kr_pass_tool_gate :: bool
  kr_policy_satisfied :: bool
  kr_tools :: "evaluation_report option"
  kr_methods :: "string list"

definition kernel_start :: kernel_result where
  "kernel_start =
     \<lparr>kr_pass_compilation = False, kr_pass_correctness = False, kr_optimized_time = Fin 0, kr_speedup = Fin 0,
      kr_valid_baseline = 0, kr_valid_optimized = 0, kr_compilation_error = PNone, kr_correctness_error = PNone,
      kr_speedup_error = None, kr_method_consistent = False, kr_method_mismatches = [],
      kr_workload_consistent = False, kr_workload_mismatches = [], kr_pass_tool_gate = True,
      kr_policy_satisfied = True, kr_tools = None, kr_methods = []\<rparr>"

section \<open>Errors\<close>

datatype eval_error = InSession session_error | InTools py_exc | InConfig config_error | InManager manager_error | Fatal string

text \<open>\<open>except (ValueError, RuntimeError, OSError)\<close>.\<close>

fun caught_from_manager :: "manager_error \<Rightarrow> bool" where
  "caught_from_manager (PlanError e) = (e = ValueErr)"
| "caught_from_manager (MkdirError _) = True"
| "caught_from_manager (ExitError _) = False"

fun caught :: "eval_error \<Rightarrow> bool" where
  "caught (InSession (OsErr _)) = True"
| "caught (InSession e) = caught_in_validation e"
| "caught (InTools e) = (e = ValueErr)"
| "caught (InManager e) = caught_from_manager e"
| "caught _ = True"

fun exception_text :: "eval_error \<Rightarrow> string" where
  "exception_text (InSession e) = error_text e"
| "exception_text (InConfig e) = error_text (Config e)"
| "exception_text (InTools _) = ''error in the evaluation tools''"
| "exception_text (InManager (PlanError _)) = ''error in the evaluation tools''"
| "exception_text (InManager (MkdirError m)) = m"
| "exception_text (InManager (ExitError m)) = m"
| "exception_text (Fatal m) = m"

fun exception_name :: "eval_error \<Rightarrow> string" where
  "exception_name (InSession (Execution _ _)) = ''TaskExecutionError''"
| "exception_name (InSession (Config _)) = ''TaskConfigError''"
| "exception_name (InSession (Report (Protocol _))) = ''TaskProtocolError''"
| "exception_name (InSession (Report (Escapes _))) = ''ValueError''"
| "exception_name (InSession (OsErr _)) = ''OSError''"
| "exception_name (InConfig _) = ''TaskConfigError''"
| "exception_name (InTools _) = ''ValueError''"
| "exception_name (InManager (PlanError _)) = ''ValueError''"
| "exception_name (InManager (MkdirError _)) = ''OSError''"
| "exception_name (InManager (ExitError _)) = ''SystemExit''"
| "exception_name (Fatal _) = ''RuntimeError''"

definition exception_line :: "eval_error \<Rightarrow> string" where
  "exception_line e = exception_name e @ '': '' @ exception_text e"

section \<open>The state and the host\<close>

record 'w evaluator =
  ev_setup :: "'w session_setup"
  ev_runtime :: "'w \<Rightarrow> (eval_error, pydict) result"
  ev_submission :: "'w \<Rightarrow> (eval_error, source_evidence) result \<times> 'w"
  ev_tools :: "'w evaluation_input"
  ev_files :: file_view
  ev_environ :: "string \<Rightarrow> string option"
  ev_save :: "string \<Rightarrow> pyval \<Rightarrow> 'w \<Rightarrow> 'w"

record 'w evaluation_state =
  vs_session :: "'w session"
  vs_runtime :: "pydict option"
  vs_documents :: "(string \<times> pyval) list"

definition on_session ::
    "('w session \<Rightarrow> ('e, 'a) result \<times> 'w session) \<Rightarrow> 'w evaluation_state \<Rightarrow> ('e, 'a) result \<times> 'w evaluation_state" where
  "on_session f t = (let (r, s) = f (vs_session t) in (r, t\<lparr>vs_session := s\<rparr>))"

definition on_world :: "('w \<Rightarrow> 'a \<times> 'w) \<Rightarrow> 'w session \<Rightarrow> 'a \<times> 'w session" where
  "on_world f s = (let (r, w) = f (ss_world s) in (r, s\<lparr>ss_world := w\<rparr>))"

definition save_document :: "'w evaluator \<Rightarrow> string \<Rightarrow> pyval \<Rightarrow> 'w evaluation_state \<Rightarrow> 'w evaluation_state" where
  "save_document ev name v t =
     t\<lparr>vs_documents := (name, v) # vs_documents t,
       vs_session := (vs_session t)\<lparr>ss_world := ev_save ev name v (ss_world (vs_session t))\<rparr>\<rparr>"

section \<open>The speedup of measured cases\<close>

definition valid_case :: "test_case \<Rightarrow> bool" where
  "valid_case c = (finite_time (execution_time_ms c) \<and> positive_time (execution_time_ms c))"

definition valid_perf_cases :: "test_case list \<Rightarrow> test_case list" where
  "valid_perf_cases cases = filter valid_case cases"

text \<open>The comparison of optimized cases with at least one valid time, averaged before.\<close>

definition compare_times ::
    "test_case list \<Rightarrow> test_case list \<Rightarrow> kernel_result \<Rightarrow> (py_exc, kernel_result) result" where
  "compare_times baseline cases kr =
     (let vb = valid_perf_cases baseline; vo = valid_perf_cases cases in
      if vb = [] then
        Inr (kr\<lparr>kr_speedup_error := Some (if baseline \<noteq> [] then NoValidBaseline else NoBaseline)\<rparr>)
      else rbind (average_time (map execution_time_ms vb)) (\<lambda>_.
      if \<not> kr_workload_consistent kr then
        Inr (kr\<lparr>kr_speedup_error := Some (WorkloadsDiffer (kr_workload_mismatches kr))\<rparr>)
      else if kr_method_mismatches kr \<noteq> [] then
        Inr (kr\<lparr>kr_speedup_error := Some (MethodsDiffer (kr_method_mismatches kr))\<rparr>)
      else if length vb \<noteq> length baseline \<or> length vo \<noteq> length cases then
        Inr (kr\<lparr>kr_speedup_error := Some (InvalidTimings (length vb) (length baseline) (length vo) (length cases))\<rparr>)
      else rbind (calculate_average_speedup vb vo True) (\<lambda>v.
        Inr (if flt (Fin 0) v then kr\<lparr>kr_speedup := v\<rparr>
             else kr\<lparr>kr_speedup_error := Some CasesDoNotMatch\<rparr>))))"

text \<open>What \<open>evaluate_kernel\<close> records of nonempty optimized cases.\<close>

definition timing_result ::
    "test_case list \<Rightarrow> test_case list \<Rightarrow> kernel_result \<Rightarrow> (py_exc, kernel_result) result" where
  "timing_result baseline cases kr =
     (let vo = valid_perf_cases cases; vb = valid_perf_cases baseline in
      rbind (analyze_benchmark_method_consistency vb vo True) (\<lambda>(method_ok, methods).
      rbind (analyze_workload_consistency vb vo) (\<lambda>(workload_ok, workloads).
      let kr = kr\<lparr>kr_methods := collect_benchmark_methods py_str cases,
                  kr_valid_optimized := length vo, kr_valid_baseline := length vb,
                  kr_method_consistent := method_ok, kr_method_mismatches := methods,
                  kr_workload_consistent := workload_ok, kr_workload_mismatches := workloads\<rparr> in
      if vo = [] then Inr (kr\<lparr>kr_optimized_time := Fin 0\<rparr>)
      else rbind (average_time (map execution_time_ms vo)) (\<lambda>t.
           compare_times baseline cases (kr\<lparr>kr_optimized_time := t\<rparr>)))))"

section \<open>The pipeline\<close>

definition session_check ::
    "'w session_setup \<Rightarrow> string \<Rightarrow> 'w session \<Rightarrow> (eval_error, bool \<times> pyval) result \<times> 'w session" where
  "session_check st act s =
     (case candidate_action st act s of
        (Inr x, s) \<Rightarrow> (Inr (passed (xa_result x), ar_reason (xa_result x)), s)
      | (Inl e, s) \<Rightarrow>
          (if caught (InSession e) then Inr (False, PStr (error_text e)) else Inl (InSession e), s))"

text \<open>
  \<open>tool_manager.evaluate\<close> with what \<open>evaluate_task_session\<close> passes on: the candidate workspace, the
  task configuration, the measured architecture and the submission evidence.
\<close>

definition run_manager ::
    "'w evaluator \<Rightarrow> pydict \<Rightarrow> pydict \<Rightarrow> source_evidence \<Rightarrow> eval_tools_config \<Rightarrow> 'w session
      \<Rightarrow> (eval_error, evaluation_report) result \<times> 'w session" where
  "run_manager ev config identity_of evidence tools s =
     (let inp = (ev_tools ev)\<lparr>in_workspace := st_workspace (ev_setup ev), in_task_config := config,
                              in_gpu_arch := dget identity_of ''gpu_arch''\<rparr>;
          (r, w) = evaluate_run (ev_environ ev) (ev_files ev) inp tools evidence None PNone PNone (ss_world s)
      in (map_error InManager r, s\<lparr>ss_world := w\<rparr>))"

text \<open>
  The third step.  \<open>manager\<close> runs the tools, if \<open>evaluate_kernel\<close> was given one.
\<close>

type_synonym 'w manager = "eval_tools_config \<Rightarrow> 'w session \<Rightarrow> (eval_error, evaluation_report) result \<times> 'w session"

definition tool_gate ::
    "'w manager option \<Rightarrow> eval_tools_config \<Rightarrow> pydict \<Rightarrow> kernel_result \<Rightarrow> 'w session
      \<Rightarrow> (eval_error, kernel_result) result \<times> 'w session" where
  "tool_gate manager tools config kr s =
     sbind (map_error InTools (merge_task_tool_config tools config), s) (\<lambda>tools s.
     if ec_tools tools = [] then (Inr kr, s)
     else case manager of None \<Rightarrow> (Inl (InTools ValueErr), s)
     | Some run \<Rightarrow>
     sbind (run tools s) (\<lambda>report s.
     (Inr (kr\<lparr>kr_tools := Some report, kr_pass_tool_gate := pd_allowed (rp_decision report),
              kr_policy_satisfied := pd_policy_satisfied (rp_decision report)\<rparr>), s)))"

text \<open>The measured cases, or the text of a caught error.\<close>

definition candidate_performance ::
    "'w session_setup \<Rightarrow> 'w session \<Rightarrow> (eval_error, (string, test_case list) result) result \<times> 'w session" where
  "candidate_performance st s =
     (case candidate_action st ''performance'' s of
        (Inl e, s) \<Rightarrow> (if caught (InSession e) then Inr (Inl (error_text e)) else Inl (InSession e), s)
      | (Inr x, s) \<Rightarrow>
          (if \<not> passed (xa_result x)
           then Inr (Inl (reason_or ''Candidate performance failed'' (ar_reason (xa_result x))))
           else case performance_cases (xa_result x) of
                  Inr cases \<Rightarrow> Inr (Inr cases)
                | Inl e \<Rightarrow> if caught (InSession (Report e)) then Inr (Inl (error_text (Report e)))
                           else Inl (InSession (Report e)), s))"

definition measure_candidate ::
    "'w evaluator \<Rightarrow> test_case list \<Rightarrow> kernel_result \<Rightarrow> 'w evaluation_state
      \<Rightarrow> (eval_error, kernel_result) result \<times> 'w evaluation_state" where
  "measure_candidate ev baseline kr t =
     sbind (on_session (candidate_performance (ev_setup ev)) t) (\<lambda>measured t.
     case measured of
       Inl m \<Rightarrow> (Inr (kr\<lparr>kr_speedup_error := Some (PerformanceFailed m)\<rparr>), t)
     | Inr cases \<Rightarrow>
         if cases = [] then (Inr kr, t)
         else (map_error InTools (timing_result baseline cases kr),
               save_document ev ''optimized_perf.yaml'' (save_performance_results cases) t))"

definition evaluate_kernel ::
    "'w evaluator \<Rightarrow> 'w manager option \<Rightarrow> eval_tools_config \<Rightarrow> pydict \<Rightarrow> test_case list
      \<Rightarrow> 'w evaluation_state \<Rightarrow> (eval_error, kernel_result) result \<times> 'w evaluation_state" where
  "evaluate_kernel ev manager tools config baseline t =
     sbind (on_session (session_check (ev_setup ev) ''compile'') t) (\<lambda>(ok, reason) t.
     let kr = kernel_start\<lparr>kr_pass_compilation := ok, kr_compilation_error := reason\<rparr> in
     if \<not> ok then (Inr kr, t) else
     sbind (on_session (session_check (ev_setup ev) ''correctness'') t) (\<lambda>(ok, reason) t.
     let kr = kr\<lparr>kr_pass_correctness := ok, kr_correctness_error := reason\<rparr> in
     if \<not> ok then (Inr kr, t) else
     sbind (on_session (tool_gate manager tools config kr) t) (\<lambda>kr t.
     if \<not> kr_pass_tool_gate kr then (Inr kr, t) else
     measure_candidate ev baseline kr t)))"

section \<open>The result file\<close>

definition method_mismatch_dict :: "method_mismatch \<Rightarrow> pyval" where
  "method_mismatch_dict m = PDict
     ([(PStr ''test_case_id'', mm_case m), (PStr ''optimized_test_case_id'', mm_optimized_case m),
       (PStr ''baseline_benchmark_method'', mm_baseline m), (PStr ''optimized_benchmark_method'', mm_optimized m)]
      @ (case mm_reason m of None \<Rightarrow> [] | Some r \<Rightarrow> [(PStr ''reason'', PStr r)]))"

definition workload_mismatch_dict :: "workload_mismatch \<Rightarrow> pyval" where
  "workload_mismatch_dict m = PDict
     [(PStr ''test_case_id'', wm_case m), (PStr ''optimized_test_case_id'', wm_optimized_case m),
      (PStr ''reason'', PStr ''workload_changed''), (PStr ''fields'', strings (wm_fields m)),
      (PStr ''baseline_workload'', PDict (wm_baseline m)), (PStr ''optimized_workload'', PDict (wm_optimized m))]"

definition method_mismatch_part :: "method_mismatch \<Rightarrow> string" where
  "method_mismatch_part m =
     py_str (mm_case m) @ '': '' @
     (if mm_reason m = Some ''ambiguous_mixed_aggregate'' then ''ambiguous aggregate '' @ py_repr (mm_baseline m)
      else if mm_reason m = Some ''missing_or_unknown_benchmark_method'' then
        ''missing or unknown method (baseline='' @ py_repr (mm_baseline m)
        @ '', optimized='' @ py_repr (mm_optimized m) @ '')''
      else py_repr (mm_baseline m) @ '' != '' @ py_repr (mm_optimized m))"

definition count_text :: "nat \<Rightarrow> nat \<Rightarrow> string" where
  "count_text k n = nat_digits k @ ''/'' @ nat_digits n"

fun speedup_error_text :: "speedup_error \<Rightarrow> string" where
  "speedup_error_text (PerformanceFailed m) = m"
| "speedup_error_text (WorkloadsDiffer ms) =
     ''Cannot calculate speedup because baseline and optimized workloads differ or cases do not match completely: ''
     @ py_repr (PList (map workload_mismatch_dict ms))"
| "speedup_error_text (MethodsDiffer ms) =
     ''Cannot calculate speedup because matched test cases used different benchmark methods: ''
     @ join_by ''; '' (map method_mismatch_part ms)"
| "speedup_error_text (InvalidTimings vb b vo n) =
     ''Cannot calculate speedup because performance results contain invalid test case timings: baseline_valid=''
     @ count_text vb b @ '', optimized_valid='' @ count_text vo n"
| "speedup_error_text CasesDoNotMatch =
     ''Cannot calculate speedup because baseline and optimized test cases did not match completely''"
| "speedup_error_text NoValidBaseline =
     ''Baseline data exists but has no valid performance samples (execution_time_ms <= 0 or invalid). Cannot calculate speedup.''"
| "speedup_error_text NoBaseline = ''Baseline not available, cannot calculate speedup''"

definition opt_value :: "('a \<Rightarrow> pyval) \<Rightarrow> 'a option \<Rightarrow> pyval" where
  "opt_value f x = (case x of None \<Rightarrow> PNone | Some y \<Rightarrow> f y)"

definition initial_dict :: "initial_validation \<Rightarrow> pyval" where
  "initial_dict v = PDict
     [(PStr ''accepted'', PBool (iv_accepted v)), (PStr ''baseline_numerical_status'', PStr (iv_numerical_status v)),
      (PStr ''baseline_diagnostic'', PBool (iv_diagnostic v)),
      (PStr ''candidate_initial_state'', PStr (iv_initial_state v)),
      (PStr ''candidate_checks'', PStr (iv_candidate_checks v)), (PStr ''errors'', strings (iv_errors v))]"

text \<open>The result of a session's evaluation: the kernel's result with the fields the framework adds.\<close>

record session_result =
  sr_kernel :: kernel_result
  sr_runtime :: "pydict option"
  sr_initial :: "initial_validation option"
  sr_framework_error :: "string option"
  sr_sources :: "sources option"
  sr_source_error :: "string option"
  sr_baseline_correctness :: "pydict option"
  sr_agent_execution :: "pyval option"

text \<open>
  \<open>speedup_ratio\<close>: the average of the per-case speedups, or else, when there is none, no error and a
  consistent comparison, the quotient of the average times.
\<close>

definition reported_speedup :: "pyfloat \<Rightarrow> kernel_result \<Rightarrow> (py_exc, pyfloat) result" where
  "reported_speedup base_time kr =
     (let v = (if kr_workload_consistent kr then kr_speedup kr else Fin 0);
          explained = (case kr_speedup_error kr of None \<Rightarrow> False | Some e \<Rightarrow> speedup_error_text e \<noteq> [])
      in if feq v (Fin 0) \<and> \<not> explained \<and> kr_method_consistent kr \<and> kr_workload_consistent kr
            \<and> flt (Fin 0) base_time \<and> flt (Fin 0) (kr_optimized_time kr)
         then fdiv base_time (kr_optimized_time kr) else Inr v)"

definition baseline_time :: "test_case list \<Rightarrow> (py_exc, pyfloat) result" where
  "baseline_time baseline =
     (let vb = valid_perf_cases baseline in if vb = [] then Inr (Fin 0) else average_time (map execution_time_ms vb))"

definition sources_dict :: "sources \<Rightarrow> pyval" where
  "sources_dict xs = PDict (map (\<lambda>(p, d). (PStr p, PStr d)) xs)"

text \<open>The fields that are there only under a condition.\<close>

definition optional_fields_of :: "session_result \<Rightarrow> pydict" where
  "optional_fields_of r =
     (case kr_tools (sr_kernel r) of None \<Rightarrow> [] | Some report \<Rightarrow> [(PStr ''tool_evaluation'', report_to_dict False report)])
     @ [(PStr ''task_schema_version'', PInt 2), (PStr ''runtime_identity'', opt_value PDict (sr_runtime r)),
        (PStr ''initial_task_validation'', opt_value initial_dict (sr_initial r))]
     @ (case sr_baseline_correctness r of None \<Rightarrow> [] | Some d \<Rightarrow> [(PStr ''baseline_correctness'', PDict d)])
     @ (case sr_agent_execution r of None \<Rightarrow> [] | Some v \<Rightarrow> [(PStr ''agent_execution'', v)])
     @ (case sr_framework_error r of None \<Rightarrow> [] | Some m \<Rightarrow> [(PStr ''framework_error'', PStr m)])
     @ [(PStr ''evaluated_candidate_sources'', opt_value sources_dict (sr_sources r))]
     @ (case sr_source_error r of None \<Rightarrow> [] | Some m \<Rightarrow> [(PStr ''candidate_source_error'', PStr m)])"

text \<open>The document \<open>write_task_result\<close> dumps.\<close>

definition task_result ::
    "string \<Rightarrow> string \<Rightarrow> test_case list \<Rightarrow> session_result \<Rightarrow> (py_exc, pydict) result" where
  "task_result task_name agent_name baseline r =
     (let kr = sr_kernel r in
      rbind (baseline_time baseline) (\<lambda>base_time.
      rbind (reported_speedup base_time kr) (\<lambda>speedup.
      Inr ([(PStr ''task_name'', PStr task_name),
            (PStr ''pass_compilation'', PBool (kr_pass_compilation kr)),
            (PStr ''compilation_error_message'', kr_compilation_error kr),
            (PStr ''pass_correctness'', PBool (kr_pass_correctness kr)),
            (PStr ''correctness_error_message'', kr_correctness_error kr),
            (PStr ''pass_tool_gate'', PBool (kr_pass_tool_gate kr)),
            (PStr ''tool_policy_satisfied'', PBool (kr_policy_satisfied kr)),
            (PStr ''base_execution_time'', PFloat base_time),
            (PStr ''best_optimized_execution_time'', PFloat (kr_optimized_time kr)),
            (PStr ''speedup_ratio'', PFloat speedup),
            (PStr ''baseline_benchmark_methods'', strings (collect_benchmark_methods py_str baseline)),
            (PStr ''optimized_benchmark_methods'', strings (kr_methods kr)),
            (PStr ''benchmark_method_consistent'', PBool (kr_method_consistent kr)),
            (PStr ''benchmark_method_mismatches'', PList (map method_mismatch_dict (kr_method_mismatches kr))),
            (PStr ''workload_consistent'', PBool (kr_workload_consistent kr)),
            (PStr ''workload_mismatches'', PList (map workload_mismatch_dict (kr_workload_mismatches kr))),
            (PStr ''valid_baseline_cases'', PInt (int (length (valid_perf_cases baseline)))),
            (PStr ''valid_optimized_cases'', PInt (int (kr_valid_optimized kr))),
            (PStr ''speedup_calculation_error_message'', opt_value (PStr \<circ> speedup_error_text) (kr_speedup_error kr)),
            (PStr ''optimization_summary'', PStr (''Optimized by '' @ agent_name @ '' using centralized evaluator''))]
           @ optional_fields_of r))))"

section \<open>The evaluation of a session\<close>

definition tuple_repr :: "string list \<Rightarrow> string" where
  "tuple_repr xs = ''('' @ join_by '', '' (map str_repr xs) @ (if length xs = 1 then '','' else []) @ '')''"

text \<open>\<open>bind_session_runtime\<close>.\<close>

definition bind_session_runtime ::
    "'w evaluator \<Rightarrow> pydict \<Rightarrow> 'w evaluation_state \<Rightarrow> (eval_error, pydict) result \<times> 'w evaluation_state" where
  "bind_session_runtime ev config t =
     sbind (ev_runtime ev (ss_world (vs_session t)), t) (\<lambda>rt t.
     sbind (map_error InConfig (required_gpu_arches
              (case dget config ''platform_support'' of PDict p \<Rightarrow> Some p | _ \<Rightarrow> None)), t) (\<lambda>required t.
     if required \<noteq> [] \<and> dget rt ''gpu_arch'' \<notin> PStr ` set required
     then (Inl (Fatal (''Task requires '' @ tuple_repr required @ ''; actual GPU is '' @ py_str (dget rt ''gpu_arch''))), t)
     else case vs_runtime t of
       Some saved \<Rightarrow>
         (if py_eq (PDict saved) (PDict rt) then Inr rt
          else Inl (Fatal ''Scoring runtime changed since baseline capture; start a separate run''), t)
     | None \<Rightarrow> (Inr rt, t\<lparr>vs_runtime := Some rt\<rparr>)))"

definition sources_intact :: "'w session_setup \<Rightarrow> 'w session \<Rightarrow> (eval_error, unit) result \<times> 'w session" where
  "sources_intact st s =
     (case sbind (verify_harness st True s) (\<lambda>_ s. (baseline_unchanged st s, s)) of
        (r, s) \<Rightarrow> (map_error InSession r, s))"

definition not_accepted :: "initial_validation option \<Rightarrow> eval_error" where
  "not_accepted v = Fatal (''Initial task validation failed: ''
     @ (case v of None \<Rightarrow> ''not performed'' | Some r \<Rightarrow> join_by ''; '' (iv_errors r)))"

definition default_manager ::
    "'w evaluator \<Rightarrow> pydict \<Rightarrow> pydict \<Rightarrow> eval_tools_config \<Rightarrow> 'w session
      \<Rightarrow> (eval_error, 'w manager option) result \<times> 'w session" where
  "default_manager ev config rt tools s =
     (if ec_tools tools = [] then (Inr None, s)
      else sbind (on_world (ev_submission ev) s) (\<lambda>evidence s. (Inr (Some (run_manager ev config rt evidence)), s)))"

text \<open>The checks before the kernel is evaluated.\<close>

definition prepare_evaluation ::
    "'w evaluator \<Rightarrow> pydict \<Rightarrow> pydict \<Rightarrow> eval_tools_config \<Rightarrow> 'w session
      \<Rightarrow> (eval_error, 'w manager option) result \<times> 'w session" where
  "prepare_evaluation ev config rt tools s =
     sbind (if accepted_initially s then Inr () else Inl (not_accepted (ss_initial s)), s) (\<lambda>_ s.
     sbind (sources_intact (ev_setup ev) s) (\<lambda>_ s.
     default_manager ev config rt tools s))"

definition fallback_result :: "eval_tools_config \<Rightarrow> kernel_result" where
  "fallback_result tools =
     kernel_start\<lparr>kr_workload_consistent := True, kr_pass_tool_gate := (ec_tools tools = []),
                  kr_policy_satisfied := (ec_tools tools = [])\<rparr>"

text \<open>The body of the \<open>try\<close>: the runtime and the result as they are when it ends, and how it ends.\<close>

definition guarded_evaluation ::
    "'w evaluator \<Rightarrow> eval_tools_config \<Rightarrow> pydict \<Rightarrow> test_case list \<Rightarrow> 'w evaluation_state
      \<Rightarrow> (pydict option \<times> kernel_result) \<times> (eval_error, unit) result \<times> 'w evaluation_state" where
  "guarded_evaluation ev tools config baseline t =
     (case bind_session_runtime ev config t of
        (Inl e, t) \<Rightarrow> ((None, fallback_result tools), Inl e, t)
      | (Inr rt, t) \<Rightarrow>
     (case sbind (on_session (prepare_evaluation ev config rt tools) t)
             (\<lambda>manager t. evaluate_kernel ev manager tools config baseline t) of
        (Inl e, t) \<Rightarrow> ((Some rt, fallback_result tools), Inl e, t)
      | (Inr kr, t) \<Rightarrow> ((Some rt, kr), on_session (sources_intact (ev_setup ev)) t)))"

definition discredited :: "kernel_result \<Rightarrow> kernel_result" where
  "discredited kr =
     kr\<lparr>kr_pass_compilation := False, kr_pass_correctness := False, kr_speedup := Fin 0,
        kr_optimized_time := Fin 0, kr_method_consistent := False\<rparr>"

text \<open>The result with everything the framework adds before it is written.\<close>

definition framework_result ::
    "'w evaluator \<Rightarrow> 'w session \<Rightarrow> pydict option \<Rightarrow> kernel_result \<Rightarrow> eval_error option
      \<Rightarrow> (eval_error, session_result) result" where
  "framework_result ev s rt kr failure =
     (let kr = (case failure of None \<Rightarrow> kr
                | Some e \<Rightarrow> (discredited kr)\<lparr>kr_compilation_error := PStr (exception_text e)\<rparr>);
          found = candidate_sources (st_host (ev_setup ev)) (ts_candidate (st_spec (ev_setup ev))) True (ss_world s);
          finish = (\<lambda>kr sources error. Inr \<lparr>sr_kernel = kr, sr_runtime = rt, sr_initial = ss_initial s,
             sr_framework_error = map_option exception_line failure, sr_sources = sources, sr_source_error = error,
             sr_baseline_correctness = map_option (result_to_mapping \<circ> xa_result)
               (ss_results s (''task_validation'', ''baseline'', ''correctness'')),
             sr_agent_execution = None\<rparr>) in
      case found of
        Inr sources \<Rightarrow> finish kr (Some sources) None
      | Inl e \<Rightarrow> if caught (InSession e) then finish (discredited kr) None (Some (exception_line (InSession e)))
                 else Inl (InSession e))"

definition supplemented :: "pydict option \<Rightarrow> session_result \<Rightarrow> (eval_error, session_result) result" where
  "supplemented extra r =
     (case extra of None \<Rightarrow> Inr r
      | Some d \<Rightarrow> if keys d \<subseteq> {PStr ''agent_execution''}
                 then Inr (if d = [] then r else r\<lparr>sr_agent_execution := Some (dget d ''agent_execution'')\<rparr>)
                 else Inl (InTools ValueErr))"

definition agent_template :: "pydict \<Rightarrow> (eval_error, string) result" where
  "agent_template eval_config =
     (case dget_default eval_config ''agent'' (PDict []) of
        PDict d \<Rightarrow> Inr (py_str (dget_default d ''template'' (PStr ''unknown'')))
      | _ \<Rightarrow> Inl (InTools AttributeErr))"

fun scoring_failure :: "scoring_error \<Rightarrow> eval_error" where
  "scoring_failure (BadSpeedup e) = InTools e"
| "scoring_failure NotAMapping = InTools AttributeErr"
| "scoring_failure FileNotFound = InSession (OsErr ''task_result.yaml not found'')"

text \<open>\<open>write_task_result\<close>, then \<open>task_result_scoring\<close>, then the file is read again.\<close>

definition write_and_score ::
    "'w evaluator \<Rightarrow> string \<Rightarrow> test_case list \<Rightarrow> session_result \<Rightarrow> 'w evaluation_state
      \<Rightarrow> (eval_error, pyval) result \<times> 'w evaluation_state" where
  "write_and_score ev agent_name baseline r t =
     sbind (map_error InTools (task_result (ts_task_id (st_spec (ev_setup ev))) agent_name baseline r), t) (\<lambda>doc t.
     let t = save_document ev ''task_result.yaml'' (PDict doc) t in
     sbind (map_error scoring_failure (task_result_scoring (Some (PDict doc))), t) (\<lambda>(points, scored) t.
     (Inr scored, save_document ev ''task_result.yaml'' scored t)))"

definition baseline_evidence :: "'w session \<Rightarrow> (eval_error, test_case list) result" where
  "baseline_evidence s =
     (case ss_results s (''task_validation'', ''baseline'', ''performance'') of
        Some x \<Rightarrow> if passed (xa_result x) then map_error (InSession \<circ> Report) (performance_cases (xa_result x))
                  else Inr []
      | None \<Rightarrow> Inr [])"

definition evaluate_task_session ::
    "'w evaluator \<Rightarrow> pydict \<Rightarrow> pydict option \<Rightarrow> 'w evaluation_state
      \<Rightarrow> (eval_error, pyval) result \<times> 'w evaluation_state" where
  "evaluate_task_session ev eval_config extra t =
     sbind (map_error InTools (to_mapping (st_spec (ev_setup ev))), t) (\<lambda>config t.
     sbind (map_error InTools (rbind (config_from_mapping (ev_environ ev) (PDict eval_config))
              (\<lambda>tools. merge_task_tool_config tools config)), t) (\<lambda>tools t.
     sbind (baseline_evidence (vs_session t), t) (\<lambda>baseline t.
     let t = (if baseline = [] then t
              else save_document ev ''baseline_perf.yaml'' (save_performance_results baseline) t) in
     (case guarded_evaluation ev tools config baseline t of ((rt, kr), ended, t) \<Rightarrow>
     sbind (case ended of Inr _ \<Rightarrow> Inr None | Inl e \<Rightarrow> if caught e then Inr (Some e) else Inl e, t) (\<lambda>failure t.
     sbind (framework_result ev (vs_session t) rt kr failure, t) (\<lambda>r t.
     sbind (supplemented extra r, t) (\<lambda>r t.
     sbind (agent_template eval_config, t) (\<lambda>agent_name t.
     write_and_score ev agent_name baseline r t))))))))"

end
