(* ===== verification/EvaluatorFacts.thy ===== *)
theory EvaluatorFacts
  imports Evaluator TaskSessionFacts EvalManagerFacts
begin

text \<open>
  Facts about the evaluator: what a speedup says about the cases it compares, how the pipeline
  reached a timing, what the framework keeps of a failed evaluation, and that the result file reports
  the gated speedup.
\<close>

section \<open>The speedup of measured cases\<close>

text \<open>A result explains itself: a missing speedup has a reason, or nothing was timed.\<close>

definition explained :: "kernel_result \<Rightarrow> bool" where
  "explained kr =
     (case kr_speedup_error kr of None \<Rightarrow> False | Some e \<Rightarrow> speedup_error_text e \<noteq> [])"

definition self_explaining :: "kernel_result \<Rightarrow> bool" where
  "self_explaining kr =
     (feq (kr_speedup kr) (Fin 0) \<longrightarrow> explained kr \<or> kr_optimized_time kr = Fin 0)"

text \<open>A speedup that is the gated average over whole, validly timed, comparable lists of cases.\<close>

definition sound_speedup :: "test_case list \<Rightarrow> test_case list \<Rightarrow> kernel_result \<Rightarrow> bool" where
  "sound_speedup baseline cases kr =
     (flt (Fin 0) (kr_speedup kr) \<and> calculate_average_speedup baseline cases True = Inr (kr_speedup kr)
      \<and> list_all valid_case baseline \<and> list_all valid_case cases \<and> baseline \<noteq> [] \<and> cases \<noteq> []
      \<and> average_time (map execution_time_ms cases) = Inr (kr_optimized_time kr)
      \<and> kr_method_consistent kr \<and> kr_workload_consistent kr \<and> kr_speedup_error kr = None)"

text \<open>The fields the measurement leaves alone.\<close>

definition same_gates :: "kernel_result \<Rightarrow> kernel_result \<Rightarrow> bool" where
  "same_gates kr kr' =
     (kr_pass_compilation kr' = kr_pass_compilation kr \<and> kr_pass_correctness kr' = kr_pass_correctness kr
      \<and> kr_pass_tool_gate kr' = kr_pass_tool_gate kr \<and> kr_policy_satisfied kr' = kr_policy_satisfied kr
      \<and> kr_tools kr' = kr_tools kr)"

lemma speedup_error_texts [simp]:
  "speedup_error_text (WorkloadsDiffer ws) \<noteq> []" "speedup_error_text (MethodsDiffer ms) \<noteq> []"
  "speedup_error_text (InvalidTimings a b c d) \<noteq> []" "speedup_error_text CasesDoNotMatch \<noteq> []"
  "speedup_error_text NoValidBaseline \<noteq> []" "speedup_error_text NoBaseline \<noteq> []"
  by simp_all

lemmas [simp del] = speedup_error_text.simps(2-)

lemma valid_perf_cases_full: "length (valid_perf_cases cs) = length cs \<longleftrightarrow> list_all valid_case cs"
proof
  assume l: "length (valid_perf_cases cs) = length cs"
  have "valid_case c" if "c \<in> set cs" for c
    using length_filter_less [OF that, of valid_case] l by (auto simp: valid_perf_cases_def)
  then show "list_all valid_case cs" by (simp add: list_all_iff)
qed (auto simp: valid_perf_cases_def list_all_iff)

lemma valid_perf_cases_all: "list_all valid_case cs \<Longrightarrow> valid_perf_cases cs = cs"
  by (auto simp: valid_perf_cases_def list_all_iff)

lemma compare_times_cases:
  assumes "compare_times baseline cases kr = Inr kr'"
  obtains (compared) v where "list_all valid_case baseline" "list_all valid_case cases" "baseline \<noteq> []"
      "kr_workload_consistent kr" "kr_method_mismatches kr = []"
      "calculate_average_speedup baseline cases True = Inr v" "flt (Fin 0) v" "kr' = kr\<lparr>kr_speedup := v\<rparr>"
    | (refused) e where "kr' = kr\<lparr>kr_speedup_error := Some e\<rparr>" "speedup_error_text e \<noteq> []"
proof (cases "valid_perf_cases baseline = []")
  case True
  with assms have "kr' = kr\<lparr>kr_speedup_error := Some (if baseline \<noteq> [] then NoValidBaseline else NoBaseline)\<rparr>"
    by (simp add: compare_times_def)
  then show ?thesis by (rule refused) simp
next
  case False
  consider (workloads) "\<not> kr_workload_consistent kr" | (methods) "kr_workload_consistent kr" "kr_method_mismatches kr \<noteq> []"
    | (times) "kr_workload_consistent kr" "kr_method_mismatches kr = []" "\<not> (list_all valid_case baseline \<and> list_all valid_case cases)"
    | (whole) "kr_workload_consistent kr" "kr_method_mismatches kr = []" "list_all valid_case baseline" "list_all valid_case cases"
    by blast
  then show ?thesis
  proof cases
    case workloads
    with assms False have "kr' = kr\<lparr>kr_speedup_error := Some (WorkloadsDiffer (kr_workload_mismatches kr))\<rparr>"
      by (auto simp: compare_times_def Let_def rbind_eq_Inr)
    then show ?thesis by (rule refused) simp
  next
    case methods
    with assms False have "kr' = kr\<lparr>kr_speedup_error := Some (MethodsDiffer (kr_method_mismatches kr))\<rparr>"
      by (auto simp: compare_times_def Let_def rbind_eq_Inr)
    then show ?thesis by (rule refused) simp
  next
    case times
    with assms False have "kr' = kr\<lparr>kr_speedup_error := Some (InvalidTimings (length (valid_perf_cases baseline))
        (length baseline) (length (valid_perf_cases cases)) (length cases))\<rparr>"
      by (auto simp: compare_times_def Let_def rbind_eq_Inr valid_perf_cases_full)
    then show ?thesis by (rule refused) simp
  next
    case whole
    with assms False obtain v where v: "calculate_average_speedup baseline cases True = Inr v"
        and kr': "kr' = (if flt (Fin 0) v then kr\<lparr>kr_speedup := v\<rparr> else kr\<lparr>kr_speedup_error := Some CasesDoNotMatch\<rparr>)"
      by (auto simp: compare_times_def Let_def rbind_eq_Inr valid_perf_cases_all)
    have "baseline \<noteq> []" using False by (auto simp: valid_perf_cases_def)
    with v kr' whole show ?thesis by (cases "flt (Fin 0) v") (auto intro: compared refused)
  qed
qed

lemma analyses_consistent:
  assumes "calculate_average_speedup bs os True = Inr v" "flt (Fin 0) v"
    and "analyze_benchmark_method_consistency bs os True = Inr (mo, ms)"
  shows "mo"
proof -
  from assms(2) have "v \<noteq> Fin 0" by auto
  with assms(1) obtain m xs where "match_test_cases bs os (singletons bs os) = Inr m" "m \<noteq> []"
    "\<not> incomplete bs os m" "benchmark_method_mismatches (pair_cases bs os m) = Inr []"
    by (rule average_speedup_nonzero) auto
  with assms(3) show ?thesis
    by (auto simp: analyze_benchmark_method_consistency_def incomplete_def Let_def)
qed

lemma timing_result_sound:
  assumes "timing_result baseline cases kr = Inr kr'" "cases \<noteq> []"
    and "kr_speedup kr = Fin 0" "kr_speedup_error kr = None"
  shows "same_gates kr kr' \<and> self_explaining kr'
    \<and> (kr_speedup kr' \<noteq> Fin 0 \<longrightarrow> sound_speedup baseline cases kr')"
proof -
  let ?vo = "valid_perf_cases cases" and ?vb = "valid_perf_cases baseline"
  from assms(1) obtain mo ms wo ws where
      m: "analyze_benchmark_method_consistency ?vb ?vo True = Inr (mo, ms)"
      and w: "analyze_workload_consistency ?vb ?vo = Inr (wo, ws)"
      and rest: "(let k = kr\<lparr>kr_methods := collect_benchmark_methods py_str cases,
                  kr_valid_optimized := length ?vo, kr_valid_baseline := length ?vb,
                  kr_method_consistent := mo, kr_method_mismatches := ms,
                  kr_workload_consistent := wo, kr_workload_mismatches := ws\<rparr> in
        if ?vo = [] then Inr (k\<lparr>kr_optimized_time := Fin 0\<rparr>)
        else rbind (average_time (map execution_time_ms ?vo)) (\<lambda>t.
           compare_times baseline cases (k\<lparr>kr_optimized_time := t\<rparr>))) = Inr kr'"
    unfolding timing_result_def Let_def by (auto elim!: rbindE)
  show ?thesis
  proof (cases "?vo = []")
    case True
    with rest have "kr_optimized_time kr' = Fin 0" "kr_speedup kr' = kr_speedup kr" "same_gates kr kr'"
      by (auto simp: Let_def same_gates_def)
    with assms(3) show ?thesis by (simp add: self_explaining_def)
  next
    case False
    with rest obtain t where t: "average_time (map execution_time_ms ?vo) = Inr t"
        and c: "compare_times baseline cases (kr\<lparr>kr_methods := collect_benchmark_methods py_str cases,
                  kr_valid_optimized := length ?vo, kr_valid_baseline := length ?vb,
                  kr_method_consistent := mo, kr_method_mismatches := ms,
                  kr_workload_consistent := wo, kr_workload_mismatches := ws, kr_optimized_time := t\<rparr>) = Inr kr'"
      by (auto simp: Let_def elim!: rbindE)
    from c show ?thesis
    proof (cases rule: compare_times_cases)
      case (compared v)
      then have "?vo = cases" "?vb = baseline" by (simp_all add: valid_perf_cases_all)
      with compared t m assms(2) analyses_consistent [OF compared(6,7)] assms(3,4)
      have "sound_speedup baseline cases kr'" by (auto simp: sound_speedup_def)
      moreover have "same_gates kr kr'" using compared by (auto simp: same_gates_def)
      moreover have "\<not> feq (kr_speedup kr') (Fin 0)" using compared(7,8) by (cases v) auto
      ultimately show ?thesis by (simp add: self_explaining_def)
    next
      case (refused e)
      with assms(3) show ?thesis by (auto simp: same_gates_def self_explaining_def explained_def)
    qed
  qed
qed

section \<open>The pipeline\<close>

lemma on_session_Inr:
  assumes "on_session f t = (r, t')"
  shows "f (vs_session t) = (r, vs_session t') \<and> t' = t\<lparr>vs_session := vs_session t'\<rparr>"
  using assms by (auto simp: on_session_def split: prod.splits)

lemma session_check_cases:
  assumes "session_check st act s = (Inr (ok, reason), s')"
  obtains (ran) x where "candidate_action st act s = (Inr x, s')" "ok = passed (xa_result x)"
    | (refused) e where "candidate_action st act s = (Inl e, s')" "\<not> ok"
  using assms by (auto simp: session_check_def split: prod.splits sum.splits if_splits)

lemma candidate_performance_cases:
  assumes "candidate_performance st s = (Inr r, s')"
  obtains (timed) x cases where "candidate_action st ''performance'' s = (Inr x, s')" "passed (xa_result x)"
      "performance_cases (xa_result x) = Inr cases" "r = Inr cases"
    | (failed) m where "r = Inl m"
  using assms
  by (cases "candidate_action st ''performance'' s"; cases "fst (candidate_action st ''performance'' s)")
     (auto simp: candidate_performance_def split: sum.splits if_splits)

text \<open>The tools leave everything of the session but the world as it is.\<close>

definition world_only :: "'w manager option \<Rightarrow> bool" where
  "world_only manager =
     (\<forall>run tools s r s'. manager = Some run \<longrightarrow> run tools s = (r, s') \<longrightarrow> (\<exists>w. s' = s\<lparr>ss_world := w\<rparr>))"

lemma world_onlyD:
  "world_only (Some run) \<Longrightarrow> run tools s = (r, s') \<Longrightarrow> \<exists>w. s' = s\<lparr>ss_world := w\<rparr>"
  by (auto simp: world_only_def)

lemma same_world [simp]: "s\<lparr>ss_world := ss_world s\<rparr> = s"
  by simp

text \<open>An open gate: no tool is enabled, or a manager returned a report that allows the measurement.\<close>

lemma tool_gate_cases:
  assumes "tool_gate manager tools config kr s = (Inr kr', s')" "kr_pass_tool_gate kr"
  obtains (disabled) m where "merge_task_tool_config tools config = Inr m" "ec_tools m = []" "kr' = kr" "s' = s"
    | (judged) m run report where "merge_task_tool_config tools config = Inr m" "manager = Some run"
        "run m s = (Inr report, s')"
        "kr' = kr\<lparr>kr_tools := Some report, kr_pass_tool_gate := pd_allowed (rp_decision report),
                   kr_policy_satisfied := pd_policy_satisfied (rp_decision report)\<rparr>"
  using assms
  by (auto simp: tool_gate_def map_error_eq_Inr elim!: sbind_InrE split: if_splits option.splits)

text \<open>
  How a result with a timing came about: the three actions passed one after the other, with nothing
  between them but the tools, whose decision allowed the measurement.
\<close>

definition measured ::
    "'w session_setup \<Rightarrow> 'w manager option \<Rightarrow> eval_tools_config \<Rightarrow> pydict \<Rightarrow> test_case list \<Rightarrow> 'w session
      \<Rightarrow> kernel_result \<Rightarrow> bool" where
  "measured st manager tools config baseline s kr =
     (\<exists>c s1 k s2 kr1 kr2 s3 x s4 cases.
        candidate_action st ''compile'' s = (Inr c, s1) \<and> passed (xa_result c)
      \<and> candidate_action st ''correctness'' s1 = (Inr k, s2) \<and> passed (xa_result k)
      \<and> tool_gate manager tools config kr1 s2 = (Inr kr2, s3) \<and> kr_pass_tool_gate kr1 \<and> kr_pass_tool_gate kr2
      \<and> candidate_action st ''performance'' s3 = (Inr x, s4) \<and> passed (xa_result x)
      \<and> performance_cases (xa_result x) = Inr cases \<and> same_gates kr2 kr
      \<and> (kr_speedup kr \<noteq> Fin 0 \<longrightarrow> sound_speedup baseline cases kr))"

lemma measure_candidate_cases:
  assumes "measure_candidate ev baseline kr t = (Inr kr', t')"
    and "kr_speedup kr = Fin 0" "kr_speedup_error kr = None" "kr_optimized_time kr = Fin 0"
  obtains (untimed) "kr_speedup kr' = Fin 0" "kr_optimized_time kr' = Fin 0"
    | (timed) x s' cases where "candidate_action (ev_setup ev) ''performance'' (vs_session t) = (Inr x, s')"
        "passed (xa_result x)" "performance_cases (xa_result x) = Inr cases" "same_gates kr kr'"
        "self_explaining kr'" "kr_speedup kr' \<noteq> Fin 0 \<longrightarrow> sound_speedup baseline cases kr'"
proof -
  from assms(1) obtain r t1 where r: "on_session (candidate_performance (ev_setup ev)) t = (Inr r, t1)"
      and k: "(case r of Inl m \<Rightarrow> (Inr (kr\<lparr>kr_speedup_error := Some (PerformanceFailed m)\<rparr>), t1)
        | Inr cases \<Rightarrow> if cases = [] then (Inr kr, t1)
            else (map_error InTools (timing_result baseline cases kr),
                  save_document ev ''optimized_perf.yaml'' (save_performance_results cases) t1)) = (Inr kr', t')"
    unfolding measure_candidate_def by (elim sbind_InrE)
  from on_session_Inr [OF r] have p: "candidate_performance (ev_setup ev) (vs_session t) = (Inr r, vs_session t1)" by simp
  then show ?thesis
  proof (cases rule: candidate_performance_cases)
    case (failed m)
    with k assms(2,4) have "kr_speedup kr' = Fin 0" "kr_optimized_time kr' = Fin 0" by auto
    then show ?thesis by (rule untimed)
  next
    case (timed x cases)
    show ?thesis
    proof (cases "cases = []")
      case True
      with timed k assms(2,4) have "kr_speedup kr' = Fin 0" "kr_optimized_time kr' = Fin 0" by auto
      then show ?thesis by (rule untimed)
    next
      case False
      with timed k have "timing_result baseline cases kr = Inr kr'" by (simp add: map_error_eq_Inr)
      from timing_result_sound [OF this False assms(2,3)] timed(1-3) show ?thesis by (intro that(2)) auto
    qed
  qed
qed

lemma evaluate_kernel_cases:
  assumes "evaluate_kernel ev manager tools config baseline t = (Inr kr, t')"
  obtains (untimed) "kr_speedup kr = Fin 0" "kr_optimized_time kr = Fin 0"
    | (timed) "measured (ev_setup ev) manager tools config baseline (vs_session t) kr" "self_explaining kr"
        "kr_pass_compilation kr" "kr_pass_correctness kr" "kr_pass_tool_gate kr"
proof -
  from assms obtain ok reason t1 where c: "on_session (session_check (ev_setup ev) ''compile'') t = (Inr (ok, reason), t1)"
      and rest1: "(let kr = kernel_start\<lparr>kr_pass_compilation := ok, kr_compilation_error := reason\<rparr> in
         if \<not> ok then (Inr kr, t1) else
         sbind (on_session (session_check (ev_setup ev) ''correctness'') t1) (\<lambda>(ok, reason) t.
         let kr = kr\<lparr>kr_pass_correctness := ok, kr_correctness_error := reason\<rparr> in
         if \<not> ok then (Inr kr, t) else
         sbind (on_session (tool_gate manager tools config kr) t) (\<lambda>kr t.
         if \<not> kr_pass_tool_gate kr then (Inr kr, t) else
         measure_candidate ev baseline kr t))) = (Inr kr, t')"
    unfolding evaluate_kernel_def by (elim sbind_InrE) auto
  show ?thesis
  proof (cases ok)
    case False
    with rest1 show ?thesis by (intro untimed) (auto simp: kernel_start_def)
  next
    case True
    with rest1 obtain ok2 reason2 t2 where
        k: "on_session (session_check (ev_setup ev) ''correctness'') t1 = (Inr (ok2, reason2), t2)"
        and rest2: "(let kr = kernel_start\<lparr>kr_pass_compilation := True, kr_compilation_error := reason,
            kr_pass_correctness := ok2, kr_correctness_error := reason2\<rparr> in
         if \<not> ok2 then (Inr kr, t2) else
         sbind (on_session (tool_gate manager tools config kr) t2) (\<lambda>kr t.
         if \<not> kr_pass_tool_gate kr then (Inr kr, t) else
         measure_candidate ev baseline kr t)) = (Inr kr, t')"
      by (auto simp: Let_def elim!: sbind_InrE)
    show ?thesis
    proof (cases ok2)
      case False
      with rest2 show ?thesis by (intro untimed) (auto simp: kernel_start_def)
    next
      case ok2: True
      let ?kr1 = "kernel_start\<lparr>kr_pass_compilation := True, kr_compilation_error := reason,
            kr_pass_correctness := True, kr_correctness_error := reason2\<rparr>"
      from ok2 rest2 obtain kr2 t3 where g: "on_session (tool_gate manager tools config ?kr1) t2 = (Inr kr2, t3)"
          and rest3: "(if \<not> kr_pass_tool_gate kr2 then (Inr kr2, t3) else measure_candidate ev baseline kr2 t3) = (Inr kr, t')"
        by (auto simp: Let_def elim!: sbind_InrE)
      have g': "tool_gate manager tools config ?kr1 (vs_session t2) = (Inr kr2, vs_session t3)"
        using on_session_Inr [OF g] by simp
      moreover have gate1: "kr_pass_tool_gate ?kr1" by (simp add: kernel_start_def)
      ultimately have kr2: "kr_speedup kr2 = Fin 0" "kr_optimized_time kr2 = Fin 0" "kr_speedup_error kr2 = None"
          "kr_pass_compilation kr2" "kr_pass_correctness kr2"
        by (cases rule: tool_gate_cases; simp add: kernel_start_def)+
      show ?thesis
      proof (cases "kr_pass_tool_gate kr2")
        case False
        with rest3 kr2 show ?thesis by (intro untimed) auto
      next
        case gate: True
        with rest3 have "measure_candidate ev baseline kr2 t3 = (Inr kr, t')" by simp
        then show ?thesis using kr2(1,3,2)
        proof (cases rule: measure_candidate_cases)
          case (timed x s' cases)
          have "\<exists>x. candidate_action (ev_setup ev) ''compile'' (vs_session t) = (Inr x, vs_session t1) \<and> passed (xa_result x)"
            using on_session_Inr [OF c] True by (auto elim: session_check_cases)
          moreover have "\<exists>x. candidate_action (ev_setup ev) ''correctness'' (vs_session t1) = (Inr x, vs_session t2) \<and> passed (xa_result x)"
            using on_session_Inr [OF k] ok2 by (auto elim: session_check_cases)
          ultimately have "measured (ev_setup ev) manager tools config baseline (vs_session t) kr"
            unfolding measured_def using g' gate1 gate timed by blast
          moreover have "kr_pass_compilation kr" "kr_pass_correctness kr" "kr_pass_tool_gate kr"
            using timed(4) kr2 gate by (simp_all add: same_gates_def)
          ultimately show ?thesis using timed(5) by (intro that(2))
        qed (rule that(1))
      qed
    qed
  qed
qed

section \<open>The framework\<close>

lemma evaluate_kernel_explains:
  "evaluate_kernel ev manager tools config baseline t = (Inr kr, t') \<Longrightarrow> self_explaining kr"
  by (erule evaluate_kernel_cases) (simp_all add: self_explaining_def)

lemma fallback_explains: "self_explaining (fallback_result tools)"
  by (simp add: self_explaining_def fallback_result_def kernel_start_def)

lemma discredited_explains: "self_explaining (discredited kr)"
  by (simp add: self_explaining_def discredited_def)

lemma guarded_explains:
  assumes "guarded_evaluation ev tools config baseline t = ((rt, kr), ended, t')"
  shows "self_explaining kr"
  using assms fallback_explains
  by (auto simp: guarded_evaluation_def split: prod.splits sum.splits
      elim!: sbindE intro: evaluate_kernel_explains)

text \<open>An evaluation that ends without an error bound the runtime, was prepared and evaluated the kernel.\<close>

lemma guarded_evaluation_ok:
  assumes "guarded_evaluation ev tools config baseline t = ((rt, kr), Inr u, t')"
  obtains id1 t1 manager t2 t3 where "bind_session_runtime ev config t = (Inr id1, t1)" "rt = Some id1"
    "on_session (prepare_evaluation ev config id1 tools) t1 = (Inr manager, t2)"
    "evaluate_kernel ev manager tools config baseline t2 = (Inr kr, t3)"
    "on_session (sources_intact (ev_setup ev)) t3 = (Inr u, t')"
  using assms
  by (auto simp: guarded_evaluation_def split: prod.splits sum.splits elim!: sbind_InrE)

lemma bind_session_runtime_ok:
  assumes "bind_session_runtime ev config t = (Inr rt, t')"
  shows "vs_session t' = vs_session t
    \<and> (case vs_runtime t of None \<Rightarrow> vs_runtime t' = Some rt
       | Some saved \<Rightarrow> vs_runtime t' = Some saved \<and> py_eq (PDict saved) (PDict rt))"
  using assms unfolding bind_session_runtime_def
  by (elim sbind_InrE) (auto split: if_splits option.splits)

lemma verify_harness_Inr: "verify_harness st d s = (r, s') \<Longrightarrow> \<exists>w. s' = s\<lparr>ss_world := w\<rparr>"
  by (auto simp: verify_harness_def split: prod.splits)

lemma sources_intact_world: "sources_intact st s = (r, s') \<Longrightarrow> \<exists>w. s' = s\<lparr>ss_world := w\<rparr>"
  by (auto simp: sources_intact_def split: prod.splits elim!: sbindE dest: verify_harness_Inr)

lemma run_manager_world: "world_only (Some (run_manager ev config rt evidence))"
  by (auto simp: world_only_def run_manager_def Let_def split: prod.splits)

lemma default_manager_cases:
  assumes "default_manager ev config rt tools s = (Inr manager, s')"
  obtains (disabled) "ec_tools tools = []" "manager = None" "s' = s"
    | (enabled) evidence w where "ec_tools tools \<noteq> []" "manager = Some (run_manager ev config rt evidence)"
        "s' = s\<lparr>ss_world := w\<rparr>"
  using assms
  by (auto simp: default_manager_def on_world_def split: if_splits prod.splits elim!: sbind_InrE)

lemma prepare_evaluation_ok:
  assumes "prepare_evaluation ev config rt tools s = (Inr manager, s')"
  obtains w w' where "accepted_initially s" "s' = s\<lparr>ss_world := w'\<rparr>" "world_only manager"
    "default_manager ev config rt tools (s\<lparr>ss_world := w\<rparr>) = (Inr manager, s')"
proof -
  from assms obtain u s1 where a: "accepted_initially s" and i: "sources_intact (ev_setup ev) s = (Inr u, s1)"
      and d: "default_manager ev config rt tools s1 = (Inr manager, s')"
    unfolding prepare_evaluation_def by (elim sbind_InrE) (auto split: if_splits)
  from sources_intact_world [OF i] obtain w where s1: "s1 = s\<lparr>ss_world := w\<rparr>" by blast
  from d s1 have "\<exists>w'. s' = s\<lparr>ss_world := w'\<rparr>"
    by (auto elim!: default_manager_cases)
  moreover from d have "world_only manager"
    by (cases rule: default_manager_cases) (simp_all add: run_manager_world, simp add: world_only_def)
  ultimately show ?thesis using a d s1 that by blast
qed

text \<open>A framework result that counts: no error, an intact candidate, and the kernel's own result.\<close>

lemma framework_result_counts:
  assumes "framework_result ev s rt kr failure = Inr r" "kr_pass_compilation (sr_kernel r)"
  shows "failure = None \<and> sr_kernel r = kr \<and> sr_runtime r = rt \<and> sr_initial r = ss_initial s
    \<and> sr_framework_error r = None \<and> sr_source_error r = None
    \<and> (\<exists>sources. candidate_sources (st_host (ev_setup ev)) (ts_candidate (st_spec (ev_setup ev))) True (ss_world s)
          = Inr sources \<and> sr_sources r = Some sources)"
  using assms
  by (cases failure) (auto simp: framework_result_def Let_def discredited_def split: sum.splits if_splits)

lemma framework_result_explains:
  assumes "framework_result ev s rt kr failure = Inr r" "self_explaining kr"
  shows "self_explaining (sr_kernel r)"
  using assms discredited_explains [of kr]
  by (cases failure)
     (auto simp: framework_result_def Let_def discredited_def self_explaining_def split: sum.splits if_splits)

lemma framework_failure_discredits:
  assumes "framework_result ev s rt kr failure = Inr r"
    and "sr_framework_error r \<noteq> None \<or> sr_source_error r \<noteq> None"
  shows "\<not> kr_pass_compilation (sr_kernel r) \<and> \<not> kr_pass_correctness (sr_kernel r)
    \<and> kr_speedup (sr_kernel r) = Fin 0 \<and> kr_optimized_time (sr_kernel r) = Fin 0
    \<and> \<not> kr_method_consistent (sr_kernel r)"
  using assms
  by (cases failure) (auto simp: framework_result_def Let_def discredited_def split: sum.splits if_splits)

lemma supplemented_kernel:
  assumes "supplemented extra r = Inr r'"
  shows "sr_kernel r' = sr_kernel r \<and> sr_runtime r' = sr_runtime r \<and> sr_framework_error r' = sr_framework_error r
    \<and> sr_source_error r' = sr_source_error r \<and> sr_sources r' = sr_sources r"
  using assms by (auto simp: supplemented_def split: option.splits if_splits)

section \<open>The result file\<close>

lemma reported_speedup_gated:
  assumes "self_explaining kr" "reported_speedup base kr = Inr v"
  shows "v = (if kr_workload_consistent kr then kr_speedup kr else Fin 0)"
  using assms
  by (auto simp: reported_speedup_def self_explaining_def explained_def Let_def split: if_splits option.splits)

lemma task_result_Inr:
  assumes "task_result name agent baseline r = Inr d"
  obtains base_time speedup where "reported_speedup base_time (sr_kernel r) = Inr speedup"
    "dlookup d ''pass_compilation'' = Some (PBool (kr_pass_compilation (sr_kernel r)))"
    "dlookup d ''pass_correctness'' = Some (PBool (kr_pass_correctness (sr_kernel r)))"
    "dlookup d ''pass_tool_gate'' = Some (PBool (kr_pass_tool_gate (sr_kernel r)))"
    "dlookup d ''speedup_ratio'' = Some (PFloat speedup)"
    "dlookup d ''best_optimized_execution_time'' = Some (PFloat (kr_optimized_time (sr_kernel r)))"
    "dlookup d ''benchmark_method_consistent'' = Some (PBool (kr_method_consistent (sr_kernel r)))"
  using assms
  by (auto simp: task_result_def Let_def dlookup_def elim!: rbindE)

lemma write_and_score_Inr:
  assumes "write_and_score ev agent baseline r t = (Inr doc, t')"
  obtains d points where "task_result (ts_task_id (st_spec (ev_setup ev))) agent baseline r = Inr d"
    "task_result_scoring (Some (PDict d)) = Inr (points, doc)"
    "vs_session t' = (vs_session t)\<lparr>ss_world := ss_world (vs_session t')\<rparr>" "vs_runtime t' = vs_runtime t"
  using assms unfolding write_and_score_def Let_def
  by (elim sbind_InrE) (auto simp: map_error_eq_Inr save_document_def)

lemma evaluate_task_session_Inr:
  assumes "evaluate_task_session ev cfg extra t = (Inr doc, t')"
  obtains config tc tools baseline w rt kr ended failure r r' agent t1 t2 where
    "to_mapping (st_spec (ev_setup ev)) = Inr config"
    "config_from_mapping (ev_environ ev) (PDict cfg) = Inr tc" "merge_task_tool_config tc config = Inr tools"
    "baseline_evidence (vs_session t) = Inr baseline"
    "vs_session t1 = (vs_session t)\<lparr>ss_world := w\<rparr>" "vs_runtime t1 = vs_runtime t"
    "guarded_evaluation ev tools config baseline t1 = ((rt, kr), ended, t2)"
    "case ended of Inr _ \<Rightarrow> failure = None | Inl e \<Rightarrow> caught e \<and> failure = Some e"
    "framework_result ev (vs_session t2) rt kr failure = Inr r" "supplemented extra r = Inr r'"
    "write_and_score ev agent baseline r' t2 = (Inr doc, t')"
proof -
  from assms obtain config tools baseline where a:
      "to_mapping (st_spec (ev_setup ev)) = Inr config"
      "rbind (config_from_mapping (ev_environ ev) (PDict cfg)) (\<lambda>tools. merge_task_tool_config tools config) = Inr tools"
      "baseline_evidence (vs_session t) = Inr baseline"
      and rest: "(let t = (if baseline = [] then t
              else save_document ev ''baseline_perf.yaml'' (save_performance_results baseline) t) in
     (case guarded_evaluation ev tools config baseline t of ((rt, kr), ended, t) \<Rightarrow>
     sbind (case ended of Inr _ \<Rightarrow> Inr None | Inl e \<Rightarrow> if caught e then Inr (Some e) else Inl e, t) (\<lambda>failure t.
     sbind (framework_result ev (vs_session t) rt kr failure, t) (\<lambda>r t.
     sbind (supplemented extra r, t) (\<lambda>r t.
     sbind (agent_template cfg, t) (\<lambda>agent_name t.
     write_and_score ev agent_name baseline r t)))))) = (Inr doc, t')"
    unfolding evaluate_task_session_def by (elim sbind_InrE) (auto simp: map_error_eq_Inr)
  from a(2) obtain tc where tc: "config_from_mapping (ev_environ ev) (PDict cfg) = Inr tc"
      "merge_task_tool_config tc config = Inr tools" by (elim rbindE) auto
  let ?t1 = "if baseline = [] then t else save_document ev ''baseline_perf.yaml'' (save_performance_results baseline) t"
  obtain rt kr ended t2 where g: "guarded_evaluation ev tools config baseline ?t1 = ((rt, kr), ended, t2)"
    by (metis prod.exhaust)
  have t1: "vs_session ?t1 = (vs_session t)\<lparr>ss_world := ss_world (vs_session ?t1)\<rparr>" "vs_runtime ?t1 = vs_runtime t"
    by (simp_all add: save_document_def)
  from rest g obtain failure r r' agent where
      "(case ended of Inr _ \<Rightarrow> Inr None | Inl e \<Rightarrow> if caught e then Inr (Some e) else Inl e) = Inr failure"
      "framework_result ev (vs_session t2) rt kr failure = Inr r" "supplemented extra r = Inr r'"
      "write_and_score ev agent baseline r' t2 = (Inr doc, t')"
    by (auto simp: Let_def elim!: sbind_InrE)
  then show ?thesis using that [OF a(1) tc a(3) t1 g] by (auto split: sum.splits if_splits)
qed

lemma scoring_fields:
  assumes "task_result name agent baseline r = Inr d" "self_explaining (sr_kernel r)"
    and "task_result_scoring (Some (PDict d)) = Inr (points, PDict d')"
  obtains speedup where "speedup = (if kr_workload_consistent (sr_kernel r) then kr_speedup (sr_kernel r) else Fin 0)"
    "dlookup d' ''speedup_ratio'' = Some (PFloat speedup)" "dlookup d' ''score'' = Some (PFloat points)"
    "dlookup d' ''pass_compilation'' = Some (PBool (kr_pass_compilation (sr_kernel r)))"
    "dlookup d' ''pass_correctness'' = Some (PBool (kr_pass_correctness (sr_kernel r)))"
    "\<exists>b o'. score (PBool (kr_pass_compilation (sr_kernel r))) (PBool (kr_pass_correctness (sr_kernel r))) b o'
       (PFloat speedup) (PBool (kr_method_consistent (sr_kernel r))) = Inr points"
  using assms(1)
proof (cases rule: task_result_Inr)
  case (1 base speedup)
  from assms(3) have "d' = dput d ''score'' (PFloat points)"
    and "\<exists>b o'. score (PBool (kr_pass_compilation (sr_kernel r))) (PBool (kr_pass_correctness (sr_kernel r))) b o'
       (PFloat speedup) (PBool (kr_method_consistent (sr_kernel r))) = Inr points"
    using 1 by (auto simp: task_result_scoring_def rbind_eq_Inr map_error_eq_Inr dget_default_def)
  with 1 reported_speedup_gated [OF assms(2) 1(1)] show ?thesis
    by (intro that [of speedup]) (simp_all add: dict_simps)
qed

text \<open>
  Points beyond those for correctness: the session was accepted, the three actions passed one after
  the other with an open tool gate in between, and the reported ratio is the gated average.
\<close>

lemma points_are_measured:
  assumes "evaluate_task_session ev cfg extra t = (Inr (PDict d), t')"
    and "dlookup d ''score'' = Some (PFloat v)" "flt (Fin 120) v"
  obtains config tc tools baseline rt w w' manager kr where
    "to_mapping (st_spec (ev_setup ev)) = Inr config"
    "config_from_mapping (ev_environ ev) (PDict cfg) = Inr tc" "merge_task_tool_config tc config = Inr tools"
    "accepted_initially (vs_session t)" "baseline_evidence (vs_session t) = Inr baseline"
    "default_manager ev config rt tools ((vs_session t)\<lparr>ss_world := w'\<rparr>) = (Inr manager, (vs_session t)\<lparr>ss_world := w\<rparr>)"
    "world_only manager"
    "measured (ev_setup ev) manager tools config baseline ((vs_session t)\<lparr>ss_world := w\<rparr>) kr"
    "kr_speedup kr \<noteq> Fin 0" "isfinite (kr_speedup kr)" "dlookup d ''speedup_ratio'' = Some (PFloat (kr_speedup kr))"
proof -
  from assms(1) show ?thesis
  proof (cases rule: evaluate_task_session_Inr)
    case (1 config tc tools baseline w rt kr ended failure r r' agent t1 t2)
    note e = 1
    from e(11) obtain d0 points where d0: "task_result (ts_task_id (st_spec (ev_setup ev))) agent baseline r' = Inr d0"
        "task_result_scoring (Some (PDict d0)) = Inr (points, PDict d)"
      by (rule write_and_score_Inr)
    have expl: "self_explaining (sr_kernel r')"
      using framework_result_explains [OF e(9) guarded_explains [OF e(7)]] supplemented_kernel [OF e(10)] by simp
    from d0(1) expl d0(2) show ?thesis
    proof (cases rule: scoring_fields)
      case (1 speedup)
      then have v: "v = points" using assms(2) by simp
      from 1(6) obtain b o' where "score (PBool (kr_pass_compilation (sr_kernel r'))) (PBool (kr_pass_correctness (sr_kernel r'))) b o'
       (PFloat speedup) (PBool (kr_method_consistent (sr_kernel r'))) = Inr v" unfolding v by blast
      from points_evidence [OF this assms(3)] have ok: "kr_pass_compilation (sr_kernel r')"
          "isfinite speedup" "positive_number (PFloat speedup)" by auto
      then have nz: "speedup \<noteq> Fin 0" by (auto simp: positive_number_def)
      have "kr_pass_compilation (sr_kernel r)" using ok(1) supplemented_kernel [OF e(10)] by simp
      note counts = framework_result_counts [OF e(9) this]
      then have kr: "sr_kernel r' = kr" and "failure = None" using supplemented_kernel [OF e(10)] by simp_all
      with e(8) obtain u where "ended = Inr u" by (cases ended) auto
      with e(7) have "guarded_evaluation ev tools config baseline t1 = ((rt, kr), Inr u, t2)" by simp
      then show ?thesis
      proof (cases rule: guarded_evaluation_ok)
        case (1 id1 u1 manager u2 u3)
        note g = 1
        have s1: "vs_session u1 = (vs_session t)\<lparr>ss_world := w\<rparr>" using bind_session_runtime_ok [OF g(1)] e(5) by simp
        have "prepare_evaluation ev config id1 tools (vs_session u1) = (Inr manager, vs_session u2)"
          using on_session_Inr [OF g(3)] by simp
        then show ?thesis
        proof (cases rule: prepare_evaluation_ok)
          case (1 w1 w2)
          have acc: "accepted_initially (vs_session t)" using 1(1) s1 by (simp add: accepted_initially_def)
          have s2: "vs_session u2 = (vs_session t)\<lparr>ss_world := w2\<rparr>" using 1(2) s1 by simp
          have man: "default_manager ev config id1 tools ((vs_session t)\<lparr>ss_world := w1\<rparr>)
              = (Inr manager, (vs_session t)\<lparr>ss_world := w2\<rparr>)" using 1(4) s1 s2 by simp
          from g(4) show ?thesis
          proof (cases rule: evaluate_kernel_cases)
            case untimed
            with nz kr \<open>speedup = _\<close> show ?thesis by (simp split: if_splits)
          next
            case timed
            with nz kr \<open>speedup = _\<close> have "speedup = kr_speedup kr" by (simp split: if_splits)
            with timed nz ok(2) 1(3) acc man s2 \<open>dlookup d ''speedup_ratio'' = _\<close> show ?thesis
              by (intro that [OF e(1-3) acc e(4) man]) auto
          qed
        qed
      qed
    qed
  qed
qed

end
