(* ===== verification/EvaluatorRuns.thy ===== *)
theory EvaluatorRuns
  imports EvaluatorFacts StepSystem
begin

text \<open>
  Sequences of evaluations of one session: what a saved result says of a failure, and the runtime
  identity that is bound once and holds for every result.
\<close>

section \<open>Failures in the result file\<close>

lemma dlookup_optional:
  "dlookup (optional_fields_of r) ''framework_error'' = map_option PStr (sr_framework_error r)"
  "dlookup (optional_fields_of r) ''candidate_source_error'' = map_option PStr (sr_source_error r)"
  "dlookup (optional_fields_of r) ''runtime_identity'' = Some (opt_value PDict (sr_runtime r))"
  "dlookup (optional_fields_of r) ''tool_evaluation'' = map_option (report_to_dict False) (kr_tools (sr_kernel r))"
  by (auto simp: optional_fields_of_def dlookup_append dlookup_def split: option.splits)

lemma task_result_optional:
  assumes "task_result name agent baseline r = Inr d"
    and "k \<in> {''framework_error'', ''candidate_source_error'', ''runtime_identity'', ''tool_evaluation''}"
  shows "dlookup d k = dlookup (optional_fields_of r) k"
  using assms by (auto simp: task_result_def Let_def dlookup_append dlookup_def elim!: rbindE)

text \<open>The saved document of an evaluation, with the framework's result it was written from.\<close>

lemma evaluation_saves:
  assumes "evaluate_task_session ev cfg extra t = (Inr (PDict d), t')"
  obtains config tools baseline t1 t2 rt kr ended failure r r' where
    "vs_runtime t1 = vs_runtime t" "guarded_evaluation ev tools config baseline t1 = ((rt, kr), ended, t2)"
    "case ended of Inr _ \<Rightarrow> failure = None | Inl e \<Rightarrow> caught e \<and> failure = Some e"
    "framework_result ev (vs_session t2) rt kr failure = Inr r" "sr_kernel r' = sr_kernel r" "self_explaining (sr_kernel r')"
    "dlookup d ''framework_error'' = map_option PStr (sr_framework_error r)"
    "dlookup d ''candidate_source_error'' = map_option PStr (sr_source_error r)"
    "dlookup d ''runtime_identity'' = Some (opt_value PDict (sr_runtime r))"
    "dlookup d ''tool_evaluation'' = map_option (report_to_dict False) (kr_tools (sr_kernel r))"
    "\<exists>name agent d0 points. task_result name agent baseline r' = Inr d0 \<and> task_result_scoring (Some (PDict d0)) = Inr (points, PDict d)"
    "vs_runtime t' = vs_runtime t2"
  using assms
proof (cases rule: evaluate_task_session_Inr)
  case (1 config tc tools baseline w rt kr ended failure r r' agent t1 t2)
  from 1(11) obtain d0 points where d0: "task_result (ts_task_id (st_spec (ev_setup ev))) agent baseline r' = Inr d0"
      "task_result_scoring (Some (PDict d0)) = Inr (points, PDict d)" "vs_runtime t' = vs_runtime t2"
    by (rule write_and_score_Inr)
  from d0(2) have d: "d = dput d0 ''score'' (PFloat points)"
    by (auto simp: task_result_scoring_def rbind_eq_Inr)
  note opt = task_result_optional [OF d0(1)] dlookup_optional
  have kept: "dlookup d k = dlookup d0 k" if "k \<noteq> ''score''" for k using that by (simp add: d dict_simps)
  note r' = supplemented_kernel [OF 1(10)]
  have "self_explaining (sr_kernel r')"
    using framework_result_explains [OF 1(9) guarded_explains [OF 1(7)]] r' by simp
  moreover have "dlookup d ''framework_error'' = map_option PStr (sr_framework_error r)"
    "dlookup d ''candidate_source_error'' = map_option PStr (sr_source_error r)"
    "dlookup d ''runtime_identity'' = Some (opt_value PDict (sr_runtime r))"
    "dlookup d ''tool_evaluation'' = map_option (report_to_dict False) (kr_tools (sr_kernel r))"
    using opt r' by (simp_all add: kept)
  ultimately show ?thesis using 1 d0 r' that by blast
qed

section \<open>The runtime is bound once\<close>

definition keeps_runtime :: "'w evaluation_state \<Rightarrow> 'w evaluation_state \<Rightarrow> bool" where
  "keeps_runtime t t' = (\<forall>b. vs_runtime t = Some b \<longrightarrow> vs_runtime t' = Some b)"

lemma keeps_runtimeI: "vs_runtime t' = vs_runtime t \<Longrightarrow> keeps_runtime t t'"
  by (simp add: keeps_runtime_def)

lemma keeps_runtime_trans: "keeps_runtime t u \<Longrightarrow> keeps_runtime u v \<Longrightarrow> keeps_runtime t v"
  by (simp add: keeps_runtime_def)

lemma save_document_runtime [simp]: "vs_runtime (save_document ev name v t) = vs_runtime t"
  by (simp add: save_document_def)

lemma on_session_runtime: "on_session f t = (r, t') \<Longrightarrow> vs_runtime t' = vs_runtime t"
  by (auto simp: on_session_def split: prod.splits)

lemma measure_candidate_runtime: "measure_candidate ev baseline kr t = (r, t') \<Longrightarrow> vs_runtime t' = vs_runtime t"
  unfolding measure_candidate_def
  by (elim sbindE) (auto dest: on_session_runtime split: sum.splits if_splits)

lemma evaluate_kernel_runtime: "evaluate_kernel ev m tools config baseline t = (r, t') \<Longrightarrow> vs_runtime t' = vs_runtime t"
  unfolding evaluate_kernel_def Let_def case_prod_unfold
  by (elim sbindE)
     (auto dest!: on_session_runtime measure_candidate_runtime elim!: sbindE split: if_splits)

lemma bind_session_runtime_keeps:
  "bind_session_runtime ev config t = (r, t') \<Longrightarrow> keeps_runtime t t'"
  unfolding bind_session_runtime_def
  by (elim sbindE) (auto simp: keeps_runtime_def split: if_splits option.splits)

lemma guarded_evaluation_keeps:
  assumes "guarded_evaluation ev tools config baseline t = (x, r, t')"
  shows "keeps_runtime t t'"
proof -
  obtain b t1 where b: "bind_session_runtime ev config t = (b, t1)" by fastforce
  have "vs_runtime t' = vs_runtime t1"
    using assms b
    by (auto simp: guarded_evaluation_def split: prod.splits sum.splits elim!: sbindE
        dest!: on_session_runtime evaluate_kernel_runtime)
  then show ?thesis
    using keeps_runtime_trans [OF bind_session_runtime_keeps [OF b] keeps_runtimeI] by blast
qed

lemma write_and_score_runtime: "write_and_score ev agent baseline r t = (x, t') \<Longrightarrow> vs_runtime t' = vs_runtime t"
  unfolding write_and_score_def Let_def by (elim sbindE) auto

lemma evaluation_keeps_runtime:
  assumes "evaluate_task_session ev cfg extra t = (r, t')"
  shows "keeps_runtime t t'"
proof -
  have "keeps_runtime t t''" if "(case guarded_evaluation ev tools config baseline u of ((rt, kr), ended, t) \<Rightarrow>
     sbind (case ended of Inr _ \<Rightarrow> Inr None | Inl e \<Rightarrow> if caught e then Inr (Some e) else Inl e, t) (\<lambda>failure t.
     sbind (framework_result ev (vs_session t) rt kr failure, t) (\<lambda>r t.
     sbind (supplemented extra r, t) (\<lambda>r t.
     sbind (agent_template cfg, t) (\<lambda>agent_name t.
     write_and_score ev agent_name baseline r t))))) = (x, t'')" "vs_runtime u = vs_runtime t"
    for tools config baseline u x t''
  proof -
    obtain rt kr ended v where g: "guarded_evaluation ev tools config baseline u = ((rt, kr), ended, v)"
      by (metis prod.exhaust)
    with that(1) have "vs_runtime t'' = vs_runtime v"
      by (auto elim!: sbindE dest: write_and_score_runtime)
    with guarded_evaluation_keeps [OF g] that(2) show ?thesis by (simp add: keeps_runtime_def)
  qed
  note rest = this
  from assms show ?thesis unfolding evaluate_task_session_def Let_def
    by (elim sbindE) (auto intro: keeps_runtimeI elim!: rest)
qed

text \<open>A result whose evaluation did not fail in the framework, under a bound runtime.\<close>

definition result_of_runtime :: "pydict option \<Rightarrow> pyval \<Rightarrow> bool" where
  "result_of_runtime bound doc =
     (case doc of PDict d \<Rightarrow>
        (if dlookup d ''framework_error'' \<noteq> None then True
         else \<exists>b rt. bound = Some b \<and> dlookup d ''runtime_identity'' = Some (PDict rt)
                \<and> (rt = b \<or> py_eq (PDict b) (PDict rt)))
      | _ \<Rightarrow> True)"

lemma evaluation_result_of_runtime:
  assumes "evaluate_task_session ev cfg extra t = (Inr doc, t')"
  shows "result_of_runtime (vs_runtime t') doc"
proof (cases doc)
  case (PDict d)
  with assms have "evaluate_task_session ev cfg extra t = (Inr (PDict d), t')" by simp
  then show ?thesis
  proof (cases rule: evaluation_saves)
    case (1 config tools baseline t1 t2 rt kr ended failure r r')
    show ?thesis
    proof (cases "sr_framework_error r")
      case None
      with 1(4) have "failure = None" "sr_runtime r = rt"
        by (auto simp: framework_result_def Let_def split: sum.splits if_splits)
      with 1(3) obtain u where "ended = Inr u" by (cases ended) auto
      with 1(2) have "guarded_evaluation ev tools config baseline t1 = ((rt, kr), Inr u, t2)" by simp
      then show ?thesis
      proof (cases rule: guarded_evaluation_ok)
        case (1 id1 u1 manager u2 u3)
        note g = this
        have "vs_runtime t2 = vs_runtime u1"
          using g by (auto dest!: on_session_runtime evaluate_kernel_runtime)
        with bind_session_runtime_ok [OF g(1)] obtain b where b: "vs_runtime t2 = Some b" "id1 = b \<or> py_eq (PDict b) (PDict id1)"
          by (cases "vs_runtime t1") auto
        have "dlookup d ''runtime_identity'' = Some (PDict id1)"
          using \<open>dlookup d ''runtime_identity'' = _\<close> \<open>sr_runtime r = rt\<close> g(2) by (simp add: opt_value_def)
        with b \<open>vs_runtime t' = vs_runtime t2\<close> PDict show ?thesis by (auto simp: result_of_runtime_def)
      qed
    next
      case (Some m)
      with \<open>dlookup d ''framework_error'' = _\<close> PDict show ?thesis by (simp add: result_of_runtime_def)
    qed
  qed
qed (simp_all add: result_of_runtime_def)

section \<open>Runs of evaluations\<close>

text \<open>
  Between evaluations the agent edits the candidate and the session may be loaded anew; the saved
  results are kept beside the state.
\<close>

inductive evaluation_step ::
    "'w evaluator \<Rightarrow> 'w evaluation_state \<times> pyval list \<Rightarrow> 'w evaluation_state \<times> pyval list \<Rightarrow> bool" for ev where
  evaluates: "evaluate_task_session ev cfg extra t = (Inr doc, t') \<Longrightarrow> evaluation_step ev (t, ds) (t', ds @ [doc])"
| raises: "evaluate_task_session ev cfg extra t = (Inl e, t') \<Longrightarrow> evaluation_step ev (t, ds) (t', ds)"
| resumes: "evaluation_step ev (t, ds) (t\<lparr>vs_session := s\<rparr>, ds)"

inductive_cases evaluation_stepE: "evaluation_step ev (t, ds) u"

definition one_runtime :: "'w evaluation_state \<times> pyval list \<Rightarrow> bool" where
  "one_runtime p = (case p of (t, ds) \<Rightarrow> list_all (result_of_runtime (vs_runtime t)) ds)"

lemma result_of_runtime_keeps:
  "result_of_runtime (vs_runtime t) doc \<Longrightarrow> keeps_runtime t t' \<Longrightarrow> result_of_runtime (vs_runtime t') doc"
  by (auto simp: result_of_runtime_def keeps_runtime_def split: pyval.splits if_splits)

lemma one_runtime_keeps:
  "one_runtime (t, ds) \<Longrightarrow> keeps_runtime t t' \<Longrightarrow> one_runtime (t', ds)"
  by (auto simp: one_runtime_def list_all_iff intro: result_of_runtime_keeps)

interpretation evaluations: invariant_system "\<lambda>p. snd p = []" "evaluation_step ev" one_runtime for ev
proof unfold_locales
  fix s :: "'a evaluation_state \<times> pyval list"
  assume "snd s = []"
  then show "one_runtime s" by (cases s) (simp add: one_runtime_def)
next
  fix s u :: "'a evaluation_state \<times> pyval list"
  assume inv: "one_runtime s" and step: "evaluation_step ev s u"
  obtain t ds where s: "s = (t, ds)" by (cases s)
  have keep: "one_runtime (t', ds)" if "keeps_runtime t t'" for t'
    using inv that unfolding s by (rule one_runtime_keeps)
  consider (evaluated) cfg extra doc t' where "evaluate_task_session ev cfg extra t = (Inr doc, t')" "u = (t', ds @ [doc])"
    | (raised) cfg extra e t' where "evaluate_task_session ev cfg extra t = (Inl e, t')" "u = (t', ds)"
    | (resumed) s' where "u = (t\<lparr>vs_session := s'\<rparr>, ds)"
    using step unfolding s by (rule evaluation_stepE) blast+
  then show "one_runtime u"
  proof cases
    case (evaluated cfg extra doc t')
    with keep [OF evaluation_keeps_runtime] evaluation_result_of_runtime
    show ?thesis by (fastforce simp: one_runtime_def)
  next
    case (raised cfg extra e t')
    with keep [OF evaluation_keeps_runtime] show ?thesis by simp
  next
    case (resumed s')
    with keep [OF keeps_runtimeI] show ?thesis by simp
  qed
qed

end
