(* ===== verification/EvaluatorProps.thy ===== *)
theory EvaluatorProps
  imports EvaluatorRuns EvalProps TaskSessionProps
begin

text \<open>
  The properties of the evaluator, each applied to a small session: the demo session with a baseline
  of 3 ms and a candidate of 1.5 ms.
\<close>

section \<open>A small evaluation\<close>

definition demo_evaluator :: "unit evaluator" where
  "demo_evaluator =
     \<lparr>ev_setup = demo, ev_runtime = (\<lambda>_. Inr [(PStr ''gpu_arch'', PStr ''gfx942'')]),
      ev_submission = (\<lambda>w. (Inr no_evidence, w)), ev_tools = asan_input,
      ev_files = \<lparr>fv_resolve = (\<lambda>p. p), fv_contents = (\<lambda>_. None)\<rparr>, ev_environ = (\<lambda>_. None),
      ev_save = (\<lambda>_ _ w. w)\<rparr>"

definition baseline_timing :: executed_action where
  "baseline_timing = \<lparr>xa_invocation_id = ''4'', xa_result =
     \<lparr>ar_role = ''baseline'', ar_action = ''performance'', ar_status = ''PASS'',
      ar_cases = [[(PStr ''test_case_id'', PStr ''a''), (PStr ''status'', PStr ''PASS''),
        (PStr ''execution_time_ms'', PFloat (Fin 3)), (PStr ''benchmark_method'', PStr ''cuda_graph'')]],
      ar_reason = PNone, ar_failure_kind = PNone, ar_metadata = PNone\<rparr>, xa_commands = []\<rparr>"

definition demo_ready :: "unit session" where
  "demo_ready = demo_loaded\<lparr>ss_results := (\<lambda>k. if k = (''task_validation'', ''baseline'', ''performance'')
      then Some baseline_timing else None)\<rparr>"

definition demo_state :: "unit evaluation_state" where
  "demo_state = \<lparr>vs_session = demo_ready, vs_runtime = None, vs_documents = []\<rparr>"

definition evaluated :: "unit evaluator \<Rightarrow> unit evaluation_state \<Rightarrow> pydict \<times> unit evaluation_state" where
  "evaluated ev t =
     (case evaluate_task_session ev [] None t of (r, t') \<Rightarrow>
        (case r of Inr (PDict d) \<Rightarrow> d | _ \<Rightarrow> [], t'))"

definition saved :: "pydict \<Rightarrow> pyval \<times> pyval" where
  "saved d = (dget d ''score'', dget d ''speedup_ratio'')"

definition saves :: "pyval \<times> pyval \<Rightarrow> (eval_error, pyval) result \<times> 'w evaluation_state \<Rightarrow> bool" where
  "saves v p = (case fst p of Inr (PDict d) \<Rightarrow> saved d = v | _ \<Rightarrow> False)"

lemma evaluatedI:
  assumes "saves v (evaluate_task_session ev [] None t)"
  shows "evaluate_task_session ev [] None t = (Inr (PDict (fst (evaluated ev t))), snd (evaluated ev t))
    \<and> saved (fst (evaluated ev t)) = v"
  using assms by (auto simp: saves_def evaluated_def split: prod.splits sum.splits pyval.splits)

lemma demo_evaluation:
  "saves (PFloat (Fin 320), PFloat (Fin 2)) (evaluate_task_session demo_evaluator [] None demo_state)"
  by code_simp

lemmas demo_evaluated = evaluatedI [OF demo_evaluation, THEN conjunct1]

lemma dget_some: "dget d k = v \<Longrightarrow> v \<noteq> PNone \<Longrightarrow> dlookup d k = Some v"
  by (auto simp: dget_default_def split: option.splits)

lemma demo_saved: "dlookup (fst (evaluated demo_evaluator demo_state)) ''score'' = Some (PFloat (Fin 320))"
  using evaluatedI [OF demo_evaluation] by (auto simp: saved_def intro: dget_some)

text \<open>The same session on a machine without a usable GPU.\<close>

definition no_gpu :: "unit evaluator" where
  "no_gpu = demo_evaluator\<lparr>ev_runtime := (\<lambda>_. Inl (Fatal ''V2 GPU tasks require an available ROCm GPU in the scoring runtime''))\<rparr>"

lemma no_gpu_evaluation:
  "case fst (evaluate_task_session no_gpu [] None demo_state) of Inr (PDict d) \<Rightarrow>
     dget d ''framework_error'' = PStr ''RuntimeError: V2 GPU tasks require an available ROCm GPU in the scoring runtime'' | _ \<Rightarrow> False"
  by code_simp

section \<open>Properties\<close>

text \<open>
  C1.  Performance points are measured: whenever an evaluation saves a score above the correctness tier,
  the task was accepted, and this very evaluation compiled the candidate, then checked it, then timed
  it, each with a passing result and with nothing but the tools' own effect on the world in between;
  the reported ratio is the gated average over the baseline evidence and that timing, every time of
  both is valid, and the ratio is finite and positive.
\<close>

theorem performance_points_measured:
  assumes "evaluate_task_session ev cfg extra t = (Inr (PDict d), t')"
    and "dlookup d ''score'' = Some (PFloat v)" "flt (Fin 120) v"
  shows "accepted_initially (vs_session t)
    \<and> (\<exists>w c s1 k s2 w' x s3 baseline cases speedup.
         candidate_action (ev_setup ev) ''compile'' ((vs_session t)\<lparr>ss_world := w\<rparr>) = (Inr c, s1) \<and> passed (xa_result c)
       \<and> candidate_action (ev_setup ev) ''correctness'' s1 = (Inr k, s2) \<and> passed (xa_result k)
       \<and> candidate_action (ev_setup ev) ''performance'' (s2\<lparr>ss_world := w'\<rparr>) = (Inr x, s3) \<and> passed (xa_result x)
       \<and> baseline_evidence (vs_session t) = Inr baseline \<and> performance_cases (xa_result x) = Inr cases
       \<and> calculate_average_speedup baseline cases True = Inr speedup
       \<and> list_all valid_case baseline \<and> list_all valid_case cases
       \<and> dlookup d ''speedup_ratio'' = Some (PFloat speedup) \<and> isfinite speedup \<and> flt (Fin 0) speedup)"
  using assms
proof (cases rule: points_are_measured)
  case (1 config tc tools baseline rt w w' manager kr)
  from 1(8) obtain c s1 k s2 kr1 kr2 s3 x s4 cases where m:
      "candidate_action (ev_setup ev) ''compile'' ((vs_session t)\<lparr>ss_world := w\<rparr>) = (Inr c, s1)" "passed (xa_result c)"
      "candidate_action (ev_setup ev) ''correctness'' s1 = (Inr k, s2)" "passed (xa_result k)"
      "tool_gate manager tools config kr1 s2 = (Inr kr2, s3)" "kr_pass_tool_gate kr1"
      "candidate_action (ev_setup ev) ''performance'' s3 = (Inr x, s4)" "passed (xa_result x)"
      "performance_cases (xa_result x) = Inr cases" "sound_speedup baseline cases kr"
    using 1(9) unfolding measured_def by blast
  from m(5,6) have "\<exists>w'. s3 = s2\<lparr>ss_world := w'\<rparr>"
  proof (cases rule: tool_gate_cases)
    case disabled
    then show ?thesis by (metis same_world)
  next
    case (judged _ run)
    with 1(7) show ?thesis by (auto dest: world_onlyD)
  qed
  with 1 m show ?thesis unfolding sound_speedup_def by blast
qed

lemma performance_points_measured_witness:
  "accepted_initially demo_ready
   \<and> (\<exists>baseline. baseline_evidence demo_ready = Inr baseline \<and> list_all valid_case baseline)"
proof -
  have "flt (Fin 120) (Fin 320)" by simp
  from performance_points_measured [OF demo_evaluated demo_saved this]
  show ?thesis by (auto simp: demo_state_def)
qed

text \<open>
  C17.  A failure of the framework, or a candidate whose sources cannot be collected, costs everything:
  the saved result is marked as failed in compilation and correctness, has no speedup and scores 0,
  whatever the actions before the failure returned.
\<close>

theorem framework_failure_scores_zero:
  assumes "evaluate_task_session ev cfg extra t = (Inr (PDict d), t')"
    and "dlookup d ''framework_error'' \<noteq> None \<or> dlookup d ''candidate_source_error'' \<noteq> None"
  shows "dlookup d ''score'' = Some (PFloat (Fin 0)) \<and> dlookup d ''pass_compilation'' = Some (PBool False)
    \<and> dlookup d ''pass_correctness'' = Some (PBool False) \<and> dlookup d ''speedup_ratio'' = Some (PFloat (Fin 0))"
  using assms(1)
proof (cases rule: evaluation_saves)
  case (1 config tools baseline t1 t2 rt kr ended failure r r')
  have "sr_framework_error r \<noteq> None \<or> sr_source_error r \<noteq> None" using assms(2) 1(7,8) by auto
  note f = framework_failure_discredits [OF 1(4) this]
  from 1(11) obtain name agent d0 points where d0: "task_result name agent baseline r' = Inr d0"
      "task_result_scoring (Some (PDict d0)) = Inr (points, PDict d)" by blast
  from d0(1) 1(6) d0(2) show ?thesis
  proof (cases rule: scoring_fields)
    case s: (1 speedup)
    from s(6) f \<open>sr_kernel r' = sr_kernel r\<close> have "points = Fin 0" by (auto simp: score_def)
    with s f \<open>sr_kernel r' = sr_kernel r\<close> show ?thesis by (auto split: if_splits)
  qed
qed

lemma framework_failure_scores_zero_witness:
  "case fst (evaluate_task_session no_gpu [] None demo_state) of Inr (PDict d) \<Rightarrow>
     dlookup d ''score'' = Some (PFloat (Fin 0)) | _ \<Rightarrow> False"
proof -
  obtain d t' where d: "evaluate_task_session no_gpu [] None demo_state = (Inr (PDict d), t')"
    using no_gpu_evaluation
    by (cases "evaluate_task_session no_gpu [] None demo_state") (auto split: sum.splits pyval.splits)
  with no_gpu_evaluation have "dget d ''framework_error'' \<noteq> PNone" by simp
  then have "dlookup d ''framework_error'' \<noteq> None" by (auto simp: dget_default_def split: option.splits)
  with framework_failure_scores_zero [OF d] d show ?thesis by simp
qed

text \<open>
  C18.  One runtime per run: however often a session is evaluated, with any edits and reloads in between,
  all results that are saved without a framework error come from the runtime identity that was bound
  first and that the state still holds.
\<close>

theorem results_share_runtime:
  assumes "run (evaluation_step ev) (t, []) n (t', ds)"
  shows "list_all (result_of_runtime (vs_runtime t')) ds"
  using evaluations.run_inv [OF assms] by (simp add: one_runtime_def)

lemma results_share_runtime_witness:
  "result_of_runtime (vs_runtime (snd (evaluated demo_evaluator demo_state))) (PDict (fst (evaluated demo_evaluator demo_state)))"
proof -
  have "run (evaluation_step demo_evaluator) (demo_state, []) (Suc 0)
      (snd (evaluated demo_evaluator demo_state), [] @ [PDict (fst (evaluated demo_evaluator demo_state))])"
    by (rule run.more, rule evaluates [OF demo_evaluated], rule run.none)
  from results_share_runtime [OF this [unfolded append_Nil]] show ?thesis by simp
qed

end
