(* ===== verification/HarnessGuard.thy ===== *)
theory HarnessGuard
  imports TaskSpec
begin

text \<open>
  \<open>src/harness_guard.py\<close> for tasks of schema version 2: which files of a workspace are protected, the
  digest of a protected Python file whose editable definitions are left out, the policy those
  definitions must meet, and \<open>verify_workspace_harness\<close>, which discards what the agent added and
  refuses what it changed.

  A workspace is the list of its files by path relative to the root, each a regular file with its
  contents or a symbolic link out of the workspace.  \<open>ast.parse\<close>, \<open>ast.dump\<close> and the hash are arguments.
  A message names what was refused; the source text of an expression is not repeated in it.
\<close>

section \<open>Syntax trees\<close>

text \<open>
  A node of Python's \<open>ast\<close>: its class, its child nodes by field in order, and its other fields.  A
  field without a node has no entry.
\<close>

datatype syntax_node =
  Ast (kind: string) (parts: "(string \<times> syntax_node) list") (atoms: "(string \<times> string) list")

definition part :: "string \<Rightarrow> syntax_node \<Rightarrow> syntax_node list" where
  "part f n = map snd (filter (\<lambda>p. fst p = f) (parts n))"

definition atom :: "string \<Rightarrow> syntax_node \<Rightarrow> string option" where
  "atom f n = map_of (atoms n) f"

definition node_name :: "syntax_node \<Rightarrow> string" where
  "node_name n = (case atom ''name'' n of Some s \<Rightarrow> s | None \<Rightarrow> [])"

definition name_id :: "syntax_node \<Rightarrow> string" where
  "name_id n = (case atom ''id'' n of Some s \<Rightarrow> s | None \<Rightarrow> [])"

text \<open>\<open>ast.walk\<close>; the callers do not depend on its order.\<close>

fun walk :: "syntax_node \<Rightarrow> syntax_node list" where
  "walk (Ast k cs as) = Ast k cs as # concat (map (\<lambda>c. walk (snd c)) cs)"

definition is_kind :: "string list \<Rightarrow> syntax_node \<Rightarrow> bool" where
  "is_kind ks n = (kind n \<in> set ks)"

abbreviation definition_kinds :: "string list" where
  "definition_kinds \<equiv> [''FunctionDef'', ''AsyncFunctionDef'', ''ClassDef'']"

abbreviation function_kinds :: "string list" where
  "function_kinds \<equiv> [''FunctionDef'', ''AsyncFunctionDef'']"

definition statement_kinds :: "string list" where
  "statement_kinds =
     [''FunctionDef'', ''AsyncFunctionDef'', ''ClassDef'', ''Return'', ''Delete'', ''Assign'', ''TypeAlias'',
      ''AugAssign'', ''AnnAssign'', ''For'', ''AsyncFor'', ''While'', ''If'', ''With'', ''AsyncWith'', ''Match'',
      ''Raise'', ''Try'', ''TryStar'', ''Assert'', ''Import'', ''ImportFrom'', ''Global'', ''Nonlocal'', ''Expr'',
      ''Pass'', ''Break'', ''Continue'']"

definition first_part :: "string \<Rightarrow> string" where
  "first_part s = hd (split_on CHR ''.'' s)"

definition alias_binding :: "syntax_node \<Rightarrow> string" where
  "alias_binding a = (case atom ''asname'' a of Some s \<Rightarrow> if s \<noteq> [] then s else first_part (node_name a)
                      | None \<Rightarrow> first_part (node_name a))"

definition target_names :: "syntax_node list \<Rightarrow> string list" where
  "target_names ts = map name_id (filter (is_kind [''Name'']) (concat (map walk ts)))"

text \<open>\<open>_top_level_names\<close> of a parsed module.\<close>

definition statement_names :: "syntax_node \<Rightarrow> string list" where
  "statement_names n =
     (if is_kind definition_kinds n then [node_name n]
      else if is_kind [''Import'', ''ImportFrom''] n then map alias_binding (part ''names'' n)
      else if is_kind [''Assign''] n then target_names (part ''targets'' n)
      else if is_kind [''AnnAssign''] n then target_names (part ''target'' n)
      else [])"

definition top_level_names :: "syntax_node list \<Rightarrow> string list" where
  "top_level_names stmts = concat (map statement_names stmts)"

text \<open>Bindings of imports: an association list, the latest first.\<close>

type_synonym bindings = "(string \<times> string) list"

definition import_binding :: "syntax_node \<Rightarrow> bindings" where
  "import_binding n =
     (if is_kind [''Import''] n then
        map (\<lambda>a. case atom ''asname'' a of
                   Some s \<Rightarrow> if s \<noteq> [] then (s, node_name a) else (first_part (node_name a), first_part (node_name a))
                 | None \<Rightarrow> (first_part (node_name a), first_part (node_name a))) (part ''names'' n)
      else if is_kind [''ImportFrom''] n then
        (case atom ''module'' n of
           Some m \<Rightarrow>
             if m \<noteq> [] \<and> atom ''level'' n \<in> {None, Some ''0''} then
               map (\<lambda>a. (case atom ''asname'' a of Some s \<Rightarrow> if s \<noteq> [] then s else node_name a | None \<Rightarrow> node_name a,
                         m @ ''.'' @ node_name a))
                 (filter (\<lambda>a. node_name a \<noteq> ''*'') (part ''names'' n))
             else []
         | None \<Rightarrow> [])
      else [])"

definition import_bindings :: "syntax_node list \<Rightarrow> bindings" where
  "import_bindings stmts = rev (concat (map import_binding stmts))"

fun qualified_import :: "bindings \<Rightarrow> syntax_node \<Rightarrow> string option" where
  "qualified_import b (Ast k cs as) =
     (if k = ''Name'' then map_of b (name_id (Ast k cs as))
      else if k = ''Attribute'' then
        (case concat (map (\<lambda>c. if fst c = ''value'' then [qualified_import b (snd c)] else []) cs) of
           Some q # _ \<Rightarrow> if q \<noteq> [] then Some (q @ ''.'' @ (case map_of as ''attr'' of Some a \<Rightarrow> a | None \<Rightarrow> [])) else None
         | _ \<Rightarrow> None)
      else None)"

definition without :: "string list \<Rightarrow> bindings \<Rightarrow> bindings" where
  "without names b = filter (\<lambda>kv. fst kv \<notin> set names) b"

definition passive_expression :: "syntax_node list \<Rightarrow> bool" where
  "passive_expression es =
     (\<not> list_ex (is_kind [''Call'', ''NamedExpr'', ''Await'', ''Yield'', ''YieldFrom'', ''ListComp'', ''SetComp'',
                         ''DictComp'', ''GeneratorExp'']) (concat (map walk es)))"

text \<open>\<open>_definition_calls\<close>: the calls that run when a definition is executed; of a lambda only those of
  its defaults.\<close>

fun definition_calls :: "syntax_node \<Rightarrow> syntax_node list"
  and default_calls :: "syntax_node \<Rightarrow> syntax_node list" where
  "definition_calls (Ast k cs as) =
     (if k = ''Lambda'' then concat (map (\<lambda>c. if fst c = ''args'' then default_calls (snd c) else []) cs)
      else (if k = ''Call'' then [Ast k cs as] else []) @ concat (map (\<lambda>c. definition_calls (snd c)) cs))"
| "default_calls (Ast k cs as) =
     concat (map (\<lambda>c. if fst c = ''defaults'' \<or> fst c = ''kw_defaults'' then definition_calls (snd c) else []) cs)"

definition parameters :: "syntax_node \<Rightarrow> syntax_node list" where
  "parameters n = concat (map (\<lambda>a. concat (map (\<lambda>f. part f a) [''posonlyargs'', ''args'', ''kwonlyargs'', ''vararg'', ''kwarg'']))
     (part ''args'' n))"

definition arg_name :: "syntax_node \<Rightarrow> string" where
  "arg_name n = (case atom ''arg'' n of Some s \<Rightarrow> s | None \<Rightarrow> [])"

definition called :: "syntax_node \<Rightarrow> syntax_node list" where
  "called c = part ''func'' c"

text \<open>A call of a plain name among the given ones.\<close>

definition calls_name :: "(string \<Rightarrow> bool) \<Rightarrow> syntax_node \<Rightarrow> bool" where
  "calls_name P c = list_ex (\<lambda>f. is_kind [''Name''] f \<and> P (name_id f)) (called c)"

definition calls_import :: "bindings \<Rightarrow> string list \<Rightarrow> syntax_node \<Rightarrow> bool" where
  "calls_import b names c = list_ex (\<lambda>f. case qualified_import b f of Some q \<Rightarrow> q \<in> set names | None \<Rightarrow> False) (called c)"

section \<open>Configuration factories\<close>

definition local_names :: "syntax_node \<Rightarrow> string list" where
  "local_names n =
     map name_id (filter (\<lambda>i. is_kind [''Name''] i \<and> list_ex (is_kind [''Store'']) (part ''ctx'' i)) (walk n))
     @ map arg_name (parameters n)"

definition factory_statement_ok :: "syntax_node \<Rightarrow> bool" where
  "factory_statement_ok i =
     ((is_kind statement_kinds i \<and> \<not> is_kind [''Return'', ''Assign'', ''AnnAssign'', ''If'', ''Pass''] i
         \<longrightarrow> is_kind [''Expr''] i \<and> list_all (is_kind [''Constant'']) (part ''value'' i))
      \<and> (is_kind [''Assign''] i \<longrightarrow> list_all (is_kind [''Name'']) (part ''targets'' i))
      \<and> (is_kind [''AnnAssign''] i \<longrightarrow> list_all (is_kind [''Name'']) (part ''target'' i))
      \<and> \<not> is_kind [''NamedExpr'', ''Await'', ''Yield'', ''YieldFrom''] i)"

definition factory_call_ok :: "bindings \<Rightarrow> string list \<Rightarrow> string list \<Rightarrow> string list \<Rightarrow> syntax_node \<Rightarrow> bool" where
  "factory_call_ok b protected_functions bound locals c =
     (calls_name (\<lambda>f. f \<in> set protected_functions \<and> f \<notin> set locals) c
      \<or> calls_name (\<lambda>f. f = ''range'' \<and> f \<notin> set bound \<union> set locals) c
      \<or> calls_import (without locals b)
          [''triton.Config'', ''triton.cdiv'', ''triton.next_power_of_2'', ''itertools.product''] c)"

definition config_factory_body_allowed :: "syntax_node \<Rightarrow> bindings \<Rightarrow> string list \<Rightarrow> string list \<Rightarrow> bool" where
  "config_factory_body_allowed n b protected_functions bound =
     (part ''decorator_list'' n = []
      \<and> list_all (\<lambda>s. list_all factory_statement_ok (walk s)
                      \<and> list_all (factory_call_ok b protected_functions bound (local_names n)) (definition_calls s))
          (part ''body'' n))"

section \<open>Editable definitions\<close>

definition compiler_decorators :: "string list" where
  "compiler_decorators = [''triton.jit'', ''triton.autotune'', ''triton.heuristics'']"

definition test_lifecycle_names :: "string list" where
  "test_lifecycle_names =
     [''setup_module'', ''teardown_module'', ''setup_function'', ''teardown_function'',
      ''setup_class'', ''teardown_class'', ''setup_method'', ''teardown_method'']"

text \<open>The names an editable definition is checked against.\<close>

record definition_scope =
  ds_initial :: "string list"
  ds_defined :: "string list"
  ds_factories :: "string list"

definition decorator_target :: "syntax_node \<Rightarrow> syntax_node list" where
  "decorator_target d = (if is_kind [''Call''] d then called d else [d])"

definition plain_method :: "bindings \<Rightarrow> definition_scope \<Rightarrow> bool \<Rightarrow> syntax_node \<Rightarrow> bool" where
  "plain_method b sc is_method d =
     (is_method \<and> is_kind [''Name''] d \<and> name_id d \<in> {''staticmethod'', ''classmethod'', ''property''}
      \<and> map_of b (name_id d) = None \<and> name_id d \<notin> set (ds_initial sc) \<union> set (ds_defined sc))"

definition test_reference :: "bindings \<Rightarrow> syntax_node \<Rightarrow> bool" where
  "test_reference b i =
     (case qualified_import b i of None \<Rightarrow> False | Some q \<Rightarrow> first_part q \<in> {''pytest'', ''unittest'', ''pluggy''})"

definition decorator_call_ok :: "bindings \<Rightarrow> definition_scope \<Rightarrow> syntax_node \<Rightarrow> bool" where
  "decorator_call_ok b sc c =
     (calls_import b [''triton.Config'', ''triton.cdiv'', ''triton.next_power_of_2''] c
      \<or> calls_name (\<lambda>f. f \<in> set (ds_factories sc)) c
      \<or> calls_name (\<lambda>f. f = ''range'' \<and> f \<notin> set (ds_initial sc) \<union> set (ds_defined sc)) c)"

text \<open>The expressions given to a decorator that is called.\<close>

definition decorator_values :: "syntax_node \<Rightarrow> syntax_node list" where
  "decorator_values d =
     (if is_kind [''Call''] d then part ''args'' d @ concat (map (part ''value'') (part ''keywords'' d)) else [])"

definition check_value :: "bindings \<Rightarrow> definition_scope \<Rightarrow> string \<Rightarrow> syntax_node \<Rightarrow> (string, unit) result" where
  "check_value b sc name v =
     rbind (guardR (\<not> list_ex (is_kind [''NamedExpr'']) (walk v))
              (''Decorator on '' @ name @ '' contains a binding expression'')) (\<lambda>_.
     guardR (list_all (decorator_call_ok b sc) (definition_calls v))
       (''Unapproved definition-time factory in decorator on '' @ name))"

definition check_decorator ::
    "bindings \<Rightarrow> definition_scope \<Rightarrow> bool \<Rightarrow> string \<Rightarrow> syntax_node \<Rightarrow> (string, unit) result" where
  "check_decorator b sc is_method name d =
     rbind (guardR (list_ex (\<lambda>t. case qualified_import b t of Some q \<Rightarrow> q \<in> set compiler_decorators | None \<Rightarrow> False)
                      (decorator_target d) \<or> plain_method b sc is_method d)
              (''Unsupported decorator on editable definition '' @ name)) (\<lambda>_.
     rbind (guardR (\<not> list_ex (test_reference b) (walk d)) (''Test environment reference in decorator on '' @ name)) (\<lambda>_.
     rbind (mapR (check_value b sc name) (decorator_values d)) (\<lambda>_. Inr ())))"

definition function_expressions :: "syntax_node \<Rightarrow> syntax_node list" where
  "function_expressions n =
     concat (map (\<lambda>a. part ''defaults'' a @ part ''kw_defaults'' a) (part ''args'' n)) @ part ''returns'' n
     @ concat (map (part ''annotation'') (parameters n))"

definition class_local_names :: "syntax_node \<Rightarrow> string list" where
  "class_local_names n =
     concat (map (\<lambda>c. if is_kind definition_kinds c then [node_name c]
                      else if is_kind [''Assign''] c then map name_id (filter (is_kind [''Name'']) (part ''targets'' c))
                      else if is_kind [''AnnAssign''] c then map name_id (filter (is_kind [''Name'']) (part ''target'' c))
                      else []) (part ''body'' n))"

definition passive_member :: "syntax_node \<Rightarrow> bool" where
  "passive_member c =
     (is_kind [''Pass''] c
      \<or> is_kind [''Expr''] c \<and> list_all (is_kind [''Constant'']) (part ''value'' c)
      \<or> is_kind [''Assign''] c \<and> list_all (is_kind [''Name'']) (part ''targets'' c) \<and> passive_expression (part ''value'' c)
      \<or> is_kind [''AnnAssign''] c \<and> list_all (is_kind [''Name'']) (part ''target'' c)
          \<and> passive_expression (part ''value'' c) \<and> passive_expression (part ''annotation'' c))"

definition check_helper_name :: "bool \<Rightarrow> bool \<Rightarrow> string \<Rightarrow> (string, unit) result" where
  "check_helper_name new_helper is_method name =
     (if new_helper \<and> \<not> is_method \<and> name \<in> {''__getattr__'', ''__dir__''}
      then Inl (''New module helper '' @ name @ '' is an automatic introspection hook'')
      else if new_helper \<and> (starts_with ''test'' name \<or> starts_with ''Test'' name \<or> starts_with ''pytest_'' name
                            \<or> name \<in> set test_lifecycle_names)
      then Inl (''New helper '' @ name @ '' is a test or test lifecycle hook'')
      else Inr ())"

definition check_bases :: "definition_scope \<Rightarrow> syntax_node \<Rightarrow> (string, unit) result" where
  "check_bases sc n =
     guardR (part ''keywords'' n = []
             \<and> list_all (\<lambda>base. is_kind [''Name''] base \<and> name_id base = ''object''
                               \<and> ''object'' \<notin> set (ds_initial sc) \<union> set (ds_defined sc)) (part ''bases'' n))
       (''Editable helper class '' @ node_name n @ '' has executable bases/metaclass'')"

definition inner_scope :: "syntax_node \<Rightarrow> definition_scope \<Rightarrow> definition_scope" where
  "inner_scope n sc =
     sc\<lparr>ds_defined := ds_defined sc @ class_local_names n,
        ds_factories := filter (\<lambda>f. f \<notin> set (class_local_names n)) (ds_factories sc)\<rparr>"

text \<open>
  \<open>_validate_editable_definition\<close>: the part that does not look into a class body, and then the members
  of a class as new helpers that are methods.
\<close>

definition check_head ::
    "bindings \<Rightarrow> definition_scope \<Rightarrow> bool \<Rightarrow> bool \<Rightarrow> syntax_node \<Rightarrow> (string, unit) result" where
  "check_head b sc new_helper is_method n =
     rbind (check_helper_name new_helper is_method (node_name n)) (\<lambda>_.
     rbind (mapR (check_decorator b sc is_method (node_name n)) (part ''decorator_list'' n)) (\<lambda>_.
     if is_kind function_kinds n
     then guardR (passive_expression (function_expressions n))
            (''Editable definition '' @ node_name n @ '' has executable defaults or annotations'')
     else check_bases sc n))"

fun validate_definition ::
    "bindings \<Rightarrow> definition_scope \<Rightarrow> bool \<Rightarrow> bool \<Rightarrow> syntax_node \<Rightarrow> (string, unit) result" where
  "validate_definition b sc new_helper is_method (Ast k cs as) =
     (let n = Ast k cs as in
      rbind (check_head b sc new_helper is_method n) (\<lambda>_.
      if is_kind function_kinds n then Inr () else
      rbind (mapR (\<lambda>c.
         if fst c \<noteq> ''body'' then Inr ()
         else if kind (snd c) \<in> set definition_kinds
         then validate_definition (without (class_local_names n) b) (inner_scope n sc) True True (snd c)
         else guardR (passive_member (snd c)) (''Editable helper class '' @ node_name n @ '' has an executable class body''))
        cs) (\<lambda>_. Inr ())))"

section \<open>Protected files\<close>

definition harness_dirs :: "string list" where
  "harness_dirs = [''script'', ''scripts'', ''test'', ''tests'']"

definition harness_file_names :: "string list" where
  "harness_file_names =
     [''_aka_benchmark.py'', ''config.yaml'', ''config.yml'', ''conftest.py'', ''hip_graph_benchmark.hpp'',
      ''performance_utils_pytest.py'']"

definition harness_file_suffixes :: "string list" where
  "harness_file_suffixes = [''_test.py'', ''_test.cpp'', ''_test.cu'', ''_test.hip'', ''_harness.py'']"

definition ignored_runtime_dirs :: "string list" where
  "ignored_runtime_dirs =
     [''.git'', ''.task-venv'', ''.validator_torch_extensions'', ''.venv'', ''__pycache__'']"

definition v2_output_names :: "string list" where
  "v2_output_names =
     [''task_result.yaml'', ''validation_report.yaml'', ''.validation_complete'', ''baseline_perf.yaml'',
      ''optimized_perf.yaml'']"

definition v2_runtime_dirs :: "string list" where
  "v2_runtime_dirs = ignored_runtime_dirs @ [''build'', ''logs'', ''perf'', ''.pytest_cache'']"

definition file_dirs :: "string \<Rightarrow> string list" where
  "file_dirs p = butlast (split_on CHR ''/'' p)"

definition file_name :: "string \<Rightarrow> string" where
  "file_name p = last (split_on CHR ''/'' p)"

definition is_protected_path :: "string \<Rightarrow> bool" where
  "is_protected_path p =
     (list_ex (\<lambda>d. d \<in> set harness_dirs) (file_dirs p) \<or> file_name p \<in> set harness_file_names
      \<or> list_ex (\<lambda>s. ends_with s (file_name p)) harness_file_suffixes)"

text \<open>A regular file, or a link out of the workspace that leads to a file or not.\<close>

datatype guard_file = Contents string | Outside bool

type_synonym workspace = "(string \<times> guard_file) list"

fun is_file :: "guard_file option \<Rightarrow> bool" where
  "is_file (Some (Contents _)) = True"
| "is_file (Some (Outside b)) = b"
| "is_file None = False"

definition v2_files :: "workspace \<Rightarrow> string list" where
  "v2_files ws =
     filter (\<lambda>p. is_file (map_of ws p) \<and> \<not> list_ex (\<lambda>d. d \<in> set v2_runtime_dirs) (file_dirs p)
                 \<and> file_name p \<notin> set v2_output_names) (map fst ws)"

definition protects :: "edit_scope list \<Rightarrow> string \<Rightarrow> bool" where
  "protects edits p =
     (case filter (\<lambda>e. contains e p) edits of
        [] \<Rightarrow> True
      | e # _ \<Rightarrow> es_scope e = ''symbols'' \<or> is_protected_path p)"

definition v2_protected_paths :: "workspace \<Rightarrow> edit_scope list \<Rightarrow> string list" where
  "v2_protected_paths ws edits = filter (protects edits) (v2_files ws)"

section \<open>Digests\<close>

datatype guard_error = Tampered string | BadScope string | BadSource string

text \<open>The parser of a file's bytes (\<open>None\<close> is any of the three caught errors), the digest of a module with
  the given statements, and the digest of bytes.\<close>

record guard_env =
  ge_parse :: "string \<Rightarrow> syntax_node list option"
  ge_tree :: "syntax_node list \<Rightarrow> string"
  ge_bytes :: "string \<Rightarrow> string"

definition definitions_in :: "string list \<Rightarrow> syntax_node list \<Rightarrow> syntax_node list" where
  "definitions_in ks stmts = filter (is_kind ks) stmts"

definition editable_name :: "edit_scope \<Rightarrow> string list \<Rightarrow> string \<Rightarrow> bool" where
  "editable_name e initial name =
     (name \<in> set (es_symbols e) \<or> es_allow_new_helpers e \<and> name \<notin> set initial)"

definition editable_statement :: "edit_scope \<Rightarrow> string list \<Rightarrow> syntax_node \<Rightarrow> bool" where
  "editable_statement e initial n = (is_kind definition_kinds n \<and> editable_name e initial (node_name n))"

text \<open>The functions a definition may call while it is executed: the protected ones and the editable
  configuration constructors.  Of several functions of one name the last counts.\<close>

definition protected_function_names :: "edit_scope \<Rightarrow> string list \<Rightarrow> syntax_node list \<Rightarrow> string list" where
  "protected_function_names e initial stmts =
     filter (\<lambda>f. f \<in> set initial \<and> f \<notin> set (es_symbols e))
       (map node_name (definitions_in [''FunctionDef''] stmts))"

definition configuration_factories ::
    "edit_scope \<Rightarrow> string list \<Rightarrow> string list \<Rightarrow> syntax_node list \<Rightarrow> string list" where
  "configuration_factories e initial entrypoints stmts =
     (let functions = definitions_in [''FunctionDef''] stmts;
          defined = map node_name (definitions_in definition_kinds stmts);
          safe = protected_function_names e initial stmts in
      safe @ filter (\<lambda>f. f \<in> set initial \<and> f \<in> set (es_symbols e) \<and> f \<notin> set entrypoints
          \<and> (case map_of (rev (map (\<lambda>n. (node_name n, n)) functions)) f of
               None \<Rightarrow> False
             | Some n \<Rightarrow> config_factory_body_allowed n (import_bindings stmts) safe (initial @ defined)))
        (map node_name functions))"

definition definition_scope_of ::
    "edit_scope \<Rightarrow> string list \<Rightarrow> string list \<Rightarrow> syntax_node list \<Rightarrow> definition_scope" where
  "definition_scope_of e initial entrypoints stmts =
     \<lparr>ds_initial = initial, ds_defined = map node_name (definitions_in definition_kinds stmts),
      ds_factories = configuration_factories e initial entrypoints stmts\<rparr>"

definition rejected :: "string \<Rightarrow> string \<Rightarrow> guard_error" where
  "rejected path m = Tampered (''Protected test/harness policy rejected '' @ file_name path @ '': '' @ m)"

definition duplicate_definitions :: "edit_scope \<Rightarrow> string list \<Rightarrow> syntax_node list \<Rightarrow> string list" where
  "duplicate_definitions e initial stmts =
     (let names = map node_name (definitions_in definition_kinds stmts) in
      filter (\<lambda>n. editable_name e initial n \<and> length (filter ((=) n) names) \<noteq> 1) names)"

definition kept_statements :: "edit_scope \<Rightarrow> string list \<Rightarrow> syntax_node list \<Rightarrow> syntax_node list" where
  "kept_statements e initial stmts = filter (\<lambda>n. \<not> editable_statement e initial n) stmts"

definition v2_symbol_digest ::
    "guard_env \<Rightarrow> string \<Rightarrow> string \<Rightarrow> edit_scope \<Rightarrow> string list \<Rightarrow> string list \<Rightarrow> (guard_error, string) result" where
  "v2_symbol_digest ge path contents e initial entrypoints =
     (case ge_parse ge contents of
        None \<Rightarrow> Inr (''invalid-python:'' @ ge_bytes ge contents)
      | Some stmts \<Rightarrow>
          (case duplicate_definitions e initial stmts of
             n # _ \<Rightarrow> Inl (rejected path (''Multiple definitions of editable binding '' @ n))
           | [] \<Rightarrow>
             rbind (map_error (rejected path)
                (mapR (\<lambda>n. validate_definition (import_bindings stmts) (definition_scope_of e initial entrypoints stmts)
                             (node_name n \<notin> set initial) False n)
                  (filter (editable_statement e initial) stmts))) (\<lambda>_.
             Inr (ge_tree ge (kept_statements e initial stmts)))))"

definition symbol_scope :: "edit_scope list \<Rightarrow> string \<Rightarrow> edit_scope option" where
  "symbol_scope edits p = find (\<lambda>e. es_path e = p) (rev (filter (\<lambda>e. es_scope e = ''symbols'') edits))"

definition entry_symbols :: "candidate_spec \<Rightarrow> string \<Rightarrow> string list" where
  "entry_symbols cand p =
     concat (map (\<lambda>x. case ep_symbol x of Some s \<Rightarrow> if ep_file x = p \<and> s \<noteq> [] then [s] else [] | None \<Rightarrow> [])
       (cand_entrypoints cand))"

type_synonym symbol_table = "(string \<times> string list) list"

definition initial_names :: "symbol_table \<Rightarrow> string \<Rightarrow> string list" where
  "initial_names tab p = (case map_of tab p of Some ns \<Rightarrow> ns | None \<Rightarrow> [])"

definition has_py_suffix :: "string \<Rightarrow> bool" where
  "has_py_suffix p = (ends_with ''.py'' (file_name p) \<and> file_name p \<noteq> ''.py'')"

text \<open>One round of the loop of \<open>_v2_digests\<close>: nothing for a path without a file.\<close>

definition path_digest ::
    "guard_env \<Rightarrow> candidate_spec \<Rightarrow> symbol_table \<Rightarrow> workspace \<Rightarrow> string \<Rightarrow> (guard_error, (string \<times> string) list) result" where
  "path_digest ge cand tab ws p =
     (if \<not> relative_ok p then Inl (Tampered (''Protected task path escaped workspace: '' @ p))
      else case map_of ws p of
        None \<Rightarrow> Inr []
      | Some (Outside _) \<Rightarrow> Inl (Tampered (''Protected task path escaped workspace: '' @ p))
      | Some (Contents contents) \<Rightarrow>
          (case symbol_scope (cand_editable cand) p of
             Some e \<Rightarrow>
               if has_py_suffix p
               then rbind (v2_symbol_digest ge p contents e (initial_names tab p) (entry_symbols cand p))
                      (\<lambda>d. Inr [(p, d)])
               else Inl (BadScope (''Symbol-scoped protection currently requires Python: '' @ p))
           | None \<Rightarrow> Inr [(p, ge_bytes ge contents)]))"

definition selected_paths :: "workspace \<Rightarrow> string list \<Rightarrow> string list" where
  "selected_paths ws paths = sort (remdups (paths @ filter is_protected_path (v2_files ws)))"

definition v2_digests ::
    "guard_env \<Rightarrow> candidate_spec \<Rightarrow> symbol_table \<Rightarrow> string list \<Rightarrow> workspace
      \<Rightarrow> (guard_error, (string \<times> string) list) result" where
  "v2_digests ge cand tab paths ws =
     rbind (mapR (path_digest ge cand tab ws) (selected_paths ws paths)) (\<lambda>ds. Inr (concat ds))"

section \<open>Snapshot and verification\<close>

record snapshot =
  sn_candidate :: candidate_spec
  sn_digests :: "(string \<times> string) list"
  sn_symbols :: symbol_table

definition file_symbols :: "guard_env \<Rightarrow> workspace \<Rightarrow> edit_scope \<Rightarrow> (guard_error, string \<times> string list) result" where
  "file_symbols ge ws e =
     (case map_of ws (es_path e) of
        Some (Contents contents) \<Rightarrow>
          (case ge_parse ge contents of
             Some stmts \<Rightarrow> Inr (es_path e, top_level_names stmts)
           | None \<Rightarrow> Inl (BadSource (es_path e)))
      | _ \<Rightarrow> Inl (BadScope (''Task path cannot be resolved within workspace: '' @ es_path e)))"

definition snapshot_workspace_harness :: "guard_env \<Rightarrow> candidate_spec \<Rightarrow> workspace \<Rightarrow> (guard_error, snapshot) result" where
  "snapshot_workspace_harness ge cand ws =
     rbind (mapR (file_symbols ge ws) (filter (\<lambda>e. es_scope e = ''symbols'') (cand_editable cand))) (\<lambda>tab.
     rbind (v2_digests ge cand tab (v2_protected_paths ws (cand_editable cand)) ws) (\<lambda>ds.
     Inr \<lparr>sn_candidate = cand, sn_digests = ds, sn_symbols = tab\<rparr>))"

definition scan_harness :: "guard_env \<Rightarrow> snapshot \<Rightarrow> workspace \<Rightarrow> (guard_error, (string \<times> string) list) result" where
  "scan_harness ge sn ws = v2_digests ge (sn_candidate sn) (sn_symbols sn) (map fst (sn_digests sn)) ws"

definition unlink :: "string list \<Rightarrow> workspace \<Rightarrow> workspace" where
  "unlink paths ws = filter (\<lambda>f. fst f \<notin> set paths) ws"

definition modified_paths :: "(string \<times> string) list \<Rightarrow> (string \<times> string) list \<Rightarrow> string list" where
  "modified_paths before now =
     map fst (filter (\<lambda>(p, d). map_of now p \<noteq> None \<and> map_of now p \<noteq> Some d) before)"

definition deleted_paths :: "(string \<times> string) list \<Rightarrow> (string \<times> string) list \<Rightarrow> string list" where
  "deleted_paths before now = filter (\<lambda>p. map_of now p = None) (map fst before)"

definition compare_digests :: "(string \<times> string) list \<Rightarrow> (string \<times> string) list \<Rightarrow> (guard_error, unit) result" where
  "compare_digests before now =
     (if modified_paths before now = [] \<and> deleted_paths before now = [] then Inr ()
      else Inl (Tampered ''Protected test/harness files changed during agent execution; kernel score is rejected to prevent harness hacking''))"

definition verify_workspace_harness ::
    "guard_env \<Rightarrow> snapshot \<Rightarrow> bool \<Rightarrow> workspace \<Rightarrow> (guard_error, unit) result \<times> workspace" where
  "verify_workspace_harness ge sn discard_added ws =
     (case scan_harness ge sn ws of
        Inl e \<Rightarrow> (Inl e, ws)
      | Inr now \<Rightarrow>
          (let discarded = filter (\<lambda>p. p \<notin> fst ` set (sn_digests sn)) (map fst now) in
           if discarded \<noteq> [] \<and> \<not> discard_added
           then (Inl (Tampered ''Added protected harness files require review''), ws)
           else if discarded = [] then (compare_digests (sn_digests sn) now, ws)
           else let ws' = unlink discarded ws in
             (rbind (scan_harness ge sn ws') (compare_digests (sn_digests sn)), ws')))"

end
