(* ===== verification/HarnessGuardFacts.thy ===== *)
theory HarnessGuardFacts
  imports HarnessGuard
begin

text \<open>
  Facts about the harness guard: what a scan lists, that a snapshot accepts the workspace it was taken
  of, what an accepted workspace shares with the snapshot, and what an accepted editable definition
  cannot be.
\<close>

section \<open>Scans\<close>

definition contents_at :: "workspace \<Rightarrow> string \<Rightarrow> bool" where
  "contents_at ws p = (\<exists>c. map_of ws p = Some (Contents c))"

lemma path_digest_Inr:
  assumes "path_digest ge cand tab ws p = Inr ds"
  shows "map fst ds = (if contents_at ws p then [p] else [])"
  using assms
  by (auto simp: path_digest_def contents_at_def rbind_eq_Inr split: if_splits option.splits guard_file.splits)

lemma path_digests_Inr:
  assumes "mapR (path_digest ge cand tab ws) ps = Inr dss"
  shows "map fst (concat dss) = filter (contents_at ws) ps
    \<and> (\<forall>(p, d) \<in> set (concat dss). path_digest ge cand tab ws p = Inr [(p, d)])"
  using assms
proof (induction ps arbitrary: dss)
  case (Cons p ps)
  then obtain ds dss' where d: "path_digest ge cand tab ws p = Inr ds" "mapR (path_digest ge cand tab ws) ps = Inr dss'"
      "dss = ds # dss'" by (auto simp: rbind_eq_Inr)
  moreover have "ds = [] \<or> (\<exists>x. ds = [(p, x)])" using path_digest_Inr [OF d(1)] by (cases ds) (auto split: if_splits)
  ultimately show ?case using Cons.IH [OF d(2)] path_digest_Inr [OF d(1)] by auto
qed simp

lemma selected_paths_set: "set (selected_paths ws ps) = set ps \<union> {p \<in> set (v2_files ws). is_protected_path p}"
  by (auto simp: selected_paths_def)

lemma selected_paths_sorted: "sorted (selected_paths ws ps)" "distinct (selected_paths ws ps)"
  by (simp_all add: selected_paths_def)

lemma v2_digests_Inr:
  assumes "v2_digests ge cand tab ps ws = Inr ds"
  shows "map fst ds = filter (contents_at ws) (selected_paths ws ps)"
    and "\<And>p d. (p, d) \<in> set ds \<Longrightarrow> path_digest ge cand tab ws p = Inr [(p, d)]"
    and "\<And>p. p \<in> set (selected_paths ws ps) \<Longrightarrow> \<exists>x. path_digest ge cand tab ws p = Inr x"
proof -
  from assms obtain dss where m: "mapR (path_digest ge cand tab ws) (selected_paths ws ps) = Inr dss" "ds = concat dss"
    by (auto simp: v2_digests_def rbind_eq_Inr)
  from path_digests_Inr [OF m(1)] m(2) show "map fst ds = filter (contents_at ws) (selected_paths ws ps)"
    and "\<And>p d. (p, d) \<in> set ds \<Longrightarrow> path_digest ge cand tab ws p = Inr [(p, d)]" by auto
  from m(1) show "\<exists>x. path_digest ge cand tab ws p = Inr x" if "p \<in> set (selected_paths ws ps)" for p
    using that by (fastforce simp: mapR_eq_Inr list_all2_conv_all_nth in_set_conv_nth)
qed

lemma v2_digests_keys:
  assumes "v2_digests ge cand tab ps ws = Inr ds"
  shows "distinct (map fst ds)" "sorted (map fst ds)"
  using v2_digests_Inr(1) [OF assms] selected_paths_sorted [of ws ps] by (simp_all add: sorted_wrt_filter)

text \<open>A selected path with a file has contents: a link out of the workspace ends the scan.\<close>

lemma selected_file_contents:
  assumes "v2_digests ge cand tab ps ws = Inr ds" "p \<in> set (selected_paths ws ps)" "is_file (map_of ws p)"
  shows "contents_at ws p"
proof -
  from v2_digests_Inr(3) [OF assms(1,2)] obtain x where "path_digest ge cand tab ws p = Inr x" by blast
  with assms(3) show ?thesis
    by (auto simp: path_digest_def contents_at_def split: if_splits option.splits guard_file.splits)
qed

lemma v2_files_is_file: "p \<in> set (v2_files ws) \<Longrightarrow> is_file (map_of ws p)"
  by (simp add: v2_files_def)

lemma pattern_protected: "is_protected_path p \<Longrightarrow> protects edits p"
  by (simp add: protects_def split: list.splits)

lemma contents_is_file: "contents_at ws p \<Longrightarrow> is_file (map_of ws p)"
  by (auto simp: contents_at_def)

section \<open>A snapshot accepts its own workspace\<close>

lemma snapshot_Inr:
  assumes "snapshot_workspace_harness ge cand ws = Inr sn"
  shows "v2_digests ge cand (sn_symbols sn) (v2_protected_paths ws (cand_editable cand)) ws = Inr (sn_digests sn)
    \<and> sn_candidate sn = cand"
  using assms by (auto simp: snapshot_workspace_harness_def rbind_eq_Inr)

lemma snapshot_paths:
  assumes "snapshot_workspace_harness ge cand ws = Inr sn"
  shows "set (map fst (sn_digests sn)) = set (v2_protected_paths ws (cand_editable cand))"
proof -
  note s = snapshot_Inr [OF assms, THEN conjunct1]
  have sel: "set (selected_paths ws (v2_protected_paths ws (cand_editable cand))) = set (v2_protected_paths ws (cand_editable cand))"
    by (auto simp: selected_paths_set v2_protected_paths_def pattern_protected)
  have "set (map fst (sn_digests sn)) = {p \<in> set (v2_protected_paths ws (cand_editable cand)). contents_at ws p}"
    using v2_digests_Inr(1) [OF s] sel by simp
  moreover have "contents_at ws p" if "p \<in> set (v2_protected_paths ws (cand_editable cand))" for p
    using that sel by (intro selected_file_contents [OF s]) (auto simp: v2_protected_paths_def v2_files_is_file)
  ultimately show ?thesis by blast
qed

lemma compare_same: "distinct (map fst ds) \<Longrightarrow> compare_digests ds ds = Inr ()"
proof -
  assume "distinct (map fst ds)"
  then have "modified_paths ds ds = []" "deleted_paths ds ds = []"
    by (auto simp: modified_paths_def deleted_paths_def filter_empty_conv map_of_eq_None_iff)
  then show ?thesis by (simp add: compare_digests_def)
qed

lemma sorted_distinct_same_set: "sorted xs \<Longrightarrow> sorted ys \<Longrightarrow> distinct xs \<Longrightarrow> distinct ys \<Longrightarrow> set xs = set ys \<Longrightarrow> xs = ys"
  for xs :: "'a::linorder list"
  by (metis sorted_distinct_set_unique)

lemma scan_own_workspace:
  assumes "snapshot_workspace_harness ge cand ws = Inr sn"
  shows "scan_harness ge sn ws = Inr (sn_digests sn)"
proof -
  note s = snapshot_Inr [OF assms]
  have "selected_paths ws (map fst (sn_digests sn)) = selected_paths ws (v2_protected_paths ws (cand_editable cand))"
    by (rule sorted_distinct_same_set)
       (use snapshot_paths [OF assms] in \<open>simp_all add: selected_paths_sorted selected_paths_set\<close>)
  with s show ?thesis by (simp add: scan_harness_def v2_digests_def)
qed

lemma verify_own_workspace:
  assumes "snapshot_workspace_harness ge cand ws = Inr sn"
  shows "verify_workspace_harness ge sn discard_added ws = (Inr (), ws)"
proof -
  have d: "distinct (map fst (sn_digests sn))" using snapshot_Inr [OF assms] v2_digests_keys(1) by blast
  have "filter (\<lambda>p. p \<notin> fst ` set (sn_digests sn)) (map fst (sn_digests sn)) = []" by (auto simp: filter_empty_conv)
  then show ?thesis
    by (simp add: verify_workspace_harness_def scan_own_workspace [OF assms] compare_same [OF d] Let_def)
qed

section \<open>Accepted workspaces\<close>

lemma compare_Inr:
  assumes "compare_digests before now = Inr u" "distinct (map fst before)" "(p, d) \<in> set before"
  shows "map_of now p = Some d"
proof -
  from assms(1) have m: "modified_paths before now = []" "deleted_paths before now = []"
    by (auto simp: compare_digests_def split: if_splits)
  from m(2) assms(3) have "map_of now p \<noteq> None" by (force simp: deleted_paths_def filter_empty_conv)
  moreover from m(1) assms(3) have "map_of now p = None \<or> map_of now p = Some d"
    by (force simp: modified_paths_def filter_empty_conv)
  ultimately show ?thesis by auto
qed

text \<open>
  Verification ends well after discarding only files the snapshot does not know and whose names are
  those of a harness; a second scan then matches the snapshot.
\<close>

lemma verify_accepts:
  assumes "verify_workspace_harness ge sn discard_added ws = (Inr u, ws')"
  obtains removed now where "ws' = unlink removed ws" "list_all is_protected_path removed"
    "set removed \<inter> fst ` set (sn_digests sn) = {}" "discard_added \<or> removed = []"
    "scan_harness ge sn ws' = Inr now" "compare_digests (sn_digests sn) now = Inr ()"
    "list_all (\<lambda>p. p \<in> fst ` set (sn_digests sn)) (filter is_protected_path (v2_files ws'))"
proof -
  from assms obtain now where now: "scan_harness ge sn ws = Inr now"
    by (auto simp: verify_workspace_harness_def split: sum.splits)
  let ?discarded = "filter (\<lambda>p. p \<notin> fst ` set (sn_digests sn)) (map fst now)"
  have keys: "map fst now = filter (contents_at ws) (selected_paths ws (map fst (sn_digests sn)))"
    using now v2_digests_Inr(1) by (simp add: scan_harness_def)
  have pattern: "p \<in> fst ` set (sn_digests sn) \<union> set ?discarded"
    if "p \<in> set (v2_files ws)" "is_protected_path p" for p
  proof -
    have "p \<in> set (selected_paths ws (map fst (sn_digests sn)))" using that by (simp add: selected_paths_set)
    moreover from this have "contents_at ws p"
      using now that(1) unfolding scan_harness_def by (auto intro: selected_file_contents v2_files_is_file)
    ultimately have "p \<in> set (map fst now)" using keys by simp
    then show ?thesis by auto
  qed
  have files: "set (v2_files (unlink ps ws)) \<subseteq> set (v2_files ws) - set ps" for ps
  proof -
    have "map_of (unlink ps ws) p = map_of ws p" if "p \<notin> set ps" for p
      using that by (induction ws) (auto simp: unlink_def)
    then show ?thesis by (auto simp: v2_files_def unlink_def)
  qed
  show ?thesis
  proof (cases "?discarded = []")
    case True
    with assms now have "compare_digests (sn_digests sn) now = Inr ()" "ws' = ws"
      by (auto simp: verify_workspace_harness_def Let_def)
    moreover have "unlink [] ws = ws" by (simp add: unlink_def)
    moreover have "list_all (\<lambda>p. p \<in> fst ` set (sn_digests sn)) (filter is_protected_path (v2_files ws))"
      using pattern unfolding True by (simp add: list_all_iff)
    ultimately show ?thesis using now by (intro that [of "[]" now]) simp_all
  next
    case False
    with assms now have r: "discard_added" "ws' = unlink ?discarded ws"
        "rbind (scan_harness ge sn ws') (compare_digests (sn_digests sn)) = Inr ()"
      by (auto simp: verify_workspace_harness_def Let_def split: if_splits)
    from r(3) obtain now' where now': "scan_harness ge sn ws' = Inr now'" "compare_digests (sn_digests sn) now' = Inr ()"
      by (auto simp: rbind_eq_Inr)
    have "list_all is_protected_path ?discarded"
      using keys by (force simp: list_all_iff selected_paths_set)
    moreover have "p \<in> fst ` set (sn_digests sn)" if "p \<in> set (v2_files ws')" "is_protected_path p" for p
      using pattern [of p] that files [of ?discarded] r(2) by blast
    moreover have "set ?discarded \<inter> fst ` set (sn_digests sn) = {}" by auto
    ultimately show ?thesis using r(1) now' by (intro that [OF r(2)]) (simp_all add: list_all_iff)
  qed
qed

text \<open>In an accepted workspace every file of the snapshot is there with the digest it had.\<close>

lemma accepted_digests:
  assumes "verify_workspace_harness ge sn discard_added ws = (Inr u, ws')" "distinct (map fst (sn_digests sn))"
    and "(p, d) \<in> set (sn_digests sn)"
  shows "path_digest ge (sn_candidate sn) (sn_symbols sn) ws' p = Inr [(p, d)]"
proof -
  from assms(1) obtain removed now where "scan_harness ge sn ws' = Inr now" "compare_digests (sn_digests sn) now = Inr ()"
    by (rule verify_accepts)
  then have "(p, d) \<in> set now" using compare_Inr [OF _ assms(2,3)] by (auto dest: map_of_SomeD)
  with \<open>scan_harness ge sn ws' = Inr now\<close> show ?thesis
    unfolding scan_harness_def by (rule v2_digests_Inr(2))
qed

end
