(* ===== verification/HarnessGuardProps.thy ===== *)
theory HarnessGuardProps
  imports HarnessGuardFacts EvaluatorProps
begin

text \<open>
  The properties of the harness guard, and the guard as the check a session's host makes: before a
  result counts, the workspace is verified to have the harness the snapshot was taken of.
\<close>

section \<open>What a digest stands for\<close>

text \<open>
  The protected view of a file: its bytes, or the statements left when the editable definitions are
  taken out.
\<close>

definition protected_view ::
    "guard_env \<Rightarrow> candidate_spec \<Rightarrow> symbol_table \<Rightarrow> string \<Rightarrow> string \<Rightarrow> string + syntax_node list" where
  "protected_view ge cand tab p c =
     (case symbol_scope (cand_editable cand) p of
        None \<Rightarrow> Inl c
      | Some e \<Rightarrow> (case ge_parse ge c of None \<Rightarrow> Inl c | Some stmts \<Rightarrow> Inr (kept_statements e (initial_names tab p) stmts)))"

definition view_digest :: "guard_env \<Rightarrow> candidate_spec \<Rightarrow> string \<Rightarrow> string + syntax_node list \<Rightarrow> string" where
  "view_digest ge cand p v =
     (case v of
        Inl c \<Rightarrow> (if symbol_scope (cand_editable cand) p = None then ge_bytes ge c
                  else ''invalid-python:'' @ ge_bytes ge c)
      | Inr stmts \<Rightarrow> ge_tree ge stmts)"

lemma path_digest_view:
  assumes "path_digest ge cand tab ws p = Inr [(p, d)]"
  obtains c where "map_of ws p = Some (Contents c)" "d = view_digest ge cand p (protected_view ge cand tab p c)"
  using assms
  by (auto simp: path_digest_def v2_symbol_digest_def view_digest_def protected_view_def rbind_eq_Inr
      split: if_splits option.splits guard_file.splits list.splits)

text \<open>The hash separates the protected views of the files two workspaces have at the same path.\<close>

definition collision_free :: "guard_env \<Rightarrow> snapshot \<Rightarrow> workspace \<Rightarrow> workspace \<Rightarrow> bool" where
  "collision_free ge sn ws0 ws =
     (\<forall>p c0 c. map_of ws0 p = Some (Contents c0) \<longrightarrow> map_of ws p = Some (Contents c) \<longrightarrow>
        view_digest ge (sn_candidate sn) p (protected_view ge (sn_candidate sn) (sn_symbols sn) p c0)
          = view_digest ge (sn_candidate sn) p (protected_view ge (sn_candidate sn) (sn_symbols sn) p c) \<longrightarrow>
        protected_view ge (sn_candidate sn) (sn_symbols sn) p c0 = protected_view ge (sn_candidate sn) (sn_symbols sn) p c)"

text \<open>Both workspaces have the file, with the same protected view.\<close>

definition same_protected :: "guard_env \<Rightarrow> snapshot \<Rightarrow> workspace \<Rightarrow> workspace \<Rightarrow> string \<Rightarrow> bool" where
  "same_protected ge sn ws0 ws p =
     (case (map_of ws0 p, map_of ws p) of
        (Some (Contents c0), Some (Contents c)) \<Rightarrow>
          protected_view ge (sn_candidate sn) (sn_symbols sn) p c = protected_view ge (sn_candidate sn) (sn_symbols sn) p c0
      | _ \<Rightarrow> False)"

lemma accepted_same_protected:
  assumes "snapshot_workspace_harness ge cand ws0 = Inr sn"
    and v: "verify_workspace_harness ge sn discard_added ws = (Inr u, ws')" and cf: "collision_free ge sn ws0 ws'"
    and p: "p \<in> set (v2_protected_paths ws0 (cand_editable cand))"
  shows "same_protected ge sn ws0 ws' p"
proof -
  note s = snapshot_Inr [OF assms(1)]
  have sn: "v2_digests ge (sn_candidate sn) (sn_symbols sn) (v2_protected_paths ws0 (cand_editable cand)) ws0 = Inr (sn_digests sn)"
    using s by simp
  obtain d where d: "(p, d) \<in> set (sn_digests sn)" using snapshot_paths [OF assms(1)] p by (force simp: image_iff)
  obtain c0 where c0: "map_of ws0 p = Some (Contents c0)"
      "d = view_digest ge (sn_candidate sn) p (protected_view ge (sn_candidate sn) (sn_symbols sn) p c0)"
    using v2_digests_Inr(2) [OF sn d] by (rule path_digest_view)
  obtain c where c: "map_of ws' p = Some (Contents c)"
      "d = view_digest ge (sn_candidate sn) p (protected_view ge (sn_candidate sn) (sn_symbols sn) p c)"
    using accepted_digests [OF v v2_digests_keys(1) [OF sn] d] by (rule path_digest_view)
  have "protected_view ge (sn_candidate sn) (sn_symbols sn) p c0 = protected_view ge (sn_candidate sn) (sn_symbols sn) p c"
    using cf c0 c unfolding collision_free_def by blast
  with c0(1) c(1) show ?thesis by (simp add: same_protected_def)
qed

section \<open>Editable definitions\<close>

text \<open>
  The definitions that are executed while an editable definition of a module is: itself and, when it
  is a class, those of its body, each with the names that the classes around it bind and whether it is
  a member of one.
\<close>

fun executed_definitions :: "string list \<Rightarrow> bool \<Rightarrow> syntax_node \<Rightarrow> (string list \<times> bool \<times> syntax_node) list" where
  "executed_definitions hidden is_member (Ast k cs as) =
     (hidden, is_member, Ast k cs as) #
     (if k \<in> set function_kinds then [] else
      concat (map (\<lambda>c. if fst c = ''body'' \<and> kind (snd c) \<in> set definition_kinds
                       then executed_definitions (hidden @ class_local_names (Ast k cs as)) True (snd c) else []) cs))"

text \<open>
  A call in the body of a function that makes configurations: of a protected function, of \<open>range\<close> or of the
  constructors and arithmetic of the compiler and \<open>itertools\<close>, by names that the function does not rebind.
\<close>

definition factory_call :: "edit_scope \<Rightarrow> string list \<Rightarrow> syntax_node list \<Rightarrow> string list \<Rightarrow> syntax_node \<Rightarrow> bool" where
  "factory_call e initial stmts locals c =
     (calls_name (\<lambda>f. f \<in> set (protected_function_names e initial stmts) \<and> f \<notin> set locals) c
      \<or> calls_name (\<lambda>f. f = ''range'' \<and> f \<notin> set locals) c
      \<or> calls_import (without locals (import_bindings stmts))
          [''triton.Config'', ''triton.cdiv'', ''triton.next_power_of_2'', ''itertools.product''] c)"

definition makes_configurations :: "edit_scope \<Rightarrow> string list \<Rightarrow> syntax_node list \<Rightarrow> syntax_node \<Rightarrow> bool" where
  "makes_configurations e initial stmts n =
     (is_kind [''FunctionDef''] n \<and> part ''decorator_list'' n = []
      \<and> list_all (factory_call e initial stmts (local_names n)) (concat (map definition_calls (part ''body'' n))))"

text \<open>
  A call that an argument of a decorator may make, by a name that no class around it binds: the
  compiler's constructor and arithmetic, \<open>range\<close> when the module has no definition of that name, a function of the
  initial module that is protected, or one that is editable, no entry point, and makes configurations.
\<close>

definition permitted_call ::
    "edit_scope \<Rightarrow> string list \<Rightarrow> string list \<Rightarrow> syntax_node list \<Rightarrow> string list \<Rightarrow> syntax_node \<Rightarrow> bool" where
  "permitted_call e initial entrypoints stmts hidden c =
     (calls_import (without hidden (import_bindings stmts)) [''triton.Config'', ''triton.cdiv'', ''triton.next_power_of_2''] c
      \<or> calls_name (\<lambda>f. f = ''range'' \<and> f \<notin> set initial \<and> f \<notin> set hidden
          \<and> f \<notin> node_name ` set (definitions_in definition_kinds stmts)) c
      \<or> calls_name (\<lambda>f. f \<notin> set hidden \<and> f \<in> set initial
          \<and> (f \<notin> set (es_symbols e) \<or> f \<notin> set entrypoints)
          \<and> list_ex (\<lambda>n. is_kind [''FunctionDef''] n \<and> node_name n = f
               \<and> (f \<in> set (es_symbols e) \<longrightarrow> makes_configurations e initial stmts n)) stmts) c)"

text \<open>
  A decorator is a compiler's, or a builtin one on a member that nothing rebinds; nothing in it is of a test
  framework, and its arguments bind no name and make permitted calls only.
\<close>

definition safe_decorator ::
    "edit_scope \<Rightarrow> string list \<Rightarrow> string list \<Rightarrow> syntax_node list \<Rightarrow> string list \<Rightarrow> bool \<Rightarrow> syntax_node \<Rightarrow> bool" where
  "safe_decorator e initial entrypoints stmts hidden is_member d =
     ((list_ex (\<lambda>t. qualified_import (without hidden (import_bindings stmts)) t \<in> Some ` set compiler_decorators)
         (decorator_target d)
       \<or> is_member \<and> is_kind [''Name''] d \<and> name_id d \<in> {''staticmethod'', ''classmethod'', ''property''}
           \<and> name_id d \<notin> set initial \<union> set hidden)
      \<and> \<not> list_ex (test_reference (without hidden (import_bindings stmts))) (walk d)
      \<and> list_all (\<lambda>v. \<not> list_ex (is_kind [''NamedExpr'']) (walk v)
            \<and> list_all (permitted_call e initial entrypoints stmts hidden) (definition_calls v)) (decorator_values d))"

text \<open>
  What an executed definition may be.  A new one, and every member of a class, has no name of a test or of a
  test life-cycle function, and a new one of the module no name of an introspection hook.  Its decorators
  are safe, and defaults and annotations call nothing.  A class has no metaclass, no base but \<open>object\<close>, and
  its body is made of definitions, constants and assignments to names whose expressions call nothing.
\<close>

definition harmless ::
    "edit_scope \<Rightarrow> string list \<Rightarrow> string list \<Rightarrow> syntax_node list \<Rightarrow> string list \<times> bool \<times> syntax_node \<Rightarrow> bool" where
  "harmless e initial entrypoints stmts = (\<lambda>(hidden, is_member, n).
     (is_member \<or> node_name n \<notin> set initial \<longrightarrow>
        \<not> (starts_with ''test'' (node_name n) \<or> starts_with ''Test'' (node_name n) \<or> starts_with ''pytest_'' (node_name n))
        \<and> node_name n \<notin> set test_lifecycle_names \<and> (is_member \<or> node_name n \<notin> {''__getattr__'', ''__dir__''}))
      \<and> list_all (safe_decorator e initial entrypoints stmts hidden is_member) (part ''decorator_list'' n)
      \<and> (if is_kind function_kinds n then passive_expression (function_expressions n)
         else part ''keywords'' n = [] \<and> list_all (\<lambda>base. is_kind [''Name''] base \<and> name_id base = ''object'') (part ''bases'' n)
              \<and> list_all (\<lambda>c. is_kind definition_kinds c \<or> passive_member c) (part ''body'' n)))"

text \<open>What a check inside classes sees: the names and bindings outside them without those they bind.\<close>

definition scope_within :: "string list \<Rightarrow> definition_scope \<Rightarrow> definition_scope" where
  "scope_within hidden sc =
     sc\<lparr>ds_defined := ds_defined sc @ hidden, ds_factories := filter (\<lambda>f. f \<notin> set hidden) (ds_factories sc)\<rparr>"

lemma scope_within_simps [simp]:
  "ds_initial (scope_within hidden sc) = ds_initial sc" "ds_defined (scope_within hidden sc) = ds_defined sc @ hidden"
  "ds_factories (scope_within hidden sc) = filter (\<lambda>f. f \<notin> set hidden) (ds_factories sc)"
  by (simp_all add: scope_within_def)

lemma scope_within_none: "scope_within [] sc = sc"
  by (simp add: scope_within_def)

lemma inner_scope_within: "inner_scope n (scope_within hidden sc) = scope_within (hidden @ class_local_names n) sc"
  by (simp add: scope_within_def inner_scope_def conj_commute)

lemma without_append: "without names (without hidden b) = without (hidden @ names) b"
  by (auto simp: without_def conj_commute intro!: filter_cong)

lemma without_none: "without [] b = b"
  by (simp add: without_def)

lemma mapR_all: "mapR f xs = Inr ys \<Longrightarrow> (\<And>x y. x \<in> set xs \<Longrightarrow> f x = Inr y \<Longrightarrow> P x) \<Longrightarrow> list_all P xs"
  by (induction xs arbitrary: ys) (auto simp: rbind_eq_Inr)

text \<open>The check of a definition has checked the head of every definition executed with it, in its scope.\<close>

lemma validate_definition_parts:
  assumes "validate_definition b sc new_helper is_method n = Inr u"
  shows "check_head b sc new_helper is_method n = Inr ()"
    and "\<not> is_kind function_kinds n \<Longrightarrow> list_all (\<lambda>c. is_kind definition_kinds c \<or> passive_member c) (part ''body'' n)"
    and "\<not> is_kind function_kinds n \<Longrightarrow> list_all (\<lambda>c. is_kind definition_kinds c \<longrightarrow>
      validate_definition (without (class_local_names n) b) (inner_scope n sc) True True c = Inr ()) (part ''body'' n)"
proof -
  obtain k cs as where n: "n = Ast k cs as" by (cases n)
  note a = assms [unfolded n, unfolded validate_definition.simps, folded n, unfolded Let_def]
  let ?check = "\<lambda>c. if fst c \<noteq> ''body'' then Inr ()
         else if kind (snd c) \<in> set definition_kinds
         then validate_definition (without (class_local_names n) b) (inner_scope n sc) True True (snd c)
         else guardR (passive_member (snd c)) (''Editable helper class '' @ node_name n @ '' has an executable class body'')"
  from a obtain v where "check_head b sc new_helper is_method n = Inr v"
      and r: "(if is_kind function_kinds n then Inr () else rbind (mapR ?check cs) (\<lambda>_. Inr ())) = Inr u"
    by (elim rbindE) auto
  then show "check_head b sc new_helper is_method n = Inr ()" by simp
  have m: "list_all (\<lambda>c. ?check c = Inr ()) cs" if "\<not> is_kind function_kinds n"
  proof -
    from r that obtain us where "mapR ?check cs = Inr us" by (auto elim!: rbindE)
    then show ?thesis by (rule mapR_all) simp
  qed
  show "list_all (\<lambda>c. is_kind definition_kinds c \<or> passive_member c) (part ''body'' n)" if "\<not> is_kind function_kinds n"
    using m [OF that] by (auto simp: n part_def list_all_iff is_kind_def guardR_eq_Inr split: if_splits)
  show "list_all (\<lambda>c. is_kind definition_kinds c \<longrightarrow>
      validate_definition (without (class_local_names n) b) (inner_scope n sc) True True c = Inr ()) (part ''body'' n)"
    if "\<not> is_kind function_kinds n"
    using m [OF that] by (auto simp: n part_def list_all_iff is_kind_def split: if_splits)
qed

lemma executed_definitions_checked:
  assumes "validate_definition (without hidden b) (scope_within hidden sc) (is_member \<or> node_name n \<notin> set initial) is_member n = Inr u"
    and "(hidden', is_member', m) \<in> set (executed_definitions hidden is_member n)"
  shows "check_head (without hidden' b) (scope_within hidden' sc) (is_member' \<or> node_name m \<notin> set initial) is_member' m = Inr ()
    \<and> (is_kind function_kinds m \<or> list_all (\<lambda>c. is_kind definition_kinds c \<or> passive_member c) (part ''body'' m))"
  using assms
proof (induction hidden is_member n arbitrary: u rule: executed_definitions.induct)
  case (1 hidden is_member k cs as)
  let ?n = "Ast k cs as"
  note v = validate_definition_parts [OF 1(2)]
  from 1(3) consider "(hidden', is_member', m) = (hidden, is_member, ?n)"
    | c where "k \<notin> set function_kinds" "c \<in> set cs" "fst c = ''body''" "kind (snd c) \<in> set definition_kinds"
        "(hidden', is_member', m) \<in> set (executed_definitions (hidden @ class_local_names ?n) True (snd c))"
    by (auto split: if_splits)
  then show ?case
  proof cases
    case 1
    with v(1,2) show ?thesis by blast
  next
    case (2 c)
    have nf: "\<not> is_kind function_kinds ?n" using 2(1) by (simp add: is_kind_def)
    have "snd c \<in> set (part ''body'' ?n)" using 2(2,3) by (force simp: part_def)
    moreover have "is_kind definition_kinds (snd c)" using 2(4) by (simp only: is_kind_def)
    ultimately have "validate_definition (without (class_local_names ?n) (without hidden b)) (inner_scope ?n (scope_within hidden sc)) True True (snd c) = Inr ()"
      using v(3) [OF nf] unfolding list_all_iff by blast
    then have "validate_definition (without (hidden @ class_local_names ?n) b) (scope_within (hidden @ class_local_names ?n) sc)
        (True \<or> node_name (snd c) \<notin> set initial) True (snd c) = Inr ()"
      by (simp only: without_append inner_scope_within simp_thms)
    from "1.IH" [OF 2(1) 2(2) _ this 2(5)] 2(3,4) show ?thesis by simp
  qed
qed

lemma calls_name_mono: "calls_name P c \<Longrightarrow> (\<And>f. P f \<Longrightarrow> Q f) \<Longrightarrow> calls_name Q c"
  by (auto simp: calls_name_def list_ex_iff)

lemma factory_call:
  assumes "factory_call_ok (import_bindings stmts) (protected_function_names e initial stmts) bound locals c"
  shows "factory_call e initial stmts locals c"
  using assms unfolding factory_call_ok_def factory_call_def by (auto elim: calls_name_mono)

lemma configuration_factory:
  assumes "f \<in> set (configuration_factories e initial entrypoints stmts)"
  shows "f \<in> set initial \<and> (f \<notin> set (es_symbols e) \<or> f \<notin> set entrypoints)
    \<and> list_ex (\<lambda>n. is_kind [''FunctionDef''] n \<and> node_name n = f
         \<and> (f \<in> set (es_symbols e) \<longrightarrow> makes_configurations e initial stmts n)) stmts"
proof (cases "f \<in> set (es_symbols e)")
  case False
  with assms show ?thesis
    by (auto simp: configuration_factories_def protected_function_names_def definitions_in_def Let_def list_ex_iff)
next
  case True
  with assms obtain n where n: "f \<in> set initial" "f \<notin> set entrypoints"
      "map_of (rev (map (\<lambda>n. (node_name n, n)) (definitions_in [''FunctionDef''] stmts))) f = Some n"
      "config_factory_body_allowed n (import_bindings stmts) (protected_function_names e initial stmts)
         (initial @ map node_name (definitions_in definition_kinds stmts))"
    by (auto simp: configuration_factories_def protected_function_names_def Let_def split: option.splits)
  from map_of_SomeD [OF n(3)] have "n \<in> set stmts" "is_kind [''FunctionDef''] n" "node_name n = f"
    by (auto simp: definitions_in_def)
  moreover from n(4) this(2) have "makes_configurations e initial stmts n"
    by (auto simp: config_factory_body_allowed_def makes_configurations_def list_all_iff dest!: factory_call)
  ultimately show ?thesis using n(1,2) by (auto simp: list_ex_iff)
qed

lemma decorator_call_permitted:
  assumes "decorator_call_ok (without hidden (import_bindings stmts))
    (scope_within hidden (definition_scope_of e initial entrypoints stmts)) c"
  shows "permitted_call e initial entrypoints stmts hidden c"
  using assms unfolding decorator_call_ok_def
proof (elim disjE)
  assume "calls_name (\<lambda>f. f \<in> set (ds_factories (scope_within hidden (definition_scope_of e initial entrypoints stmts)))) c"
  then have "calls_name (\<lambda>f. f \<notin> set hidden \<and> f \<in> set initial \<and> (f \<notin> set (es_symbols e) \<or> f \<notin> set entrypoints)
          \<and> list_ex (\<lambda>n. is_kind [''FunctionDef''] n \<and> node_name n = f
               \<and> (f \<in> set (es_symbols e) \<longrightarrow> makes_configurations e initial stmts n)) stmts) c"
    by (rule calls_name_mono) (auto simp: definition_scope_of_def dest: configuration_factory)
  then show ?thesis unfolding permitted_call_def by blast
next
  assume "calls_name (\<lambda>f. f = ''range'' \<and> f \<notin> set (ds_initial (scope_within hidden (definition_scope_of e initial entrypoints stmts)))
    \<union> set (ds_defined (scope_within hidden (definition_scope_of e initial entrypoints stmts)))) c"
  then have "calls_name (\<lambda>f. f = ''range'' \<and> f \<notin> set initial \<and> f \<notin> set hidden
          \<and> f \<notin> node_name ` set (definitions_in definition_kinds stmts)) c"
    by (rule calls_name_mono) (auto simp: definition_scope_of_def)
  then show ?thesis unfolding permitted_call_def by blast
qed (simp add: permitted_call_def)

lemma check_decorator_Inr:
  assumes "check_decorator (without hidden (import_bindings stmts)) (scope_within hidden (definition_scope_of e initial entrypoints stmts))
    is_member name d = Inr u"
  shows "safe_decorator e initial entrypoints stmts hidden is_member d"
proof -
  let ?b = "without hidden (import_bindings stmts)" and ?sc = "scope_within hidden (definition_scope_of e initial entrypoints stmts)"
  from assms obtain us where t: "list_ex (\<lambda>t. case qualified_import ?b t of Some q \<Rightarrow> q \<in> set compiler_decorators | None \<Rightarrow> False)
        (decorator_target d) \<or> plain_method ?b ?sc is_member d"
      and r: "\<not> list_ex (test_reference ?b) (walk d)" and v: "mapR (check_value ?b ?sc name) (decorator_values d) = Inr us"
    by (auto simp: check_decorator_def guardR_eq_Inr elim!: rbindE)
  from t have "list_ex (\<lambda>t. qualified_import ?b t \<in> Some ` set compiler_decorators) (decorator_target d)
      \<or> is_member \<and> is_kind [''Name''] d \<and> name_id d \<in> {''staticmethod'', ''classmethod'', ''property''}
          \<and> name_id d \<notin> set initial \<union> set hidden"
    by (auto simp: plain_method_def definition_scope_of_def list_ex_iff split: option.splits)
  moreover from v have "list_all (\<lambda>v. \<not> list_ex (is_kind [''NamedExpr'']) (walk v)
          \<and> list_all (permitted_call e initial entrypoints stmts hidden) (definition_calls v)) (decorator_values d)"
    by (rule mapR_all) (auto simp: check_value_def guardR_eq_Inr list_all_iff intro: decorator_call_permitted elim!: rbindE)
  ultimately show ?thesis using r unfolding safe_decorator_def by blast
qed

lemma check_head_harmless:
  assumes "check_head (without hidden (import_bindings stmts)) (scope_within hidden (definition_scope_of e initial entrypoints stmts))
      (is_member \<or> node_name n \<notin> set initial) is_member n = Inr u"
    and "is_kind function_kinds n \<or> list_all (\<lambda>c. is_kind definition_kinds c \<or> passive_member c) (part ''body'' n)"
  shows "harmless e initial entrypoints stmts (hidden, is_member, n)"
proof -
  let ?b = "without hidden (import_bindings stmts)" and ?sc = "scope_within hidden (definition_scope_of e initial entrypoints stmts)"
  from assms(1) obtain us where h: "check_helper_name (is_member \<or> node_name n \<notin> set initial) is_member (node_name n) = Inr ()"
      and d: "mapR (check_decorator ?b ?sc is_member (node_name n)) (part ''decorator_list'' n) = Inr us"
      and r: "(if is_kind function_kinds n
     then guardR (passive_expression (function_expressions n))
            (''Editable definition '' @ node_name n @ '' has executable defaults or annotations'')
     else check_bases ?sc n) = Inr u"
    unfolding check_head_def by (auto elim!: rbindE)
  from h have "is_member \<or> node_name n \<notin> set initial \<longrightarrow>
      \<not> (starts_with ''test'' (node_name n) \<or> starts_with ''Test'' (node_name n) \<or> starts_with ''pytest_'' (node_name n))
      \<and> node_name n \<notin> set test_lifecycle_names \<and> (is_member \<or> node_name n \<notin> {''__getattr__'', ''__dir__''})"
    unfolding check_helper_name_def by (auto split: if_splits)
  moreover have "list_all (safe_decorator e initial entrypoints stmts hidden is_member) (part ''decorator_list'' n)"
    using d by (rule mapR_all) (rule check_decorator_Inr)
  moreover from r assms(2) have "if is_kind function_kinds n then passive_expression (function_expressions n)
         else part ''keywords'' n = [] \<and> list_all (\<lambda>base. is_kind [''Name''] base \<and> name_id base = ''object'') (part ''bases'' n)
              \<and> list_all (\<lambda>c. is_kind definition_kinds c \<or> passive_member c) (part ''body'' n)"
    by (auto simp: guardR_eq_Inr check_bases_def list_all_iff split: if_splits)
  ultimately show ?thesis unfolding harmless_def prod.case by blast
qed

lemma accepted_definitions:
  assumes "path_digest ge cand tab ws p = Inr [(p, d)]" "symbol_scope (cand_editable cand) p = Some e"
    and "map_of ws p = Some (Contents c)" "ge_parse ge c = Some stmts"
  shows "list_all (harmless e (initial_names tab p) (entry_symbols cand p) stmts)
      (concat (map (executed_definitions [] False) (filter (editable_statement e (initial_names tab p)) stmts)))
    \<and> duplicate_definitions e (initial_names tab p) stmts = []"
proof -
  let ?initial = "initial_names tab p" and ?b = "import_bindings stmts"
  let ?sc = "definition_scope_of e ?initial (entry_symbols cand p) stmts"
  from assms have "v2_symbol_digest ge p c e ?initial (entry_symbols cand p) = Inr d"
    by (auto simp: path_digest_def rbind_eq_Inr split: if_splits)
  with assms(4) obtain us where m: "mapR (\<lambda>n. validate_definition ?b ?sc (node_name n \<notin> set ?initial) False n)
      (filter (editable_statement e ?initial) stmts) = Inr us"
      and "duplicate_definitions e ?initial stmts = []"
    by (auto simp: v2_symbol_digest_def rbind_eq_Inr map_error_eq_Inr split: list.splits)
  moreover have "list_all (harmless e ?initial (entry_symbols cand p) stmts) (executed_definitions [] False n)"
    if "validate_definition ?b ?sc (node_name n \<notin> set ?initial) False n = Inr v" for n v
  proof -
    from that have "validate_definition (without [] ?b) (scope_within [] ?sc) (False \<or> node_name n \<notin> set ?initial) False n = Inr v"
      by (simp add: without_none scope_within_none)
    note checked = executed_definitions_checked [OF this]
    have "harmless e ?initial (entry_symbols cand p) stmts (hidden, is_member, m)"
      if "(hidden, is_member, m) \<in> set (executed_definitions [] False n)" for hidden is_member m
      using checked [OF that] by (intro check_head_harmless) (rule conjunct1, assumption, rule conjunct2)
    then show ?thesis by (auto simp: list_all_iff)
  qed
  then have "list_all (\<lambda>n. list_all (harmless e ?initial (entry_symbols cand p) stmts) (executed_definitions [] False n))
      (filter (editable_statement e ?initial) stmts)"
    by (rule mapR_all [OF m])
  ultimately show ?thesis by (auto simp: list_all_iff)
qed

section \<open>The guard of a session\<close>

text \<open>The guard as the check of a host whose world holds the workspace.\<close>

fun guard_session_error :: "guard_error \<Rightarrow> session_error" where
  "guard_session_error (Tampered m) = Execution m []"
| "guard_session_error (BadScope m) = Config (Refused m)"
| "guard_session_error (BadSource p) = Config (Refused (''invalid Python source: '' @ p))"

definition guard_check ::
    "guard_env \<Rightarrow> snapshot \<Rightarrow> ('w \<Rightarrow> workspace) \<Rightarrow> (workspace \<Rightarrow> 'w \<Rightarrow> 'w) \<Rightarrow> bool \<Rightarrow> 'w
      \<Rightarrow> (session_error, unit) result \<times> 'w" where
  "guard_check ge sn files put discard_added w =
     (case verify_workspace_harness ge sn discard_added (files w) of
        (r, ws) \<Rightarrow> (map_error guard_session_error r, put ws w))"

lemma guard_check_Inr:
  assumes "guard_check ge sn files put discard_added w = (Inr u, w')" "\<And>ws w. files (put ws w) = ws"
  shows "verify_workspace_harness ge sn discard_added (files w) = (Inr u, files w')"
  using assms by (auto simp: guard_check_def map_error_eq_Inr split: prod.splits)

lemma sources_intact_guarded:
  assumes "sources_intact st s = (Inr u, s')" "h_harness (st_host st) = guard_check ge sn files put"
    and "\<And>ws w. files (put ws w) = ws"
  shows "\<exists>ws. verify_workspace_harness ge sn True ws = (Inr (), files (ss_world s'))"
proof -
  from assms(1) obtain v s1 where v: "verify_harness st True s = (Inr v, s1)" "s' = s1"
    unfolding sources_intact_def by (auto simp: map_error_eq_Inr split: prod.splits elim!: sbind_InrE)
  then obtain w where "h_harness (st_host st) True (ss_world s) = (Inr v, w)" "s1 = s\<lparr>ss_world := w\<rparr>"
    by (auto simp: verify_harness_def split: prod.splits)
  then have "guard_check ge sn files put True (ss_world s) = (Inr v, w)" by (simp add: assms(2))
  from guard_check_Inr [where files = files and put = put, OF this assms(3)] \<open>s1 = _\<close> v(2)
  show ?thesis by auto
qed

text \<open>
  A saved result that passed compilation was followed by a check of the frozen sources, after which
  nothing but the result file was written.
\<close>

lemma write_and_score_world:
  assumes "write_and_score ev agent baseline r t = (Inr doc, t')"
  shows "\<exists>doc0. ss_world (vs_session t') = ev_save ev ''task_result.yaml'' doc
    (ev_save ev ''task_result.yaml'' doc0 (ss_world (vs_session t)))"
  using assms unfolding write_and_score_def Let_def
  by (elim sbind_InrE) (auto simp: save_document_def)

lemma passed_result_checked:
  assumes "evaluate_task_session ev cfg extra t = (Inr (PDict d), t')"
    and "dlookup d ''pass_compilation'' = Some (PBool True)"
  obtains s s' doc0 where "sources_intact (ev_setup ev) s = (Inr (), s')"
    "ss_world (vs_session t') = ev_save ev ''task_result.yaml'' (PDict d)
       (ev_save ev ''task_result.yaml'' doc0 (ss_world s'))"
proof -
  from assms(1) show ?thesis
  proof (cases rule: evaluate_task_session_Inr)
    case (1 config tc tools baseline w rt kr ended failure r r' agent t1 t2)
    note e = 1
    from e(11) obtain d0 points where d0: "task_result (ts_task_id (st_spec (ev_setup ev))) agent baseline r' = Inr d0"
        "task_result_scoring (Some (PDict d0)) = Inr (points, PDict d)"
      by (rule write_and_score_Inr)
    have expl: "self_explaining (sr_kernel r')"
      using framework_result_explains [OF e(9) guarded_explains [OF e(7)]] supplemented_kernel [OF e(10)] by simp
    have "kr_pass_compilation (sr_kernel r')"
      using d0(1) expl d0(2) assms(2) by (cases rule: scoring_fields) simp
    then have "failure = None"
      using framework_result_counts [OF e(9)] supplemented_kernel [OF e(10)] by simp
    with e(8) obtain u where "ended = Inr u" by (cases ended) auto
    with e(7) have "guarded_evaluation ev tools config baseline t1 = ((rt, kr), Inr (), t2)" by simp
    then obtain t3 where "on_session (sources_intact (ev_setup ev)) t3 = (Inr (), t2)"
      by (rule guarded_evaluation_ok)
    then have "sources_intact (ev_setup ev) (vs_session t3) = (Inr (), vs_session t2)" using on_session_Inr by blast
    with write_and_score_world [OF e(11)] that show ?thesis by blast
  qed
qed

section \<open>A small workspace\<close>

text \<open>
  A module with the editable function \<open>kernel\<close> and a protected one, a test and data; the candidate adds
  a decorator whose configurations the protected function makes, a helper class and a scratch test.
\<close>

definition py_function :: "string \<Rightarrow> (string \<times> syntax_node) list \<Rightarrow> syntax_node" where
  "py_function name cs = Ast ''FunctionDef'' ((''args'', Ast ''arguments'' [] []) # cs) [(''name'', name)]"

definition import_triton :: syntax_node where
  "import_triton = Ast ''Import'' [(''names'', Ast ''alias'' [] [(''name'', ''triton'')])] []"

definition py_name :: "string \<Rightarrow> syntax_node" where
  "py_name x = Ast ''Name'' [(''ctx'', Ast ''Load'' [] [])] [(''id'', x)]"

text \<open>The decorator \<open>@triton.autotune(configs=check())\<close>.\<close>

definition autotune_decorator :: "string \<times> syntax_node" where
  "autotune_decorator = (''decorator_list'', Ast ''Call''
     [(''func'', Ast ''Attribute'' [(''value'', py_name ''triton'')] [(''attr'', ''autotune'')]),
      (''keywords'', Ast ''keyword'' [(''value'', Ast ''Call'' [(''func'', py_name ''check'')] [])] [(''arg'', ''configs'')])] [])"

text \<open>A class with a method \<open>of\<close> and the constant \<open>width = 4\<close>.\<close>

definition block_class :: syntax_node where
  "block_class = Ast ''ClassDef''
     [(''body'', py_function ''of'' []),
      (''body'', Ast ''Assign'' [(''targets'', py_name ''width''), (''value'', Ast ''Constant'' [] [(''value'', ''4'')])] [])]
     [(''name'', ''Block'')]"

definition guard_parse :: "string \<Rightarrow> syntax_node list option" where
  "guard_parse c =
     (if c = ''old'' then Some [import_triton, py_function ''kernel'' [], py_function ''check'' []]
      else if c = ''new'' then Some [import_triton, block_class, py_function ''kernel'' [autotune_decorator],
        py_function ''check'' []]
      else None)"

definition demo_guard :: guard_env where
  "demo_guard = \<lparr>ge_parse = guard_parse, ge_tree = (\<lambda>ss. ''tree:'' @ concat (map node_name ss)), ge_bytes = (\<lambda>c. c)\<rparr>"

definition guard_candidate :: candidate_spec where
  "guard_candidate =
     \<lparr>cand_language = ''triton'', cand_initial_state = ''implemented'', cand_initial_language = None,
      cand_editable = [\<lparr>es_path = ''kernel.py'', es_scope = ''symbols'', es_symbols = [''kernel''], es_allow_new_helpers = True\<rparr>],
      cand_entrypoints = []\<rparr>"

definition shipped :: workspace where
  "shipped = [(''kernel.py'', Contents ''old''), (''op_test.py'', Contents ''t''), (''data/x.json'', Contents ''d'')]"

definition submitted :: workspace where
  "submitted = [(''kernel.py'', Contents ''new''), (''op_test.py'', Contents ''t''), (''data/x.json'', Contents ''d''),
     (''scratch_test.py'', Contents ''s'')]"

definition accepted_files :: workspace where
  "accepted_files = [(''kernel.py'', Contents ''new''), (''op_test.py'', Contents ''t''), (''data/x.json'', Contents ''d'')]"

definition demo_snapshot :: snapshot where
  "demo_snapshot =
     \<lparr>sn_candidate = guard_candidate,
      sn_digests = [(''data/x.json'', ''d''), (''kernel.py'', ''tree:check''), (''op_test.py'', ''t'')],
      sn_symbols = [(''kernel.py'', [''triton'', ''kernel'', ''check''])]\<rparr>"

lemma demo_snapshot: "snapshot_workspace_harness demo_guard guard_candidate shipped = Inr demo_snapshot"
  unfolding demo_snapshot_def by code_simp

lemma demo_verify: "verify_workspace_harness demo_guard demo_snapshot True submitted = (Inr (), accepted_files)"
  unfolding accepted_files_def by code_simp

lemma demo_views:
  "protected_view demo_guard guard_candidate [(''kernel.py'', [''triton'', ''kernel'', ''check''])] ''kernel.py'' ''new''
   = protected_view demo_guard guard_candidate [(''kernel.py'', [''triton'', ''kernel'', ''check''])] ''kernel.py'' ''old''"
  by code_simp

lemma demo_collision_free: "collision_free demo_guard demo_snapshot shipped accepted_files"
  using demo_views by (auto simp: collision_free_def shipped_def accepted_files_def demo_snapshot_def split: if_splits)

lemma demo_protected: "''op_test.py'' \<in> set (v2_protected_paths shipped (cand_editable guard_candidate))"
  by code_simp

section \<open>Properties\<close>

text \<open>
  A snapshot accepts the workspace it was taken of, in both modes, without touching it.
\<close>

theorem snapshot_accepts_itself:
  assumes "snapshot_workspace_harness ge cand ws = Inr sn"
  shows "verify_workspace_harness ge sn discard_added ws = (Inr (), ws)"
  using assms by (rule verify_own_workspace)

lemma snapshot_accepts_itself_witness:
  "verify_workspace_harness demo_guard demo_snapshot False shipped = (Inr (), shipped)"
  by (rule snapshot_accepts_itself [OF demo_snapshot])

text \<open>
  C13.  The harness of an accepted workspace is the one that was captured: every path that was protected has
  its file, with the same bytes, or, for a module with editable symbols, with the same statements
  outside the editable definitions, provided the hash does not collide on the files compared.
\<close>

theorem accepted_harness_unchanged:
  assumes "snapshot_workspace_harness ge cand ws0 = Inr sn"
    and "verify_workspace_harness ge sn discard_added ws = (Inr u, ws')" "collision_free ge sn ws0 ws'"
  shows "list_all (same_protected ge sn ws0 ws') (v2_protected_paths ws0 (cand_editable cand))"
  using accepted_same_protected [OF assms] by (simp add: list_all_iff)

lemma accepted_harness_unchanged_witness:
  "list_all (same_protected demo_guard demo_snapshot shipped accepted_files)
     (v2_protected_paths shipped (cand_editable guard_candidate))"
  by (rule accepted_harness_unchanged [OF demo_snapshot demo_verify demo_collision_free])

text \<open>
  C15.  Verification only ever discards: an accepted workspace is the given one without files whose names are
  those of a harness and that the snapshot does not know (none in read-only mode), no other such file is
  left, and a second verification in either mode accepts the workspace and leaves it as it is.
\<close>

theorem verification_only_discards:
  assumes "verify_workspace_harness ge sn discard_added ws = (Inr u, ws')" "distinct (map fst (sn_digests sn))"
  shows "\<exists>removed. ws' = unlink removed ws \<and> list_all is_protected_path removed
    \<and> set removed \<inter> fst ` set (sn_digests sn) = {} \<and> (discard_added \<or> removed = [])
    \<and> list_all (\<lambda>p. p \<in> fst ` set (sn_digests sn)) (filter is_protected_path (v2_files ws'))
    \<and> verify_workspace_harness ge sn again ws' = (Inr (), ws')"
proof -
  from assms(1) obtain removed now where r: "ws' = unlink removed ws" "list_all is_protected_path removed"
      "set removed \<inter> fst ` set (sn_digests sn) = {}" "discard_added \<or> removed = []"
      and now: "scan_harness ge sn ws' = Inr now" "compare_digests (sn_digests sn) now = Inr ()"
      and left: "list_all (\<lambda>p. p \<in> fst ` set (sn_digests sn)) (filter is_protected_path (v2_files ws'))"
    by (rule verify_accepts)
  have "fst ` set now \<subseteq> fst ` set (sn_digests sn)"
  proof -
    have "set (map fst now) \<subseteq> set (selected_paths ws' (map fst (sn_digests sn)))"
      using now(1) unfolding scan_harness_def by (subst v2_digests_Inr(1)) auto
    with left show ?thesis by (auto simp: selected_paths_set list_all_iff)
  qed
  then have "filter (\<lambda>p. p \<notin> fst ` set (sn_digests sn)) (map fst now) = []" by (auto simp: filter_empty_conv)
  then have "verify_workspace_harness ge sn again ws' = (Inr (), ws')"
    using now by (simp add: verify_workspace_harness_def Let_def)
  with r left show ?thesis by blast
qed

lemma verification_only_discards_witness:
  "verify_workspace_harness demo_guard demo_snapshot False accepted_files = (Inr (), accepted_files)"
proof -
  have "distinct (map fst (sn_digests demo_snapshot))" by (simp add: demo_snapshot_def)
  from verification_only_discards [OF demo_verify this, of False] show ?thesis by blast
qed

text \<open>
  C14.  In an accepted workspace each editable definition of a module is defined once, and everything executed
  with it while the module is imported, the members of its classes included, is harmless: no new test,
  life-cycle function or introspection hook, only decorators of the compiler (or builtin ones on members),
  in whose arguments the only calls are of the compiler's constructors, \<open>range\<close>, and functions that are protected
  or only make configurations, and no call by defaults, annotations, bases or the statements of class bodies.
\<close>

theorem editable_definitions_harmless:
  assumes "verify_workspace_harness ge sn discard_added ws = (Inr u, ws')" "distinct (map fst (sn_digests sn))"
    and "p \<in> fst ` set (sn_digests sn)" "symbol_scope (cand_editable (sn_candidate sn)) p = Some e"
    and "map_of ws' p = Some (Contents c)" "ge_parse ge c = Some stmts"
  shows "list_all (harmless e (initial_names (sn_symbols sn) p) (entry_symbols (sn_candidate sn) p) stmts)
      (concat (map (executed_definitions [] False)
        (filter (editable_statement e (initial_names (sn_symbols sn) p)) stmts)))
    \<and> duplicate_definitions e (initial_names (sn_symbols sn) p) stmts = []"
proof -
  from assms(3) obtain d where "(p, d) \<in> set (sn_digests sn)" by auto
  from accepted_definitions [OF accepted_digests [OF assms(1,2) this] assms(4-6)] show ?thesis .
qed

lemma editable_definitions_harmless_witness:
  "harmless \<lparr>es_path = ''kernel.py'', es_scope = ''symbols'', es_symbols = [''kernel''], es_allow_new_helpers = True\<rparr>
     [''triton'', ''kernel'', ''check''] [] (the (guard_parse ''new'')) ([''of'', ''width''], True, py_function ''of'' [])"
proof -
  let ?e = "\<lparr>es_path = ''kernel.py'', es_scope = ''symbols'', es_symbols = [''kernel''], es_allow_new_helpers = True\<rparr>"
  have d: "distinct (map fst (sn_digests demo_snapshot))" "''kernel.py'' \<in> fst ` set (sn_digests demo_snapshot)"
    by (simp_all add: demo_snapshot_def)
  have e: "symbol_scope (cand_editable (sn_candidate demo_snapshot)) ''kernel.py'' = Some ?e"
    "map_of accepted_files ''kernel.py'' = Some (Contents ''new'')"
    "ge_parse demo_guard ''new'' = Some (the (guard_parse ''new''))"
    by (simp_all add: symbol_scope_def demo_snapshot_def guard_candidate_def accepted_files_def demo_guard_def guard_parse_def)
  have "([''of'', ''width''], True, py_function ''of'' []) \<in> set (concat (map (executed_definitions [] False)
      (filter (editable_statement ?e [''triton'', ''kernel'', ''check'']) (the (guard_parse ''new'')))))"
    by code_simp
  moreover have names: "initial_names (sn_symbols demo_snapshot) ''kernel.py'' = [''triton'', ''kernel'', ''check'']"
    "entry_symbols (sn_candidate demo_snapshot) ''kernel.py'' = []"
    by (simp_all add: initial_names_def demo_snapshot_def entry_symbols_def guard_candidate_def)
  ultimately show ?thesis
    using editable_definitions_harmless [OF demo_verify d e, unfolded names list_all_iff] by blast
qed

end
