(* ===== verification/GuardedEvaluation.thy ===== *)
theory GuardedEvaluation
  imports HarnessGuardProps
begin

text \<open>
  The evaluator on a host that checks the harness with the guard: after the measurement behind a
  result that passed, the workspace was verified to have the protected part that was captured.
\<close>

section \<open>A small session on a guarded workspace\<close>

definition guarded_host :: "workspace session_host" where
  "guarded_host =
     \<lparr>h_now = (\<lambda>w. (Fin 0, w)), h_uuid = (\<lambda>w. (''id'', w)), h_environ = (\<lambda>_. []),
      h_resolve = (\<lambda>p _. Some p), h_process = (\<lambda>argv _ _ _ w. (demo_process both_checks argv, w)),
      h_baseline_digest = (\<lambda>_ _. Some ''d''), h_locate = (\<lambda>p _ _. Some p),
      h_node = (\<lambda>p _. if p = ''src'' then Some Directory else Some (Regular 3)),
      h_below = (\<lambda>_ _. [''src/op/launch.hip'']), h_digest = (\<lambda>_ _. ''d''), h_module = (\<lambda>_ _. None),
      h_harness = guard_check demo_guard demo_snapshot (\<lambda>w. w) (\<lambda>ws _. ws),
      h_snapshot = (\<lambda>w. (Inr [(''kernel.hip'', ''d'')], w))\<rparr>"

definition guarded_evaluator :: "workspace evaluator" where
  "guarded_evaluator =
     \<lparr>ev_setup = \<lparr>st_host = guarded_host, st_spec = sample_spec, st_workspace = ''/run/task'',
                  st_state_directory = ''/run/.task-sessions/task''\<rparr>,
      ev_runtime = (\<lambda>_. Inr [(PStr ''gpu_arch'', PStr ''gfx942'')]),
      ev_submission = (\<lambda>w. (Inr no_evidence, w)),
      ev_tools = \<lparr>in_registry = [], in_runtime = \<lparr>rt_probe = (\<lambda>_ _ w. (Raised [], w)), rt_execute = (\<lambda>_ _ w. (Raised [], w))\<rparr>,
                  in_cwd = ''/'', in_workspace = ''/w'', in_task_config = [], in_profile = unknown_profile,
                  in_gpu_arch = PNone, in_artifact_root = None, in_env = [], in_uuid = (\<lambda>_. ''0''), in_mkdir = (\<lambda>_ w. (Inr (), w))\<rparr>,
      ev_files = \<lparr>fv_resolve = (\<lambda>p. p), fv_contents = (\<lambda>_. None)\<rparr>, ev_environ = (\<lambda>_. None),
      ev_save = (\<lambda>name _ w. (name, Contents ''yaml'') # w)\<rparr>"

definition guarded_state :: "workspace evaluation_state" where
  "guarded_state =
     \<lparr>vs_session = (new_session [(''kernel.hip'', ''d'')] [] submitted)
        \<lparr>ss_initial := Some demo_report_of, ss_manifest := ss_manifest demo_loaded,
         ss_results := (\<lambda>k. if k = (''task_validation'', ''baseline'', ''performance'') then Some baseline_timing else None)\<rparr>,
      vs_runtime = None, vs_documents = []\<rparr>"

lemma guarded_evaluation_saves:
  "case evaluate_task_session guarded_evaluator [] None guarded_state of
     (Inr (PDict d), t) \<Rightarrow> saved d = (PFloat (Fin 320), PFloat (Fin 2)) \<and> dget d ''pass_compilation'' = PBool True
       \<and> drop 4 (ss_world (vs_session t)) = accepted_files
       \<and> map fst (take 4 (ss_world (vs_session t))) =
           [''task_result.yaml'', ''task_result.yaml'', ''optimized_perf.yaml'', ''baseline_perf.yaml'']
   | _ \<Rightarrow> False"
  by code_simp

section \<open>Property\<close>

text \<open>
  C12.  Only a candidate with the captured harness counts: on a host that checks the harness with the guard,
  a saved result that passed compilation was followed by an accepting verification, after which only
  the result file was written; in that workspace every path that was protected when the snapshot was
  taken has the same bytes, or the same statements outside the editable definitions, unless the hash
  collides.
\<close>

theorem counted_with_captured_harness:
  assumes "evaluate_task_session ev cfg extra t = (Inr (PDict d), t')" "dlookup d ''pass_compilation'' = Some (PBool True)"
    and "h_harness (st_host (ev_setup ev)) = guard_check ge sn files put" "\<And>ws w. files (put ws w) = ws"
    and "snapshot_workspace_harness ge cand ws0 = Inr sn"
  shows "\<exists>w doc0. ss_world (vs_session t') = ev_save ev ''task_result.yaml'' (PDict d) (ev_save ev ''task_result.yaml'' doc0 w)
    \<and> (collision_free ge sn ws0 (files w) \<longrightarrow>
         list_all (same_protected ge sn ws0 (files w)) (v2_protected_paths ws0 (cand_editable cand)))"
proof -
  from assms(1,2) obtain s s' doc0 where i: "sources_intact (ev_setup ev) s = (Inr (), s')"
      and w: "ss_world (vs_session t') = ev_save ev ''task_result.yaml'' (PDict d)
       (ev_save ev ''task_result.yaml'' doc0 (ss_world s'))"
    by (rule passed_result_checked)
  from sources_intact_guarded [OF i assms(3,4)] obtain ws where
      "verify_workspace_harness ge sn True ws = (Inr (), files (ss_world s'))" by blast
  then have "collision_free ge sn ws0 (files (ss_world s')) \<longrightarrow>
      list_all (same_protected ge sn ws0 (files (ss_world s'))) (v2_protected_paths ws0 (cand_editable cand))"
    using accepted_same_protected [OF assms(5)] by (auto simp: list_all_iff)
  with w show ?thesis by blast
qed

lemma added_outputs_collision_free:
  assumes "map fst outputs = [''optimized_perf.yaml'', ''baseline_perf.yaml'']"
  shows "collision_free demo_guard demo_snapshot shipped (outputs @ accepted_files)"
proof -
  from assms obtain a b where "outputs = [(''optimized_perf.yaml'', a), (''baseline_perf.yaml'', b)]"
    by (auto simp: map_eq_Cons_conv)
  with demo_collision_free show ?thesis by (auto simp: collision_free_def shipped_def split: if_splits)
qed

lemma counted_with_captured_harness_witness:
  "\<exists>outputs. list_all (same_protected demo_guard demo_snapshot shipped (outputs @ accepted_files))
     (v2_protected_paths shipped (cand_editable guard_candidate))"
proof -
  obtain r t' where e: "evaluate_task_session guarded_evaluator [] None guarded_state = (r, t')" by fastforce
  with guarded_evaluation_saves obtain d where d: "r = Inr (PDict d)" "dget d ''pass_compilation'' = PBool True"
      "drop 4 (ss_world (vs_session t')) = accepted_files"
      "map fst (take 4 (ss_world (vs_session t'))) =
           [''task_result.yaml'', ''task_result.yaml'', ''optimized_perf.yaml'', ''baseline_perf.yaml'']"
    by (auto split: sum.splits pyval.splits)
  have "dlookup d ''pass_compilation'' = Some (PBool True)" using d(2) by (auto intro: dget_some)
  moreover have "h_harness (st_host (ev_setup guarded_evaluator)) = guard_check demo_guard demo_snapshot (\<lambda>w. w) (\<lambda>ws _. ws)"
    by (simp add: guarded_evaluator_def guarded_host_def)
  ultimately obtain w where w: "ss_world (vs_session t') = (''task_result.yaml'', Contents ''yaml'')
        # (''task_result.yaml'', Contents ''yaml'') # w"
      and p: "collision_free demo_guard demo_snapshot shipped w \<longrightarrow>
         list_all (same_protected demo_guard demo_snapshot shipped w) (v2_protected_paths shipped (cand_editable guard_candidate))"
    using counted_with_captured_harness [OF e [unfolded d(1)] _ _ _ demo_snapshot, of "\<lambda>w. w" "\<lambda>ws _. ws"]
    by (auto simp: guarded_evaluator_def)
  have "w = take 2 w @ accepted_files" using d(3) w by (metis append_take_drop_id drop_Suc_Cons numeral_eq_Suc pred_numeral_simps(2,3) BitM.simps(1,2) add_One)
  moreover have "map fst (take 2 w) = [''optimized_perf.yaml'', ''baseline_perf.yaml'']" using d(4) w by (simp add: numeral_eq_Suc)
  ultimately show ?thesis using p added_outputs_collision_free by metis
qed

end
