(* ===== verification/ReplayCapsule.thy ===== *)
theory ReplayCapsule
  imports EvalManager Json
begin

text \<open>
  \<open>src/eval_tools/adapters/replay_capsule.py\<close>: the description of one kernel launch that rocJITsu
  replays, read from a dictionary, validated and checked against its files.  An error is
  \<open>CapsuleValidationError\<close>, another built-in exception, or an error of the file system.
\<close>

unbundle bit_operations_syntax

datatype capsule_error = Invalid string | Escaped py_exc | OsError | IndexError

type_synonym 'a checked = "(capsule_error, 'a) result"

section \<open>Values\<close>

definition UINT32_MAX :: int where "UINT32_MAX = 2 ^ 32 - 1"

definition require_mapping :: "pyval \<Rightarrow> string \<Rightarrow> pydict checked" where
  "require_mapping v name = (case v of PDict d \<Rightarrow> Inr d | _ \<Rightarrow> Inl (Invalid (name @ '' must be a mapping'')))"

definition exact_int :: "pyval \<Rightarrow> string \<Rightarrow> int \<Rightarrow> int \<Rightarrow> int checked" where
  "exact_int v name lower_bound upper_bound =
     (case v of
        PInt k \<Rightarrow> if k < lower_bound \<or> upper_bound < k then Inl (Invalid (name @ '' must be in the range'')) else Inr k
      | _ \<Rightarrow> Inl (Invalid (name @ '' must be an exact JSON integer'')))"

type_synonym triple = "int \<times> int \<times> int"

definition tuple3 :: "pyval \<Rightarrow> string \<Rightarrow> int \<Rightarrow> triple checked" where
  "tuple3 v name lower_bound =
     (case v of
        PList [a, b, c] \<Rightarrow>
          rbind (exact_int a name lower_bound UINT32_MAX) (\<lambda>x.
          rbind (exact_int b name lower_bound UINT32_MAX) (\<lambda>y.
          rbind (exact_int c name lower_bound UINT32_MAX) (\<lambda>z. Inr (x, y, z))))
      | _ \<Rightarrow> Inl (Invalid (name @ '' must contain exactly three integers'')))"

definition safe_relative_path :: "pyval \<Rightarrow> string \<Rightarrow> string checked" where
  "safe_relative_path v name =
     (let p = posix_path (py_str v) in
      if fst p \<noteq> [] \<or> snd p = [] \<or> ''..'' \<in> set (snd p) then Inl (Invalid (name @ '' must be a capsule-relative path''))
      else Inr (path_text p))"

definition lower_hex :: "char \<Rightarrow> bool" where
  "lower_hex c = (let n = (of_char c :: nat) in 48 \<le> n \<and> n \<le> 57 \<or> 97 \<le> n \<and> n \<le> 102)"

definition sha256_text :: "string \<Rightarrow> bool" where
  "sha256_text s = (length s = 64 \<and> list_all lower_hex s)"

definition valid_sha :: "pyval \<Rightarrow> string \<Rightarrow> bool \<Rightarrow> string option checked" where
  "valid_sha v name required =
     (if v = PNone then (if required then Inl (Invalid (name @ '' is required'')) else Inr None)
      else let s = lower (py_str v) in
        if sha256_text s then Inr (Some s) else Inl (Invalid (name @ '' must be a lowercase SHA-256 digest'')))"

definition int_or :: "pydict \<Rightarrow> string \<Rightarrow> int \<Rightarrow> int checked" where
  "int_or raw k d = map_error Escaped (py_int (dget_default raw k (PInt d)))"

definition text_or_empty :: "pydict \<Rightarrow> string \<Rightarrow> string" where
  "text_or_empty raw k = py_str (dget_default raw k (PStr []))"

definition opt_str :: "pydict \<Rightarrow> string \<Rightarrow> string option" where
  "opt_str raw k = (if dget raw k = PNone then None else Some (py_str (dget raw k)))"

text \<open>\<open>tuple(f(v) for v in raw.get(k, ()))\<close>.\<close>

definition each :: "(pyval \<Rightarrow> 'a checked) \<Rightarrow> pydict \<Rightarrow> string \<Rightarrow> 'a list checked" where
  "each f raw k = rbind (map_error Escaped (py_iter (dget_default raw k (PList [])))) (mapR f)"

section \<open>Components\<close>

record producer_spec =
  pc_adapter :: string
  pc_adapter_version :: string
  pc_framework_version :: string
  pc_image_digest :: string
  pc_rocm_version :: string

definition producer_from_dict :: "pydict \<Rightarrow> producer_spec" where
  "producer_from_dict raw =
     (let f = (\<lambda>k. strip (text_or_empty raw k)) in
      \<lparr>pc_adapter = f ''adapter'', pc_adapter_version = f ''adapter_version'',
       pc_framework_version = f ''framework_version'', pc_image_digest = f ''image_digest'',
       pc_rocm_version = f ''rocm_version''\<rparr>)"

definition producer_valid :: "producer_spec \<Rightarrow> bool" where
  "producer_valid p =
     ([] \<notin> {pc_adapter p, pc_adapter_version p, pc_framework_version p, pc_image_digest p, pc_rocm_version p})"

record target_spec =
  tg_gpu_arch :: string
  tg_xnack :: bool
  tg_version :: int

definition target_from_dict :: "pydict \<Rightarrow> target_spec checked" where
  "target_from_dict raw =
     rbind (int_or raw ''code_object_version'' 0) (\<lambda>v.
     Inr \<lparr>tg_gpu_arch = text_or_empty raw ''gpu_arch'', tg_xnack = truthy (dget_default raw ''xnack'' (PBool False)),
          tg_version = v\<rparr>)"

definition lower_letter :: "char \<Rightarrow> bool" where
  "lower_letter c = (is_alpha c \<and> lower_char c = c)"

definition gpu_arch_text :: "string \<Rightarrow> bool" where
  "gpu_arch_text s =
     (starts_with ''gfx'' s \<and> drop 3 s \<noteq> [] \<and> list_all (\<lambda>c. is_digit c \<or> lower_letter c) (drop 3 s))"

definition target_valid :: "target_spec \<Rightarrow> bool" where
  "target_valid t = (gpu_arch_text (tg_gpu_arch t) \<and> tg_version t \<in> {4, 5, 6})"

record case_spec =
  cs_task_id :: string
  cs_case_id :: string
  cs_seed :: "int option"
  cs_scope :: string

definition case_from_dict :: "pydict \<Rightarrow> case_spec checked" where
  "case_from_dict raw =
     rbind (if dget raw ''seed'' = PNone then Inr None
            else rbind (map_error Escaped (py_int (dget raw ''seed''))) (\<lambda>k. Inr (Some k))) (\<lambda>seed.
     Inr \<lparr>cs_task_id = text_or_empty raw ''task_id'', cs_case_id = text_or_empty raw ''case_id'', cs_seed = seed,
          cs_scope = text_or_empty raw ''candidate_scope''\<rparr>)"

definition case_valid :: "case_spec \<Rightarrow> bool" where
  "case_valid c = ([] \<notin> {cs_task_id c, cs_case_id c, cs_scope c})"

record code_object_spec =
  co_path :: string
  co_sha256 :: string
  co_kernel_name :: string

definition code_object_from_dict :: "pydict \<Rightarrow> code_object_spec checked" where
  "code_object_from_dict raw =
     rbind (safe_relative_path (dget_default raw ''path'' (PStr [])) ''code_object.path'') (\<lambda>path.
     rbind (valid_sha (dget raw ''sha256'') ''code_object.sha256'' True) (\<lambda>sha.
     Inr \<lparr>co_path = path, co_sha256 = (case sha of Some s \<Rightarrow> s | None \<Rightarrow> []),
          co_kernel_name = text_or_empty raw ''kernel_name''\<rparr>))"

text \<open>\<open>_IDENTIFIER_RE\<close> and \<open>_ALLOCATION_ID_RE\<close>.\<close>

definition identifier_text :: "string \<Rightarrow> bool" where
  "identifier_text s =
     (s \<noteq> [] \<and> (is_alpha (hd s) \<or> hd s \<in> {CHR ''_'', CHR ''.'', CHR ''$''})
      \<and> list_all (\<lambda>c. is_alpha c \<or> is_digit c \<or> c \<in> {CHR ''_'', CHR ''.'', CHR ''$'', CHR ''@'', CHR ''-''}) (tl s))"

definition allocation_id_text :: "string \<Rightarrow> bool" where
  "allocation_id_text s =
     (s \<noteq> [] \<and> (is_alpha (hd s) \<or> hd s = CHR ''_'')
      \<and> list_all (\<lambda>c. is_alpha c \<or> is_digit c \<or> c \<in> {CHR ''_'', CHR ''.'', CHR ''-''}) (tl s))"

record launch_spec =
  la_grid :: triple
  la_block :: triple
  la_smem :: int

definition launch_from_dict :: "pydict \<Rightarrow> launch_spec checked" where
  "launch_from_dict raw =
     rbind (tuple3 (dget raw ''grid'') ''launch.grid'' 1) (\<lambda>grid.
     rbind (tuple3 (dget raw ''block'') ''launch.block'' 1) (\<lambda>block.
     rbind (exact_int (dget_default raw ''dynamic_smem_bytes'' (PInt 0)) ''launch.dynamic_smem_bytes'' 0 UINT32_MAX) (\<lambda>smem.
     Inr \<lparr>la_grid = grid, la_block = block, la_smem = smem\<rparr>)))"

definition triple_in_range :: "triple \<Rightarrow> bool" where
  "triple_in_range t = (case t of (a, b, c) \<Rightarrow> list_all (\<lambda>k. 1 \<le> k \<and> k \<le> UINT32_MAX) [a, b, c])"

definition threads :: "triple \<Rightarrow> int" where
  "threads t = (case t of (a, b, c) \<Rightarrow> a * b * c)"

definition launch_valid :: "launch_spec \<Rightarrow> bool" where
  "launch_valid l =
     (triple_in_range (la_grid l) \<and> triple_in_range (la_block l) \<and> 0 \<le> la_smem l \<and> la_smem l \<le> UINT32_MAX
      \<and> threads (la_block l) \<le> 1024)"

record abi_argument =
  ab_index :: int
  ab_name :: string
  ab_kind :: string
  ab_c_type :: string
  ab_size :: int
  ab_ref :: "string option"
  ab_byte_offset :: int
  ab_value :: pyval
  ab_bytes_hex :: "string option"

definition argument_from_dict :: "pydict \<Rightarrow> abi_argument checked" where
  "argument_from_dict raw =
     rbind (int_or raw ''index'' (- 1)) (\<lambda>index.
     rbind (int_or raw ''size'' 0) (\<lambda>size.
     rbind (int_or raw ''byte_offset'' 0) (\<lambda>offset.
     Inr \<lparr>ab_index = index, ab_name = text_or_empty raw ''name'', ab_kind = text_or_empty raw ''kind'',
          ab_c_type = text_or_empty raw ''c_type'', ab_size = size, ab_ref = opt_str raw ''ref'',
          ab_byte_offset = offset, ab_value = dget raw ''value'', ab_bytes_hex = opt_str raw ''bytes_hex''\<rparr>)))"

definition scalar_types :: "(string \<times> int) list" where
  "scalar_types =
     [(''i8'', 1), (''u8'', 1), (''i16'', 2), (''u16'', 2), (''f16'', 2), (''bf16'', 2), (''i32'', 4), (''u32'', 4),
      (''f32'', 4), (''i64'', 8), (''u64'', 8), (''f64'', 8)]"

definition dtype_bytes :: "(string \<times> int) list" where
  "dtype_bytes =
     [(''bool'', 1), (''int8'', 1), (''uint8'', 1), (''int16'', 2), (''uint16'', 2), (''float16'', 2),
      (''bfloat16'', 2), (''int32'', 4), (''uint32'', 4), (''float32'', 4), (''int64'', 8), (''uint64'', 8),
      (''float64'', 8)]"

text \<open>\<open>bytes.fromhex\<close>: blanks between the bytes are skipped; \<open>None\<close> is \<open>ValueError\<close>.\<close>

definition ascii_space :: "char \<Rightarrow> bool" where
  "ascii_space c = (let n = (of_char c :: nat) in 9 \<le> n \<and> n \<le> 13 \<or> n = 32)"

fun from_hex :: "string \<Rightarrow> nat list option" where
  "from_hex [] = Some []"
| "from_hex (c # s) =
     (if ascii_space c then from_hex s
      else case s of [] \<Rightarrow> None
      | d # s' \<Rightarrow>
          (case (hex_value c, hex_value d) of
             (Some a, Some b) \<Rightarrow> map_option (Cons (16 * a + b)) (from_hex s')
           | _ \<Rightarrow> None))"

definition scalar_ok :: "abi_argument \<Rightarrow> bool" where
  "scalar_ok a = (map_of scalar_types (ab_c_type a) = Some (ab_size a) \<and> ab_value a \<noteq> PNone)"

definition bytes_ok :: "abi_argument \<Rightarrow> bool" where
  "bytes_ok a =
     (case ab_bytes_hex a of None \<Rightarrow> False
      | Some h \<Rightarrow> int (length h) = ab_size a * 2 \<and> from_hex h \<noteq> None)"

definition argument_valid :: "abi_argument \<Rightarrow> bool" where
  "argument_valid a =
     (0 \<le> ab_index a \<and> ab_name a \<noteq> [] \<and> ab_kind a \<in> {''pointer'', ''scalar'', ''implicit'', ''bytes''}
      \<and> 0 < ab_size a \<and> 0 \<le> ab_byte_offset a
      \<and> (ab_kind a \<in> {''pointer'', ''implicit''} \<longrightarrow> has_text (ab_ref a))
      \<and> (ab_kind a = ''scalar'' \<longrightarrow> scalar_ok a) \<and> (ab_kind a = ''bytes'' \<longrightarrow> bytes_ok a))"

record allocation_spec =
  al_id :: string
  al_byte_size :: int
  al_before_blob :: string
  al_before_sha256 :: string
  al_expected_blob :: "string option"
  al_expected_sha256 :: "string option"
  al_alignment :: int

definition allocation_from_dict :: "pydict \<Rightarrow> allocation_spec checked" where
  "allocation_from_dict raw =
     (let expected = dget raw ''expected_blob'' in
      rbind (int_or raw ''byte_size'' (- 1)) (\<lambda>size.
      rbind (safe_relative_path (dget_default raw ''before_blob'' (PStr [])) ''allocation.before_blob'') (\<lambda>before.
      rbind (valid_sha (dget raw ''before_sha256'') ''allocation.before_sha256'' True) (\<lambda>before_sha.
      rbind (if truthy expected
             then rbind (safe_relative_path expected ''allocation.expected_blob'') (\<lambda>p. Inr (Some p)) else Inr None) (\<lambda>blob.
      rbind (valid_sha (dget raw ''expected_sha256'') ''allocation.expected_sha256'' (truthy expected)) (\<lambda>expected_sha.
      rbind (int_or raw ''alignment'' 1) (\<lambda>alignment.
      Inr \<lparr>al_id = text_or_empty raw ''id'', al_byte_size = size, al_before_blob = before,
           al_before_sha256 = (case before_sha of Some s \<Rightarrow> s | None \<Rightarrow> []), al_expected_blob = blob,
           al_expected_sha256 = expected_sha, al_alignment = alignment\<rparr>)))))))"

definition power_of_two :: "int \<Rightarrow> bool" where
  "power_of_two a = (0 < a \<and> a AND (a - 1) = 0)"

definition allocation_valid :: "allocation_spec \<Rightarrow> bool" where
  "allocation_valid a =
     (allocation_id_text (al_id a) \<and> 0 < al_byte_size a \<and> power_of_two (al_alignment a)
      \<and> has_text (al_expected_blob a) = has_text (al_expected_sha256 a))"

record view_spec =
  vw_arg_index :: int
  vw_allocation_id :: string
  vw_byte_offset :: int
  vw_dtype :: string
  vw_shape :: "int list"
  vw_stride :: "int list"

definition checked_int :: "pyval \<Rightarrow> int checked" where
  "checked_int v = map_error Escaped (py_int v)"

definition view_from_dict :: "pydict \<Rightarrow> view_spec checked" where
  "view_from_dict raw =
     rbind (int_or raw ''arg_index'' (- 1)) (\<lambda>index.
     rbind (int_or raw ''byte_offset'' 0) (\<lambda>offset.
     rbind (each checked_int raw ''shape'') (\<lambda>shape.
     rbind (each checked_int raw ''stride'') (\<lambda>stride.
     Inr \<lparr>vw_arg_index = index, vw_allocation_id = text_or_empty raw ''allocation_id'', vw_byte_offset = offset,
          vw_dtype = text_or_empty raw ''dtype'', vw_shape = shape, vw_stride = stride\<rparr>))))"

definition max_element :: "view_spec \<Rightarrow> int" where
  "max_element v = sum_list (map (\<lambda>(dim, step). (dim - 1) * step)
     (filter (\<lambda>(dim, step). dim \<noteq> 0) (zip (vw_shape v) (vw_stride v))))"

definition view_valid :: "view_spec \<Rightarrow> allocation_spec \<Rightarrow> bool" where
  "view_valid v a =
     (0 \<le> vw_arg_index v \<and> 0 \<le> vw_byte_offset v
      \<and> vw_shape v \<noteq> [] \<and> length (vw_shape v) = length (vw_stride v)
      \<and> list_all (\<lambda>d. 0 \<le> d) (vw_shape v) \<and> list_all (\<lambda>d. 0 \<le> d) (vw_stride v)
      \<and> (case map_of dtype_bytes (vw_dtype v) of None \<Rightarrow> False
         | Some width \<Rightarrow> vw_byte_offset v + (max_element v + 1) * width \<le> al_byte_size a))"

record relocation_spec =
  rl_allocation_id :: string
  rl_byte_offset :: int
  rl_target_id :: string
  rl_target_offset :: int
  rl_pointer_size :: int

definition relocation_from_dict :: "pydict \<Rightarrow> relocation_spec checked" where
  "relocation_from_dict raw =
     rbind (int_or raw ''byte_offset'' (- 1)) (\<lambda>offset.
     rbind (int_or raw ''target_byte_offset'' 0) (\<lambda>target_offset.
     rbind (int_or raw ''pointer_size'' 8) (\<lambda>size.
     Inr \<lparr>rl_allocation_id = text_or_empty raw ''allocation_id'', rl_byte_offset = offset,
          rl_target_id = text_or_empty raw ''target_allocation_id'', rl_target_offset = target_offset,
          rl_pointer_size = size\<rparr>)))"

definition relocation_valid :: "(string \<times> allocation_spec) list \<Rightarrow> relocation_spec \<Rightarrow> bool" where
  "relocation_valid allocations r =
     (case (map_of allocations (rl_allocation_id r), map_of allocations (rl_target_id r)) of
        (Some source, Some target) \<Rightarrow>
          rl_pointer_size r = 8 \<and> 0 \<le> rl_byte_offset r \<and> rl_byte_offset r + rl_pointer_size r \<le> al_byte_size source
          \<and> 0 \<le> rl_target_offset r \<and> rl_target_offset r < al_byte_size target
      | _ \<Rightarrow> False)"

record scratch_spec =
  sx_global_bytes :: int
  sx_profile_bytes :: int
  sx_profile_alignment :: int

definition scratch_from_dict :: "pydict \<Rightarrow> scratch_spec checked" where
  "scratch_from_dict raw =
     rbind (int_or raw ''global_bytes'' 0) (\<lambda>g.
     rbind (int_or raw ''profile_bytes'' 0) (\<lambda>p.
     rbind (int_or raw ''profile_alignment'' 1) (\<lambda>a.
     Inr \<lparr>sx_global_bytes = g, sx_profile_bytes = p, sx_profile_alignment = a\<rparr>)))"

definition scratch_valid :: "scratch_spec \<Rightarrow> bool" where
  "scratch_valid s = (0 \<le> sx_global_bytes s \<and> 0 \<le> sx_profile_bytes s \<and> power_of_two (sx_profile_alignment s))"

section \<open>The capsule\<close>

record capsule =
  rc_schema_version :: int
  rc_producer :: producer_spec
  rc_target :: target_spec
  rc_case :: case_spec
  rc_code_object :: code_object_spec
  rc_launch :: launch_spec
  rc_abi :: "abi_argument list"
  rc_allocations :: "allocation_spec list"
  rc_views :: "view_spec list"
  rc_relocations :: "relocation_spec list"
  rc_scratch :: scratch_spec
  rc_dispatch_count :: int

definition allocation_table :: "capsule \<Rightarrow> (string \<times> allocation_spec) list" where
  "allocation_table c = map (\<lambda>a. (al_id a, a)) (rc_allocations c)"

definition argument_refs_ok :: "(string \<times> allocation_spec) list \<Rightarrow> abi_argument \<Rightarrow> bool" where
  "argument_refs_ok allocations a =
     ((ab_kind a = ''pointer'' \<longrightarrow>
         (case Option.bind (ab_ref a) (map_of allocations) of None \<Rightarrow> False
          | Some x \<Rightarrow> ab_byte_offset a < al_byte_size x))
      \<and> (ab_kind a = ''implicit'' \<longrightarrow> ab_ref a \<in> {Some ''scratch:global'', Some ''scratch:profile'', Some ''null''}))"

text \<open>One round of the loop over the views; an index below zero counts from the end of the list.\<close>

definition argument_at :: "abi_argument list \<Rightarrow> int \<Rightarrow> abi_argument checked" where
  "argument_at xs k =
     (let n = int (length xs) in
      if k < - n \<or> n \<le> k then Inl IndexError else Inr (xs ! nat (if k < 0 then n + k else k)))"

definition view_step :: "capsule \<Rightarrow> int list \<Rightarrow> view_spec \<Rightarrow> int list checked" where
  "view_step c seen v =
     (if vw_arg_index v \<in> set seen then Inl (Invalid ''multiple views describe one ABI argument'')
      else case map_of (allocation_table c) (vw_allocation_id v) of
        None \<Rightarrow> Inl (Invalid ''view references an unknown allocation'')
      | Some a \<Rightarrow>
          if int (length (rc_abi c)) \<le> vw_arg_index v then Inl (Invalid ''view must describe a pointer ABI argument'')
          else rbind (argument_at (rc_abi c) (vw_arg_index v)) (\<lambda>x.
            if ab_kind x \<noteq> ''pointer'' then Inl (Invalid ''view must describe a pointer ABI argument'')
            else if ab_ref x \<noteq> Some (vw_allocation_id v)
            then Inl (Invalid ''view allocation disagrees with ABI pointer ref'')
            else if \<not> view_valid v a then Inl (Invalid ''view'')
            else Inr (vw_arg_index v # seen)))"

definition validate_capsule :: "capsule \<Rightarrow> unit checked" where
  "validate_capsule c =
     rbind (guardR (rc_schema_version c = 1) (Invalid ''unsupported capsule schema_version'')) (\<lambda>_.
     rbind (guardR (rc_dispatch_count c = 1) (Invalid ''native replay MVP supports exactly one kernel dispatch'')) (\<lambda>_.
     rbind (guardR (producer_valid (rc_producer c)) (Invalid ''producer metadata is incomplete'')) (\<lambda>_.
     rbind (guardR (target_valid (rc_target c)) (Invalid ''invalid target'')) (\<lambda>_.
     rbind (guardR (case_valid (rc_case c)) (Invalid ''case task_id, case_id, and candidate_scope are required'')) (\<lambda>_.
     rbind (guardR (identifier_text (co_kernel_name (rc_code_object c))) (Invalid ''invalid kernel_name'')) (\<lambda>_.
     rbind (guardR (launch_valid (rc_launch c)) (Invalid ''launch geometry'')) (\<lambda>_.
     rbind (guardR (scratch_valid (rc_scratch c)) (Invalid ''scratch'')) (\<lambda>_.
     rbind (guardR (rc_abi c \<noteq> []) (Invalid ''capsule ABI cannot be empty'')) (\<lambda>_.
     rbind (guardR (map ab_index (rc_abi c) = map int [0..<length (rc_abi c)])
              (Invalid ''ABI argument indices must be contiguous and ordered'')) (\<lambda>_.
     rbind (guardR (distinct (map ab_name (rc_abi c))) (Invalid ''ABI argument names must be unique'')) (\<lambda>_.
     rbind (guardR (list_all argument_valid (rc_abi c)) (Invalid ''ABI argument'')) (\<lambda>_.
     rbind (guardR (distinct (map al_id (rc_allocations c))) (Invalid ''allocation ids must be unique'')) (\<lambda>_.
     rbind (guardR (list_all allocation_valid (rc_allocations c)) (Invalid ''allocation'')) (\<lambda>_.
     rbind (guardR (list_ex (\<lambda>a. has_text (al_expected_blob a)) (rc_allocations c))
              (Invalid ''replay capsule requires at least one golden expected output'')) (\<lambda>_.
     rbind (guardR (list_all (argument_refs_ok (allocation_table c)) (rc_abi c)) (Invalid ''ABI reference'')) (\<lambda>_.
     rbind (foldR (view_step c) [] (rc_views c)) (\<lambda>_.
     guardR (list_all (relocation_valid (allocation_table c)) (rc_relocations c)) (Invalid ''relocation''))))))))))))))))))"

definition mapped :: "string \<Rightarrow> (pydict \<Rightarrow> 'a checked) \<Rightarrow> pyval \<Rightarrow> 'a checked" where
  "mapped name f v = rbind (require_mapping v name) f"

definition build_capsule :: "pydict \<Rightarrow> capsule checked" where
  "build_capsule raw =
     rbind (int_or raw ''schema_version'' 0) (\<lambda>version.
     rbind (require_mapping (dget raw ''producer'') ''producer'') (\<lambda>producer.
     rbind (mapped ''target'' target_from_dict (dget raw ''target'')) (\<lambda>target.
     rbind (mapped ''case'' case_from_dict (dget raw ''case'')) (\<lambda>cs.
     rbind (mapped ''code_object'' code_object_from_dict (dget raw ''code_object'')) (\<lambda>code.
     rbind (mapped ''launch'' launch_from_dict (dget raw ''launch'')) (\<lambda>launch.
     rbind (each (mapped ''abi item'' argument_from_dict) raw ''abi'') (\<lambda>abi.
     rbind (each (mapped ''allocation'' allocation_from_dict) raw ''allocations'') (\<lambda>allocations.
     rbind (each (mapped ''view'' view_from_dict) raw ''views'') (\<lambda>views.
     rbind (each (mapped ''relocation'' relocation_from_dict) raw ''relocations'') (\<lambda>relocations.
     rbind (mapped ''scratch'' scratch_from_dict (dget_default raw ''scratch'' (PDict []))) (\<lambda>scratch.
     rbind (int_or raw ''dispatch_count'' 1) (\<lambda>dispatches.
     Inr \<lparr>rc_schema_version = version, rc_producer = producer_from_dict producer, rc_target = target, rc_case = cs,
          rc_code_object = code, rc_launch = launch, rc_abi = abi, rc_allocations = allocations, rc_views = views,
          rc_relocations = relocations, rc_scratch = scratch, rc_dispatch_count = dispatches\<rparr>))))))))))))"

definition capsule_from_dict :: "pyval \<Rightarrow> capsule checked" where
  "capsule_from_dict v =
     rbind (require_mapping v ''capsule'') (\<lambda>raw.
     rbind (build_capsule raw) (\<lambda>c.
     rbind (validate_capsule c) (\<lambda>_. Inr c)))"

section \<open>Files\<close>

definition resolve_below :: "file_view \<Rightarrow> string \<Rightarrow> string \<Rightarrow> string checked" where
  "resolve_below fs base relative =
     (let p = fv_resolve fs (path_join base relative) in
      if path_relative_to p base = None then Inl (Invalid ''capsule path escapes base directory'') else Inr p)"

definition has_digest :: "string \<Rightarrow> string option \<Rightarrow> bool" where
  "has_digest digest contents = (case contents of None \<Rightarrow> False | Some b \<Rightarrow> sha256_hex b = digest)"

definition has_size :: "int \<Rightarrow> string option \<Rightarrow> bool" where
  "has_size bytes contents = (case contents of None \<Rightarrow> False | Some b \<Rightarrow> int (length b) = bytes)"

definition verify_blob :: "file_view \<Rightarrow> string \<Rightarrow> string \<Rightarrow> int \<Rightarrow> string \<Rightarrow> unit checked" where
  "verify_blob fs base relative bytes digest =
     rbind (resolve_below fs base relative) (\<lambda>p.
     rbind (guardR (has_size bytes (fv_contents fs p)) (Invalid ''blob size mismatch'')) (\<lambda>_.
     guardR (has_digest digest (fv_contents fs p)) (Invalid ''blob hash mismatch'')))"

definition verify_allocation :: "file_view \<Rightarrow> string \<Rightarrow> allocation_spec \<Rightarrow> unit checked" where
  "verify_allocation fs base a =
     rbind (verify_blob fs base (al_before_blob a) (al_byte_size a) (al_before_sha256 a)) (\<lambda>_.
     case al_expected_blob a of
       Some p \<Rightarrow> if p = [] then Inr ()
         else verify_blob fs base p (al_byte_size a) (case al_expected_sha256 a of Some s \<Rightarrow> s | None \<Rightarrow> [])
     | None \<Rightarrow> Inr ())"

definition elf_magic :: string where
  "elf_magic = [CHR 0x7F, CHR ''E'', CHR ''L'', CHR ''F'']"

definition verify_files :: "file_view \<Rightarrow> string \<Rightarrow> capsule \<Rightarrow> unit checked" where
  "verify_files fs base c =
     rbind (resolve_below fs base (co_path (rc_code_object c))) (\<lambda>code.
     rbind (guardR (has_digest (co_sha256 (rc_code_object c)) (fv_contents fs code))
              (Invalid ''code object is missing or its SHA-256 does not match'')) (\<lambda>_.
     rbind (guardR (case fv_contents fs code of None \<Rightarrow> False | Some b \<Rightarrow> take 4 b = elf_magic)
              (Invalid ''code object is not an ELF/HSACO file'')) (\<lambda>_.
     rbind (mapR (verify_allocation fs base) (rc_allocations c)) (\<lambda>_. Inr ()))))"

text \<open>\<open>load\<close>: of a file with the given text; \<open>decode\<close> is the decoding of UTF-8.\<close>

definition parent_path :: "string \<Rightarrow> string" where
  "parent_path p = (let q = posix_path p in path_text (fst q, butlast (snd q)))"

definition plain_pairs :: pairs_hook where
  "plain_pairs ps = Inr (dict_of ps)"

definition plain_constant :: constant_hook where
  "plain_constant c = Inr (PFloat (if c = ''NaN'' then NaN else if c = ''Infinity'' then PInf else NInf))"

definition load_capsule :: "file_view \<Rightarrow> (string \<Rightarrow> string option) \<Rightarrow> string \<Rightarrow> capsule checked" where
  "load_capsule fs decode path =
     (let p = fv_resolve fs path in
      case fv_contents fs p of
        None \<Rightarrow> Inl OsError
      | Some bytes \<Rightarrow>
          (case decode bytes of
             None \<Rightarrow> Inl (Escaped ValueErr)
           | Some s \<Rightarrow>
               rbind (map_error (\<lambda>_. Escaped ValueErr) (json_loads plain_pairs plain_constant s)) (\<lambda>v.
               rbind (capsule_from_dict v) (\<lambda>c.
               rbind (verify_files fs (parent_path p) c) (\<lambda>_. Inr c)))))"

section \<open>Dictionaries\<close>

definition triple_value :: "triple \<Rightarrow> pyval" where
  "triple_value t = (case t of (a, b, c) \<Rightarrow> PList [PInt a, PInt b, PInt c])"

definition opt_int :: "int option \<Rightarrow> pyval" where
  "opt_int k = (case k of None \<Rightarrow> PNone | Some n \<Rightarrow> PInt n)"

definition producer_value :: "producer_spec \<Rightarrow> pyval" where
  "producer_value p = PDict
     [(PStr ''adapter'', PStr (pc_adapter p)), (PStr ''adapter_version'', PStr (pc_adapter_version p)),
      (PStr ''framework_version'', PStr (pc_framework_version p)), (PStr ''image_digest'', PStr (pc_image_digest p)),
      (PStr ''rocm_version'', PStr (pc_rocm_version p))]"

definition target_value :: "target_spec \<Rightarrow> pyval" where
  "target_value t = PDict
     [(PStr ''gpu_arch'', PStr (tg_gpu_arch t)), (PStr ''xnack'', PBool (tg_xnack t)),
      (PStr ''code_object_version'', PInt (tg_version t))]"

definition case_value :: "case_spec \<Rightarrow> pyval" where
  "case_value c = PDict
     [(PStr ''task_id'', PStr (cs_task_id c)), (PStr ''case_id'', PStr (cs_case_id c)),
      (PStr ''seed'', opt_int (cs_seed c)), (PStr ''candidate_scope'', PStr (cs_scope c))]"

definition code_object_value :: "code_object_spec \<Rightarrow> pyval" where
  "code_object_value c = PDict
     [(PStr ''path'', PStr (co_path c)), (PStr ''sha256'', PStr (co_sha256 c)),
      (PStr ''kernel_name'', PStr (co_kernel_name c))]"

definition launch_value :: "launch_spec \<Rightarrow> pyval" where
  "launch_value l = PDict
     [(PStr ''grid'', triple_value (la_grid l)), (PStr ''block'', triple_value (la_block l)),
      (PStr ''dynamic_smem_bytes'', PInt (la_smem l))]"

definition argument_value :: "abi_argument \<Rightarrow> pyval" where
  "argument_value a = PDict
     [(PStr ''index'', PInt (ab_index a)), (PStr ''name'', PStr (ab_name a)), (PStr ''kind'', PStr (ab_kind a)),
      (PStr ''c_type'', PStr (ab_c_type a)), (PStr ''size'', PInt (ab_size a)), (PStr ''ref'', opt_text (ab_ref a)),
      (PStr ''byte_offset'', PInt (ab_byte_offset a)), (PStr ''value'', ab_value a),
      (PStr ''bytes_hex'', opt_text (ab_bytes_hex a))]"

definition allocation_value :: "allocation_spec \<Rightarrow> pyval" where
  "allocation_value a = PDict
     [(PStr ''id'', PStr (al_id a)), (PStr ''byte_size'', PInt (al_byte_size a)),
      (PStr ''before_blob'', PStr (al_before_blob a)), (PStr ''before_sha256'', PStr (al_before_sha256 a)),
      (PStr ''expected_blob'', opt_text (al_expected_blob a)), (PStr ''expected_sha256'', opt_text (al_expected_sha256 a)),
      (PStr ''alignment'', PInt (al_alignment a))]"

definition view_value :: "view_spec \<Rightarrow> pyval" where
  "view_value v = PDict
     [(PStr ''arg_index'', PInt (vw_arg_index v)), (PStr ''allocation_id'', PStr (vw_allocation_id v)),
      (PStr ''byte_offset'', PInt (vw_byte_offset v)), (PStr ''dtype'', PStr (vw_dtype v)),
      (PStr ''shape'', PList (map PInt (vw_shape v))), (PStr ''stride'', PList (map PInt (vw_stride v)))]"

definition relocation_value :: "relocation_spec \<Rightarrow> pyval" where
  "relocation_value r = PDict
     [(PStr ''allocation_id'', PStr (rl_allocation_id r)), (PStr ''byte_offset'', PInt (rl_byte_offset r)),
      (PStr ''target_allocation_id'', PStr (rl_target_id r)), (PStr ''target_byte_offset'', PInt (rl_target_offset r)),
      (PStr ''pointer_size'', PInt (rl_pointer_size r))]"

definition scratch_value :: "scratch_spec \<Rightarrow> pyval" where
  "scratch_value s = PDict
     [(PStr ''global_bytes'', PInt (sx_global_bytes s)), (PStr ''profile_bytes'', PInt (sx_profile_bytes s)),
      (PStr ''profile_alignment'', PInt (sx_profile_alignment s))]"

definition capsule_to_dict :: "capsule \<Rightarrow> pyval" where
  "capsule_to_dict c = PDict
     [(PStr ''schema_version'', PInt (rc_schema_version c)), (PStr ''producer'', producer_value (rc_producer c)),
      (PStr ''target'', target_value (rc_target c)), (PStr ''case'', case_value (rc_case c)),
      (PStr ''code_object'', code_object_value (rc_code_object c)), (PStr ''launch'', launch_value (rc_launch c)),
      (PStr ''abi'', PList (map argument_value (rc_abi c))),
      (PStr ''allocations'', PList (map allocation_value (rc_allocations c))),
      (PStr ''views'', PList (map view_value (rc_views c))),
      (PStr ''relocations'', PList (map relocation_value (rc_relocations c))),
      (PStr ''scratch'', scratch_value (rc_scratch c)), (PStr ''dispatch_count'', PInt (rc_dispatch_count c))]"

end
