(* ===== verification/ToolText.thy ===== *)
theory ToolText
  imports EvalConfig TaskProtocol
begin

text \<open>
  Reading the text a sanitizer prints: the regular expressions of \<open>src/eval_tools/plugins/parsers.py\<close>
  as matchers, and the texts built from what was read.  In every pattern a repetition is followed by
  characters it cannot consume, so a match never backtracks.
\<close>

section \<open>Characters\<close>

text \<open>\<open>\w\<close> on the code points below 256: letters, digits, numeric signs and the underscore.\<close>

definition word_char :: "char \<Rightarrow> bool" where
  "word_char c = (let n = (of_char c :: nat) in
     is_digit c \<or> is_alpha c \<or> n = 95 \<or> n \<in> {170, 178, 179, 181, 185, 186, 188, 189, 190}
     \<or> (192 \<le> n \<and> n \<noteq> 215 \<and> n \<noteq> 247))"

definition word_before :: "char option \<Rightarrow> bool" where
  "word_before p = (case p of None \<Rightarrow> False | Some c \<Rightarrow> word_char c)"

definition word_after :: "string \<Rightarrow> bool" where
  "word_after s = (s \<noteq> [] \<and> word_char (hd s))"

text \<open>\<open>^\<close> with \<open>re.M\<close>.\<close>

definition line_start :: "char option \<Rightarrow> bool" where
  "line_start p = (case p of None \<Rightarrow> True | Some c \<Rightarrow> c = CHR 0x0A)"

definition newline :: string where
  "newline = [CHR 0x0A]"

section \<open>Matching\<close>

text \<open>A literal, and one with \<open>re.I\<close>: the rest of the text.\<close>

definition literal :: "string \<Rightarrow> string \<Rightarrow> string option" where
  "literal p s = (if starts_with p s then Some (drop (length p) s) else None)"

definition literal_ci :: "string \<Rightarrow> string \<Rightarrow> string option" where
  "literal_ci p s = (if lower (take (length p) s) = p then Some (drop (length p) s) else None)"

text \<open>\<open>\s+\<close>, and one or more characters of a class.\<close>

definition spaces :: "string \<Rightarrow> string option" where
  "spaces s = (if s \<noteq> [] \<and> py_isspace (hd s) then Some (dropWhile py_isspace s) else None)"

definition some_of :: "(char \<Rightarrow> bool) \<Rightarrow> string \<Rightarrow> (string \<times> string) option" where
  "some_of P s = (if takeWhile P s = [] then None else Some (takeWhile P s, dropWhile P s))"

text \<open>\<open>pattern.search\<close>: the leftmost match; a matcher also sees the character before.\<close>

fun search :: "(char option \<Rightarrow> string \<Rightarrow> 'a option) \<Rightarrow> char option \<Rightarrow> string \<Rightarrow> 'a option" where
  "search m p [] = m p []"
| "search m p (c # s) = (case m p (c # s) of Some x \<Rightarrow> Some x | None \<Rightarrow> search m (Some c) s)"

text \<open>
  \<open>pattern.finditer\<close> for a pattern that matches no empty text: the matches with their positions and
  lengths, \<open>skip\<close> characters of the last match still to be passed.
\<close>

fun find_iter ::
    "(char option \<Rightarrow> string \<Rightarrow> ('a \<times> string) option) \<Rightarrow> nat \<Rightarrow> nat \<Rightarrow> char option \<Rightarrow> string
      \<Rightarrow> (nat \<times> nat \<times> 'a) list" where
  "find_iter m skip pos p [] = []"
| "find_iter m skip pos p (c # s) =
     (if 0 < skip then find_iter m (skip - 1) (Suc pos) (Some c) s
      else case m p (c # s) of
        None \<Rightarrow> find_iter m 0 (Suc pos) (Some c) s
      | Some (x, rest) \<Rightarrow>
          (let n = length (c # s) - length rest in
           (pos, n, x) # find_iter m (n - 1) (Suc pos) (Some c) s))"

text \<open>\<open>text.find(p)\<close>; \<open>None\<close> is \<open>-1\<close>.\<close>

fun text_index :: "string \<Rightarrow> string \<Rightarrow> nat option" where
  "text_index p [] = (if p = [] then Some 0 else None)"
| "text_index p (c # s) = (if starts_with p (c # s) then Some 0 else map_option Suc (text_index p s))"

definition contains_text :: "string \<Rightarrow> string \<Rightarrow> bool" where
  "contains_text p s = (text_index p s \<noteq> None)"

text \<open>\<open>s.split()\<close>.\<close>

fun split_words :: "string \<Rightarrow> string list" where
  "split_words [] = []"
| "split_words (c # s) =
     (if py_isspace c then split_words s
      else if s = [] \<or> py_isspace (hd s) then [c] # split_words s
      else (case split_words s of [] \<Rightarrow> [[c]] | w # ws \<Rightarrow> (c # w) # ws))"

section \<open>The patterns\<close>

text \<open>\<open>_ASAN_HEAD_RE\<close>, \<open>_ASAN_KIND_RE\<close> and \<open>_ASAN_LOCATION_RE\<close>.\<close>

definition asan_head :: "char option \<Rightarrow> string \<Rightarrow> unit option" where
  "asan_head p s =
     (if word_before p then None
      else case literal_ci ''error:'' s of None \<Rightarrow> None
      | Some r \<Rightarrow>
          (let r1 = dropWhile py_isspace r;
               r2 = (case Option.bind (literal_ci ''gpu'' r1) spaces of Some r2 \<Rightarrow> r2 | None \<Rightarrow> r1) in
           case literal_ci ''addresssanitizer'' r2 of None \<Rightarrow> None
           | Some r3 \<Rightarrow> if word_after r3 then None else Some ()))"

definition asan_kinds :: "string list" where
  "asan_kinds =
     [''heap-buffer-overflow'', ''global-buffer-overflow'', ''stack-buffer-overflow'', ''use-after-free'',
      ''use-after-return'', ''double-free'', ''invalid-free'', ''container-overflow'', ''unknown-crash'']"

definition asan_kind :: "char option \<Rightarrow> string \<Rightarrow> string option" where
  "asan_kind p s =
     (if word_before p then None
      else find (\<lambda>k. case literal_ci k s of None \<Rightarrow> False | Some r \<Rightarrow> \<not> word_after r) asan_kinds)"

definition hex_char :: "char \<Rightarrow> bool" where
  "hex_char c = (hex_value c \<noteq> None)"

definition asan_location :: "char option \<Rightarrow> string \<Rightarrow> string option" where
  "asan_location p s =
     (case first_some (\<lambda>w. Option.bind (literal_ci w s) spaces) [''pc'', ''address''] of None \<Rightarrow> None
      | Some r \<Rightarrow>
          (case Option.bind (literal_ci ''0x'' r) (some_of hex_char) of None \<Rightarrow> None
           | Some (digits, _) \<Rightarrow> Some (take 2 r @ digits)))"

text \<open>\<open>_RACE_START_RE\<close>: type, register, wave, lane, workgroup and the optional conflict.\<close>

definition not_space :: "char \<Rightarrow> bool" where
  "not_space c = (\<not> py_isspace c)"

definition field_after :: "string \<Rightarrow> (char \<Rightarrow> bool) \<Rightarrow> string \<Rightarrow> (string \<times> string) option" where
  "field_after name P s = Option.bind (Option.bind (spaces s) (literal name)) (some_of P)"

record race_match =
  rs_type :: string
  rs_reg :: string
  rs_wave :: string
  rs_lane :: string
  rs_wg :: string
  rs_conflict :: "string option"

definition race_start :: "char option \<Rightarrow> string \<Rightarrow> (race_match \<times> string) option" where
  "race_start p s =
     (if \<not> line_start p then None
      else Option.bind (literal ''RACE'' s) (\<lambda>r0.
        Option.bind (field_after ''type='' not_space r0) (\<lambda>(type, r1).
        Option.bind (field_after ''reg='' is_digit r1) (\<lambda>(reg, r2).
        Option.bind (field_after ''wave='' is_digit r2) (\<lambda>(wave, r3).
        Option.bind (field_after ''lane='' is_digit r3) (\<lambda>(lane, r4).
        Option.bind (field_after ''wg='' not_space r4) (\<lambda>(wg, r5).
        let (conflict, r6) = (case field_after ''conflict='' not_space r5 of
              None \<Rightarrow> (None, r5) | Some (x, r6) \<Rightarrow> (Some x, r6)) in
        Some (\<lparr>rs_type = type, rs_reg = reg, rs_wave = wave, rs_lane = lane, rs_wg = wg,
               rs_conflict = conflict\<rparr>, r6))))))))"

text \<open>\<open>_KERNEL_RE\<close>.\<close>

definition kernel_dispatch :: "char option \<Rightarrow> string \<Rightarrow> (string \<times> string) option" where
  "kernel_dispatch p s =
     (if \<not> line_start p then None
      else Option.bind (literal ''[rocjitsu]'' s) (\<lambda>r0.
        Option.bind (spaces r0) (\<lambda>r1.
        Option.bind (literal ''Kernel dispatch:'' r1) (\<lambda>r2.
        Option.bind (spaces r2) (\<lambda>r3.
        Option.bind (literal [CHR 0x22] r3) (\<lambda>r4.
        Option.bind (some_of (\<lambda>c. c \<noteq> CHR 0x22) r4) (\<lambda>(kernel, r5).
        if r5 = [] then None else Some (kernel, tl r5))))))))"

text \<open>\<open>_UNSIGNED_RE\<close> and \<open>_PAIR_RE\<close>, which must match the whole text.\<close>

definition unsigned_text :: "string \<Rightarrow> bool" where
  "unsigned_text s = (s = ''0'' \<or> s \<noteq> [] \<and> hd s \<noteq> CHR ''0'' \<and> list_all is_digit s)"

definition pair_text :: "string \<Rightarrow> (string \<times> string) option" where
  "pair_text s =
     (case split_on CHR ''/'' s of
        [a, b] \<Rightarrow> if unsigned_text a \<and> unsigned_text b then Some (a, b) else None
      | _ \<Rightarrow> None)"

section \<open>Texts\<close>

text \<open>\<open>json.dumps(v, sort_keys=True)\<close> of a decoded value.\<close>

definition ascii_char :: "char \<Rightarrow> string" where
  "ascii_char c =
     (let n = (of_char c :: nat) in
      if 127 \<le> n then [CHR 0x5C, CHR ''u'', CHR ''0'', CHR ''0'', hex_digit (n div 16), hex_digit (n mod 16)]
      else json_char c)"

definition ascii_string :: "string \<Rightarrow> string" where
  "ascii_string s = CHR 0x22 # concat (map ascii_char s) @ [CHR 0x22]"

fun sorted_dumps :: "pyval \<Rightarrow> string" where
  "sorted_dumps PNone = ''null''"
| "sorted_dumps (PBool b) = (if b then ''true'' else ''false'')"
| "sorted_dumps (PInt k) = int_digits k"
| "sorted_dumps (PFloat f) = json_float f"
| "sorted_dumps (PStr s) = ascii_string s"
| "sorted_dumps (PList xs) = ''['' @ join_by '', '' (map sorted_dumps xs) @ '']''"
| "sorted_dumps (PDict d) =
     ''{'' @ join_by '', '' (map (\<lambda>p. ascii_string (fst p) @ '': '' @ snd p)
       (sort_key fst (map (\<lambda>kv. (py_str (fst kv), sorted_dumps (snd kv))) d))) @ ''}''"

text \<open>\<open>f"{k:x}"\<close>.\<close>

fun nat_hex :: "nat \<Rightarrow> string" where
  "nat_hex n = (if n < 16 then [hex_digit n] else nat_hex (n div 16) @ [hex_digit (n mod 16)])"

declare nat_hex.simps [simp del]

definition int_hex :: "int \<Rightarrow> string" where
  "int_hex k = (if k < 0 then CHR ''-'' # nat_hex (nat (- k)) else nat_hex (nat k))"

text \<open>\<open>json.loads\<close> without an object hook: of equal keys the last value counts.\<close>

definition last_pairs :: pairs_hook where
  "last_pairs ps = Inr (dict_of ps)"

text \<open>The text of a decoding error; the decoder's own positions are left out.\<close>

fun json_error_text :: "json_error \<Rightarrow> string" where
  "json_error_text (BadConstant c) = ''non-finite JSON constant: '' @ c"
| "json_error_text _ = ''invalid JSON''"

definition json_line :: "string \<Rightarrow> (string, pyval) result" where
  "json_line s = map_error json_error_text (json_loads last_pairs reject_constant s)"

definition joined_output :: "string list \<Rightarrow> string" where
  "joined_output xs = join_by newline (filter (\<lambda>x. x \<noteq> []) xs)"

end
