(* ===== verification/ToolParsers.thy ===== *)
theory ToolParsers
  imports ToolText
begin

text \<open>
  \<open>src/eval_tools/plugins/parsers.py\<close>: what the output of each sanitizer says.  A parse result is not a
  pass unless the run was attested; which evidence a pass needs is the subject of \<open>ToolParserFacts\<close>.
  A parser returns a result or raises, as \<open>int\<close> does on a text it cannot read.
\<close>

section \<open>Results of a parser\<close>

datatype parse_status = Pass | Finding | ToolError | Inconclusive

record finding_record =
  fr_kind :: string
  fr_message :: string
  fr_kernel :: "string option"
  fr_location :: "string option"
  fr_raw :: string
  fr_metadata :: pydict

record parse_result =
  pr_status :: parse_status
  pr_findings :: "finding_record list"
  pr_reason_code :: string
  pr_details :: string
  pr_attested :: bool

definition parsed_as :: "parse_status \<Rightarrow> string \<Rightarrow> string \<Rightarrow> bool \<Rightarrow> parse_result" where
  "parsed_as status reason details attested =
     \<lparr>pr_status = status, pr_findings = [], pr_reason_code = reason, pr_details = details, pr_attested = attested\<rparr>"

definition found :: "finding_record list \<Rightarrow> string \<Rightarrow> bool \<Rightarrow> parse_result" where
  "found findings reason attested =
     \<lparr>pr_status = Finding, pr_findings = findings, pr_reason_code = reason, pr_details = [], pr_attested = attested\<rparr>"

section \<open>GPU AddressSanitizer\<close>

definition asan_finding :: "string \<Rightarrow> finding_record" where
  "asan_finding combined =
     \<lparr>fr_kind = (case search asan_kind None combined of Some k \<Rightarrow> k | None \<Rightarrow> ''gpu-memory-error''),
      fr_message = ''GPU AddressSanitizer reported an invalid memory access'', fr_kernel = None,
      fr_location = search asan_location None combined, fr_raw = combined, fr_metadata = []\<rparr>"

definition parse_gpu_asan :: "string \<Rightarrow> string \<Rightarrow> pyval \<Rightarrow> bool \<Rightarrow> bool \<Rightarrow> parse_result" where
  "parse_gpu_asan stdout stderr returncode attested timed_out =
     (let combined = joined_output [stdout, stderr] in
      if search asan_head None combined \<noteq> None
      then found [asan_finding combined] ''gpu_asan_finding'' attested
      else if timed_out then parsed_as ToolError ''gpu_asan_timeout'' combined attested
      else if \<not> attested
      then parsed_as Inconclusive ''gpu_asan_instrumentation_not_attested''
             ''A clean exit cannot prove safety for an uninstrumented code object.'' False
      else if \<not> py_eq returncode (PInt 0)
      then parsed_as ToolError ''gpu_asan_process_failed_without_report'' combined True
      else parsed_as Pass ''gpu_asan_clean'' [] True)"

section \<open>rocJITsu\<close>

definition kernel_matches :: "string \<Rightarrow> (nat \<times> nat \<times> string) list" where
  "kernel_matches s = find_iter kernel_dispatch 0 0 None s"

definition rocjitsu_dispatch_kernels :: "string \<Rightarrow> string list" where
  "rocjitsu_dispatch_kernels s = map (\<lambda>(_, _, name). name) (kernel_matches s)"

text \<open>The matches of a race with the text up to \<open>END_RACE\<close>.\<close>

definition race_text :: "string \<Rightarrow> nat \<Rightarrow> nat \<Rightarrow> string" where
  "race_text s start n =
     (let rest = drop (start + n) s in
      take n (drop start s) @ (case text_index ''END_RACE'' rest of
        Some k \<Rightarrow> take (k + length ''END_RACE'') rest | None \<Rightarrow> rest))"

definition race_blocks :: "string \<Rightarrow> (nat \<times> race_match \<times> string) list" where
  "race_blocks s = map (\<lambda>(start, n, m). (start, m, race_text s start n)) (find_iter race_start 0 0 None s)"

text \<open>The kernel of the last dispatch before a position.\<close>

definition kernel_before :: "(nat \<times> nat \<times> string) list \<Rightarrow> nat \<Rightarrow> string option" where
  "kernel_before ks pos =
     (case rev (takeWhile (\<lambda>k. fst k < pos) ks) of [] \<Rightarrow> None | (_, _, name) # _ \<Rightarrow> Some name)"

type_synonym race_facts = "string \<times> int \<times> int \<times> int \<times> string \<times> string option \<times> string option"

definition int_text :: "string \<Rightarrow> (py_exc, int) result" where
  "int_text s = py_int (PStr s)"

definition race_key :: "race_match \<Rightarrow> string option \<Rightarrow> (py_exc, race_facts) result" where
  "race_key m launched =
     rbind (int_text (rs_reg m)) (\<lambda>reg.
     rbind (int_text (rs_wave m)) (\<lambda>wave.
     rbind (int_text (rs_lane m)) (\<lambda>lane.
     Inr (lower (rs_type m), reg, wave, lane, rs_wg m, rs_conflict m, launched))))"

definition race_finding :: "race_match \<Rightarrow> race_facts \<Rightarrow> string \<Rightarrow> finding_record" where
  "race_finding m k raw =
     (case k of (type, reg, wave, lane, wg, conflict, launched) \<Rightarrow>
      \<lparr>fr_kind = type @ ''-race'',
       fr_message = ''rocJITsu reported a '' @ rs_type m @ '' race at register/byte '' @ rs_reg m
         @ '' in workgroup '' @ wg,
       fr_kernel = launched, fr_location = Some (''wave='' @ rs_wave m @ '',lane='' @ rs_lane m), fr_raw = raw,
       fr_metadata = [(PStr ''memory'', PStr (rs_type m)), (PStr ''register_or_byte'', PInt reg),
         (PStr ''wave'', PInt wave), (PStr ''lane'', PInt lane), (PStr ''workgroup'', PStr wg),
         (PStr ''conflict'', opt_text conflict)]\<rparr>)"

text \<open>One round of the loop: the keys that were seen and the findings so far.\<close>

definition race_step ::
    "(nat \<times> nat \<times> string) list \<Rightarrow> race_facts list \<times> finding_record list \<Rightarrow> nat \<times> race_match \<times> string
      \<Rightarrow> (py_exc, race_facts list \<times> finding_record list) result" where
  "race_step ks acc b =
     (case (acc, b) of ((seen, findings), (pos, m, raw)) \<Rightarrow>
      rbind (race_key m (kernel_before ks pos)) (\<lambda>k.
      if k \<in> set seen then Inr (seen, findings)
      else Inr (k # seen, findings @ [race_finding m k raw])))"

definition parse_rocjitsu ::
    "string \<Rightarrow> string \<Rightarrow> pyval \<Rightarrow> bool \<Rightarrow> string \<Rightarrow> bool \<Rightarrow> (py_exc, parse_result) result" where
  "parse_rocjitsu stdout stderr returncode attested report timed_out =
     (let combined = joined_output [stdout, stderr, report]; ks = kernel_matches combined in
      rbind (foldR (race_step ks) ([], []) (race_blocks combined)) (\<lambda>(_, findings).
      if findings \<noteq> [] then Inr (found findings ''rocjitsu_race'' attested)
      else if timed_out then Inr (parsed_as ToolError ''rocjitsu_timeout'' combined attested)
      else if \<not> attested
      then Inr (parsed_as Inconclusive ''rocjitsu_dispatch_not_attested''
                  ''No matching simulated kernel dispatch was attested.'' False)
      else if \<not> py_eq returncode (PInt 0)
      then Inr (parsed_as ToolError ''rocjitsu_process_failed_without_race_report'' combined True)
      else if ks = []
      then Inr (parsed_as Inconclusive ''rocjitsu_no_dispatch_observed''
                  ''The launcher exited cleanly but no canonical [rocjitsu] Kernel dispatch record was observed.'' True)
      else Inr (parsed_as Pass ''rocjitsu_clean'' [] True)))"

section \<open>FPSan\<close>

definition json_payloads :: "string \<Rightarrow> string \<Rightarrow> (string, pyval list) result" where
  "json_payloads mark s =
     mapR (\<lambda>line. json_line (drop (length mark) line)) (filter (starts_with mark) (splitlines s))"

definition FPSAN_PREFIX :: string where "FPSAN_PREFIX = ''AKA_FPSAN_RESULT ''"

definition fpsan_digests :: "pydict \<Rightarrow> parse_result" where
  "fpsan_digests payload =
     (let text = sorted_dumps (PDict payload);
          ref = dget payload ''reference_digest''; cand = dget payload ''candidate_digest'' in
      if \<not> is_str ref \<or> \<not> is_str cand then parsed_as ToolError ''fpsan_digest_missing'' text True
      else if \<not> truthy ref \<or> \<not> truthy cand then parsed_as ToolError ''fpsan_digest_empty'' text True
      else if ref \<noteq> cand
      then found [\<lparr>fr_kind = ''floating-point-semantic-mismatch'',
             fr_message = ''FPSan payloads differ between reference and optimized kernels'',
             fr_kernel = None, fr_location = None, fr_raw = text,
             fr_metadata = [(PStr ''reference_digest'', ref), (PStr ''candidate_digest'', cand)]\<rparr>]
           ''fpsan_semantic_mismatch'' True
      else parsed_as Pass ''fpsan_equivalent'' [] True)"

definition fpsan_payload :: "pyval \<Rightarrow> parse_result" where
  "fpsan_payload v =
     (case v of
        PDict payload \<Rightarrow>
          if dget payload ''instrumented'' \<noteq> PBool True
          then parsed_as Inconclusive ''fpsan_harness_did_not_attest_instrumentation'' (sorted_dumps v) True
          else fpsan_digests payload
      | _ \<Rightarrow> parsed_as ToolError ''fpsan_result_not_an_object'' (sorted_dumps v) True)"

definition parse_fpsan_comparison :: "string \<Rightarrow> string \<Rightarrow> pyval \<Rightarrow> bool \<Rightarrow> bool \<Rightarrow> parse_result" where
  "parse_fpsan_comparison stdout stderr returncode attested timed_out =
     (let combined = joined_output [stdout, stderr] in
      case json_payloads FPSAN_PREFIX combined of
        Inl message \<Rightarrow> parsed_as ToolError ''fpsan_invalid_result_json'' message attested
      | Inr payloads \<Rightarrow>
          if timed_out then parsed_as ToolError ''fpsan_timeout'' combined attested
          else if \<not> py_eq returncode (PInt 0) then parsed_as ToolError ''fpsan_process_failed'' combined attested
          else if \<not> attested
          then parsed_as Inconclusive ''fpsan_instrumentation_not_attested''
                 ''FPSan outputs are meaningful only when both compared kernels were instrumented.'' False
          else (case payloads of
              [] \<Rightarrow> parsed_as ToolError ''fpsan_comparison_missing''
                     ''Expected an AKA_FPSAN_RESULT JSON line from the comparison harness.'' True
            | [v] \<Rightarrow> fpsan_payload v
            | _ \<Rightarrow> parsed_as ToolError ''fpsan_multiple_results'' combined True))"

section \<open>Waitcheck\<close>

definition WAITCHECK_PREFIX :: string where "WAITCHECK_PREFIX = ''AKA_WAITCHECK_RESULT ''"

record waitcheck_identity =
  wi_sha256 :: string
  wi_target :: string
  wi_kernel :: string
  wi_entry :: int

definition identity_matches :: "waitcheck_identity \<Rightarrow> pydict \<Rightarrow> bool" where
  "identity_matches i p =
     (py_eq (dget p ''schema_version'') (PInt 1)
      \<and> py_eq (dget p ''code_object_sha256'') (PStr (wi_sha256 i)) \<and> py_eq (dget p ''target'') (PStr (wi_target i))
      \<and> py_eq (dget p ''expected_kernel'') (PStr (wi_kernel i)) \<and> py_eq (dget p ''kernel_entry'') (PInt (wi_entry i))
      \<and> dget p ''inventory_attested'' = PBool True)"

definition waitcheck_counts :: "string list" where
  "waitcheck_counts =
     [''instructions_analyzed'', ''memory_events_tracked'', ''kernels_discovered'', ''kernels_analyzed'',
      ''diagnostics_observed'', ''diagnostics_reported'']"

fun is_count :: "pyval \<Rightarrow> bool" where
  "is_count (PInt k) = (0 \<le> k)"
| "is_count _ = False"

definition analysis_complete :: "pydict \<Rightarrow> bool" where
  "analysis_complete p =
     (dget p ''analysis_complete'' = PBool True \<and> dget p ''diagnostics_truncated'' = PBool False
      \<and> dget p ''stopped_early'' = PBool False \<and> py_eq (dget p ''kernels_discovered'') (PInt 1)
      \<and> py_eq (dget p ''kernels_analyzed'') (PInt 1))"

definition wait_hazard :: "waitcheck_identity \<Rightarrow> pydict \<Rightarrow> (py_exc, finding_record) result" where
  "wait_hazard i d =
     rbind (py_int (dget_default d ''section_offset'' (PInt 0))) (\<lambda>offset.
     Inr \<lparr>fr_kind = ''wait-hazard-'' @ py_str (py_or (dget d ''code'') (PStr ''unknown'')),
          fr_message = py_str (py_or (dget d ''message'') (PStr ''Waitcheck reported an AMDGPU wait hazard'')),
          fr_kernel = Some (wi_kernel i),
          fr_location = Some (py_str (dget_default d ''section_name'' (PStr ''.text'')) @ ''+0x'' @ int_hex offset),
          fr_raw = sorted_dumps (PDict d), fr_metadata = dwithout d [''message'', ''kernel_name'']\<rparr>)"

text \<open>The loop over the diagnostics: the left part is a parse result that ends it.\<close>

fun wait_hazards ::
    "waitcheck_identity \<Rightarrow> pydict \<Rightarrow> finding_record list \<Rightarrow> pyval list
      \<Rightarrow> (py_exc, (parse_result, finding_record list) result) result" where
  "wait_hazards i p acc [] = Inr (Inr acc)"
| "wait_hazards i p acc (v # vs) =
     (case v of
        PDict d \<Rightarrow>
          if \<not> py_eq (dget d ''kernel_name'') (PStr (wi_kernel i)) \<or> \<not> py_eq (dget d ''kernel_entry'') (PInt (wi_entry i))
          then Inr (Inl (parsed_as Inconclusive ''waitcheck_diagnostic_kernel_mismatch'' (sorted_dumps v) True))
          else rbind (wait_hazard i d) (\<lambda>f. wait_hazards i p (acc @ [f]) vs)
      | _ \<Rightarrow> Inr (Inl (parsed_as ToolError ''waitcheck_diagnostic_invalid'' (sorted_dumps (PDict p)) True)))"

definition waitcheck_verdict :: "pydict \<Rightarrow> finding_record list \<Rightarrow> parse_result" where
  "waitcheck_verdict p findings =
     (let text = sorted_dumps (PDict p) in
      if findings \<noteq> []
      then (if dget p ''passed'' \<noteq> PBool False
            then parsed_as ToolError ''waitcheck_verdict_disagrees_with_diagnostics'' text True
            else found findings ''waitcheck_wait_hazard'' True)
      else if dget p ''passed'' \<noteq> PBool True
      then parsed_as Inconclusive ''waitcheck_clean_verdict_missing'' text True
      else parsed_as Pass ''waitcheck_clean'' [] True)"

definition waitcheck_payload ::
    "pyval \<Rightarrow> waitcheck_identity \<Rightarrow> pydict \<Rightarrow> (py_exc, parse_result) result" where
  "waitcheck_payload returncode i p =
     (let text = sorted_dumps (PDict p) in
      if \<not> identity_matches i p
      then Inr (parsed_as Inconclusive ''waitcheck_artifact_identity_not_attested'' text False)
      else if \<not> py_eq returncode (PInt 0) \<or> \<not> py_eq (dget p ''api_status'') (PInt 0)
      then Inr (parsed_as ToolError ''waitcheck_analysis_failed'' text True)
      else if \<not> list_all (\<lambda>k. is_count (dget p k)) waitcheck_counts
      then Inr (parsed_as ToolError ''waitcheck_invalid_result_counts'' text True)
      else if \<not> analysis_complete p
      then Inr (parsed_as Inconclusive ''waitcheck_analysis_incomplete'' text True)
      else case dget p ''diagnostics'' of
        PList ds \<Rightarrow>
          if \<not> py_eq (PInt (int (length ds))) (dget p ''diagnostics_reported'')
          then Inr (parsed_as ToolError ''waitcheck_diagnostic_count_mismatch'' text True)
          else if \<not> py_eq (dget p ''diagnostics_observed'') (PInt (int (length ds)))
          then Inr (parsed_as Inconclusive ''waitcheck_diagnostics_not_lossless'' text True)
          else rbind (wait_hazards i p [] ds) (\<lambda>r.
            case r of Inl early \<Rightarrow> Inr early | Inr findings \<Rightarrow> Inr (waitcheck_verdict p findings))
      | _ \<Rightarrow> Inr (parsed_as ToolError ''waitcheck_diagnostic_count_mismatch'' text True))"

definition parse_waitcheck ::
    "string \<Rightarrow> string \<Rightarrow> pyval \<Rightarrow> waitcheck_identity \<Rightarrow> bool \<Rightarrow> (py_exc, parse_result) result" where
  "parse_waitcheck stdout stderr returncode i timed_out =
     (let combined = joined_output [stdout, stderr] in
      if timed_out then Inr (parsed_as ToolError ''waitcheck_timeout'' combined False)
      else case json_payloads WAITCHECK_PREFIX combined of
        Inl message \<Rightarrow> Inr (parsed_as ToolError ''waitcheck_invalid_result_json'' message False)
      | Inr [PDict p] \<Rightarrow> waitcheck_payload returncode i p
      | Inr payloads \<Rightarrow> Inr (parsed_as ToolError ''waitcheck_result_record_invalid''
          (''expected one result object, observed '' @ nat_digits (length payloads)) False))"

end
