(* ===== verification/ToolAttestation.thy ===== *)
theory ToolAttestation
  imports ReplayCapsule ToolParsers
begin

text \<open>
  What the plugins share: \<open>src/eval_tools/plugins/base.py\<close>, the build attestation of
  \<open>src/eval_tools/plugins/attestation.py\<close> and the identity of a code object of
  \<open>src/eval_tools/adapters/native_code_object.py\<close>.  The files a plugin sees and the changes it makes
  are functions of the record \<open>plugin_host\<close> on the world \<open>'w\<close>.  \<open>Invalid\<close> is a \<open>ValueError\<close> of the code,
  with its text or the fixed part of it.
\<close>

record 'w plugin_host =
  ph_view :: "'w \<Rightarrow> file_view"
  ph_exists :: "'w \<Rightarrow> string \<Rightarrow> bool"
  ph_decode :: "string \<Rightarrow> string option"
  ph_decode_lossy :: "string \<Rightarrow> string"
  ph_mkdir :: "string \<Rightarrow> 'w \<Rightarrow> unit checked \<times> 'w"
  ph_write :: "string \<Rightarrow> string \<Rightarrow> 'w \<Rightarrow> unit checked \<times> 'w"
  ph_cwd :: string

text \<open>What \<open>except (CapsuleValidationError, OSError, ValueError)\<close> catches, and the text of an error.\<close>

fun plugin_caught :: "capsule_error \<Rightarrow> bool" where
  "plugin_caught (Invalid _) = True"
| "plugin_caught OsError = True"
| "plugin_caught (Escaped e) = (e = ValueErr)"
| "plugin_caught IndexError = False"

fun plugin_error_text :: "capsule_error \<Rightarrow> string" where
  "plugin_error_text (Invalid m) = m"
| "plugin_error_text OsError = ''OSError''"
| "plugin_error_text (Escaped e) = ''error''"
| "plugin_error_text IndexError = ''list index out of range''"

abbreviation escaped :: "(py_exc, 'a) result \<Rightarrow> 'a checked" where
  "escaped r \<equiv> map_error Escaped r"

section \<open>Paths\<close>

definition resolved :: "'w plugin_host \<Rightarrow> 'w \<Rightarrow> string \<Rightarrow> string" where
  "resolved ph w p = fv_resolve (ph_view ph w) p"

definition strict_resolve :: "'w plugin_host \<Rightarrow> 'w \<Rightarrow> string \<Rightarrow> string checked" where
  "strict_resolve ph w p = (if ph_exists ph w (resolved ph w p) then Inr (resolved ph w p) else Inl OsError)"

definition file_at :: "'w plugin_host \<Rightarrow> 'w \<Rightarrow> string \<Rightarrow> string option" where
  "file_at ph w p = fv_contents (ph_view ph w) p"

definition sha256_file :: "'w plugin_host \<Rightarrow> 'w \<Rightarrow> string \<Rightarrow> string checked" where
  "sha256_file ph w p = (case file_at ph w p of None \<Rightarrow> Inl OsError | Some b \<Rightarrow> Inr (sha256_hex b))"

text \<open>\<open>artifact_path\<close>: below the directory of the invocation.\<close>

definition artifact_path :: "'w plugin_host \<Rightarrow> 'w \<Rightarrow> tool_context \<Rightarrow> string \<Rightarrow> string \<Rightarrow> string checked" where
  "artifact_path ph w cx k default_relative =
     (let top_dir = resolved ph w (tx_artifact_dir cx);
          raw = dget (tx_options cx) k;
          candidate = resolved ph w (path_join top_dir (if raw = PNone then default_relative else py_str raw)) in
      case path_relative_to candidate top_dir of
        None \<Rightarrow> Inl (Invalid (k @ '' must resolve below the invocation artifact directory''))
      | Some r \<Rightarrow> if r = ''.'' then Inl (Invalid (k @ '' must name a file below the invocation artifact directory''))
                  else Inr candidate)"

text \<open>\<open>sidecar_path\<close>: a path of the isolated runtime, never looked up here.\<close>

definition sidecar_path :: "tool_context \<Rightarrow> string \<Rightarrow> string option checked" where
  "sidecar_path cx k =
     (let raw = dget (tx_options cx) k in
      if raw = PNone then Inr None
      else if NUL \<in> set (py_str raw) then Inl (Invalid (''invalid NUL byte in sidecar path option: '' @ k))
      else if fst (posix_path (py_str raw)) = [] then Inl (Invalid (''sidecar path option '' @ k @ '' must be absolute''))
      else Inr (Some (path_text (posix_path (py_str raw)))))"

definition required_sidecar_path :: "tool_context \<Rightarrow> string \<Rightarrow> string checked" where
  "required_sidecar_path cx k =
     rbind (sidecar_path cx k) (\<lambda>p.
     case p of None \<Rightarrow> Inl (Invalid (''missing required sidecar tool option: '' @ k)) | Some q \<Rightarrow> Inr q)"

section \<open>Commands and checks\<close>

definition command_tuple :: "pyval \<Rightarrow> string list checked" where
  "command_tuple v =
     rbind (escaped (py_iter v)) (\<lambda>xs.
     if xs = [] then Inl (Invalid ''command must not be empty'') else Inr (map py_str xs))"

fun command_from_context :: "tool_context \<Rightarrow> string list \<Rightarrow> string list checked" where
  "command_from_context cx [] = Inl (Invalid ''missing tool argv option'')"
| "command_from_context cx (k # ks) =
     (let raw = dget (tx_options cx) k in
      if \<not> truthy raw then command_from_context cx ks
      else if is_str raw then Inl (Invalid (tp_task_type (tx_profile cx) @ '': '' @ k @ '' must be an argv list, not a shell string''))
      else command_tuple raw)"

text \<open>\<open>blocked_check(state, code, detail, **evidence)\<close>: the evidence must not name a parameter.\<close>

definition blocked :: "capability_state \<Rightarrow> string \<Rightarrow> string \<Rightarrow> pydict \<Rightarrow> capability_check" where
  "blocked state code detail evidence =
     \<lparr>cc_state = state, cc_reason_code = PStr code, cc_detail = PStr detail, cc_evidence = evidence\<rparr>"

definition blocked_with ::
    "capability_state \<Rightarrow> string \<Rightarrow> string \<Rightarrow> pydict \<Rightarrow> capability_check checked" where
  "blocked_with state code detail evidence =
     (if list_all (\<lambda>kv. is_str (fst kv)
          \<and> fst kv \<notin> PStr ` {''state'', ''code'', ''detail'', ''cls'', ''reason_code''}) evidence
      then Inr (blocked state code detail evidence) else Inl (Escaped TypeErr))"

definition mk_capability :: "string \<Rightarrow> capability_check \<Rightarrow> capability_check \<Rightarrow> capability_check \<Rightarrow> tool_capability checked" where
  "mk_capability tool engine adapter rt = escaped (mk_tool_capability tool engine adapter rt None)"

text \<open>The entries of a dictionary display \<open>{**a, k: v, ...}\<close> of strings.\<close>

definition env_with :: "(string \<times> string) list \<Rightarrow> (string \<times> string) list \<Rightarrow> (string \<times> string) list" where
  "env_with a kvs = fold (\<lambda>(k, v) acc. AList.update k v acc) kvs a"

section \<open>Results\<close>

definition status_pair :: "parse_status \<Rightarrow> bool \<Rightarrow> execution_status \<times> finding_status" where
  "status_pair s timed_out =
     (case s of Finding \<Rightarrow> (COMPLETED, FOUND) | Pass \<Rightarrow> (COMPLETED, CLEAN)
      | Inconclusive \<Rightarrow> (if timed_out then TIMEOUT else COMPLETED, INCONCLUSIVE)
      | ToolError \<Rightarrow> (if timed_out then TIMEOUT else TOOL_ERROR, INCONCLUSIVE))"

definition contract_finding :: "finding_record \<Rightarrow> finding checked" where
  "contract_finding f =
     escaped (mk_finding (fr_kind f) (member finding_severities ERROR) (fr_message f)
       (strings (case fr_location f of Some s \<Rightarrow> if s \<noteq> [] then [s] else [] | None \<Rightarrow> []))
       (if fr_raw f = [] then PNone else PStr (fr_raw f))
       (PDict (if has_text (fr_kernel f) then dput (fr_metadata f) ''kernel'' (opt_text (fr_kernel f)) else fr_metadata f)))"

definition parsed_to_run_result ::
    "string \<Rightarrow> parse_result \<Rightarrow> execution_record \<Rightarrow> string list \<Rightarrow> pydict \<Rightarrow> tool_run_result checked" where
  "parsed_to_run_result tool parsed x artifacts more_metadata =
     (let (ex, fs) = status_pair (pr_status parsed) (er_timed_out x) in
      rbind (mapR contract_finding (pr_findings parsed)) (\<lambda>findings.
      escaped (mk_tool_run_result tool (member execution_statuses ex) (member finding_statuses fs) findings
        (PStr (if pr_details parsed \<noteq> [] then pr_details parsed else pr_reason_code parsed)) (strings artifacts) (Some x)
        (PDict (dmerge [(PStr ''reason_code'', PStr (pr_reason_code parsed)), (PStr ''attested'', PBool (pr_attested parsed))]
                  more_metadata)))))"

section \<open>Build attestations\<close>

record attestation =
  at_tool :: string
  at_instrumented :: bool
  at_build_command :: "string list"
  at_artifact_path :: "string option"
  at_artifact_sha256 :: pyval
  at_environment :: "(string \<times> string) list"
  at_evidence :: pyval
  at_artifact_root :: string

text \<open>\<open>_command_has_flag\<close>.\<close>

definition adjacent :: "string \<Rightarrow> string \<Rightarrow> string list \<Rightarrow> bool" where
  "adjacent a b xs = ((a, b) \<in> set (zip xs (tl xs)))"

definition command_has_flag :: "string list \<Rightarrow> string \<Rightarrow> bool" where
  "command_has_flag command required =
     (required \<in> set command
      \<or> (if (starts_with ''-I'' required \<or> starts_with ''-L'' required) \<and> 2 < length required
         then adjacent (take 2 required) (drop 2 required) command
         else starts_with ''--'' required \<and> CHR ''='' \<in> set required
           \<and> adjacent (takeWhile (\<lambda>c. c \<noteq> CHR ''='') required) (tl (dropWhile (\<lambda>c. c \<noteq> CHR ''='') required)) command))"

definition attested_path :: "'w plugin_host \<Rightarrow> 'w \<Rightarrow> string \<Rightarrow> pyval \<Rightarrow> string option checked" where
  "attested_path ph w base artifact =
     (if artifact = PNone then Inr None
      else if \<not> is_str artifact \<or> \<not> truthy artifact then Inl (Invalid ''artifact_path must be a non-empty relative path'')
      else let q = posix_path (py_str artifact) in
        if fst q \<noteq> [] \<or> ''..'' \<in> set (snd q) then Inl (Invalid ''artifact_path must stay below the attestation directory'')
        else let p = resolved ph w (path_join base (py_str artifact)) in
          if path_relative_to p base = None then Inl (Invalid ''artifact_path must stay below the attestation directory'')
          else Inr (Some p))"

definition attestation_of :: "'w plugin_host \<Rightarrow> 'w \<Rightarrow> string \<Rightarrow> pyval \<Rightarrow> attestation checked" where
  "attestation_of ph w base raw =
     rbind (escaped (attr_get raw ''artifact_path'' PNone)) (\<lambda>artifact.
     rbind (attested_path ph w base artifact) (\<lambda>path.
     rbind (escaped (subscript raw ''tool'')) (\<lambda>tool.
     rbind (escaped (subscript raw ''instrumented'')) (\<lambda>instrumented.
     rbind (escaped (attr_get raw ''build_command'' (PList []))) (\<lambda>command.
     rbind (escaped (py_iter command)) (\<lambda>argv.
     rbind (escaped (attr_get raw ''artifact_sha256'' PNone)) (\<lambda>sha.
     rbind (escaped (attr_get raw ''environment'' (PDict []))) (\<lambda>environment.
     rbind (case environment of PDict d \<Rightarrow> escaped (str_items environment) | _ \<Rightarrow> Inl (Escaped AttributeErr)) (\<lambda>env.
     rbind (escaped (attr_get raw ''evidence'' (PDict []))) (\<lambda>evidence.
     Inr \<lparr>at_tool = py_str tool, at_instrumented = truthy instrumented, at_build_command = map py_str argv,
          at_artifact_path = path, at_artifact_sha256 = sha, at_environment = env, at_evidence = evidence,
          at_artifact_root = base\<rparr>))))))))))"

definition load_attestation :: "'w plugin_host \<Rightarrow> 'w \<Rightarrow> string \<Rightarrow> attestation checked" where
  "load_attestation ph w path =
     rbind (strict_resolve ph w path) (\<lambda>p.
     case file_at ph w p of
       None \<Rightarrow> Inl OsError
     | Some bytes \<Rightarrow>
         (case ph_decode ph bytes of
            None \<Rightarrow> Inl (Escaped ValueErr)
          | Some s \<Rightarrow>
              rbind (map_error (\<lambda>_. Escaped ValueErr) (json_loads plain_pairs plain_constant s)) (\<lambda>raw.
              attestation_of ph w (parent_path p) raw)))"

text \<open>\<open>validate\<close> with \<open>require_artifact\<close>: only whether the attestation is valid is used.\<close>

definition artifact_valid :: "'w plugin_host \<Rightarrow> 'w \<Rightarrow> attestation \<Rightarrow> bool checked" where
  "artifact_valid ph w a =
     (case (at_artifact_path a, at_artifact_sha256 a) of
        (None, _) \<Rightarrow> Inr False
      | (Some _, PNone) \<Rightarrow> Inr False
      | (Some p, PStr sha) \<Rightarrow>
          if \<not> sha256_text sha then Inr False
          else let q = resolved ph w p in
            if path_relative_to q (resolved ph w (at_artifact_root a)) = None then Inr False
            else Inr (has_digest sha (file_at ph w q))
      | _ \<Rightarrow> Inl (Escaped TypeErr))"

definition env_value :: "attestation \<Rightarrow> string \<Rightarrow> string" where
  "env_value a k = (case map_of (at_environment a) k of Some v \<Rightarrow> v | None \<Rightarrow> [])"

definition validate_attestation ::
    "'w plugin_host \<Rightarrow> 'w \<Rightarrow> attestation \<Rightarrow> string \<Rightarrow> string list \<Rightarrow> (string \<times> string) list \<Rightarrow> bool checked" where
  "validate_attestation ph w a tool flags env =
     (if at_tool a \<noteq> tool \<or> \<not> at_instrumented a
         \<or> \<not> list_all (command_has_flag (at_build_command a)) flags
         \<or> \<not> list_all (\<lambda>(k, v). env_value a k = v) env
      then Inr False else artifact_valid ph w a)"

section \<open>Code objects\<close>

definition resolve_workspace_file :: "'w plugin_host \<Rightarrow> 'w \<Rightarrow> tool_context \<Rightarrow> string \<Rightarrow> string checked" where
  "resolve_workspace_file ph w cx k =
     (let raw = dget (tx_options cx) k in
      if raw = PNone \<or> strip (py_str raw) = [] then Inl (Invalid (''missing required tool option: '' @ k))
      else rbind (strict_resolve ph w (tx_workspace cx)) (\<lambda>workspace.
        rbind (strict_resolve ph w (path_join workspace (py_str raw))) (\<lambda>candidate.
        if path_relative_to candidate workspace = None
        then Inl (Invalid (k @ '' must resolve below the selected task workspace''))
        else if file_at ph w candidate = None then Inl (Invalid (k @ '' is not a regular file''))
        else Inr candidate)))"

text \<open>\<open>fnv1a64_file\<close>: on words of 64 bits, where the product wraps as the mask makes it.\<close>

definition fnv_step :: "64 word \<Rightarrow> char \<Rightarrow> 64 word" where
  "fnv_step v c = (v XOR of_nat (of_char c)) * 1099511628211"

definition fnv1a64 :: "string \<Rightarrow> 64 word" where
  "fnv1a64 s = foldl fnv_step 14695981039346656037 s"

definition fnv1a64_text :: "string \<Rightarrow> string" where
  "fnv1a64_text s =
     (let h = nat_hex (unat (fnv1a64 s)) in ''fnv1a64:'' @ replicate (16 - length h) CHR ''0'' @ h)"

definition fnv1a64_file :: "'w plugin_host \<Rightarrow> 'w \<Rightarrow> string \<Rightarrow> string checked" where
  "fnv1a64_file ph w p = (case file_at ph w p of None \<Rightarrow> Inl OsError | Some b \<Rightarrow> Inr (fnv1a64_text b))"

definition argument_paths :: "string \<Rightarrow> string list" where
  "argument_paths s = s # (if CHR ''='' \<in> set s then [tl (dropWhile (\<lambda>c. c \<noteq> CHR ''='') s)] else [])"

definition command_references_file ::
    "'w plugin_host \<Rightarrow> 'w \<Rightarrow> string list \<Rightarrow> string \<Rightarrow> string \<Rightarrow> bool checked" where
  "command_references_file ph w command path workspace =
     rbind (strict_resolve ph w path) (\<lambda>expected.
     rbind (strict_resolve ph w workspace) (\<lambda>top_dir.
     Inr (list_ex (\<lambda>s. list_ex (\<lambda>v. resolved ph w (path_join top_dir v) = expected) (argument_paths s)) command)))"

end
