(* ===== verification/ConsanParser.thy ===== *)
theory ConsanParser
  imports ToolParsers
begin

text \<open>
  \<open>parse_consan\<close> of \<open>src/eval_tools/plugins/parsers.py\<close>: the record and replay evidence of one code
  object.  Its helpers raise \<open>ValueError\<close> with a text, here the left part of their results.
\<close>

section \<open>Records\<close>

type_synonym fields = "(string \<times> string) list"

definition CONSAN_RUN_PREFIX :: string where "CONSAN_RUN_PREFIX = ''AKA_CONSAN_RUN ''"
definition CONSAN_PREFIX :: string where "CONSAN_PREFIX = ''ConSan ''"

definition consan_site_kinds :: "string list" where
  "consan_site_kinds = [''access'', ''barrier'', ''atomic'', ''fence'']"

definition consan_first_field :: "string \<Rightarrow> string" where
  "consan_first_field k = (if k = ''analysis verdict'' then ''applicable'' else ''reader'')"

text \<open>\<open>token.split("=", 1)\<close>.\<close>

definition split_field :: "string \<Rightarrow> (string \<times> string) option" where
  "split_field token =
     (if CHR ''='' \<in> set token
      then Some (takeWhile (\<lambda>c. c \<noteq> CHR ''='') token, tl (dropWhile (\<lambda>c. c \<noteq> CHR ''='') token)) else None)"

definition add_field :: "string \<Rightarrow> fields \<Rightarrow> string \<Rightarrow> (string, fields) result" where
  "add_field site acc token =
     (case split_field token of
        None \<Rightarrow> Inl (site @ '': malformed field '' @ str_repr token)
      | Some (k, v) \<Rightarrow>
          if k = [] \<or> v = [] \<or> map_of acc k \<noteq> None
          then Inl (site @ '': invalid or duplicate field '' @ str_repr token)
          else Inr (acc @ [(k, v)]))"

definition key_value_fields :: "string \<Rightarrow> string \<Rightarrow> (string, fields) result" where
  "key_value_fields payload site = foldR (add_field site) [] (split_words payload)"

definition field_text :: "fields \<Rightarrow> string \<Rightarrow> string" where
  "field_text f name = (case map_of f name of Some v \<Rightarrow> v | None \<Rightarrow> [])"

definition uint_field :: "fields \<Rightarrow> string \<Rightarrow> string \<Rightarrow> (string, int) result" where
  "uint_field f name site =
     (if \<not> unsigned_text (field_text f name) then Inl (site @ '': '' @ name @ '' is not an unsigned count'')
      else map_error (\<lambda>_. ''Exceeds the limit (4300 digits) for integer string conversion'')
             (int_text (field_text f name)))"

definition bool_field :: "fields \<Rightarrow> string \<Rightarrow> string \<Rightarrow> (string, bool) result" where
  "bool_field f name site =
     (if map_of f name \<in> {Some ''true'', Some ''false''} then Inr (map_of f name = Some ''true'')
      else Inl (site @ '': '' @ name @ '' is not a boolean''))"

definition consan_mark :: "string \<Rightarrow> string" where
  "consan_mark k = CONSAN_PREFIX @ k @ '' '' @ consan_first_field k @ ''=''"

text \<open>The records of a kind, from the numbered lines.\<close>

definition consan_record :: "string \<Rightarrow> nat \<times> string \<Rightarrow> (string, fields list) result" where
  "consan_record k numbered =
     (case numbered of (n, line) \<Rightarrow>
      (case text_index (consan_mark k) line of
         None \<Rightarrow> Inr []
       | Some offset \<Rightarrow>
           rbind (key_value_fields (consan_first_field k @ ''='' @ drop (offset + length (consan_mark k)) line)
                    (''ConSan '' @ k @ '' line '' @ nat_digits n))
             (\<lambda>f. Inr [f])))"

definition consan_records :: "string \<Rightarrow> string \<Rightarrow> (string, fields list) result" where
  "consan_records s k =
     rbind (mapR (consan_record k) (enumerate 1 (splitlines s))) (\<lambda>rs. Inr (concat rs))"

section \<open>Coverage\<close>

record site_counts =
  sc_discovered :: int
  sc_supported :: int
  sc_selected :: int
  sc_patched :: int
  sc_unsupported :: int
  sc_resource_failed :: int
  sc_lowering_failed :: int
  sc_expert_omitted :: int

definition site_counts_of :: "fields \<Rightarrow> string \<Rightarrow> string \<Rightarrow> (string, site_counts) result" where
  "site_counts_of f site k =
     rbind (uint_field f (k @ ''_discovered'') site) (\<lambda>discovered.
     rbind (uint_field f (k @ ''_supported'') site) (\<lambda>supported.
     rbind (uint_field f (k @ ''_selected'') site) (\<lambda>selected.
     rbind (uint_field f (k @ ''_patched'') site) (\<lambda>patched.
     rbind (uint_field f (k @ ''_unsupported'') site) (\<lambda>unsupported.
     rbind (uint_field f (k @ ''_resource_failed'') site) (\<lambda>resource_failed.
     rbind (uint_field f (k @ ''_placement_or_lowering_failed'') site) (\<lambda>lowering_failed.
     rbind (uint_field f (k @ ''_expert_limit_omitted'') site) (\<lambda>expert_omitted.
     rbind (guardR (discovered = supported + unsupported) (site @ '': '' @ k @ '' discovery accounting mismatch'')) (\<lambda>_.
     rbind (guardR (supported = selected + expert_omitted) (site @ '': '' @ k @ '' selection accounting mismatch'')) (\<lambda>_.
     rbind (guardR (selected = patched + resource_failed + lowering_failed)
              (site @ '': '' @ k @ '' patch accounting mismatch'')) (\<lambda>_.
     Inr \<lparr>sc_discovered = discovered, sc_supported = supported, sc_selected = selected, sc_patched = patched,
          sc_unsupported = unsupported, sc_resource_failed = resource_failed,
          sc_lowering_failed = lowering_failed, sc_expert_omitted = expert_omitted\<rparr>)))))))))))"

definition nothing_left_out :: "site_counts \<Rightarrow> bool" where
  "nothing_left_out c =
     (sc_unsupported c = 0 \<and> sc_resource_failed c = 0 \<and> sc_lowering_failed c = 0 \<and> sc_expert_omitted c = 0)"

text \<open>One coverage record: its reader, whether it discovered anything, whether it is complete.\<close>

definition coverage_record :: "nat \<times> fields \<Rightarrow> (string, int \<times> bool \<times> bool) result" where
  "coverage_record numbered =
     (case numbered of (n, f) \<Rightarrow>
      (let site = ''ConSan coverage record '' @ nat_digits n in
       rbind (uint_field f ''reader'' site) (\<lambda>reader.
       rbind (guardR (map_of f ''flavor'' = Some ''moi'' \<and> map_of f ''engine'' = Some ''record_replay'')
                (site @ '': unexpected flavor or engine'')) (\<lambda>_.
       rbind (mapR (site_counts_of f site) consan_site_kinds) (\<lambda>cs.
       rbind (bool_field f ''analysis_complete'' site) (\<lambda>reported.
       rbind (guardR (reported = list_all nothing_left_out cs)
                (site @ '': completeness disagrees with counters'')) (\<lambda>_.
       rbind (bool_field f ''expert_limit'' site) (\<lambda>limited.
       Inr (reader, sum_list (map sc_discovered cs) \<noteq> 0, list_all nothing_left_out cs \<and> \<not> limited)))))))))"

definition consan_coverage :: "fields list \<Rightarrow> (string, int list \<times> bool) result" where
  "consan_coverage records =
     (if records = [] then Inl ''missing ConSan coverage record''
      else rbind (mapR coverage_record (enumerate 1 records)) (\<lambda>rs.
        let applicable = filter (\<lambda>(_, discovered, _). discovered) rs in
        Inr (remdups (map fst applicable), list_all (\<lambda>(_, _, ok). ok) applicable)))"

section \<open>The verdict\<close>

text \<open>A chain of \<open>if not ...: return False\<close>, each condition possibly raising.\<close>

fun all_checks :: "(unit \<Rightarrow> (string, bool) result) list \<Rightarrow> (string, bool) result" where
  "all_checks [] = Inr True"
| "all_checks (c # cs) = rbind (c ()) (\<lambda>b. if b then all_checks cs else Inr False)"

definition verdict_context :: string where "verdict_context = ''ConSan analysis verdict''"

definition zero_field :: "fields \<Rightarrow> string \<Rightarrow> (string, bool) result" where
  "zero_field f name = rbind (uint_field f name verdict_context) (\<lambda>n. Inr (n = 0))"

definition equal_pair :: "fields \<Rightarrow> string \<Rightarrow> bool" where
  "equal_pair f name = (case pair_text (field_text f name) of Some (a, b) \<Rightarrow> a = b | None \<Rightarrow> False)"

definition applicable_count :: "fields \<Rightarrow> nat \<Rightarrow> (string, bool) result" where
  "applicable_count f n =
     rbind (uint_field f ''applicable_code_objects'' verdict_context) (\<lambda>k.
     if k \<noteq> int n then Inl ''ConSan applicable-code-object count mismatch'' else Inr True)"

definition validate_verdict :: "fields list \<Rightarrow> nat \<Rightarrow> (string, bool) result" where
  "validate_verdict records n =
     (case records of
        [f] \<Rightarrow> all_checks
          (map (\<lambda>name _. bool_field f name verdict_context)
             [''applicable'', ''analysis_complete'', ''static_complete'', ''dynamic_complete'']
           @ [\<lambda>_. applicable_count f n]
           @ map (\<lambda>name _. zero_field f name)
               [''incomplete_code_objects'', ''dynamic_incomplete'', ''replay_unsupported_access'',
                ''replay_unsupported_atomics'', ''replay_unsupported_fences'', ''replay_metadata_full'']
           @ map (\<lambda>k _. Inr (equal_pair f k)) consan_site_kinds)
      | _ \<Rightarrow> Inl (''expected one ConSan process verdict, observed '' @ nat_digits (length records)))"

section \<open>The evidence of the selected code object\<close>

fun filterR :: "('a \<Rightarrow> ('e, bool) result) \<Rightarrow> 'a list \<Rightarrow> ('e, 'a list) result" where
  "filterR P [] = Inr []"
| "filterR P (x # xs) = rbind (P x) (\<lambda>b. rbind (filterR P xs) (\<lambda>ys. Inr (if b then x # ys else ys)))"

record selected_object =
  ce_reader :: int
  ce_coverage_complete :: bool
  ce_verdict_complete :: bool
  ce_diagnostics :: "fields list"

definition expected_report :: "string \<Rightarrow> int list \<Rightarrow> fields \<Rightarrow> (string, bool) result" where
  "expected_report fingerprint readers r =
     (if map_of r ''code_object'' \<noteq> Some fingerprint then Inr False
      else rbind (uint_field r ''reader'' ''ConSan MOI report'') (\<lambda>k. Inr (k \<in> set readers)))"

definition matching_patch :: "int \<Rightarrow> fields \<Rightarrow> (string, bool) result" where
  "matching_patch reader r =
     rbind (uint_field r ''reader'' ''ConSan patch end'') (\<lambda>k.
     if k \<noteq> reader \<or> map_of r ''outcome'' \<noteq> Some ''modified-valid'' \<or> map_of r ''modified'' \<noteq> Some ''true'' then Inr False
     else rbind (uint_field r ''patches'' ''ConSan patch end'') (\<lambda>n. Inr (0 < n)))"

definition dispatched :: "fields \<Rightarrow> (string, bool) result" where
  "dispatched r =
     (case pair_text (field_text r ''dispatch_tokens'') of
        None \<Rightarrow> Inr False
      | Some (a, _) \<Rightarrow>
          rbind (map_error (\<lambda>_. ''Exceeds the limit (4300 digits) for integer string conversion'') (int_text a))
            (\<lambda>k. Inr (1 \<le> k)))"

text \<open>The selected code object: its report, its patch record, and the verdict of the process.\<close>

definition consan_selection ::
    "int list \<Rightarrow> bool \<Rightarrow> fields list \<Rightarrow> fields list \<Rightarrow> fields list \<Rightarrow> fields list \<Rightarrow> (string, selected_object) result" where
  "consan_selection readers coverage_complete patches verdicts diagnostics expected =
     (case expected of
       [r] \<Rightarrow>
         rbind (uint_field r ''reader'' ''ConSan MOI report'') (\<lambda>reader.
         rbind (dispatched r) (\<lambda>d.
         rbind (guardR d ''selected code object has no attested dispatch token'') (\<lambda>_.
         rbind (filterR (matching_patch reader) patches) (\<lambda>matching.
         rbind (guardR (length matching = 1) ''selected code object lacks one modified-valid patch record'') (\<lambda>_.
         rbind (validate_verdict verdicts (length readers)) (\<lambda>verdict_complete.
         Inr \<lparr>ce_reader = reader, ce_coverage_complete = coverage_complete,
              ce_verdict_complete = verdict_complete, ce_diagnostics = diagnostics\<rparr>))))))
     | _ \<Rightarrow> Inl ''expected exactly one dynamic report for the selected code object'')"

definition consan_evidence :: "string \<Rightarrow> string \<Rightarrow> (string, selected_object) result" where
  "consan_evidence fingerprint s =
     rbind (consan_records s ''patch end'') (\<lambda>patches.
     rbind (consan_records s ''coverage'') (\<lambda>coverage.
     rbind (consan_records s ''analysis verdict'') (\<lambda>verdicts.
     rbind (consan_records s ''MOI auto report'') (\<lambda>reports.
     rbind (consan_records s ''MOI auto replay diagnostic'') (\<lambda>diagnostics.
     rbind (consan_coverage coverage) (\<lambda>c.
     rbind (filterR (expected_report fingerprint (fst c)) reports) (\<lambda>expected.
     consan_selection (fst c) (snd c) patches verdicts diagnostics expected)))))))"

section \<open>Parsing\<close>

text \<open>The loop over the diagnostics is outside the \<open>try\<close>: a count it cannot read escapes.\<close>

definition opt_repr :: "string option \<Rightarrow> string" where
  "opt_repr v = (case v of Some s \<Rightarrow> s | None \<Rightarrow> ''None'')"

definition lds_race :: "fields \<Rightarrow> int \<Rightarrow> finding_record" where
  "lds_race r index =
     \<lparr>fr_kind = ''lds-concurrency-race'', fr_message = ''rocJITsu ConSan reported conflicting LDS accesses'',
      fr_kernel = None,
      fr_location = Some (''first_inst='' @ opt_repr (map_of r ''first_inst'')
        @ '',second_inst='' @ opt_repr (map_of r ''second_inst'')),
      fr_raw = join_by '' '' (map (\<lambda>(k, v). k @ ''='' @ v) r),
      fr_metadata = dput (map (\<lambda>(k, v). (PStr k, PStr v)) r) ''diagnostic_index'' (PInt index)\<rparr>"

definition value_error :: "(string, 'a) result \<Rightarrow> (py_exc, 'a) result" where
  "value_error r = map_error (\<lambda>_. ValueErr) r"

definition diagnostic_finding :: "string \<Rightarrow> int \<Rightarrow> fields \<Rightarrow> (py_exc, finding_record list) result" where
  "diagnostic_finding fingerprint reader r =
     (if map_of r ''code_object'' \<noteq> Some fingerprint then Inr []
      else rbind (value_error (uint_field r ''reader'' ''ConSan diagnostic'')) (\<lambda>k.
        if k \<noteq> reader then Inr []
        else rbind (value_error (uint_field r ''index'' ''ConSan diagnostic'')) (\<lambda>n. Inr [lds_race r n])))"

definition consan_verdict :: "string \<Rightarrow> string \<Rightarrow> selected_object \<Rightarrow> (py_exc, parse_result) result" where
  "consan_verdict combined fingerprint e =
     rbind (mapR (diagnostic_finding fingerprint (ce_reader e)) (ce_diagnostics e)) (\<lambda>fs.
     if concat fs \<noteq> [] then Inr (found (concat fs) ''consan_lds_race'' True)
     else if \<not> ce_coverage_complete e \<or> \<not> ce_verdict_complete e
     then Inr (parsed_as Inconclusive ''consan_analysis_incomplete'' combined True)
     else Inr (parsed_as Pass ''consan_clean'' [] True))"

definition run_identity :: "string \<Rightarrow> string \<Rightarrow> pydict \<Rightarrow> bool" where
  "run_identity sha256 fingerprint run =
     (py_eq (dget run ''schema_version'') (PInt 1) \<and> py_eq (dget run ''code_object_sha256'') (PStr sha256)
      \<and> py_eq (dget run ''code_object_fingerprint'') (PStr fingerprint)
      \<and> py_eq (dget run ''mode'') (PStr ''record-replay''))"

definition run_succeeded :: "pyval \<Rightarrow> pydict \<Rightarrow> bool" where
  "run_succeeded returncode run =
     (py_eq returncode (PInt 0) \<and> py_eq (dget run ''instrumented_returncode'') (PInt 0)
      \<and> py_eq (dget run ''oracle_returncode'') (PInt 0) \<and> dget run ''oracle_passed'' = PBool True)"

definition parse_consan ::
    "string \<Rightarrow> string \<Rightarrow> pyval \<Rightarrow> string \<Rightarrow> string \<Rightarrow> bool \<Rightarrow> (py_exc, parse_result) result" where
  "parse_consan stdout stderr returncode sha256 fingerprint timed_out =
     (let combined = joined_output [stdout, stderr] in
      if timed_out then Inr (parsed_as ToolError ''consan_timeout'' combined False)
      else case json_payloads CONSAN_RUN_PREFIX combined of
        Inl message \<Rightarrow> Inr (parsed_as ToolError ''consan_invalid_run_json'' message False)
      | Inr [PDict run] \<Rightarrow>
          if \<not> run_identity sha256 fingerprint run
          then Inr (parsed_as Inconclusive ''consan_artifact_identity_not_attested'' (sorted_dumps (PDict run)) False)
          else if \<not> run_succeeded returncode run
          then Inr (parsed_as ToolError ''consan_execution_or_oracle_failed'' combined True)
          else (case consan_evidence fingerprint combined of
              Inl message \<Rightarrow> Inr (parsed_as Inconclusive ''consan_evidence_incomplete_or_invalid'' message True)
            | Inr e \<Rightarrow> consan_verdict combined fingerprint e)
      | Inr payloads \<Rightarrow> Inr (parsed_as ToolError ''consan_run_record_invalid''
          (''expected one run object, observed '' @ nat_digits (length payloads)) False))"

end
