(* ===== verification/ToolPlugins.thy ===== *)
theory ToolPlugins
  imports ToolAttestation ConsanParser
begin

text \<open>
  The six built-in plugins of \<open>src/eval_tools/plugins\<close>: when a tool applies to a task, the process it is
  run as, and what its output means.  Each is a \<open>plugin\<close> of the manager over a \<open>plugin_host\<close>; an
  exception of the code is the outcome \<open>Raised\<close>.
\<close>

definition called_outcome :: "'a checked \<Rightarrow> 'a outcome" where
  "called_outcome r = (case r of Inr x \<Rightarrow> Returned x | Inl e \<Rightarrow> Raised (plugin_error_text e))"

definition plugin_of ::
    "string \<Rightarrow> string \<Rightarrow> ('w \<Rightarrow> tool_context \<Rightarrow> capability_check \<Rightarrow> tool_capability checked)
      \<Rightarrow> (tool_context \<Rightarrow> 'w \<Rightarrow> tool_invocation checked \<times> 'w)
      \<Rightarrow> ('w \<Rightarrow> tool_context \<Rightarrow> execution_record \<Rightarrow> tool_run_result checked) \<Rightarrow> 'w plugin" where
  "plugin_of name version assess build parse =
     \<lparr>pg_name = name, pg_version = version,
      pg_assess = (\<lambda>cx rt w. (called_outcome (assess w cx rt), w)),
      pg_build = (\<lambda>cx w. case build cx w of (r, w') \<Rightarrow> (called_outcome r, w')),
      pg_parse = (\<lambda>cx x w. (called_outcome (parse w cx x), w))\<rparr>"

definition invocation_of ::
    "'w plugin_host \<Rightarrow> string \<Rightarrow> tool_context \<Rightarrow> string list \<Rightarrow> (string \<times> string) list \<Rightarrow> pydict checked
      \<Rightarrow> tool_invocation checked" where
  "invocation_of ph tool cx command env more_metadata =
     rbind (escaped (py_int (dget_default (tx_options cx) ''timeout_s'' (PInt 600)))) (\<lambda>timeout.
     rbind more_metadata (\<lambda>m.
     escaped (mk_tool_invocation (ph_cwd ph) tool (strings command) (tx_workspace cx) (env_dict env) (PInt timeout)
       (PStr (tx_artifact_dir cx)) False (PDict m))))"

definition has_file :: "'w plugin_host \<Rightarrow> 'w \<Rightarrow> string \<Rightarrow> bool" where
  "has_file ph w p = (file_at ph w p \<noteq> None)"

definition attestation_path :: "'w plugin_host \<Rightarrow> 'w \<Rightarrow> tool_context \<Rightarrow> string checked" where
  "attestation_path ph w cx = artifact_path ph w cx ''attestation_path'' ''build_attestation.json''"

definition framework_in :: "tool_context \<Rightarrow> string list \<Rightarrow> bool" where
  "framework_in cx names = (tp_framework (tx_profile cx) \<in> set names)"

section \<open>GPU AddressSanitizer\<close>

definition GPU_ASAN_ENV :: "(string \<times> string) list" where
  "GPU_ASAN_ENV =
     [(''HSA_XNACK'', ''1''), (''HSA_DISABLE_FRAGMENT_ALLOCATOR'', ''1''), (''AMD_PYTORCH_NO_CUDA_MEMORY_CACHING'', ''1''),
      (''PYTORCH_NO_HIP_MEMORY_CACHING'', ''1''), (''AMDGCN_USE_BUFFER_OPS'', ''0''),
      (''ASAN_OPTIONS'', ''detect_leaks=0,alloc_dealloc_mismatch=0'')]"

definition prepend_paths :: "string option list \<Rightarrow> string \<Rightarrow> string" where
  "prepend_paths values inherited =
     join_with CHR '':'' (rev (remdups (rev (filter (\<lambda>p. p \<noteq> [])
       (concat (map (\<lambda>v. split_on CHR '':'' (case v of Some s \<Rightarrow> s | None \<Rightarrow> [])) (values @ [Some inherited])))))))"

definition hip_asan_build_flags :: "pyval \<Rightarrow> string list checked" where
  "hip_asan_build_flags target_arch =
     (case target_arch of
        PStr s \<Rightarrow>
          (let arch = strip (takeWhile (\<lambda>c. c \<noteq> CHR '':'') s) in
           if \<not> starts_with ''gfx'' arch then Inl (Invalid ''invalid AMD GPU architecture'')
           else Inr [''-fsanitize=address'', ''-shared-libsan'', ''--offload-arch='' @ arch @ '':xnack+''])
      | _ \<Rightarrow> Inl (Escaped AttributeErr))"

definition arch_or_default :: "tool_context \<Rightarrow> pyval" where
  "arch_or_default cx = py_or (tx_gpu_arch cx) (PStr ''gfx950'')"

definition is_triton :: "tool_context \<Rightarrow> bool" where
  "is_triton cx = (tp_language (tx_profile cx) = TRITON \<or> framework_in cx [''triton''])"

definition is_hip :: "tool_context \<Rightarrow> bool" where
  "is_hip cx = (tp_language (tx_profile cx) = HIP)"

definition asan_engine :: "tool_context \<Rightarrow> capability_check" where
  "asan_engine cx =
     (let p = tx_profile cx in
      if framework_in cx [''rocblas'', ''rccl'']
      then blocked UNSUPPORTED ''gpu_asan_library_kernel_out_of_scope''
             ''rocBLAS/RCCL internals are outside the selected submission and are not instrumented.'' []
      else if tp_language p = FLYDSL \<or> framework_in cx [''flydsl'']
      then blocked UNSUPPORTED ''gpu_asan_flydsl_no_device_instrumentation''
             ''FlyDSL 0.2.x does not insert the AMDGPU AddressSanitizer pass.'' []
      else if framework_in cx [''aiter''] \<or> tp_artifact_kind p = HSACO_PRECOMPILED
      then (if is_hip cx \<and> tp_source_available p \<and> truthy (dget (tp_evidence p) ''rebuilt_from_source'')
            then ready_check [(PStr ''rebuilt_from_source'', PBool True)]
            else blocked UNSUPPORTED ''gpu_asan_precompiled_code_object''
                   ''The code object was not rebuilt from source with GPU ASan instrumentation.'' [])
      else if \<not> (is_triton cx \<or> is_hip cx)
      then blocked NOT_APPLICABLE ''gpu_asan_language_not_supported''
             (''GPU ASan adapter does not support language='' @ text_of kernel_languages (tp_language p) @ ''.'') []
      else if is_hip cx \<and> tp_control p \<notin> {RECOMPILE, COMPILER_CONTROLLED}
      then blocked UNSUPPORTED ''gpu_asan_recompile_not_controlled''
             ''HIP GPU ASan requires control of the source compilation command.'' []
      else ready_check [(PStr ''xnack_required'', PBool True)])"

definition asan_adapter :: "tool_context \<Rightarrow> capability_check" where
  "asan_adapter cx =
     (if truthy (dget (tx_options cx) ''command'')
      then ready_check [(PStr ''adapter'', PStr (if is_triton cx then ''triton_gpu_asan'' else ''hip_source_rebuild''))]
      else blocked ADAPTER_REQUIRED ''gpu_asan_command_missing'' ''A dedicated ASan build/run argv must be configured.'' [])"

definition asan_runtime_check :: "tool_context \<Rightarrow> capability_check \<Rightarrow> capability_check checked" where
  "asan_runtime_check cx rt =
     (let evidence = cc_evidence rt in
      if cc_state rt = READY \<and> dget evidence ''xnack_supported'' = PBool False
      then blocked_with UNAVAILABLE_RUNTIME ''gpu_asan_xnack_unavailable''
             ''GPU ASan requires an xnack+ code object and xnack-enabled runtime.'' evidence
      else if cc_state rt = READY \<and> is_triton cx \<and> dget evidence ''triton_asan'' = PBool False
      then blocked_with UNAVAILABLE_RUNTIME ''gpu_asan_triton_pass_missing''
             ''The selected Triton build does not expose TRITON_ENABLE_ASAN.'' evidence
      else Inr rt)"

definition asan_assess :: "'w \<Rightarrow> tool_context \<Rightarrow> capability_check \<Rightarrow> tool_capability checked" where
  "asan_assess w cx rt =
     rbind (asan_runtime_check cx rt) (\<lambda>rt'. mk_capability ''gpu_asan'' (asan_engine cx) (asan_adapter cx) rt')"

text \<open>The library path and, for Triton, the preloaded libraries.\<close>

definition asan_library_env :: "tool_context \<Rightarrow> (string \<times> string) list \<Rightarrow> (string \<times> string) list checked" where
  "asan_library_env cx env =
     rbind (sidecar_path cx ''host_asan_preload'') (\<lambda>host_runtime.
     rbind (sidecar_path cx ''hip_asan_runtime'') (\<lambda>hip_runtime.
     rbind (sidecar_path cx ''asan_runtime_dir'') (\<lambda>runtime_dir.
     rbind (sidecar_path cx ''host_asan_lib_dir'') (\<lambda>configured.
     rbind (sidecar_path cx ''normal_rocm_lib_dir'') (\<lambda>normal.
     let host_dir = (if host_runtime \<noteq> None \<and> configured = None then map_option parent_path host_runtime else configured);
         value = (\<lambda>e k. case map_of e k of Some v \<Rightarrow> v | None \<Rightarrow> []);
         env1 = env_with env [(''LD_LIBRARY_PATH'', prepend_paths [host_dir, runtime_dir, normal] (value env ''LD_LIBRARY_PATH''))] in
     if \<not> is_triton cx then Inr env1
     else if host_runtime = None \<or> hip_runtime = None
     then Inl (Invalid ''Triton GPU ASan requires attested host_asan_preload and hip_asan_runtime sidecar paths'')
     else Inr (env_with env1 [(''LD_PRELOAD'', prepend_paths [host_runtime, hip_runtime] (value env1 ''LD_PRELOAD''))]))))))"

text \<open>The build flags and the environment a build must attest.\<close>

definition asan_flags :: "tool_context \<Rightarrow> string list checked" where
  "asan_flags cx = (if is_triton cx then Inr [] else hip_asan_build_flags (arch_or_default cx))"

definition asan_env :: "tool_context \<Rightarrow> (string \<times> string) list" where
  "asan_env cx =
     (if is_triton cx then [(''TRITON_ENABLE_ASAN'', ''1''), (''HSA_XNACK'', ''1'')] else [(''HSA_XNACK'', ''1'')])"

definition asan_build :: "'w plugin_host \<Rightarrow> tool_context \<Rightarrow> 'w \<Rightarrow> tool_invocation checked \<times> 'w" where
  "asan_build ph cx w =
     sbind (command_from_context cx [''command''], w) (\<lambda>command w.
     let cache = path_join (tx_artifact_dir cx) ''triton-gpu-asan-cache'';
         env = env_with (env_with (tx_env cx) GPU_ASAN_ENV) [(''AKA_EVAL_TOOL'', ''gpu_asan'')] in
     sbind (if is_triton cx then ph_mkdir ph cache w else (Inr (), w)) (\<lambda>_ w.
     let env' = (if is_triton cx then env_with env [(''TRITON_ENABLE_ASAN'', ''1''), (''TRITON_CACHE_DIR'', cache)] else env) in
     sbind (asan_library_env cx env', w) (\<lambda>env2 w.
     sbind (attestation_path ph w cx, w) (\<lambda>path w.
     sbind (ph_mkdir ph (parent_path path) w) (\<lambda>_ w.
     (invocation_of ph ''gpu_asan'' cx command (env_with env2 [(''AKA_BUILD_ATTESTATION_PATH'', path)])
        (rbind (asan_flags cx) (\<lambda>flags.
         Inr [(PStr ''build_flags'', strings flags), (PStr ''attestation_path'', PStr path)])), w))))))"

text \<open>Whether the file holds a valid attestation; a missing file is no attestation.\<close>

definition attested_by ::
    "'w plugin_host \<Rightarrow> 'w \<Rightarrow> string \<Rightarrow> string \<Rightarrow> string list checked \<Rightarrow> (string \<times> string) list
      \<Rightarrow> attestation option checked" where
  "attested_by ph w path tool flags env =
     (if \<not> has_file ph w path then Inr None
      else rbind (load_attestation ph w path) (\<lambda>a.
        rbind flags (\<lambda>fs.
        rbind (validate_attestation ph w a tool fs env) (\<lambda>ok. Inr (if ok then Some a else None)))))"

definition asan_attested :: "'w plugin_host \<Rightarrow> 'w \<Rightarrow> tool_context \<Rightarrow> string \<Rightarrow> attestation option checked" where
  "asan_attested ph w cx path = attested_by ph w path ''gpu_asan'' (asan_flags cx) (asan_env cx)"

definition artifacts_at :: "'w plugin_host \<Rightarrow> 'w \<Rightarrow> string list \<Rightarrow> string list" where
  "artifacts_at ph w paths = filter (has_file ph w) paths"

definition asan_parse :: "'w plugin_host \<Rightarrow> 'w \<Rightarrow> tool_context \<Rightarrow> execution_record \<Rightarrow> tool_run_result checked" where
  "asan_parse ph w cx x =
     rbind (attestation_path ph w cx) (\<lambda>path.
     rbind (asan_attested ph w cx path) (\<lambda>a.
     parsed_to_run_result ''gpu_asan''
       (parse_gpu_asan (er_stdout x) (er_stderr x) (er_returncode x) (a \<noteq> None) (er_timed_out x))
       x (artifacts_at ph w [path]) []))"

section \<open>FPSan\<close>

definition comparison_configured :: "tool_context \<Rightarrow> bool" where
  "comparison_configured cx =
     (truthy (dget (tx_options cx) ''comparison_command'') \<or> truthy (dget (tx_options cx) ''command''))"

definition triton_fpsan_engine :: "tool_context \<Rightarrow> capability_check" where
  "triton_fpsan_engine cx =
     (let p = tx_profile cx in
      if tp_language p = FLYDSL \<or> framework_in cx [''flydsl'']
      then blocked UNSUPPORTED ''triton_fpsan_flydsl_pipeline_unavailable''
             ''FlyDSL does not compile through Triton's FPSan pass pipeline.'' []
      else if tp_language p \<noteq> TRITON \<and> \<not> framework_in cx [''triton'']
      then blocked NOT_APPLICABLE ''triton_fpsan_non_triton_task''
             (''Triton FPSan does not apply to language='' @ text_of kernel_languages (tp_language p) @ ''.'') []
      else if tp_artifact_kind p = HSACO_PRECOMPILED
      then blocked UNSUPPORTED ''triton_fpsan_precompiled_code_object''
             ''FPSan must run in the Triton compiler; an existing HSACO cannot be instrumented.'' []
      else ready_check [(PStr ''instrumentation_mode'', PStr ''fpsan'')])"

definition triton_fpsan_assess :: "'w \<Rightarrow> tool_context \<Rightarrow> capability_check \<Rightarrow> tool_capability checked" where
  "triton_fpsan_assess w cx rt =
     rbind (if cc_state rt = READY \<and> dget (cc_evidence rt) ''triton_fpsan'' = PBool False
            then blocked_with UNAVAILABLE_RUNTIME ''triton_fpsan_runtime_missing''
                   ''The selected Triton build does not attest FPSan instrumentation support.'' (cc_evidence rt)
            else Inr rt) (\<lambda>rt'.
     mk_capability ''triton_fpsan'' (triton_fpsan_engine cx)
       (if comparison_configured cx then ready_check [(PStr ''adapter'', PStr ''triton_fpsan_compare'')]
        else blocked ADAPTER_REQUIRED ''triton_fpsan_comparison_harness_missing''
               ''A reference/candidate FPSan digest comparison command must be configured.'' []) rt')"

definition triton_fpsan_build :: "'w plugin_host \<Rightarrow> tool_context \<Rightarrow> 'w \<Rightarrow> tool_invocation checked \<times> 'w" where
  "triton_fpsan_build ph cx w =
     sbind (command_from_context cx [''comparison_command'', ''command''], w) (\<lambda>command w.
     let cache = path_join (tx_artifact_dir cx) ''triton-fpsan-cache'' in
     sbind (ph_mkdir ph cache w) (\<lambda>_ w.
     sbind (attestation_path ph w cx, w) (\<lambda>path w.
     sbind (ph_mkdir ph (parent_path path) w) (\<lambda>_ w.
     (invocation_of ph ''triton_fpsan'' cx command
        (env_with (tx_env cx) [(''TRITON_INSTRUMENTATION_MODE'', ''fpsan''), (''TRITON_CACHE_DIR'', cache),
           (''AKA_EVAL_TOOL'', ''triton_fpsan''), (''AKA_FPSAN_REQUIRE_COMPARISON'', ''1''),
           (''AKA_BUILD_ATTESTATION_PATH'', path)])
        (Inr [(PStr ''attestation_path'', PStr path)]), w)))))"

text \<open>\<open>valid and bool(reference_instrumented) and bool(candidate_instrumented)\<close>.\<close>

definition both_instrumented :: "attestation option \<Rightarrow> bool checked" where
  "both_instrumented a =
     (case a of None \<Rightarrow> Inr False
      | Some x \<Rightarrow>
          rbind (escaped (attr_get (at_evidence x) ''reference_instrumented'' PNone)) (\<lambda>r.
          if \<not> truthy r then Inr False
          else rbind (escaped (attr_get (at_evidence x) ''candidate_instrumented'' PNone)) (\<lambda>c. Inr (truthy c))))"

definition fpsan_parse ::
    "'w plugin_host \<Rightarrow> 'w \<Rightarrow> tool_context \<Rightarrow> execution_record \<Rightarrow> string \<Rightarrow> string list \<Rightarrow> (string \<times> string) list
      \<Rightarrow> tool_run_result checked" where
  "fpsan_parse ph w cx x tool flags env =
     rbind (attestation_path ph w cx) (\<lambda>path.
     rbind (attested_by ph w path tool (Inr flags) env) (\<lambda>a.
     rbind (both_instrumented a) (\<lambda>attested.
     parsed_to_run_result tool
       (parse_fpsan_comparison (er_stdout x) (er_stderr x) (er_returncode x) attested (er_timed_out x))
       x (artifacts_at ph w [path]) [])))"

definition triton_fpsan_parse ::
    "'w plugin_host \<Rightarrow> 'w \<Rightarrow> tool_context \<Rightarrow> execution_record \<Rightarrow> tool_run_result checked" where
  "triton_fpsan_parse ph w cx x = fpsan_parse ph w cx x ''triton_fpsan'' [] [(''TRITON_INSTRUMENTATION_MODE'', ''fpsan'')]"

definition hip_fpsan_engine :: "tool_context \<Rightarrow> capability_check" where
  "hip_fpsan_engine cx =
     (let p = tx_profile cx in
      if tp_language p \<in> {TRITON, FLYDSL} \<or> framework_in cx [''triton'', ''flydsl'']
      then blocked NOT_APPLICABLE ''hip_fpsan_non_hip_language''
             ''HIP-FPSan instruments explicitly ported HIP/C++ source only.'' []
      else if framework_in cx [''aiter'', ''rocblas'', ''rccl''] \<or> tp_artifact_kind p = HSACO_PRECOMPILED
      then blocked UNSUPPORTED ''hip_fpsan_precompiled_or_library_kernel''
             ''HIP-FPSan cannot retrofit value semantics into an existing code object/library.'' []
      else if tp_language p \<noteq> HIP
      then blocked NOT_APPLICABLE ''hip_fpsan_language_not_supported''
             (''HIP-FPSan does not apply to language='' @ text_of kernel_languages (tp_language p) @ ''.'') []
      else ready_check [(PStr ''explicit_source_port'', PBool True)])"

definition hip_fpsan_assess :: "'w \<Rightarrow> tool_context \<Rightarrow> capability_check \<Rightarrow> tool_capability checked" where
  "hip_fpsan_assess w cx rt =
     (let ported = truthy (dget (tp_evidence (tx_profile cx)) ''fpsan_ported'') in
      mk_capability ''hip_fpsan'' (hip_fpsan_engine cx)
        (if ported \<and> comparison_configured cx then ready_check [(PStr ''adapter'', PStr ''hip_fpsan_compare'')]
         else blocked ADAPTER_REQUIRED ''hip_fpsan_source_port_required''
                ''Both kernel/reference paths must explicitly use fpsan::Value and expose a digest comparison.''
                [(PStr ''source_ported'', PBool ported), (PStr ''comparison_configured'', PBool (comparison_configured cx))])
        rt)"

definition hip_fpsan_flags :: "string \<Rightarrow> string list" where
  "hip_fpsan_flags include_dir = [''-I'' @ include_dir, ''-DAKA_HIP_FPSAN=1'']"

definition hip_fpsan_build :: "'w plugin_host \<Rightarrow> tool_context \<Rightarrow> 'w \<Rightarrow> tool_invocation checked \<times> 'w" where
  "hip_fpsan_build ph cx w =
     sbind (command_from_context cx [''comparison_command'', ''command''], w) (\<lambda>command w.
     sbind (required_sidecar_path cx ''include_dir'', w) (\<lambda>include_dir w.
     sbind (attestation_path ph w cx, w) (\<lambda>path w.
     sbind (ph_mkdir ph (parent_path path) w) (\<lambda>_ w.
     (invocation_of ph ''hip_fpsan'' cx command
        (env_with (tx_env cx) [(''AKA_EVAL_TOOL'', ''hip_fpsan''), (''AKA_HIP_FPSAN'', ''1''),
           (''FPSAN_INCLUDE_DIR'', include_dir), (''AKA_FPSAN_REQUIRE_COMPARISON'', ''1''),
           (''AKA_BUILD_ATTESTATION_PATH'', path)])
        (Inr [(PStr ''build_flags'', strings (hip_fpsan_flags include_dir)), (PStr ''attestation_path'', PStr path)]), w)))))"

definition hip_fpsan_parse ::
    "'w plugin_host \<Rightarrow> 'w \<Rightarrow> tool_context \<Rightarrow> execution_record \<Rightarrow> tool_run_result checked" where
  "hip_fpsan_parse ph w cx x =
     rbind (required_sidecar_path cx ''include_dir'') (\<lambda>include_dir.
     fpsan_parse ph w cx x ''hip_fpsan'' (hip_fpsan_flags include_dir) [(''AKA_HIP_FPSAN'', ''1'')])"

section \<open>Waitcheck\<close>

definition kernel_entry :: "tool_context \<Rightarrow> int checked" where
  "kernel_entry cx =
     (let refused = Inl (Invalid ''kernel_entry must be a non-negative integer'');
          checked = (\<lambda>k. if k < 0 then refused else Inr k) in
      case dget (tx_options cx) ''kernel_entry'' of
        PBool _ \<Rightarrow> refused
      | PStr s \<Rightarrow> (case int_of_literal s of None \<Rightarrow> refused | Some k \<Rightarrow> checked k)
      | v \<Rightarrow> (case py_int v of
                Inl e \<Rightarrow> if e = OverflowErr then Inl (Escaped OverflowErr) else refused
              | Inr k \<Rightarrow> checked k))"

definition expected_kernel :: "tool_context \<Rightarrow> string checked" where
  "expected_kernel cx =
     (let s = strip (py_str (py_or (dget (tx_options cx) ''expected_kernel'') (PStr []))) in
      if s = [] \<or> NUL \<in> set s then Inl (Invalid ''expected_kernel must be a non-empty NUL-free string'') else Inr s)"

definition amdgpu_languages :: "kernel_language set" where
  "amdgpu_languages = {HIP, TRITON, FLYDSL}"

definition waitcheck_engine :: "tool_context \<Rightarrow> capability_check" where
  "waitcheck_engine cx =
     (if tp_language (tx_profile cx) \<notin> amdgpu_languages
      then blocked NOT_APPLICABLE ''waitcheck_non_amdgpu_language'' ''Waitcheck analyzes final AMDGPU code objects only.'' []
      else if \<not> py_eq (tx_gpu_arch cx) (PStr ''gfx950'')
      then blocked UNSUPPORTED ''waitcheck_gfx950_not_selected'' ''This integration is qualified only for gfx950.''
             [(PStr ''observed_gpu_arch'', tx_gpu_arch cx)]
      else ready_check [(PStr ''target'', PStr ''gfx950''), (PStr ''analysis'', PStr ''static_object_code'')])"

text \<open>The file, the kernel and its entry, which the three methods read anew.\<close>

record analysed_object =
  ws_path :: string
  ws_sha256 :: string
  ws_kernel :: string
  ws_entry :: int

definition waitcheck_subject :: "'w plugin_host \<Rightarrow> 'w \<Rightarrow> tool_context \<Rightarrow> analysed_object checked" where
  "waitcheck_subject ph w cx =
     rbind (resolve_workspace_file ph w cx ''code_object'') (\<lambda>p.
     rbind (sha256_file ph w p) (\<lambda>sha.
     rbind (expected_kernel cx) (\<lambda>name.
     rbind (kernel_entry cx) (\<lambda>entry.
     Inr \<lparr>ws_path = p, ws_sha256 = sha, ws_kernel = name, ws_entry = entry\<rparr>))))"

definition waitcheck_metadata :: "analysed_object \<Rightarrow> pydict" where
  "waitcheck_metadata s =
     [(PStr ''code_object'', PStr (ws_path s)), (PStr ''code_object_sha256'', PStr (ws_sha256 s)),
      (PStr ''expected_kernel'', PStr (ws_kernel s)), (PStr ''kernel_entry'', PInt (ws_entry s))]"

text \<open>A check that is blocked by the errors the code catches.\<close>

definition adapter_check ::
    "string \<Rightarrow> string \<Rightarrow> pydict \<Rightarrow> pydict checked \<Rightarrow> capability_check checked" where
  "adapter_check code detail evidence r =
     (case r of
        Inr ready_evidence \<Rightarrow> Inr (ready_check ready_evidence)
      | Inl e \<Rightarrow> if plugin_caught e then Inr (blocked ADAPTER_REQUIRED code (detail @ ''('' @ plugin_error_text e @ '').'') evidence)
                 else Inl e)"

definition waitcheck_assess :: "'w plugin_host \<Rightarrow> 'w \<Rightarrow> tool_context \<Rightarrow> capability_check \<Rightarrow> tool_capability checked" where
  "waitcheck_assess ph w cx rt =
     rbind (adapter_check ''waitcheck_code_object_adapter_required''
         ''Waitcheck requires an evaluator-selected HSACO, exact kernel name, and .text entry offset '' []
         (rbind (waitcheck_subject ph w cx) (\<lambda>s.
          Inr ((PStr ''adapter'', PStr ''waitcheck_code_object'') # waitcheck_metadata s)))) (\<lambda>adapter.
     mk_capability ''rocjitsu_waitcheck'' (waitcheck_engine cx) adapter rt)"

definition sidecar_python :: string where "sidecar_python = ''/opt/venv/bin/python''"
definition adapters_dir :: string where "adapters_dir = ''/opt/aka-eval-tools/src/eval_tools/adapters/''"

definition waitcheck_build :: "'w plugin_host \<Rightarrow> tool_context \<Rightarrow> 'w \<Rightarrow> tool_invocation checked \<times> 'w" where
  "waitcheck_build ph cx w =
     (rbind (waitcheck_subject ph w cx) (\<lambda>s.
      rbind (required_sidecar_path cx ''waitcheck_binary'') (\<lambda>binary.
      rbind (required_sidecar_path cx ''waitcheck_capi_wrapper'') (\<lambda>wrapper.
      invocation_of ph ''rocjitsu_waitcheck'' cx
        [sidecar_python, ''-I'', adapters_dir @ ''waitcheck_entrypoint.py'', ''--waitcheck'', binary, ''--capi-wrapper'',
         wrapper, ''--code-object'', ws_path s, ''--expected-sha256'', ws_sha256 s, ''--target'', ''gfx950'',
         ''--expected-kernel'', ws_kernel s, ''--kernel-entry'', int_digits (ws_entry s)]
        (env_with (tx_env cx) [(''AKA_EVAL_TOOL'', ''rocjitsu_waitcheck'')])
        (Inr (waitcheck_metadata s))))), w)"

definition identity_of :: "analysed_object \<Rightarrow> waitcheck_identity" where
  "identity_of s =
     \<lparr>wi_sha256 = ws_sha256 s, wi_target = ''gfx950'', wi_kernel = ws_kernel s, wi_entry = ws_entry s\<rparr>"

definition waitcheck_parse ::
    "'w plugin_host \<Rightarrow> 'w \<Rightarrow> tool_context \<Rightarrow> execution_record \<Rightarrow> tool_run_result checked" where
  "waitcheck_parse ph w cx x =
     rbind (waitcheck_subject ph w cx) (\<lambda>s.
     rbind (escaped (parse_waitcheck (er_stdout x) (er_stderr x) (er_returncode x) (identity_of s) (er_timed_out x)))
       (\<lambda>parsed. parsed_to_run_result ''rocjitsu_waitcheck'' parsed x [] (waitcheck_metadata s)))"

section \<open>ConSan\<close>

definition consan_engine :: "tool_context \<Rightarrow> capability_check" where
  "consan_engine cx =
     (if tp_language (tx_profile cx) \<notin> amdgpu_languages
      then blocked NOT_APPLICABLE ''consan_non_amdgpu_language'' ''ConSan instruments final AMDGPU code objects only.'' []
      else if framework_in cx [''aiter'', ''rocblas'', ''rccl'']
      then blocked UNSUPPORTED ''consan_broad_library_runtime_unsupported''
             ''The first integration supports focused native launchers, not broad library runtimes.'' []
      else if \<not> py_eq (tx_gpu_arch cx) (PStr ''gfx950'')
      then blocked UNSUPPORTED ''consan_gfx950_not_selected'' ''This integration is qualified only for gfx950.''
             [(PStr ''observed_gpu_arch'', tx_gpu_arch cx)]
      else ready_check [(PStr ''target'', PStr ''gfx950''), (PStr ''mode'', PStr ''record-replay''), (PStr ''policy'', PStr ''strict'')])"

definition consan_commands :: "'w plugin_host \<Rightarrow> 'w \<Rightarrow> tool_context \<Rightarrow> (string list \<times> string list) checked" where
  "consan_commands ph w cx =
     rbind (command_from_context cx [''command'']) (\<lambda>command.
     rbind (command_from_context cx [''oracle_command'']) (\<lambda>oracle.
     rbind (resolve_workspace_file ph w cx ''code_object'') (\<lambda>p.
     rbind (command_references_file ph w command p (tx_workspace cx)) (\<lambda>ok.
     if ok then Inr (command, oracle) else Inl (Invalid ''ConSan command argv must name the selected code_object'')))))"

record replayed_object =
  cn_path :: string
  cn_sha256 :: string
  cn_fingerprint :: string

definition consan_subject :: "'w plugin_host \<Rightarrow> 'w \<Rightarrow> tool_context \<Rightarrow> replayed_object checked" where
  "consan_subject ph w cx =
     rbind (resolve_workspace_file ph w cx ''code_object'') (\<lambda>p.
     rbind (sha256_file ph w p) (\<lambda>sha.
     rbind (fnv1a64_file ph w p) (\<lambda>fingerprint.
     Inr \<lparr>cn_path = p, cn_sha256 = sha, cn_fingerprint = fingerprint\<rparr>)))"

definition consan_metadata :: "replayed_object \<Rightarrow> pydict" where
  "consan_metadata s =
     [(PStr ''code_object'', PStr (cn_path s)), (PStr ''code_object_sha256'', PStr (cn_sha256 s)),
      (PStr ''code_object_fingerprint'', PStr (cn_fingerprint s)), (PStr ''mode'', PStr ''record-replay''),
      (PStr ''policy'', PStr ''strict'')]"

definition consan_runtime :: "capability_check \<Rightarrow> capability_check checked" where
  "consan_runtime rt =
     (if cc_state rt = READY
         \<and> dget (cc_evidence rt) ''gpu_arch'' \<notin> PStr ` {''gfx950'', ''gfx950:xnack+'', ''gfx950:xnack-''}
      then (if \<not> hashable (dget (cc_evidence rt) ''gpu_arch'') then Inl (Escaped TypeErr)
            else blocked_with UNAVAILABLE_RUNTIME ''consan_runtime_gfx950_missing''
                   ''ConSan sidecar did not attest a reachable gfx950 agent.'' (cc_evidence rt))
      else Inr rt)"

definition consan_assess :: "'w plugin_host \<Rightarrow> 'w \<Rightarrow> tool_context \<Rightarrow> capability_check \<Rightarrow> tool_capability checked" where
  "consan_assess ph w cx rt =
     rbind (adapter_check ''consan_native_adapter_required''
         ''ConSan requires an exact HSACO, a launcher that names it, and a separate correctness-oracle argv '' []
         (rbind (resolve_workspace_file ph w cx ''code_object'') (\<lambda>_.
          rbind (consan_commands ph w cx) (\<lambda>(command, oracle).
          rbind (consan_subject ph w cx) (\<lambda>s.
          Inr [(PStr ''adapter'', PStr ''consan_native''), (PStr ''code_object'', PStr (cn_path s)),
               (PStr ''code_object_sha256'', PStr (cn_sha256 s)),
               (PStr ''code_object_fingerprint'', PStr (cn_fingerprint s)),
               (PStr ''command'', strings command), (PStr ''oracle_command'', strings oracle)]))))) (\<lambda>adapter.
     rbind (consan_runtime rt) (\<lambda>rt'.
     mk_capability ''rocjitsu_consan'' (consan_engine cx) adapter rt'))"

definition consan_build :: "'w plugin_host \<Rightarrow> tool_context \<Rightarrow> 'w \<Rightarrow> tool_invocation checked \<times> 'w" where
  "consan_build ph cx w =
     (rbind (consan_subject ph w cx) (\<lambda>s.
      rbind (consan_commands ph w cx) (\<lambda>(command, oracle).
      rbind (required_sidecar_path cx ''consan_hook'') (\<lambda>hook.
      invocation_of ph ''rocjitsu_consan'' cx
        ([sidecar_python, ''-I'', adapters_dir @ ''consan_entrypoint.py'', ''--hook'', hook, ''--code-object'', cn_path s,
          ''--expected-sha256'', cn_sha256 s, ''--expected-fingerprint'', cn_fingerprint s, ''--mode'', ''record-replay'']
         @ map ((@) ''--command-arg='') command @ map ((@) ''--oracle-arg='') oracle)
        (env_with (tx_env cx) [(''AKA_EVAL_TOOL'', ''rocjitsu_consan'')])
        (Inr (consan_metadata s @ [(PStr ''oracle_configured'', PBool True)]))))), w)"

definition consan_parse ::
    "'w plugin_host \<Rightarrow> 'w \<Rightarrow> tool_context \<Rightarrow> execution_record \<Rightarrow> tool_run_result checked" where
  "consan_parse ph w cx x =
     rbind (consan_subject ph w cx) (\<lambda>s.
     rbind (escaped (parse_consan (er_stdout x) (er_stderr x) (er_returncode x) (cn_sha256 s) (cn_fingerprint s)
              (er_timed_out x))) (\<lambda>parsed.
     parsed_to_run_result ''rocjitsu_consan'' parsed x []
       (consan_metadata s @ [(PStr ''embedded_waitcheck'', PStr ''preflight_only'')])))"

section \<open>rocJITsu\<close>

definition supported_arch :: string where "supported_arch = ''gfx950''"

definition expected_aot_adapter :: "tool_context \<Rightarrow> string option" where
  "expected_aot_adapter cx =
     (case tp_language (tx_profile cx) of TRITON \<Rightarrow> Some ''triton_aot'' | FLYDSL \<Rightarrow> Some ''flydsl_aot'' | _ \<Rightarrow> None)"

definition capsule_path_below_workspace :: "'w plugin_host \<Rightarrow> 'w \<Rightarrow> tool_context \<Rightarrow> string checked" where
  "capsule_path_below_workspace ph w cx =
     (let raw = dget (tx_options cx) ''capsule'' in
      if \<not> truthy raw then Inl (Invalid ''a replay capsule path is required'')
      else rbind (strict_resolve ph w (tx_workspace cx)) (\<lambda>workspace.
        rbind (strict_resolve ph w (path_join workspace (py_str raw))) (\<lambda>path.
        if path_relative_to path workspace = None
        then Inl (Invalid ''replay capsule must be located below the selected task workspace'')
        else if \<not> has_file ph w path then Inl (Invalid ''replay capsule path is not a regular file'')
        else Inr path)))"

text \<open>\<open>validate_replay_identity\<close> of \<open>src/eval_tools/adapters/rocjitsu_replay.py\<close>.\<close>

definition replay_identity :: "capsule \<Rightarrow> string \<Rightarrow> string \<Rightarrow> string \<Rightarrow> unit checked" where
  "replay_identity c adapter arch expected =
     rbind (guardR (adapter \<in> {''triton_aot'', ''flydsl_aot''}) (Invalid ''unsupported rocJITsu replay adapter'')) (\<lambda>_.
     rbind (guardR (arch = supported_arch) (Invalid ''rocJITsu AOT replay is verified only for gfx950'')) (\<lambda>_.
     rbind (guardR (pc_adapter (rc_producer c) = adapter)
              (Invalid ''capsule producer adapter does not match the task profile'')) (\<lambda>_.
     rbind (guardR (pc_adapter_version (rc_producer c) = ''1'')
              (Invalid ''capsule producer adapter version is not supported'')) (\<lambda>_.
     rbind (guardR (tg_gpu_arch (rc_target c) = arch)
              (Invalid ''capsule target does not match the selected GPU architecture'')) (\<lambda>_.
     guardR (co_kernel_name (rc_code_object c) = expected)
       (Invalid ''capsule kernel changed after invocation construction''))))))"

record loaded_capsule =
  lc_path :: string
  lc_capsule :: capsule
  lc_sha256 :: string

definition load_aot_capsule :: "'w plugin_host \<Rightarrow> 'w \<Rightarrow> tool_context \<Rightarrow> loaded_capsule checked" where
  "load_aot_capsule ph w cx =
     (case expected_aot_adapter cx of
        None \<Rightarrow> Inl (Invalid ''task language does not use AOT replay'')
      | Some adapter \<Rightarrow>
          rbind (guardR (tp_adapter (tx_profile cx) = Some adapter)
                   (Invalid ''task profile adapter must exactly match the language-specific AOT adapter'')) (\<lambda>_.
          rbind (guardR (py_eq (tx_gpu_arch cx) (PStr supported_arch))
                   (Invalid ''rocJITsu AOT replay is verified only for gfx950'')) (\<lambda>_.
          rbind (guardR (\<not> truthy (dget (tx_options cx) ''launcher'') \<and> \<not> truthy (dget (tx_options cx) ''command''))
                   (Invalid ''Triton/FlyDSL rocJITsu replay forbids user-configured launchers'')) (\<lambda>_.
          rbind (capsule_path_below_workspace ph w cx) (\<lambda>path.
          rbind (load_capsule (ph_view ph w) (ph_decode ph) path) (\<lambda>c.
          rbind (replay_identity c adapter supported_arch (co_kernel_name (rc_code_object c))) (\<lambda>_.
          rbind (sha256_file ph w path) (\<lambda>sha.
          Inr \<lparr>lc_path = path, lc_capsule = c, lc_sha256 = sha\<rparr>))))))))"

definition race_report_path :: "'w plugin_host \<Rightarrow> 'w \<Rightarrow> tool_context \<Rightarrow> string checked" where
  "race_report_path ph w cx =
     (if expected_aot_adapter cx \<noteq> None \<and> dhas (tx_options cx) ''race_report''
      then Inl (Invalid ''AOT replay does not allow a configurable race_report sink'')
      else artifact_path ph w cx ''race_report'' ''rocjitsu-report/race.log'')"

definition native_hip :: "tool_context \<Rightarrow> bool" where
  "native_hip cx = (is_hip cx \<and> tp_artifact_kind (tx_profile cx) \<noteq> HSACO_PRECOMPILED)"

definition rocjitsu_engine :: "tool_context \<Rightarrow> capability_check" where
  "rocjitsu_engine cx =
     (let isa = (PStr ''isa'', member kernel_languages (tp_language (tx_profile cx))) in
      if framework_in cx [''aiter'', ''rocblas'', ''rccl'']
      then blocked UNSUPPORTED ''rocjitsu_framework_runtime_unsupported''
             ''The current rocJITsu runtime cannot safely execute this Python/library path.'' []
      else if native_hip cx then ready_check [isa]
      else if expected_aot_adapter cx \<noteq> None
      then (if py_eq (tx_gpu_arch cx) (PStr supported_arch) then ready_check [isa, (PStr ''gpu_arch'', PStr supported_arch)]
            else blocked UNSUPPORTED ''rocjitsu_aot_gfx950_only'' ''AOT replay has only been verified on gfx950.''
                   [(PStr ''observed_gpu_arch'', tx_gpu_arch cx)])
      else blocked UNSUPPORTED ''rocjitsu_artifact_not_replayable''
             ''No supported native launcher or validated replay capsule is available.'' [])"

definition loaded_evidence :: "string \<Rightarrow> loaded_capsule \<Rightarrow> pydict" where
  "loaded_evidence adapter l =
     [(PStr ''adapter'', PStr adapter), (PStr ''capsule'', PStr (lc_path l)), (PStr ''capsule_sha256'', PStr (lc_sha256 l)),
      (PStr ''code_object_sha256'', PStr (co_sha256 (rc_code_object (lc_capsule l)))),
      (PStr ''expected_kernel'', PStr (co_kernel_name (rc_code_object (lc_capsule l))))]"

definition rocjitsu_adapter :: "'w plugin_host \<Rightarrow> 'w \<Rightarrow> tool_context \<Rightarrow> capability_check checked" where
  "rocjitsu_adapter ph w cx =
     (if native_hip cx
      then Inr (if truthy (dget (tx_options cx) ''launcher'') \<or> truthy (dget (tx_options cx) ''command'')
                then ready_check [(PStr ''adapter'', PStr ''hip_native'')]
                else blocked ADAPTER_REQUIRED ''rocjitsu_hip_native_launcher_missing''
                       ''A dedicated native HIP launcher argv must be configured.''
                       [(PStr ''expected_adapter'', PStr ''hip_native'')])
      else case expected_aot_adapter cx of
        Some adapter \<Rightarrow>
          adapter_check ''rocjitsu_python_jit_requires_aot_capsule''
            ''rocJITsu requires a validated, language-matched AOT replay capsule; whole-Python JIT and arbitrary launchers are not accepted ''
            [(PStr ''expected_adapter'', PStr adapter)]
            (rbind (load_aot_capsule ph w cx) (\<lambda>l.
             Inr (loaded_evidence adapter l @ [(PStr ''gpu_arch'', PStr (tg_gpu_arch (rc_target (lc_capsule l))))])))
      | None \<Rightarrow> Inr (ready_check []))"

definition rocjitsu_assess :: "'w plugin_host \<Rightarrow> 'w \<Rightarrow> tool_context \<Rightarrow> capability_check \<Rightarrow> tool_capability checked" where
  "rocjitsu_assess ph w cx rt =
     rbind (rocjitsu_adapter ph w cx) (\<lambda>adapter.
     rbind (if cc_state rt = READY \<and> dget (cc_evidence rt) ''config_path'' = PNone
            then blocked_with UNAVAILABLE_RUNTIME ''rocjitsu_config_missing''
                   ''rocJITsu requires an architecture-matched simulation config.'' (cc_evidence rt)
            else Inr rt) (\<lambda>rt'.
     mk_capability ''rocjitsu'' (rocjitsu_engine cx) adapter rt'))"

definition replay_dir :: "tool_context \<Rightarrow> string" where
  "replay_dir cx = path_join (tx_artifact_dir cx) ''rocjitsu-replay''"

text \<open>The command of the simulation, and what it adds to the metadata.\<close>

definition rocjitsu_command ::
    "'w plugin_host \<Rightarrow> 'w \<Rightarrow> tool_context \<Rightarrow> string \<Rightarrow> string \<Rightarrow> (string list \<times> pydict) checked" where
  "rocjitsu_command ph w cx binary config =
     (case expected_aot_adapter cx of
        Some adapter \<Rightarrow>
          rbind (load_aot_capsule ph w cx) (\<lambda>l.
          Inr ([sidecar_python, ''-I'', adapters_dir @ ''rocjitsu_replay_entrypoint.py'', ''--capsule'', lc_path l,
                ''--output-dir'', replay_dir cx, ''--rocjitsu'', binary, ''--config'', config, ''--hipcc'',
                ''/opt/rocm/bin/hipcc'', ''--expected-adapter'', adapter, ''--expected-arch'', supported_arch,
                ''--expected-kernel'', co_kernel_name (rc_code_object (lc_capsule l)),
                ''--expected-capsule-sha256'', lc_sha256 l],
               loaded_evidence adapter l @ [(PStr ''expected_replay_result'', PStr ''AKA_REPLAY_RESULT pass'')]))
      | None \<Rightarrow>
          rbind (command_from_context cx [''launcher'', ''command'']) (\<lambda>launcher.
          Inr ([binary, ''--config'', config, ''--''] @ launcher,
               [(PStr ''expected_kernel'', dget (tx_options cx) ''expected_kernel'')])))"

definition rocjitsu_build :: "'w plugin_host \<Rightarrow> tool_context \<Rightarrow> 'w \<Rightarrow> tool_invocation checked \<times> 'w" where
  "rocjitsu_build ph cx w =
     sbind (required_sidecar_path cx ''rocjitsu_binary'', w) (\<lambda>binary w.
     sbind (required_sidecar_path cx ''config_path'', w) (\<lambda>config w.
     sbind (race_report_path ph w cx, w) (\<lambda>path w.
     sbind (guardR (last (snd (posix_path path)) = ''race.log'') (Invalid ''race_report must name rocJITsu's race.log sink''), w) (\<lambda>_ w.
     sbind (ph_mkdir ph (parent_path path) w) (\<lambda>_ w.
     sbind (ph_write ph path [] w) (\<lambda>_ w.
     sbind (rocjitsu_command ph w cx binary config, w) (\<lambda>cm w.
     (invocation_of ph ''rocjitsu'' cx (fst cm)
        (env_with (tx_env cx) [(''RJ_RACE'', ''1''), (''RJ_LOG'', ''1''), (''RJ_SINKS'', ''stderr,file''),
           (''RJ_SINK_DIR'', parent_path path), (''AKA_EVAL_TOOL'', ''rocjitsu'')])
        (Inr ((PStr ''race_report'', PStr path) # snd cm)), w))))))))"

definition race_report :: "'w plugin_host \<Rightarrow> 'w \<Rightarrow> string \<Rightarrow> string" where
  "race_report ph w path = (case file_at ph w path of None \<Rightarrow> [] | Some b \<Rightarrow> ph_decode_lossy ph b)"

text \<open>What a replay of a capsule must have printed.\<close>

definition capsule_attestation :: "string \<Rightarrow> loaded_capsule \<Rightarrow> string" where
  "capsule_attestation adapter l =
     ''AKA_REPLAY_CAPSULE sha256='' @ lc_sha256 l @ '' code_sha256='' @ co_sha256 (rc_code_object (lc_capsule l))
     @ '' adapter='' @ adapter @ '' arch='' @ supported_arch @ '' kernel='' @ co_kernel_name (rc_code_object (lc_capsule l))"

definition replay_attested :: "string \<Rightarrow> loaded_capsule \<Rightarrow> string \<Rightarrow> bool \<times> bool \<times> bool" where
  "replay_attested adapter l combined =
     (co_kernel_name (rc_code_object (lc_capsule l)) \<in> set (rocjitsu_dispatch_kernels combined),
      contains_text ''AKA_REPLAY_RESULT pass'' combined, contains_text (capsule_attestation adapter l) combined)"

definition native_attested :: "tool_context \<Rightarrow> string \<Rightarrow> bool" where
  "native_attested cx report =
     (let expected = dget (tx_options cx) ''expected_kernel''; observed = rocjitsu_dispatch_kernels report in
      if truthy expected then expected \<in> PStr ` set observed else observed \<noteq> [])"

definition rocjitsu_result ::
    "'w plugin_host \<Rightarrow> 'w \<Rightarrow> execution_record \<Rightarrow> string \<Rightarrow> bool \<Rightarrow> string list \<Rightarrow> pydict \<Rightarrow> tool_run_result checked" where
  "rocjitsu_result ph w x path attested paths more_metadata =
     rbind (escaped (parse_rocjitsu (er_stdout x) (er_stderr x) (er_returncode x) attested (race_report ph w path)
              (er_timed_out x)))
       (\<lambda>parsed. parsed_to_run_result ''rocjitsu'' parsed x (artifacts_at ph w paths) more_metadata)"

definition replay_parse ::
    "'w plugin_host \<Rightarrow> 'w \<Rightarrow> tool_context \<Rightarrow> execution_record \<Rightarrow> string \<Rightarrow> string \<Rightarrow> tool_run_result checked" where
  "replay_parse ph w cx x path adapter =
     (case load_aot_capsule ph w cx of
        Inl e \<Rightarrow>
          if plugin_caught e
          then parsed_to_run_result ''rocjitsu''
                 (parsed_as Inconclusive ''rocjitsu_capsule_revalidation_failed''
                    (''Replay capsule failed post-execution validation: '' @ plugin_error_text e) False)
                 x (artifacts_at ph w [path]) []
          else Inl e
      | Inr l \<Rightarrow>
          (let combined = join_by newline [er_stdout x, er_stderr x, race_report ph w path];
               (dispatch_seen, pass_seen, capsule_seen) = replay_attested adapter l combined in
           rocjitsu_result ph w x path (dispatch_seen \<and> pass_seen \<and> capsule_seen)
             [path, path_join (replay_dir cx) ''replay_launcher.cpp'', path_join (replay_dir cx) ''replay_launcher'']
             (loaded_evidence adapter l
              @ [(PStr ''dispatch_attested'', PBool dispatch_seen), (PStr ''replay_result_attested'', PBool pass_seen),
                 (PStr ''capsule_attested'', PBool capsule_seen)])))"

definition rocjitsu_parse ::
    "'w plugin_host \<Rightarrow> 'w \<Rightarrow> tool_context \<Rightarrow> execution_record \<Rightarrow> tool_run_result checked" where
  "rocjitsu_parse ph w cx x =
     rbind (race_report_path ph w cx) (\<lambda>path.
     case expected_aot_adapter cx of
       Some adapter \<Rightarrow> replay_parse ph w cx x path adapter
     | None \<Rightarrow> rocjitsu_result ph w x path (native_attested cx (race_report ph w path)) [path] [])"

section \<open>The registry\<close>

definition builtin_plugins :: "'w plugin_host \<Rightarrow> 'w plugin list" where
  "builtin_plugins ph =
     [plugin_of ''gpu_asan'' ''2'' asan_assess (asan_build ph) (asan_parse ph),
      plugin_of ''hip_fpsan'' ''2'' hip_fpsan_assess (hip_fpsan_build ph) (hip_fpsan_parse ph),
      plugin_of ''rocjitsu'' ''3'' (rocjitsu_assess ph) (rocjitsu_build ph) (rocjitsu_parse ph),
      plugin_of ''rocjitsu_consan'' ''1'' (consan_assess ph) (consan_build ph) (consan_parse ph),
      plugin_of ''rocjitsu_waitcheck'' ''1'' (waitcheck_assess ph) (waitcheck_build ph) (waitcheck_parse ph),
      plugin_of ''triton_fpsan'' ''2'' triton_fpsan_assess (triton_fpsan_build ph) (triton_fpsan_parse ph)]"

text \<open>\<open>register_builtin_plugins\<close>, in the order of the sorted names.\<close>

definition register_builtin_plugins :: "'w plugin_host \<Rightarrow> 'w plugin registry \<Rightarrow> bool \<Rightarrow> (py_exc, 'w plugin registry) result" where
  "register_builtin_plugins ph reg replace =
     foldR (\<lambda>r p. register pg_name pg_version r p replace) reg (builtin_plugins ph)"

end
