(* ===== verification/ToolParserFacts.thy ===== *)
theory ToolParserFacts
  imports ConsanParser
begin

text \<open>
  What a pass of each parser means: the parsers refuse everything else, so a pass is the output of a
  whole, attested run that reported nothing.
\<close>

lemma parsed_as_simps [simp]:
  "pr_status (parsed_as s c d a) = s" "pr_attested (parsed_as s c d a) = a" "pr_findings (parsed_as s c d a) = []"
  "pr_status (found fs c a) = Finding" "pr_attested (found fs c a) = a" "pr_findings (found fs c a) = fs"
  by (simp_all add: parsed_as_def found_def)

lemma parsed_as_eq [simp]: "parsed_as s c d a = parsed_as s' c' d' a' \<longleftrightarrow> s = s' \<and> c = c' \<and> d = d' \<and> a = a'"
  by (simp add: parsed_as_def)

section \<open>GPU AddressSanitizer\<close>

lemma asan_pass:
  "pr_status (parse_gpu_asan stdout stderr rc attested timed_out) = Pass \<longleftrightarrow>
     search asan_head None (joined_output [stdout, stderr]) = None \<and> \<not> timed_out \<and> attested \<and> py_eq rc (PInt 0)"
  by (cases "search asan_head None (joined_output [stdout, stderr])") (simp_all add: parse_gpu_asan_def Let_def)

lemma asan_found:
  "pr_status (parse_gpu_asan stdout stderr rc attested timed_out) = Finding \<longleftrightarrow>
     search asan_head None (joined_output [stdout, stderr]) \<noteq> None"
  by (simp add: parse_gpu_asan_def Let_def)

section \<open>rocJITsu\<close>

lemma race_step_findings:
  assumes "race_step ks (seen, fs) b = Inr (seen', fs')"
  shows "length fs = length seen \<longrightarrow> length fs' = length seen'"
    and "seen' \<noteq> []" and "length fs \<le> length fs'"
  using assms by (auto simp: race_step_def rbind_eq_Inr split: prod.splits if_splits)

lemma race_steps_findings:
  assumes "foldR (race_step ks) ([], []) bs = Inr (seen, fs)"
  shows "fs = [] \<longleftrightarrow> bs = []"
proof -
  have *: "(fs' = [] \<longleftrightarrow> seen' = []) \<and> (bs' \<noteq> [] \<or> seen0 \<noteq> [] \<longrightarrow> seen' \<noteq> [])"
    if "foldR (race_step ks) (seen0, fs0) bs' = Inr (seen', fs')" "length fs0 = length seen0" for seen0 fs0 bs' seen' fs'
    using that
  proof (induction bs' arbitrary: seen0 fs0)
    case (Cons b bs')
    from Cons.prems(1) obtain s1 f1 where s: "race_step ks (seen0, fs0) b = Inr (s1, f1)"
        "foldR (race_step ks) (s1, f1) bs' = Inr (seen', fs')" by (auto simp: rbind_eq_Inr)
    from Cons.IH [OF s(2)] race_step_findings [OF s(1)] Cons.prems(2) show ?case by auto
  qed auto
  from * [OF assms] assms show ?thesis by (cases bs) auto
qed

lemma rocjitsu_pass:
  "parse_rocjitsu stdout stderr rc attested report timed_out = Inr r \<and> pr_status r = Pass \<longleftrightarrow>
     r = parsed_as Pass ''rocjitsu_clean'' [] True
     \<and> race_blocks (joined_output [stdout, stderr, report]) = []
     \<and> rocjitsu_dispatch_kernels (joined_output [stdout, stderr, report]) \<noteq> []
     \<and> \<not> timed_out \<and> attested \<and> py_eq rc (PInt 0)" (is "?l \<longleftrightarrow> ?r")
proof
  assume ?l
  then obtain seen fs where f:
      "foldR (race_step (kernel_matches (joined_output [stdout, stderr, report]))) ([], [])
         (race_blocks (joined_output [stdout, stderr, report])) = Inr (seen, fs)"
    by (auto simp: parse_rocjitsu_def Let_def rbind_eq_Inr)
  with race_steps_findings [OF f] \<open>?l\<close> show ?r
    by (auto simp: parse_rocjitsu_def Let_def rocjitsu_dispatch_kernels_def split: if_splits)
next
  assume ?r
  then show ?l by (simp add: parse_rocjitsu_def Let_def rocjitsu_dispatch_kernels_def)
qed

section \<open>FPSan\<close>

lemma fpsan_digests_pass:
  "pr_status (fpsan_digests p) = Pass \<longleftrightarrow>
     (\<exists>s. s \<noteq> [] \<and> dget p ''reference_digest'' = PStr s \<and> dget p ''candidate_digest'' = PStr s)"
  by (cases "dget p ''reference_digest''"; cases "dget p ''candidate_digest''")
     (auto simp: fpsan_digests_def Let_def)

lemma fpsan_payload_pass:
  "pr_status (fpsan_payload v) = Pass \<longleftrightarrow>
     (\<exists>p s. v = PDict p \<and> dget p ''instrumented'' = PBool True \<and> s \<noteq> []
        \<and> dget p ''reference_digest'' = PStr s \<and> dget p ''candidate_digest'' = PStr s)"
  by (cases v) (auto simp: fpsan_payload_def fpsan_digests_pass)

lemma fpsan_pass:
  "pr_status (parse_fpsan_comparison stdout stderr rc attested timed_out) = Pass \<longleftrightarrow>
     (\<exists>p s. json_payloads FPSAN_PREFIX (joined_output [stdout, stderr]) = Inr [PDict p]
        \<and> dget p ''instrumented'' = PBool True \<and> s \<noteq> []
        \<and> dget p ''reference_digest'' = PStr s \<and> dget p ''candidate_digest'' = PStr s)
     \<and> \<not> timed_out \<and> attested \<and> py_eq rc (PInt 0)"
  by (cases "json_payloads FPSAN_PREFIX (joined_output [stdout, stderr])")
     (auto simp: parse_fpsan_comparison_def Let_def fpsan_payload_pass split: list.splits)

section \<open>Waitcheck\<close>

lemma wait_hazards_length:
  "wait_hazards i p acc ds = Inr (Inr fs) \<Longrightarrow> length fs = length acc + length ds"
  by (induction ds arbitrary: acc) (force simp: rbind_eq_Inr split: pyval.splits if_splits)+

lemma wait_hazards_early:
  "wait_hazards i p acc ds = Inr (Inl r) \<Longrightarrow> pr_status r \<noteq> Pass"
  by (induction ds arbitrary: acc) (force simp: rbind_eq_Inr split: pyval.splits if_splits)+

lemma waitcheck_verdict_pass:
  "pr_status (waitcheck_verdict p fs) = Pass \<longleftrightarrow> fs = [] \<and> dget p ''passed'' = PBool True"
  by (simp add: waitcheck_verdict_def Let_def)

text \<open>The run analysed the whole code object and reported no hazard.\<close>

definition waitcheck_clean :: "waitcheck_identity \<Rightarrow> pydict \<Rightarrow> bool" where
  "waitcheck_clean i p =
     (identity_matches i p \<and> py_eq (dget p ''api_status'') (PInt 0)
      \<and> list_all (\<lambda>k. is_count (dget p k)) waitcheck_counts \<and> analysis_complete p
      \<and> dget p ''diagnostics'' = PList [] \<and> py_eq (PInt 0) (dget p ''diagnostics_reported'')
      \<and> py_eq (dget p ''diagnostics_observed'') (PInt 0) \<and> dget p ''passed'' = PBool True)"

lemma waitcheck_payload_pass:
  "waitcheck_payload rc i p = Inr r \<and> pr_status r = Pass \<longleftrightarrow>
     r = parsed_as Pass ''waitcheck_clean'' [] True \<and> py_eq rc (PInt 0) \<and> waitcheck_clean i p" (is "?l \<longleftrightarrow> ?r")
proof
  assume l: ?l
  then obtain ds where d: "dget p ''diagnostics'' = PList ds"
    by (cases "dget p ''diagnostics''") (auto simp: waitcheck_payload_def Let_def split: if_splits)
  from l obtain x where x: "wait_hazards i p [] ds = Inr x"
    by (auto simp: waitcheck_payload_def Let_def d rbind_eq_Inr split: if_splits)
  show ?r
  proof (cases x)
    case (Inl e)
    with x wait_hazards_early [of i p "[]" ds e] l show ?thesis
      by (auto simp: waitcheck_payload_def Let_def d split: if_splits)
  next
    case (Inr fs)
    with x wait_hazards_length [of i p "[]" ds fs] l show ?thesis
      by (auto simp: waitcheck_payload_def Let_def d waitcheck_verdict_pass waitcheck_clean_def
          waitcheck_verdict_def simp del: py_eq.simps split: if_splits)
  qed
qed (simp add: waitcheck_payload_def waitcheck_clean_def Let_def waitcheck_verdict_def del: py_eq.simps)

lemma waitcheck_pass:
  "parse_waitcheck stdout stderr rc i timed_out = Inr r \<and> pr_status r = Pass \<longleftrightarrow>
     r = parsed_as Pass ''waitcheck_clean'' [] True \<and> \<not> timed_out \<and> py_eq rc (PInt 0)
     \<and> (\<exists>p. json_payloads WAITCHECK_PREFIX (joined_output [stdout, stderr]) = Inr [PDict p] \<and> waitcheck_clean i p)"
proof (cases "\<exists>p. json_payloads WAITCHECK_PREFIX (joined_output [stdout, stderr]) = Inr [PDict p]")
  case True
  then obtain p where "json_payloads WAITCHECK_PREFIX (joined_output [stdout, stderr]) = Inr [PDict p]" ..
  then show ?thesis using waitcheck_payload_pass [of rc i p r]
    by (auto simp: parse_waitcheck_def Let_def)
next
  case False
  then have "parse_waitcheck stdout stderr rc i timed_out = Inr r \<Longrightarrow> pr_status r \<noteq> Pass"
    by (auto simp: parse_waitcheck_def Let_def split: if_splits sum.splits list.splits pyval.splits)
  with False show ?thesis by blast
qed

section \<open>ConSan\<close>

text \<open>A coverage record that discovered a site patched every site it discovered.\<close>

definition patched_everything :: "fields \<Rightarrow> bool" where
  "patched_everything f =
     (list_all (\<lambda>k. \<exists>d. uint_field f (k @ ''_discovered'') [] = Inr d \<and> uint_field f (k @ ''_patched'') [] = Inr d)
        consan_site_kinds)"

definition discovered_nothing :: "fields \<Rightarrow> bool" where
  "discovered_nothing f = list_all (\<lambda>k. uint_field f (k @ ''_discovered'') [] = Inr 0) consan_site_kinds"

lemma uint_field_site: "uint_field f n site = Inr k \<Longrightarrow> uint_field f n site' = Inr k"
  by (auto simp: uint_field_def map_error_eq_Inr split: if_splits)

lemma uint_field_nonneg:
  assumes "uint_field f n site = Inr k"
  shows "0 \<le> k"
proof -
  let ?s = "field_text f n"
  from assms have u: "unsigned_text ?s" and i: "int_text ?s = Inr k"
    by (auto simp: uint_field_def map_error_eq_Inr split: if_splits)
  from u have d: "list_all is_digit ?s" by (auto simp: unsigned_text_def is_digit_def)
  have s: "strip ?s = ?s"
  proof -
    have "\<not> py_isspace c" if "is_digit c" for c using that by (auto simp: is_digit_def py_isspace_def Let_def)
    then have "dropWhile py_isspace xs = xs" if "list_all is_digit xs" for xs
      using that by (cases xs) auto
    with d show ?thesis by (simp add: strip_def list_all_iff)
  qed
  have "take_sign ?s = (False, ?s)"
    using u by (auto simp: take_sign_def unsigned_text_def is_digit_def split: list.splits)
  with i s have "digits_in 10 ?s = Some k"
    by (auto simp: int_text_def int_of_string_def negate_if_def split: if_splits option.splits)
  moreover have "0 \<le> foldl (\<lambda>n v. int 10 * n + int (the v)) a vs" if "0 \<le> a" for a vs
    using that by (induction vs arbitrary: a) auto
  ultimately show ?thesis by (auto simp: digits_in_def Let_def split: if_splits)
qed

lemma site_counts_facts:
  assumes "site_counts_of f site k = Inr c"
  shows "uint_field f (k @ ''_discovered'') site' = Inr (sc_discovered c)"
    and "uint_field f (k @ ''_patched'') site' = Inr (sc_patched c)"
    and "nothing_left_out c \<Longrightarrow> sc_patched c = sc_discovered c" and "0 \<le> sc_discovered c"
proof -
  note * = assms [unfolded site_counts_of_def]
  from * show "uint_field f (k @ ''_discovered'') site' = Inr (sc_discovered c)" 
    by (elim rbindE) (auto intro: uint_field_site)
  from * show "uint_field f (k @ ''_patched'') site' = Inr (sc_patched c)"
    by (elim rbindE) (auto intro: uint_field_site)
  from * show "nothing_left_out c \<Longrightarrow> sc_patched c = sc_discovered c"
    by (elim rbindE) (auto simp: guardR_eq_Inr nothing_left_out_def)
  from * show "0 \<le> sc_discovered c" by (elim rbindE) (auto intro: uint_field_nonneg)
qed

lemma coverage_record_complete:
  assumes "coverage_record (n, f) = Inr (reader, seen, ok)" "seen \<longrightarrow> ok"
  shows "discovered_nothing f \<or> patched_everything f"
proof -
  from assms obtain cs site where cs: "mapR (site_counts_of f site) consan_site_kinds = Inr cs"
      "seen = (sum_list (map sc_discovered cs) \<noteq> 0)" "ok \<longrightarrow> list_all nothing_left_out cs"
    by (auto simp: coverage_record_def Let_def rbind_eq_Inr)
  then have c: "list_all2 (\<lambda>k c. site_counts_of f site k = Inr c) consan_site_kinds cs" by (simp add: mapR_eq_Inr)
  show ?thesis
  proof (cases seen)
    case True
    with assms(2) cs(3) have "list_all nothing_left_out cs" by simp
    then have "patched_everything f"
      unfolding patched_everything_def list_all_length
      using c by (auto simp: list_all2_conv_all_nth list_all_length dest: site_counts_facts)
         (metis site_counts_facts(1,2,3))
    then show ?thesis ..
  next
    case False
    have nn: "0 \<le> sc_discovered c" if "c \<in> set cs" for c
      using list_all2_right [OF c that] by (auto dest: site_counts_facts)
    with False cs(2) have "sc_discovered c = 0" if "c \<in> set cs" for c
      using that sum_list_nonneg_eq_0_iff [of "map sc_discovered cs"] by auto
    with c have "discovered_nothing f"
      unfolding discovered_nothing_def list_all_length
      by (auto simp: list_all2_conv_all_nth) (metis nth_mem site_counts_facts(1))
    then show ?thesis ..
  qed
qed

lemma consan_coverage_complete:
  assumes "consan_coverage records = Inr (readers, True)"
  shows "records \<noteq> [] \<and> list_all (\<lambda>f. discovered_nothing f \<or> patched_everything f) records"
proof -
  from assms obtain rs where ne: "records \<noteq> []" and m: "mapR coverage_record (enumerate 1 records) = Inr rs"
      and ok: "\<forall>(reader, seen, ok) \<in> set rs. seen \<longrightarrow> ok"
    by (auto simp: consan_coverage_def Let_def rbind_eq_Inr list_all_iff split: if_splits)
  have "discovered_nothing f \<or> patched_everything f" if "f \<in> set records" for f
  proof -
    from that obtain k where k: "k < length records" "f = records ! k" by (auto simp: in_set_conv_nth)
    with m have "coverage_record (1 + k, f) = Inr (rs ! k)" "rs ! k \<in> set rs"
      by (auto simp: mapR_eq_Inr list_all2_conv_all_nth nth_enumerate_eq)
    moreover obtain reader seen covered where "rs ! k = (reader, seen, covered)" by (cases "rs ! k")
    moreover from calculation ok have "seen \<longrightarrow> covered" by force
    ultimately show ?thesis using coverage_record_complete [of "1 + k" f reader seen covered] by auto
  qed
  with ne show ?thesis by (simp add: list_all_iff)
qed

lemma all_checks_true:
  "all_checks cs = Inr True \<longleftrightarrow> list_all (\<lambda>c. c () = Inr True) cs"
  by (induction cs) (auto simp: rbind_eq_Inr split: if_splits)

text \<open>A run is complete: one verdict, every flag true, every remaining counter zero, every pair equal.\<close>

definition complete_verdict :: "fields \<Rightarrow> nat \<Rightarrow> bool" where
  "complete_verdict f n =
     (list_all (\<lambda>name. map_of f name = Some ''true'')
        [''applicable'', ''analysis_complete'', ''static_complete'', ''dynamic_complete'']
      \<and> uint_field f ''applicable_code_objects'' verdict_context = Inr (int n)
      \<and> list_all (\<lambda>name. uint_field f name verdict_context = Inr 0)
          [''incomplete_code_objects'', ''dynamic_incomplete'', ''replay_unsupported_access'',
           ''replay_unsupported_atomics'', ''replay_unsupported_fences'', ''replay_metadata_full'']
      \<and> list_all (equal_pair f) consan_site_kinds)"

lemma validate_verdict_complete:
  assumes "validate_verdict records n = Inr True"
  obtains f where "records = [f]" "complete_verdict f n"
proof -
  from assms obtain f where f: "records = [f]"
    by (auto simp: validate_verdict_def split: list.splits)
  with assms have "complete_verdict f n"
    by (auto simp: validate_verdict_def all_checks_true list_all_append complete_verdict_def bool_field_def
        zero_field_def applicable_count_def rbind_eq_Inr consan_site_kinds_def split: if_splits)
  with f show ?thesis by (rule that)
qed

lemma filterR_elems:
  "filterR P xs = Inr ys \<Longrightarrow> y \<in> set ys \<Longrightarrow> y \<in> set xs \<and> P y = Inr True"
  by (induction xs arbitrary: ys) (auto simp: rbind_eq_Inr split: if_splits)

text \<open>
  What a pass says of the records in the output: all discovered sites are patched, the selected code
  object has one report with a dispatch, it was patched, no diagnostic names it, the verdict is complete.
\<close>

definition selected_clean :: "string \<Rightarrow> fields list \<Rightarrow> fields list \<Rightarrow> fields \<Rightarrow> bool" where
  "selected_clean fingerprint patches diagnostics r =
     (case uint_field r ''reader'' [] of
        Inl _ \<Rightarrow> False
      | Inr k \<Rightarrow> map_of r ''code_object'' = Some fingerprint \<and> dispatched r = Inr True
          \<and> list_ex (\<lambda>p. matching_patch k p = Inr True) patches
          \<and> list_all (\<lambda>d. map_of d ''code_object'' = Some fingerprint \<longrightarrow> uint_field d ''reader'' [] \<noteq> Inr k) diagnostics)"

definition consan_clean :: "string \<Rightarrow> string \<Rightarrow> bool" where
  "consan_clean fingerprint s =
     (case (consan_records s ''coverage'', consan_records s ''analysis verdict'', consan_records s ''patch end'',
            consan_records s ''MOI auto report'', consan_records s ''MOI auto replay diagnostic'') of
        (Inr coverage, Inr [verdict], Inr patches, Inr reports, Inr diagnostics) \<Rightarrow>
          coverage \<noteq> [] \<and> list_all (\<lambda>f. discovered_nothing f \<or> patched_everything f) coverage
          \<and> (\<exists>n. complete_verdict verdict n) \<and> list_ex (selected_clean fingerprint patches diagnostics) reports
      | _ \<Rightarrow> False)"

lemma diagnostic_finding_none:
  assumes "mapR (diagnostic_finding fp reader) ds = Inr fs" "concat fs = []" "d \<in> set ds"
    and "map_of d ''code_object'' = Some fp"
  shows "uint_field d ''reader'' [] \<noteq> Inr reader"
proof -
  from assms(3) obtain i where "i < length ds" "d = ds ! i" by (auto simp: in_set_conv_nth)
  with assms(1,2) have "diagnostic_finding fp reader d = Inr []"
    by (auto simp: mapR_eq_Inr list_all2_conv_all_nth)
  with assms(4) show ?thesis
    by (auto simp: diagnostic_finding_def value_error_def rbind_eq_Inr map_error_eq_Inr split: if_splits
        dest: uint_field_site [where site' = "''ConSan diagnostic''"])
qed

lemma consan_evidence_clean:
  assumes "consan_evidence fp s = Inr e" "ce_coverage_complete e" "ce_verdict_complete e"
    and "mapR (diagnostic_finding fp (ce_reader e)) (ce_diagnostics e) = Inr fs" "concat fs = []"
  shows "consan_clean fp s"
proof -
  from assms(1) obtain patches coverage verdicts reports diagnostics readers full expected where
      r: "consan_records s ''patch end'' = Inr patches" "consan_records s ''coverage'' = Inr coverage"
        "consan_records s ''analysis verdict'' = Inr verdicts" "consan_records s ''MOI auto report'' = Inr reports"
        "consan_records s ''MOI auto replay diagnostic'' = Inr diagnostics"
      and c: "consan_coverage coverage = Inr (readers, full)"
      and x: "filterR (expected_report fp readers) reports = Inr expected"
      and rest: "consan_selection readers full patches verdicts diagnostics expected = Inr e"
    unfolding consan_evidence_def by (elim rbindE) (metis prod.collapse)
  from rest obtain r reader matching v where e1: "expected = [r]"
      and rd: "uint_field r ''reader'' ''ConSan MOI report'' = Inr reader" and d: "dispatched r = Inr True"
      and p: "filterR (matching_patch reader) patches = Inr matching" "length matching = 1"
      and v: "validate_verdict verdicts (length readers) = Inr v"
      and e: "e = \<lparr>ce_reader = reader, ce_coverage_complete = full, ce_verdict_complete = v, ce_diagnostics = diagnostics\<rparr>"
    by (auto simp: consan_selection_def rbind_eq_Inr guardR_eq_Inr split: list.splits)
  from v assms(3) e obtain f where f: "verdicts = [f]" "complete_verdict f (length readers)"
    by (auto elim: validate_verdict_complete)
  have cov: "coverage \<noteq> []" "list_all (\<lambda>f. discovered_nothing f \<or> patched_everything f) coverage"
    using consan_coverage_complete [of coverage readers] c assms(2) e by auto
  have r1: "r \<in> set reports" "map_of r ''code_object'' = Some fp"
    using filterR_elems [OF x, of r] e1 by (auto simp: expected_report_def split: if_splits)
  have rd': "uint_field r ''reader'' [] = Inr reader" by (rule uint_field_site [OF rd])
  obtain q where q: "q \<in> set patches" "matching_patch reader q = Inr True"
    using filterR_elems [OF p(1), of "hd matching"] p(2) by (cases matching) auto
  have "list_all (\<lambda>d. map_of d ''code_object'' = Some fp \<longrightarrow> uint_field d ''reader'' [] \<noteq> Inr reader) diagnostics"
    using diagnostic_finding_none [OF assms(4,5)] e by (auto simp: list_all_iff)
  with rd' r1(2) q d have "selected_clean fp patches diagnostics r"
    by (auto simp: selected_clean_def list_ex_iff)
  with cov f r r1(1) show ?thesis by (auto simp: consan_clean_def list_ex_iff)
qed

lemma consan_pass:
  assumes "parse_consan stdout stderr rc sha fp timed_out = Inr r" "pr_status r = Pass"
  shows "r = parsed_as Pass ''consan_clean'' [] True \<and> \<not> timed_out \<and> consan_clean fp (joined_output [stdout, stderr])
    \<and> (\<exists>run. json_payloads CONSAN_RUN_PREFIX (joined_output [stdout, stderr]) = Inr [PDict run]
         \<and> run_identity sha fp run \<and> run_succeeded rc run)"
proof -
  let ?c = "joined_output [stdout, stderr]"
  from assms obtain run e where j: "\<not> timed_out" "json_payloads CONSAN_RUN_PREFIX ?c = Inr [PDict run]"
      "run_identity sha fp run" "run_succeeded rc run"
      and e: "consan_evidence fp ?c = Inr e" "consan_verdict ?c fp e = Inr r"
    by (auto simp: parse_consan_def Let_def split: if_splits sum.splits list.splits pyval.splits)
  from e(2) assms(2) obtain fs where "mapR (diagnostic_finding fp (ce_reader e)) (ce_diagnostics e) = Inr fs"
      "concat fs = []" "ce_coverage_complete e" "ce_verdict_complete e" "r = parsed_as Pass ''consan_clean'' [] True"
    unfolding consan_verdict_def by (elim rbindE) (auto split: if_splits)
  with consan_evidence_clean [OF e(1)] j show ?thesis by blast
qed

end
