(* ===== verification/ToolPluginFacts.thy ===== *)
theory ToolPluginFacts
  imports ToolPlugins ToolParserFacts EvalManagerFacts EvalNormal
begin

text \<open>
  What a clean result of a built-in plugin stands for, from the output the parsers accept and the
  attestations they were given to the evidence in the files.
\<close>

section \<open>From a clean result to a pass\<close>

lemma status_clean: "snd (status_pair s b) = CLEAN \<longleftrightarrow> s = Pass"
  by (cases s) (simp_all add: status_pair_def)

lemma parsed_clean:
  assumes "parsed_to_run_result tool parsed x artifacts md = Inr r"
  shows "rr_record r = Some x" and "rr_finding r = CLEAN \<longleftrightarrow> pr_status parsed = Pass"
proof -
  obtain ex fs where s: "status_pair (pr_status parsed) (er_timed_out x) = (ex, fs)" by force
  with assms have "rr_record r = Some x \<and> rr_finding r = fs"
    by (auto simp: parsed_to_run_result_def mk_tool_run_result_def checked_result_def rbind_eq_Inr
        map_error_eq_Inr split: if_splits)
  with s status_clean [of "pr_status parsed" "er_timed_out x"]
  show "rr_record r = Some x" "rr_finding r = CLEAN \<longleftrightarrow> pr_status parsed = Pass" by auto
qed

section \<open>Attestations\<close>

text \<open>An artifact built as required, whose bytes have the attested digest.\<close>

definition attested_build ::
    "'w plugin_host \<Rightarrow> 'w \<Rightarrow> string \<Rightarrow> string list \<Rightarrow> (string \<times> string) list \<Rightarrow> attestation \<Rightarrow> bool" where
  "attested_build ph w tool flags env a =
     (at_tool a = tool \<and> at_instrumented a \<and> list_all (command_has_flag (at_build_command a)) flags
      \<and> list_all (\<lambda>(k, v). env_value a k = v) env
      \<and> (case at_artifact_path a of None \<Rightarrow> False
         | Some p \<Rightarrow> path_relative_to (resolved ph w p) (resolved ph w (at_artifact_root a)) \<noteq> None
             \<and> (case file_at ph w (resolved ph w p) of None \<Rightarrow> False
                | Some b \<Rightarrow> at_artifact_sha256 a = PStr (sha256_hex b))))"

lemma artifact_valid_true:
  assumes "artifact_valid ph w a = Inr True"
  obtains p b where "at_artifact_path a = Some p"
    "path_relative_to (resolved ph w p) (resolved ph w (at_artifact_root a)) \<noteq> None"
    "file_at ph w (resolved ph w p) = Some b" "at_artifact_sha256 a = PStr (sha256_hex b)"
  using assms
  by (auto simp: artifact_valid_def Let_def has_digest_def split: option.splits pyval.splits if_splits)

lemma attested_by_build:
  assumes "attested_by ph w path tool flags env = Inr (Some a)"
  obtains fs where "flags = Inr fs" "attested_build ph w tool fs env a" "load_attestation ph w path = Inr a"
proof -
  from assms obtain b fs where l: "load_attestation ph w path = Inr b" "flags = Inr fs"
      "validate_attestation ph w b tool fs env = Inr True" "b = a"
    by (auto simp: attested_by_def rbind_eq_Inr split: if_splits)
  then have v: "at_tool a = tool" "at_instrumented a" "list_all (command_has_flag (at_build_command a)) fs"
      "list_all (\<lambda>(k, v). env_value a k = v) env" "artifact_valid ph w a = Inr True"
    by (auto simp: validate_attestation_def split: if_splits)
  from v(5) have "attested_build ph w tool fs env a"
    by (rule artifact_valid_true) (use v in \<open>auto simp: attested_build_def\<close>)
  with l show ?thesis by (auto intro: that)
qed

section \<open>Genuinely clean runs\<close>

text \<open>The whole output of a run, and a run that ended by itself with exit code zero.\<close>

definition output_of :: "execution_record \<Rightarrow> string" where
  "output_of x = joined_output [er_stdout x, er_stderr x]"

definition ended_well :: "execution_record \<Rightarrow> bool" where
  "ended_well x = (\<not> er_timed_out x \<and> py_eq (er_returncode x) (PInt 0))"

definition asan_genuine :: "'w plugin_host \<Rightarrow> 'w \<Rightarrow> tool_context \<Rightarrow> execution_record \<Rightarrow> bool" where
  "asan_genuine ph w cx x =
     (search asan_head None (output_of x) = None
      \<and> (\<exists>path a flags. attestation_path ph w cx = Inr path \<and> load_attestation ph w path = Inr a
          \<and> asan_flags cx = Inr flags \<and> attested_build ph w ''gpu_asan'' flags (asan_env cx) a))"

definition equal_digests :: "execution_record \<Rightarrow> bool" where
  "equal_digests x =
     (\<exists>p s. json_payloads FPSAN_PREFIX (output_of x) = Inr [PDict p] \<and> dget p ''instrumented'' = PBool True
        \<and> s \<noteq> [] \<and> dget p ''reference_digest'' = PStr s \<and> dget p ''candidate_digest'' = PStr s)"

definition fpsan_genuine ::
    "'w plugin_host \<Rightarrow> 'w \<Rightarrow> tool_context \<Rightarrow> string \<Rightarrow> string list \<Rightarrow> (string \<times> string) list \<Rightarrow> execution_record \<Rightarrow> bool" where
  "fpsan_genuine ph w cx tool flags env x =
     (equal_digests x
      \<and> (\<exists>path a d. attestation_path ph w cx = Inr path \<and> load_attestation ph w path = Inr a
          \<and> attested_build ph w tool flags env a \<and> at_evidence a = PDict d
          \<and> truthy (dget d ''reference_instrumented'') \<and> truthy (dget d ''candidate_instrumented'')))"

definition rocjitsu_genuine :: "'w plugin_host \<Rightarrow> 'w \<Rightarrow> tool_context \<Rightarrow> execution_record \<Rightarrow> bool" where
  "rocjitsu_genuine ph w cx x =
     (\<exists>path. let report = race_report ph w path; all_text = joined_output [er_stdout x, er_stderr x, report] in
        race_blocks all_text = [] \<and> rocjitsu_dispatch_kernels all_text \<noteq> []
        \<and> (case expected_aot_adapter cx of
             None \<Rightarrow> native_attested cx report
           | Some adapter \<Rightarrow>
               (\<exists>l. load_aot_capsule ph w cx = Inr l
                  \<and> replay_attested adapter l (join_by newline [er_stdout x, er_stderr x, report]) = (True, True, True))))"

definition waitcheck_genuine :: "'w plugin_host \<Rightarrow> 'w \<Rightarrow> tool_context \<Rightarrow> execution_record \<Rightarrow> bool" where
  "waitcheck_genuine ph w cx x =
     (\<exists>s p. waitcheck_subject ph w cx = Inr s
        \<and> json_payloads WAITCHECK_PREFIX (output_of x) = Inr [PDict p] \<and> waitcheck_clean (identity_of s) p)"

definition consan_genuine :: "'w plugin_host \<Rightarrow> 'w \<Rightarrow> tool_context \<Rightarrow> execution_record \<Rightarrow> bool" where
  "consan_genuine ph w cx x =
     (\<exists>s run. consan_subject ph w cx = Inr s \<and> json_payloads CONSAN_RUN_PREFIX (output_of x) = Inr [PDict run]
        \<and> run_identity (cn_sha256 s) (cn_fingerprint s) run \<and> run_succeeded (er_returncode x) run
        \<and> consan_clean (cn_fingerprint s) (output_of x))"

definition genuinely_clean :: "'w plugin_host \<Rightarrow> 'w \<Rightarrow> string \<Rightarrow> tool_context \<Rightarrow> execution_record \<Rightarrow> bool" where
  "genuinely_clean ph w tool cx x =
     (ended_well x
      \<and> (if tool = ''gpu_asan'' then asan_genuine ph w cx x
         else if tool = ''triton_fpsan'' then fpsan_genuine ph w cx tool [] [(''TRITON_INSTRUMENTATION_MODE'', ''fpsan'')] x
         else if tool = ''hip_fpsan''
         then (\<exists>dir. required_sidecar_path cx ''include_dir'' = Inr dir
           \<and> fpsan_genuine ph w cx tool (hip_fpsan_flags dir) [(''AKA_HIP_FPSAN'', ''1'')] x)
         else if tool = ''rocjitsu'' then rocjitsu_genuine ph w cx x
         else if tool = ''rocjitsu_waitcheck'' then waitcheck_genuine ph w cx x
         else tool = ''rocjitsu_consan'' \<and> consan_genuine ph w cx x))"

lemma asan_parse_clean:
  assumes "asan_parse ph w cx x = Inr r" "rr_finding r = CLEAN"
  shows "rr_record r = Some x \<and> genuinely_clean ph w ''gpu_asan'' cx x"
proof -
  from assms(1) obtain path a where t: "attestation_path ph w cx = Inr path" and a: "asan_attested ph w cx path = Inr a" and p:
      "parsed_to_run_result ''gpu_asan''
         (parse_gpu_asan (er_stdout x) (er_stderr x) (er_returncode x) (a \<noteq> None) (er_timed_out x))
         x (artifacts_at ph w [path]) [] = Inr r"
    by (auto simp: asan_parse_def rbind_eq_Inr)
  from parsed_clean [OF p] assms(2) have s: "rr_record r = Some x" "a \<noteq> None" "ended_well x"
      "search asan_head None (output_of x) = None"
    by (auto simp: asan_pass ended_well_def output_of_def)
  then obtain b where b: "a = Some b" by auto
  from a b have "attested_by ph w path ''gpu_asan'' (asan_flags cx) (asan_env cx) = Inr (Some b)"
    by (simp add: asan_attested_def)
  then have "asan_genuine ph w cx x"
    by (rule attested_by_build) (use t s(4) in \<open>auto simp: asan_genuine_def\<close>)
  with s show ?thesis by (simp add: genuinely_clean_def)
qed

lemma both_instrumented_true:
  assumes "both_instrumented a = Inr True"
  obtains x d where "a = Some x" "at_evidence x = PDict d" "truthy (dget d ''reference_instrumented'')"
    "truthy (dget d ''candidate_instrumented'')"
  using assms
  by (auto simp: both_instrumented_def rbind_eq_Inr map_error_eq_Inr attr_get_def split: option.splits if_splits pyval.splits)

lemma fpsan_parse_clean:
  assumes "fpsan_parse ph w cx x tool flags env = Inr r" "rr_finding r = CLEAN"
  shows "rr_record r = Some x \<and> ended_well x \<and> fpsan_genuine ph w cx tool flags env x"
proof -
  from assms(1) obtain path a attested where t: "attestation_path ph w cx = Inr path" and a: "attested_by ph w path tool (Inr flags) env = Inr a"
      "both_instrumented a = Inr attested" and p:
      "parsed_to_run_result tool
         (parse_fpsan_comparison (er_stdout x) (er_stderr x) (er_returncode x) attested (er_timed_out x))
         x (artifacts_at ph w [path]) [] = Inr r"
    by (auto simp: fpsan_parse_def rbind_eq_Inr)
  from parsed_clean [OF p] assms(2) have s: "rr_record r = Some x" "attested" "ended_well x" "equal_digests x"
    unfolding fpsan_pass equal_digests_def output_of_def ended_well_def by auto
  with a(2) obtain b d where b: "a = Some b" "at_evidence b = PDict d" "truthy (dget d ''reference_instrumented'')"
      "truthy (dget d ''candidate_instrumented'')"
    by (auto elim: both_instrumented_true)
  from a(1) b(1) have "attested_build ph w tool flags env b \<and> load_attestation ph w path = Inr b"
    by (auto elim: attested_by_build)
  with s b t show ?thesis unfolding fpsan_genuine_def by blast
qed

lemma waitcheck_parse_clean:
  assumes "waitcheck_parse ph w cx x = Inr r" "rr_finding r = CLEAN"
  shows "rr_record r = Some x \<and> genuinely_clean ph w ''rocjitsu_waitcheck'' cx x"
proof -
  from assms(1) obtain s parsed where s: "waitcheck_subject ph w cx = Inr s"
      "parse_waitcheck (er_stdout x) (er_stderr x) (er_returncode x) (identity_of s) (er_timed_out x) = Inr parsed"
      "parsed_to_run_result ''rocjitsu_waitcheck'' parsed x [] (waitcheck_metadata s) = Inr r"
    by (auto simp: waitcheck_parse_def rbind_eq_Inr map_error_eq_Inr)
  from parsed_clean [OF s(3)] assms(2) have "rr_record r = Some x" "pr_status parsed = Pass" by auto
  with s(1,2) waitcheck_pass [of "er_stdout x" "er_stderr x" "er_returncode x" "identity_of s" "er_timed_out x" parsed]
  show ?thesis by (auto simp: genuinely_clean_def waitcheck_genuine_def ended_well_def output_of_def simp del: py_eq.simps)
qed

lemma consan_parse_clean:
  assumes "consan_parse ph w cx x = Inr r" "rr_finding r = CLEAN"
  shows "rr_record r = Some x \<and> genuinely_clean ph w ''rocjitsu_consan'' cx x"
proof -
  from assms(1) obtain s parsed md where s: "consan_subject ph w cx = Inr s"
      "parse_consan (er_stdout x) (er_stderr x) (er_returncode x) (cn_sha256 s) (cn_fingerprint s) (er_timed_out x) = Inr parsed"
      "parsed_to_run_result ''rocjitsu_consan'' parsed x [] md = Inr r"
    by (auto simp: consan_parse_def rbind_eq_Inr map_error_eq_Inr)
  from parsed_clean [OF s(3)] assms(2) have p: "rr_record r = Some x" "pr_status parsed = Pass" by auto
  with consan_pass [OF s(2)] s(1) show ?thesis
    by (auto simp: genuinely_clean_def consan_genuine_def ended_well_def output_of_def run_succeeded_def simp del: py_eq.simps)
qed

lemma rocjitsu_result_clean:
  assumes "rocjitsu_result ph w x path attested paths md = Inr r" "rr_finding r = CLEAN"
  shows "rr_record r = Some x \<and> attested \<and> ended_well x
    \<and> race_blocks (joined_output [er_stdout x, er_stderr x, race_report ph w path]) = []
    \<and> rocjitsu_dispatch_kernels (joined_output [er_stdout x, er_stderr x, race_report ph w path]) \<noteq> []"
proof -
  from assms(1) obtain parsed where s:
      "parse_rocjitsu (er_stdout x) (er_stderr x) (er_returncode x) attested (race_report ph w path) (er_timed_out x) = Inr parsed"
      "parsed_to_run_result ''rocjitsu'' parsed x (artifacts_at ph w paths) md = Inr r"
    by (auto simp: rocjitsu_result_def rbind_eq_Inr map_error_eq_Inr)
  from parsed_clean [OF s(2)] assms(2) have "rr_record r = Some x" "pr_status parsed = Pass" by auto
  with s(1) rocjitsu_pass [of "er_stdout x" "er_stderr x" "er_returncode x" attested "race_report ph w path" "er_timed_out x" parsed]
  show ?thesis by (auto simp: ended_well_def simp del: py_eq.simps)
qed

lemma replay_parse_clean:
  assumes "replay_parse ph w cx x path adapter = Inr r" "rr_finding r = CLEAN"
  obtains l where "load_aot_capsule ph w cx = Inr l"
    "replay_attested adapter l (join_by newline [er_stdout x, er_stderr x, race_report ph w path]) = (True, True, True)"
    "rr_record r = Some x" "ended_well x"
    "race_blocks (joined_output [er_stdout x, er_stderr x, race_report ph w path]) = []"
    "rocjitsu_dispatch_kernels (joined_output [er_stdout x, er_stderr x, race_report ph w path]) \<noteq> []"
proof (cases "load_aot_capsule ph w cx")
  case (Inl e)
  with assms have "parsed_to_run_result ''rocjitsu''
                 (parsed_as Inconclusive ''rocjitsu_capsule_revalidation_failed''
                    (''Replay capsule failed post-execution validation: '' @ plugin_error_text e) False)
                 x (artifacts_at ph w [path]) [] = Inr r"
    by (simp add: replay_parse_def split: if_splits)
  from parsed_clean [OF this] assms(2) show ?thesis by simp
next
  case (Inr l)
  obtain a b c where abc: "replay_attested adapter l (join_by newline [er_stdout x, er_stderr x, race_report ph w path]) = (a, b, c)"
    by (metis prod_cases3)
  with Inr assms(1) obtain paths md where "rocjitsu_result ph w x path (a \<and> b \<and> c) paths md = Inr r"
    by (auto simp: replay_parse_def Let_def simp del: join_by.simps)
  from rocjitsu_result_clean [OF this assms(2)] Inr abc show ?thesis by (intro that) auto
qed

lemma rocjitsu_parse_clean:
  assumes "rocjitsu_parse ph w cx x = Inr r" "rr_finding r = CLEAN"
  shows "rr_record r = Some x \<and> genuinely_clean ph w ''rocjitsu'' cx x"
proof (cases "expected_aot_adapter cx")
  case None
  with assms(1) obtain path where p: "rocjitsu_result ph w x path (native_attested cx (race_report ph w path)) [path] [] = Inr r"
    by (auto simp: rocjitsu_parse_def rbind_eq_Inr)
  from rocjitsu_result_clean [OF p assms(2)] None show ?thesis
    by (auto simp: genuinely_clean_def rocjitsu_genuine_def Let_def)
next
  case (Some adapter)
  with assms(1) obtain path where "replay_parse ph w cx x path adapter = Inr r"
    by (auto simp: rocjitsu_parse_def rbind_eq_Inr)
  from this assms(2) show ?thesis
    by (rule replay_parse_clean) (use Some in \<open>auto simp: genuinely_clean_def rocjitsu_genuine_def Let_def simp del: join_by.simps\<close>)
qed

end
