(* ===== verification/ReplayCapsuleFacts.thy ===== *)
theory ReplayCapsuleFacts
  imports ReplayCapsule RuntimeClientFacts
begin

text \<open>
  What a validated capsule promises the launcher that is generated from it: every access it describes
  stays inside its allocation.  And a capsule that was read is written as a dictionary that reads back.
\<close>

named_theorems capsule_simps \<open>reading back what a component was written as\<close>

section \<open>Bounds\<close>

lemma sum_index_le:
  fixes shape stride :: "int list"
  assumes "list_all2 (\<lambda>i d. 0 \<le> i \<and> i < d) idx shape" "length shape = length stride"
    and "list_all (\<lambda>d. 0 \<le> d) stride"
  shows "sum_list (map (\<lambda>(i, s). i * s) (zip idx stride))
    \<le> sum_list (map (\<lambda>(d, s). (d - 1) * s) (filter (\<lambda>(d, s). d \<noteq> 0) (zip shape stride)))"
  using assms
proof (induction idx shape arbitrary: stride rule: list_all2_induct)
  case (Cons i idx d shape)
  from Cons.prems obtain s stride' where st: "stride = s # stride'" by (cases stride) auto
  from Cons.prems st have "0 \<le> s" by simp
  with Cons.hyps have "i * s \<le> (d - 1) * s" by (intro mult_right_mono) auto
  moreover have "sum_list (map (\<lambda>(i, s). i * s) (zip idx stride'))
    \<le> sum_list (map (\<lambda>(d, s). (d - 1) * s) (filter (\<lambda>(d, s). d \<noteq> 0) (zip shape stride')))"
    using Cons.prems st by (intro Cons.IH) auto
  ultimately show ?case using Cons.hyps st by simp
qed simp

lemma sum_index_nonneg:
  fixes shape stride :: "int list"
  assumes "list_all2 (\<lambda>i d. 0 \<le> i \<and> i < d) idx shape" "list_all (\<lambda>d. 0 \<le> d) stride"
  shows "0 \<le> sum_list (map (\<lambda>(i, s). i * s) (zip idx stride))"
  using assms
proof (induction idx shape arbitrary: stride rule: list_all2_induct)
  case (Cons i idx d shape)
  then show ?case by (cases stride) auto
qed simp

text \<open>The bytes of the element of a view at some indices, in its allocation.\<close>

definition element_offset :: "view_spec \<Rightarrow> int \<Rightarrow> int list \<Rightarrow> int" where
  "element_offset v width idx =
     vw_byte_offset v + sum_list (map (\<lambda>(i, s). i * s) (zip idx (vw_stride v))) * width"

lemma dtype_positive: "map_of dtype_bytes t = Some width \<Longrightarrow> 0 < width"
  by (auto simp: dtype_bytes_def split: if_splits)

lemma view_valid_bounds:
  assumes "view_valid v a" "map_of dtype_bytes (vw_dtype v) = Some width"
    and "list_all2 (\<lambda>i d. 0 \<le> i \<and> i < d) idx (vw_shape v)"
  shows "0 \<le> element_offset v width idx \<and> element_offset v width idx + width \<le> al_byte_size a"
proof -
  let ?e = "sum_list (map (\<lambda>(i, s). i * s) (zip idx (vw_stride v)))"
  from assms have v: "0 \<le> vw_byte_offset v" "length (vw_shape v) = length (vw_stride v)"
      "list_all (\<lambda>d. 0 \<le> d) (vw_stride v)" "vw_byte_offset v + (max_element v + 1) * width \<le> al_byte_size a"
    by (auto simp: view_valid_def)
  have w: "0 < width" by (rule dtype_positive [OF assms(2)])
  have "?e \<le> max_element v" unfolding max_element_def by (rule sum_index_le [OF assms(3) v(2,3)])
  with w have "?e * width \<le> max_element v * width" by (intro mult_right_mono) auto
  moreover have "0 \<le> ?e" by (rule sum_index_nonneg [OF assms(3) v(3)])
  then have "0 \<le> ?e * width" using w by simp
  ultimately show ?thesis using v w
    by (intro conjI; simp only: element_offset_def distrib_right mult_1; linarith)
qed

lemma view_steps:
  assumes "foldR (view_step c) seen vs = Inr seen'"
  shows "distinct (map vw_arg_index vs) \<and> set (map vw_arg_index vs) \<inter> set seen = {}
    \<and> (\<forall>v \<in> set vs. \<exists>a x. map_of (allocation_table c) (vw_allocation_id v) = Some a \<and> view_valid v a
        \<and> 0 \<le> vw_arg_index v \<and> vw_arg_index v < int (length (rc_abi c))
        \<and> x = rc_abi c ! nat (vw_arg_index v) \<and> ab_kind x = ''pointer'' \<and> ab_ref x = Some (vw_allocation_id v))"
  using assms
proof (induction vs arbitrary: seen)
  case (Cons v vs)
  from Cons.prems obtain s1 where s: "view_step c seen v = Inr s1" "foldR (view_step c) s1 vs = Inr seen'"
    by (auto simp: rbind_eq_Inr)
  from s(1) obtain a x where v: "vw_arg_index v \<notin> set seen" "s1 = vw_arg_index v # seen"
      "map_of (allocation_table c) (vw_allocation_id v) = Some a" "vw_arg_index v < int (length (rc_abi c))"
      "argument_at (rc_abi c) (vw_arg_index v) = Inr x" "ab_kind x = ''pointer''"
      "ab_ref x = Some (vw_allocation_id v)" "view_valid v a"
    by (auto simp: view_step_def rbind_eq_Inr split: if_splits option.splits)
  then have "0 \<le> vw_arg_index v" by (simp add: view_valid_def)
  with v have "x = rc_abi c ! nat (vw_arg_index v)" by (auto simp: argument_at_def Let_def split: if_splits)
  with v \<open>0 \<le> vw_arg_index v\<close> Cons.IH [OF s(2)] show ?case by auto
qed simp

text \<open>The conditions the validation ends with.\<close>

lemma validate_capsule_facts:
  assumes "validate_capsule c = Inr u"
  shows "launch_valid (rc_launch c)" "list_all argument_valid (rc_abi c)" "list_all allocation_valid (rc_allocations c)"
    and "list_all (argument_refs_ok (allocation_table c)) (rc_abi c)" "distinct (map al_id (rc_allocations c))"
    and "\<exists>seen. foldR (view_step c) [] (rc_views c) = Inr seen"
    and "list_all (relocation_valid (allocation_table c)) (rc_relocations c)"
  using assms unfolding validate_capsule_def by (auto simp: rbind_eq_Inr guardR_eq_Inr)

lemma allocation_table_elem:
  "map_of (allocation_table c) k = Some a \<Longrightarrow> a \<in> set (rc_allocations c) \<and> al_id a = k"
  by (auto simp: allocation_table_def dest: map_of_SomeD)

lemma relocation_bounds:
  assumes "relocation_valid (allocation_table c) r"
  obtains source target where "map_of (allocation_table c) (rl_allocation_id r) = Some source"
    "map_of (allocation_table c) (rl_target_id r) = Some target"
    "0 \<le> rl_byte_offset r" "rl_byte_offset r + 8 \<le> al_byte_size source"
    "0 \<le> rl_target_offset r" "rl_target_offset r < al_byte_size target"
  using assms by (auto simp: relocation_valid_def split: option.splits)

section \<open>Reading back\<close>

lemma capsule_read [capsule_simps]:
  "text_or_empty ((PStr k, v) # d) k' = (if k = k' then py_str v else text_or_empty d k')"
  "text_or_empty [] k' = []"
  "int_or ((PStr k, v) # d) k' n = (if k = k' then map_error Escaped (py_int v) else int_or d k' n)"
  "dget ((PStr k, v) # d) k' = (if k = k' then v else dget d k')"
  "dget_default ((PStr k, v) # d) k' w = (if k = k' then v else dget_default d k' w)"
  by (auto simp: text_or_empty_def int_or_def dget_default_def)

lemma producer_back [capsule_simps]:
  "(case producer_value (producer_from_dict raw) of PDict d \<Rightarrow> producer_from_dict d) = producer_from_dict raw"
  by (simp add: producer_value_def producer_from_dict_def Let_def capsule_simps)

lemma target_back: "mapped name target_from_dict (target_value t) = Inr t"
  by (simp add: mapped_def require_mapping_def target_value_def target_from_dict_def capsule_simps)

lemma case_back: "mapped name case_from_dict (case_value c) = Inr c"
  by (cases "cs_seed c") (simp_all add: mapped_def require_mapping_def case_value_def case_from_dict_def capsule_simps opt_int_def)

lemma safe_path_back:
  assumes "safe_relative_path v name = Inr p"
  shows "safe_relative_path (PStr p) name' = Inr p \<and> p \<noteq> []"
proof -
  define ps where "ps = snd (posix_path (py_str v))"
  from assms have r: "fst (posix_path (py_str v)) = []" "ps \<noteq> []" "''..'' \<notin> set ps" "p = path_text ([], ps)"
    by (auto simp: safe_relative_path_def Let_def ps_def split: if_splits) (metis prod.collapse)
  have c: "\<forall>q \<in> set ps. q \<noteq> [] \<and> q \<noteq> ''.'' \<and> CHR ''/'' \<notin> set q" unfolding ps_def using clean_parts by blast
  from path_text_relative [OF c] r have b: "posix_path p = ([], ps)" by simp
  moreover have "p \<noteq> []" by (simp add: r(4) path_text_def Let_def)
  ultimately show ?thesis using r by (simp add: safe_relative_path_def Let_def)
qed

lemma valid_sha_back:
  assumes "valid_sha v name required = Inr (Some s)"
  shows "valid_sha (PStr s) name' required' = Inr (Some s)"
  using assms by (auto simp: valid_sha_def Let_def split: if_splits)

lemma code_object_back:
  assumes "code_object_from_dict raw = Inr c"
  shows "mapped name code_object_from_dict (code_object_value c) = Inr c"
proof -
  from assms obtain sha where p: "safe_relative_path (dget_default raw ''path'' (PStr [])) ''code_object.path'' = Inr (co_path c)"
      and s: "valid_sha (dget raw ''sha256'') ''code_object.sha256'' True = Inr sha"
      "co_sha256 c = (case sha of Some s \<Rightarrow> s | None \<Rightarrow> [])"
    by (auto simp: code_object_from_dict_def rbind_eq_Inr)
  from s(1) obtain t where t: "sha = Some t" by (auto simp: valid_sha_def Let_def split: if_splits)
  with s have "valid_sha (PStr (co_sha256 c)) ''code_object.sha256'' True = Inr (Some (co_sha256 c))"
    by (auto intro: valid_sha_back)
  with safe_path_back [OF p] show ?thesis
    by (simp add: mapped_def require_mapping_def code_object_value_def code_object_from_dict_def capsule_simps)
qed

lemma tuple3_back: "tuple3 v name b = Inr t \<Longrightarrow> tuple3 (triple_value t) name b = Inr t"
  by (cases t) (auto simp: tuple3_def exact_int_def triple_value_def rbind_eq_Inr split: pyval.splits list.splits if_splits)

lemma launch_back:
  assumes "launch_from_dict raw = Inr l"
  shows "mapped name launch_from_dict (launch_value l) = Inr l"
proof -
  from assms have "tuple3 (dget raw ''grid'') ''launch.grid'' 1 = Inr (la_grid l)"
      "tuple3 (dget raw ''block'') ''launch.block'' 1 = Inr (la_block l)" "0 \<le> la_smem l" "la_smem l \<le> UINT32_MAX"
    by (auto simp: launch_from_dict_def rbind_eq_Inr exact_int_def split: pyval.splits if_splits)
  then show ?thesis
    by (simp add: mapped_def require_mapping_def launch_value_def launch_from_dict_def capsule_simps
        tuple3_back exact_int_def)
qed

lemma argument_back: "mapped name argument_from_dict (argument_value a) = Inr a"
  by (cases "ab_ref a"; cases "ab_bytes_hex a")
     (simp_all add: mapped_def require_mapping_def argument_value_def argument_from_dict_def capsule_simps opt_str_def)

lemma allocation_back:
  assumes "allocation_from_dict raw = Inr a"
  shows "mapped name allocation_from_dict (allocation_value a) = Inr a"
proof -
  let ?e = "dget raw ''expected_blob''"
  from assms obtain sha where
      b: "safe_relative_path (dget_default raw ''before_blob'' (PStr [])) ''allocation.before_blob'' = Inr (al_before_blob a)"
      and s: "valid_sha (dget raw ''before_sha256'') ''allocation.before_sha256'' True = Inr sha"
        "al_before_sha256 a = (case sha of Some s \<Rightarrow> s | None \<Rightarrow> [])"
      and e: "(if truthy ?e then rbind (safe_relative_path ?e ''allocation.expected_blob'') (\<lambda>p. Inr (Some p))
        else Inr None) = Inr (al_expected_blob a)"
      and x: "valid_sha (dget raw ''expected_sha256'') ''allocation.expected_sha256'' (truthy ?e) = Inr (al_expected_sha256 a)"
    by (auto simp: allocation_from_dict_def Let_def rbind_eq_Inr split del: if_split)
  from s obtain t where t: "sha = Some t" by (auto simp: valid_sha_def Let_def split: if_splits)
  with s have s': "valid_sha (PStr (al_before_sha256 a)) ''allocation.before_sha256'' True = Inr (Some (al_before_sha256 a))"
    by (auto intro: valid_sha_back)
  have e': "(if truthy (opt_text (al_expected_blob a))
        then rbind (safe_relative_path (opt_text (al_expected_blob a)) ''allocation.expected_blob'') (\<lambda>p. Inr (Some p))
        else Inr None) = Inr (al_expected_blob a)"
  proof (cases "truthy ?e")
    case True
    with e obtain q where q: "safe_relative_path ?e ''allocation.expected_blob'' = Inr q" "al_expected_blob a = Some q"
      by (auto simp: rbind_eq_Inr)
    from safe_path_back [OF q(1)] q(2) show ?thesis by simp
  next
    case False
    with e show ?thesis by auto
  qed
  have x': "valid_sha (opt_text (al_expected_sha256 a)) ''allocation.expected_sha256'' (truthy (opt_text (al_expected_blob a)))
      = Inr (al_expected_sha256 a)"
  proof (cases "al_expected_sha256 a")
    case None
    with x have "\<not> truthy ?e" by (auto simp: valid_sha_def Let_def split: if_splits)
    with e None show ?thesis by (auto simp: valid_sha_def)
  next
    case (Some t)
    with x show ?thesis by (auto intro: valid_sha_back)
  qed
  from conjunct1 [OF safe_path_back [OF b]] s' e' x' show ?thesis
    by (simp add: mapped_def require_mapping_def allocation_value_def allocation_from_dict_def Let_def capsule_simps
        split del: if_split)
qed

lemma checked_int_back: "mapR checked_int (map PInt ks) = Inr ks"
  by (induction ks) (simp_all add: checked_int_def)

lemma view_back: "mapped name view_from_dict (view_value v) = Inr v"
  by (simp add: mapped_def require_mapping_def view_value_def view_from_dict_def each_def capsule_simps checked_int_back)

lemma relocation_back: "mapped name relocation_from_dict (relocation_value r) = Inr r"
  by (simp add: mapped_def require_mapping_def relocation_value_def relocation_from_dict_def capsule_simps)

lemma scratch_back: "mapped name scratch_from_dict (scratch_value s) = Inr s"
  by (simp add: mapped_def require_mapping_def scratch_value_def scratch_from_dict_def capsule_simps)

lemma mapR_back: "(\<And>x. x \<in> set xs \<Longrightarrow> f (g x) = Inr x) \<Longrightarrow> mapR f (map g xs) = Inr xs"
  by (induction xs) auto

lemma each_items:
  assumes "each (mapped name f) raw k = Inr xs" "x \<in> set xs"
  shows "\<exists>d. f d = Inr x"
  using assms by (auto simp: each_def mapped_def rbind_eq_Inr map_error_eq_Inr dest!: mapR_set)

lemma capsule_back:
  assumes "build_capsule raw = Inr c"
  shows "require_mapping (capsule_to_dict c) ''capsule'' = Inr d \<Longrightarrow> build_capsule d = Inr c"
proof -
  assume d: "require_mapping (capsule_to_dict c) ''capsule'' = Inr d"
  from assms obtain p where p: "rc_producer c = producer_from_dict p"
      and co: "mapped ''code_object'' code_object_from_dict (dget raw ''code_object'') = Inr (rc_code_object c)"
      and la: "mapped ''launch'' launch_from_dict (dget raw ''launch'') = Inr (rc_launch c)"
      and al: "each (mapped ''allocation'' allocation_from_dict) raw ''allocations'' = Inr (rc_allocations c)"
    unfolding build_capsule_def by (elim rbindE) auto
  from co have co': "mapped name code_object_from_dict (code_object_value (rc_code_object c)) = Inr (rc_code_object c)" for name
    by (auto simp: mapped_def [of "''code_object''"] rbind_eq_Inr intro: code_object_back)
  from la have la': "mapped name launch_from_dict (launch_value (rc_launch c)) = Inr (rc_launch c)" for name
    by (auto simp: mapped_def [of "''launch''"] rbind_eq_Inr intro: launch_back)
  have al': "mapR (mapped name allocation_from_dict) (map allocation_value (rc_allocations c)) = Inr (rc_allocations c)" for name
    using each_items [OF al] allocation_back by (intro mapR_back) blast
  have pr: "\<exists>e. producer_value (rc_producer c) = PDict e \<and> producer_from_dict e = rc_producer c"
    using producer_back [of p] p by (auto simp: producer_value_def)
  then obtain e where e: "producer_value (rc_producer c) = PDict e" "producer_from_dict e = rc_producer c" by blast
  from d show ?thesis
    by (auto simp: require_mapping_def capsule_to_dict_def build_capsule_def capsule_simps each_def e co' la' al'
        target_back case_back scratch_back mapR_back argument_back view_back relocation_back)
qed

end
