(* ===== verification/BuiltinTools.thy ===== *)
theory BuiltinTools
  imports ToolPluginFacts ReplayCapsuleFacts EvalProps
begin

text \<open>
  The evaluation with the built-in plugins: a clean result of the report is the genuine result of a run
  of that tool, and under the required policy nothing else lets the performance be measured.
\<close>

section \<open>From the report to a plugin\<close>

lemma evaluate_tools_elem:
  assumes "evaluate_tools inp plan n ps w = (Inr es, w')" "e \<in> set es"
  shows "\<exists>m p w1 w2. p \<in> set ps \<and> evaluate_tool inp plan m p w1 = (Inr e, w2)"
  using assms
proof (induction ps arbitrary: n w es)
  case (Cons p ps)
  then obtain x w1 xs where s: "evaluate_tool inp plan n p w = (Inr x, w1)"
      "evaluate_tools inp plan (Suc n) ps w1 = (Inr xs, w')" "es = x # xs"
    by (auto split: prod.splits sum.splits)
  with Cons.prems(2) Cons.IH [OF s(2)] show ?case by (cases "e = x") (auto 4 4)
qed simp

lemma parsed_result_cases:
  assumes "rr_finding (parsed_result t x r) = CLEAN"
  obtains y where "r = Returned y" "rr_tool y = t" "rr_finding y = CLEAN"
    "rr_record (parsed_result t x r) = (if rr_record y = None then Some x else rr_record y)"
proof -
  from assms obtain y where y: "r = Returned y" "rr_tool y = t"
    by (auto simp: parsed_result_def Let_def split: outcome.splits if_splits)
  let ?z = "if rr_record y = None then y\<lparr>rr_record := Some x\<rparr> else y"
  have p: "parsed_result t x r = fail_closed_on_truncated_output ?z" by (simp add: parsed_result_def y)
  have "rr_finding y = CLEAN \<and> rr_record (parsed_result t x r) = rr_record ?z"
    using assms unfolding p by (auto simp: fail_closed_on_truncated_output_def split: option.splits if_splits)
  with y show ?thesis by (intro that) auto
qed

lemma run_tool_parsed:
  assumes "run_tool g rt p cx w = (Inr r, w')" "rr_finding r = CLEAN"
  obtains i w0 x y w1 w2 where "rt_execute rt i cx w0 = (Returned x, w1)" "ti_tool i = pl_tool p"
    "pg_parse g cx x w1 = (Returned y, w2)" "rr_tool y = pl_tool p" "rr_finding y = CLEAN"
    "rr_record r = (if rr_record y = None then Some x else rr_record y)"
  using assms(1)
proof (cases rule: run_tool_cases)
  case (failed m x)
  with assms(2) show ?thesis by simp
next
  case (parsed i w0 x w1 q)
  from assms(2) have "rr_finding (parsed_result (pl_tool p) x q) = CLEAN" by (simp add: parsed(4))
  then show ?thesis by (rule parsed_result_cases) (use parsed that in auto)
qed

lemma evaluate_tool_parsed:
  assumes "evaluate_tool inp plan n p w = (Inr e, w')" "te_result e = Some r" "rr_finding r = CLEAN"
  obtains g cx i w0 x y w1 w2 where "get_plugin (in_registry inp) (pl_tool p) = Inr g"
    "rt_execute (in_runtime inp) i cx w0 = (Returned x, w1)" "ti_tool i = pl_tool p" "pg_parse g cx x w1 = (Returned y, w2)"
    "rr_tool y = pl_tool p" "rr_finding y = CLEAN" "rr_record r = (if rr_record y = None then Some x else rr_record y)"
    "tc_tool (te_capability e) = pl_tool p" "tx_profile cx = in_profile inp" "tx_gpu_arch cx = in_gpu_arch inp"
  using assms(1)
proof (cases rule: evaluate_tool_InrE)
  case not_run
  with assms(2) show ?thesis by simp
next
  case (ran g cx q w1)
  with assms(2,3) have "rr_finding q = CLEAN" "q = r" by auto
  with ran show ?thesis by (elim run_tool_parsed) (use that in auto)
qed

section \<open>The registered plugins\<close>

lemma builtin_names:
  "tool_value ''gpu_asan'' = Inr ''gpu_asan''" "tool_value ''hip_fpsan'' = Inr ''hip_fpsan''"
  "tool_value ''rocjitsu'' = Inr ''rocjitsu''" "tool_value ''rocjitsu_consan'' = Inr ''rocjitsu_consan''"
  "tool_value ''rocjitsu_waitcheck'' = Inr ''rocjitsu_waitcheck''" "tool_value ''triton_fpsan'' = Inr ''triton_fpsan''"
  by code_simp+

lemma builtin_registry:
  "register_builtin_plugins ph [] False = Inr (map (\<lambda>p. (pg_name p, p)) (builtin_plugins ph))"
proof -
  have v: "strip ''1'' \<noteq> []" "strip ''2'' \<noteq> []" "strip ''3'' \<noteq> []" by code_simp+
  show ?thesis
    by (simp add: register_builtin_plugins_def builtin_plugins_def plugin_of_def register_def normalize_tool_name_def
        builtin_names v)
qed

lemma plugin_of_parse:
  assumes "pg_parse (plugin_of name version assess build parse) cx x w = (Returned y, w')"
  shows "parse w cx x = Inr y"
  using assms by (auto simp: plugin_of_def called_outcome_def split: sum.splits)

lemma parsed_tool:
  "parsed_to_run_result tool parsed x artifacts md = Inr r \<Longrightarrow> tool_value tool = Inr (rr_tool r)"
  by (auto simp: parsed_to_run_result_def mk_tool_run_result_def checked_result_def rbind_eq_Inr
      map_error_eq_Inr split: prod.splits if_splits)

lemma rocjitsu_result_tool: "rocjitsu_result ph w x path attested paths md = Inr y \<Longrightarrow> rr_tool y = ''rocjitsu''"
  by (auto simp: rocjitsu_result_def rbind_eq_Inr builtin_names dest!: parsed_tool)

lemma replay_parse_tool: "replay_parse ph w cx x path adapter = Inr y \<Longrightarrow> rr_tool y = ''rocjitsu''"
  by (auto simp: replay_parse_def Let_def builtin_names simp del: join_by.simps
      dest!: parsed_tool rocjitsu_result_tool split: sum.splits if_splits prod.splits)

lemma parse_tools:
  "asan_parse ph w cx x = Inr y \<Longrightarrow> rr_tool y = ''gpu_asan''"
  "triton_fpsan_parse ph w cx x = Inr y \<Longrightarrow> rr_tool y = ''triton_fpsan''"
  "hip_fpsan_parse ph w cx x = Inr y \<Longrightarrow> rr_tool y = ''hip_fpsan''"
  "waitcheck_parse ph w cx x = Inr y \<Longrightarrow> rr_tool y = ''rocjitsu_waitcheck''"
  "consan_parse ph w cx x = Inr y \<Longrightarrow> rr_tool y = ''rocjitsu_consan''"
  "rocjitsu_parse ph w cx x = Inr y \<Longrightarrow> rr_tool y = ''rocjitsu''"
  by (auto simp: asan_parse_def triton_fpsan_parse_def hip_fpsan_parse_def fpsan_parse_def waitcheck_parse_def
      consan_parse_def rocjitsu_parse_def rbind_eq_Inr builtin_names
      dest!: parsed_tool rocjitsu_result_tool replay_parse_tool split: option.splits)

lemma builtin_parse_clean:
  assumes "g \<in> set (builtin_plugins ph)" "pg_parse g cx x w = (Returned y, w')" "rr_finding y = CLEAN"
  shows "rr_record y = Some x \<and> genuinely_clean ph w (rr_tool y) cx x"
proof -
  from assms(1,2) consider
      "asan_parse ph w cx x = Inr y" | "triton_fpsan_parse ph w cx x = Inr y" | "hip_fpsan_parse ph w cx x = Inr y"
    | "waitcheck_parse ph w cx x = Inr y" | "consan_parse ph w cx x = Inr y" | "rocjitsu_parse ph w cx x = Inr y"
    unfolding builtin_plugins_def by (auto dest: plugin_of_parse)
  then show ?thesis
  proof cases
    case 1
    with asan_parse_clean [OF 1 assms(3)] parse_tools(1) [OF 1] show ?thesis by simp
  next
    case 2
    with fpsan_parse_clean [OF 2 [unfolded triton_fpsan_parse_def] assms(3)] parse_tools(2) [OF 2] show ?thesis
      by (simp add: genuinely_clean_def)
  next
    case 3
    then obtain dir where d: "required_sidecar_path cx ''include_dir'' = Inr dir" and f: "fpsan_parse ph w cx x ''hip_fpsan'' (hip_fpsan_flags dir) [(''AKA_HIP_FPSAN'', ''1'')] = Inr y"
      by (auto simp: hip_fpsan_parse_def rbind_eq_Inr)
    from fpsan_parse_clean [OF f assms(3)] parse_tools(3) [OF 3] d show ?thesis
      by (simp add: genuinely_clean_def)
  next
    case 4
    with waitcheck_parse_clean [OF 4 assms(3)] parse_tools(4) [OF 4] show ?thesis by simp
  next
    case 5
    with consan_parse_clean [OF 5 assms(3)] parse_tools(5) [OF 5] show ?thesis by simp
  next
    case 6
    with rocjitsu_parse_clean [OF 6 assms(3)] parse_tools(6) [OF 6] show ?thesis by simp
  qed
qed

text \<open>A run of a tool by the runtime of the evaluation whose clean result is genuine.\<close>

definition genuine_run ::
    "'w plugin_host \<Rightarrow> 'w evaluation_input \<Rightarrow> string \<Rightarrow> tool_context \<Rightarrow> execution_record \<Rightarrow> bool" where
  "genuine_run ph inp tool cx x =
     (tx_profile cx = in_profile inp \<and> tx_gpu_arch cx = in_gpu_arch inp
      \<and> (\<exists>i w0 w1. ti_tool i = tool \<and> rt_execute (in_runtime inp) i cx w0 = (Returned x, w1)
           \<and> genuinely_clean ph w1 tool cx x))"

lemma clean_evaluation_genuine:
  assumes "register_builtin_plugins ph [] False = Inr (in_registry inp)"
    and "evaluate_tool inp plan n p w = (Inr e, w')" "te_result e = Some r" "rr_finding r = CLEAN"
  shows "\<exists>cx x. rr_record r = Some x \<and> genuine_run ph inp (tc_tool (te_capability e)) cx x"
  using assms(2-4)
proof (rule evaluate_tool_parsed)
  fix g cx i w0 x y w1 w2
  assume g: "get_plugin (in_registry inp) (pl_tool p) = Inr g"
    and i: "rt_execute (in_runtime inp) i cx w0 = (Returned x, w1)" "ti_tool i = pl_tool p"
    and y: "pg_parse g cx x w1 = (Returned y, w2)" "rr_tool y = pl_tool p" "rr_finding y = CLEAN"
    and r: "rr_record r = (if rr_record y = None then Some x else rr_record y)"
    and cx: "tc_tool (te_capability e) = pl_tool p" "tx_profile cx = in_profile inp" "tx_gpu_arch cx = in_gpu_arch inp"
  from g obtain name where "map_of (in_registry inp) name = Some g"
    by (auto simp: get_plugin_def rbind_eq_Inr split: option.splits)
  moreover have "in_registry inp = map (\<lambda>p. (pg_name p, p)) (builtin_plugins ph)"
    using assms(1) builtin_registry [of ph] by simp
  ultimately have "g \<in> set (builtin_plugins ph)" by (auto dest: map_of_SomeD)
  from builtin_parse_clean [OF this y(1,3)] r cx i y(2) show ?thesis by (auto simp: genuine_run_def)
qed

end
