(* ===== verification/BuiltinToolProps.thy ===== *)
theory BuiltinToolProps
  imports BuiltinTools
begin

text \<open>
  The properties of an evaluation with the built-in plugins and of the replay capsule, each with its witness.
\<close>

section \<open>The report\<close>

text \<open>
  C16.  An evaluation with the built-in plugins under the required policy lets the performance be measured
  only if every tool of the report that applies really ran: the record in its result is that of a run of the tool by
  the runtime, untruncated, which ended by itself with exit code zero, reported no finding, and left
  what the tool takes as proof that the kernel was instrumented - the attested build, the equal digests,
  the dispatch of the kernel, or the identity and coverage of the code object.
\<close>

theorem required_builtin_tools_genuine:
  assumes "register_builtin_plugins ph [] False = Inr (in_registry inp)"
    and "fst (evaluate inp config evidence w) = Inr rep" "ec_policy config = REQUIRED"
    and "pd_allowed (rp_decision rep)" "e \<in> set (rp_evaluations rep)"
    and "cc_state (tc_effective (te_capability e)) \<noteq> NOT_APPLICABLE"
  shows "\<exists>r x cx. te_result e = Some r \<and> rr_record r = Some x \<and> truncated_streams x = []
    \<and> genuine_run ph inp (tc_tool (te_capability e)) cx x"
proof -
  note rep = evaluate_report [OF assms(2)]
  then obtain versions where "build_evaluation_plan config (in_profile inp) versions evidence = Inr (rp_plan rep)"
    unfolding build_plan_def by (auto elim: rbindE)
  then have "ev_policy (rp_plan rep) = REQUIRED" using plan_tools assms(3) by metis
  with rep assms(4,5) have "acceptable e" "whole_output e" by (auto simp: policy_allowed list_all_iff)
  with assms(6) obtain r x where r: "te_result e = Some r" "rr_finding r = CLEAN" "rr_record r = Some x" "truncated_streams x = []"
    by (auto simp: acceptable_def whole_output_def)
  from assms(2) obtain w' where
      "evaluate_tools inp (rp_plan rep) 0 (ev_tools (rp_plan rep)) w = (Inr (rp_evaluations rep), w')"
    by (elim evaluate_Inr)
  from evaluate_tools_elem [OF this assms(5)] obtain m p w1 w2 where "evaluate_tool inp (rp_plan rep) m p w1 = (Inr e, w2)" by blast
  from clean_evaluation_genuine [OF assms(1) this r(1,2)] r show ?thesis by auto
qed

text \<open>A native HIP kernel, run in the simulator by a runtime whose log holds one dispatch.\<close>

definition hip_profile :: task_profile where
  "hip_profile = unknown_profile\<lparr>tp_language := HIP\<rparr>"

definition launcher_options :: pydict where
  "launcher_options = [(PStr ''launcher'', PList [PStr ''run''])]"

definition simulator_evidence :: pydict where
  "simulator_evidence = [(PStr ''rocjitsu_binary'', PStr ''/r''), (PStr ''config_path'', PStr ''/c'')]"

definition simulator_config :: eval_tools_config where
  "simulator_config =
     \<lparr>ec_tools = [\<lparr>cf_name = ''rocjitsu'', cf_runtime_ref = None, cf_timeout_s = 60, cf_options = launcher_options\<rparr>],
      ec_policy = REQUIRED, ec_runtime_profile = None, ec_positive_control_required = False,
      ec_schema_version = 2\<rparr>"

definition dispatch_log :: string where
  "dispatch_log = ''[rocjitsu] Kernel dispatch: '' @ [CHR 0x22] @ ''k'' @ [CHR 0x22]"

definition dispatch_host :: "unit plugin_host" where
  "dispatch_host =
     \<lparr>ph_view = (\<lambda>_. \<lparr>fv_resolve = (\<lambda>p. p), fv_contents = (\<lambda>_. Some dispatch_log)\<rparr>), ph_exists = (\<lambda>_ _. True),
      ph_decode = Some, ph_decode_lossy = (\<lambda>s. s), ph_mkdir = (\<lambda>_ w. (Inr (), w)),
      ph_write = (\<lambda>_ _ w. (Inr (), w)), ph_cwd = ''/''\<rparr>"

definition simulator_runtime :: "unit runtime" where
  "simulator_runtime =
     \<lparr>rt_probe = (\<lambda>_ _ w. (Returned (ready_check simulator_evidence), w)),
      rt_execute = (\<lambda>_ _ w. (Returned asan_record, w))\<rparr>"

definition simulator_input :: "unit evaluation_input" where
  "simulator_input =
     \<lparr>in_registry = map (\<lambda>p. (pg_name p, p)) (builtin_plugins dispatch_host), in_runtime = simulator_runtime,
      in_cwd = ''/'', in_workspace = ''/w'', in_task_config = [], in_profile = hip_profile, in_gpu_arch = PNone,
      in_artifact_root = None, in_env = [], in_uuid = (\<lambda>_. ''0''),
      in_mkdir = (\<lambda>_ w. (Inr (), w))\<rparr>"

definition simulator_context :: "string \<Rightarrow> source_evidence \<Rightarrow> tool_context" where
  "simulator_context dir evidence =
     \<lparr>tx_workspace = ''/w'', tx_task_config = [], tx_profile = hip_profile, tx_artifact_dir = dir, tx_gpu_arch = PNone,
      tx_runtime_ref = PNone, tx_env = [], tx_options = launcher_options @ simulator_evidence,
      tx_source_evidence = evidence\<rparr>"

lemma launcher_nonempty: "launcher_options \<noteq> []"
  by (simp add: launcher_options_def)

lemma simulator_lookups:
  "dget (launcher_options @ simulator_evidence) ''race_report'' = PNone"
  "dget (launcher_options @ simulator_evidence) ''expected_kernel'' = PNone"
  "dget (launcher_options @ simulator_evidence) ''launcher'' = PList [PStr ''run'']"
  "dget (launcher_options @ simulator_evidence) ''rocjitsu_binary'' = PStr ''/r''"
  "dget (launcher_options @ simulator_evidence) ''config_path'' = PStr ''/c''"
  "dget_default (launcher_options @ simulator_evidence) ''timeout_s'' (PInt 600) = PInt 600"
  by code_simp+

lemma path_join_rooted:
  assumes "fst (posix_path a) \<noteq> []"
  shows "fst (posix_path (path_join a b)) \<noteq> []"
proof -
  obtain r ps where q: "(if fst (posix_path b) \<noteq> [] then posix_path b
      else (fst (posix_path a), snd (posix_path a) @ snd (posix_path b))) = (r, ps)" by force
  then have r: "r = ''/'' \<or> r = ''//''"
    using posix_root [of a] posix_root [of b] assms by (auto split: if_splits)
  have "set ps \<subseteq> set (snd (posix_path a)) \<union> set (snd (posix_path b))" using q by (auto split: if_splits)
  then have "\<forall>q \<in> set ps. q \<noteq> [] \<and> q \<noteq> ''.'' \<and> CHR ''/'' \<notin> set q" using clean_parts by blast
  from path_text_rooted [OF r this] have "posix_path (path_text (r, ps)) = (r, ps)" .
  moreover have "path_join a b = path_text (r, ps)" using q by (simp only: path_join_def Let_def)
  ultimately show ?thesis using r by auto
qed

definition race_log :: "string list" where
  "race_log = [''rocjitsu-report'', ''race.log'']"

lemma race_log: "''rocjitsu-report/race.log'' = path_text ([], race_log)" "path_text ([], race_log) \<noteq> ''.''"
  by code_simp+

lemma race_log_clean: "\<forall>q \<in> set race_log. q \<noteq> [] \<and> q \<noteq> ''.'' \<and> CHR ''/'' \<notin> set q"
  by (simp add: race_log_def)

lemma simulator_report_path:
  assumes "fst (posix_path dir) \<noteq> []"
  shows "\<exists>path. race_report_path dispatch_host () (simulator_context dir ev) = Inr path \<and> last (snd (posix_path path)) = ''race.log''"
proof -
  let ?p = "path_join dir (path_text ([], race_log))"
  have r: "path_relative_to ?p dir = Some (path_text ([], race_log))"
    by (rule path_join_relative [OF assms race_log_clean])
  have root: "fst (posix_path dir) = ''/'' \<or> fst (posix_path dir) = ''//''" using assms posix_root [of dir] by blast
  have "\<forall>q \<in> set (snd (posix_path dir) @ race_log). q \<noteq> [] \<and> q \<noteq> ''.'' \<and> CHR ''/'' \<notin> set q"
    using race_log_clean clean_parts [of _ dir] by auto
  from path_text_rooted [OF root this] have "snd (posix_path ?p) = snd (posix_path dir) @ race_log"
    by (simp add: path_join_def Let_def path_text_relative [OF race_log_clean])
  then have "last (snd (posix_path ?p)) = ''race.log''" by (simp add: race_log_def)
  moreover have "race_report_path dispatch_host () (simulator_context dir ev) = Inr ?p"
    using r race_log(2)
    by (simp add: race_report_path_def artifact_path_def simulator_context_def expected_aot_adapter_def hip_profile_def
        simulator_lookups resolved_def dispatch_host_def race_log(1) Let_def)
  ultimately show ?thesis by blast
qed

lemma env_with_distinct: "distinct (map fst a) \<Longrightarrow> distinct (map fst (env_with a kvs))"
  unfolding env_with_def
  by (induction kvs arbitrary: a) (auto simp: AList.distinct_update)

lemma simulator_build:
  assumes "fst (posix_path dir) \<noteq> []"
  shows "\<exists>i. rocjitsu_build dispatch_host (simulator_context dir ev) () = (Inr i, ()) \<and> ti_tool i = ''rocjitsu''"
proof -
  let ?cx = "simulator_context dir ev"
  obtain path where p: "race_report_path dispatch_host () ?cx = Inr path" "last (snd (posix_path path)) = ''race.log''"
    using simulator_report_path [OF assms] by blast
  have b: "required_sidecar_path ?cx ''rocjitsu_binary'' = Inr ''/r''" "required_sidecar_path ?cx ''config_path'' = Inr ''/c''"
    by (simp_all add: required_sidecar_path_def sidecar_path_def simulator_context_def simulator_lookups) code_simp+
  have c: "rocjitsu_command dispatch_host () ?cx ''/r'' ''/c''
      = Inr ([''/r'', ''--config'', ''/c'', ''--'', ''run''], [(PStr ''expected_kernel'', PNone)])"
    by (simp add: rocjitsu_command_def simulator_context_def expected_aot_adapter_def hip_profile_def simulator_lookups
        command_tuple_def)
  show ?thesis
    by (simp add: rocjitsu_build_def b p c)
      (simp add: dispatch_host_def invocation_of_def mk_tool_invocation_def builtin_names simulator_context_def
        simulator_lookups string_tuple_def str_items_env [OF env_with_distinct] dict_or_empty_def)
qed

lemma simulator_parse:
  assumes "fst (posix_path dir) \<noteq> []"
  shows "\<exists>y. rocjitsu_parse dispatch_host () (simulator_context dir ev) asan_record = Inr y
    \<and> rr_tool y = ''rocjitsu'' \<and> rr_finding y = CLEAN \<and> rr_execution y = COMPLETED \<and> rr_record y = Some asan_record"
proof -
  let ?cx = "simulator_context dir ev"
  obtain path where p: "race_report_path dispatch_host () ?cx = Inr path" using simulator_report_path [OF assms] by blast
  have rep: "race_report dispatch_host () path = dispatch_log" by (simp add: race_report_def file_at_def dispatch_host_def)
  have n: "native_attested ?cx dispatch_log"
    by (simp add: native_attested_def simulator_context_def simulator_lookups) code_simp
  have pr: "parse_rocjitsu (er_stdout asan_record) (er_stderr asan_record) (er_returncode asan_record) True dispatch_log
      (er_timed_out asan_record) = Inr (parsed_as Pass ''rocjitsu_clean'' [] True)"
    by code_simp
  have "expected_aot_adapter ?cx = None"
    by (simp add: expected_aot_adapter_def simulator_context_def hip_profile_def)
  then have "rocjitsu_parse dispatch_host () ?cx asan_record
      = parsed_to_run_result ''rocjitsu'' (parsed_as Pass ''rocjitsu_clean'' [] True) asan_record
          (artifacts_at dispatch_host () [path]) []"
    by (simp add: rocjitsu_parse_def p rep rocjitsu_result_def n pr)
  then show ?thesis
    by (simp add: parsed_to_run_result_def parsed_as_def asan_record_def status_pair_def mk_tool_run_result_def
        builtin_names checked_result_def findings_agree_def string_tuple_def dict_or_empty_def)
qed

definition simulator_capability :: tool_capability where
  "simulator_capability =
     \<lparr>tc_tool = ''rocjitsu'', tc_engine = ready_check [(PStr ''isa'', PStr ''hip'')],
      tc_adapter = ready_check [(PStr ''adapter'', PStr ''hip_native'')], tc_runtime = ready_check simulator_evidence,
      tc_effective = ready_check []\<rparr>"

lemma simulator_ready: "capability_ready simulator_capability"
  by (simp add: capability_ready_def simulator_capability_def ready_check_def)

lemma simulator_assess:
  "rocjitsu_assess dispatch_host () (simulator_context dir ev) (ready_check simulator_evidence) = Inr simulator_capability"
proof -
  let ?cx = "simulator_context dir ev"
  have e: "rocjitsu_engine ?cx = ready_check [(PStr ''isa'', PStr ''hip'')]"
    by (simp add: rocjitsu_engine_def simulator_context_def hip_profile_def unknown_profile_def framework_in_def
        native_hip_def is_hip_def) code_simp
  have a: "rocjitsu_adapter dispatch_host () ?cx = Inr (ready_check [(PStr ''adapter'', PStr ''hip_native'')])"
    by (simp add: rocjitsu_adapter_def simulator_context_def hip_profile_def unknown_profile_def native_hip_def is_hip_def
        simulator_lookups)
  have c: "dget simulator_evidence ''config_path'' \<noteq> PNone" by code_simp
  show ?thesis
    by (simp add: rocjitsu_assess_def e a c ready_check_def mk_capability_def mk_tool_capability_def builtin_names)
      (simp add: simulator_capability_def ready_check_def, code_simp)
qed

lemma simulator_plugin:
  "get_plugin (in_registry simulator_input) ''rocjitsu''
     = Inr (plugin_of ''rocjitsu'' ''3'' (rocjitsu_assess dispatch_host) (rocjitsu_build dispatch_host) (rocjitsu_parse dispatch_host))"
  by (simp add: get_plugin_def normalize_tool_name_def builtin_names simulator_input_def builtin_plugins_def plugin_of_def)

lemma simulator_versions:
  "plugin_versions pg_version (in_registry simulator_input) (enabled_tools simulator_config) = Inr [(''rocjitsu'', ''3'')]"
  using simulator_plugin
  by (simp add: plugin_versions_def enabled_tools_def simulator_config_def normalize_tool_name_def builtin_names plugin_of_def)

lemma simulator_plan:
  "\<exists>plan. build_plan (in_registry simulator_input) simulator_config (in_profile simulator_input) no_evidence = Inr plan"
  by (simp add: build_plan_def simulator_versions)
     (simp add: build_evaluation_plan_def simulator_config_def plan_tool_def mk_tool_plan_def builtin_names
       dict_or_empty_def mk_evaluation_plan_def)

lemma simulator_tools:
  assumes "build_plan (in_registry simulator_input) simulator_config (in_profile simulator_input) no_evidence = Inr plan"
  shows "\<exists>p. ev_tools plan = [p] \<and> pl_tool p = ''rocjitsu'' \<and> pl_options p = launcher_options \<and> pl_runtime_ref p = PNone"
  using assms
  by (simp add: build_plan_def simulator_versions)
     (auto simp: build_evaluation_plan_def simulator_config_def plan_tool_def mk_tool_plan_def builtin_names
       dict_or_empty_def mk_evaluation_plan_def launcher_nonempty text_or_def)

lemma simulator_context:
  assumes "pl_tool p = ''rocjitsu''" "pl_options p = launcher_options" "pl_runtime_ref p = PNone"
  shows "\<exists>dir. fst (posix_path dir) \<noteq> []
    \<and> (context_of simulator_input plan n p)\<lparr>tx_options := dmerge (pl_options p) simulator_evidence\<rparr>
        = simulator_context dir (ev_source_evidence plan)"
proof -
  have d: "dmerge launcher_options simulator_evidence = launcher_options @ simulator_evidence" by code_simp
  have a: "absolute_path ''/'' ''/w'' = ''/w''" "fst (posix_path ''/w'') \<noteq> []" by code_simp+
  let ?dir = "artifact_dir_of simulator_input plan n ''rocjitsu''"
  have "fst (posix_path ?dir) \<noteq> []"
    unfolding artifact_dir_of_def artifact_root_of_def
    by (intro path_join_rooted) (simp add: simulator_input_def a has_text_def path_join_rooted)
  moreover have "(context_of simulator_input plan n p)\<lparr>tx_options := dmerge (pl_options p) simulator_evidence\<rparr>
        = simulator_context ?dir (ev_source_evidence plan)"
    using assms by (simp add: context_of_def simulator_context_def d a simulator_input_def)
  ultimately show ?thesis by blast
qed

lemma simulator_evaluation:
  assumes "pl_tool p = ''rocjitsu''" "pl_options p = launcher_options" "pl_runtime_ref p = PNone"
  shows "\<exists>r. evaluate_tool simulator_input plan n p () = (Inr \<lparr>te_capability = simulator_capability, te_result = Some r\<rparr>, ())
    \<and> rr_execution r = COMPLETED \<and> rr_finding r = CLEAN"
proof -
  obtain dir where dir: "fst (posix_path dir) \<noteq> []"
      "(context_of simulator_input plan n p)\<lparr>tx_options := dmerge (pl_options p) simulator_evidence\<rparr>
        = simulator_context dir (ev_source_evidence plan)"
    using simulator_context [OF assms] by blast
  let ?cx = "simulator_context dir (ev_source_evidence plan)"
  let ?g = "plugin_of ''rocjitsu'' ''3'' (rocjitsu_assess dispatch_host) (rocjitsu_build dispatch_host) (rocjitsu_parse dispatch_host)"
  obtain i where i: "rocjitsu_build dispatch_host ?cx () = (Inr i, ())" "ti_tool i = ''rocjitsu''"
    using simulator_build [OF dir(1)] by blast
  obtain y where y: "rocjitsu_parse dispatch_host () ?cx asan_record = Inr y" "rr_tool y = ''rocjitsu''" "rr_finding y = CLEAN"
      "rr_execution y = COMPLETED" "rr_record y = Some asan_record"
    using simulator_parse [OF dir(1)] by blast
  have o: "runtime_options ''rocjitsu'' (ready_check simulator_evidence) = simulator_evidence" by code_simp
  have t: "truncated_streams asan_record = []" by code_simp
  have run: "run_tool ?g simulator_runtime p ?cx () = (Inr y, ())"
    using i y t assms(1)
    by (simp add: run_tool_def plugin_of_def called_outcome_def built_def simulator_runtime_def parsed_result_def
        fail_closed_on_truncated_output_def)
  have rt: "in_runtime simulator_input = simulator_runtime" by (simp add: simulator_input_def)
  have mk: "in_mkdir simulator_input d v = (Inr (), v)" for d v by (simp add: simulator_input_def)
  have pr: "rt_probe simulator_runtime tool cx w = (Returned (ready_check simulator_evidence), w)" for tool cx w
    by (simp add: simulator_runtime_def)
  have c: "assessed ''rocjitsu'' (ready_check simulator_evidence) (Returned simulator_capability) = simulator_capability"
    by (simp add: assessed_def simulator_capability_def)
  have g: "pg_assess ?g ?cx (ready_check simulator_evidence) () = (Returned simulator_capability, ())"
    by (simp add: plugin_of_def called_outcome_def simulator_assess)
  have "tx_options (context_of simulator_input plan n p) = pl_options p" by (simp add: context_of_def)
  then have "evaluate_tool simulator_input plan n p () = (map_error PlanError (mk_tool_evaluation simulator_capability (Some y)), ())"
    using simulator_plugin assms(1) dir(2) o
    by (simp add: evaluate_tool_def rt mk pr probed_def c g run simulator_ready)
  moreover have "mk_tool_evaluation simulator_capability (Some y) = Inr \<lparr>te_capability = simulator_capability, te_result = Some y\<rparr>"
    using y(2) simulator_ready by (simp add: mk_tool_evaluation_def simulator_capability_def)
  ultimately show ?thesis using y by auto
qed

lemma simulator_report:
  "\<exists>rep r. fst (evaluate simulator_input simulator_config no_evidence ()) = Inr rep
     \<and> rp_evaluations rep = [\<lparr>te_capability = simulator_capability, te_result = Some r\<rparr>] \<and> pd_allowed (rp_decision rep)"
proof -
  obtain plan where b: "build_plan (in_registry simulator_input) simulator_config (in_profile simulator_input) no_evidence = Inr plan"
    using simulator_plan by blast
  from simulator_tools [OF b] obtain p where p: "ev_tools plan = [p]" "pl_tool p = ''rocjitsu''"
      "pl_options p = launcher_options" "pl_runtime_ref p = PNone" by blast
  from simulator_evaluation [OF p(2-4)] obtain r where r:
      "evaluate_tool simulator_input plan 0 p () = (Inr \<lparr>te_capability = simulator_capability, te_result = Some r\<rparr>, ())"
      "rr_execution r = COMPLETED" "rr_finding r = CLEAN" by blast
  have "tc_tool simulator_capability = ''rocjitsu''" "tc_effective simulator_capability = ready_check []"
    by (simp_all add: simulator_capability_def)
  then show ?thesis using r p(1,2)
    by (simp add: evaluate_def b mk_evaluation_report_def policy_allowed acceptable_def simulator_ready ready_check_def)
qed

lemma required_builtin_tools_genuine_witness:
  "\<exists>x cx. truncated_streams x = [] \<and> genuine_run dispatch_host simulator_input ''rocjitsu'' cx x"
proof -
  obtain rep r where r: "fst (evaluate simulator_input simulator_config no_evidence ()) = Inr rep"
      "rp_evaluations rep = [\<lparr>te_capability = simulator_capability, te_result = Some r\<rparr>]" "pd_allowed (rp_decision rep)"
    using simulator_report by blast
  have "register_builtin_plugins dispatch_host [] False = Inr (in_registry simulator_input)"
    by (simp add: builtin_registry simulator_input_def)
  moreover have "ec_policy simulator_config = REQUIRED" by (simp add: simulator_config_def)
  moreover have "cc_state (tc_effective simulator_capability) \<noteq> NOT_APPLICABLE"
    by (simp add: simulator_capability_def ready_check_def)
  ultimately show ?thesis
    using required_builtin_tools_genuine [OF _ r(1) _ r(3)] r(2) by (fastforce simp: simulator_capability_def)
qed

section \<open>Replay capsules\<close>

text \<open>The bytes of an argument of kind \<open>bytes\<close>.\<close>

definition payload :: "abi_argument \<Rightarrow> nat list option" where
  "payload x = Option.bind (ab_bytes_hex x) from_hex"

lemma hex_not_blank: "hex_value c = Some k \<Longrightarrow> \<not> ascii_space c"
  by (auto simp: hex_value_def ascii_space_def Let_def split: if_splits)

lemma from_hex_blanks: "from_hex h = Some bs \<Longrightarrow> 2 * length bs + length (filter ascii_space h) = length h"
proof (induction h arbitrary: bs rule: from_hex.induct)
  case (2 c s)
  then show ?case by (auto split: if_splits list.splits option.splits dest: hex_not_blank)
qed simp

lemma payload_fits:
  assumes "argument_valid x" "ab_kind x = ''bytes''"
  shows "\<exists>bs. payload x = Some bs \<and> int (length bs) \<le> ab_size x"
proof -
  from assms obtain h bs where h: "ab_bytes_hex x = Some h" "int (length h) = ab_size x * 2" "from_hex h = Some bs"
    by (auto simp: argument_valid_def bytes_ok_def split: option.splits)
  from from_hex_blanks [OF h(3)] h(2) have "int (length bs) \<le> ab_size x" by linarith
  with h show ?thesis by (simp add: payload_def)
qed

text \<open>
  C35.  Every access an accepted capsule describes is inside its allocation: each element of each view, the
  pointer and the payload of each argument, and each relocation with its eight bytes and its target.  No argument has two
  views, and a view is of the allocation its argument points to.
\<close>

theorem capsule_accesses_in_bounds:
  assumes "capsule_from_dict raw = Inr c"
  shows "distinct (map vw_arg_index (rc_views c))
    \<and> (\<forall>v \<in> set (rc_views c). \<exists>a x width. map_of (allocation_table c) (vw_allocation_id v) = Some a
         \<and> 0 \<le> vw_arg_index v \<and> vw_arg_index v < int (length (rc_abi c)) \<and> x = rc_abi c ! nat (vw_arg_index v)
         \<and> ab_kind x = ''pointer'' \<and> ab_ref x = Some (vw_allocation_id v) \<and> map_of dtype_bytes (vw_dtype v) = Some width
         \<and> (\<forall>idx. list_all2 (\<lambda>i d. 0 \<le> i \<and> i < d) idx (vw_shape v)
              \<longrightarrow> 0 \<le> element_offset v width idx \<and> element_offset v width idx + width \<le> al_byte_size a))
    \<and> (\<forall>x \<in> set (rc_abi c). ab_kind x = ''pointer'' \<longrightarrow>
         (\<exists>k a. ab_ref x = Some k \<and> map_of (allocation_table c) k = Some a
            \<and> 0 \<le> ab_byte_offset x \<and> ab_byte_offset x < al_byte_size a))
    \<and> (\<forall>x \<in> set (rc_abi c). ab_kind x = ''bytes'' \<longrightarrow> (\<exists>bs. payload x = Some bs \<and> int (length bs) \<le> ab_size x))
    \<and> (\<forall>r \<in> set (rc_relocations c). \<exists>source target. map_of (allocation_table c) (rl_allocation_id r) = Some source
         \<and> map_of (allocation_table c) (rl_target_id r) = Some target
         \<and> 0 \<le> rl_byte_offset r \<and> rl_byte_offset r + 8 \<le> al_byte_size source
         \<and> 0 \<le> rl_target_offset r \<and> rl_target_offset r < al_byte_size target)"
proof -
  from assms obtain u where "validate_capsule c = Inr u"
    by (auto simp: capsule_from_dict_def rbind_eq_Inr)
  note valid = validate_capsule_facts [OF this]
  from valid(6) obtain seen where "foldR (view_step c) [] (rc_views c) = Inr seen" by blast
  note views = view_steps [OF this]
  have "\<exists>k a. ab_ref x = Some k \<and> map_of (allocation_table c) k = Some a
      \<and> 0 \<le> ab_byte_offset x \<and> ab_byte_offset x < al_byte_size a"
    if "x \<in> set (rc_abi c)" "ab_kind x = ''pointer''" for x
    using valid(2,4) that by (auto simp: list_all_iff argument_valid_def argument_refs_ok_def bind_eq_Some_conv split: option.splits)
  moreover have "\<exists>source target. map_of (allocation_table c) (rl_allocation_id r) = Some source
         \<and> map_of (allocation_table c) (rl_target_id r) = Some target
         \<and> 0 \<le> rl_byte_offset r \<and> rl_byte_offset r + 8 \<le> al_byte_size source
         \<and> 0 \<le> rl_target_offset r \<and> rl_target_offset r < al_byte_size target" if "r \<in> set (rc_relocations c)" for r
    using valid(7) that by (auto simp: list_all_iff elim!: relocation_bounds)
  moreover have "\<exists>width. map_of dtype_bytes (vw_dtype v) = Some width
         \<and> (\<forall>idx. list_all2 (\<lambda>i d. 0 \<le> i \<and> i < d) idx (vw_shape v)
              \<longrightarrow> 0 \<le> element_offset v width idx \<and> element_offset v width idx + width \<le> al_byte_size a)"
    if "view_valid v a" for v a
  proof -
    from that obtain width where "map_of dtype_bytes (vw_dtype v) = Some width"
      by (auto simp: view_valid_def split: option.splits)
    then show ?thesis using view_valid_bounds [OF that] by blast
  qed
  moreover have "\<exists>bs. payload x = Some bs \<and> int (length bs) \<le> ab_size x"
    if "x \<in> set (rc_abi c)" "ab_kind x = ''bytes''" for x
    using valid(2) that payload_fits by (auto simp: list_all_iff)
  ultimately show ?thesis using views by fastforce
qed

definition some_digest :: pyval where
  "some_digest = PStr ''0123456789abcdef0123456789abcdef0123456789abcdef0123456789abcdef''"

text \<open>A kernel of two arguments: a matrix of two by three floats, and three bytes given as the text \<open>h\<close>.\<close>

definition small_capsule :: "string \<Rightarrow> pyval" where
  "small_capsule h = PDict
     [(PStr ''schema_version'', PInt 1),
      (PStr ''producer'', PDict [(PStr ''adapter'', PStr ''triton_aot''), (PStr ''adapter_version'', PStr ''1''),
         (PStr ''framework_version'', PStr ''3''), (PStr ''image_digest'', PStr ''d''), (PStr ''rocm_version'', PStr ''7'')]),
      (PStr ''target'', PDict [(PStr ''gpu_arch'', PStr ''gfx950''), (PStr ''code_object_version'', PInt 5)]),
      (PStr ''case'', PDict [(PStr ''task_id'', PStr ''t''), (PStr ''case_id'', PStr ''c''), (PStr ''candidate_scope'', PStr ''s'')]),
      (PStr ''code_object'', PDict [(PStr ''path'', PStr ''k.hsaco''), (PStr ''sha256'', some_digest),
         (PStr ''kernel_name'', PStr ''k'')]),
      (PStr ''launch'', PDict [(PStr ''grid'', PList [PInt 1, PInt 1, PInt 1]), (PStr ''block'', PList [PInt 64, PInt 1, PInt 1])]),
      (PStr ''abi'', PList
         [PDict [(PStr ''index'', PInt 0), (PStr ''name'', PStr ''p''), (PStr ''kind'', PStr ''pointer''),
            (PStr ''size'', PInt 8), (PStr ''ref'', PStr ''m'')],
          PDict [(PStr ''index'', PInt 1), (PStr ''name'', PStr ''b''), (PStr ''kind'', PStr ''bytes''),
            (PStr ''size'', PInt 3), (PStr ''bytes_hex'', PStr h)]]),
      (PStr ''allocations'', PList
         [PDict [(PStr ''id'', PStr ''m''), (PStr ''byte_size'', PInt 24), (PStr ''before_blob'', PStr ''m.in''),
            (PStr ''before_sha256'', some_digest), (PStr ''expected_blob'', PStr ''m.out''),
            (PStr ''expected_sha256'', some_digest)]]),
      (PStr ''views'', PList
         [PDict [(PStr ''arg_index'', PInt 0), (PStr ''allocation_id'', PStr ''m''), (PStr ''dtype'', PStr ''float32''),
            (PStr ''shape'', PList [PInt 2, PInt 3]), (PStr ''stride'', PList [PInt 3, PInt 1])]])]"

definition small_view :: view_spec where
  "small_view =
     \<lparr>vw_arg_index = 0, vw_allocation_id = ''m'', vw_byte_offset = 0, vw_dtype = ''float32'', vw_shape = [2, 3],
      vw_stride = [3, 1]\<rparr>"

definition reads_as :: "pyval \<Rightarrow> (capsule \<Rightarrow> bool) \<Rightarrow> bool" where
  "reads_as raw P = (case capsule_from_dict raw of Inr c \<Rightarrow> P c | Inl _ \<Rightarrow> False)"

lemma reads_as: "reads_as raw P \<Longrightarrow> \<exists>c. capsule_from_dict raw = Inr c \<and> P c"
  by (auto simp: reads_as_def split: sum.splits)

lemma small_capsule_read:
  "reads_as (small_capsule ''0a0b0c'') (\<lambda>c. rc_views c = [small_view] \<and> ab_kind (rc_abi c ! 0) = ''pointer''
     \<and> map al_byte_size (rc_allocations c) = [24])"
  by code_simp

lemma capsule_accesses_in_bounds_witness:
  "\<exists>c a. capsule_from_dict (small_capsule ''0a0b0c'') = Inr c \<and> map_of (allocation_table c) ''m'' = Some a
     \<and> element_offset small_view 4 [1, 2] = 20 \<and> element_offset small_view 4 [1, 2] + 4 \<le> al_byte_size a"
proof -
  obtain c where c: "capsule_from_dict (small_capsule ''0a0b0c'') = Inr c" "rc_views c = [small_view]"
    using reads_as [OF small_capsule_read] by blast
  have "map_of dtype_bytes ''float32'' = Some 4" by code_simp
  with conjunct1 [OF conjunct2 [OF capsule_accesses_in_bounds [OF c(1)]]] c(2) obtain a where
      "map_of (allocation_table c) ''m'' = Some a" and
      a: "\<forall>idx. list_all2 (\<lambda>i d. 0 \<le> i \<and> i < d) idx [2, 3]
        \<longrightarrow> 0 \<le> element_offset small_view 4 idx \<and> element_offset small_view 4 idx + 4 \<le> al_byte_size a"
    by (fastforce simp: small_view_def)
  moreover have "element_offset small_view 4 [1, 2] = 20" by code_simp
  ultimately show ?thesis using c(1) spec [OF a, of "[1, 2]"] by auto
qed

text \<open>
  C36.  A capsule is written as a dictionary that reads back as the same capsule.\<close>

theorem capsule_round_trip:
  assumes "capsule_from_dict raw = Inr c"
  shows "capsule_from_dict (capsule_to_dict c) = Inr c"
proof -
  from assms obtain d u where c: "build_capsule d = Inr c" "validate_capsule c = Inr u"
    by (auto simp: capsule_from_dict_def rbind_eq_Inr)
  obtain e where "require_mapping (capsule_to_dict c) ''capsule'' = Inr e"
    by (auto simp: require_mapping_def capsule_to_dict_def)
  with capsule_back [OF c(1) this] c(2) show ?thesis by (simp add: capsule_from_dict_def)
qed

lemma capsule_round_trip_witness:
  "\<exists>c. capsule_from_dict (capsule_to_dict c) = Inr c \<and> rc_views c = [small_view]"
  using reads_as [OF small_capsule_read] capsule_round_trip [of "small_capsule ''0a0b0c''"] by blast

text \<open>
  C39.  The payload of a byte argument of an accepted capsule is shorter than the argument by half the number
  of blanks in its text: the length that is checked is that of the text, and the decoding skips blanks.
\<close>

theorem payload_short_by_blanks:
  assumes "capsule_from_dict raw = Inr c" "x \<in> set (rc_abi c)" "ab_kind x = ''bytes''"
  shows "\<exists>h bs. ab_bytes_hex x = Some h \<and> payload x = Some bs
    \<and> 2 * (ab_size x - int (length bs)) = int (length (filter ascii_space h))"
proof -
  from assms(1) obtain u where "validate_capsule c = Inr u" by (auto simp: capsule_from_dict_def rbind_eq_Inr)
  from validate_capsule_facts(2) [OF this] assms(2) have "argument_valid x" by (simp add: list_all_iff)
  with assms(3) obtain h bs where h: "ab_bytes_hex x = Some h" "int (length h) = ab_size x * 2" "from_hex h = Some bs"
    by (auto simp: argument_valid_def bytes_ok_def split: option.splits)
  from arg_cong [of _ _ int, OF from_hex_blanks [OF h(3)]] h(2)
  have "2 * (ab_size x - int (length bs)) = int (length (filter ascii_space h))" by simp
  with h show ?thesis by (simp add: payload_def)
qed

lemma payload_short_by_blanks_witness:
  "\<exists>c x bs. capsule_from_dict (small_capsule ''ab  cd'') = Inr c \<and> x \<in> set (rc_abi c) \<and> ab_size x = 3
     \<and> payload x = Some bs \<and> length bs = 2"
proof -
  have "reads_as (small_capsule ''ab  cd'') (\<lambda>c. length (rc_abi c) = 2 \<and> ab_kind (rc_abi c ! 1) = ''bytes''
      \<and> ab_size (rc_abi c ! 1) = 3 \<and> ab_bytes_hex (rc_abi c ! 1) = Some ''ab  cd'')"
    by code_simp
  from reads_as [OF this] obtain c where c: "capsule_from_dict (small_capsule ''ab  cd'') = Inr c" "rc_abi c ! 1 \<in> set (rc_abi c)"
      "ab_kind (rc_abi c ! 1) = ''bytes''" "ab_size (rc_abi c ! 1) = 3" "ab_bytes_hex (rc_abi c ! 1) = Some ''ab  cd''"
    by (metis nth_mem one_less_numeral_iff semiring_norm(76))
  have "length (filter ascii_space ''ab  cd'') = 2" by code_simp
  with payload_short_by_blanks [OF c(1-3)] c(4,5) obtain bs where "payload (rc_abi c ! 1) = Some bs" "length bs = 2" by auto
  with c show ?thesis by blast
qed

end
