(* ===== verification/Spec2Isabelle.thy ===== *)
theory Spec2Isabelle
  imports Score CaseMatching TaskProtocolFacts ParallelQueueProps EvalProps TaskSessionProps EvaluatorProps GuardedEvaluation
    BuiltinToolProps
begin

text \<open>
  AgentKernelArena lets coding agents optimize GPU kernels and scores what they return.  This library
  models the framework that decides a score: what a task may declare, which evidence its commands may
  give, how a session validates the task and runs the candidate, which tools must be clean before
  anything is timed, how times become a speedup and a speedup a score, and how the tasks of a run are
  shared out to worker processes.  Paths are those below \<open>src/\<close>.

  \<^bold>\<open>The parts and how they interact.\<close>  \<open>main.py\<close> resolves the run and hands its tasks to workers through
  a queue of files.  A worker reads the declaration (\<open>src/task_spec.py\<close>) and creates a session
  (\<open>src/task_session.py\<close>), which freezes the baseline, validates the task once, and then executes
  candidate actions as processes (\<open>src/task_execution.py\<close>) whose printed reports are evidence under
  \<open>src/task_protocol.py\<close>.  The evaluator (\<open>src/evaluator.py\<close>) drives the session through compile,
  correctness, the evaluation tools (\<open>src/eval_tools\<close>) and performance, compares the times case by
  case (\<open>src/testcases.py\<close>) and saves a result that \<open>src/score.py\<close> scores.

  \<^bold>\<open>Foundations.\<close>
  \<^item> \<open>Prelude\<close>: results \<open>'e + 'a\<close> with their binds (\<open>rbind\<close>, and \<open>sbind\<close> which also threads a state),
    traversals, string functions, and the collections of rewrite rules the component proofs use.
  \<^item> \<open>Binary64\<close>: Python floats as exact rationals rounded to nearest even at 53 bits, with infinities,
    NaN and the signed zero; the locale \<open>rounding\<close> holds what the scoring proofs use of rounding and is
    interpreted on \<open>round64\<close>.  Overflow of an \<open>int\<close> that becomes a \<open>float\<close> is an error value.
  \<^item> \<open>PyValue\<close>, \<open>PyBuiltins\<close>, \<open>Digits\<close>: JSON-like values with insertion-ordered dictionaries (locale
    \<open>str_dict\<close>), \<open>==\<close> and truth, \<open>float()\<close>, \<open>int()\<close>, \<open>str()\<close> and \<open>repr()\<close>.  Strings are lists of code
    points below 256.
  \<^item> \<open>Sha256\<close>: the digest of plan fingerprints, on 32-bit words that wrap.
  \<^item> \<open>StepSystem\<close>: reachability, invariants and termination measures of step relations, as the locales
    \<open>invariant_system\<close> and \<open>terminating_system\<close>.

  \<^bold>\<open>Components.\<close>
  \<^item> \<open>Score\<close> (\<open>src/score.py\<close>): \<open>resolve_speedup_ratio\<close>, \<open>score\<close>, \<open>task_result_scoring\<close>; the three tiers,
    what points beyond 120 require, and monotonicity in the speedup.
  \<^item> \<open>CaseParsing\<close>, \<open>CaseMatching\<close> (\<open>src/testcases.py\<close>): reports into cases, saved cases, the
    one-to-one matching by identifier, parameters and shape, the workload and method gates, and the
    average speedup; a time is the integer or float that was reported (\<open>case_time\<close>), and integers are
    divided with one rounding; matching is one-to-one, a nonzero average passed every gate, and both analyses agree.
  \<^item> \<open>TaskSpec\<close>, \<open>TaskSpecFacts\<close> (\<open>src/task_spec.py\<close>): the declaration and every checker; edit scopes
    are disjoint and contain neither \<open>config.yaml\<close> nor the README, instructions or workloads, all seven actions resolve, and \<open>to_mapping\<close> reads back.
  \<^item> \<open>Json\<close>, \<open>TaskProtocol\<close>, \<open>TaskProtocolFacts\<close> (\<open>src/task_protocol.py\<close>): the decoder with the report's
    hooks, report checks, manifest, merge, the baseline exception and scoring cases.  The decoder recurses
    on a fuel of twice the length of the text plus one, and lemma \<open>json_fuel\<close> shows that more changes
    nothing.  Python's limit on nested texts, which the code turns into a refusal, is not modelled.
  \<^item> \<open>TaskExecution\<close>, \<open>TaskExecutionFacts\<close> (\<open>src/task_execution.py\<close>): one action as processes under one
    deadline.  Clock, identifiers, environment and processes are functions of the record \<open>host\<close> on an
    arbitrary world \<open>'w\<close>; nothing is assumed of them.
  \<^item> \<open>CandidateFiles\<close> and \<open>TaskSession\<close> with \<open>TaskSessionFacts\<close>, \<open>TaskSessionReplay\<close>,
    \<open>TaskSessionProps\<close> (\<open>src/task_session.py\<close>, stub detection of \<open>src/evaluator_utils.py\<close>): creation,
    validation, candidate attempts, the written records and their replay.  The record \<open>session\<close> is the
    object's attributes with the files of its state directory; \<open>history\<close> is any sequence of candidate
    actions and outside edits.  A timing follows the checks of the same sources, an accepted session
    survives a reload, what is loaded is supported by its records, and a session whose task named no
    performance case cannot be loaded at all.  Record numbers have four digits,
    which is why the reload theorem bounds a session to 9999 actions.
  \<^item> \<open>ParallelQueue\<close>, \<open>ParallelQueueFacts\<close>, \<open>ParallelQueueProps\<close> (\<open>main.py\<close>, \<open>src/preprocessing.py\<close>): run
    names and resumption, filters, and the queue of descriptor files with workers as a step relation in
    which any worker may move at any time; renames are atomic.  Tasks are conserved, claims are exclusive,
    runs terminate, the final verdict is right, and it is known exactly which tasks share a workspace.  It interprets \<open>terminating_system\<close>.
  \<^item> \<open>EvalContracts\<close>, \<open>EvalResults\<close>, \<open>EvalNormal\<close>, \<open>EvalWire\<close> (\<open>src/eval_tools/contracts.py\<close>): the records
    exchanged with tools and their dictionaries; the locale \<open>wire_format\<close> states that reading
    normalizes and writing reads back, and is interpreted for every record, and \<open>string_enum\<close> for every
    enumeration.
  \<^item> \<open>EvalConfig\<close>, \<open>EvalConfigFacts\<close> (\<open>config.py\<close>, \<open>registry.py\<close>), \<open>EvalManager\<close>, \<open>EvalManagerFacts\<close>
    (\<open>manager.py\<close>), \<open>RuntimeClient\<close>, \<open>RuntimeClientFacts\<close> (\<open>runtime_client.py\<close>) and \<open>EvalProps\<close>:
    configuration, plans, running every tool with arbitrary plugins and an arbitrary runtime (functions
    that return a value, a value of another type, raise, or end with an exception that is no
    \<open>Exception\<close>, which \<open>evaluate\<close> lets through), policy and status, and the client of the
    sidecar that provides the runtime; the locale \<open>runtime_contract\<close> is what the manager needs of a
    runtime to fail closed, and is interpreted on the sidecar client.  An evaluation returns a report unless an
    artifact directory cannot be made or such an exception passes (\<open>manager_error\<close>).
  \<^item> \<open>Evaluator\<close>, \<open>EvaluatorFacts\<close>, \<open>EvaluatorRuns\<close>, \<open>EvaluatorProps\<close> (\<open>src/evaluator.py\<close>,
    \<open>src/task_runtime.py\<close>): the pipeline that composes all of the above, the framework that guards it,
    the result file, and runs of evaluations as a step relation that interprets \<open>invariant_system\<close>.
  \<^item> \<open>HarnessGuard\<close>, \<open>HarnessGuardFacts\<close>, \<open>HarnessGuardProps\<close> (\<open>src/harness_guard.py\<close>): the guard of
    declarations of version 2.  A workspace is the list of its files (\<open>guard_file\<close>: contents, or a link
    that leads out of it); a Python file is the tree of its \<open>ast\<close>.  Protected paths, the digest of a file
    without its editable definitions and the policy those must meet, \<open>snapshot_workspace_harness\<close> and
    \<open>verify_workspace_harness\<close>.  What is accepted has the protected contents that were captured, a
    verification changes nothing but what it discards, and whatever is executed with an editable definition
    while its module is imported (\<open>executed_definitions\<close>) calls only what \<open>permitted_call\<close> says, in the
    arguments of its decorators, which are the compiler's.
    Parsing, the digest of a tree and the digest of bytes are arguments; that digests differ for
    different inputs is the named hypothesis \<open>collision_free\<close>.
  \<^item> \<open>ToolText\<close>, \<open>ToolParsers\<close>, \<open>ConsanParser\<close> with \<open>ToolParserFacts\<close> (\<open>src/eval_tools/plugins/parsers.py\<close>):
    the regular expressions as matchers, and what each sanitizer's output says; for every parser, exactly
    which output is a pass.
  \<^item> \<open>ReplayCapsule\<close>, \<open>ReplayCapsuleFacts\<close> (\<open>src/eval_tools/adapters/replay_capsule.py\<close>): reading,
    validating and writing the description of a kernel launch; accesses stay in bounds, what is
    written reads back, and blanks in a byte argument make its payload shorter than its size.
  \<^item> \<open>ToolAttestation\<close>, \<open>ToolPlugins\<close> with \<open>ToolPluginFacts\<close>, and \<open>BuiltinTools\<close>, \<open>BuiltinToolProps\<close>
    (\<open>src/eval_tools/plugins\<close>, \<open>native_code_object.py\<close>, \<open>validate_replay_identity\<close> of
    \<open>rocjitsu_replay.py\<close>): the six built-in plugins as plugins of the manager over the files of the
    record \<open>plugin_host\<close>, with the attestations they demand.  A tool that is clean was really run, and
    under the required policy nothing else lets the performance be measured.
  \<^item> \<open>GuardedEvaluation\<close>: the evaluator with this guard as its harness check; a result counts only
    when, after the measurement, the workspace was verified to have the captured protected files.

  \<^bold>\<open>Arguments of the model.\<close> The world and its functions (processes, clock, directory
  listings, digests, parsed Python modules, the snapshot of files, what a plugin reads, creates and
  decodes from UTF-8), the check of the frozen harness of a session (which
  \<open>GuardedEvaluation\<close> instantiates with the guard), the plugins of the manager (which
  \<open>BuiltinTools\<close> instantiates with the built-in ones) and the runtime of tools, the
  making of artifact directories (\<open>in_mkdir\<close>), the submission evidence, the profile of a task, the identity of the scoring runtime, and the decoding of log
  bytes. Their laws are never assumed: a theorem that needs one states it as a hypothesis and has a
  witness. YAML and JSON files that only this program reads back are the values that were dumped.

  \<^bold>\<open>Not modelled.\<close> The launchers of agents, the prompt text, plots, tables and
  visualization (text for people); workspace copying, helper injection and container scripts (file copying
  around the decision path); the process supervision inside the sidecar image, the producers of replay
  capsules and the C++ launcher generated from one; the texts of decoding and of some validation errors,
  of which only the fixed part is kept; the branch of the evaluator for tasks without a session and its
  scraper of standard output; in the guard, the digests of declarations of the old schema, links that stay
  inside a workspace, and the comparison of a snapshot with the original task directory; the generated
  task packages, which are data to the framework.
\<close>

end
